(* ===== verification/Prelude.thy ===== *)
theory Prelude
  imports Main "HOL-Library.Word"
begin

text \<open>
  Shared vocabulary of the development: machine integers, fallible computations (Rust's
  \<open>Result\<close> and the \<open>?\<close> operator), loops that may return early, C-like enums with
  explicit discriminants, \<open>core::cmp::Ordering\<close> with a stable sort, and native
  (little-endian) byte order.  Nothing here is about one component.
\<close>

section \<open>Machine integers\<close>

type_synonym u8 = "8 word"
type_synonym u32 = "32 word"
type_synonym u64 = "64 word"

text \<open>A signed integer is the same bit pattern, read with \<^const>\<open>sint\<close>.\<close>

type_synonym i64 = "64 word"
type_synonym bytes = "u8 list"

named_theorems res_simps \<open>inversion rules for fallible computations\<close>
named_theorems enum_facts \<open>membership of every variant in the list of variants\<close>

section \<open>Fallible computations\<close>

text \<open>\<open>Result<A, E>\<close> is \<^typ>\<open>'e + 'a\<close>; \<open>res_bind m f\<close> is \<open>let x = m?; f(x)\<close>.\<close>

fun res_bind :: "'e + 'a \<Rightarrow> ('a \<Rightarrow> 'e + 'b) \<Rightarrow> 'e + 'b" where
  "res_bind (Inl e) f = Inl e"
| "res_bind (Inr a) f = f a"

definition ok_or :: "'e \<Rightarrow> 'a option \<Rightarrow> 'e + 'a" where
  "ok_or e x = (case x of None \<Rightarrow> Inl e | Some a \<Rightarrow> Inr a)"

definition is_ok :: "'e + 'a \<Rightarrow> bool" where
  "is_ok r = (case r of Inl _ \<Rightarrow> False | Inr _ \<Rightarrow> True)"

definition map_err :: "('e \<Rightarrow> 'f) \<Rightarrow> 'e + 'a \<Rightarrow> 'f + 'a" where
  "map_err g r = (case r of Inl e \<Rightarrow> Inl (g e) | Inr a \<Rightarrow> Inr a)"

definition map_ok :: "('a \<Rightarrow> 'b) \<Rightarrow> 'e + 'a \<Rightarrow> 'e + 'b" where
  "map_ok f r = (case r of Inl e \<Rightarrow> Inl e | Inr a \<Rightarrow> Inr (f a))"

text \<open>A \<open>for\<close> loop whose body may return an error early.\<close>

fun res_fold :: "('s \<Rightarrow> 'a \<Rightarrow> 'e + 's) \<Rightarrow> 's \<Rightarrow> 'a list \<Rightarrow> 'e + 's" where
  "res_fold f s [] = Inr s"
| "res_fold f s (x # xs) = res_bind (f s x) (\<lambda>s'. res_fold f s' xs)"

text \<open>\<open>iter().map(f).collect::<Result<Vec<_>, _>>()\<close>.\<close>

fun res_collect :: "('a \<Rightarrow> 'e + 'b) \<Rightarrow> 'a list \<Rightarrow> 'e + 'b list" where
  "res_collect f [] = Inr []"
| "res_collect f (x # xs) =
     res_bind (f x) (\<lambda>y. res_bind (res_collect f xs) (\<lambda>ys. Inr (y # ys)))"

lemma res_bind_Inr_iff [res_simps]:
  "res_bind m f = Inr b \<longleftrightarrow> (\<exists>a. m = Inr a \<and> f a = Inr b)"
  by (cases m) auto

lemma res_bind_Inl_iff [res_simps]:
  "res_bind m f = Inl e \<longleftrightarrow> m = Inl e \<or> (\<exists>a. m = Inr a \<and> f a = Inl e)"
  by (cases m) auto

lemma res_bind_assoc: "res_bind (res_bind m f) g = res_bind m (\<lambda>a. res_bind (f a) g)"
  by (cases m) auto

lemma res_bind_Inr_right [simp]: "res_bind m Inr = m"
  by (cases m) auto

lemma ok_or_Inr_iff [res_simps]: "ok_or e x = Inr a \<longleftrightarrow> x = Some a"
  by (auto simp: ok_or_def split: option.splits)

lemma ok_or_Inl_iff [res_simps]: "ok_or e x = Inl e' \<longleftrightarrow> x = None \<and> e = e'"
  by (auto simp: ok_or_def split: option.splits)

lemma ok_or_simps [simp]: "ok_or e None = Inl e" "ok_or e (Some a) = Inr a"
  by (simp_all add: ok_or_def)

lemma is_ok_simps [simp]: "is_ok (Inr a)" "\<not> is_ok (Inl e)"
  by (simp_all add: is_ok_def)

lemma is_ok_iff: "is_ok r \<longleftrightarrow> (\<exists>a. r = Inr a)"
  by (cases r) auto

lemma map_err_simps [simp]: "map_err g (Inl e) = Inl (g e)" "map_err g (Inr a) = Inr a"
  by (simp_all add: map_err_def)

lemma map_err_Inr_iff [res_simps]: "map_err g r = Inr a \<longleftrightarrow> r = Inr a"
  by (cases r) auto

lemma map_ok_simps [simp]: "map_ok f (Inl e) = Inl e" "map_ok f (Inr a) = Inr (f a)"
  by (simp_all add: map_ok_def)

lemma map_ok_Inr_iff [res_simps]: "map_ok f r = Inr b \<longleftrightarrow> (\<exists>a. r = Inr a \<and> b = f a)"
  by (cases r) auto

lemma map_ok_Inl_iff [res_simps]: "map_ok f r = Inl e \<longleftrightarrow> r = Inl e"
  by (cases r) auto

lemma res_fold_append:
  "res_fold f s (xs @ ys) = res_bind (res_fold f s xs) (\<lambda>s'. res_fold f s' ys)"
  by (induction xs arbitrary: s) (simp_all add: res_bind_assoc)

lemma res_fold_invariant:
  assumes "\<And>s x s'. x \<in> set xs \<Longrightarrow> P s \<Longrightarrow> f s x = Inr s' \<Longrightarrow> P s'"
    and "P s" and "res_fold f s xs = Inr t"
  shows "P t"
  using assms
proof (induction xs arbitrary: s)
  case (Cons x xs)
  from Cons.prems(3) obtain s' where s': "f s x = Inr s'" "res_fold f s' xs = Inr t"
    by (auto simp: res_simps)
  moreover have "P s'"
    using Cons.prems(1)[of x s s'] Cons.prems(2) s'(1) by simp
  ultimately show ?case
    using Cons.IH[of s'] Cons.prems(1) by auto
qed simp

lemma res_collect_Inr_iff:
  "res_collect f xs = Inr ys \<longleftrightarrow> list_all2 (\<lambda>x y. f x = Inr y) xs ys"
  by (induction xs arbitrary: ys) (auto simp: res_simps list_all2_Cons1)

lemma res_collect_map:
  assumes "\<And>x. x \<in> set xs \<Longrightarrow> f (g x) = Inr x"
  shows "res_collect f (map g xs) = Inr xs"
  using assms by (induction xs) auto

lemma res_collect_all_ok:
  assumes "\<And>x. x \<in> set xs \<Longrightarrow> f x = Inr (g x)"
  shows "res_collect f xs = Inr (map g xs)"
  using assms by (induction xs) auto

section \<open>C-like enums\<close>

text \<open>
  A \<open>#[repr(i32)]\<close> enum with \<open>derive(N)\<close> has a discriminant for every variant, and
  \<open>Self::n(v)\<close> looks the variant of a discriminant up in declaration order.
\<close>

definition enum_n :: "('a \<Rightarrow> int) \<Rightarrow> 'a list \<Rightarrow> int \<Rightarrow> 'a option" where
  "enum_n disc variants v = List.find (\<lambda>x. disc x = v) variants"

definition fits_i32 :: "int \<Rightarrow> bool" where
  "fits_i32 v \<longleftrightarrow> - (2 ^ 31) \<le> v \<and> v < 2 ^ 31"

locale wire_enum =
  fixes disc :: "'a \<Rightarrow> int"
    and variants :: "'a list"
  assumes complete: "x \<in> set variants"
    and distinct_disc: "distinct (map disc variants)"
    and disc_fits: "fits_i32 (disc x)"
begin

lemma inj_disc: "disc x = disc y \<longleftrightarrow> x = y"
  using distinct_disc complete by (metis distinct_map inj_on_eq_iff)

lemma n_disc [simp]: "enum_n disc variants (disc x) = Some x"
proof -
  have "enum_n disc variants (disc x) \<noteq> None"
    using complete by (auto simp: enum_n_def find_None_iff)
  then obtain y where y: "enum_n disc variants (disc x) = Some y"
    by blast
  then have "disc y = disc x"
    by (auto simp: enum_n_def find_Some_iff)
  with y show ?thesis
    by (simp add: inj_disc)
qed

lemma n_Some_iff: "enum_n disc variants v = Some x \<longleftrightarrow> v = disc x"
proof
  assume "enum_n disc variants v = Some x"
  then show "v = disc x"
    by (auto simp: enum_n_def find_Some_iff)
qed simp

lemma n_None_iff: "enum_n disc variants v = None \<longleftrightarrow> v \<notin> range disc"
  using complete by (auto simp: enum_n_def find_None_iff)

end

lemma wire_enumI:
  assumes "\<And>x. x \<in> set vs" and "distinct (map d vs)" and "list_all (\<lambda>x. fits_i32 (d x)) vs"
  shows "wire_enum d vs"
  using assms by unfold_locales (auto simp: list_all_iff)

section \<open>Ordering and stable sorting\<close>

text \<open>\<open>core::cmp::Ordering\<close>, \<open>Ord::cmp\<close> of a linear order, and \<open>slice::sort_by\<close>.\<close>

datatype ordering = Less | Equal | Greater

definition cmp :: "'a::linorder \<Rightarrow> 'a \<Rightarrow> ordering" where
  "cmp a b = (if a < b then Less else if a = b then Equal else Greater)"

text \<open>\<open>Vec<u8>::cmp\<close>: lexicographic on the elements, a proper prefix being smaller.\<close>

fun cmp_slice :: "'a::linorder list \<Rightarrow> 'a list \<Rightarrow> ordering" where
  "cmp_slice [] [] = Equal"
| "cmp_slice [] (_ # _) = Less"
| "cmp_slice (_ # _) [] = Greater"
| "cmp_slice (x # xs) (y # ys) = (case cmp x y of Equal \<Rightarrow> cmp_slice xs ys | ord \<Rightarrow> ord)"

text \<open>
  \<open>sort_by\<close> is documented as a stable sort; insertion from the right, where an element is
  placed before the first one it does not exceed, is the reference for it.
\<close>

fun insort_by :: "('a \<Rightarrow> 'a \<Rightarrow> ordering) \<Rightarrow> 'a \<Rightarrow> 'a list \<Rightarrow> 'a list" where
  "insort_by c x [] = [x]"
| "insort_by c x (y # ys) = (if c x y = Greater then y # insort_by c x ys else x # y # ys)"

definition sort_by :: "('a \<Rightarrow> 'a \<Rightarrow> ordering) \<Rightarrow> 'a list \<Rightarrow> 'a list" where
  "sort_by c xs = foldr (insort_by c) xs []"

lemma cmp_simps [simp]:
  "cmp a b = Less \<longleftrightarrow> a < b" "cmp a b = Equal \<longleftrightarrow> a = b" "cmp a b = Greater \<longleftrightarrow> b < a"
  by (auto simp: cmp_def)

lemma set_insort_by [simp]: "set (insort_by c x xs) = insert x (set xs)"
  by (induction xs) auto

lemma set_sort_by [simp]: "set (sort_by c xs) = set xs"
  by (induction xs) (auto simp: sort_by_def)

lemma count_insort_by [simp]:
  "count_list (insort_by c x xs) y = count_list (x # xs) y"
  by (induction xs) auto

lemma count_sort_by [simp]: "count_list (sort_by c xs) y = count_list xs y"
  by (induction xs) (auto simp: sort_by_def)

lemma length_insort_by [simp]: "length (insort_by c x xs) = Suc (length xs)"
  by (induction xs) auto

lemma length_sort_by [simp]: "length (sort_by c xs) = length xs"
  by (induction xs) (auto simp: sort_by_def)

lemma sort_by_Nil_iff [simp]: "sort_by c xs = [] \<longleftrightarrow> xs = []"
  using length_sort_by[of c xs] by (metis length_0_conv)

text \<open>What a comparison function must satisfy for the sort to be meaningful.\<close>

locale comparison =
  fixes c :: "'a \<Rightarrow> 'a \<Rightarrow> ordering"
  assumes c_refl: "c x x = Equal"
    and c_flip: "c x y = Greater \<longleftrightarrow> c y x = Less"
    and c_trans: "c x y \<noteq> Greater \<Longrightarrow> c y z \<noteq> Greater \<Longrightarrow> c x z \<noteq> Greater"
begin

definition le_by :: "'a \<Rightarrow> 'a \<Rightarrow> bool" where
  "le_by x y \<longleftrightarrow> c x y \<noteq> Greater"

lemma le_by_total: "le_by x y \<or> le_by y x"
  using c_flip[of x y] c_flip[of y x] by (auto simp: le_by_def)

lemma equal_iff: "c x y = Equal \<longleftrightarrow> le_by x y \<and> le_by y x"
  using c_flip[of x y] c_flip[of y x] by (cases "c x y") (auto simp: le_by_def)

lemma sorted_insort_by: "sorted_wrt le_by xs \<Longrightarrow> sorted_wrt le_by (insort_by c x xs)"
proof (induction xs)
  case (Cons y ys)
  have less: "c x y = Greater \<Longrightarrow> le_by y x"
    using c_flip[of x y] by (simp add: le_by_def)
  from Cons show ?case
    by (auto simp: less) (auto simp: le_by_def dest: c_trans)
qed simp

lemma sorted_sort_by: "sorted_wrt le_by (sort_by c xs)"
  by (induction xs) (auto simp: sort_by_def sorted_insort_by)

lemma insort_by_filter:
  assumes "sorted_wrt le_by xs"
  shows "filter (\<lambda>y. c y z = Equal) (insort_by c x xs)
       = (if c x z = Equal then x # filter (\<lambda>y. c y z = Equal) xs
          else filter (\<lambda>y. c y z = Equal) xs)"
  using assms
proof (induction xs)
  case (Cons y ys)
  have "c x y = Greater \<Longrightarrow> c x z = Equal \<Longrightarrow> c y z \<noteq> Equal"
    using c_trans[of x z y] by (auto simp: equal_iff le_by_def)
  with Cons show ?case by auto
qed simp

text \<open>Elements that compare equal keep their order.\<close>

lemma sort_by_stable:
  "filter (\<lambda>y. c y z = Equal) (sort_by c xs) = filter (\<lambda>y. c y z = Equal) xs"
proof (induction xs)
  case (Cons x xs)
  have "sort_by c (x # xs) = insort_by c x (sort_by c xs)"
    by (simp add: sort_by_def)
  with Cons show ?case
    by (simp add: insort_by_filter sorted_sort_by)
qed (simp add: sort_by_def)

end

lemma comparison_cmp: "comparison cmp"
  by unfold_locales auto

lemma comparison_lex:
  assumes "comparison c1" and "comparison c2"
  shows "comparison (\<lambda>x y. case c1 (f x) (f y) of Equal \<Rightarrow> c2 (g x) (g y) | ord \<Rightarrow> ord)"
proof -
  note r1 = comparison.c_refl[OF assms(1)] and r2 = comparison.c_refl[OF assms(2)]
  note f1 = comparison.c_flip[OF assms(1)] and f2 = comparison.c_flip[OF assms(2)]
  note t1 = comparison.c_trans[OF assms(1)] and t2 = comparison.c_trans[OF assms(2)]
  have eq: "c1 a b = Equal \<longleftrightarrow> c1 a b \<noteq> Greater \<and> c1 b a \<noteq> Greater" for a b
    using f1[of a b] f1[of b a] by (cases "c1 a b") auto
  have eq_sym: "c1 a b = Equal \<Longrightarrow> c1 b a = Equal" for a b
    using eq[of a b] eq[of b a] by blast
  show ?thesis
  proof unfold_locales
    fix x y z
    show "(case c1 (f x) (f x) of Equal \<Rightarrow> c2 (g x) (g x) | ord \<Rightarrow> ord) = Equal"
      by (simp add: r1 r2)
    show "((case c1 (f x) (f y) of Equal \<Rightarrow> c2 (g x) (g y) | ord \<Rightarrow> ord) = Greater)
        = ((case c1 (f y) (f x) of Equal \<Rightarrow> c2 (g y) (g x) | ord \<Rightarrow> ord) = Less)"
      using f1[of "f x" "f y"] f1[of "f y" "f x"] f2[of "g x" "g y"] eq_sym[of "f x" "f y"]
      by (cases "c1 (f x) (f y)"; cases "c1 (f y) (f x)") auto
    assume le: "(case c1 (f x) (f y) of Equal \<Rightarrow> c2 (g x) (g y) | ord \<Rightarrow> ord) \<noteq> Greater"
      "(case c1 (f y) (f z) of Equal \<Rightarrow> c2 (g y) (g z) | ord \<Rightarrow> ord) \<noteq> Greater"
    then have "c1 (f x) (f y) \<noteq> Greater" "c1 (f y) (f z) \<noteq> Greater"
      by (auto split: ordering.splits)
    note xz = t1[OF this] and this
    show "(case c1 (f x) (f z) of Equal \<Rightarrow> c2 (g x) (g z) | ord \<Rightarrow> ord) \<noteq> Greater"
    proof (cases "c1 (f x) (f z) = Equal")
      case True
      then have zx: "c1 (f z) (f x) \<noteq> Greater"
        using eq by blast
      have "c1 (f x) (f y) = Equal" "c1 (f y) (f z) = Equal"
        using zx \<open>c1 (f x) (f y) \<noteq> Greater\<close> \<open>c1 (f y) (f z) \<noteq> Greater\<close> t1 eq by blast+
      with le True t2 show ?thesis by auto
    qed (use xz in \<open>auto split: ordering.splits\<close>)
  qed
qed

lemma comparison_slice: "comparison cmp_slice"
proof unfold_locales
  fix x y z :: "'a list"
  show "cmp_slice x x = Equal"
    by (induction x) (auto split: ordering.splits)
  show "(cmp_slice x y = Greater) = (cmp_slice y x = Less)"
    by (induction x y rule: cmp_slice.induct) (auto split: ordering.splits)
  show "cmp_slice x y \<noteq> Greater \<Longrightarrow> cmp_slice y z \<noteq> Greater \<Longrightarrow> cmp_slice x z \<noteq> Greater"
  proof (induction x y arbitrary: z rule: cmp_slice.induct)
    case (4 x xs y ys)
    then show ?case
      by (cases z) (auto simp: cmp_def split: ordering.splits if_splits)
  qed (auto elim: cmp_slice.elims)
qed

section \<open>Native byte order\<close>

text \<open>
  \<open>to_ne_bytes\<close> and \<open>from_ne_bytes\<close> on the targets of this program (AArch64, ARM and
  x86 Android), which are little-endian.
\<close>

fun nat_le_bytes :: "nat \<Rightarrow> nat \<Rightarrow> bytes" where
  "nat_le_bytes 0 n = []"
| "nat_le_bytes (Suc k) n = of_nat n # nat_le_bytes k (n div 256)"

fun nat_of_le_bytes :: "bytes \<Rightarrow> nat" where
  "nat_of_le_bytes [] = 0"
| "nat_of_le_bytes (b # bs) = unat b + 256 * nat_of_le_bytes bs"

definition u32_to_ne_bytes :: "u32 \<Rightarrow> bytes" where
  "u32_to_ne_bytes w = nat_le_bytes 4 (unat w)"

definition u32_from_ne_bytes :: "bytes \<Rightarrow> u32" where
  "u32_from_ne_bytes bs = of_nat (nat_of_le_bytes bs)"

definition u64_to_ne_bytes :: "u64 \<Rightarrow> bytes" where
  "u64_to_ne_bytes w = nat_le_bytes 8 (unat w)"

definition u64_from_ne_bytes :: "bytes \<Rightarrow> u64" where
  "u64_from_ne_bytes bs = of_nat (nat_of_le_bytes bs)"

lemma length_nat_le_bytes [simp]: "length (nat_le_bytes k n) = k"
  by (induction k arbitrary: n) auto

lemma nat_of_nat_le_bytes: "nat_of_le_bytes (nat_le_bytes k n) = n mod 256 ^ k"
proof (induction k arbitrary: n)
  case (Suc k)
  have "unat (of_nat n :: u8) = n mod 256"
    by (simp add: unat_of_nat)
  with Suc show ?case
    by (simp add: mod_mult2_eq)
qed simp

lemma length_u32_to_ne_bytes [simp]: "length (u32_to_ne_bytes w) = 4"
  by (simp add: u32_to_ne_bytes_def)

lemma length_u64_to_ne_bytes [simp]: "length (u64_to_ne_bytes w) = 8"
  by (simp add: u64_to_ne_bytes_def)

lemma u32_ne_roundtrip [simp]: "u32_from_ne_bytes (u32_to_ne_bytes w) = w"
proof -
  have "unat w mod 256 ^ 4 = unat w"
    using unsigned_less[of w, where ?'a = nat] by simp
  then show ?thesis
    by (simp add: u32_from_ne_bytes_def u32_to_ne_bytes_def nat_of_nat_le_bytes del: mod_less)
qed

lemma u64_ne_roundtrip [simp]: "u64_from_ne_bytes (u64_to_ne_bytes w) = w"
proof -
  have "unat w mod 256 ^ 8 = unat w"
    using unsigned_less[of w, where ?'a = nat] by simp
  then show ?thesis
    by (simp add: u64_from_ne_bytes_def u64_to_ne_bytes_def nat_of_nat_le_bytes del: mod_less)
qed

text \<open>\<open>to_be_bytes\<close>.\<close>

definition u32_to_be_bytes :: "u32 \<Rightarrow> bytes" where
  "u32_to_be_bytes w = rev (u32_to_ne_bytes w)"

definition u64_to_be_bytes :: "u64 \<Rightarrow> bytes" where
  "u64_to_be_bytes w = rev (u64_to_ne_bytes w)"

lemma length_to_be_bytes [simp]:
  "length (u32_to_be_bytes w) = 4" "length (u64_to_be_bytes v) = 8"
  by (simp_all add: u32_to_be_bytes_def u64_to_be_bytes_def)

lemma to_ne_bytes_inject [simp]:
  "u32_to_ne_bytes w = u32_to_ne_bytes w' \<longleftrightarrow> w = w'"
  "u64_to_ne_bytes v = u64_to_ne_bytes v' \<longleftrightarrow> v = v'"
  by (metis u32_ne_roundtrip, metis u64_ne_roundtrip)

lemma to_be_bytes_inject [simp]:
  "u32_to_be_bytes w = u32_to_be_bytes w' \<longleftrightarrow> w = w'"
  "u64_to_be_bytes v = u64_to_be_bytes v' \<longleftrightarrow> v = v'"
  by (simp_all add: u32_to_be_bytes_def u64_to_be_bytes_def)

section \<open>Searching a table\<close>

text \<open>\<open>iter().position(..)\<close>: the index of the first element that satisfies the predicate.\<close>

fun position :: "('a \<Rightarrow> bool) \<Rightarrow> 'a list \<Rightarrow> nat option" where
  "position P [] = None"
| "position P (x # xs) = (if P x then Some 0 else map_option Suc (position P xs))"

lemma position_None_iff: "position P xs = None \<longleftrightarrow> (\<forall>x\<in>set xs. \<not> P x)"
  by (induction xs) auto

lemma position_Some_iff:
  "position P xs = Some i \<longleftrightarrow> i < length xs \<and> P (xs ! i) \<and> (\<forall>j<i. \<not> P (xs ! j))"
proof (induction xs arbitrary: i)
  case (Cons x xs)
  show ?case
  proof (cases i)
    case (Suc k)
    then show ?thesis
      by (simp add: Cons) (metis nth_Cons_0 nth_Cons_Suc less_Suc_eq_0_disj)
  qed simp
qed simp

lemma map_filter_append:
  "List.map_filter f (xs @ ys) = List.map_filter f xs @ List.map_filter f ys"
  by (simp add: List.map_filter_def)

end
