(* ===== verification/Keymint_Types.thy ===== *)
theory Keymint_Types
  imports Prelude
begin

unbundle bit_operations_syntax

text \<open>
  The wire types of \<^verbatim>\<open>wire/src/keymint.rs\<close>: the KeyMint enums with their
  \<open>i32\<close> discriminants, the tags, the exhaustive parameter enum \<open>KeyParam\<close>, and the
  errors of the KeyMint crates.  A Rust path \<open>Enum::Variant\<close> is the constructor
  \<open>Enum_Variant\<close>; \<open>v as i32\<close> is \<open>Enum_i32 v\<close> and \<open>Enum::n(v)\<close> is \<open>Enum_n v\<close>.
  Every enum is an instance of the locale \<open>wire_enum\<close> of the prelude, and the enums that
  the code compares are instances of \<open>linorder\<close> by discriminant, as \<open>derive(Ord)\<close> does.
\<close>

section \<open>Enums\<close>

datatype Algorithm =
  Algorithm_Rsa | Algorithm_Ec | Algorithm_MlDsa | Algorithm_Aes | Algorithm_TripleDes |
  Algorithm_Hmac

primrec Algorithm_i32 :: "Algorithm \<Rightarrow> int" where
  "Algorithm_i32 Algorithm_Rsa = 1"
| "Algorithm_i32 Algorithm_Ec = 3"
| "Algorithm_i32 Algorithm_MlDsa = 4"
| "Algorithm_i32 Algorithm_Aes = 32"
| "Algorithm_i32 Algorithm_TripleDes = 33"
| "Algorithm_i32 Algorithm_Hmac = 128"

definition Algorithm_variants :: "Algorithm list" where
  "Algorithm_variants = [
    Algorithm_Rsa, Algorithm_Ec, Algorithm_MlDsa, Algorithm_Aes, Algorithm_TripleDes,
    Algorithm_Hmac]"

definition Algorithm_n :: "int \<Rightarrow> Algorithm option" where
  "Algorithm_n = enum_n Algorithm_i32 Algorithm_variants"

lemma Algorithm_complete [enum_facts]: "x \<in> set Algorithm_variants"
  by (cases x) (simp_all add: Algorithm_variants_def)

interpretation we_Algorithm: wire_enum Algorithm_i32 Algorithm_variants
  by (rule wire_enumI [OF Algorithm_complete]) (simp_all add: Algorithm_variants_def fits_i32_def)

instantiation Algorithm :: linorder
begin

definition less_eq_Algorithm :: "Algorithm \<Rightarrow> Algorithm \<Rightarrow> bool" where
  "less_eq_Algorithm x y \<longleftrightarrow> Algorithm_i32 x \<le> Algorithm_i32 y"

definition less_Algorithm :: "Algorithm \<Rightarrow> Algorithm \<Rightarrow> bool" where
  "less_Algorithm x y \<longleftrightarrow> Algorithm_i32 x < Algorithm_i32 y"

instance
  by standard (auto simp: less_eq_Algorithm_def less_Algorithm_def we_Algorithm.inj_disc)

end

datatype BlockMode =
  BlockMode_Ecb | BlockMode_Cbc | BlockMode_Ctr | BlockMode_Gcm

primrec BlockMode_i32 :: "BlockMode \<Rightarrow> int" where
  "BlockMode_i32 BlockMode_Ecb = 1"
| "BlockMode_i32 BlockMode_Cbc = 2"
| "BlockMode_i32 BlockMode_Ctr = 3"
| "BlockMode_i32 BlockMode_Gcm = 32"

definition BlockMode_variants :: "BlockMode list" where
  "BlockMode_variants = [
    BlockMode_Ecb, BlockMode_Cbc, BlockMode_Ctr, BlockMode_Gcm]"

definition BlockMode_n :: "int \<Rightarrow> BlockMode option" where
  "BlockMode_n = enum_n BlockMode_i32 BlockMode_variants"

lemma BlockMode_complete [enum_facts]: "x \<in> set BlockMode_variants"
  by (cases x) (simp_all add: BlockMode_variants_def)

interpretation we_BlockMode: wire_enum BlockMode_i32 BlockMode_variants
  by (rule wire_enumI [OF BlockMode_complete]) (simp_all add: BlockMode_variants_def fits_i32_def)

instantiation BlockMode :: linorder
begin

definition less_eq_BlockMode :: "BlockMode \<Rightarrow> BlockMode \<Rightarrow> bool" where
  "less_eq_BlockMode x y \<longleftrightarrow> BlockMode_i32 x \<le> BlockMode_i32 y"

definition less_BlockMode :: "BlockMode \<Rightarrow> BlockMode \<Rightarrow> bool" where
  "less_BlockMode x y \<longleftrightarrow> BlockMode_i32 x < BlockMode_i32 y"

instance
  by standard (auto simp: less_eq_BlockMode_def less_BlockMode_def we_BlockMode.inj_disc)

end

datatype Digest =
  Digest_None | Digest_Md5 | Digest_Sha1 | Digest_Sha224 | Digest_Sha256 | Digest_Sha384 |
  Digest_Sha512

primrec Digest_i32 :: "Digest \<Rightarrow> int" where
  "Digest_i32 Digest_None = 0"
| "Digest_i32 Digest_Md5 = 1"
| "Digest_i32 Digest_Sha1 = 2"
| "Digest_i32 Digest_Sha224 = 3"
| "Digest_i32 Digest_Sha256 = 4"
| "Digest_i32 Digest_Sha384 = 5"
| "Digest_i32 Digest_Sha512 = 6"

definition Digest_variants :: "Digest list" where
  "Digest_variants = [
    Digest_None, Digest_Md5, Digest_Sha1, Digest_Sha224, Digest_Sha256, Digest_Sha384,
    Digest_Sha512]"

definition Digest_n :: "int \<Rightarrow> Digest option" where
  "Digest_n = enum_n Digest_i32 Digest_variants"

lemma Digest_complete [enum_facts]: "x \<in> set Digest_variants"
  by (cases x) (simp_all add: Digest_variants_def)

interpretation we_Digest: wire_enum Digest_i32 Digest_variants
  by (rule wire_enumI [OF Digest_complete]) (simp_all add: Digest_variants_def fits_i32_def)

instantiation Digest :: linorder
begin

definition less_eq_Digest :: "Digest \<Rightarrow> Digest \<Rightarrow> bool" where
  "less_eq_Digest x y \<longleftrightarrow> Digest_i32 x \<le> Digest_i32 y"

definition less_Digest :: "Digest \<Rightarrow> Digest \<Rightarrow> bool" where
  "less_Digest x y \<longleftrightarrow> Digest_i32 x < Digest_i32 y"

instance
  by standard (auto simp: less_eq_Digest_def less_Digest_def we_Digest.inj_disc)

end

datatype EcCurve =
  EcCurve_P224 | EcCurve_P256 | EcCurve_P384 | EcCurve_P521 | EcCurve_Curve25519

primrec EcCurve_i32 :: "EcCurve \<Rightarrow> int" where
  "EcCurve_i32 EcCurve_P224 = 0"
| "EcCurve_i32 EcCurve_P256 = 1"
| "EcCurve_i32 EcCurve_P384 = 2"
| "EcCurve_i32 EcCurve_P521 = 3"
| "EcCurve_i32 EcCurve_Curve25519 = 4"

definition EcCurve_variants :: "EcCurve list" where
  "EcCurve_variants = [
    EcCurve_P224, EcCurve_P256, EcCurve_P384, EcCurve_P521, EcCurve_Curve25519]"

definition EcCurve_n :: "int \<Rightarrow> EcCurve option" where
  "EcCurve_n = enum_n EcCurve_i32 EcCurve_variants"

lemma EcCurve_complete [enum_facts]: "x \<in> set EcCurve_variants"
  by (cases x) (simp_all add: EcCurve_variants_def)

interpretation we_EcCurve: wire_enum EcCurve_i32 EcCurve_variants
  by (rule wire_enumI [OF EcCurve_complete]) (simp_all add: EcCurve_variants_def fits_i32_def)

instantiation EcCurve :: linorder
begin

definition less_eq_EcCurve :: "EcCurve \<Rightarrow> EcCurve \<Rightarrow> bool" where
  "less_eq_EcCurve x y \<longleftrightarrow> EcCurve_i32 x \<le> EcCurve_i32 y"

definition less_EcCurve :: "EcCurve \<Rightarrow> EcCurve \<Rightarrow> bool" where
  "less_EcCurve x y \<longleftrightarrow> EcCurve_i32 x < EcCurve_i32 y"

instance
  by standard (auto simp: less_eq_EcCurve_def less_EcCurve_def we_EcCurve.inj_disc)

end

datatype MlDsaVariant =
  MlDsaVariant_MlDsa65 | MlDsaVariant_MlDsa87

primrec MlDsaVariant_i32 :: "MlDsaVariant \<Rightarrow> int" where
  "MlDsaVariant_i32 MlDsaVariant_MlDsa65 = 1"
| "MlDsaVariant_i32 MlDsaVariant_MlDsa87 = 2"

definition MlDsaVariant_variants :: "MlDsaVariant list" where
  "MlDsaVariant_variants = [
    MlDsaVariant_MlDsa65, MlDsaVariant_MlDsa87]"

definition MlDsaVariant_n :: "int \<Rightarrow> MlDsaVariant option" where
  "MlDsaVariant_n = enum_n MlDsaVariant_i32 MlDsaVariant_variants"

lemma MlDsaVariant_complete [enum_facts]: "x \<in> set MlDsaVariant_variants"
  by (cases x) (simp_all add: MlDsaVariant_variants_def)

interpretation we_MlDsaVariant: wire_enum MlDsaVariant_i32 MlDsaVariant_variants
  by (rule wire_enumI [OF MlDsaVariant_complete]) (simp_all add: MlDsaVariant_variants_def fits_i32_def)

datatype (plugins only: size) ErrorCode =
  ErrorCode_Ok | ErrorCode_RootOfTrustAlreadySet | ErrorCode_UnsupportedPurpose |
  ErrorCode_IncompatiblePurpose | ErrorCode_UnsupportedAlgorithm |
  ErrorCode_IncompatibleAlgorithm | ErrorCode_UnsupportedKeySize |
  ErrorCode_UnsupportedBlockMode | ErrorCode_IncompatibleBlockMode |
  ErrorCode_UnsupportedMacLength | ErrorCode_UnsupportedPaddingMode |
  ErrorCode_IncompatiblePaddingMode | ErrorCode_UnsupportedDigest |
  ErrorCode_IncompatibleDigest | ErrorCode_InvalidExpirationTime |
  ErrorCode_InvalidUserId | ErrorCode_InvalidAuthorizationTimeout |
  ErrorCode_UnsupportedKeyFormat | ErrorCode_IncompatibleKeyFormat |
  ErrorCode_UnsupportedKeyEncryptionAlgorithm |
  ErrorCode_UnsupportedKeyVerificationAlgorithm | ErrorCode_InvalidInputLength |
  ErrorCode_KeyExportOptionsInvalid | ErrorCode_DelegationNotAllowed |
  ErrorCode_KeyNotYetValid | ErrorCode_KeyExpired | ErrorCode_KeyUserNotAuthenticated |
  ErrorCode_OutputParameterNull | ErrorCode_InvalidOperationHandle |
  ErrorCode_InsufficientBufferSpace | ErrorCode_VerificationFailed |
  ErrorCode_TooManyOperations | ErrorCode_UnexpectedNullPointer |
  ErrorCode_InvalidKeyBlob | ErrorCode_ImportedKeyNotEncrypted |
  ErrorCode_ImportedKeyDecryptionFailed | ErrorCode_ImportedKeyNotSigned |
  ErrorCode_ImportedKeyVerificationFailed | ErrorCode_InvalidArgument |
  ErrorCode_UnsupportedTag | ErrorCode_InvalidTag | ErrorCode_MemoryAllocationFailed |
  ErrorCode_ImportParameterMismatch | ErrorCode_SecureHwAccessDenied |
  ErrorCode_OperationCancelled | ErrorCode_ConcurrentAccessConflict |
  ErrorCode_SecureHwBusy | ErrorCode_SecureHwCommunicationFailed |
  ErrorCode_UnsupportedEcField | ErrorCode_MissingNonce | ErrorCode_InvalidNonce |
  ErrorCode_MissingMacLength | ErrorCode_KeyRateLimitExceeded |
  ErrorCode_CallerNonceProhibited | ErrorCode_KeyMaxOpsExceeded |
  ErrorCode_InvalidMacLength | ErrorCode_MissingMinMacLength |
  ErrorCode_UnsupportedMinMacLength | ErrorCode_UnsupportedKdf |
  ErrorCode_UnsupportedEcCurve | ErrorCode_KeyRequiresUpgrade |
  ErrorCode_AttestationChallengeMissing | ErrorCode_KeymintNotConfigured |
  ErrorCode_AttestationApplicationIdMissing | ErrorCode_CannotAttestIds |
  ErrorCode_RollbackResistanceUnavailable | ErrorCode_HardwareTypeUnavailable |
  ErrorCode_ProofOfPresenceRequired | ErrorCode_ConcurrentProofOfPresenceRequested |
  ErrorCode_NoUserConfirmation | ErrorCode_DeviceLocked | ErrorCode_EarlyBootEnded |
  ErrorCode_AttestationKeysNotProvisioned | ErrorCode_AttestationIdsNotProvisioned |
  ErrorCode_InvalidOperation | ErrorCode_StorageKeyUnsupported |
  ErrorCode_IncompatibleMgfDigest | ErrorCode_UnsupportedMgfDigest |
  ErrorCode_MissingNotBefore | ErrorCode_MissingNotAfter | ErrorCode_MissingIssuerSubject |
  ErrorCode_InvalidIssuerSubject | ErrorCode_BootLevelExceeded |
  ErrorCode_HardwareNotYetAvailable | ErrorCode_ModuleHashAlreadySet |
  ErrorCode_UnsupportedMlDsaVariant | ErrorCode_Unimplemented | ErrorCode_VersionMismatch |
  ErrorCode_UnknownError | ErrorCode_EncodingError | ErrorCode_BoringSslError

primrec ErrorCode_i32 :: "ErrorCode \<Rightarrow> int" where
  "ErrorCode_i32 ErrorCode_Ok = 0"
| "ErrorCode_i32 ErrorCode_RootOfTrustAlreadySet = -1"
| "ErrorCode_i32 ErrorCode_UnsupportedPurpose = -2"
| "ErrorCode_i32 ErrorCode_IncompatiblePurpose = -3"
| "ErrorCode_i32 ErrorCode_UnsupportedAlgorithm = -4"
| "ErrorCode_i32 ErrorCode_IncompatibleAlgorithm = -5"
| "ErrorCode_i32 ErrorCode_UnsupportedKeySize = -6"
| "ErrorCode_i32 ErrorCode_UnsupportedBlockMode = -7"
| "ErrorCode_i32 ErrorCode_IncompatibleBlockMode = -8"
| "ErrorCode_i32 ErrorCode_UnsupportedMacLength = -9"
| "ErrorCode_i32 ErrorCode_UnsupportedPaddingMode = -10"
| "ErrorCode_i32 ErrorCode_IncompatiblePaddingMode = -11"
| "ErrorCode_i32 ErrorCode_UnsupportedDigest = -12"
| "ErrorCode_i32 ErrorCode_IncompatibleDigest = -13"
| "ErrorCode_i32 ErrorCode_InvalidExpirationTime = -14"
| "ErrorCode_i32 ErrorCode_InvalidUserId = -15"
| "ErrorCode_i32 ErrorCode_InvalidAuthorizationTimeout = -16"
| "ErrorCode_i32 ErrorCode_UnsupportedKeyFormat = -17"
| "ErrorCode_i32 ErrorCode_IncompatibleKeyFormat = -18"
| "ErrorCode_i32 ErrorCode_UnsupportedKeyEncryptionAlgorithm = -19"
| "ErrorCode_i32 ErrorCode_UnsupportedKeyVerificationAlgorithm = -20"
| "ErrorCode_i32 ErrorCode_InvalidInputLength = -21"
| "ErrorCode_i32 ErrorCode_KeyExportOptionsInvalid = -22"
| "ErrorCode_i32 ErrorCode_DelegationNotAllowed = -23"
| "ErrorCode_i32 ErrorCode_KeyNotYetValid = -24"
| "ErrorCode_i32 ErrorCode_KeyExpired = -25"
| "ErrorCode_i32 ErrorCode_KeyUserNotAuthenticated = -26"
| "ErrorCode_i32 ErrorCode_OutputParameterNull = -27"
| "ErrorCode_i32 ErrorCode_InvalidOperationHandle = -28"
| "ErrorCode_i32 ErrorCode_InsufficientBufferSpace = -29"
| "ErrorCode_i32 ErrorCode_VerificationFailed = -30"
| "ErrorCode_i32 ErrorCode_TooManyOperations = -31"
| "ErrorCode_i32 ErrorCode_UnexpectedNullPointer = -32"
| "ErrorCode_i32 ErrorCode_InvalidKeyBlob = -33"
| "ErrorCode_i32 ErrorCode_ImportedKeyNotEncrypted = -34"
| "ErrorCode_i32 ErrorCode_ImportedKeyDecryptionFailed = -35"
| "ErrorCode_i32 ErrorCode_ImportedKeyNotSigned = -36"
| "ErrorCode_i32 ErrorCode_ImportedKeyVerificationFailed = -37"
| "ErrorCode_i32 ErrorCode_InvalidArgument = -38"
| "ErrorCode_i32 ErrorCode_UnsupportedTag = -39"
| "ErrorCode_i32 ErrorCode_InvalidTag = -40"
| "ErrorCode_i32 ErrorCode_MemoryAllocationFailed = -41"
| "ErrorCode_i32 ErrorCode_ImportParameterMismatch = -44"
| "ErrorCode_i32 ErrorCode_SecureHwAccessDenied = -45"
| "ErrorCode_i32 ErrorCode_OperationCancelled = -46"
| "ErrorCode_i32 ErrorCode_ConcurrentAccessConflict = -47"
| "ErrorCode_i32 ErrorCode_SecureHwBusy = -48"
| "ErrorCode_i32 ErrorCode_SecureHwCommunicationFailed = -49"
| "ErrorCode_i32 ErrorCode_UnsupportedEcField = -50"
| "ErrorCode_i32 ErrorCode_MissingNonce = -51"
| "ErrorCode_i32 ErrorCode_InvalidNonce = -52"
| "ErrorCode_i32 ErrorCode_MissingMacLength = -53"
| "ErrorCode_i32 ErrorCode_KeyRateLimitExceeded = -54"
| "ErrorCode_i32 ErrorCode_CallerNonceProhibited = -55"
| "ErrorCode_i32 ErrorCode_KeyMaxOpsExceeded = -56"
| "ErrorCode_i32 ErrorCode_InvalidMacLength = -57"
| "ErrorCode_i32 ErrorCode_MissingMinMacLength = -58"
| "ErrorCode_i32 ErrorCode_UnsupportedMinMacLength = -59"
| "ErrorCode_i32 ErrorCode_UnsupportedKdf = -60"
| "ErrorCode_i32 ErrorCode_UnsupportedEcCurve = -61"
| "ErrorCode_i32 ErrorCode_KeyRequiresUpgrade = -62"
| "ErrorCode_i32 ErrorCode_AttestationChallengeMissing = -63"
| "ErrorCode_i32 ErrorCode_KeymintNotConfigured = -64"
| "ErrorCode_i32 ErrorCode_AttestationApplicationIdMissing = -65"
| "ErrorCode_i32 ErrorCode_CannotAttestIds = -66"
| "ErrorCode_i32 ErrorCode_RollbackResistanceUnavailable = -67"
| "ErrorCode_i32 ErrorCode_HardwareTypeUnavailable = -68"
| "ErrorCode_i32 ErrorCode_ProofOfPresenceRequired = -69"
| "ErrorCode_i32 ErrorCode_ConcurrentProofOfPresenceRequested = -70"
| "ErrorCode_i32 ErrorCode_NoUserConfirmation = -71"
| "ErrorCode_i32 ErrorCode_DeviceLocked = -72"
| "ErrorCode_i32 ErrorCode_EarlyBootEnded = -73"
| "ErrorCode_i32 ErrorCode_AttestationKeysNotProvisioned = -74"
| "ErrorCode_i32 ErrorCode_AttestationIdsNotProvisioned = -75"
| "ErrorCode_i32 ErrorCode_InvalidOperation = -76"
| "ErrorCode_i32 ErrorCode_StorageKeyUnsupported = -77"
| "ErrorCode_i32 ErrorCode_IncompatibleMgfDigest = -78"
| "ErrorCode_i32 ErrorCode_UnsupportedMgfDigest = -79"
| "ErrorCode_i32 ErrorCode_MissingNotBefore = -80"
| "ErrorCode_i32 ErrorCode_MissingNotAfter = -81"
| "ErrorCode_i32 ErrorCode_MissingIssuerSubject = -82"
| "ErrorCode_i32 ErrorCode_InvalidIssuerSubject = -83"
| "ErrorCode_i32 ErrorCode_BootLevelExceeded = -84"
| "ErrorCode_i32 ErrorCode_HardwareNotYetAvailable = -85"
| "ErrorCode_i32 ErrorCode_ModuleHashAlreadySet = -86"
| "ErrorCode_i32 ErrorCode_UnsupportedMlDsaVariant = -87"
| "ErrorCode_i32 ErrorCode_Unimplemented = -100"
| "ErrorCode_i32 ErrorCode_VersionMismatch = -101"
| "ErrorCode_i32 ErrorCode_UnknownError = -1000"
| "ErrorCode_i32 ErrorCode_EncodingError = -20000"
| "ErrorCode_i32 ErrorCode_BoringSslError = -30000"

definition ErrorCode_variants :: "ErrorCode list" where
  "ErrorCode_variants = [
    ErrorCode_Ok, ErrorCode_RootOfTrustAlreadySet, ErrorCode_UnsupportedPurpose,
    ErrorCode_IncompatiblePurpose, ErrorCode_UnsupportedAlgorithm,
    ErrorCode_IncompatibleAlgorithm, ErrorCode_UnsupportedKeySize,
    ErrorCode_UnsupportedBlockMode, ErrorCode_IncompatibleBlockMode,
    ErrorCode_UnsupportedMacLength, ErrorCode_UnsupportedPaddingMode,
    ErrorCode_IncompatiblePaddingMode, ErrorCode_UnsupportedDigest,
    ErrorCode_IncompatibleDigest, ErrorCode_InvalidExpirationTime, ErrorCode_InvalidUserId,
    ErrorCode_InvalidAuthorizationTimeout, ErrorCode_UnsupportedKeyFormat,
    ErrorCode_IncompatibleKeyFormat, ErrorCode_UnsupportedKeyEncryptionAlgorithm,
    ErrorCode_UnsupportedKeyVerificationAlgorithm, ErrorCode_InvalidInputLength,
    ErrorCode_KeyExportOptionsInvalid, ErrorCode_DelegationNotAllowed,
    ErrorCode_KeyNotYetValid, ErrorCode_KeyExpired, ErrorCode_KeyUserNotAuthenticated,
    ErrorCode_OutputParameterNull, ErrorCode_InvalidOperationHandle,
    ErrorCode_InsufficientBufferSpace, ErrorCode_VerificationFailed,
    ErrorCode_TooManyOperations, ErrorCode_UnexpectedNullPointer, ErrorCode_InvalidKeyBlob,
    ErrorCode_ImportedKeyNotEncrypted, ErrorCode_ImportedKeyDecryptionFailed,
    ErrorCode_ImportedKeyNotSigned, ErrorCode_ImportedKeyVerificationFailed,
    ErrorCode_InvalidArgument, ErrorCode_UnsupportedTag, ErrorCode_InvalidTag,
    ErrorCode_MemoryAllocationFailed, ErrorCode_ImportParameterMismatch,
    ErrorCode_SecureHwAccessDenied, ErrorCode_OperationCancelled,
    ErrorCode_ConcurrentAccessConflict, ErrorCode_SecureHwBusy,
    ErrorCode_SecureHwCommunicationFailed, ErrorCode_UnsupportedEcField,
    ErrorCode_MissingNonce, ErrorCode_InvalidNonce, ErrorCode_MissingMacLength,
    ErrorCode_KeyRateLimitExceeded, ErrorCode_CallerNonceProhibited,
    ErrorCode_KeyMaxOpsExceeded, ErrorCode_InvalidMacLength, ErrorCode_MissingMinMacLength,
    ErrorCode_UnsupportedMinMacLength, ErrorCode_UnsupportedKdf,
    ErrorCode_UnsupportedEcCurve, ErrorCode_KeyRequiresUpgrade,
    ErrorCode_AttestationChallengeMissing, ErrorCode_KeymintNotConfigured,
    ErrorCode_AttestationApplicationIdMissing, ErrorCode_CannotAttestIds,
    ErrorCode_RollbackResistanceUnavailable, ErrorCode_HardwareTypeUnavailable,
    ErrorCode_ProofOfPresenceRequired, ErrorCode_ConcurrentProofOfPresenceRequested,
    ErrorCode_NoUserConfirmation, ErrorCode_DeviceLocked, ErrorCode_EarlyBootEnded,
    ErrorCode_AttestationKeysNotProvisioned, ErrorCode_AttestationIdsNotProvisioned,
    ErrorCode_InvalidOperation, ErrorCode_StorageKeyUnsupported,
    ErrorCode_IncompatibleMgfDigest, ErrorCode_UnsupportedMgfDigest,
    ErrorCode_MissingNotBefore, ErrorCode_MissingNotAfter, ErrorCode_MissingIssuerSubject,
    ErrorCode_InvalidIssuerSubject, ErrorCode_BootLevelExceeded,
    ErrorCode_HardwareNotYetAvailable, ErrorCode_ModuleHashAlreadySet,
    ErrorCode_UnsupportedMlDsaVariant, ErrorCode_Unimplemented, ErrorCode_VersionMismatch,
    ErrorCode_UnknownError, ErrorCode_EncodingError, ErrorCode_BoringSslError]"

definition ErrorCode_n :: "int \<Rightarrow> ErrorCode option" where
  "ErrorCode_n = enum_n ErrorCode_i32 ErrorCode_variants"

lemma ErrorCode_complete [enum_facts]: "x \<in> set ErrorCode_variants"
  by (cases x) (simp_all add: ErrorCode_variants_def)

interpretation we_ErrorCode: wire_enum ErrorCode_i32 ErrorCode_variants
  by (rule wire_enumI [OF ErrorCode_complete]) (simp_all add: ErrorCode_variants_def fits_i32_def)

datatype KeyFormat =
  KeyFormat_X509 | KeyFormat_Pkcs8 | KeyFormat_Raw

primrec KeyFormat_i32 :: "KeyFormat \<Rightarrow> int" where
  "KeyFormat_i32 KeyFormat_X509 = 0"
| "KeyFormat_i32 KeyFormat_Pkcs8 = 1"
| "KeyFormat_i32 KeyFormat_Raw = 3"

definition KeyFormat_variants :: "KeyFormat list" where
  "KeyFormat_variants = [
    KeyFormat_X509, KeyFormat_Pkcs8, KeyFormat_Raw]"

definition KeyFormat_n :: "int \<Rightarrow> KeyFormat option" where
  "KeyFormat_n = enum_n KeyFormat_i32 KeyFormat_variants"

lemma KeyFormat_complete [enum_facts]: "x \<in> set KeyFormat_variants"
  by (cases x) (simp_all add: KeyFormat_variants_def)

interpretation we_KeyFormat: wire_enum KeyFormat_i32 KeyFormat_variants
  by (rule wire_enumI [OF KeyFormat_complete]) (simp_all add: KeyFormat_variants_def fits_i32_def)

datatype SecurityLevel =
  SecurityLevel_Software | SecurityLevel_TrustedEnvironment | SecurityLevel_Strongbox |
  SecurityLevel_Keystore

primrec SecurityLevel_i32 :: "SecurityLevel \<Rightarrow> int" where
  "SecurityLevel_i32 SecurityLevel_Software = 0"
| "SecurityLevel_i32 SecurityLevel_TrustedEnvironment = 1"
| "SecurityLevel_i32 SecurityLevel_Strongbox = 2"
| "SecurityLevel_i32 SecurityLevel_Keystore = 100"

definition SecurityLevel_variants :: "SecurityLevel list" where
  "SecurityLevel_variants = [
    SecurityLevel_Software, SecurityLevel_TrustedEnvironment, SecurityLevel_Strongbox,
    SecurityLevel_Keystore]"

definition SecurityLevel_n :: "int \<Rightarrow> SecurityLevel option" where
  "SecurityLevel_n = enum_n SecurityLevel_i32 SecurityLevel_variants"

lemma SecurityLevel_complete [enum_facts]: "x \<in> set SecurityLevel_variants"
  by (cases x) (simp_all add: SecurityLevel_variants_def)

interpretation we_SecurityLevel: wire_enum SecurityLevel_i32 SecurityLevel_variants
  by (rule wire_enumI [OF SecurityLevel_complete]) (simp_all add: SecurityLevel_variants_def fits_i32_def)

datatype TagType =
  TagType_Invalid | TagType_Enum | TagType_EnumRep | TagType_Uint | TagType_UintRep |
  TagType_Ulong | TagType_Date | TagType_Bool | TagType_Bignum | TagType_Bytes |
  TagType_UlongRep

primrec TagType_i32 :: "TagType \<Rightarrow> int" where
  "TagType_i32 TagType_Invalid = 0"
| "TagType_i32 TagType_Enum = 268435456"
| "TagType_i32 TagType_EnumRep = 536870912"
| "TagType_i32 TagType_Uint = 805306368"
| "TagType_i32 TagType_UintRep = 1073741824"
| "TagType_i32 TagType_Ulong = 1342177280"
| "TagType_i32 TagType_Date = 1610612736"
| "TagType_i32 TagType_Bool = 1879048192"
| "TagType_i32 TagType_Bignum = -2147483648"
| "TagType_i32 TagType_Bytes = -1879048192"
| "TagType_i32 TagType_UlongRep = -1610612736"

definition TagType_variants :: "TagType list" where
  "TagType_variants = [
    TagType_Invalid, TagType_Enum, TagType_EnumRep, TagType_Uint, TagType_UintRep,
    TagType_Ulong, TagType_Date, TagType_Bool, TagType_Bignum, TagType_Bytes,
    TagType_UlongRep]"

definition TagType_n :: "int \<Rightarrow> TagType option" where
  "TagType_n = enum_n TagType_i32 TagType_variants"

lemma TagType_complete [enum_facts]: "x \<in> set TagType_variants"
  by (cases x) (simp_all add: TagType_variants_def)

interpretation we_TagType: wire_enum TagType_i32 TagType_variants
  by (rule wire_enumI [OF TagType_complete]) (simp_all add: TagType_variants_def fits_i32_def)

datatype KeyOrigin =
  KeyOrigin_Generated | KeyOrigin_Derived | KeyOrigin_Imported | KeyOrigin_Reserved |
  KeyOrigin_SecurelyImported

primrec KeyOrigin_i32 :: "KeyOrigin \<Rightarrow> int" where
  "KeyOrigin_i32 KeyOrigin_Generated = 0"
| "KeyOrigin_i32 KeyOrigin_Derived = 1"
| "KeyOrigin_i32 KeyOrigin_Imported = 2"
| "KeyOrigin_i32 KeyOrigin_Reserved = 3"
| "KeyOrigin_i32 KeyOrigin_SecurelyImported = 4"

definition KeyOrigin_variants :: "KeyOrigin list" where
  "KeyOrigin_variants = [
    KeyOrigin_Generated, KeyOrigin_Derived, KeyOrigin_Imported, KeyOrigin_Reserved,
    KeyOrigin_SecurelyImported]"

definition KeyOrigin_n :: "int \<Rightarrow> KeyOrigin option" where
  "KeyOrigin_n = enum_n KeyOrigin_i32 KeyOrigin_variants"

lemma KeyOrigin_complete [enum_facts]: "x \<in> set KeyOrigin_variants"
  by (cases x) (simp_all add: KeyOrigin_variants_def)

interpretation we_KeyOrigin: wire_enum KeyOrigin_i32 KeyOrigin_variants
  by (rule wire_enumI [OF KeyOrigin_complete]) (simp_all add: KeyOrigin_variants_def fits_i32_def)

instantiation KeyOrigin :: linorder
begin

definition less_eq_KeyOrigin :: "KeyOrigin \<Rightarrow> KeyOrigin \<Rightarrow> bool" where
  "less_eq_KeyOrigin x y \<longleftrightarrow> KeyOrigin_i32 x \<le> KeyOrigin_i32 y"

definition less_KeyOrigin :: "KeyOrigin \<Rightarrow> KeyOrigin \<Rightarrow> bool" where
  "less_KeyOrigin x y \<longleftrightarrow> KeyOrigin_i32 x < KeyOrigin_i32 y"

instance
  by standard (auto simp: less_eq_KeyOrigin_def less_KeyOrigin_def we_KeyOrigin.inj_disc)

end

datatype KeyPurpose =
  KeyPurpose_Encrypt | KeyPurpose_Decrypt | KeyPurpose_Sign | KeyPurpose_Verify |
  KeyPurpose_WrapKey | KeyPurpose_AgreeKey | KeyPurpose_AttestKey

primrec KeyPurpose_i32 :: "KeyPurpose \<Rightarrow> int" where
  "KeyPurpose_i32 KeyPurpose_Encrypt = 0"
| "KeyPurpose_i32 KeyPurpose_Decrypt = 1"
| "KeyPurpose_i32 KeyPurpose_Sign = 2"
| "KeyPurpose_i32 KeyPurpose_Verify = 3"
| "KeyPurpose_i32 KeyPurpose_WrapKey = 5"
| "KeyPurpose_i32 KeyPurpose_AgreeKey = 6"
| "KeyPurpose_i32 KeyPurpose_AttestKey = 7"

definition KeyPurpose_variants :: "KeyPurpose list" where
  "KeyPurpose_variants = [
    KeyPurpose_Encrypt, KeyPurpose_Decrypt, KeyPurpose_Sign, KeyPurpose_Verify,
    KeyPurpose_WrapKey, KeyPurpose_AgreeKey, KeyPurpose_AttestKey]"

definition KeyPurpose_n :: "int \<Rightarrow> KeyPurpose option" where
  "KeyPurpose_n = enum_n KeyPurpose_i32 KeyPurpose_variants"

lemma KeyPurpose_complete [enum_facts]: "x \<in> set KeyPurpose_variants"
  by (cases x) (simp_all add: KeyPurpose_variants_def)

interpretation we_KeyPurpose: wire_enum KeyPurpose_i32 KeyPurpose_variants
  by (rule wire_enumI [OF KeyPurpose_complete]) (simp_all add: KeyPurpose_variants_def fits_i32_def)

instantiation KeyPurpose :: linorder
begin

definition less_eq_KeyPurpose :: "KeyPurpose \<Rightarrow> KeyPurpose \<Rightarrow> bool" where
  "less_eq_KeyPurpose x y \<longleftrightarrow> KeyPurpose_i32 x \<le> KeyPurpose_i32 y"

definition less_KeyPurpose :: "KeyPurpose \<Rightarrow> KeyPurpose \<Rightarrow> bool" where
  "less_KeyPurpose x y \<longleftrightarrow> KeyPurpose_i32 x < KeyPurpose_i32 y"

instance
  by standard (auto simp: less_eq_KeyPurpose_def less_KeyPurpose_def we_KeyPurpose.inj_disc)

end

datatype PaddingMode =
  PaddingMode_None | PaddingMode_RsaOaep | PaddingMode_RsaPss |
  PaddingMode_RsaPkcs115Encrypt | PaddingMode_RsaPkcs115Sign | PaddingMode_Pkcs7

primrec PaddingMode_i32 :: "PaddingMode \<Rightarrow> int" where
  "PaddingMode_i32 PaddingMode_None = 1"
| "PaddingMode_i32 PaddingMode_RsaOaep = 2"
| "PaddingMode_i32 PaddingMode_RsaPss = 3"
| "PaddingMode_i32 PaddingMode_RsaPkcs115Encrypt = 4"
| "PaddingMode_i32 PaddingMode_RsaPkcs115Sign = 5"
| "PaddingMode_i32 PaddingMode_Pkcs7 = 64"

definition PaddingMode_variants :: "PaddingMode list" where
  "PaddingMode_variants = [
    PaddingMode_None, PaddingMode_RsaOaep, PaddingMode_RsaPss,
    PaddingMode_RsaPkcs115Encrypt, PaddingMode_RsaPkcs115Sign, PaddingMode_Pkcs7]"

definition PaddingMode_n :: "int \<Rightarrow> PaddingMode option" where
  "PaddingMode_n = enum_n PaddingMode_i32 PaddingMode_variants"

lemma PaddingMode_complete [enum_facts]: "x \<in> set PaddingMode_variants"
  by (cases x) (simp_all add: PaddingMode_variants_def)

interpretation we_PaddingMode: wire_enum PaddingMode_i32 PaddingMode_variants
  by (rule wire_enumI [OF PaddingMode_complete]) (simp_all add: PaddingMode_variants_def fits_i32_def)

instantiation PaddingMode :: linorder
begin

definition less_eq_PaddingMode :: "PaddingMode \<Rightarrow> PaddingMode \<Rightarrow> bool" where
  "less_eq_PaddingMode x y \<longleftrightarrow> PaddingMode_i32 x \<le> PaddingMode_i32 y"

definition less_PaddingMode :: "PaddingMode \<Rightarrow> PaddingMode \<Rightarrow> bool" where
  "less_PaddingMode x y \<longleftrightarrow> PaddingMode_i32 x < PaddingMode_i32 y"

instance
  by standard (auto simp: less_eq_PaddingMode_def less_PaddingMode_def we_PaddingMode.inj_disc)

end

datatype (plugins only: code size) Tag =
  Tag_Invalid | Tag_Purpose | Tag_Algorithm | Tag_KeySize | Tag_BlockMode | Tag_Digest |
  Tag_Padding | Tag_CallerNonce | Tag_MinMacLength | Tag_EcCurve | Tag_MlDsaVariant |
  Tag_RsaPublicExponent | Tag_IncludeUniqueId | Tag_RsaOaepMgfDigest | Tag_BootloaderOnly |
  Tag_RollbackResistance | Tag_HardwareType | Tag_EarlyBootOnly | Tag_ActiveDatetime |
  Tag_OriginationExpireDatetime | Tag_UsageExpireDatetime | Tag_MinSecondsBetweenOps |
  Tag_MaxUsesPerBoot | Tag_UsageCountLimit | Tag_UserId | Tag_UserSecureId |
  Tag_NoAuthRequired | Tag_UserAuthType | Tag_AuthTimeout | Tag_AllowWhileOnBody |
  Tag_TrustedUserPresenceRequired | Tag_TrustedConfirmationRequired |
  Tag_UnlockedDeviceRequired | Tag_ApplicationId | Tag_ApplicationData |
  Tag_CreationDatetime | Tag_Origin | Tag_RootOfTrust | Tag_OsVersion | Tag_OsPatchlevel |
  Tag_UniqueId | Tag_AttestationChallenge | Tag_AttestationApplicationId |
  Tag_AttestationIdBrand | Tag_AttestationIdDevice | Tag_AttestationIdProduct |
  Tag_AttestationIdSerial | Tag_AttestationIdImei | Tag_AttestationIdMeid |
  Tag_AttestationIdManufacturer | Tag_AttestationIdModel | Tag_VendorPatchlevel |
  Tag_BootPatchlevel | Tag_DeviceUniqueAttestation | Tag_IdentityCredentialKey |
  Tag_StorageKey | Tag_AttestationIdSecondImei | Tag_AssociatedData | Tag_Nonce |
  Tag_MacLength | Tag_ResetSinceIdRotation | Tag_ConfirmationToken |
  Tag_CertificateSerial | Tag_CertificateSubject | Tag_CertificateNotBefore |
  Tag_CertificateNotAfter | Tag_MaxBootLevel | Tag_ModuleHash

primrec Tag_i32 :: "Tag \<Rightarrow> int" where
  "Tag_i32 Tag_Invalid = 0"
| "Tag_i32 Tag_Purpose = 536870913"
| "Tag_i32 Tag_Algorithm = 268435458"
| "Tag_i32 Tag_KeySize = 805306371"
| "Tag_i32 Tag_BlockMode = 536870916"
| "Tag_i32 Tag_Digest = 536870917"
| "Tag_i32 Tag_Padding = 536870918"
| "Tag_i32 Tag_CallerNonce = 1879048199"
| "Tag_i32 Tag_MinMacLength = 805306376"
| "Tag_i32 Tag_EcCurve = 268435466"
| "Tag_i32 Tag_MlDsaVariant = 268435467"
| "Tag_i32 Tag_RsaPublicExponent = 1342177480"
| "Tag_i32 Tag_IncludeUniqueId = 1879048394"
| "Tag_i32 Tag_RsaOaepMgfDigest = 536871115"
| "Tag_i32 Tag_BootloaderOnly = 1879048494"
| "Tag_i32 Tag_RollbackResistance = 1879048495"
| "Tag_i32 Tag_HardwareType = 268435760"
| "Tag_i32 Tag_EarlyBootOnly = 1879048497"
| "Tag_i32 Tag_ActiveDatetime = 1610613136"
| "Tag_i32 Tag_OriginationExpireDatetime = 1610613137"
| "Tag_i32 Tag_UsageExpireDatetime = 1610613138"
| "Tag_i32 Tag_MinSecondsBetweenOps = 805306771"
| "Tag_i32 Tag_MaxUsesPerBoot = 805306772"
| "Tag_i32 Tag_UsageCountLimit = 805306773"
| "Tag_i32 Tag_UserId = 805306869"
| "Tag_i32 Tag_UserSecureId = -1610612234"
| "Tag_i32 Tag_NoAuthRequired = 1879048695"
| "Tag_i32 Tag_UserAuthType = 268435960"
| "Tag_i32 Tag_AuthTimeout = 805306873"
| "Tag_i32 Tag_AllowWhileOnBody = 1879048698"
| "Tag_i32 Tag_TrustedUserPresenceRequired = 1879048699"
| "Tag_i32 Tag_TrustedConfirmationRequired = 1879048700"
| "Tag_i32 Tag_UnlockedDeviceRequired = 1879048701"
| "Tag_i32 Tag_ApplicationId = -1879047591"
| "Tag_i32 Tag_ApplicationData = -1879047492"
| "Tag_i32 Tag_CreationDatetime = 1610613437"
| "Tag_i32 Tag_Origin = 268436158"
| "Tag_i32 Tag_RootOfTrust = -1879047488"
| "Tag_i32 Tag_OsVersion = 805307073"
| "Tag_i32 Tag_OsPatchlevel = 805307074"
| "Tag_i32 Tag_UniqueId = -1879047485"
| "Tag_i32 Tag_AttestationChallenge = -1879047484"
| "Tag_i32 Tag_AttestationApplicationId = -1879047483"
| "Tag_i32 Tag_AttestationIdBrand = -1879047482"
| "Tag_i32 Tag_AttestationIdDevice = -1879047481"
| "Tag_i32 Tag_AttestationIdProduct = -1879047480"
| "Tag_i32 Tag_AttestationIdSerial = -1879047479"
| "Tag_i32 Tag_AttestationIdImei = -1879047478"
| "Tag_i32 Tag_AttestationIdMeid = -1879047477"
| "Tag_i32 Tag_AttestationIdManufacturer = -1879047476"
| "Tag_i32 Tag_AttestationIdModel = -1879047475"
| "Tag_i32 Tag_VendorPatchlevel = 805307086"
| "Tag_i32 Tag_BootPatchlevel = 805307087"
| "Tag_i32 Tag_DeviceUniqueAttestation = 1879048912"
| "Tag_i32 Tag_IdentityCredentialKey = 1879048913"
| "Tag_i32 Tag_StorageKey = 1879048914"
| "Tag_i32 Tag_AttestationIdSecondImei = -1879047469"
| "Tag_i32 Tag_AssociatedData = -1879047192"
| "Tag_i32 Tag_Nonce = -1879047191"
| "Tag_i32 Tag_MacLength = 805307371"
| "Tag_i32 Tag_ResetSinceIdRotation = 1879049196"
| "Tag_i32 Tag_ConfirmationToken = -1879047187"
| "Tag_i32 Tag_CertificateSerial = -2147482642"
| "Tag_i32 Tag_CertificateSubject = -1879047185"
| "Tag_i32 Tag_CertificateNotBefore = 1610613744"
| "Tag_i32 Tag_CertificateNotAfter = 1610613745"
| "Tag_i32 Tag_MaxBootLevel = 805307378"
| "Tag_i32 Tag_ModuleHash = -1879047468"

definition Tag_variants :: "Tag list" where
  "Tag_variants = [
    Tag_Invalid, Tag_Purpose, Tag_Algorithm, Tag_KeySize, Tag_BlockMode, Tag_Digest,
    Tag_Padding, Tag_CallerNonce, Tag_MinMacLength, Tag_EcCurve, Tag_MlDsaVariant,
    Tag_RsaPublicExponent, Tag_IncludeUniqueId, Tag_RsaOaepMgfDigest, Tag_BootloaderOnly,
    Tag_RollbackResistance, Tag_HardwareType, Tag_EarlyBootOnly, Tag_ActiveDatetime,
    Tag_OriginationExpireDatetime, Tag_UsageExpireDatetime, Tag_MinSecondsBetweenOps,
    Tag_MaxUsesPerBoot, Tag_UsageCountLimit, Tag_UserId, Tag_UserSecureId,
    Tag_NoAuthRequired, Tag_UserAuthType, Tag_AuthTimeout, Tag_AllowWhileOnBody,
    Tag_TrustedUserPresenceRequired, Tag_TrustedConfirmationRequired,
    Tag_UnlockedDeviceRequired, Tag_ApplicationId, Tag_ApplicationData,
    Tag_CreationDatetime, Tag_Origin, Tag_RootOfTrust, Tag_OsVersion, Tag_OsPatchlevel,
    Tag_UniqueId, Tag_AttestationChallenge, Tag_AttestationApplicationId,
    Tag_AttestationIdBrand, Tag_AttestationIdDevice, Tag_AttestationIdProduct,
    Tag_AttestationIdSerial, Tag_AttestationIdImei, Tag_AttestationIdMeid,
    Tag_AttestationIdManufacturer, Tag_AttestationIdModel, Tag_VendorPatchlevel,
    Tag_BootPatchlevel, Tag_DeviceUniqueAttestation, Tag_IdentityCredentialKey,
    Tag_StorageKey, Tag_AttestationIdSecondImei, Tag_AssociatedData, Tag_Nonce,
    Tag_MacLength, Tag_ResetSinceIdRotation, Tag_ConfirmationToken, Tag_CertificateSerial,
    Tag_CertificateSubject, Tag_CertificateNotBefore, Tag_CertificateNotAfter,
    Tag_MaxBootLevel, Tag_ModuleHash]"

definition Tag_n :: "int \<Rightarrow> Tag option" where
  "Tag_n = enum_n Tag_i32 Tag_variants"

lemma Tag_complete [enum_facts]: "x \<in> set Tag_variants"
  by (cases x) (simp_all add: Tag_variants_def)

interpretation we_Tag: wire_enum Tag_i32 Tag_variants
  by (rule wire_enumI [OF Tag_complete]) (simp_all add: Tag_variants_def fits_i32_def)

instantiation Tag :: linorder
begin

definition less_eq_Tag :: "Tag \<Rightarrow> Tag \<Rightarrow> bool" where
  "less_eq_Tag x y \<longleftrightarrow> Tag_i32 x \<le> Tag_i32 y"

definition less_Tag :: "Tag \<Rightarrow> Tag \<Rightarrow> bool" where
  "less_Tag x y \<longleftrightarrow> Tag_i32 x < Tag_i32 y"

instance
  by standard (auto simp: less_eq_Tag_def less_Tag_def we_Tag.inj_disc)

end

section \<open>Structures\<close>

text \<open>The newtypes of \<^verbatim>\<open>wire/src/types.rs\<close> and the date type.\<close>

datatype KeySizeInBits = KeySizeInBits u32

datatype RsaExponent = RsaExponent u64

datatype DateTime = DateTime (ms_since_epoch: i64)

datatype (plugins only: code size) KeyParam =
  KeyParam_Purpose KeyPurpose
| KeyParam_Algorithm Algorithm
| KeyParam_KeySize KeySizeInBits
| KeyParam_BlockMode BlockMode
| KeyParam_Digest Digest
| KeyParam_Padding PaddingMode
| KeyParam_CallerNonce
| KeyParam_MinMacLength u32
| KeyParam_EcCurve EcCurve
| KeyParam_MlDsaVariant MlDsaVariant
| KeyParam_RsaPublicExponent RsaExponent
| KeyParam_IncludeUniqueId
| KeyParam_RsaOaepMgfDigest Digest
| KeyParam_BootloaderOnly
| KeyParam_RollbackResistance
| KeyParam_EarlyBootOnly
| KeyParam_ActiveDatetime DateTime
| KeyParam_OriginationExpireDatetime DateTime
| KeyParam_UsageExpireDatetime DateTime
| KeyParam_MaxUsesPerBoot u32
| KeyParam_UsageCountLimit u32
| KeyParam_UserId u32
| KeyParam_UserSecureId u64
| KeyParam_NoAuthRequired
| KeyParam_UserAuthType u32
| KeyParam_AuthTimeout u32
| KeyParam_AllowWhileOnBody
| KeyParam_TrustedUserPresenceRequired
| KeyParam_TrustedConfirmationRequired
| KeyParam_UnlockedDeviceRequired
| KeyParam_ApplicationId bytes
| KeyParam_ApplicationData bytes
| KeyParam_CreationDatetime DateTime
| KeyParam_Origin KeyOrigin
| KeyParam_RootOfTrust bytes
| KeyParam_OsVersion u32
| KeyParam_OsPatchlevel u32
| KeyParam_AttestationChallenge bytes
| KeyParam_AttestationApplicationId bytes
| KeyParam_AttestationIdBrand bytes
| KeyParam_AttestationIdDevice bytes
| KeyParam_AttestationIdProduct bytes
| KeyParam_AttestationIdSerial bytes
| KeyParam_AttestationIdImei bytes
| KeyParam_AttestationIdSecondImei bytes
| KeyParam_AttestationIdMeid bytes
| KeyParam_AttestationIdManufacturer bytes
| KeyParam_AttestationIdModel bytes
| KeyParam_VendorPatchlevel u32
| KeyParam_BootPatchlevel u32
| KeyParam_DeviceUniqueAttestation
| KeyParam_StorageKey
| KeyParam_Nonce bytes
| KeyParam_MacLength u32
| KeyParam_ResetSinceIdRotation
| KeyParam_CertificateSerial bytes
| KeyParam_CertificateSubject bytes
| KeyParam_CertificateNotBefore DateTime
| KeyParam_CertificateNotAfter DateTime
| KeyParam_MaxBootLevel u32
| KeyParam_ModuleHash bytes

primrec KeyParam_tag :: "KeyParam \<Rightarrow> Tag" where
  "KeyParam_tag (KeyParam_Algorithm v) = Tag_Algorithm"
| "KeyParam_tag (KeyParam_BlockMode v) = Tag_BlockMode"
| "KeyParam_tag (KeyParam_Padding v) = Tag_Padding"
| "KeyParam_tag (KeyParam_Digest v) = Tag_Digest"
| "KeyParam_tag (KeyParam_EcCurve v) = Tag_EcCurve"
| "KeyParam_tag (KeyParam_MlDsaVariant v) = Tag_MlDsaVariant"
| "KeyParam_tag (KeyParam_Origin v) = Tag_Origin"
| "KeyParam_tag (KeyParam_Purpose v) = Tag_Purpose"
| "KeyParam_tag (KeyParam_KeySize v) = Tag_KeySize"
| "KeyParam_tag (KeyParam_CallerNonce) = Tag_CallerNonce"
| "KeyParam_tag (KeyParam_MinMacLength v) = Tag_MinMacLength"
| "KeyParam_tag (KeyParam_RsaPublicExponent v) = Tag_RsaPublicExponent"
| "KeyParam_tag (KeyParam_IncludeUniqueId) = Tag_IncludeUniqueId"
| "KeyParam_tag (KeyParam_RsaOaepMgfDigest v) = Tag_RsaOaepMgfDigest"
| "KeyParam_tag (KeyParam_BootloaderOnly) = Tag_BootloaderOnly"
| "KeyParam_tag (KeyParam_RollbackResistance) = Tag_RollbackResistance"
| "KeyParam_tag (KeyParam_EarlyBootOnly) = Tag_EarlyBootOnly"
| "KeyParam_tag (KeyParam_ActiveDatetime v) = Tag_ActiveDatetime"
| "KeyParam_tag (KeyParam_OriginationExpireDatetime v) = Tag_OriginationExpireDatetime"
| "KeyParam_tag (KeyParam_UsageExpireDatetime v) = Tag_UsageExpireDatetime"
| "KeyParam_tag (KeyParam_MaxUsesPerBoot v) = Tag_MaxUsesPerBoot"
| "KeyParam_tag (KeyParam_UsageCountLimit v) = Tag_UsageCountLimit"
| "KeyParam_tag (KeyParam_UserId v) = Tag_UserId"
| "KeyParam_tag (KeyParam_UserSecureId v) = Tag_UserSecureId"
| "KeyParam_tag (KeyParam_NoAuthRequired) = Tag_NoAuthRequired"
| "KeyParam_tag (KeyParam_UserAuthType v) = Tag_UserAuthType"
| "KeyParam_tag (KeyParam_AuthTimeout v) = Tag_AuthTimeout"
| "KeyParam_tag (KeyParam_AllowWhileOnBody) = Tag_AllowWhileOnBody"
| "KeyParam_tag (KeyParam_TrustedUserPresenceRequired) = Tag_TrustedUserPresenceRequired"
| "KeyParam_tag (KeyParam_TrustedConfirmationRequired) = Tag_TrustedConfirmationRequired"
| "KeyParam_tag (KeyParam_UnlockedDeviceRequired) = Tag_UnlockedDeviceRequired"
| "KeyParam_tag (KeyParam_ApplicationId v) = Tag_ApplicationId"
| "KeyParam_tag (KeyParam_ApplicationData v) = Tag_ApplicationData"
| "KeyParam_tag (KeyParam_CreationDatetime v) = Tag_CreationDatetime"
| "KeyParam_tag (KeyParam_RootOfTrust v) = Tag_RootOfTrust"
| "KeyParam_tag (KeyParam_OsVersion v) = Tag_OsVersion"
| "KeyParam_tag (KeyParam_OsPatchlevel v) = Tag_OsPatchlevel"
| "KeyParam_tag (KeyParam_AttestationChallenge v) = Tag_AttestationChallenge"
| "KeyParam_tag (KeyParam_AttestationApplicationId v) = Tag_AttestationApplicationId"
| "KeyParam_tag (KeyParam_AttestationIdBrand v) = Tag_AttestationIdBrand"
| "KeyParam_tag (KeyParam_AttestationIdDevice v) = Tag_AttestationIdDevice"
| "KeyParam_tag (KeyParam_AttestationIdProduct v) = Tag_AttestationIdProduct"
| "KeyParam_tag (KeyParam_AttestationIdSerial v) = Tag_AttestationIdSerial"
| "KeyParam_tag (KeyParam_AttestationIdImei v) = Tag_AttestationIdImei"
| "KeyParam_tag (KeyParam_AttestationIdSecondImei v) = Tag_AttestationIdSecondImei"
| "KeyParam_tag (KeyParam_AttestationIdMeid v) = Tag_AttestationIdMeid"
| "KeyParam_tag (KeyParam_AttestationIdManufacturer v) = Tag_AttestationIdManufacturer"
| "KeyParam_tag (KeyParam_AttestationIdModel v) = Tag_AttestationIdModel"
| "KeyParam_tag (KeyParam_VendorPatchlevel v) = Tag_VendorPatchlevel"
| "KeyParam_tag (KeyParam_BootPatchlevel v) = Tag_BootPatchlevel"
| "KeyParam_tag (KeyParam_DeviceUniqueAttestation) = Tag_DeviceUniqueAttestation"
| "KeyParam_tag (KeyParam_StorageKey) = Tag_StorageKey"
| "KeyParam_tag (KeyParam_Nonce v) = Tag_Nonce"
| "KeyParam_tag (KeyParam_MacLength v) = Tag_MacLength"
| "KeyParam_tag (KeyParam_ResetSinceIdRotation) = Tag_ResetSinceIdRotation"
| "KeyParam_tag (KeyParam_CertificateSerial v) = Tag_CertificateSerial"
| "KeyParam_tag (KeyParam_CertificateSubject v) = Tag_CertificateSubject"
| "KeyParam_tag (KeyParam_CertificateNotBefore v) = Tag_CertificateNotBefore"
| "KeyParam_tag (KeyParam_CertificateNotAfter v) = Tag_CertificateNotAfter"
| "KeyParam_tag (KeyParam_MaxBootLevel v) = Tag_MaxBootLevel"
| "KeyParam_tag (KeyParam_ModuleHash v) = Tag_ModuleHash"

record KeyCharacteristics =
  security_level :: SecurityLevel
  authorizations :: "KeyParam list"

section \<open>Tag numbers\<close>

text \<open>
  \<open>tag_type\<close> masks the top four bits of the tag number; \<open>raw_tag_value\<close> strips them; the
  function \<open>from_raw_tag_value\<close> is what \<open>derive(FromRawTag)\<close> expands to.
\<close>

definition Tag_u32 :: "Tag \<Rightarrow> u32" where
  "Tag_u32 t = of_int (Tag_i32 t)"

definition tag_type :: "Tag \<Rightarrow> TagType" where
  "tag_type t =
     (let x = sint (Tag_u32 t AND 0xf0000000) in
      if x = TagType_i32 TagType_Enum then TagType_Enum
      else if x = TagType_i32 TagType_EnumRep then TagType_EnumRep
      else if x = TagType_i32 TagType_Uint then TagType_Uint
      else if x = TagType_i32 TagType_UintRep then TagType_UintRep
      else if x = TagType_i32 TagType_Ulong then TagType_Ulong
      else if x = TagType_i32 TagType_Date then TagType_Date
      else if x = TagType_i32 TagType_Bool then TagType_Bool
      else if x = TagType_i32 TagType_Bignum then TagType_Bignum
      else if x = TagType_i32 TagType_Bytes then TagType_Bytes
      else if x = TagType_i32 TagType_UlongRep then TagType_UlongRep
      else TagType_Invalid)"

definition raw_tag_value :: "Tag \<Rightarrow> u32" where
  "raw_tag_value t = Tag_u32 t AND 0x0fffffff"

definition from_raw_tag_value :: "u32 \<Rightarrow> Tag" where
  "from_raw_tag_value raw =
     (case List.find (\<lambda>t. raw = raw_tag_value t) Tag_variants of
        Some t \<Rightarrow> t | None \<Rightarrow> Tag_Invalid)"

section \<open>Errors of the KeyMint crates\<close>

text \<open>
  \<open>ErrorKind\<close> of \<^verbatim>\<open>common/src/lib.rs\<close>.  The source location and the message text are
  diagnostics only and are left out; so are the DER and RPC kinds and allocation failure,
  which no operation modelled here produces (a \<open>Vec\<close> is taken to have the memory it needs).
\<close>

datatype CborError =
    CborError_EncodeFailed
  | CborError_ExtraneousData
  | CborError_OutOfRangeIntegerValue
  | CborError_NonEnumValue
  | CborError_UnexpectedItem string string
  | CborError_InvalidValue

datatype Error =
    Error_Cbor CborError
  | Error_Hal ErrorCode

text \<open>\<open>km_err!(Code, ...)\<close>.\<close>

abbreviation km_err :: "ErrorCode \<Rightarrow> Error + 'a" where
  "km_err code \<equiv> Inl (Error_Hal code)"

end
