(* ===== verification/Cbor_Wire.thy ===== *)
theory Cbor_Wire
  imports Keymint_Types
begin

text \<open>
  The conversion of wire types to and from CBOR items: the trait \<open>AsCborValue\<close> and its
  implementations for the primitive types, options, vectors and byte strings
  (\<^verbatim>\<open>wire/src/lib.rs\<close>), what \<open>derive(AsCborValue)\<close> generates for C-like enums,
  newtypes and structs (\<^verbatim>\<open>derive/src/lib.rs\<close>), and the hand-written implementation for
  \<open>KeyParam\<close> (\<^verbatim>\<open>wire/src/keymint.rs\<close>).  The trait is the locale \<open>as_cbor\<close>: what is
  proved of a type that round-trips carries over to options, vectors and structs of it.
\<close>

section \<open>CBOR items\<close>

text \<open>
  The variants of \<open>ciborium::value::Value\<close> that \<open>cbor_type_error\<close> distinguishes.  An
  integer item holds a mathematical integer; a float is kept as its bit pattern.
\<close>

datatype Value =
    Value_Integer int
  | Value_Bytes bytes
  | Value_Text string
  | Value_Array "Value list"
  | Value_Map "(Value \<times> Value) list"
  | Value_Tag u64 Value
  | Value_Float u64
  | Value_Bool bool
  | Value_Null

primrec cbor_item_kind :: "Value \<Rightarrow> string" where
  "cbor_item_kind (Value_Integer i) = ''int''"
| "cbor_item_kind (Value_Bytes b) = ''bstr''"
| "cbor_item_kind (Value_Text s) = ''tstr''"
| "cbor_item_kind (Value_Array a) = ''array''"
| "cbor_item_kind (Value_Map m) = ''map''"
| "cbor_item_kind (Value_Tag t v) = ''tag''"
| "cbor_item_kind (Value_Float f) = ''float''"
| "cbor_item_kind (Value_Bool b) = ''bool''"
| "cbor_item_kind Value_Null = ''null''"

definition cbor_type_error :: "Value \<Rightarrow> string \<Rightarrow> CborError + 'a" where
  "cbor_type_error v want = Inl (CborError_UnexpectedItem (cbor_item_kind v) want)"

section \<open>Primitive types\<close>

definition u64_from_cbor_value :: "Value \<Rightarrow> CborError + u64" where
  "u64_from_cbor_value v = (case v of
     Value_Integer i \<Rightarrow>
       if 0 \<le> i \<and> i < 2 ^ 64 then Inr (of_int i) else Inl CborError_OutOfRangeIntegerValue
   | _ \<Rightarrow> cbor_type_error v ''u64'')"

definition u64_to_cbor_value :: "u64 \<Rightarrow> CborError + Value" where
  "u64_to_cbor_value x = Inr (Value_Integer (uint x))"

definition i64_from_cbor_value :: "Value \<Rightarrow> CborError + i64" where
  "i64_from_cbor_value v = (case v of
     Value_Integer i \<Rightarrow>
       if - (2 ^ 63) \<le> i \<and> i < 2 ^ 63 then Inr (of_int i)
       else Inl CborError_OutOfRangeIntegerValue
   | _ \<Rightarrow> cbor_type_error v ''i64'')"

definition i64_to_cbor_value :: "i64 \<Rightarrow> CborError + Value" where
  "i64_to_cbor_value x = Inr (Value_Integer (sint x))"

definition u32_from_cbor_value :: "Value \<Rightarrow> CborError + u32" where
  "u32_from_cbor_value v = (case v of
     Value_Integer i \<Rightarrow>
       if 0 \<le> i \<and> i < 2 ^ 32 then Inr (of_int i) else Inl CborError_OutOfRangeIntegerValue
   | _ \<Rightarrow> cbor_type_error v ''u32'')"

definition u32_to_cbor_value :: "u32 \<Rightarrow> CborError + Value" where
  "u32_to_cbor_value x = Inr (Value_Integer (uint x))"

definition bool_from_cbor_value :: "Value \<Rightarrow> CborError + bool" where
  "bool_from_cbor_value v = (case v of Value_Bool b \<Rightarrow> Inr b | _ \<Rightarrow> cbor_type_error v ''bool'')"

definition bool_to_cbor_value :: "bool \<Rightarrow> CborError + Value" where
  "bool_to_cbor_value b = Inr (Value_Bool b)"

definition unit_from_cbor_value :: "Value \<Rightarrow> CborError + unit" where
  "unit_from_cbor_value v = (case v of Value_Null \<Rightarrow> Inr () | _ \<Rightarrow> cbor_type_error v ''null'')"

definition unit_to_cbor_value :: "unit \<Rightarrow> CborError + Value" where
  "unit_to_cbor_value u = Inr Value_Null"

definition bytes_from_cbor_value :: "Value \<Rightarrow> CborError + bytes" where
  "bytes_from_cbor_value v =
     (case v of Value_Bytes bstr \<Rightarrow> Inr bstr | _ \<Rightarrow> cbor_type_error v ''bstr'')"

definition bytes_to_cbor_value :: "bytes \<Rightarrow> CborError + Value" where
  "bytes_to_cbor_value b = Inr (Value_Bytes b)"

definition array_from_cbor_value :: "nat \<Rightarrow> Value \<Rightarrow> CborError + bytes" where
  "array_from_cbor_value n v = (case v of
     Value_Bytes bstr \<Rightarrow>
       if length bstr = n then Inr bstr
       else Inl (CborError_UnexpectedItem ''bstr other size'' ''bstr specific size'')
   | _ \<Rightarrow> cbor_type_error v ''bstr'')"

definition string_from_cbor_value :: "Value \<Rightarrow> CborError + string" where
  "string_from_cbor_value v =
     (case v of Value_Text s \<Rightarrow> Inr s | _ \<Rightarrow> cbor_type_error v ''tstr'')"

definition string_to_cbor_value :: "string \<Rightarrow> CborError + Value" where
  "string_to_cbor_value s = Inr (Value_Text s)"

section \<open>Options, vectors, enums\<close>

definition option_from_cbor_value ::
    "(Value \<Rightarrow> CborError + 'a) \<Rightarrow> Value \<Rightarrow> CborError + 'a option" where
  "option_from_cbor_value f v = (case v of
     Value_Array arr \<Rightarrow>
       (case arr of
          [] \<Rightarrow> Inr None
        | [x] \<Rightarrow> map_ok Some (f x)
        | _ \<Rightarrow> Inl (CborError_UnexpectedItem ''arr len >1'' ''arr len 0/1''))
   | _ \<Rightarrow> Inl (CborError_UnexpectedItem ''non-arr'' ''arr''))"

definition option_to_cbor_value ::
    "('a \<Rightarrow> CborError + Value) \<Rightarrow> 'a option \<Rightarrow> CborError + Value" where
  "option_to_cbor_value g x = (case x of
     Some t \<Rightarrow> map_ok (\<lambda>v. Value_Array [v]) (g t)
   | None \<Rightarrow> Inr (Value_Array []))"

definition vec_from_cbor_value ::
    "(Value \<Rightarrow> CborError + 'a) \<Rightarrow> Value \<Rightarrow> CborError + 'a list" where
  "vec_from_cbor_value f v = (case v of
     Value_Array arr \<Rightarrow> res_collect f arr
   | _ \<Rightarrow> cbor_type_error v ''arr'')"

definition vec_to_cbor_value ::
    "('a \<Rightarrow> CborError + Value) \<Rightarrow> 'a list \<Rightarrow> CborError + Value" where
  "vec_to_cbor_value g xs = map_ok Value_Array (res_collect g xs)"

text \<open>\<open>derive(AsCborValue)\<close> on a C-like enum: the \<open>i32\<close> discriminant.\<close>

definition enum_from_cbor_value ::
    "('a \<Rightarrow> int) \<Rightarrow> 'a list \<Rightarrow> Value \<Rightarrow> CborError + 'a" where
  "enum_from_cbor_value disc variants v = (case v of
     Value_Integer i \<Rightarrow>
       if fits_i32 i
       then ok_or CborError_OutOfRangeIntegerValue (List.find (\<lambda>x. i = disc x) variants)
       else Inl CborError_OutOfRangeIntegerValue
   | _ \<Rightarrow> cbor_type_error v ''int'')"

definition enum_to_cbor_value :: "('a \<Rightarrow> int) \<Rightarrow> 'a \<Rightarrow> CborError + Value" where
  "enum_to_cbor_value disc x = Inr (Value_Integer (disc x))"

section \<open>Key parameters\<close>

text \<open>A boolean tag is present only when true.\<close>

definition check_bool :: "Value \<Rightarrow> CborError + unit" where
  "check_bool v = (case v of
     Value_Bool b \<Rightarrow>
       if b then Inr () else Inl (CborError_UnexpectedItem ''false'' ''true'')
   | _ \<Rightarrow> cbor_type_error v ''true'')"

definition KeySizeInBits_from_cbor_value :: "Value \<Rightarrow> CborError + KeySizeInBits" where
  "KeySizeInBits_from_cbor_value v = map_ok KeySizeInBits (u32_from_cbor_value v)"

primrec KeySizeInBits_to_cbor_value :: "KeySizeInBits \<Rightarrow> CborError + Value" where
  "KeySizeInBits_to_cbor_value (KeySizeInBits v) = u32_to_cbor_value v"

definition RsaExponent_from_cbor_value :: "Value \<Rightarrow> CborError + RsaExponent" where
  "RsaExponent_from_cbor_value v = map_ok RsaExponent (u64_from_cbor_value v)"

primrec RsaExponent_to_cbor_value :: "RsaExponent \<Rightarrow> CborError + Value" where
  "RsaExponent_to_cbor_value (RsaExponent v) = u64_to_cbor_value v"

definition DateTime_from_cbor_value :: "Value \<Rightarrow> CborError + DateTime" where
  "DateTime_from_cbor_value v = map_ok DateTime (i64_from_cbor_value v)"

definition DateTime_to_cbor_value :: "DateTime \<Rightarrow> CborError + Value" where
  "DateTime_to_cbor_value d = i64_to_cbor_value (ms_since_epoch d)"


text \<open>
  The value of a parameter, once its tag is known (the big \<open>match tag\<close> of
  \<open>KeyParam::from_cbor_value\<close>).
\<close>

primrec KeyParam_from_tagged :: "Tag \<Rightarrow> Value \<Rightarrow> CborError + KeyParam" where
  "KeyParam_from_tagged Tag_Algorithm raw =
     map_ok KeyParam_Algorithm (enum_from_cbor_value Algorithm_i32 Algorithm_variants raw)"
| "KeyParam_from_tagged Tag_BlockMode raw =
     map_ok KeyParam_BlockMode (enum_from_cbor_value BlockMode_i32 BlockMode_variants raw)"
| "KeyParam_from_tagged Tag_Padding raw =
     map_ok KeyParam_Padding (enum_from_cbor_value PaddingMode_i32 PaddingMode_variants raw)"
| "KeyParam_from_tagged Tag_Digest raw =
     map_ok KeyParam_Digest (enum_from_cbor_value Digest_i32 Digest_variants raw)"
| "KeyParam_from_tagged Tag_EcCurve raw =
     map_ok KeyParam_EcCurve (enum_from_cbor_value EcCurve_i32 EcCurve_variants raw)"
| "KeyParam_from_tagged Tag_MlDsaVariant raw =
     map_ok KeyParam_MlDsaVariant (enum_from_cbor_value MlDsaVariant_i32 MlDsaVariant_variants raw)"
| "KeyParam_from_tagged Tag_Origin raw =
     map_ok KeyParam_Origin (enum_from_cbor_value KeyOrigin_i32 KeyOrigin_variants raw)"
| "KeyParam_from_tagged Tag_Purpose raw =
     map_ok KeyParam_Purpose (enum_from_cbor_value KeyPurpose_i32 KeyPurpose_variants raw)"
| "KeyParam_from_tagged Tag_KeySize raw =
     map_ok KeyParam_KeySize (KeySizeInBits_from_cbor_value raw)"
| "KeyParam_from_tagged Tag_CallerNonce raw = Inr KeyParam_CallerNonce"
| "KeyParam_from_tagged Tag_MinMacLength raw =
     map_ok KeyParam_MinMacLength (u32_from_cbor_value raw)"
| "KeyParam_from_tagged Tag_RsaPublicExponent raw =
     map_ok KeyParam_RsaPublicExponent (RsaExponent_from_cbor_value raw)"
| "KeyParam_from_tagged Tag_IncludeUniqueId raw = map_ok (\<lambda>_. KeyParam_IncludeUniqueId) (check_bool raw)"
| "KeyParam_from_tagged Tag_RsaOaepMgfDigest raw =
     map_ok KeyParam_RsaOaepMgfDigest (enum_from_cbor_value Digest_i32 Digest_variants raw)"
| "KeyParam_from_tagged Tag_BootloaderOnly raw = map_ok (\<lambda>_. KeyParam_BootloaderOnly) (check_bool raw)"
| "KeyParam_from_tagged Tag_RollbackResistance raw = map_ok (\<lambda>_. KeyParam_RollbackResistance) (check_bool raw)"
| "KeyParam_from_tagged Tag_EarlyBootOnly raw = map_ok (\<lambda>_. KeyParam_EarlyBootOnly) (check_bool raw)"
| "KeyParam_from_tagged Tag_ActiveDatetime raw =
     map_ok KeyParam_ActiveDatetime (DateTime_from_cbor_value raw)"
| "KeyParam_from_tagged Tag_OriginationExpireDatetime raw =
     map_ok KeyParam_OriginationExpireDatetime (DateTime_from_cbor_value raw)"
| "KeyParam_from_tagged Tag_UsageExpireDatetime raw =
     map_ok KeyParam_UsageExpireDatetime (DateTime_from_cbor_value raw)"
| "KeyParam_from_tagged Tag_MaxUsesPerBoot raw =
     map_ok KeyParam_MaxUsesPerBoot (u32_from_cbor_value raw)"
| "KeyParam_from_tagged Tag_UsageCountLimit raw =
     map_ok KeyParam_UsageCountLimit (u32_from_cbor_value raw)"
| "KeyParam_from_tagged Tag_UserId raw =
     map_ok KeyParam_UserId (u32_from_cbor_value raw)"
| "KeyParam_from_tagged Tag_UserSecureId raw =
     map_ok KeyParam_UserSecureId (u64_from_cbor_value raw)"
| "KeyParam_from_tagged Tag_NoAuthRequired raw = map_ok (\<lambda>_. KeyParam_NoAuthRequired) (check_bool raw)"
| "KeyParam_from_tagged Tag_UserAuthType raw =
     map_ok KeyParam_UserAuthType (u32_from_cbor_value raw)"
| "KeyParam_from_tagged Tag_AuthTimeout raw =
     map_ok KeyParam_AuthTimeout (u32_from_cbor_value raw)"
| "KeyParam_from_tagged Tag_AllowWhileOnBody raw = Inr KeyParam_AllowWhileOnBody"
| "KeyParam_from_tagged Tag_TrustedUserPresenceRequired raw = map_ok (\<lambda>_. KeyParam_TrustedUserPresenceRequired) (check_bool raw)"
| "KeyParam_from_tagged Tag_TrustedConfirmationRequired raw = map_ok (\<lambda>_. KeyParam_TrustedConfirmationRequired) (check_bool raw)"
| "KeyParam_from_tagged Tag_UnlockedDeviceRequired raw = map_ok (\<lambda>_. KeyParam_UnlockedDeviceRequired) (check_bool raw)"
| "KeyParam_from_tagged Tag_ApplicationId raw =
     map_ok KeyParam_ApplicationId (bytes_from_cbor_value raw)"
| "KeyParam_from_tagged Tag_ApplicationData raw =
     map_ok KeyParam_ApplicationData (bytes_from_cbor_value raw)"
| "KeyParam_from_tagged Tag_CreationDatetime raw =
     map_ok KeyParam_CreationDatetime (DateTime_from_cbor_value raw)"
| "KeyParam_from_tagged Tag_RootOfTrust raw =
     map_ok KeyParam_RootOfTrust (bytes_from_cbor_value raw)"
| "KeyParam_from_tagged Tag_OsVersion raw =
     map_ok KeyParam_OsVersion (u32_from_cbor_value raw)"
| "KeyParam_from_tagged Tag_OsPatchlevel raw =
     map_ok KeyParam_OsPatchlevel (u32_from_cbor_value raw)"
| "KeyParam_from_tagged Tag_AttestationChallenge raw =
     map_ok KeyParam_AttestationChallenge (bytes_from_cbor_value raw)"
| "KeyParam_from_tagged Tag_AttestationApplicationId raw =
     map_ok KeyParam_AttestationApplicationId (bytes_from_cbor_value raw)"
| "KeyParam_from_tagged Tag_AttestationIdBrand raw =
     map_ok KeyParam_AttestationIdBrand (bytes_from_cbor_value raw)"
| "KeyParam_from_tagged Tag_AttestationIdDevice raw =
     map_ok KeyParam_AttestationIdDevice (bytes_from_cbor_value raw)"
| "KeyParam_from_tagged Tag_AttestationIdProduct raw =
     map_ok KeyParam_AttestationIdProduct (bytes_from_cbor_value raw)"
| "KeyParam_from_tagged Tag_AttestationIdSerial raw =
     map_ok KeyParam_AttestationIdSerial (bytes_from_cbor_value raw)"
| "KeyParam_from_tagged Tag_AttestationIdImei raw =
     map_ok KeyParam_AttestationIdImei (bytes_from_cbor_value raw)"
| "KeyParam_from_tagged Tag_AttestationIdSecondImei raw =
     map_ok KeyParam_AttestationIdSecondImei (bytes_from_cbor_value raw)"
| "KeyParam_from_tagged Tag_AttestationIdMeid raw =
     map_ok KeyParam_AttestationIdMeid (bytes_from_cbor_value raw)"
| "KeyParam_from_tagged Tag_AttestationIdManufacturer raw =
     map_ok KeyParam_AttestationIdManufacturer (bytes_from_cbor_value raw)"
| "KeyParam_from_tagged Tag_AttestationIdModel raw =
     map_ok KeyParam_AttestationIdModel (bytes_from_cbor_value raw)"
| "KeyParam_from_tagged Tag_VendorPatchlevel raw =
     map_ok KeyParam_VendorPatchlevel (u32_from_cbor_value raw)"
| "KeyParam_from_tagged Tag_BootPatchlevel raw =
     map_ok KeyParam_BootPatchlevel (u32_from_cbor_value raw)"
| "KeyParam_from_tagged Tag_DeviceUniqueAttestation raw = map_ok (\<lambda>_. KeyParam_DeviceUniqueAttestation) (check_bool raw)"
| "KeyParam_from_tagged Tag_StorageKey raw = Inr KeyParam_StorageKey"
| "KeyParam_from_tagged Tag_Nonce raw =
     map_ok KeyParam_Nonce (bytes_from_cbor_value raw)"
| "KeyParam_from_tagged Tag_MacLength raw =
     map_ok KeyParam_MacLength (u32_from_cbor_value raw)"
| "KeyParam_from_tagged Tag_ResetSinceIdRotation raw = map_ok (\<lambda>_. KeyParam_ResetSinceIdRotation) (check_bool raw)"
| "KeyParam_from_tagged Tag_CertificateSerial raw =
     map_ok KeyParam_CertificateSerial (bytes_from_cbor_value raw)"
| "KeyParam_from_tagged Tag_CertificateSubject raw =
     map_ok KeyParam_CertificateSubject (bytes_from_cbor_value raw)"
| "KeyParam_from_tagged Tag_CertificateNotBefore raw =
     map_ok KeyParam_CertificateNotBefore (DateTime_from_cbor_value raw)"
| "KeyParam_from_tagged Tag_CertificateNotAfter raw =
     map_ok KeyParam_CertificateNotAfter (DateTime_from_cbor_value raw)"
| "KeyParam_from_tagged Tag_MaxBootLevel raw =
     map_ok KeyParam_MaxBootLevel (u32_from_cbor_value raw)"
| "KeyParam_from_tagged Tag_ModuleHash raw =
     map_ok KeyParam_ModuleHash (bytes_from_cbor_value raw)"
| "KeyParam_from_tagged Tag_Invalid raw =
     Inl (CborError_UnexpectedItem ''tag'' ''known tag'')"
| "KeyParam_from_tagged Tag_HardwareType raw =
     Inl (CborError_UnexpectedItem ''tag'' ''known tag'')"
| "KeyParam_from_tagged Tag_MinSecondsBetweenOps raw =
     Inl (CborError_UnexpectedItem ''tag'' ''known tag'')"
| "KeyParam_from_tagged Tag_UniqueId raw =
     Inl (CborError_UnexpectedItem ''tag'' ''known tag'')"
| "KeyParam_from_tagged Tag_IdentityCredentialKey raw =
     Inl (CborError_UnexpectedItem ''tag'' ''known tag'')"
| "KeyParam_from_tagged Tag_AssociatedData raw =
     Inl (CborError_UnexpectedItem ''tag'' ''known tag'')"
| "KeyParam_from_tagged Tag_ConfirmationToken raw =
     Inl (CborError_UnexpectedItem ''tag'' ''known tag'')"

definition KeyParam_from_cbor_value :: "Value \<Rightarrow> CborError + KeyParam" where
  "KeyParam_from_cbor_value v = (case v of
     Value_Array a \<Rightarrow>
       if length a \<noteq> 2 then Inl (CborError_UnexpectedItem ''arr'' ''arr len 2'')
       else res_bind (enum_from_cbor_value Tag_i32 Tag_variants (a ! 0))
              (\<lambda>tag. KeyParam_from_tagged tag (a ! 1))
   | _ \<Rightarrow> cbor_type_error v ''arr'')"

primrec KeyParam_to_tagged :: "KeyParam \<Rightarrow> Tag \<times> (CborError + Value)" where
  "KeyParam_to_tagged (KeyParam_Algorithm v) = (Tag_Algorithm, enum_to_cbor_value Algorithm_i32 v)"
| "KeyParam_to_tagged (KeyParam_BlockMode v) = (Tag_BlockMode, enum_to_cbor_value BlockMode_i32 v)"
| "KeyParam_to_tagged (KeyParam_Padding v) = (Tag_Padding, enum_to_cbor_value PaddingMode_i32 v)"
| "KeyParam_to_tagged (KeyParam_Digest v) = (Tag_Digest, enum_to_cbor_value Digest_i32 v)"
| "KeyParam_to_tagged (KeyParam_EcCurve v) = (Tag_EcCurve, enum_to_cbor_value EcCurve_i32 v)"
| "KeyParam_to_tagged (KeyParam_MlDsaVariant v) = (Tag_MlDsaVariant, enum_to_cbor_value MlDsaVariant_i32 v)"
| "KeyParam_to_tagged (KeyParam_Origin v) = (Tag_Origin, enum_to_cbor_value KeyOrigin_i32 v)"
| "KeyParam_to_tagged (KeyParam_Purpose v) = (Tag_Purpose, enum_to_cbor_value KeyPurpose_i32 v)"
| "KeyParam_to_tagged (KeyParam_KeySize v) = (Tag_KeySize, KeySizeInBits_to_cbor_value v)"
| "KeyParam_to_tagged (KeyParam_CallerNonce) = (Tag_CallerNonce, bool_to_cbor_value True)"
| "KeyParam_to_tagged (KeyParam_MinMacLength v) = (Tag_MinMacLength, u32_to_cbor_value v)"
| "KeyParam_to_tagged (KeyParam_RsaPublicExponent v) = (Tag_RsaPublicExponent, RsaExponent_to_cbor_value v)"
| "KeyParam_to_tagged (KeyParam_IncludeUniqueId) = (Tag_IncludeUniqueId, bool_to_cbor_value True)"
| "KeyParam_to_tagged (KeyParam_RsaOaepMgfDigest v) = (Tag_RsaOaepMgfDigest, enum_to_cbor_value Digest_i32 v)"
| "KeyParam_to_tagged (KeyParam_BootloaderOnly) = (Tag_BootloaderOnly, bool_to_cbor_value True)"
| "KeyParam_to_tagged (KeyParam_RollbackResistance) = (Tag_RollbackResistance, bool_to_cbor_value True)"
| "KeyParam_to_tagged (KeyParam_EarlyBootOnly) = (Tag_EarlyBootOnly, bool_to_cbor_value True)"
| "KeyParam_to_tagged (KeyParam_ActiveDatetime v) = (Tag_ActiveDatetime, DateTime_to_cbor_value v)"
| "KeyParam_to_tagged (KeyParam_OriginationExpireDatetime v) = (Tag_OriginationExpireDatetime, DateTime_to_cbor_value v)"
| "KeyParam_to_tagged (KeyParam_UsageExpireDatetime v) = (Tag_UsageExpireDatetime, DateTime_to_cbor_value v)"
| "KeyParam_to_tagged (KeyParam_MaxUsesPerBoot v) = (Tag_MaxUsesPerBoot, u32_to_cbor_value v)"
| "KeyParam_to_tagged (KeyParam_UsageCountLimit v) = (Tag_UsageCountLimit, u32_to_cbor_value v)"
| "KeyParam_to_tagged (KeyParam_UserId v) = (Tag_UserId, u32_to_cbor_value v)"
| "KeyParam_to_tagged (KeyParam_UserSecureId v) = (Tag_UserSecureId, u64_to_cbor_value v)"
| "KeyParam_to_tagged (KeyParam_NoAuthRequired) = (Tag_NoAuthRequired, bool_to_cbor_value True)"
| "KeyParam_to_tagged (KeyParam_UserAuthType v) = (Tag_UserAuthType, u32_to_cbor_value v)"
| "KeyParam_to_tagged (KeyParam_AuthTimeout v) = (Tag_AuthTimeout, u32_to_cbor_value v)"
| "KeyParam_to_tagged (KeyParam_AllowWhileOnBody) = (Tag_AllowWhileOnBody, bool_to_cbor_value True)"
| "KeyParam_to_tagged (KeyParam_TrustedUserPresenceRequired) = (Tag_TrustedUserPresenceRequired, bool_to_cbor_value True)"
| "KeyParam_to_tagged (KeyParam_TrustedConfirmationRequired) = (Tag_TrustedConfirmationRequired, bool_to_cbor_value True)"
| "KeyParam_to_tagged (KeyParam_UnlockedDeviceRequired) = (Tag_UnlockedDeviceRequired, bool_to_cbor_value True)"
| "KeyParam_to_tagged (KeyParam_ApplicationId v) = (Tag_ApplicationId, bytes_to_cbor_value v)"
| "KeyParam_to_tagged (KeyParam_ApplicationData v) = (Tag_ApplicationData, bytes_to_cbor_value v)"
| "KeyParam_to_tagged (KeyParam_CreationDatetime v) = (Tag_CreationDatetime, DateTime_to_cbor_value v)"
| "KeyParam_to_tagged (KeyParam_RootOfTrust v) = (Tag_RootOfTrust, bytes_to_cbor_value v)"
| "KeyParam_to_tagged (KeyParam_OsVersion v) = (Tag_OsVersion, u32_to_cbor_value v)"
| "KeyParam_to_tagged (KeyParam_OsPatchlevel v) = (Tag_OsPatchlevel, u32_to_cbor_value v)"
| "KeyParam_to_tagged (KeyParam_AttestationChallenge v) = (Tag_AttestationChallenge, bytes_to_cbor_value v)"
| "KeyParam_to_tagged (KeyParam_AttestationApplicationId v) = (Tag_AttestationApplicationId, bytes_to_cbor_value v)"
| "KeyParam_to_tagged (KeyParam_AttestationIdBrand v) = (Tag_AttestationIdBrand, bytes_to_cbor_value v)"
| "KeyParam_to_tagged (KeyParam_AttestationIdDevice v) = (Tag_AttestationIdDevice, bytes_to_cbor_value v)"
| "KeyParam_to_tagged (KeyParam_AttestationIdProduct v) = (Tag_AttestationIdProduct, bytes_to_cbor_value v)"
| "KeyParam_to_tagged (KeyParam_AttestationIdSerial v) = (Tag_AttestationIdSerial, bytes_to_cbor_value v)"
| "KeyParam_to_tagged (KeyParam_AttestationIdImei v) = (Tag_AttestationIdImei, bytes_to_cbor_value v)"
| "KeyParam_to_tagged (KeyParam_AttestationIdSecondImei v) = (Tag_AttestationIdSecondImei, bytes_to_cbor_value v)"
| "KeyParam_to_tagged (KeyParam_AttestationIdMeid v) = (Tag_AttestationIdMeid, bytes_to_cbor_value v)"
| "KeyParam_to_tagged (KeyParam_AttestationIdManufacturer v) = (Tag_AttestationIdManufacturer, bytes_to_cbor_value v)"
| "KeyParam_to_tagged (KeyParam_AttestationIdModel v) = (Tag_AttestationIdModel, bytes_to_cbor_value v)"
| "KeyParam_to_tagged (KeyParam_VendorPatchlevel v) = (Tag_VendorPatchlevel, u32_to_cbor_value v)"
| "KeyParam_to_tagged (KeyParam_BootPatchlevel v) = (Tag_BootPatchlevel, u32_to_cbor_value v)"
| "KeyParam_to_tagged (KeyParam_DeviceUniqueAttestation) = (Tag_DeviceUniqueAttestation, bool_to_cbor_value True)"
| "KeyParam_to_tagged (KeyParam_StorageKey) = (Tag_StorageKey, bool_to_cbor_value True)"
| "KeyParam_to_tagged (KeyParam_Nonce v) = (Tag_Nonce, bytes_to_cbor_value v)"
| "KeyParam_to_tagged (KeyParam_MacLength v) = (Tag_MacLength, u32_to_cbor_value v)"
| "KeyParam_to_tagged (KeyParam_ResetSinceIdRotation) = (Tag_ResetSinceIdRotation, bool_to_cbor_value True)"
| "KeyParam_to_tagged (KeyParam_CertificateSerial v) = (Tag_CertificateSerial, bytes_to_cbor_value v)"
| "KeyParam_to_tagged (KeyParam_CertificateSubject v) = (Tag_CertificateSubject, bytes_to_cbor_value v)"
| "KeyParam_to_tagged (KeyParam_CertificateNotBefore v) = (Tag_CertificateNotBefore, DateTime_to_cbor_value v)"
| "KeyParam_to_tagged (KeyParam_CertificateNotAfter v) = (Tag_CertificateNotAfter, DateTime_to_cbor_value v)"
| "KeyParam_to_tagged (KeyParam_MaxBootLevel v) = (Tag_MaxBootLevel, u32_to_cbor_value v)"
| "KeyParam_to_tagged (KeyParam_ModuleHash v) = (Tag_ModuleHash, bytes_to_cbor_value v)"

definition KeyParam_to_cbor_value :: "KeyParam \<Rightarrow> CborError + Value" where
  "KeyParam_to_cbor_value p =
     (let (tag, res) = KeyParam_to_tagged p in
      res_bind res (\<lambda>val.
      res_bind (enum_to_cbor_value Tag_i32 tag) (\<lambda>t.
      Inr (Value_Array [t, val]))))"

section \<open>Structures that hold parameters\<close>

text \<open>
  \<open>derive(AsCborValue)\<close> on a struct with named fields: an array of the fields in order,
  read back in reverse order.
\<close>

definition KeyCharacteristics_from_cbor_value :: "Value \<Rightarrow> CborError + KeyCharacteristics" where
  "KeyCharacteristics_from_cbor_value v = (case v of
     Value_Array a \<Rightarrow>
       if length a \<noteq> 2 then Inl (CborError_UnexpectedItem ''arr'' ''arr len 2'')
       else res_bind (vec_from_cbor_value KeyParam_from_cbor_value (a ! 1)) (\<lambda>auths.
            res_bind (enum_from_cbor_value SecurityLevel_i32 SecurityLevel_variants (a ! 0)) (\<lambda>lvl.
            Inr \<lparr>security_level = lvl, authorizations = auths\<rparr>))
   | _ \<Rightarrow> cbor_type_error v ''arr'')"

definition KeyCharacteristics_to_cbor_value :: "KeyCharacteristics \<Rightarrow> CborError + Value" where
  "KeyCharacteristics_to_cbor_value k =
     res_bind (enum_to_cbor_value SecurityLevel_i32 (security_level k)) (\<lambda>lvl.
     res_bind (vec_to_cbor_value KeyParam_to_cbor_value (authorizations k)) (\<lambda>auths.
     Inr (Value_Array [lvl, auths])))"

section \<open>The contract of the trait\<close>

text \<open>
  \<open>as_cbor\<close>: encoding succeeds and decoding returns the value.  \<open>strict_cbor\<close>: moreover the
  decoder accepts nothing but encodings.
\<close>

locale as_cbor =
  fixes to_v :: "'a \<Rightarrow> CborError + Value"
    and from_v :: "Value \<Rightarrow> CborError + 'a"
  assumes round_trip: "\<exists>v. to_v x = Inr v \<and> from_v v = Inr x"
begin

lemma round_trip_bind: "res_bind (to_v x) from_v = Inr x"
  using round_trip[of x] by auto

lemma to_v_inject: "to_v x = to_v y \<longleftrightarrow> x = y"
  by (metis round_trip_bind sum.inject(2))

lemma encodes: "\<exists>v. to_v x = Inr v"
  using round_trip by blast

lemma decode_encoded: "to_v x = Inr v \<Longrightarrow> from_v v = Inr x"
  using round_trip[of x] by auto

lemma option_round_trip:
  "\<exists>v. option_to_cbor_value to_v x = Inr v \<and> option_from_cbor_value from_v v = Inr x"
proof (cases x)
  case (Some t)
  with round_trip[of t] show ?thesis
    by (auto simp: option_to_cbor_value_def option_from_cbor_value_def)
qed (simp add: option_to_cbor_value_def option_from_cbor_value_def)

lemma collect_round_trip:
  "\<exists>vs. res_collect to_v xs = Inr vs \<and> res_collect from_v vs = Inr xs"
proof (induction xs)
  case (Cons x xs)
  with round_trip[of x] show ?case by fastforce
qed simp

lemma vec_round_trip:
  "\<exists>v. vec_to_cbor_value to_v xs = Inr v \<and> vec_from_cbor_value from_v v = Inr xs"
  using collect_round_trip[of xs] by (auto simp: vec_to_cbor_value_def vec_from_cbor_value_def)

end

locale strict_cbor = as_cbor +
  assumes canonical: "from_v v = Inr x \<Longrightarrow> to_v x = Inr v"
begin

lemma decode_iff: "from_v v = Inr x \<longleftrightarrow> to_v x = Inr v"
  using canonical decode_encoded by blast

lemma vec_canonical:
  "vec_from_cbor_value from_v v = Inr xs \<Longrightarrow> vec_to_cbor_value to_v xs = Inr v"
  by (cases v)
    (auto simp: vec_from_cbor_value_def vec_to_cbor_value_def cbor_type_error_def
      res_collect_Inr_iff list_all2_conv_all_nth res_simps decode_iff)

end

text \<open>Every C-like enum meets the strict contract, whatever its discriminants.\<close>

lemma enum_from_cbor_value_iff:
  assumes "wire_enum disc variants"
  shows "enum_from_cbor_value disc variants v = Inr x \<longleftrightarrow> v = Value_Integer (disc x)"
proof -
  have n: "List.find (\<lambda>y. i = disc y) variants = Some x \<longleftrightarrow> i = disc x" for i
    using wire_enum.n_Some_iff[OF assms, of i x] by (simp add: enum_n_def eq_commute[of i])
  show ?thesis
    using wire_enum.disc_fits[OF assms, of x]
    by (cases v) (auto simp: enum_from_cbor_value_def cbor_type_error_def res_simps n)
qed

sublocale wire_enum \<subseteq> cb: strict_cbor "enum_to_cbor_value disc" "enum_from_cbor_value disc variants"
  by unfold_locales
    (auto simp: enum_to_cbor_value_def enum_from_cbor_value_iff wire_enum_axioms)

context wire_enum begin

lemma decode_disc [simp]: "enum_from_cbor_value disc variants (Value_Integer (disc x)) = Inr x"
  by (simp add: enum_from_cbor_value_iff wire_enum_axioms)

lemma decode_enum_iff: "enum_from_cbor_value disc variants v = Inr x \<longleftrightarrow> v = Value_Integer (disc x)"
  by (simp add: enum_from_cbor_value_iff wire_enum_axioms)

end

section \<open>The implementations meet the contract\<close>

interpretation u64_cbor: strict_cbor u64_to_cbor_value u64_from_cbor_value
proof unfold_locales
  fix x :: u64
  show "\<exists>v. u64_to_cbor_value x = Inr v \<and> u64_from_cbor_value v = Inr x"
    using unsigned_less[of x, where ?'a = int]
    by (simp add: u64_to_cbor_value_def u64_from_cbor_value_def)
next
  fix v and x :: u64
  show "u64_from_cbor_value v = Inr x \<Longrightarrow> u64_to_cbor_value x = Inr v"
    by (cases v) (auto simp: u64_to_cbor_value_def u64_from_cbor_value_def cbor_type_error_def
        word_of_int_inverse take_bit_int_eq_self uint_word_of_int split: if_splits)
qed

interpretation u32_cbor: strict_cbor u32_to_cbor_value u32_from_cbor_value
proof unfold_locales
  fix x :: u32
  show "\<exists>v. u32_to_cbor_value x = Inr v \<and> u32_from_cbor_value v = Inr x"
    using unsigned_less[of x, where ?'a = int]
    by (simp add: u32_to_cbor_value_def u32_from_cbor_value_def)
next
  fix v and x :: u32
  show "u32_from_cbor_value v = Inr x \<Longrightarrow> u32_to_cbor_value x = Inr v"
    by (cases v) (auto simp: u32_to_cbor_value_def u32_from_cbor_value_def cbor_type_error_def
        uint_word_of_int split: if_splits)
qed

interpretation i64_cbor: strict_cbor i64_to_cbor_value i64_from_cbor_value
proof unfold_locales
  fix x :: i64
  show "\<exists>v. i64_to_cbor_value x = Inr v \<and> i64_from_cbor_value v = Inr x"
    using sint_greater_eq[of x] sint_less[of x]
    by (simp add: i64_to_cbor_value_def i64_from_cbor_value_def)
next
  fix v and x :: i64
  show "i64_from_cbor_value v = Inr x \<Longrightarrow> i64_to_cbor_value x = Inr v"
    by (cases v) (auto simp: i64_to_cbor_value_def i64_from_cbor_value_def cbor_type_error_def
        signed_take_bit_int_eq_self signed_of_int split: if_splits)
qed

interpretation bool_cbor: strict_cbor bool_to_cbor_value bool_from_cbor_value
  by unfold_locales
    (auto simp: bool_to_cbor_value_def bool_from_cbor_value_def cbor_type_error_def
      split: Value.splits)

interpretation bytes_cbor: strict_cbor bytes_to_cbor_value bytes_from_cbor_value
  by unfold_locales
    (auto simp: bytes_to_cbor_value_def bytes_from_cbor_value_def cbor_type_error_def
      split: Value.splits)

interpretation string_cbor: strict_cbor string_to_cbor_value string_from_cbor_value
  by unfold_locales
    (auto simp: string_to_cbor_value_def string_from_cbor_value_def cbor_type_error_def
      split: Value.splits)

interpretation unit_cbor: strict_cbor unit_to_cbor_value unit_from_cbor_value
  by unfold_locales
    (auto simp: unit_to_cbor_value_def unit_from_cbor_value_def cbor_type_error_def
      split: Value.splits)

lemma newtype_strict:
  assumes "strict_cbor g f" and "\<And>a. to' (C a) = g a" and "\<And>v. from' v = map_ok C (f v)"
    and "\<And>x. \<exists>a. x = C a"
  shows "strict_cbor to' from'"
proof unfold_locales
  fix x
  obtain a where "x = C a" using assms(4) by blast
  with as_cbor.round_trip[OF strict_cbor.axioms(1)[OF assms(1)], of a]
  show "\<exists>v. to' x = Inr v \<and> from' v = Inr x"
    by (auto simp: assms(2,3))
next
  fix v x assume "from' v = Inr x"
  then show "to' x = Inr v"
    using strict_cbor.canonical[OF assms(1)] by (auto simp: assms(2,3) res_simps)
qed

interpretation KeySizeInBits_cbor:
  strict_cbor KeySizeInBits_to_cbor_value KeySizeInBits_from_cbor_value
  by (rule newtype_strict[OF u32_cbor.strict_cbor_axioms])
    (simp_all add: KeySizeInBits_from_cbor_value_def, metis KeySizeInBits.exhaust)

interpretation RsaExponent_cbor:
  strict_cbor RsaExponent_to_cbor_value RsaExponent_from_cbor_value
  by (rule newtype_strict[OF u64_cbor.strict_cbor_axioms])
    (simp_all add: RsaExponent_from_cbor_value_def, metis RsaExponent.exhaust)

interpretation DateTime_cbor:
  strict_cbor DateTime_to_cbor_value DateTime_from_cbor_value
  by (rule newtype_strict[OF i64_cbor.strict_cbor_axioms])
    (simp_all add: DateTime_from_cbor_value_def DateTime_to_cbor_value_def, metis DateTime.exhaust)

section \<open>Key parameters\<close>

text \<open>Facts of the payload types, for the case analyses over the 68 tags.\<close>

lemmas payload_decode =
  u64_cbor.decode_iff u32_cbor.decode_iff bytes_cbor.decode_iff KeySizeInBits_cbor.decode_iff
  RsaExponent_cbor.decode_iff DateTime_cbor.decode_iff we_Algorithm.cb.decode_iff
  we_BlockMode.cb.decode_iff we_Digest.cb.decode_iff we_EcCurve.cb.decode_iff
  we_MlDsaVariant.cb.decode_iff we_KeyOrigin.cb.decode_iff we_KeyPurpose.cb.decode_iff
  we_PaddingMode.cb.decode_iff

lemmas payload_encodes =
  u64_cbor.encodes u32_cbor.encodes bytes_cbor.encodes KeySizeInBits_cbor.encodes
  RsaExponent_cbor.encodes DateTime_cbor.encodes we_Algorithm.cb.encodes
  we_BlockMode.cb.encodes we_Digest.cb.encodes we_EcCurve.cb.encodes
  we_MlDsaVariant.cb.encodes we_KeyOrigin.cb.encodes we_KeyPurpose.cb.encodes
  we_PaddingMode.cb.encodes

lemma check_bool_iff: "check_bool v = Inr u \<longleftrightarrow> v = Value_Bool True"
  by (cases v) (auto simp: check_bool_def cbor_type_error_def)

lemma KeyParam_to_tagged_tag: "fst (KeyParam_to_tagged p) = KeyParam_tag p"
  by (cases p) simp_all

text \<open>The three boolean tags whose payload the decoder does not look at.\<close>

definition unchecked_bool_tags :: "Tag list" where
  "unchecked_bool_tags = [Tag_CallerNonce, Tag_AllowWhileOnBody, Tag_StorageKey]"

lemma KeyParam_tagged_canonical:
  assumes "KeyParam_from_tagged t raw = Inr p" and "t \<notin> set unchecked_bool_tags"
  shows "KeyParam_to_tagged p = (t, Inr raw)"
  using assms
  by (cases t) (auto simp: unchecked_bool_tags_def res_simps payload_decode check_bool_iff
      bool_to_cbor_value_def)

lemma KeyParam_tagged_unchecked:
  assumes "KeyParam_from_tagged t raw = Inr p" and "t \<in> set unchecked_bool_tags"
  shows "KeyParam_to_tagged p = (t, Inr (Value_Bool True))"
  using assms by (auto simp: unchecked_bool_tags_def bool_to_cbor_value_def)

lemma KeyParam_tagged_round_trip:
  "\<exists>v. KeyParam_to_tagged p = (KeyParam_tag p, Inr v) \<and> KeyParam_from_tagged (KeyParam_tag p) v = Inr p"
  by (cases p)
    (simp_all add: res_simps payload_decode payload_encodes bool_to_cbor_value_def check_bool_def)

interpretation KeyParam_cbor: as_cbor KeyParam_to_cbor_value KeyParam_from_cbor_value
proof
  fix p
  show "\<exists>v. KeyParam_to_cbor_value p = Inr v \<and> KeyParam_from_cbor_value v = Inr p"
    using KeyParam_tagged_round_trip[of p]
    by (auto simp: KeyParam_to_cbor_value_def KeyParam_from_cbor_value_def enum_to_cbor_value_def)
qed

lemma KeyParam_from_cbor_valueE:
  assumes "KeyParam_from_cbor_value v = Inr p"
  obtains tag raw where "v = Value_Array [Value_Integer (Tag_i32 tag), raw]"
    and "KeyParam_from_tagged tag raw = Inr p"
proof -
  from assms obtain a where a: "v = Value_Array a" "length a = 2"
    by (auto simp: KeyParam_from_cbor_value_def cbor_type_error_def split: Value.splits if_splits)
  then obtain t raw where "a = [t, raw]"
    by (auto simp: length_Suc_conv numeral_2_eq_2)
  with a assms that show thesis
    by (auto simp: KeyParam_from_cbor_value_def res_simps we_Tag.decode_enum_iff)
qed

text \<open>
  Encoding any key parameter to CBOR succeeds, and decoding the item gives the parameter
  back, so that no parameter is lost or changed between the HAL and the trusted application.
\<close>

theorem KeyParam_cbor_round_trip:
  "\<exists>v. KeyParam_to_cbor_value p = Inr v \<and> KeyParam_from_cbor_value v = Inr p"
  by (rule KeyParam_cbor.round_trip)

text \<open>
  C29: The decoder of key parameters is strict: an item it accepts is the encoding of the
  parameter it returns, except for the tags CALLER-NONCE, ALLOW-WHILE-ON-BODY and STORAGE-KEY,
  where the second element is ignored: any item there, such as the boolean false, is accepted.
\<close>

theorem KeyParam_cbor_strict:
  "KeyParam_from_cbor_value v = Inr p \<longleftrightarrow>
     KeyParam_to_cbor_value p = Inr v \<or>
     (\<exists>raw. v = Value_Array [Value_Integer (Tag_i32 (KeyParam_tag p)), raw] \<and>
            KeyParam_tag p \<in> set unchecked_bool_tags)"
  (is "?dec \<longleftrightarrow> ?enc \<or> ?loose")
proof
  assume ?dec
  then obtain tag raw where v: "v = Value_Array [Value_Integer (Tag_i32 tag), raw]"
    and p: "KeyParam_from_tagged tag raw = Inr p"
    by (rule KeyParam_from_cbor_valueE)
  show "?enc \<or> ?loose"
  proof (cases "tag \<in> set unchecked_bool_tags")
    case True
    then have "KeyParam_tag p = tag"
      using KeyParam_tagged_unchecked[OF p] KeyParam_to_tagged_tag[of p] by simp
    with True v show ?thesis by simp
  next
    case False
    with v show ?thesis
      using KeyParam_tagged_canonical[OF p]
      by (simp add: KeyParam_to_cbor_value_def enum_to_cbor_value_def)
  qed
next
  assume "?enc \<or> ?loose"
  then show ?dec
  proof
    assume ?loose
    then show ?dec
      by (cases p) (auto simp: unchecked_bool_tags_def KeyParam_from_cbor_value_def
          we_Tag.decode_disc[of "Tag_CallerNonce", simplified]
          we_Tag.decode_disc[of "Tag_AllowWhileOnBody", simplified]
          we_Tag.decode_disc[of "Tag_StorageKey", simplified])
  qed (rule KeyParam_cbor.decode_encoded)
qed

text \<open>Characteristics inherit the round trip from their parameters.\<close>

interpretation KeyCharacteristics_cbor:
  as_cbor KeyCharacteristics_to_cbor_value KeyCharacteristics_from_cbor_value
proof
  fix k :: KeyCharacteristics
  obtain v where "vec_to_cbor_value KeyParam_to_cbor_value (authorizations k) = Inr v"
    and "vec_from_cbor_value KeyParam_from_cbor_value v = Inr (authorizations k)"
    using KeyParam_cbor.vec_round_trip by blast
  then show "\<exists>v. KeyCharacteristics_to_cbor_value k = Inr v
               \<and> KeyCharacteristics_from_cbor_value v = Inr k"
    by (simp add: KeyCharacteristics_to_cbor_value_def KeyCharacteristics_from_cbor_value_def
        enum_to_cbor_value_def)
qed

text \<open>
  The list of key characteristics a key is created with survives its encoding: a vector of
  characteristics decodes to itself, in the same order and with the same security levels.
\<close>

theorem KeyCharacteristics_vec_round_trip:
  "\<exists>v. vec_to_cbor_value KeyCharacteristics_to_cbor_value ks = Inr v
     \<and> vec_from_cbor_value KeyCharacteristics_from_cbor_value v = Inr ks"
  by (rule KeyCharacteristics_cbor.vec_round_trip)

end
