(* ===== verification/Tag_Info.thy ===== *)
theory Tag_Info
  imports Keymint_Types
begin

unbundle bit_operations_syntax

text \<open>
  Static information about tags (\<^verbatim>\<open>common/src/tag/info.rs\<close>): the table \<open>INFO\<close>, the
  constant tag lists derived from it, and \<open>DuplicateTagChecker\<close>, which tracks the tags seen so
  far as bits of a \<open>u64\<close>.  The lemmas relate the constant lists to the table and the bit set to
  a set of tags.
\<close>

section \<open>The table\<close>

datatype Characteristic =
    Characteristic_KeyMintEnforced
  | Characteristic_KeyMintHidden
  | Characteristic_KeystoreEnforced
  | Characteristic_BothEnforced
  | Characteristic_NotKeyCharacteristic

datatype OperationParam =
    OperationParam_KeyGenImport
  | OperationParam_CipherExplicitArgOneOf
  | OperationParam_CipherParamOneOf
  | OperationParam_CipherParamExactMatch
  | OperationParam_CipherParam
  | OperationParam_NotOperationParam

datatype ValueLifetime =
    ValueLifetime_FixedAtBoot
  | ValueLifetime_FixedAtStartup
  | ValueLifetime_Variable

datatype CertGenParam =
    CertGenParam_NotRequired
  | CertGenParam_Required
  | CertGenParam_RequiredForAttestation
  | CertGenParam_Optional
  | CertGenParam_OptionalForAttestation
  | CertGenParam_Special

record Info =
  info_name :: string
  tt :: TagType
  ext_asn1_type :: "string option"
  user_can_specify :: bool
  characteristic :: Characteristic
  op_param :: OperationParam
  keymint_auto_adds :: bool
  lifetime :: ValueLifetime
  cert_gen :: CertGenParam
  bit_index :: nat

definition INFO_0 :: "(Tag \<times> Info) list" where
  "INFO_0 = [
    (Tag_Purpose, \<lparr>info_name = ''PURPOSE'', tt = TagType_EnumRep, ext_asn1_type = Some ''SET OF INTEGER'',
       user_can_specify = True, characteristic = Characteristic_KeyMintEnforced,
       op_param = OperationParam_CipherExplicitArgOneOf, keymint_auto_adds = False,
       lifetime = ValueLifetime_Variable, cert_gen = CertGenParam_NotRequired, bit_index = 0\<rparr>),
    (Tag_Algorithm, \<lparr>info_name = ''ALGORITHM'', tt = TagType_Enum, ext_asn1_type = Some ''INTEGER'',
       user_can_specify = True, characteristic = Characteristic_KeyMintEnforced,
       op_param = OperationParam_NotOperationParam, keymint_auto_adds = False,
       lifetime = ValueLifetime_Variable, cert_gen = CertGenParam_NotRequired, bit_index = 1\<rparr>),
    (Tag_KeySize, \<lparr>info_name = ''KEY_SIZE'', tt = TagType_Uint, ext_asn1_type = Some ''INTEGER'',
       user_can_specify = True, characteristic = Characteristic_KeyMintEnforced,
       op_param = OperationParam_NotOperationParam, keymint_auto_adds = False,
       lifetime = ValueLifetime_Variable, cert_gen = CertGenParam_NotRequired, bit_index = 2\<rparr>),
    (Tag_BlockMode, \<lparr>info_name = ''BLOCK_MODE'', tt = TagType_EnumRep, ext_asn1_type = None,
       user_can_specify = True, characteristic = Characteristic_KeyMintEnforced,
       op_param = OperationParam_CipherParamOneOf, keymint_auto_adds = False,
       lifetime = ValueLifetime_Variable, cert_gen = CertGenParam_NotRequired, bit_index = 3\<rparr>),
    (Tag_Digest, \<lparr>info_name = ''DIGEST'', tt = TagType_EnumRep, ext_asn1_type = Some ''SET OF INTEGER'',
       user_can_specify = True, characteristic = Characteristic_KeyMintEnforced,
       op_param = OperationParam_CipherParamOneOf, keymint_auto_adds = False,
       lifetime = ValueLifetime_Variable, cert_gen = CertGenParam_NotRequired, bit_index = 4\<rparr>),
    (Tag_Padding, \<lparr>info_name = ''PADDING'', tt = TagType_EnumRep, ext_asn1_type = Some ''SET OF INTEGER'',
       user_can_specify = True, characteristic = Characteristic_KeyMintEnforced,
       op_param = OperationParam_CipherParamOneOf, keymint_auto_adds = False,
       lifetime = ValueLifetime_Variable, cert_gen = CertGenParam_NotRequired, bit_index = 5\<rparr>),
    (Tag_CallerNonce, \<lparr>info_name = ''CALLER_NONCE'', tt = TagType_Bool, ext_asn1_type = None,
       user_can_specify = True, characteristic = Characteristic_KeyMintEnforced,
       op_param = OperationParam_NotOperationParam, keymint_auto_adds = False,
       lifetime = ValueLifetime_Variable, cert_gen = CertGenParam_NotRequired, bit_index = 6\<rparr>),
    (Tag_MinMacLength, \<lparr>info_name = ''MIN_MAC_LENGTH'', tt = TagType_Uint, ext_asn1_type = None,
       user_can_specify = True, characteristic = Characteristic_KeyMintEnforced,
       op_param = OperationParam_NotOperationParam, keymint_auto_adds = False,
       lifetime = ValueLifetime_Variable, cert_gen = CertGenParam_NotRequired, bit_index = 7\<rparr>),
    (Tag_EcCurve, \<lparr>info_name = ''EC_CURVE'', tt = TagType_Enum, ext_asn1_type = Some ''INTEGER'',
       user_can_specify = True, characteristic = Characteristic_KeyMintEnforced,
       op_param = OperationParam_NotOperationParam, keymint_auto_adds = False,
       lifetime = ValueLifetime_Variable, cert_gen = CertGenParam_NotRequired, bit_index = 8\<rparr>),
    (Tag_RsaPublicExponent, \<lparr>info_name = ''RSA_PUBLIC_EXPONENT'', tt = TagType_Ulong, ext_asn1_type = Some ''INTEGER'',
       user_can_specify = True, characteristic = Characteristic_KeyMintEnforced,
       op_param = OperationParam_NotOperationParam, keymint_auto_adds = False,
       lifetime = ValueLifetime_Variable, cert_gen = CertGenParam_NotRequired, bit_index = 9\<rparr>)]"

definition INFO_1 :: "(Tag \<times> Info) list" where
  "INFO_1 = [
    (Tag_IncludeUniqueId, \<lparr>info_name = ''INCLUDE_UNIQUE_ID'', tt = TagType_Bool, ext_asn1_type = None,
       user_can_specify = True, characteristic = Characteristic_NotKeyCharacteristic,
       op_param = OperationParam_KeyGenImport, keymint_auto_adds = False,
       lifetime = ValueLifetime_Variable, cert_gen = CertGenParam_OptionalForAttestation, bit_index = 10\<rparr>),
    (Tag_RsaOaepMgfDigest, \<lparr>info_name = ''RSA_OAEP_MGF_DIGEST'', tt = TagType_EnumRep, ext_asn1_type = Some ''SET OF INTEGER'',
       user_can_specify = True, characteristic = Characteristic_KeyMintEnforced,
       op_param = OperationParam_CipherParamOneOf, keymint_auto_adds = False,
       lifetime = ValueLifetime_Variable, cert_gen = CertGenParam_NotRequired, bit_index = 11\<rparr>),
    (Tag_BootloaderOnly, \<lparr>info_name = ''BOOTLOADER_ONLY'', tt = TagType_Bool, ext_asn1_type = None,
       user_can_specify = False, characteristic = Characteristic_KeyMintEnforced,
       op_param = OperationParam_NotOperationParam, keymint_auto_adds = False,
       lifetime = ValueLifetime_Variable, cert_gen = CertGenParam_NotRequired, bit_index = 12\<rparr>),
    (Tag_RollbackResistance, \<lparr>info_name = ''ROLLBACK_RESISTANCE'', tt = TagType_Bool, ext_asn1_type = Some ''NULL'',
       user_can_specify = True, characteristic = Characteristic_KeyMintEnforced,
       op_param = OperationParam_NotOperationParam, keymint_auto_adds = False,
       lifetime = ValueLifetime_Variable, cert_gen = CertGenParam_NotRequired, bit_index = 13\<rparr>),
    (Tag_EarlyBootOnly, \<lparr>info_name = ''EARLY_BOOT_ONLY'', tt = TagType_Bool, ext_asn1_type = Some ''NULL'',
       user_can_specify = True, characteristic = Characteristic_KeyMintEnforced,
       op_param = OperationParam_NotOperationParam, keymint_auto_adds = False,
       lifetime = ValueLifetime_Variable, cert_gen = CertGenParam_NotRequired, bit_index = 14\<rparr>),
    (Tag_ActiveDatetime, \<lparr>info_name = ''ACTIVE_DATETIME'', tt = TagType_Date, ext_asn1_type = Some ''INTEGER'',
       user_can_specify = True, characteristic = Characteristic_KeystoreEnforced,
       op_param = OperationParam_NotOperationParam, keymint_auto_adds = False,
       lifetime = ValueLifetime_Variable, cert_gen = CertGenParam_NotRequired, bit_index = 15\<rparr>),
    (Tag_OriginationExpireDatetime, \<lparr>info_name = ''ORIGINATION_EXPIRE_DATETIME'', tt = TagType_Date, ext_asn1_type = Some ''INTEGER'',
       user_can_specify = True, characteristic = Characteristic_KeystoreEnforced,
       op_param = OperationParam_NotOperationParam, keymint_auto_adds = False,
       lifetime = ValueLifetime_Variable, cert_gen = CertGenParam_NotRequired, bit_index = 16\<rparr>),
    (Tag_UsageExpireDatetime, \<lparr>info_name = ''USAGE_EXPIRE_DATETIME'', tt = TagType_Date, ext_asn1_type = Some ''INTEGER'',
       user_can_specify = True, characteristic = Characteristic_KeystoreEnforced,
       op_param = OperationParam_NotOperationParam, keymint_auto_adds = False,
       lifetime = ValueLifetime_Variable, cert_gen = CertGenParam_NotRequired, bit_index = 17\<rparr>),
    (Tag_MaxUsesPerBoot, \<lparr>info_name = ''MAX_USES_PER_BOOT'', tt = TagType_Uint, ext_asn1_type = None,
       user_can_specify = True, characteristic = Characteristic_KeyMintEnforced,
       op_param = OperationParam_NotOperationParam, keymint_auto_adds = False,
       lifetime = ValueLifetime_Variable, cert_gen = CertGenParam_NotRequired, bit_index = 18\<rparr>),
    (Tag_UsageCountLimit, \<lparr>info_name = ''USAGE_COUNT_LIMIT'', tt = TagType_Uint, ext_asn1_type = Some ''INTEGER'',
       user_can_specify = True, characteristic = Characteristic_BothEnforced,
       op_param = OperationParam_NotOperationParam, keymint_auto_adds = False,
       lifetime = ValueLifetime_Variable, cert_gen = CertGenParam_NotRequired, bit_index = 19\<rparr>)]"

definition INFO_2 :: "(Tag \<times> Info) list" where
  "INFO_2 = [
    (Tag_UserId, \<lparr>info_name = ''USER_ID'', tt = TagType_Uint, ext_asn1_type = None,
       user_can_specify = True, characteristic = Characteristic_KeystoreEnforced,
       op_param = OperationParam_NotOperationParam, keymint_auto_adds = False,
       lifetime = ValueLifetime_Variable, cert_gen = CertGenParam_NotRequired, bit_index = 20\<rparr>),
    (Tag_UserSecureId, \<lparr>info_name = ''USER_SECURE_ID'', tt = TagType_UlongRep, ext_asn1_type = None,
       user_can_specify = True, characteristic = Characteristic_KeyMintEnforced,
       op_param = OperationParam_CipherExplicitArgOneOf, keymint_auto_adds = False,
       lifetime = ValueLifetime_Variable, cert_gen = CertGenParam_NotRequired, bit_index = 21\<rparr>),
    (Tag_NoAuthRequired, \<lparr>info_name = ''NO_AUTH_REQUIRED'', tt = TagType_Bool, ext_asn1_type = Some ''NULL'',
       user_can_specify = True, characteristic = Characteristic_KeyMintEnforced,
       op_param = OperationParam_NotOperationParam, keymint_auto_adds = False,
       lifetime = ValueLifetime_Variable, cert_gen = CertGenParam_NotRequired, bit_index = 22\<rparr>),
    (Tag_UserAuthType, \<lparr>info_name = ''USER_AUTH_TYPE'', tt = TagType_Enum, ext_asn1_type = Some ''INTEGER'',
       user_can_specify = True, characteristic = Characteristic_KeyMintEnforced,
       op_param = OperationParam_CipherParamOneOf, keymint_auto_adds = False,
       lifetime = ValueLifetime_Variable, cert_gen = CertGenParam_NotRequired, bit_index = 23\<rparr>),
    (Tag_AuthTimeout, \<lparr>info_name = ''AUTH_TIMEOUT'', tt = TagType_Uint, ext_asn1_type = Some ''INTEGER'',
       user_can_specify = True, characteristic = Characteristic_KeyMintEnforced,
       op_param = OperationParam_NotOperationParam, keymint_auto_adds = False,
       lifetime = ValueLifetime_Variable, cert_gen = CertGenParam_NotRequired, bit_index = 24\<rparr>),
    (Tag_AllowWhileOnBody, \<lparr>info_name = ''ALLOW_WHILE_ON_BODY'', tt = TagType_Bool, ext_asn1_type = Some ''NULL'',
       user_can_specify = True, characteristic = Characteristic_KeystoreEnforced,
       op_param = OperationParam_NotOperationParam, keymint_auto_adds = False,
       lifetime = ValueLifetime_Variable, cert_gen = CertGenParam_NotRequired, bit_index = 25\<rparr>),
    (Tag_TrustedUserPresenceRequired, \<lparr>info_name = ''TRUSTED_USER_PRESENCE_REQUIRED'', tt = TagType_Bool, ext_asn1_type = Some ''NULL'',
       user_can_specify = True, characteristic = Characteristic_KeyMintEnforced,
       op_param = OperationParam_NotOperationParam, keymint_auto_adds = False,
       lifetime = ValueLifetime_Variable, cert_gen = CertGenParam_NotRequired, bit_index = 26\<rparr>),
    (Tag_TrustedConfirmationRequired, \<lparr>info_name = ''TRUSTED_CONFIRMATION_REQUIRED'', tt = TagType_Bool, ext_asn1_type = Some ''NULL'',
       user_can_specify = True, characteristic = Characteristic_KeyMintEnforced,
       op_param = OperationParam_NotOperationParam, keymint_auto_adds = False,
       lifetime = ValueLifetime_Variable, cert_gen = CertGenParam_NotRequired, bit_index = 27\<rparr>),
    (Tag_UnlockedDeviceRequired, \<lparr>info_name = ''UNLOCKED_DEVICE_REQUIRED'', tt = TagType_Bool, ext_asn1_type = Some ''NULL'',
       user_can_specify = True, characteristic = Characteristic_KeystoreEnforced,
       op_param = OperationParam_NotOperationParam, keymint_auto_adds = False,
       lifetime = ValueLifetime_Variable, cert_gen = CertGenParam_NotRequired, bit_index = 28\<rparr>)]"

definition INFO_3 :: "(Tag \<times> Info) list" where
  "INFO_3 = [
    (Tag_ApplicationId, \<lparr>info_name = ''APPLICATION_ID'', tt = TagType_Bytes, ext_asn1_type = None,
       user_can_specify = True, characteristic = Characteristic_KeyMintHidden,
       op_param = OperationParam_CipherParamExactMatch, keymint_auto_adds = False,
       lifetime = ValueLifetime_Variable, cert_gen = CertGenParam_NotRequired, bit_index = 29\<rparr>),
    (Tag_ApplicationData, \<lparr>info_name = ''APPLICATION_DATA'', tt = TagType_Bytes, ext_asn1_type = None,
       user_can_specify = True, characteristic = Characteristic_KeyMintHidden,
       op_param = OperationParam_CipherParamExactMatch, keymint_auto_adds = False,
       lifetime = ValueLifetime_Variable, cert_gen = CertGenParam_NotRequired, bit_index = 30\<rparr>),
    (Tag_CreationDatetime, \<lparr>info_name = ''CREATION_DATETIME'', tt = TagType_Date, ext_asn1_type = Some ''INTEGER'',
       user_can_specify = True, characteristic = Characteristic_KeystoreEnforced,
       op_param = OperationParam_NotOperationParam, keymint_auto_adds = False,
       lifetime = ValueLifetime_Variable, cert_gen = CertGenParam_Special, bit_index = 31\<rparr>),
    (Tag_Origin, \<lparr>info_name = ''ORIGIN'', tt = TagType_Enum, ext_asn1_type = Some ''INTEGER'',
       user_can_specify = False, characteristic = Characteristic_KeyMintEnforced,
       op_param = OperationParam_NotOperationParam, keymint_auto_adds = True,
       lifetime = ValueLifetime_Variable, cert_gen = CertGenParam_NotRequired, bit_index = 32\<rparr>),
    (Tag_RootOfTrust, \<lparr>info_name = ''ROOT_OF_TRUST'', tt = TagType_Bytes, ext_asn1_type = Some ''RootOfTrust SEQUENCE'',
       user_can_specify = False, characteristic = Characteristic_NotKeyCharacteristic,
       op_param = OperationParam_NotOperationParam, keymint_auto_adds = False,
       lifetime = ValueLifetime_FixedAtBoot, cert_gen = CertGenParam_NotRequired, bit_index = 33\<rparr>),
    (Tag_OsVersion, \<lparr>info_name = ''OS_VERSION'', tt = TagType_Uint, ext_asn1_type = Some ''INTEGER'',
       user_can_specify = False, characteristic = Characteristic_KeyMintEnforced,
       op_param = OperationParam_NotOperationParam, keymint_auto_adds = True,
       lifetime = ValueLifetime_FixedAtBoot, cert_gen = CertGenParam_NotRequired, bit_index = 34\<rparr>),
    (Tag_OsPatchlevel, \<lparr>info_name = ''OS_PATCHLEVEL'', tt = TagType_Uint, ext_asn1_type = Some ''INTEGER'',
       user_can_specify = False, characteristic = Characteristic_KeyMintEnforced,
       op_param = OperationParam_NotOperationParam, keymint_auto_adds = True,
       lifetime = ValueLifetime_FixedAtBoot, cert_gen = CertGenParam_NotRequired, bit_index = 35\<rparr>),
    (Tag_UniqueId, \<lparr>info_name = ''UNIQUE_ID'', tt = TagType_Bytes, ext_asn1_type = Some ''OCTET STRING'',
       user_can_specify = False, characteristic = Characteristic_NotKeyCharacteristic,
       op_param = OperationParam_NotOperationParam, keymint_auto_adds = False,
       lifetime = ValueLifetime_Variable, cert_gen = CertGenParam_Special, bit_index = 36\<rparr>),
    (Tag_AttestationChallenge, \<lparr>info_name = ''ATTESTATION_CHALLENGE'', tt = TagType_Bytes, ext_asn1_type = Some ''OCTET STRING'',
       user_can_specify = True, characteristic = Characteristic_NotKeyCharacteristic,
       op_param = OperationParam_KeyGenImport, keymint_auto_adds = False,
       lifetime = ValueLifetime_Variable, cert_gen = CertGenParam_RequiredForAttestation, bit_index = 37\<rparr>)]"

definition INFO_4 :: "(Tag \<times> Info) list" where
  "INFO_4 = [
    (Tag_AttestationApplicationId, \<lparr>info_name = ''ATTESTATION_APPLICATION_ID'', tt = TagType_Bytes, ext_asn1_type = Some ''OCTET STRING'',
       user_can_specify = True, characteristic = Characteristic_NotKeyCharacteristic,
       op_param = OperationParam_KeyGenImport, keymint_auto_adds = False,
       lifetime = ValueLifetime_Variable, cert_gen = CertGenParam_RequiredForAttestation, bit_index = 38\<rparr>),
    (Tag_AttestationIdBrand, \<lparr>info_name = ''ATTESTATION_ID_BRAND'', tt = TagType_Bytes, ext_asn1_type = Some ''OCTET STRING'',
       user_can_specify = True, characteristic = Characteristic_NotKeyCharacteristic,
       op_param = OperationParam_KeyGenImport, keymint_auto_adds = False,
       lifetime = ValueLifetime_FixedAtBoot, cert_gen = CertGenParam_OptionalForAttestation, bit_index = 39\<rparr>),
    (Tag_AttestationIdDevice, \<lparr>info_name = ''ATTESTATION_ID_DEVICE'', tt = TagType_Bytes, ext_asn1_type = Some ''OCTET STRING'',
       user_can_specify = True, characteristic = Characteristic_NotKeyCharacteristic,
       op_param = OperationParam_KeyGenImport, keymint_auto_adds = False,
       lifetime = ValueLifetime_FixedAtBoot, cert_gen = CertGenParam_OptionalForAttestation, bit_index = 40\<rparr>),
    (Tag_AttestationIdProduct, \<lparr>info_name = ''ATTESTATION_ID_PRODUCT'', tt = TagType_Bytes, ext_asn1_type = Some ''OCTET STRING'',
       user_can_specify = True, characteristic = Characteristic_NotKeyCharacteristic,
       op_param = OperationParam_KeyGenImport, keymint_auto_adds = False,
       lifetime = ValueLifetime_FixedAtBoot, cert_gen = CertGenParam_OptionalForAttestation, bit_index = 41\<rparr>),
    (Tag_AttestationIdSerial, \<lparr>info_name = ''ATTESTATION_ID_SERIAL'', tt = TagType_Bytes, ext_asn1_type = Some ''OCTET STRING'',
       user_can_specify = True, characteristic = Characteristic_NotKeyCharacteristic,
       op_param = OperationParam_KeyGenImport, keymint_auto_adds = False,
       lifetime = ValueLifetime_FixedAtBoot, cert_gen = CertGenParam_OptionalForAttestation, bit_index = 42\<rparr>),
    (Tag_AttestationIdImei, \<lparr>info_name = ''ATTESTATION_ID_IMEI'', tt = TagType_Bytes, ext_asn1_type = Some ''OCTET STRING'',
       user_can_specify = True, characteristic = Characteristic_NotKeyCharacteristic,
       op_param = OperationParam_KeyGenImport, keymint_auto_adds = False,
       lifetime = ValueLifetime_FixedAtBoot, cert_gen = CertGenParam_OptionalForAttestation, bit_index = 43\<rparr>),
    (Tag_AttestationIdSecondImei, \<lparr>info_name = ''ATTESTATION_ID_SECOND_IMEI'', tt = TagType_Bytes, ext_asn1_type = Some ''OCTET STRING'',
       user_can_specify = True, characteristic = Characteristic_NotKeyCharacteristic,
       op_param = OperationParam_KeyGenImport, keymint_auto_adds = False,
       lifetime = ValueLifetime_FixedAtBoot, cert_gen = CertGenParam_OptionalForAttestation, bit_index = 44\<rparr>),
    (Tag_AttestationIdMeid, \<lparr>info_name = ''ATTESTATION_ID_MEID'', tt = TagType_Bytes, ext_asn1_type = Some ''OCTET STRING'',
       user_can_specify = True, characteristic = Characteristic_NotKeyCharacteristic,
       op_param = OperationParam_KeyGenImport, keymint_auto_adds = False,
       lifetime = ValueLifetime_FixedAtBoot, cert_gen = CertGenParam_OptionalForAttestation, bit_index = 45\<rparr>),
    (Tag_AttestationIdManufacturer, \<lparr>info_name = ''ATTESTATION_ID_MANUFACTURER'', tt = TagType_Bytes, ext_asn1_type = Some ''OCTET STRING'',
       user_can_specify = True, characteristic = Characteristic_NotKeyCharacteristic,
       op_param = OperationParam_KeyGenImport, keymint_auto_adds = False,
       lifetime = ValueLifetime_FixedAtBoot, cert_gen = CertGenParam_OptionalForAttestation, bit_index = 46\<rparr>),
    (Tag_AttestationIdModel, \<lparr>info_name = ''ATTESTATION_ID_MODEL'', tt = TagType_Bytes, ext_asn1_type = Some ''OCTET STRING'',
       user_can_specify = True, characteristic = Characteristic_NotKeyCharacteristic,
       op_param = OperationParam_KeyGenImport, keymint_auto_adds = False,
       lifetime = ValueLifetime_FixedAtBoot, cert_gen = CertGenParam_OptionalForAttestation, bit_index = 47\<rparr>)]"

definition INFO_5 :: "(Tag \<times> Info) list" where
  "INFO_5 = [
    (Tag_VendorPatchlevel, \<lparr>info_name = ''VENDOR_PATCHLEVEL'', tt = TagType_Uint, ext_asn1_type = Some ''INTEGER'',
       user_can_specify = False, characteristic = Characteristic_KeyMintEnforced,
       op_param = OperationParam_NotOperationParam, keymint_auto_adds = True,
       lifetime = ValueLifetime_FixedAtStartup, cert_gen = CertGenParam_NotRequired, bit_index = 48\<rparr>),
    (Tag_BootPatchlevel, \<lparr>info_name = ''BOOT_PATCHLEVEL'', tt = TagType_Uint, ext_asn1_type = Some ''INTEGER'',
       user_can_specify = False, characteristic = Characteristic_KeyMintEnforced,
       op_param = OperationParam_NotOperationParam, keymint_auto_adds = True,
       lifetime = ValueLifetime_FixedAtBoot, cert_gen = CertGenParam_NotRequired, bit_index = 49\<rparr>),
    (Tag_DeviceUniqueAttestation, \<lparr>info_name = ''DEVICE_UNIQUE_ATTESTATION'', tt = TagType_Bool, ext_asn1_type = Some ''NULL'',
       user_can_specify = True, characteristic = Characteristic_NotKeyCharacteristic,
       op_param = OperationParam_KeyGenImport, keymint_auto_adds = False,
       lifetime = ValueLifetime_Variable, cert_gen = CertGenParam_Special, bit_index = 50\<rparr>),
    (Tag_StorageKey, \<lparr>info_name = ''STORAGE_KEY'', tt = TagType_Bool, ext_asn1_type = None,
       user_can_specify = True, characteristic = Characteristic_KeyMintEnforced,
       op_param = OperationParam_NotOperationParam, keymint_auto_adds = False,
       lifetime = ValueLifetime_Variable, cert_gen = CertGenParam_NotRequired, bit_index = 51\<rparr>),
    (Tag_Nonce, \<lparr>info_name = ''NONCE'', tt = TagType_Bytes, ext_asn1_type = None,
       user_can_specify = True, characteristic = Characteristic_NotKeyCharacteristic,
       op_param = OperationParam_CipherParam, keymint_auto_adds = False,
       lifetime = ValueLifetime_Variable, cert_gen = CertGenParam_NotRequired, bit_index = 52\<rparr>),
    (Tag_MacLength, \<lparr>info_name = ''MAC_LENGTH'', tt = TagType_Uint, ext_asn1_type = None,
       user_can_specify = True, characteristic = Characteristic_NotKeyCharacteristic,
       op_param = OperationParam_CipherParam, keymint_auto_adds = False,
       lifetime = ValueLifetime_Variable, cert_gen = CertGenParam_NotRequired, bit_index = 53\<rparr>),
    (Tag_ResetSinceIdRotation, \<lparr>info_name = ''RESET_SINCE_ID_ROTATION'', tt = TagType_Bool, ext_asn1_type = Some ''part of UniqueID'',
       user_can_specify = True, characteristic = Characteristic_NotKeyCharacteristic,
       op_param = OperationParam_KeyGenImport, keymint_auto_adds = False,
       lifetime = ValueLifetime_Variable, cert_gen = CertGenParam_OptionalForAttestation, bit_index = 54\<rparr>),
    (Tag_CertificateSerial, \<lparr>info_name = ''CERTIFICATE_SERIAL'', tt = TagType_Bignum, ext_asn1_type = None,
       user_can_specify = True, characteristic = Characteristic_NotKeyCharacteristic,
       op_param = OperationParam_KeyGenImport, keymint_auto_adds = False,
       lifetime = ValueLifetime_Variable, cert_gen = CertGenParam_Optional, bit_index = 55\<rparr>),
    (Tag_CertificateSubject, \<lparr>info_name = ''CERTIFICATE_SUBJECT'', tt = TagType_Bytes, ext_asn1_type = None,
       user_can_specify = True, characteristic = Characteristic_NotKeyCharacteristic,
       op_param = OperationParam_KeyGenImport, keymint_auto_adds = False,
       lifetime = ValueLifetime_Variable, cert_gen = CertGenParam_Optional, bit_index = 56\<rparr>)]"

definition INFO_6 :: "(Tag \<times> Info) list" where
  "INFO_6 = [
    (Tag_CertificateNotBefore, \<lparr>info_name = ''CERTIFICATE_NOT_BEFORE'', tt = TagType_Date, ext_asn1_type = None,
       user_can_specify = True, characteristic = Characteristic_NotKeyCharacteristic,
       op_param = OperationParam_KeyGenImport, keymint_auto_adds = False,
       lifetime = ValueLifetime_Variable, cert_gen = CertGenParam_Required, bit_index = 57\<rparr>),
    (Tag_CertificateNotAfter, \<lparr>info_name = ''CERTIFICATE_NOT_AFTER'', tt = TagType_Date, ext_asn1_type = None,
       user_can_specify = True, characteristic = Characteristic_NotKeyCharacteristic,
       op_param = OperationParam_KeyGenImport, keymint_auto_adds = False,
       lifetime = ValueLifetime_Variable, cert_gen = CertGenParam_Required, bit_index = 58\<rparr>),
    (Tag_MaxBootLevel, \<lparr>info_name = ''MAX_BOOT_LEVEL'', tt = TagType_Uint, ext_asn1_type = None,
       user_can_specify = True, characteristic = Characteristic_KeystoreEnforced,
       op_param = OperationParam_NotOperationParam, keymint_auto_adds = False,
       lifetime = ValueLifetime_Variable, cert_gen = CertGenParam_NotRequired, bit_index = 59\<rparr>),
    (Tag_ModuleHash, \<lparr>info_name = ''MODULE_HASH'', tt = TagType_Bytes, ext_asn1_type = Some ''OCTET STRING'',
       user_can_specify = False, characteristic = Characteristic_NotKeyCharacteristic,
       op_param = OperationParam_NotOperationParam, keymint_auto_adds = False,
       lifetime = ValueLifetime_FixedAtStartup, cert_gen = CertGenParam_NotRequired, bit_index = 60\<rparr>),
    (Tag_MlDsaVariant, \<lparr>info_name = ''ML_DSA_VARIANT'', tt = TagType_Enum, ext_asn1_type = Some ''INTEGER'',
       user_can_specify = True, characteristic = Characteristic_KeyMintEnforced,
       op_param = OperationParam_NotOperationParam, keymint_auto_adds = False,
       lifetime = ValueLifetime_Variable, cert_gen = CertGenParam_NotRequired, bit_index = 61\<rparr>)]"

definition INFO :: "(Tag \<times> Info) list" where
  "INFO = INFO_0 @ INFO_1 @ INFO_2 @ INFO_3 @ INFO_4 @ INFO_5 @ INFO_6"

definition KEYSTORE_ENFORCED_CHARACTERISTICS :: "Tag list" where
  "KEYSTORE_ENFORCED_CHARACTERISTICS = [
      Tag_ActiveDatetime, Tag_OriginationExpireDatetime, Tag_UsageExpireDatetime, Tag_UserId,
      Tag_AllowWhileOnBody, Tag_CreationDatetime, Tag_MaxBootLevel, Tag_UnlockedDeviceRequired]"

definition KEYMINT_ENFORCED_CHARACTERISTICS :: "Tag list" where
  "KEYMINT_ENFORCED_CHARACTERISTICS = [
      Tag_UserSecureId, Tag_Algorithm, Tag_EcCurve, Tag_MlDsaVariant, Tag_UserAuthType,
      Tag_Origin, Tag_Purpose, Tag_BlockMode, Tag_Digest, Tag_Padding, Tag_RsaOaepMgfDigest,
      Tag_KeySize, Tag_MinMacLength, Tag_MaxUsesPerBoot, Tag_AuthTimeout, Tag_OsVersion,
      Tag_OsPatchlevel, Tag_VendorPatchlevel, Tag_BootPatchlevel, Tag_RsaPublicExponent,
      Tag_CallerNonce, Tag_BootloaderOnly, Tag_RollbackResistance, Tag_EarlyBootOnly,
      Tag_NoAuthRequired, Tag_TrustedUserPresenceRequired, Tag_TrustedConfirmationRequired,
      Tag_StorageKey]"

definition AUTO_ADDED_CHARACTERISTICS :: "Tag list" where
  "AUTO_ADDED_CHARACTERISTICS = [
      Tag_Origin, Tag_OsVersion, Tag_OsPatchlevel, Tag_VendorPatchlevel, Tag_BootPatchlevel]"

section \<open>Operations\<close>

definition info :: "Tag \<Rightarrow> Error + Info" where
  "info tag = (case List.find (\<lambda>(t, i). tag = t) INFO of
     Some (t, i) \<Rightarrow> Inr i
   | None \<Rightarrow> km_err ErrorCode_InvalidTag)"

definition multivalued :: "Tag \<Rightarrow> bool" where
  "multivalued tag = (tag_type tag \<in> {TagType_EnumRep, TagType_UintRep, TagType_UlongRep})"

type_synonym DuplicateTagChecker = u64

definition DuplicateTagChecker_default :: DuplicateTagChecker where
  "DuplicateTagChecker_default = 0"

definition DuplicateTagChecker_add ::
    "DuplicateTagChecker \<Rightarrow> Tag \<Rightarrow> Error + DuplicateTagChecker" where
  "DuplicateTagChecker_add seen tag =
     res_bind (info tag) (\<lambda>i.
       let bit_mask = push_bit (bit_index i) (1 :: u64) in
       if \<not> multivalued tag \<and> seen AND bit_mask \<noteq> 0 then km_err ErrorCode_InvalidKeyBlob
       else Inr (seen OR bit_mask))"

section \<open>The table is consistent\<close>

lemmas INFO_unfold =
  INFO_def INFO_0_def INFO_1_def INFO_2_def INFO_3_def INFO_4_def INFO_5_def INFO_6_def

definition info_tags :: "Tag list" where
  "info_tags = map fst INFO"

lemma info_tags_eval:
  "info_tags = filter (\<lambda>t. t \<notin> {Tag_Invalid, Tag_HardwareType, Tag_MinSecondsBetweenOps,
     Tag_IdentityCredentialKey, Tag_AssociatedData, Tag_ConfirmationToken}) info_tags"
  by (simp add: info_tags_def INFO_unfold)

lemma info_tags_distinct: "distinct info_tags"
  by (simp add: info_tags_def INFO_unfold)

lemma INFO_bit_indices: "map (bit_index \<circ> snd) INFO = [0..<62]"
  by (simp add: INFO_unfold upt_rec)

lemma info_eq: "info tag = ok_or (Error_Hal ErrorCode_InvalidTag) (map_of INFO tag)"
proof -
  have "(case List.find (\<lambda>(t, i). tag = t) xs of
       Some (t, i) \<Rightarrow> Inr i | None \<Rightarrow> km_err ErrorCode_InvalidTag)
     = ok_or (Error_Hal ErrorCode_InvalidTag) (map_of xs tag)" for xs :: "(Tag \<times> Info) list"
    by (induction xs) auto
  then show ?thesis by (simp add: info_def)
qed

lemma info_Inr_iff: "info tag = Inr i \<longleftrightarrow> (tag, i) \<in> set INFO"
  using info_tags_distinct by (simp add: info_eq res_simps info_tags_def)

lemma info_known: "(\<exists>i. info tag = Inr i) \<longleftrightarrow> tag \<in> set info_tags"
  by (force simp: info_Inr_iff info_tags_def)

lemma bit_index_inj:
  assumes "info s = Inr i" and "info t = Inr j" and "bit_index i = bit_index j"
  shows "s = t"
proof -
  have "distinct (map (bit_index \<circ> snd) INFO)"
    by (simp add: INFO_bit_indices)
  then have "inj_on (bit_index \<circ> snd) (set INFO)"
    by (simp add: distinct_map)
  with assms have "(s, i) = (t, j)"
    by (intro inj_onD[of "bit_index \<circ> snd" "set INFO"]) (simp_all add: info_Inr_iff)
  then show ?thesis by simp
qed

lemma bit_index_bound:
  assumes "info t = Inr i"
  shows "bit_index i < 64"
proof -
  have "bit_index i \<in> set (map (bit_index \<circ> snd) INFO)"
    using assms by (force simp: info_Inr_iff)
  then show ?thesis
    by (simp add: INFO_bit_indices)
qed

lemma KeyParam_tag_in_info: "KeyParam_tag p \<in> set info_tags"
  by (cases p) (simp_all add: info_tags_def INFO_unfold)

lemma INFO_checked:
  assumes "list_all (\<lambda>(t, i). P t i) INFO" and "info t = Inr i"
  shows "P t i"
  using assms by (auto simp: list_all_iff info_Inr_iff)

lemma INFO_all_characteristics:
  "list_all (\<lambda>(t, i).
     (characteristic i = Characteristic_KeyMintEnforced
        \<longleftrightarrow> t \<in> set KEYMINT_ENFORCED_CHARACTERISTICS) \<and>
     (characteristic i = Characteristic_KeystoreEnforced
        \<longleftrightarrow> t \<in> set KEYSTORE_ENFORCED_CHARACTERISTICS) \<and>
     (keymint_auto_adds i \<longleftrightarrow> t \<in> set AUTO_ADDED_CHARACTERISTICS)) INFO"
  by (simp add: INFO_unfold KEYMINT_ENFORCED_CHARACTERISTICS_def
      KEYSTORE_ENFORCED_CHARACTERISTICS_def AUTO_ADDED_CHARACTERISTICS_def)

lemma INFO_tag_types: "list_all (\<lambda>(t, i). tt i = tag_type t) INFO"
  by (simp add: INFO_unfold tag_type_def Tag_u32_def)

text \<open>
  The tag table is coherent: the three constant tag lists that key generation uses agree
  with the characteristics column of the table, the value type of every entry is the one in
  the top bits of the tag number, and its bit index fits the 64-bit set of seen tags.
\<close>

theorem info_table_consistent:
  assumes "info t = Inr i"
  shows "(characteristic i = Characteristic_KeyMintEnforced
            \<longleftrightarrow> t \<in> set KEYMINT_ENFORCED_CHARACTERISTICS) \<and>
         (characteristic i = Characteristic_KeystoreEnforced
            \<longleftrightarrow> t \<in> set KEYSTORE_ENFORCED_CHARACTERISTICS) \<and>
         (keymint_auto_adds i \<longleftrightarrow> t \<in> set AUTO_ADDED_CHARACTERISTICS) \<and>
         tt i = tag_type t \<and>
         bit_index i < 64"
  using INFO_checked[OF INFO_all_characteristics assms]
    INFO_checked[OF INFO_tag_types assms] bit_index_bound[OF assms] by blast

theorem info_table_consistent_witness:
  "\<exists>i. info Tag_UserSecureId = Inr i \<and> tt i = TagType_UlongRep
     \<and> Tag_UserSecureId \<in> set KEYMINT_ENFORCED_CHARACTERISTICS"
proof -
  obtain i where i: "info Tag_UserSecureId = Inr i"
    using KeyParam_tag_in_info[of "KeyParam_UserSecureId 0"] info_known[of Tag_UserSecureId]
    by auto
  have "tag_type Tag_UserSecureId = TagType_UlongRep"
    by (simp add: tag_type_def Tag_u32_def)
  with i info_table_consistent[OF i] show ?thesis
    by (simp add: KEYMINT_ENFORCED_CHARACTERISTICS_def)
qed

section \<open>Duplicate tracking\<close>

text \<open>
  What a tracker of seen tags promises, and what the loops that use one get from it.
\<close>

locale tag_tracker =
  fixes add :: "'s \<Rightarrow> Tag \<Rightarrow> Error + 's"
    and seen :: "'s \<Rightarrow> Tag set"
    and known :: "Tag \<Rightarrow> bool"
    and rep :: "Tag \<Rightarrow> bool"
  assumes add_ok: "add s t = Inr s' \<Longrightarrow>
      known t \<and> (rep t \<or> t \<notin> seen s) \<and> seen s' = insert t (seen s)"
    and add_accepts: "known t \<Longrightarrow> rep t \<or> t \<notin> seen s \<Longrightarrow> \<exists>s'. add s t = Inr s'"
begin

lemma fold_add_iff:
  "(\<exists>s'. res_fold add s ts = Inr s') \<longleftrightarrow>
     (\<forall>t \<in> set ts. known t) \<and>
     distinct (filter (\<lambda>t. \<not> rep t) ts) \<and> {t \<in> set ts. \<not> rep t} \<inter> seen s = {}"
proof (induction ts arbitrary: s)
  case (Cons t ts)
  show ?case
  proof (cases "add s t")
    case (Inl e)
    then have "\<not> (known t \<and> (rep t \<or> t \<notin> seen s))"
      using add_accepts[of t s] by auto
    then show ?thesis using Inl by auto
  next
    case (Inr s')
    with add_ok[OF Inr] Cons.IH[of s'] show ?thesis by auto
  qed
qed simp

lemma fold_add_seen:
  "res_fold add s ts = Inr s' \<Longrightarrow> seen s' = seen s \<union> set ts"
  by (induction ts arbitrary: s) (auto simp: res_simps dest!: add_ok)

end

text \<open>The bit set represents the set of tags whose bit is set.\<close>

definition seen_tags :: "DuplicateTagChecker \<Rightarrow> Tag set" where
  "seen_tags w = {t. \<exists>i. info t = Inr i \<and> bit w (bit_index i)}"

lemma seen_tags_default [simp]: "seen_tags DuplicateTagChecker_default = {}"
  by (simp add: seen_tags_def DuplicateTagChecker_default_def)

lemma seen_tags_insert:
  assumes "info t = Inr i"
  shows "seen_tags (w OR push_bit (bit_index i) 1) = insert t (seen_tags w)"
proof -
  have "bit (w OR push_bit (bit_index i) 1) n \<longleftrightarrow> bit w n \<or> n = bit_index i" for n
    using bit_index_bound[OF assms] by (auto simp: bit_simps)
  then have mem: "s \<in> seen_tags (w OR push_bit (bit_index i) 1) \<longleftrightarrow>
      (\<exists>j. info s = Inr j \<and> (bit w (bit_index j) \<or> bit_index j = bit_index i))" for s
    by (simp add: seen_tags_def del: push_bit_of_1)
  show ?thesis
  proof (rule set_eqI)
    fix s
    show "s \<in> seen_tags (w OR push_bit (bit_index i) 1) \<longleftrightarrow> s \<in> insert t (seen_tags w)"
      unfolding mem using assms bit_index_inj[OF _ assms, of s] by (auto simp: seen_tags_def)
  qed
qed

lemma DuplicateTagChecker_add_iff:
  "DuplicateTagChecker_add w t = Inr w' \<longleftrightarrow>
     (\<exists>i. info t = Inr i \<and> (multivalued t \<or> t \<notin> seen_tags w)
        \<and> w' = w OR push_bit (bit_index i) 1)"
  by (auto simp: DuplicateTagChecker_add_def res_simps Let_def seen_tags_def
      bit_iff_and_push_bit_not_eq_0 split: if_splits)

interpretation dup: tag_tracker DuplicateTagChecker_add seen_tags
    "\<lambda>t. t \<in> set info_tags" multivalued
  by unfold_locales
    (auto simp: DuplicateTagChecker_add_iff seen_tags_insert info_known[symmetric]
      simp del: push_bit_of_1)

text \<open>
  C30: Adding tags to an empty duplicate checker succeeds exactly when every tag is in the table
  and every single-valued tag occurs once: the 64-bit set implements the set of seen tags with
  no collision and no spurious duplicate.
\<close>

theorem duplicate_checker_correct:
  "(\<exists>w. res_fold DuplicateTagChecker_add DuplicateTagChecker_default ts = Inr w) \<longleftrightarrow>
     set ts \<subseteq> set info_tags \<and> distinct (filter (\<lambda>t. \<not> multivalued t) ts)"
  using dup.fold_add_iff[of DuplicateTagChecker_default ts] by auto

end
