(* ===== verification/Tag_Legacy.thy ===== *)
theory Tag_Legacy
  imports Keymint_Types
begin

text \<open>
  The legacy serialization of parameter lists (\<^verbatim>\<open>common/src/tag/legacy.rs\<close>): the byte
  consumers, \<open>serialize\<close>, \<open>deserialize\<close> and the ordering \<open>param_compare\<close>.  A consumer that
  advances \<open>data: &mut &[u8]\<close> returns the value together with the rest of the data; after an
  error the rest is not used by the code and is not returned.  Lengths and offsets stored in
  the format are \<^typ>\<open>u32\<close> and wrap as the casts and additions of the release build do;
  \<open>usize\<close> holds every \<^typ>\<open>u32\<close>, so conversions back are exact.
\<close>

section \<open>Consumers\<close>

definition consume_u8 :: "bytes \<Rightarrow> Error + (u8 \<times> bytes)" where
  "consume_u8 data = (case data of
     b # rest \<Rightarrow> Inr (b, rest)
   | [] \<Rightarrow> km_err ErrorCode_InvalidKeyBlob)"

definition consume_bool :: "bytes \<Rightarrow> Error + bytes" where
  "consume_bool data =
     res_bind (consume_u8 data) (\<lambda>(b, data).
       if b = 0x01 then Inr data else km_err ErrorCode_InvalidKeyBlob)"

definition consume_u32 :: "bytes \<Rightarrow> Error + (u32 \<times> bytes)" where
  "consume_u32 data =
     (if length data < 4 then km_err ErrorCode_InvalidKeyBlob
      else Inr (u32_from_ne_bytes (take 4 data), drop 4 data))"

text \<open>\<open>i32::from_ne_bytes\<close> reads the same four bytes as a signed number.\<close>

definition consume_i32 :: "bytes \<Rightarrow> Error + (int \<times> bytes)" where
  "consume_i32 data =
     (if length data < 4 then km_err ErrorCode_InvalidKeyBlob
      else Inr (sint (u32_from_ne_bytes (take 4 data)), drop 4 data))"

definition consume_u64 :: "bytes \<Rightarrow> Error + (u64 \<times> bytes)" where
  "consume_u64 data =
     (if length data < 8 then km_err ErrorCode_InvalidKeyBlob
      else Inr (u64_from_ne_bytes (take 8 data), drop 8 data))"

definition consume_i64 :: "bytes \<Rightarrow> Error + (i64 \<times> bytes)" where
  "consume_i64 data =
     (if length data < 8 then km_err ErrorCode_InvalidKeyBlob
      else Inr (u64_from_ne_bytes (take 8 data), drop 8 data))"

definition consume_vec :: "bytes \<Rightarrow> Error + (bytes \<times> bytes)" where
  "consume_vec data =
     res_bind (consume_u32 data) (\<lambda>(n, data).
       if unat n > length data then km_err ErrorCode_InvalidKeyBlob
       else Inr (take (unat n) data, drop (unat n) data))"

section \<open>Serialization\<close>

text \<open>
  The value a parameter holds, by the groups of variants that \<open>serialize\<close> treats alike:
  enums (by discriminant), 32- and 64-bit numbers, the true-holding variants, dates and byte
  vectors.
\<close>

datatype Payload =
    Payload_Enum int
  | Payload_U32 u32
  | Payload_U64 u64
  | Payload_True
  | Payload_Date i64
  | Payload_Bytes bytes

primrec KeyParam_payload :: "KeyParam \<Rightarrow> Payload" where
  "KeyParam_payload (KeyParam_Purpose v) = Payload_Enum (KeyPurpose_i32 v)"
| "KeyParam_payload (KeyParam_Algorithm v) = Payload_Enum (Algorithm_i32 v)"
| "KeyParam_payload (KeyParam_KeySize v) = (case v of KeySizeInBits w \<Rightarrow> Payload_U32 w)"
| "KeyParam_payload (KeyParam_BlockMode v) = Payload_Enum (BlockMode_i32 v)"
| "KeyParam_payload (KeyParam_Digest v) = Payload_Enum (Digest_i32 v)"
| "KeyParam_payload (KeyParam_Padding v) = Payload_Enum (PaddingMode_i32 v)"
| "KeyParam_payload KeyParam_CallerNonce = Payload_True"
| "KeyParam_payload (KeyParam_MinMacLength v) = Payload_U32 v"
| "KeyParam_payload (KeyParam_EcCurve v) = Payload_Enum (EcCurve_i32 v)"
| "KeyParam_payload (KeyParam_MlDsaVariant v) = Payload_Enum (MlDsaVariant_i32 v)"
| "KeyParam_payload (KeyParam_RsaPublicExponent v) = (case v of RsaExponent w \<Rightarrow> Payload_U64 w)"
| "KeyParam_payload KeyParam_IncludeUniqueId = Payload_True"
| "KeyParam_payload (KeyParam_RsaOaepMgfDigest v) = Payload_Enum (Digest_i32 v)"
| "KeyParam_payload KeyParam_BootloaderOnly = Payload_True"
| "KeyParam_payload KeyParam_RollbackResistance = Payload_True"
| "KeyParam_payload KeyParam_EarlyBootOnly = Payload_True"
| "KeyParam_payload (KeyParam_ActiveDatetime v) = Payload_Date (ms_since_epoch v)"
| "KeyParam_payload (KeyParam_OriginationExpireDatetime v) = Payload_Date (ms_since_epoch v)"
| "KeyParam_payload (KeyParam_UsageExpireDatetime v) = Payload_Date (ms_since_epoch v)"
| "KeyParam_payload (KeyParam_MaxUsesPerBoot v) = Payload_U32 v"
| "KeyParam_payload (KeyParam_UsageCountLimit v) = Payload_U32 v"
| "KeyParam_payload (KeyParam_UserId v) = Payload_U32 v"
| "KeyParam_payload (KeyParam_UserSecureId v) = Payload_U64 v"
| "KeyParam_payload KeyParam_NoAuthRequired = Payload_True"
| "KeyParam_payload (KeyParam_UserAuthType v) = Payload_U32 v"
| "KeyParam_payload (KeyParam_AuthTimeout v) = Payload_U32 v"
| "KeyParam_payload KeyParam_AllowWhileOnBody = Payload_True"
| "KeyParam_payload KeyParam_TrustedUserPresenceRequired = Payload_True"
| "KeyParam_payload KeyParam_TrustedConfirmationRequired = Payload_True"
| "KeyParam_payload KeyParam_UnlockedDeviceRequired = Payload_True"
| "KeyParam_payload (KeyParam_ApplicationId v) = Payload_Bytes v"
| "KeyParam_payload (KeyParam_ApplicationData v) = Payload_Bytes v"
| "KeyParam_payload (KeyParam_CreationDatetime v) = Payload_Date (ms_since_epoch v)"
| "KeyParam_payload (KeyParam_Origin v) = Payload_Enum (KeyOrigin_i32 v)"
| "KeyParam_payload (KeyParam_RootOfTrust v) = Payload_Bytes v"
| "KeyParam_payload (KeyParam_OsVersion v) = Payload_U32 v"
| "KeyParam_payload (KeyParam_OsPatchlevel v) = Payload_U32 v"
| "KeyParam_payload (KeyParam_AttestationChallenge v) = Payload_Bytes v"
| "KeyParam_payload (KeyParam_AttestationApplicationId v) = Payload_Bytes v"
| "KeyParam_payload (KeyParam_AttestationIdBrand v) = Payload_Bytes v"
| "KeyParam_payload (KeyParam_AttestationIdDevice v) = Payload_Bytes v"
| "KeyParam_payload (KeyParam_AttestationIdProduct v) = Payload_Bytes v"
| "KeyParam_payload (KeyParam_AttestationIdSerial v) = Payload_Bytes v"
| "KeyParam_payload (KeyParam_AttestationIdImei v) = Payload_Bytes v"
| "KeyParam_payload (KeyParam_AttestationIdSecondImei v) = Payload_Bytes v"
| "KeyParam_payload (KeyParam_AttestationIdMeid v) = Payload_Bytes v"
| "KeyParam_payload (KeyParam_AttestationIdManufacturer v) = Payload_Bytes v"
| "KeyParam_payload (KeyParam_AttestationIdModel v) = Payload_Bytes v"
| "KeyParam_payload (KeyParam_VendorPatchlevel v) = Payload_U32 v"
| "KeyParam_payload (KeyParam_BootPatchlevel v) = Payload_U32 v"
| "KeyParam_payload KeyParam_DeviceUniqueAttestation = Payload_True"
| "KeyParam_payload KeyParam_StorageKey = Payload_True"
| "KeyParam_payload (KeyParam_Nonce v) = Payload_Bytes v"
| "KeyParam_payload (KeyParam_MacLength v) = Payload_U32 v"
| "KeyParam_payload KeyParam_ResetSinceIdRotation = Payload_True"
| "KeyParam_payload (KeyParam_CertificateSerial v) = Payload_Bytes v"
| "KeyParam_payload (KeyParam_CertificateSubject v) = Payload_Bytes v"
| "KeyParam_payload (KeyParam_CertificateNotBefore v) = Payload_Date (ms_since_epoch v)"
| "KeyParam_payload (KeyParam_CertificateNotAfter v) = Payload_Date (ms_since_epoch v)"
| "KeyParam_payload (KeyParam_MaxBootLevel v) = Payload_U32 v"
| "KeyParam_payload (KeyParam_ModuleHash v) = Payload_Bytes v"

text \<open>First loop: append the bytes of every byte-vector parameter.\<close>

definition serialize_blob :: "bytes \<times> u32 \<Rightarrow> KeyParam \<Rightarrow> bytes \<times> u32" where
  "serialize_blob = (\<lambda>(result, blob_size) param. case KeyParam_payload param of
     Payload_Bytes v \<Rightarrow> (result @ v, blob_size + of_nat (length v))
   | _ \<Rightarrow> (result, blob_size))"

text \<open>Second loop: the tag number and the value; a byte vector is its length and offset.\<close>

definition serialize_param :: "bytes \<times> u32 \<Rightarrow> KeyParam \<Rightarrow> bytes \<times> u32" where
  "serialize_param = (\<lambda>(result, blob_offset) param.
     let result = result @ u32_to_ne_bytes (Tag_u32 (KeyParam_tag param)) in
     case KeyParam_payload param of
       Payload_Enum v \<Rightarrow> (result @ u32_to_ne_bytes (of_int v), blob_offset)
     | Payload_U32 v \<Rightarrow> (result @ u32_to_ne_bytes v, blob_offset)
     | Payload_U64 v \<Rightarrow> (result @ u64_to_ne_bytes v, blob_offset)
     | Payload_True \<Rightarrow> (result @ [0x01], blob_offset)
     | Payload_Date v \<Rightarrow> (result @ u64_to_ne_bytes v, blob_offset)
     | Payload_Bytes v \<Rightarrow>
         let blob_len = of_nat (length v) in
         (result @ u32_to_ne_bytes blob_len @ u32_to_ne_bytes blob_offset,
          blob_offset + blob_len))"

definition serialize :: "KeyParam list \<Rightarrow> bytes" where
  "serialize params =
     (let (result, blob_size) = foldl serialize_blob ([0, 0, 0, 0], 0) params;
          result = u32_to_ne_bytes blob_size @ drop 4 result;
          result = result @ u32_to_ne_bytes (of_nat (length params));
          params_size_offset = length result;
          result = result @ [0, 0, 0, 0];
          first_param_offset = length result;
          (result, blob_offset) = foldl serialize_param (result, 0) params;
          serialized_size = of_nat (length result - first_param_offset)
      in take params_size_offset result @ u32_to_ne_bytes serialized_size
         @ drop (params_size_offset + 4) result)"

section \<open>Deserialization\<close>

definition consume_blob ::
    "bytes \<Rightarrow> nat \<Rightarrow> bytes \<Rightarrow> Error + (bytes \<times> bytes \<times> nat)" where
  "consume_blob data next_blob_offset blob_data =
     res_bind (consume_u32 data) (\<lambda>(len, data).
     res_bind (consume_u32 data) (\<lambda>(off, data).
       let data_len = unat len; data_offset = unat off in
       if data_offset \<noteq> next_blob_offset then km_err ErrorCode_InvalidKeyBlob
       else if data_offset + data_len > length blob_data then km_err ErrorCode_InvalidKeyBlob
       else Inr (take data_len (drop data_offset blob_data), data,
                 next_blob_offset + data_len)))"

text \<open>One helper per group of arms of the \<open>match tag\<close> in \<open>deserialize\<close>.\<close>

definition deserialize_enum ::
    "('a \<Rightarrow> KeyParam) \<Rightarrow> (int \<Rightarrow> 'a option) \<Rightarrow> bytes \<Rightarrow> nat \<Rightarrow> Error + (KeyParam \<times> bytes \<times> nat)" where
  "deserialize_enum C n data next =
     res_bind (consume_i32 data) (\<lambda>(v, data).
     res_bind (ok_or (Error_Hal ErrorCode_InvalidKeyBlob) (n v)) (\<lambda>e.
     Inr (C e, data, next)))"

definition deserialize_u32 ::
    "(u32 \<Rightarrow> KeyParam) \<Rightarrow> bytes \<Rightarrow> nat \<Rightarrow> Error + (KeyParam \<times> bytes \<times> nat)" where
  "deserialize_u32 C data next =
     res_bind (consume_u32 data) (\<lambda>(v, data). Inr (C v, data, next))"

definition deserialize_u64 ::
    "(u64 \<Rightarrow> KeyParam) \<Rightarrow> bytes \<Rightarrow> nat \<Rightarrow> Error + (KeyParam \<times> bytes \<times> nat)" where
  "deserialize_u64 C data next =
     res_bind (consume_u64 data) (\<lambda>(v, data). Inr (C v, data, next))"

definition deserialize_true ::
    "KeyParam \<Rightarrow> bytes \<Rightarrow> nat \<Rightarrow> Error + (KeyParam \<times> bytes \<times> nat)" where
  "deserialize_true p data next =
     res_bind (consume_bool data) (\<lambda>data. Inr (p, data, next))"

definition deserialize_date ::
    "(DateTime \<Rightarrow> KeyParam) \<Rightarrow> bytes \<Rightarrow> nat \<Rightarrow> Error + (KeyParam \<times> bytes \<times> nat)" where
  "deserialize_date C data next =
     res_bind (consume_i64 data) (\<lambda>(v, data). Inr (C (DateTime v), data, next))"

definition deserialize_blob ::
    "(bytes \<Rightarrow> KeyParam) \<Rightarrow> bytes \<Rightarrow> nat \<Rightarrow> bytes \<Rightarrow> Error + (KeyParam \<times> bytes \<times> nat)" where
  "deserialize_blob C data next blob_data =
     res_bind (consume_blob data next blob_data) (\<lambda>(v, data, next). Inr (C v, data, next))"

primrec deserialize_value ::
    "Tag \<Rightarrow> bytes \<Rightarrow> nat \<Rightarrow> bytes \<Rightarrow> Error + (KeyParam \<times> bytes \<times> nat)" where
  "deserialize_value Tag_Purpose data next blob_data =
     deserialize_enum KeyParam_Purpose KeyPurpose_n data next"
| "deserialize_value Tag_Algorithm data next blob_data =
     deserialize_enum KeyParam_Algorithm Algorithm_n data next"
| "deserialize_value Tag_BlockMode data next blob_data =
     deserialize_enum KeyParam_BlockMode BlockMode_n data next"
| "deserialize_value Tag_Digest data next blob_data =
     deserialize_enum KeyParam_Digest Digest_n data next"
| "deserialize_value Tag_Padding data next blob_data =
     deserialize_enum KeyParam_Padding PaddingMode_n data next"
| "deserialize_value Tag_EcCurve data next blob_data =
     deserialize_enum KeyParam_EcCurve EcCurve_n data next"
| "deserialize_value Tag_RsaOaepMgfDigest data next blob_data =
     deserialize_enum KeyParam_RsaOaepMgfDigest Digest_n data next"
| "deserialize_value Tag_Origin data next blob_data =
     deserialize_enum KeyParam_Origin KeyOrigin_n data next"
| "deserialize_value Tag_MlDsaVariant data next blob_data =
     deserialize_enum KeyParam_MlDsaVariant MlDsaVariant_n data next"
| "deserialize_value Tag_KeySize data next blob_data =
     deserialize_u32 (KeyParam_KeySize \<circ> KeySizeInBits) data next"
| "deserialize_value Tag_MinMacLength data next blob_data =
     deserialize_u32 KeyParam_MinMacLength data next"
| "deserialize_value Tag_MaxUsesPerBoot data next blob_data =
     deserialize_u32 KeyParam_MaxUsesPerBoot data next"
| "deserialize_value Tag_UsageCountLimit data next blob_data =
     deserialize_u32 KeyParam_UsageCountLimit data next"
| "deserialize_value Tag_UserId data next blob_data =
     deserialize_u32 KeyParam_UserId data next"
| "deserialize_value Tag_UserAuthType data next blob_data =
     deserialize_u32 KeyParam_UserAuthType data next"
| "deserialize_value Tag_AuthTimeout data next blob_data =
     deserialize_u32 KeyParam_AuthTimeout data next"
| "deserialize_value Tag_OsVersion data next blob_data =
     deserialize_u32 KeyParam_OsVersion data next"
| "deserialize_value Tag_OsPatchlevel data next blob_data =
     deserialize_u32 KeyParam_OsPatchlevel data next"
| "deserialize_value Tag_VendorPatchlevel data next blob_data =
     deserialize_u32 KeyParam_VendorPatchlevel data next"
| "deserialize_value Tag_BootPatchlevel data next blob_data =
     deserialize_u32 KeyParam_BootPatchlevel data next"
| "deserialize_value Tag_MacLength data next blob_data =
     deserialize_u32 KeyParam_MacLength data next"
| "deserialize_value Tag_MaxBootLevel data next blob_data =
     deserialize_u32 KeyParam_MaxBootLevel data next"
| "deserialize_value Tag_RsaPublicExponent data next blob_data =
     deserialize_u64 (KeyParam_RsaPublicExponent \<circ> RsaExponent) data next"
| "deserialize_value Tag_UserSecureId data next blob_data =
     deserialize_u64 KeyParam_UserSecureId data next"
| "deserialize_value Tag_CallerNonce data next blob_data =
     deserialize_true KeyParam_CallerNonce data next"
| "deserialize_value Tag_IncludeUniqueId data next blob_data =
     deserialize_true KeyParam_IncludeUniqueId data next"
| "deserialize_value Tag_BootloaderOnly data next blob_data =
     deserialize_true KeyParam_BootloaderOnly data next"
| "deserialize_value Tag_RollbackResistance data next blob_data =
     deserialize_true KeyParam_RollbackResistance data next"
| "deserialize_value Tag_EarlyBootOnly data next blob_data =
     deserialize_true KeyParam_EarlyBootOnly data next"
| "deserialize_value Tag_AllowWhileOnBody data next blob_data =
     deserialize_true KeyParam_AllowWhileOnBody data next"
| "deserialize_value Tag_NoAuthRequired data next blob_data =
     deserialize_true KeyParam_NoAuthRequired data next"
| "deserialize_value Tag_TrustedUserPresenceRequired data next blob_data =
     deserialize_true KeyParam_TrustedUserPresenceRequired data next"
| "deserialize_value Tag_TrustedConfirmationRequired data next blob_data =
     deserialize_true KeyParam_TrustedConfirmationRequired data next"
| "deserialize_value Tag_UnlockedDeviceRequired data next blob_data =
     deserialize_true KeyParam_UnlockedDeviceRequired data next"
| "deserialize_value Tag_DeviceUniqueAttestation data next blob_data =
     deserialize_true KeyParam_DeviceUniqueAttestation data next"
| "deserialize_value Tag_StorageKey data next blob_data =
     deserialize_true KeyParam_StorageKey data next"
| "deserialize_value Tag_ResetSinceIdRotation data next blob_data =
     deserialize_true KeyParam_ResetSinceIdRotation data next"
| "deserialize_value Tag_ActiveDatetime data next blob_data =
     deserialize_date KeyParam_ActiveDatetime data next"
| "deserialize_value Tag_OriginationExpireDatetime data next blob_data =
     deserialize_date KeyParam_OriginationExpireDatetime data next"
| "deserialize_value Tag_UsageExpireDatetime data next blob_data =
     deserialize_date KeyParam_UsageExpireDatetime data next"
| "deserialize_value Tag_CreationDatetime data next blob_data =
     deserialize_date KeyParam_CreationDatetime data next"
| "deserialize_value Tag_CertificateNotBefore data next blob_data =
     deserialize_date KeyParam_CertificateNotBefore data next"
| "deserialize_value Tag_CertificateNotAfter data next blob_data =
     deserialize_date KeyParam_CertificateNotAfter data next"
| "deserialize_value Tag_ApplicationId data next blob_data =
     deserialize_blob KeyParam_ApplicationId data next blob_data"
| "deserialize_value Tag_ApplicationData data next blob_data =
     deserialize_blob KeyParam_ApplicationData data next blob_data"
| "deserialize_value Tag_AttestationChallenge data next blob_data =
     deserialize_blob KeyParam_AttestationChallenge data next blob_data"
| "deserialize_value Tag_AttestationApplicationId data next blob_data =
     deserialize_blob KeyParam_AttestationApplicationId data next blob_data"
| "deserialize_value Tag_AttestationIdBrand data next blob_data =
     deserialize_blob KeyParam_AttestationIdBrand data next blob_data"
| "deserialize_value Tag_AttestationIdDevice data next blob_data =
     deserialize_blob KeyParam_AttestationIdDevice data next blob_data"
| "deserialize_value Tag_AttestationIdProduct data next blob_data =
     deserialize_blob KeyParam_AttestationIdProduct data next blob_data"
| "deserialize_value Tag_AttestationIdSerial data next blob_data =
     deserialize_blob KeyParam_AttestationIdSerial data next blob_data"
| "deserialize_value Tag_AttestationIdImei data next blob_data =
     deserialize_blob KeyParam_AttestationIdImei data next blob_data"
| "deserialize_value Tag_AttestationIdSecondImei data next blob_data =
     deserialize_blob KeyParam_AttestationIdSecondImei data next blob_data"
| "deserialize_value Tag_AttestationIdMeid data next blob_data =
     deserialize_blob KeyParam_AttestationIdMeid data next blob_data"
| "deserialize_value Tag_AttestationIdManufacturer data next blob_data =
     deserialize_blob KeyParam_AttestationIdManufacturer data next blob_data"
| "deserialize_value Tag_AttestationIdModel data next blob_data =
     deserialize_blob KeyParam_AttestationIdModel data next blob_data"
| "deserialize_value Tag_Nonce data next blob_data =
     deserialize_blob KeyParam_Nonce data next blob_data"
| "deserialize_value Tag_RootOfTrust data next blob_data =
     deserialize_blob KeyParam_RootOfTrust data next blob_data"
| "deserialize_value Tag_CertificateSerial data next blob_data =
     deserialize_blob KeyParam_CertificateSerial data next blob_data"
| "deserialize_value Tag_CertificateSubject data next blob_data =
     deserialize_blob KeyParam_CertificateSubject data next blob_data"
| "deserialize_value Tag_ModuleHash data next blob_data =
     deserialize_blob KeyParam_ModuleHash data next blob_data"
| "deserialize_value Tag_Invalid data next blob_data = km_err ErrorCode_InvalidKeyBlob"
| "deserialize_value Tag_HardwareType data next blob_data = km_err ErrorCode_InvalidKeyBlob"
| "deserialize_value Tag_MinSecondsBetweenOps data next blob_data = km_err ErrorCode_InvalidKeyBlob"
| "deserialize_value Tag_UniqueId data next blob_data = km_err ErrorCode_InvalidKeyBlob"
| "deserialize_value Tag_IdentityCredentialKey data next blob_data = km_err ErrorCode_InvalidKeyBlob"
| "deserialize_value Tag_AssociatedData data next blob_data = km_err ErrorCode_InvalidKeyBlob"
| "deserialize_value Tag_ConfirmationToken data next blob_data = km_err ErrorCode_InvalidKeyBlob"

text \<open>The \<open>for\<close> loop over the declared number of parameters.\<close>

fun deserialize_params ::
    "nat \<Rightarrow> bytes \<Rightarrow> nat \<Rightarrow> bytes \<Rightarrow> Error + (KeyParam list \<times> bytes)" where
  "deserialize_params 0 data next blob_data = Inr ([], data)"
| "deserialize_params (Suc n) data next blob_data =
     res_bind (consume_u32 data) (\<lambda>(tag_num, data).
     res_bind (ok_or (Error_Hal ErrorCode_InvalidKeyBlob) (Tag_n (sint tag_num))) (\<lambda>tag.
     res_bind (deserialize_value tag data next blob_data) (\<lambda>(p, data, next).
     res_bind (deserialize_params n data next blob_data) (\<lambda>(ps, data).
     Inr (p # ps, data)))))"

definition deserialize :: "bytes \<Rightarrow> Error + (KeyParam list \<times> bytes)" where
  "deserialize data =
     res_bind (consume_u32 data) (\<lambda>(size, data).
       let blob_data_size = unat size in
       if blob_data_size > length data then km_err ErrorCode_InvalidKeyBlob
       else
         let blob_data = take blob_data_size data; data = drop blob_data_size data in
         res_bind (consume_u32 data) (\<lambda>(param_count, data).
         res_bind (consume_u32 data) (\<lambda>(param_size, data).
           if unat param_size > length data then km_err ErrorCode_InvalidKeyBlob
           else deserialize_params (unat param_count) data 0 blob_data)))"

section \<open>Ordering\<close>

text \<open>
  \<open>param_compare\<close> has one arm per variant for two values of the same variant, except for
  \<open>MlDsaVariant\<close>, and otherwise compares the tags.  The arms are listed in
  \<open>param_compare_arms\<close> below.
\<close>

primrec payload_kind :: "Payload \<Rightarrow> nat" where
  "payload_kind (Payload_Enum v) = 0"
| "payload_kind (Payload_U32 v) = 1"
| "payload_kind (Payload_U64 v) = 2"
| "payload_kind Payload_True = 3"
| "payload_kind (Payload_Date v) = 4"
| "payload_kind (Payload_Bytes v) = 5"

text \<open>
  The values of two parameters of one variant are of one kind, so the last equation (which
  makes the function an order on all payloads) is not used by \<open>param_compare\<close>.
\<close>

fun payload_compare :: "Payload \<Rightarrow> Payload \<Rightarrow> ordering" where
  "payload_compare (Payload_Enum l) (Payload_Enum r) = cmp l r"
| "payload_compare (Payload_U32 l) (Payload_U32 r) = cmp l r"
| "payload_compare (Payload_U64 l) (Payload_U64 r) = cmp l r"
| "payload_compare Payload_True Payload_True = Equal"
| "payload_compare (Payload_Date l) (Payload_Date r) = cmp (sint l) (sint r)"
| "payload_compare (Payload_Bytes l) (Payload_Bytes r) = cmp_slice l r"
| "payload_compare l r = cmp (payload_kind l) (payload_kind r)"

definition param_compare :: "KeyParam \<Rightarrow> KeyParam \<Rightarrow> ordering" where
  "param_compare l r =
     (if KeyParam_tag l = KeyParam_tag r \<and> KeyParam_tag l \<noteq> Tag_MlDsaVariant
      then payload_compare (KeyParam_payload l) (KeyParam_payload r)
      else cmp (KeyParam_tag l) (KeyParam_tag r))"

lemma param_compare_arms:
  "param_compare (KeyParam_Purpose l0) (KeyParam_Purpose r0) = cmp l0 r0"
  "param_compare (KeyParam_Algorithm l1) (KeyParam_Algorithm r1) = cmp l1 r1"
  "param_compare (KeyParam_KeySize (KeySizeInBits a2)) (KeyParam_KeySize (KeySizeInBits b2)) = cmp a2 b2"
  "param_compare (KeyParam_BlockMode l3) (KeyParam_BlockMode r3) = cmp l3 r3"
  "param_compare (KeyParam_Digest l4) (KeyParam_Digest r4) = cmp l4 r4"
  "param_compare (KeyParam_Padding l5) (KeyParam_Padding r5) = cmp l5 r5"
  "param_compare KeyParam_CallerNonce KeyParam_CallerNonce = Equal"
  "param_compare (KeyParam_MinMacLength l7) (KeyParam_MinMacLength r7) = cmp l7 r7"
  "param_compare (KeyParam_EcCurve l8) (KeyParam_EcCurve r8) = cmp l8 r8"
  "param_compare (KeyParam_RsaPublicExponent (RsaExponent a9)) (KeyParam_RsaPublicExponent (RsaExponent b9)) = cmp a9 b9"
  "param_compare KeyParam_IncludeUniqueId KeyParam_IncludeUniqueId = Equal"
  "param_compare (KeyParam_RsaOaepMgfDigest l11) (KeyParam_RsaOaepMgfDigest r11) = cmp l11 r11"
  "param_compare KeyParam_BootloaderOnly KeyParam_BootloaderOnly = Equal"
  "param_compare KeyParam_RollbackResistance KeyParam_RollbackResistance = Equal"
  "param_compare KeyParam_EarlyBootOnly KeyParam_EarlyBootOnly = Equal"
  "param_compare (KeyParam_ActiveDatetime l15) (KeyParam_ActiveDatetime r15) =
     cmp (sint (ms_since_epoch l15)) (sint (ms_since_epoch r15))"
  "param_compare (KeyParam_OriginationExpireDatetime l16) (KeyParam_OriginationExpireDatetime r16) =
     cmp (sint (ms_since_epoch l16)) (sint (ms_since_epoch r16))"
  "param_compare (KeyParam_UsageExpireDatetime l17) (KeyParam_UsageExpireDatetime r17) =
     cmp (sint (ms_since_epoch l17)) (sint (ms_since_epoch r17))"
  "param_compare (KeyParam_MaxUsesPerBoot l18) (KeyParam_MaxUsesPerBoot r18) = cmp l18 r18"
  "param_compare (KeyParam_UsageCountLimit l19) (KeyParam_UsageCountLimit r19) = cmp l19 r19"
  "param_compare (KeyParam_UserId l20) (KeyParam_UserId r20) = cmp l20 r20"
  "param_compare (KeyParam_UserSecureId l21) (KeyParam_UserSecureId r21) = cmp l21 r21"
  "param_compare KeyParam_NoAuthRequired KeyParam_NoAuthRequired = Equal"
  "param_compare (KeyParam_UserAuthType l23) (KeyParam_UserAuthType r23) = cmp l23 r23"
  "param_compare (KeyParam_AuthTimeout l24) (KeyParam_AuthTimeout r24) = cmp l24 r24"
  "param_compare KeyParam_AllowWhileOnBody KeyParam_AllowWhileOnBody = Equal"
  "param_compare KeyParam_TrustedUserPresenceRequired KeyParam_TrustedUserPresenceRequired = Equal"
  "param_compare KeyParam_TrustedConfirmationRequired KeyParam_TrustedConfirmationRequired = Equal"
  "param_compare KeyParam_UnlockedDeviceRequired KeyParam_UnlockedDeviceRequired = Equal"
  "param_compare (KeyParam_ApplicationId l29) (KeyParam_ApplicationId r29) = cmp_slice l29 r29"
  "param_compare (KeyParam_ApplicationData l30) (KeyParam_ApplicationData r30) = cmp_slice l30 r30"
  "param_compare (KeyParam_CreationDatetime l31) (KeyParam_CreationDatetime r31) =
     cmp (sint (ms_since_epoch l31)) (sint (ms_since_epoch r31))"
  "param_compare (KeyParam_Origin l32) (KeyParam_Origin r32) = cmp l32 r32"
  "param_compare (KeyParam_RootOfTrust l33) (KeyParam_RootOfTrust r33) = cmp_slice l33 r33"
  "param_compare (KeyParam_OsVersion l34) (KeyParam_OsVersion r34) = cmp l34 r34"
  "param_compare (KeyParam_OsPatchlevel l35) (KeyParam_OsPatchlevel r35) = cmp l35 r35"
  "param_compare (KeyParam_AttestationChallenge l36) (KeyParam_AttestationChallenge r36) = cmp_slice l36 r36"
  "param_compare (KeyParam_AttestationApplicationId l37) (KeyParam_AttestationApplicationId r37) = cmp_slice l37 r37"
  "param_compare (KeyParam_AttestationIdBrand l38) (KeyParam_AttestationIdBrand r38) = cmp_slice l38 r38"
  "param_compare (KeyParam_AttestationIdDevice l39) (KeyParam_AttestationIdDevice r39) = cmp_slice l39 r39"
  "param_compare (KeyParam_AttestationIdProduct l40) (KeyParam_AttestationIdProduct r40) = cmp_slice l40 r40"
  "param_compare (KeyParam_AttestationIdSerial l41) (KeyParam_AttestationIdSerial r41) = cmp_slice l41 r41"
  "param_compare (KeyParam_AttestationIdImei l42) (KeyParam_AttestationIdImei r42) = cmp_slice l42 r42"
  "param_compare (KeyParam_AttestationIdSecondImei l43) (KeyParam_AttestationIdSecondImei r43) = cmp_slice l43 r43"
  "param_compare (KeyParam_AttestationIdMeid l44) (KeyParam_AttestationIdMeid r44) = cmp_slice l44 r44"
  "param_compare (KeyParam_AttestationIdManufacturer l45) (KeyParam_AttestationIdManufacturer r45) = cmp_slice l45 r45"
  "param_compare (KeyParam_AttestationIdModel l46) (KeyParam_AttestationIdModel r46) = cmp_slice l46 r46"
  "param_compare (KeyParam_VendorPatchlevel l47) (KeyParam_VendorPatchlevel r47) = cmp l47 r47"
  "param_compare (KeyParam_BootPatchlevel l48) (KeyParam_BootPatchlevel r48) = cmp l48 r48"
  "param_compare KeyParam_DeviceUniqueAttestation KeyParam_DeviceUniqueAttestation = Equal"
  "param_compare KeyParam_StorageKey KeyParam_StorageKey = Equal"
  "param_compare (KeyParam_Nonce l51) (KeyParam_Nonce r51) = cmp_slice l51 r51"
  "param_compare (KeyParam_MacLength l52) (KeyParam_MacLength r52) = cmp l52 r52"
  "param_compare KeyParam_ResetSinceIdRotation KeyParam_ResetSinceIdRotation = Equal"
  "param_compare (KeyParam_CertificateSerial l54) (KeyParam_CertificateSerial r54) = cmp_slice l54 r54"
  "param_compare (KeyParam_CertificateSubject l55) (KeyParam_CertificateSubject r55) = cmp_slice l55 r55"
  "param_compare (KeyParam_CertificateNotBefore l56) (KeyParam_CertificateNotBefore r56) =
     cmp (sint (ms_since_epoch l56)) (sint (ms_since_epoch r56))"
  "param_compare (KeyParam_CertificateNotAfter l57) (KeyParam_CertificateNotAfter r57) =
     cmp (sint (ms_since_epoch l57)) (sint (ms_since_epoch r57))"
  "param_compare (KeyParam_MaxBootLevel l58) (KeyParam_MaxBootLevel r58) = cmp l58 r58"
  "param_compare (KeyParam_ModuleHash l59) (KeyParam_ModuleHash r59) = cmp_slice l59 r59"
  by (simp_all add: param_compare_def cmp_def less_KeyPurpose_def less_Algorithm_def
      less_BlockMode_def less_Digest_def less_PaddingMode_def less_EcCurve_def
      less_KeyOrigin_def we_KeyPurpose.inj_disc we_Algorithm.inj_disc we_BlockMode.inj_disc
      we_Digest.inj_disc we_PaddingMode.inj_disc we_EcCurve.inj_disc we_KeyOrigin.inj_disc)

lemma param_compare_other_arm:
  "KeyParam_tag l \<noteq> KeyParam_tag r \<Longrightarrow> param_compare l r = cmp (KeyParam_tag l) (KeyParam_tag r)"
  by (simp add: param_compare_def)

text \<open>The comparison is a total preorder, so sorting by it is meaningful.\<close>

lemma comparison_payload: "comparison payload_compare"
proof unfold_locales
  fix x y z :: Payload
  note slice = comparison.c_refl[OF comparison_slice] comparison.c_flip[OF comparison_slice]
    comparison.c_trans[OF comparison_slice]
  show "payload_compare x x = Equal"
    by (cases x) (simp_all add: slice)
  show "(payload_compare x y = Greater) = (payload_compare y x = Less)"
    by (cases x; cases y) (auto simp: slice)
  show "payload_compare x y \<noteq> Greater \<Longrightarrow> payload_compare y z \<noteq> Greater
      \<Longrightarrow> payload_compare x z \<noteq> Greater"
    by (cases x; cases y; cases z) (auto dest: slice(3))
qed

definition compare_key :: "KeyParam \<Rightarrow> Payload" where
  "compare_key p =
     (if KeyParam_tag p = Tag_MlDsaVariant then Payload_True else KeyParam_payload p)"

lemma param_compare_lex:
  "param_compare = (\<lambda>l r. case cmp (KeyParam_tag l) (KeyParam_tag r) of
     Equal \<Rightarrow> payload_compare (compare_key l) (compare_key r) | ord \<Rightarrow> ord)"
  by (intro ext) (auto simp: param_compare_def compare_key_def split: ordering.splits)

interpretation legacy_order: comparison param_compare
  unfolding param_compare_lex by (rule comparison_lex[OF comparison_cmp comparison_payload])

text \<open>
  Sorting key characteristics with the legacy comparison gives a list that is in order (no
  element is greater than a later one), is a permutation of the input, and keeps the relative
  order of the elements that compare equal to any given parameter.
\<close>

theorem legacy_sort_correct:
  "sorted_wrt (\<lambda>l r. param_compare l r \<noteq> Greater) (sort_by param_compare ps) \<and>
   count_list (sort_by param_compare ps) = count_list ps \<and>
   filter (\<lambda>p. param_compare p q = Equal) (sort_by param_compare ps)
     = filter (\<lambda>p. param_compare p q = Equal) ps"
  using legacy_order.sorted_sort_by[of ps] legacy_order.sort_by_stable[of q ps]
  by (auto simp: legacy_order.le_by_def[abs_def] fun_eq_iff)

section \<open>Round trip\<close>

text \<open>The bytes of one parameter's value, and of the parameter list, for given blob offsets.\<close>

definition blob_of :: "KeyParam \<Rightarrow> bytes" where
  "blob_of p = (case KeyParam_payload p of Payload_Bytes v \<Rightarrow> v | _ \<Rightarrow> [])"

definition value_bytes :: "u32 \<Rightarrow> KeyParam \<Rightarrow> bytes" where
  "value_bytes off p = (case KeyParam_payload p of
     Payload_Enum v \<Rightarrow> u32_to_ne_bytes (of_int v)
   | Payload_U32 v \<Rightarrow> u32_to_ne_bytes v
   | Payload_U64 v \<Rightarrow> u64_to_ne_bytes v
   | Payload_True \<Rightarrow> [0x01]
   | Payload_Date v \<Rightarrow> u64_to_ne_bytes v
   | Payload_Bytes v \<Rightarrow> u32_to_ne_bytes (of_nat (length v)) @ u32_to_ne_bytes off)"

fun params_bytes :: "u32 \<Rightarrow> KeyParam list \<Rightarrow> bytes" where
  "params_bytes off [] = []"
| "params_bytes off (p # ps) =
     u32_to_ne_bytes (Tag_u32 (KeyParam_tag p)) @ value_bytes off p
     @ params_bytes (off + of_nat (length (blob_of p))) ps"

lemma serialize_blob_step:
  "serialize_blob (result, n) p = (result @ blob_of p, n + of_nat (length (blob_of p)))"
  by (auto simp: serialize_blob_def blob_of_def split: Payload.splits)

lemma serialize_blobs:
  "foldl serialize_blob (result, n) ps =
     (result @ concat (map blob_of ps), n + of_nat (length (concat (map blob_of ps))))"
  by (induction ps arbitrary: result n) (simp_all add: serialize_blob_step algebra_simps)

lemma serialize_param_step:
  "serialize_param (result, off) p =
     (result @ u32_to_ne_bytes (Tag_u32 (KeyParam_tag p)) @ value_bytes off p,
      off + of_nat (length (blob_of p)))"
  by (auto simp: serialize_param_def value_bytes_def blob_of_def Let_def split: Payload.splits)

lemma serialize_params:
  "fst (foldl serialize_param (result, off) ps) = result @ params_bytes off ps"
  by (induction ps arbitrary: result off) (simp_all add: serialize_param_step)

text \<open>The layout the documentation comment of \<open>serialize\<close> describes.\<close>

lemma serialize_layout:
  "serialize ps =
     u32_to_ne_bytes (of_nat (length (concat (map blob_of ps))))
     @ concat (map blob_of ps)
     @ u32_to_ne_bytes (of_nat (length ps))
     @ u32_to_ne_bytes (of_nat (length (params_bytes 0 ps)))
     @ params_bytes 0 ps"
  by (simp add: serialize_def serialize_blobs Let_def case_prod_beta serialize_params)

lemma consume_u32_bytes [simp]: "consume_u32 (u32_to_ne_bytes w @ rest) = Inr (w, rest)"
  by (simp add: consume_u32_def)

lemma consume_i32_bytes [simp]: "consume_i32 (u32_to_ne_bytes w @ rest) = Inr (sint w, rest)"
  by (simp add: consume_i32_def)

lemma consume_u64_bytes [simp]: "consume_u64 (u64_to_ne_bytes w @ rest) = Inr (w, rest)"
  by (simp add: consume_u64_def)

lemma consume_i64_bytes [simp]: "consume_i64 (u64_to_ne_bytes w @ rest) = Inr (w, rest)"
  by (simp add: consume_i64_def)

lemma sint_of_int_i32: "fits_i32 v \<Longrightarrow> sint (of_int v :: u32) = v"
  by (simp add: fits_i32_def signed_of_int signed_take_bit_int_eq_self)

lemma consume_blob_bytes:
  assumes "next = unat off" and "next + length v \<le> length blob_data"
    and "take (length v) (drop next blob_data) = v" and "length v < 2 ^ 32"
  shows "consume_blob (u32_to_ne_bytes (of_nat (length v)) @ u32_to_ne_bytes off @ rest)
           next blob_data = Inr (v, rest, next + length v)"
proof -
  have "unat (of_nat (length v) :: u32) = length v"
    using assms(4) by (simp add: unat_of_nat)
  with assms(1-3) show ?thesis by (simp add: consume_blob_def Let_def)
qed

lemma deserialize_value_bytes:
  assumes "next = unat off" and "next + length (blob_of p) \<le> length blob_data"
    and "take (length (blob_of p)) (drop next blob_data) = blob_of p"
    and "length (blob_of p) < 2 ^ 32"
  shows "deserialize_value (KeyParam_tag p) (value_bytes off p @ rest) next blob_data
           = Inr (p, rest, next + length (blob_of p))"
  using assms
  by (cases p)
    (auto simp: value_bytes_def blob_of_def deserialize_enum_def deserialize_u32_def
      deserialize_u64_def deserialize_true_def deserialize_date_def deserialize_blob_def
      consume_bool_def consume_u8_def sint_of_int_i32
      KeyPurpose_n_def we_KeyPurpose.disc_fits Algorithm_n_def we_Algorithm.disc_fits
      BlockMode_n_def we_BlockMode.disc_fits Digest_n_def we_Digest.disc_fits
      PaddingMode_n_def we_PaddingMode.disc_fits EcCurve_n_def we_EcCurve.disc_fits
      KeyOrigin_n_def we_KeyOrigin.disc_fits MlDsaVariant_n_def we_MlDsaVariant.disc_fits
      consume_blob_bytes split: KeySizeInBits.splits RsaExponent.splits)

lemma Tag_n_Tag_u32 [simp]: "Tag_n (sint (Tag_u32 t)) = Some t"
  by (simp add: Tag_n_def Tag_u32_def sint_of_int_i32 we_Tag.disc_fits)

lemma unat_add_of_nat_u32:
  "unat (off :: u32) + n < 2 ^ 32 \<Longrightarrow> unat (off + of_nat n) = unat off + n"
  by (simp add: unat_word_ariths unat_of_nat)

lemma deserialize_params_bytes:
  assumes "next = unat off" and "next + length (concat (map blob_of ps)) \<le> length blob_data"
    and "take (length (concat (map blob_of ps))) (drop next blob_data) = concat (map blob_of ps)"
    and "length blob_data < 2 ^ 32"
  shows "deserialize_params (length ps) (params_bytes off ps @ rest) next blob_data
           = Inr (ps, rest)"
  using assms(1-3)
proof (induction ps arbitrary: off "next")
  case (Cons p ps)
  let ?n = "length (blob_of p)" and ?m = "length (concat (map blob_of ps))"
  have split: "take ?n (drop next blob_data) @ take ?m (drop (next + ?n) blob_data)
      = blob_of p @ concat (map blob_of ps)"
    using Cons.prems(3) by (simp add: take_add ac_simps)
  have len: "length (take ?n (drop next blob_data)) = ?n"
    using Cons.prems(2) by simp
  have p: "take ?n (drop next blob_data) = blob_of p"
    and ps: "take ?m (drop (next + ?n) blob_data) = concat (map blob_of ps)"
    using split len by auto
  have bound: "?n < 2 ^ 32" "next + ?n < 2 ^ 32" "next + ?n \<le> length blob_data"
    using Cons.prems(2) assms(4) by auto
  have step: "deserialize_value (KeyParam_tag p)
      (value_bytes off p @ params_bytes (off + of_nat ?n) ps @ rest) next blob_data
      = Inr (p, params_bytes (off + of_nat ?n) ps @ rest, next + ?n)"
    using Cons.prems(1) p bound by (intro deserialize_value_bytes) auto
  have "deserialize_params (length ps) (params_bytes (off + of_nat ?n) ps @ rest)
      (next + ?n) blob_data = Inr (ps, rest)"
    using Cons.prems(1,2) ps bound
    by (intro Cons.IH) (simp_all add: unat_add_of_nat_u32 add.assoc)
  with step show ?case by simp
qed simp

lemma length_params_bytes: "length ps \<le> length (params_bytes off ps)"
  by (induction ps arbitrary: off) (simp_all add: le_SucI trans_le_add2)

text \<open>
  C31: Legacy round trip: as long as the serialized form is shorter than 4 GiB, deserializing it
  (with any data following it) gives the parameters back and leaves exactly that data.
\<close>

theorem legacy_round_trip:
  assumes "length (serialize ps) < 2 ^ 32"
  shows "deserialize (serialize ps @ rest) = Inr (ps, rest)"
proof -
  let ?blob = "concat (map blob_of ps)"
  from assms have bounds: "length ?blob < 2 ^ 32" "length ps < 2 ^ 32"
      "length (params_bytes 0 ps) < 2 ^ 32"
    using length_params_bytes[of ps 0] by (auto simp: serialize_layout)
  have "unat (of_nat (length ?blob) :: u32) = length ?blob"
    "unat (of_nat (length ps) :: u32) = length ps"
    "unat (of_nat (length (params_bytes 0 ps)) :: u32) = length (params_bytes 0 ps)"
    using bounds by (simp_all add: unat_of_nat)
  moreover have "deserialize_params (length ps) (params_bytes 0 ps @ rest) 0 ?blob = Inr (ps, rest)"
    using bounds by (intro deserialize_params_bytes) simp_all
  ultimately show ?thesis
    by (simp add: deserialize_def serialize_layout Let_def)
qed

theorem legacy_round_trip_witness:
  "deserialize (serialize [KeyParam_ApplicationId [1, 2], KeyParam_NoAuthRequired,
     KeyParam_KeySize (KeySizeInBits 256)] @ [7]) =
   Inr ([KeyParam_ApplicationId [1, 2], KeyParam_NoAuthRequired,
     KeyParam_KeySize (KeySizeInBits 256)], [7])"
  by (rule legacy_round_trip)
    (simp add: serialize_layout blob_of_def value_bytes_def)

end
