(* ===== verification/Tag_Params.thy ===== *)
theory Tag_Params
  imports Tag_Info Tag_Legacy
begin

text \<open>
  Working with parameter lists (\<^verbatim>\<open>common/src/tag.rs\<close>): the tag-lookup macros, the getters,
  the validity check of characteristics, \<open>transcribe_tags\<close>, \<open>hidden\<close>, and the split of the
  parameters of a new key into KeyMint- and Keystore-enforced characteristics.
\<close>

section \<open>Looking a tag up\<close>

text \<open>
  The macros scan the whole list, count the parameters of the variant and remember the last
  value.  The variant is given by its partial projection.
\<close>

definition scan_step :: "(KeyParam \<Rightarrow> 'v option) \<Rightarrow> nat \<times> 'v option \<Rightarrow> KeyParam \<Rightarrow> nat \<times> 'v option" where
  "scan_step variant = (\<lambda>(count, result) param. case variant param of
     Some v \<Rightarrow> (count + 1, Some v)
   | None \<Rightarrow> (count, result))"

definition tag_scan :: "(KeyParam \<Rightarrow> 'v option) \<Rightarrow> KeyParam list \<Rightarrow> nat \<times> 'v option" where
  "tag_scan variant params = foldl (scan_step variant) (0, None) params"

definition get_tag_value ::
    "(KeyParam \<Rightarrow> 'v option) \<Rightarrow> ErrorCode \<Rightarrow> KeyParam list \<Rightarrow> Error + 'v" where
  "get_tag_value variant err params = (case tag_scan variant params of
     (count, result) \<Rightarrow>
       if count = 0 then km_err err
       else if count = 1 then Inr (the result)
       else km_err err)"

definition get_opt_tag_value ::
    "(KeyParam \<Rightarrow> 'v option) \<Rightarrow> ErrorCode \<Rightarrow> KeyParam list \<Rightarrow> Error + 'v option" where
  "get_opt_tag_value variant dup_error params = (case tag_scan variant params of
     (count, result) \<Rightarrow>
       if count = 0 then Inr None
       else if count = 1 then Inr (Some (the result))
       else km_err dup_error)"

definition get_bool_tag_value :: "KeyParam \<Rightarrow> KeyParam list \<Rightarrow> Error + bool" where
  "get_bool_tag_value variant params =
     (let count = foldl (\<lambda>n p. if p = variant then n + 1 else n) (0 :: nat) params in
      if count = 0 then Inr False
      else if count = 1 then Inr True
      else km_err ErrorCode_InvalidTag)"

definition contains_tag_value :: "(KeyParam \<Rightarrow> 'v option) \<Rightarrow> 'v \<Rightarrow> KeyParam list \<Rightarrow> bool" where
  "contains_tag_value variant value params =
     foldl (\<lambda>found p. case variant p of
              Some v \<Rightarrow> if v = value then True else found | None \<Rightarrow> found) False params"

text \<open>The projections of the variants that the code looks up.\<close>

definition as_Purpose where
  "as_Purpose p = (case p of KeyParam_Purpose v \<Rightarrow> Some v | _ \<Rightarrow> None)"

definition as_Algorithm where
  "as_Algorithm p = (case p of KeyParam_Algorithm v \<Rightarrow> Some v | _ \<Rightarrow> None)"

definition as_BlockMode where
  "as_BlockMode p = (case p of KeyParam_BlockMode v \<Rightarrow> Some v | _ \<Rightarrow> None)"

definition as_Padding where
  "as_Padding p = (case p of KeyParam_Padding v \<Rightarrow> Some v | _ \<Rightarrow> None)"

definition as_Digest where
  "as_Digest p = (case p of KeyParam_Digest v \<Rightarrow> Some v | _ \<Rightarrow> None)"

definition as_EcCurve where
  "as_EcCurve p = (case p of KeyParam_EcCurve v \<Rightarrow> Some v | _ \<Rightarrow> None)"

definition as_MlDsaVariant where
  "as_MlDsaVariant p = (case p of KeyParam_MlDsaVariant v \<Rightarrow> Some v | _ \<Rightarrow> None)"

definition as_RsaOaepMgfDigest where
  "as_RsaOaepMgfDigest p = (case p of KeyParam_RsaOaepMgfDigest v \<Rightarrow> Some v | _ \<Rightarrow> None)"

definition as_KeySize where
  "as_KeySize p = (case p of KeyParam_KeySize v \<Rightarrow> Some v | _ \<Rightarrow> None)"

definition as_RsaPublicExponent where
  "as_RsaPublicExponent p = (case p of KeyParam_RsaPublicExponent v \<Rightarrow> Some v | _ \<Rightarrow> None)"

definition as_MinMacLength where
  "as_MinMacLength p = (case p of KeyParam_MinMacLength v \<Rightarrow> Some v | _ \<Rightarrow> None)"

definition as_CertificateSerial where
  "as_CertificateSerial p = (case p of KeyParam_CertificateSerial v \<Rightarrow> Some v | _ \<Rightarrow> None)"

definition as_CertificateSubject where
  "as_CertificateSubject p = (case p of KeyParam_CertificateSubject v \<Rightarrow> Some v | _ \<Rightarrow> None)"

definition as_ApplicationId where
  "as_ApplicationId p = (case p of KeyParam_ApplicationId v \<Rightarrow> Some v | _ \<Rightarrow> None)"

definition as_ApplicationData where
  "as_ApplicationData p = (case p of KeyParam_ApplicationData v \<Rightarrow> Some v | _ \<Rightarrow> None)"

section \<open>Validity and getters\<close>

text \<open>The loop body of \<open>characteristics_valid\<close>.\<close>

definition characteristic_step ::
    "DuplicateTagChecker \<Rightarrow> KeyParam \<Rightarrow> Error + DuplicateTagChecker" where
  "characteristic_step dup_checker param =
     (let tag = KeyParam_tag param in
      res_bind (DuplicateTagChecker_add dup_checker tag) (\<lambda>dup_checker.
      res_bind (info tag) (\<lambda>i.
        if characteristic i = Characteristic_NotKeyCharacteristic
        then km_err ErrorCode_InvalidKeyBlob else Inr dup_checker)))"

definition characteristics_valid :: "KeyParam list \<Rightarrow> Error + unit" where
  "characteristics_valid characteristics =
     map_ok (\<lambda>_. ()) (res_fold characteristic_step DuplicateTagChecker_default characteristics)"

definition transcribe_step ::
    "Tag list \<Rightarrow> DuplicateTagChecker \<times> KeyParam list \<Rightarrow> KeyParam
     \<Rightarrow> Error + (DuplicateTagChecker \<times> KeyParam list)" where
  "transcribe_step tags = (\<lambda>(dup_checker, dest) param.
     let tag = KeyParam_tag param in
     res_bind (DuplicateTagChecker_add dup_checker tag) (\<lambda>dup_checker.
     Inr (dup_checker, if tag \<in> set tags then dest @ [param] else dest)))"

definition transcribe_tags ::
    "KeyParam list \<Rightarrow> KeyParam list \<Rightarrow> Tag list \<Rightarrow> Error + KeyParam list" where
  "transcribe_tags dest src tags =
     map_ok snd (res_fold (transcribe_step tags) (DuplicateTagChecker_default, dest) src)"

definition get_algorithm :: "KeyParam list \<Rightarrow> Error + Algorithm" where
  "get_algorithm = get_tag_value as_Algorithm ErrorCode_UnsupportedAlgorithm"

definition get_block_mode :: "KeyParam list \<Rightarrow> Error + BlockMode" where
  "get_block_mode = get_tag_value as_BlockMode ErrorCode_UnsupportedBlockMode"

definition get_padding_mode :: "KeyParam list \<Rightarrow> Error + PaddingMode" where
  "get_padding_mode = get_tag_value as_Padding ErrorCode_UnsupportedPaddingMode"

definition get_digest :: "KeyParam list \<Rightarrow> Error + Digest" where
  "get_digest = get_tag_value as_Digest ErrorCode_UnsupportedDigest"

definition get_ec_curve :: "KeyParam list \<Rightarrow> Error + EcCurve" where
  "get_ec_curve = get_tag_value as_EcCurve ErrorCode_UnsupportedKeySize"

definition get_mldsa_variant :: "KeyParam list \<Rightarrow> Error + MlDsaVariant" where
  "get_mldsa_variant = get_tag_value as_MlDsaVariant ErrorCode_UnsupportedMlDsaVariant"

definition get_mgf_digest :: "KeyParam list \<Rightarrow> Error + Digest" where
  "get_mgf_digest params =
     map_ok (\<lambda>d. case d of Some v \<Rightarrow> v | None \<Rightarrow> Digest_Sha1)
       (get_opt_tag_value as_RsaOaepMgfDigest ErrorCode_InvalidTag params)"

definition DEFAULT_CERT_SERIAL :: bytes where
  "DEFAULT_CERT_SERIAL = [0x01]"

definition DEFAULT_CERT_SUBJECT :: bytes where
  "DEFAULT_CERT_SUBJECT = [
     0x30, 0x1f, 0x31, 0x1d, 0x30, 0x1b, 0x06, 0x03, 0x55, 0x04, 0x03, 0x0c, 0x14,
     0x41, 0x6e, 0x64, 0x72, 0x6f, 0x69, 0x64, 0x20, 0x4b, 0x65, 0x79, 0x73, 0x74, 0x6f,
     0x72, 0x65, 0x20, 0x4b, 0x65, 0x79]"

definition get_cert_serial :: "KeyParam list \<Rightarrow> Error + bytes" where
  "get_cert_serial params =
     map_ok (\<lambda>d. case d of Some v \<Rightarrow> v | None \<Rightarrow> DEFAULT_CERT_SERIAL)
       (get_opt_tag_value as_CertificateSerial ErrorCode_InvalidTag params)"

definition get_cert_subject :: "KeyParam list \<Rightarrow> Error + bytes" where
  "get_cert_subject params =
     map_ok (\<lambda>d. case d of Some v \<Rightarrow> v | None \<Rightarrow> DEFAULT_CERT_SUBJECT)
       (get_opt_tag_value as_CertificateSubject ErrorCode_InvalidTag params)"

definition characteristics_at ::
    "KeyCharacteristics list \<Rightarrow> SecurityLevel \<Rightarrow> Error + KeyParam list" where
  "characteristics_at chars sec_level =
     res_bind
       (res_fold (\<lambda>result c.
          if security_level c \<noteq> sec_level then Inr result
          else if result = None then Inr (Some (authorizations c))
          else km_err ErrorCode_InvalidKeyBlob) None chars)
       (ok_or (Error_Hal ErrorCode_InvalidKeyBlob))"

text \<open>
  The hidden parameters of key-encryption-key derivation; a duplicated application id or
  application data is treated as absent.
\<close>

definition hidden :: "KeyParam list \<Rightarrow> bytes \<Rightarrow> KeyParam list" where
  "hidden params rot =
     (case get_opt_tag_value as_ApplicationId ErrorCode_InvalidTag params of
        Inr (Some app_id) \<Rightarrow> [KeyParam_ApplicationId app_id] | _ \<Rightarrow> [])
     @ (case get_opt_tag_value as_ApplicationData ErrorCode_InvalidTag params of
        Inr (Some app_data) \<Rightarrow> [KeyParam_ApplicationData app_data] | _ \<Rightarrow> [])
     @ [KeyParam_RootOfTrust rot]"

definition primary_purpose :: "KeyParam list \<Rightarrow> Error + KeyPurpose" where
  "primary_purpose params =
     ok_or (Error_Hal ErrorCode_IncompatiblePurpose)
       (case List.map_filter as_Purpose params of [] \<Rightarrow> None | v # _ \<Rightarrow> Some v)"

definition digest_len :: "Digest \<Rightarrow> Error + u32" where
  "digest_len digest = (case digest of
     Digest_Md5 \<Rightarrow> Inr 128
   | Digest_Sha1 \<Rightarrow> Inr 160
   | Digest_Sha224 \<Rightarrow> Inr 224
   | Digest_Sha256 \<Rightarrow> Inr 256
   | Digest_Sha384 \<Rightarrow> Inr 384
   | Digest_Sha512 \<Rightarrow> Inr 512
   | _ \<Rightarrow> km_err ErrorCode_IncompatibleDigest)"

section \<open>Splitting the characteristics of a new key\<close>

datatype SecureStorage = SecureStorage_Available | SecureStorage_Unavailable

record auth_scan =
  seen_user_secure_id :: bool
  seen_auth_type :: bool
  seen_no_auth :: bool

definition auth_scan_step :: "auth_scan \<Rightarrow> KeyParam \<Rightarrow> auth_scan" where
  "auth_scan_step s param = (case param of
     KeyParam_UserSecureId _ \<Rightarrow> s\<lparr>seen_user_secure_id := True\<rparr>
   | KeyParam_UserAuthType _ \<Rightarrow> s\<lparr>seen_auth_type := True\<rparr>
   | KeyParam_NoAuthRequired \<Rightarrow> s\<lparr>seen_no_auth := True\<rparr>
   | _ \<Rightarrow> s)"

definition reject_incompatible_auth :: "KeyParam list \<Rightarrow> Error + unit" where
  "reject_incompatible_auth params =
     (let s = foldl auth_scan_step
                \<lparr>seen_user_secure_id = False, seen_auth_type = False, seen_no_auth = False\<rparr> params in
      if seen_no_auth s \<and> seen_user_secure_id s then km_err ErrorCode_InvalidTag
      else if seen_no_auth s \<and> seen_auth_type s then km_err ErrorCode_InvalidTag
      else if seen_user_secure_id s \<and> \<not> seen_auth_type s then km_err ErrorCode_InvalidTag
      else Inr ())"

text \<open>The loop body of \<open>extract_key_characteristics\<close>.\<close>

definition extract_step ::
    "SecureStorage \<Rightarrow> Algorithm \<Rightarrow> SecurityLevel \<Rightarrow> KeyParam list \<times> KeyParam list \<Rightarrow> KeyParam
     \<Rightarrow> Error + (KeyParam list \<times> KeyParam list)" where
  "extract_step secure_storage algorithm sec_level = (\<lambda>(chars, keystore_chars) param.
     let tag = KeyParam_tag param in
     if tag \<in> set AUTO_ADDED_CHARACTERISTICS then km_err ErrorCode_InvalidTag
     else if sec_level = SecurityLevel_Strongbox
        \<and> tag \<in> {Tag_MaxUsesPerBoot, Tag_RollbackResistance} then km_err ErrorCode_InvalidTag
     else if as_KeySize param \<noteq> None \<and> algorithm = Algorithm_MlDsa then Inr (chars, keystore_chars)
     else
       let (chars, keystore_chars) = (case param of
              KeyParam_UsageCountLimit use_limit \<Rightarrow>
                if use_limit = 1 \<and> secure_storage = SecureStorage_Available
                then (chars @ [KeyParam_UsageCountLimit use_limit], keystore_chars)
                else (chars, keystore_chars @ [KeyParam_UsageCountLimit use_limit])
            | _ \<Rightarrow> (chars, keystore_chars))
       in if tag \<in> set KEYMINT_ENFORCED_CHARACTERISTICS
          then Inr (chars @ [param], keystore_chars)
          else if tag \<in> set KEYSTORE_ENFORCED_CHARACTERISTICS
          then Inr (chars, keystore_chars @ [param])
          else Inr (chars, keystore_chars))"

definition extract_key_characteristics ::
    "SecureStorage \<Rightarrow> Algorithm \<Rightarrow> KeyParam list \<Rightarrow> KeyParam list \<Rightarrow> SecurityLevel
     \<Rightarrow> Error + KeyCharacteristics list" where
  "extract_key_characteristics secure_storage algorithm params extra_params sec_level =
     res_bind (res_fold (extract_step secure_storage algorithm sec_level) ([], [])
                 (params @ extra_params)) (\<lambda>(chars, keystore_chars).
     res_bind (reject_incompatible_auth chars) (\<lambda>_.
       let chars = sort_by param_compare chars;
           keystore_chars = sort_by param_compare keystore_chars;
           result = [\<lparr>security_level = sec_level, authorizations = chars\<rparr>]
       in Inr (if keystore_chars \<noteq> []
               then result @ [\<lparr>security_level = SecurityLevel_Keystore,
                               authorizations = keystore_chars\<rparr>]
               else result)))"

section \<open>The macros\<close>

lemma tag_scan_eq:
  "tag_scan variant ps =
     (let vs = List.map_filter variant ps in (length vs, if vs = [] then None else Some (last vs)))"
proof -
  have "foldl (scan_step variant) (n, r) ps =
      (let vs = List.map_filter variant ps in (n + length vs, if vs = [] then r else Some (last vs)))"
    for n r
    by (induction ps arbitrary: n r)
      (auto simp: scan_step_def Let_def map_filter_simps split: option.splits)
  then show ?thesis by (simp add: tag_scan_def)
qed

lemma get_tag_value_iff:
  "get_tag_value variant err ps = Inr x \<longleftrightarrow> List.map_filter variant ps = [x]"
  by (cases "List.map_filter variant ps" rule: remdups_adj.cases)
    (auto simp: get_tag_value_def tag_scan_eq Let_def)

lemma get_tag_value_error:
  "get_tag_value variant err ps = Inl e \<Longrightarrow> e = Error_Hal err"
  by (auto simp: get_tag_value_def tag_scan_eq Let_def split: if_splits)

lemma get_opt_tag_value_None_iff:
  "get_opt_tag_value variant err ps = Inr None \<longleftrightarrow> List.map_filter variant ps = []"
  by (cases "List.map_filter variant ps" rule: remdups_adj.cases)
    (auto simp: get_opt_tag_value_def tag_scan_eq Let_def)

lemma get_opt_tag_value_Some_iff:
  "get_opt_tag_value variant err ps = Inr (Some x) \<longleftrightarrow> List.map_filter variant ps = [x]"
  by (cases "List.map_filter variant ps" rule: remdups_adj.cases)
    (auto simp: get_opt_tag_value_def tag_scan_eq Let_def)

lemma contains_tag_value_iff:
  "contains_tag_value variant v ps \<longleftrightarrow> v \<in> set (List.map_filter variant ps)"
proof -
  have "foldl (\<lambda>found p. case variant p of
           Some u \<Rightarrow> if u = v then True else found | None \<Rightarrow> found) b ps
      \<longleftrightarrow> b \<or> v \<in> set (List.map_filter variant ps)" for b
    by (induction ps arbitrary: b) (auto simp: map_filter_simps split: option.splits)
  then show ?thesis by (simp add: contains_tag_value_def)
qed

lemma get_bool_tag_value_eq:
  "get_bool_tag_value b ps =
     (if count_list ps b = 0 then Inr False else if count_list ps b = 1 then Inr True
      else km_err ErrorCode_InvalidTag)"
proof -
  have "foldl (\<lambda>n p. if p = b then n + 1 else n) k ps = k + count_list ps b" for k :: nat
    by (induction ps arbitrary: k) auto
  then show ?thesis by (simp add: get_bool_tag_value_def)
qed

lemmas tag_lookup_iffs =
  get_tag_value_iff get_opt_tag_value_None_iff get_opt_tag_value_Some_iff contains_tag_value_iff

section \<open>Duplicates\<close>

definition no_duplicate_tags :: "KeyParam list \<Rightarrow> bool" where
  "no_duplicate_tags ps \<longleftrightarrow> distinct (filter (\<lambda>t. \<not> multivalued t) (map KeyParam_tag ps))"

lemma fold_add_params:
  "(\<exists>w. res_fold DuplicateTagChecker_add DuplicateTagChecker_default (map KeyParam_tag ps) = Inr w)
     \<longleftrightarrow> no_duplicate_tags ps"
  using dup.fold_add_iff[of DuplicateTagChecker_default "map KeyParam_tag ps"]
  by (auto simp: no_duplicate_tags_def KeyParam_tag_in_info)

lemma add_param_error:
  "DuplicateTagChecker_add w (KeyParam_tag p) = Inl e \<Longrightarrow> e = Error_Hal ErrorCode_InvalidKeyBlob"
  using info_known[of "KeyParam_tag p"] KeyParam_tag_in_info[of p]
  by (auto simp: DuplicateTagChecker_add_def Let_def split: if_splits)

lemma characteristic_fold_iff:
  "res_fold characteristic_step w ps = Inr w' \<longleftrightarrow>
     res_fold DuplicateTagChecker_add w (map KeyParam_tag ps) = Inr w' \<and>
     (\<forall>p \<in> set ps. \<exists>i. info (KeyParam_tag p) = Inr i
        \<and> characteristic i \<noteq> Characteristic_NotKeyCharacteristic)"
proof (induction ps arbitrary: w)
  case (Cons p ps)
  have "characteristic_step w p = Inr w1 \<longleftrightarrow>
      DuplicateTagChecker_add w (KeyParam_tag p) = Inr w1 \<and>
      (\<exists>i. info (KeyParam_tag p) = Inr i
         \<and> characteristic i \<noteq> Characteristic_NotKeyCharacteristic)" for w1
    by (auto simp: characteristic_step_def Let_def res_simps split: if_splits)
  with Cons show ?case by (auto simp: res_simps)
qed simp

text \<open>
  A parameter list is accepted as key characteristics exactly when every tag may be a key
  characteristic and no single-valued tag occurs twice.
\<close>

theorem characteristics_valid_correct:
  "characteristics_valid ps = Inr () \<longleftrightarrow>
     no_duplicate_tags ps \<and>
     set ps \<subseteq> {p. \<exists>i. info (KeyParam_tag p) = Inr i
                 \<and> characteristic i \<noteq> Characteristic_NotKeyCharacteristic}"
  unfolding characteristics_valid_def fold_add_params[symmetric]
  by (auto simp: res_simps characteristic_fold_iff)

lemma transcribe_fold_eq:
  "res_fold (transcribe_step tags) (w, dest) ps =
     map_ok (\<lambda>w'. (w', dest @ filter (\<lambda>p. KeyParam_tag p \<in> set tags) ps))
       (res_fold DuplicateTagChecker_add w (map KeyParam_tag ps))"
proof (induction ps arbitrary: w dest)
  case (Cons p ps)
  then show ?case
    by (cases "DuplicateTagChecker_add w (KeyParam_tag p)")
      (simp_all add: transcribe_step_def Let_def)
qed simp

lemma fold_add_error:
  "res_fold DuplicateTagChecker_add w (map KeyParam_tag ps) = Inl e
     \<Longrightarrow> e = Error_Hal ErrorCode_InvalidKeyBlob"
  by (induction ps arbitrary: w) (auto simp: res_simps dest: add_param_error)

text \<open>
  Transcribing copies, in order, exactly the parameters whose tag was asked for; it fails,
  with INVALID-KEY-BLOB, precisely when a single-valued tag occurs twice in the source.
\<close>

theorem transcribe_tags_correct:
  "transcribe_tags dest src tags =
     (if no_duplicate_tags src then Inr (dest @ filter (\<lambda>p. KeyParam_tag p \<in> set tags) src)
      else km_err ErrorCode_InvalidKeyBlob)"
proof (cases "res_fold DuplicateTagChecker_add DuplicateTagChecker_default (map KeyParam_tag src)")
  case (Inl e)
  then show ?thesis
    using fold_add_params[of src] fold_add_error[of _ src e]
    by (simp add: transcribe_tags_def transcribe_fold_eq)
next
  case (Inr w)
  then show ?thesis
    using fold_add_params[of src] by (simp add: transcribe_tags_def transcribe_fold_eq)
qed

section \<open>The split is a filter\<close>

text \<open>
  The specification: which parameters KeyMint enforces, which ones Keystore enforces, and
  which ones a client may not give.
\<close>

definition keymint_enforced :: "SecureStorage \<Rightarrow> Algorithm \<Rightarrow> KeyParam \<Rightarrow> bool" where
  "keymint_enforced storage alg p \<longleftrightarrow>
     KeyParam_tag p \<in> set KEYMINT_ENFORCED_CHARACTERISTICS
        \<and> \<not> (KeyParam_tag p = Tag_KeySize \<and> alg = Algorithm_MlDsa)
     \<or> p = KeyParam_UsageCountLimit 1 \<and> storage = SecureStorage_Available"

definition keystore_enforced :: "SecureStorage \<Rightarrow> KeyParam \<Rightarrow> bool" where
  "keystore_enforced storage p \<longleftrightarrow>
     KeyParam_tag p \<in> set KEYSTORE_ENFORCED_CHARACTERISTICS
     \<or> KeyParam_tag p = Tag_UsageCountLimit
        \<and> \<not> (p = KeyParam_UsageCountLimit 1 \<and> storage = SecureStorage_Available)"

definition client_may_give :: "SecurityLevel \<Rightarrow> KeyParam \<Rightarrow> bool" where
  "client_may_give lvl p \<longleftrightarrow>
     KeyParam_tag p \<notin> set AUTO_ADDED_CHARACTERISTICS \<and>
     \<not> (lvl = SecurityLevel_Strongbox
        \<and> KeyParam_tag p \<in> {Tag_MaxUsesPerBoot, Tag_RollbackResistance})"

definition auth_compatible :: "KeyParam list \<Rightarrow> bool" where
  "auth_compatible ps \<longleftrightarrow>
     (let tags = KeyParam_tag ` set ps in
      \<not> (Tag_NoAuthRequired \<in> tags \<and> (Tag_UserSecureId \<in> tags \<or> Tag_UserAuthType \<in> tags)) \<and>
      \<not> (Tag_UserSecureId \<in> tags \<and> Tag_UserAuthType \<notin> tags))"

lemma auth_scan_tags:
  "foldl auth_scan_step s ps =
     \<lparr>seen_user_secure_id = seen_user_secure_id s \<or> Tag_UserSecureId \<in> KeyParam_tag ` set ps,
      seen_auth_type = seen_auth_type s \<or> Tag_UserAuthType \<in> KeyParam_tag ` set ps,
      seen_no_auth = seen_no_auth s \<or> Tag_NoAuthRequired \<in> KeyParam_tag ` set ps\<rparr>"
proof (induction ps arbitrary: s)
  case (Cons p ps)
  have "auth_scan_step s p =
     \<lparr>seen_user_secure_id = seen_user_secure_id s \<or> Tag_UserSecureId = KeyParam_tag p,
      seen_auth_type = seen_auth_type s \<or> Tag_UserAuthType = KeyParam_tag p,
      seen_no_auth = seen_no_auth s \<or> Tag_NoAuthRequired = KeyParam_tag p\<rparr>"
    by (cases p) (simp_all add: auth_scan_step_def)
  with Cons show ?case by simp
qed simp

lemma reject_incompatible_auth_eq:
  "reject_incompatible_auth ps =
     (if auth_compatible ps then Inr () else km_err ErrorCode_InvalidTag)"
  unfolding reject_incompatible_auth_def auth_scan_tags auth_compatible_def Let_def by simp

lemmas enforced_lists =
  KEYMINT_ENFORCED_CHARACTERISTICS_def KEYSTORE_ENFORCED_CHARACTERISTICS_def
  AUTO_ADDED_CHARACTERISTICS_def

lemma enforced_disjoint: "\<not> (keymint_enforced storage alg p \<and> keystore_enforced storage p)"
  by (cases p) (auto simp: keymint_enforced_def keystore_enforced_def enforced_lists)

lemma extract_step_eq:
  "extract_step storage alg lvl (chars, ks) p =
     (if client_may_give lvl p
      then Inr (chars @ filter (keymint_enforced storage alg) [p],
                ks @ filter (keystore_enforced storage) [p])
      else km_err ErrorCode_InvalidTag)"
  by (cases p)
    (auto simp: extract_step_def client_may_give_def keymint_enforced_def keystore_enforced_def
      as_KeySize_def enforced_lists)

lemma extract_fold_eq:
  "res_fold (extract_step storage alg lvl) (chars, ks) ps =
     (if list_all (client_may_give lvl) ps
      then Inr (chars @ filter (keymint_enforced storage alg) ps,
                ks @ filter (keystore_enforced storage) ps)
      else km_err ErrorCode_InvalidTag)"
  by (induction ps arbitrary: chars ks) (simp_all add: extract_step_eq)

text \<open>
  C32: Extracting the characteristics of a new key is the split the tag table describes: the
  first entry, at KeyMint's security level, holds the KeyMint-enforced parameters, a second
  entry at the Keystore level holds the Keystore-enforced ones and is present only if there
  are any, each sorted in legacy order; the limited-use count goes to KeyMint only when it is
  one and secure storage is available.  The extraction fails, with INVALID-TAG, precisely when
  a parameter may not be given by a client or the authentication tags contradict each other.
\<close>

theorem extract_key_characteristics_correct:
  "extract_key_characteristics storage alg params extra lvl =
     (let ps = params @ extra;
          chars = filter (keymint_enforced storage alg) ps;
          ks = filter (keystore_enforced storage) ps
      in if list_all (client_may_give lvl) ps \<and> auth_compatible chars
         then Inr (\<lparr>security_level = lvl, authorizations = sort_by param_compare chars\<rparr> #
                   (if ks = [] then []
                    else [\<lparr>security_level = SecurityLevel_Keystore,
                           authorizations = sort_by param_compare ks\<rparr>]))
         else km_err ErrorCode_InvalidTag)"
  unfolding extract_key_characteristics_def Let_def extract_fold_eq reject_incompatible_auth_eq
  by simp

end
