(* ===== verification/Key_Material.thy ===== *)
theory Key_Material
  imports Keymint_Types
begin

text \<open>
  Key material and its import, \<^verbatim>\<open>common/src/crypto.rs\<close> and the modules below it.  A fixed
  size array \<open>[u8; N]\<close> is a byte list whose length the importers check.  The importers of
  AES, triple-DES, HMAC, raw Curve25519 and ML-DSA keys are the default methods of the traits
  in \<^verbatim>\<open>common/src/crypto/traits.rs\<close>; PKCS#8 parsing of RSA and EC keys rests on third-party
  DER crates and is a field of \<open>Implementation\<close>.
\<close>

section \<open>Key types\<close>

datatype Aes_Variant = Aes128 | Aes192 | Aes256

definition Aes_Variant_key_size :: "Aes_Variant \<Rightarrow> nat" where
  "Aes_Variant_key_size v = (case v of Aes128 \<Rightarrow> 16 | Aes192 \<Rightarrow> 24 | Aes256 \<Rightarrow> 32)"

datatype NistCurve = NistCurve_P224 | NistCurve_P256 | NistCurve_P384 | NistCurve_P521

definition coord_len :: "NistCurve \<Rightarrow> nat" where
  "coord_len c = (case c of
     NistCurve_P224 \<Rightarrow> 28 | NistCurve_P256 \<Rightarrow> 32 | NistCurve_P384 \<Rightarrow> 48 | NistCurve_P521 \<Rightarrow> 66)"

definition EcCurve_of_NistCurve :: "NistCurve \<Rightarrow> EcCurve" where
  "EcCurve_of_NistCurve c = (case c of
     NistCurve_P224 \<Rightarrow> EcCurve_P224 | NistCurve_P256 \<Rightarrow> EcCurve_P256
   | NistCurve_P384 \<Rightarrow> EcCurve_P384 | NistCurve_P521 \<Rightarrow> EcCurve_P521)"

datatype KeyGenInfo =
    KeyGenInfo_Aes Aes_Variant
  | KeyGenInfo_TripleDes
  | KeyGenInfo_Hmac KeySizeInBits
  | KeyGenInfo_Rsa KeySizeInBits RsaExponent
  | KeyGenInfo_NistEc NistCurve
  | KeyGenInfo_Ed25519
  | KeyGenInfo_X25519
  | KeyGenInfo_MlDsa MlDsaVariant

datatype CurveType = CurveType_Nist | CurveType_EdDsa | CurveType_Xdh

datatype Aes_Key = Aes_Key_Aes128 bytes | Aes_Key_Aes192 bytes | Aes_Key_Aes256 bytes

datatype Des_Key = Des_Key bytes

datatype Hmac_Key = Hmac_Key bytes

datatype Rsa_Key = Rsa_Key bytes

datatype Ec_Key =
    Ec_Key_P224 bytes | Ec_Key_P256 bytes | Ec_Key_P384 bytes | Ec_Key_P521 bytes
  | Ec_Key_Ed25519 bytes | Ec_Key_X25519 bytes

datatype MlDsa_Key = MlDsa_Key_MlDsa65 bytes | MlDsa_Key_MlDsa87 bytes

datatype 'k OpaqueOr = OpaqueOr_Explicit 'k | OpaqueOr_Opaque bytes

datatype KeyMaterial =
    KeyMaterial_Aes "Aes_Key OpaqueOr"
  | KeyMaterial_TripleDes "Des_Key OpaqueOr"
  | KeyMaterial_Hmac "Hmac_Key OpaqueOr"
  | KeyMaterial_Rsa "Rsa_Key OpaqueOr"
  | KeyMaterial_Ec EcCurve CurveType "Ec_Key OpaqueOr"
  | KeyMaterial_MlDsa MlDsaVariant "MlDsa_Key OpaqueOr"

definition is_asymmetric :: "KeyMaterial \<Rightarrow> bool" where
  "is_asymmetric k = (case k of
     KeyMaterial_Aes _ \<Rightarrow> False | KeyMaterial_TripleDes _ \<Rightarrow> False | KeyMaterial_Hmac _ \<Rightarrow> False
   | KeyMaterial_Ec _ _ _ \<Rightarrow> True | KeyMaterial_Rsa _ \<Rightarrow> True | KeyMaterial_MlDsa _ _ \<Rightarrow> True)"

definition curve_to_key_size :: "EcCurve \<Rightarrow> KeySizeInBits" where
  "curve_to_key_size curve = KeySizeInBits (case curve of
     EcCurve_P224 \<Rightarrow> 224 | EcCurve_P256 \<Rightarrow> 256 | EcCurve_P384 \<Rightarrow> 384 | EcCurve_P521 \<Rightarrow> 521
   | EcCurve_Curve25519 \<Rightarrow> 256)"

section \<open>Symmetric keys\<close>

definition Aes_Key_new :: "bytes \<Rightarrow> Error + Aes_Key" where
  "Aes_Key_new data =
     (if length data = 16 then Inr (Aes_Key_Aes128 data)
      else if length data = 24 then Inr (Aes_Key_Aes192 data)
      else if length data = 32 then Inr (Aes_Key_Aes256 data)
      else km_err ErrorCode_UnsupportedKeySize)"

definition Aes_Key_size :: "Aes_Key \<Rightarrow> KeySizeInBits" where
  "Aes_Key_size k = KeySizeInBits (case k of
     Aes_Key_Aes128 _ \<Rightarrow> 128 | Aes_Key_Aes192 _ \<Rightarrow> 192 | Aes_Key_Aes256 _ \<Rightarrow> 256)"

definition Aes_import_key :: "bytes \<Rightarrow> KeyParam list \<Rightarrow> Error + (KeyMaterial \<times> KeySizeInBits)" where
  "Aes_import_key data params =
     res_bind (Aes_Key_new data) (\<lambda>aes_key.
       Inr (KeyMaterial_Aes (OpaqueOr_Explicit aes_key), Aes_Key_size aes_key))"

definition Des_KEY_SIZE_BITS :: KeySizeInBits where
  "Des_KEY_SIZE_BITS = KeySizeInBits 168"

definition Des_KEY_SIZE_BYTES :: nat where
  "Des_KEY_SIZE_BYTES = 24"

definition Des_Key_new :: "bytes \<Rightarrow> Error + Des_Key" where
  "Des_Key_new data =
     (if length data = Des_KEY_SIZE_BYTES then Inr (Des_Key data)
      else km_err ErrorCode_UnsupportedKeySize)"

definition Des_import_key :: "bytes \<Rightarrow> KeyParam list \<Rightarrow> Error + KeyMaterial" where
  "Des_import_key data params =
     map_ok (\<lambda>des_key. KeyMaterial_TripleDes (OpaqueOr_Explicit des_key)) (Des_Key_new data)"

definition Hmac_MIN_KEY_SIZE_BITS :: nat where
  "Hmac_MIN_KEY_SIZE_BITS = 64"

definition Hmac_MAX_STRONGBOX_KEY_SIZE_BITS :: nat where
  "Hmac_MAX_STRONGBOX_KEY_SIZE_BITS = 512"

definition Hmac_MAX_KEY_SIZE_BITS :: nat where
  "Hmac_MAX_KEY_SIZE_BITS = 1024"

primrec bits :: "KeySizeInBits \<Rightarrow> u32" where
  "bits (KeySizeInBits n) = n"

definition valid_size :: "KeySizeInBits \<Rightarrow> nat \<Rightarrow> Error + unit" where
  "valid_size key_size max_size_bits =
     (if bits key_size mod 8 \<noteq> 0 then km_err ErrorCode_UnsupportedKeySize
      else if \<not> (Hmac_MIN_KEY_SIZE_BITS \<le> unat (bits key_size) \<and> unat (bits key_size) \<le> max_size_bits)
      then km_err ErrorCode_UnsupportedKeySize
      else Inr ())"

definition valid_hal_size :: "KeySizeInBits \<Rightarrow> Error + unit" where
  "valid_hal_size key_size = valid_size key_size Hmac_MAX_KEY_SIZE_BITS"

definition valid_strongbox_hal_size :: "KeySizeInBits \<Rightarrow> Error + unit" where
  "valid_strongbox_hal_size key_size = valid_size key_size Hmac_MAX_STRONGBOX_KEY_SIZE_BITS"

text \<open>\<open>(self.0.len() * 8) as u32\<close>: the length in bits is truncated to 32 bits.\<close>

definition Hmac_Key_size :: "Hmac_Key \<Rightarrow> KeySizeInBits" where
  "Hmac_Key_size k = (case k of Hmac_Key data \<Rightarrow> KeySizeInBits (of_nat (length data * 8)))"

definition Hmac_import_key :: "bytes \<Rightarrow> KeyParam list \<Rightarrow> Error + (KeyMaterial \<times> KeySizeInBits)" where
  "Hmac_import_key data params =
     (let hmac_key = Hmac_Key data; key_size = Hmac_Key_size hmac_key in
      res_bind (valid_hal_size key_size) (\<lambda>_.
        Inr (KeyMaterial_Hmac (OpaqueOr_Explicit hmac_key), key_size)))"

section \<open>Asymmetric keys\<close>

definition CURVE25519_PRIV_KEY_LEN :: nat where
  "CURVE25519_PRIV_KEY_LEN = 32"

definition import_raw_ed25519_key :: "bytes \<Rightarrow> Error + KeyMaterial" where
  "import_raw_ed25519_key data =
     (if length data = CURVE25519_PRIV_KEY_LEN
      then Inr (KeyMaterial_Ec EcCurve_Curve25519 CurveType_EdDsa
                  (OpaqueOr_Explicit (Ec_Key_Ed25519 data)))
      else km_err ErrorCode_InvalidInputLength)"

definition import_raw_x25519_key :: "bytes \<Rightarrow> Error + KeyMaterial" where
  "import_raw_x25519_key data =
     (if length data = CURVE25519_PRIV_KEY_LEN
      then Inr (KeyMaterial_Ec EcCurve_Curve25519 CurveType_Xdh
                  (OpaqueOr_Explicit (Ec_Key_X25519 data)))
      else km_err ErrorCode_InvalidInputLength)"

definition SEED_SIZE :: nat where
  "SEED_SIZE = 32"

definition MlDsa_import_raw_key :: "bytes \<Rightarrow> MlDsaVariant \<Rightarrow> Error + KeyMaterial" where
  "MlDsa_import_raw_key data variant =
     (if length data = SEED_SIZE
      then Inr (KeyMaterial_MlDsa variant (OpaqueOr_Explicit (case variant of
                  MlDsaVariant_MlDsa65 \<Rightarrow> MlDsa_Key_MlDsa65 data
                | MlDsaVariant_MlDsa87 \<Rightarrow> MlDsa_Key_MlDsa87 data)))
      else km_err ErrorCode_UnsupportedKeySize)"

definition PKCS8_SEED_65_PREFIX :: bytes where
  "PKCS8_SEED_65_PREFIX =
     [0x30, 0x34, 0x02, 0x01, 0x00, 0x30, 0x0b, 0x06, 0x09,
      0x60, 0x86, 0x48, 0x01, 0x65, 0x03, 0x04, 0x03, 0x12, 0x04, 0x22, 0x80, 0x20]"

definition PKCS8_SEED_87_PREFIX :: bytes where
  "PKCS8_SEED_87_PREFIX =
     [0x30, 0x34, 0x02, 0x01, 0x00, 0x30, 0x0b, 0x06, 0x09,
      0x60, 0x86, 0x48, 0x01, 0x65, 0x03, 0x04, 0x03, 0x13, 0x04, 0x22, 0x80, 0x20]"

definition MlDsa_import_pkcs8_key :: "bytes \<Rightarrow> Error + KeyMaterial" where
  "MlDsa_import_pkcs8_key data =
     (if length data = length PKCS8_SEED_65_PREFIX + SEED_SIZE
         \<and> take (length PKCS8_SEED_65_PREFIX) data = PKCS8_SEED_65_PREFIX
      then Inr (KeyMaterial_MlDsa MlDsaVariant_MlDsa65
                  (OpaqueOr_Explicit (MlDsa_Key_MlDsa65 (drop (length PKCS8_SEED_65_PREFIX) data))))
      else if length data = length PKCS8_SEED_87_PREFIX + SEED_SIZE
         \<and> take (length PKCS8_SEED_87_PREFIX) data = PKCS8_SEED_87_PREFIX
      then Inr (KeyMaterial_MlDsa MlDsaVariant_MlDsa87
                  (OpaqueOr_Explicit (MlDsa_Key_MlDsa87 (drop (length PKCS8_SEED_87_PREFIX) data))))
      else km_err ErrorCode_InvalidArgument)"

section \<open>The crypto implementation\<close>

text \<open>
  The import methods of the trait objects in \<open>crypto::Implementation\<close>.  The default
  implementation takes the trait's default methods for every key type whose import does not
  need a DER parser.
\<close>

record Implementation =
  aes_import_key :: "bytes \<Rightarrow> KeyParam list \<Rightarrow> Error + (KeyMaterial \<times> KeySizeInBits)"
  des_import_key :: "bytes \<Rightarrow> KeyParam list \<Rightarrow> Error + KeyMaterial"
  hmac_import_key :: "bytes \<Rightarrow> KeyParam list \<Rightarrow> Error + (KeyMaterial \<times> KeySizeInBits)"
  rsa_import_pkcs8_key ::
    "bytes \<Rightarrow> KeyParam list \<Rightarrow> Error + (KeyMaterial \<times> KeySizeInBits \<times> RsaExponent)"
  ec_import_pkcs8_key :: "bytes \<Rightarrow> KeyParam list \<Rightarrow> Error + KeyMaterial"
  ec_import_raw_ed25519_key :: "bytes \<Rightarrow> KeyParam list \<Rightarrow> Error + KeyMaterial"
  ec_import_raw_x25519_key :: "bytes \<Rightarrow> KeyParam list \<Rightarrow> Error + KeyMaterial"
  mldsa_import_raw_key :: "bytes \<Rightarrow> MlDsaVariant \<Rightarrow> KeyParam list \<Rightarrow> Error + KeyMaterial"
  mldsa_import_pkcs8_key :: "bytes \<Rightarrow> KeyParam list \<Rightarrow> Error + KeyMaterial"

definition default_implementation ::
    "(bytes \<Rightarrow> Error + (KeyMaterial \<times> KeySizeInBits \<times> RsaExponent)) \<Rightarrow>
     (bytes \<Rightarrow> Error + KeyMaterial) \<Rightarrow> Implementation" where
  "default_implementation rsa_pkcs8 ec_pkcs8 =
     \<lparr>aes_import_key = Aes_import_key,
      des_import_key = Des_import_key,
      hmac_import_key = Hmac_import_key,
      rsa_import_pkcs8_key = (\<lambda>data _. rsa_pkcs8 data),
      ec_import_pkcs8_key = (\<lambda>data _. ec_pkcs8 data),
      ec_import_raw_ed25519_key = (\<lambda>data _. import_raw_ed25519_key data),
      ec_import_raw_x25519_key = (\<lambda>data _. import_raw_x25519_key data),
      mldsa_import_raw_key = (\<lambda>data variant _. MlDsa_import_raw_key data variant),
      mldsa_import_pkcs8_key = (\<lambda>data _. MlDsa_import_pkcs8_key data)\<rparr>"

section \<open>What the importers accept\<close>

lemma Aes_import_key_iff:
  "Aes_import_key data ps = Inr (key, sz) \<longleftrightarrow>
     length data \<in> {16, 24, 32} \<and> sz = KeySizeInBits (of_nat (8 * length data)) \<and>
     key = KeyMaterial_Aes (OpaqueOr_Explicit (
        if length data = 16 then Aes_Key_Aes128 data
        else if length data = 24 then Aes_Key_Aes192 data else Aes_Key_Aes256 data))"
  by (auto simp: Aes_import_key_def Aes_Key_new_def Aes_Key_size_def)

lemma Des_import_key_iff:
  "Des_import_key data ps = Inr key \<longleftrightarrow>
     length data = 24 \<and> key = KeyMaterial_TripleDes (OpaqueOr_Explicit (Des_Key data))"
  by (auto simp: Des_import_key_def Des_Key_new_def Des_KEY_SIZE_BYTES_def)

lemma valid_size_iff:
  "valid_size sz n = Inr () \<longleftrightarrow>
     bits sz mod 8 = 0 \<and> 64 \<le> unat (bits sz) \<and> unat (bits sz) \<le> n"
  by (auto simp: valid_size_def Hmac_MIN_KEY_SIZE_BITS_def)

lemma MlDsa_import_pkcs8_key_seed:
  assumes "length seed = 32"
  shows "MlDsa_import_pkcs8_key (PKCS8_SEED_65_PREFIX @ seed) =
           Inr (KeyMaterial_MlDsa MlDsaVariant_MlDsa65 (OpaqueOr_Explicit (MlDsa_Key_MlDsa65 seed)))"
    and "MlDsa_import_pkcs8_key (PKCS8_SEED_87_PREFIX @ seed) =
           Inr (KeyMaterial_MlDsa MlDsaVariant_MlDsa87 (OpaqueOr_Explicit (MlDsa_Key_MlDsa87 seed)))"
  using assms
  by (simp_all add: MlDsa_import_pkcs8_key_def SEED_SIZE_def
      PKCS8_SEED_65_PREFIX_def PKCS8_SEED_87_PREFIX_def)

end
