(* ===== verification/Key_Params.thy ===== *)
theory Key_Params
  imports Tag_Params Key_Material
begin

text \<open>
  Validation of the parameters of a key that is generated or imported: the second half of
  \<^verbatim>\<open>common/src/tag.rs\<close>.  Loops over the purposes are folds over a record of the flags they
  set; an early \<open>return Err(...)\<close> is the \<open>Inl\<close> branch of the fold.
\<close>

section \<open>RSA\<close>

definition check_rsa_key_size :: "KeySizeInBits \<Rightarrow> SecurityLevel \<Rightarrow> Error + unit" where
  "check_rsa_key_size key_size sec_level =
     (if key_size = KeySizeInBits 512 \<and> sec_level \<noteq> SecurityLevel_Strongbox then Inr ()
      else if key_size = KeySizeInBits 768 \<and> sec_level \<noteq> SecurityLevel_Strongbox then Inr ()
      else if key_size = KeySizeInBits 1024 \<and> sec_level \<noteq> SecurityLevel_Strongbox then Inr ()
      else if key_size = KeySizeInBits 2048 then Inr ()
      else if key_size = KeySizeInBits 3072 \<and> sec_level \<noteq> SecurityLevel_Strongbox then Inr ()
      else if key_size = KeySizeInBits 4096 \<and> sec_level \<noteq> SecurityLevel_Strongbox then Inr ()
      else km_err ErrorCode_UnsupportedKeySize)"

record rsa_scan =
  rsa_seen_attest :: bool
  rsa_seen_non_attest :: bool

definition rsa_scan_step :: "rsa_scan \<Rightarrow> KeyParam \<Rightarrow> Error + rsa_scan" where
  "rsa_scan_step s param = (case param of
     KeyParam_Purpose purpose \<Rightarrow>
       (case purpose of
          KeyPurpose_Sign \<Rightarrow> Inr (s\<lparr>rsa_seen_non_attest := True\<rparr>)
        | KeyPurpose_Decrypt \<Rightarrow> Inr (s\<lparr>rsa_seen_non_attest := True\<rparr>)
        | KeyPurpose_WrapKey \<Rightarrow> Inr (s\<lparr>rsa_seen_non_attest := True\<rparr>)
        | KeyPurpose_AttestKey \<Rightarrow> Inr (s\<lparr>rsa_seen_attest := True\<rparr>)
        | KeyPurpose_Verify \<Rightarrow> Inr s
        | KeyPurpose_Encrypt \<Rightarrow> Inr s
        | KeyPurpose_AgreeKey \<Rightarrow> km_err ErrorCode_IncompatiblePurpose)
   | _ \<Rightarrow> Inr s)"

definition check_rsa_params :: "KeyParam list \<Rightarrow> Error + unit" where
  "check_rsa_params params =
     res_bind (res_fold rsa_scan_step
                 \<lparr>rsa_seen_attest = False, rsa_seen_non_attest = False\<rparr> params) (\<lambda>s.
       if rsa_seen_attest s \<and> rsa_seen_non_attest s then km_err ErrorCode_IncompatiblePurpose
       else Inr ())"

definition check_rsa_gen_params :: "KeyParam list \<Rightarrow> SecurityLevel \<Rightarrow> Error + KeyGenInfo" where
  "check_rsa_gen_params params sec_level =
     res_bind (get_tag_value as_KeySize ErrorCode_UnsupportedKeySize params) (\<lambda>key_size.
     res_bind (check_rsa_key_size key_size sec_level) (\<lambda>_.
     res_bind (get_tag_value as_RsaPublicExponent ErrorCode_InvalidArgument params) (\<lambda>public_exponent.
     res_bind (check_rsa_params params) (\<lambda>_.
       Inr (KeyGenInfo_Rsa key_size public_exponent)))))"

text \<open>
  A value that is deduced from the imported key: if the client specified it, it has to match;
  if not, it is added to the characteristics.  The code repeats this match for the key size,
  the exponent and the curve.
\<close>

definition match_or_deduce ::
    "(KeyParam \<Rightarrow> 'v option) \<Rightarrow> ('v \<Rightarrow> KeyParam) \<Rightarrow> 'v \<Rightarrow> KeyParam list \<Rightarrow> KeyParam list
     \<Rightarrow> Error + KeyParam list" where
  "match_or_deduce variant mk actual params deduced_chars =
     res_bind (get_opt_tag_value variant ErrorCode_InvalidTag params) (\<lambda>specified.
       case specified of
         Some v \<Rightarrow> if v \<noteq> actual then km_err ErrorCode_ImportParameterMismatch
                   else Inr deduced_chars
       | None \<Rightarrow> Inr (deduced_chars @ [mk actual]))"

definition check_rsa_import_params ::
    "Implementation \<Rightarrow> KeyParam list \<Rightarrow> SecurityLevel \<Rightarrow> KeyFormat \<Rightarrow> bytes
     \<Rightarrow> Error + (KeyParam list \<times> KeyMaterial)" where
  "check_rsa_import_params imp params sec_level key_format key_data =
     (if key_format \<noteq> KeyFormat_Pkcs8 then km_err ErrorCode_UnsupportedKeyFormat
      else
        res_bind (rsa_import_pkcs8_key imp key_data params) (\<lambda>(key, key_size, public_exponent).
        res_bind (match_or_deduce as_KeySize KeyParam_KeySize key_size params []) (\<lambda>deduced_chars.
        res_bind (match_or_deduce as_RsaPublicExponent KeyParam_RsaPublicExponent public_exponent
                    params deduced_chars) (\<lambda>deduced_chars.
        res_bind (check_rsa_key_size key_size sec_level) (\<lambda>_.
        res_bind (check_rsa_params params) (\<lambda>_.
          Inr (deduced_chars, key)))))))"

section \<open>Elliptic curves\<close>

record ec_scan =
  ec_seen_attest :: bool
  ec_seen_sign :: bool
  ec_seen_agree :: bool
  ec_seen_compatibility_purpose :: bool
  ec_primary_purpose :: "KeyPurpose option"

definition ec_scan_init :: ec_scan where
  "ec_scan_init =
     \<lparr>ec_seen_attest = False, ec_seen_sign = False, ec_seen_agree = False,
      ec_seen_compatibility_purpose = False, ec_primary_purpose = None\<rparr>"

definition ec_note_purpose :: "KeyPurpose \<Rightarrow> ec_scan \<Rightarrow> ec_scan" where
  "ec_note_purpose purpose s =
     (if ec_primary_purpose s = None \<or> ec_primary_purpose s = Some KeyPurpose_Verify
      then s\<lparr>ec_primary_purpose := Some purpose\<rparr> else s)"

definition ec_scan_step :: "ec_scan \<Rightarrow> KeyParam \<Rightarrow> Error + ec_scan" where
  "ec_scan_step s param = (case param of
     KeyParam_Purpose purpose \<Rightarrow>
       (case purpose of
          KeyPurpose_Sign \<Rightarrow> Inr (ec_note_purpose purpose (s\<lparr>ec_seen_sign := True\<rparr>))
        | KeyPurpose_AgreeKey \<Rightarrow> Inr (ec_note_purpose purpose (s\<lparr>ec_seen_agree := True\<rparr>))
        | KeyPurpose_AttestKey \<Rightarrow> Inr (ec_note_purpose purpose (s\<lparr>ec_seen_attest := True\<rparr>))
        | KeyPurpose_Verify \<Rightarrow> Inr (ec_note_purpose purpose s)
        | KeyPurpose_Decrypt \<Rightarrow> Inr (s\<lparr>ec_seen_compatibility_purpose := True\<rparr>)
        | KeyPurpose_Encrypt \<Rightarrow> Inr (s\<lparr>ec_seen_compatibility_purpose := True\<rparr>)
        | KeyPurpose_WrapKey \<Rightarrow> km_err ErrorCode_IncompatiblePurpose)
   | _ \<Rightarrow> Inr s)"

definition check_ec_size :: "EcCurve \<Rightarrow> KeyParam list \<Rightarrow> Error + unit" where
  "check_ec_size curve params =
     res_bind (get_opt_tag_value as_KeySize ErrorCode_InvalidTag params) (\<lambda>key_size.
       case key_size of None \<Rightarrow> Inr ()
       | Some key_size \<Rightarrow>
          (if curve = EcCurve_P224 \<and> key_size = KeySizeInBits 224 then Inr ()
           else if curve = EcCurve_P256 \<and> key_size = KeySizeInBits 256 then Inr ()
           else if curve = EcCurve_P384 \<and> key_size = KeySizeInBits 384 then Inr ()
           else if curve = EcCurve_P521 \<and> key_size = KeySizeInBits 521 then Inr ()
           else if curve = EcCurve_Curve25519 \<and> key_size = KeySizeInBits 256 then Inr ()
           else km_err ErrorCode_InvalidArgument))"

definition check_ec_params ::
    "EcCurve \<Rightarrow> KeyParam list \<Rightarrow> SecurityLevel \<Rightarrow> Error + KeyPurpose option" where
  "check_ec_params curve params sec_level =
     (if sec_level = SecurityLevel_Strongbox \<and> curve \<noteq> EcCurve_P256
      then km_err ErrorCode_UnsupportedEcCurve
      else
        res_bind (check_ec_size curve params) (\<lambda>_.
        res_bind (res_fold ec_scan_step ec_scan_init params) (\<lambda>s.
          if ec_seen_compatibility_purpose s
             \<and> (curve \<noteq> EcCurve_P256 \<or> \<not> ec_seen_sign s \<or> ec_seen_attest s \<or> ec_seen_agree s)
          then km_err ErrorCode_IncompatiblePurpose
          else if ec_seen_attest s \<and> (ec_seen_sign s \<or> ec_seen_agree s)
          then km_err ErrorCode_IncompatiblePurpose
          else if curve = EcCurve_Curve25519 \<and> ec_seen_agree s
             \<and> (ec_seen_sign s \<or> ec_seen_attest s)
          then km_err ErrorCode_IncompatiblePurpose
          else Inr (ec_primary_purpose s))))"

definition check_ec_gen_params :: "KeyParam list \<Rightarrow> SecurityLevel \<Rightarrow> Error + KeyGenInfo" where
  "check_ec_gen_params params sec_level =
     res_bind (get_ec_curve params) (\<lambda>ec_curve.
     res_bind (check_ec_params ec_curve params sec_level) (\<lambda>purpose.
       case ec_curve of
         EcCurve_Curve25519 \<Rightarrow>
           (if purpose = Some KeyPurpose_Sign then Inr KeyGenInfo_Ed25519
            else if purpose = Some KeyPurpose_AttestKey then Inr KeyGenInfo_Ed25519
            else if purpose = Some KeyPurpose_AgreeKey then Inr KeyGenInfo_X25519
            else km_err ErrorCode_IncompatiblePurpose)
       | EcCurve_P224 \<Rightarrow> Inr (KeyGenInfo_NistEc NistCurve_P224)
       | EcCurve_P256 \<Rightarrow> Inr (KeyGenInfo_NistEc NistCurve_P256)
       | EcCurve_P384 \<Rightarrow> Inr (KeyGenInfo_NistEc NistCurve_P384)
       | EcCurve_P521 \<Rightarrow> Inr (KeyGenInfo_NistEc NistCurve_P521)))"

text \<open>
  The first half of \<open>check_ec_import_params\<close>: the imported key and its curve.  The guard of the
  \<open>KeyFormat::Raw\<close> arm, which itself may fail, is evaluated first; when it does not hold the
  match falls through to the last arm.
\<close>

definition import_ec_key ::
    "Implementation \<Rightarrow> KeyParam list \<Rightarrow> SecurityLevel \<Rightarrow> KeyFormat \<Rightarrow> bytes
     \<Rightarrow> Error + (KeyMaterial \<times> EcCurve)" where
  "import_ec_key imp params sec_level key_format key_data = (case key_format of
     KeyFormat_Raw \<Rightarrow>
       res_bind (get_ec_curve params) (\<lambda>c.
         if c = EcCurve_Curve25519 then
           res_bind (check_ec_params EcCurve_Curve25519 params sec_level) (\<lambda>purpose.
             if purpose = Some KeyPurpose_AgreeKey
             then res_bind (ec_import_raw_x25519_key imp key_data params) (\<lambda>key.
                    Inr (key, EcCurve_Curve25519))
             else res_bind (ec_import_raw_ed25519_key imp key_data params) (\<lambda>key.
                    Inr (key, EcCurve_Curve25519)))
         else km_err ErrorCode_UnsupportedKeyFormat)
   | KeyFormat_Pkcs8 \<Rightarrow>
       res_bind (ec_import_pkcs8_key imp key_data params) (\<lambda>key.
       res_bind (case key of
           KeyMaterial_Ec curve CurveType_Nist _ \<Rightarrow> Inr curve
         | KeyMaterial_Ec EcCurve_Curve25519 CurveType_EdDsa _ \<Rightarrow>
             res_bind (check_ec_params EcCurve_Curve25519 params sec_level) (\<lambda>purpose.
               if purpose = Some KeyPurpose_AgreeKey then km_err ErrorCode_IncompatiblePurpose
               else Inr EcCurve_Curve25519)
         | KeyMaterial_Ec EcCurve_Curve25519 CurveType_Xdh _ \<Rightarrow>
             res_bind (check_ec_params EcCurve_Curve25519 params sec_level) (\<lambda>purpose.
               if purpose \<noteq> Some KeyPurpose_AgreeKey then km_err ErrorCode_IncompatiblePurpose
               else Inr EcCurve_Curve25519)
         | _ \<Rightarrow> km_err ErrorCode_ImportParameterMismatch) (\<lambda>curve.
         Inr (key, curve)))
   | _ \<Rightarrow> km_err ErrorCode_UnsupportedKeyFormat)"

definition check_ec_import_params ::
    "Implementation \<Rightarrow> KeyParam list \<Rightarrow> SecurityLevel \<Rightarrow> KeyFormat \<Rightarrow> bytes
     \<Rightarrow> Error + (KeyParam list \<times> KeyMaterial)" where
  "check_ec_import_params imp params sec_level key_format key_data =
     res_bind (import_ec_key imp params sec_level key_format key_data) (\<lambda>(key, curve).
     res_bind (match_or_deduce as_EcCurve KeyParam_EcCurve curve params []) (\<lambda>deduced_chars.
     res_bind (match_or_deduce as_KeySize KeyParam_KeySize (curve_to_key_size curve)
                 params deduced_chars) (\<lambda>deduced_chars.
     res_bind (check_ec_params curve params sec_level) (\<lambda>_.
       Inr (deduced_chars, key)))))"

section \<open>ML-DSA\<close>

definition mldsa_scan_step :: "bool \<times> bool \<Rightarrow> KeyParam \<Rightarrow> Error + (bool \<times> bool)" where
  "mldsa_scan_step s param = (case s of (seen_attest, seen_sign) \<Rightarrow> case param of
     KeyParam_Purpose purpose \<Rightarrow>
       (case purpose of
          KeyPurpose_Sign \<Rightarrow> Inr (seen_attest, True)
        | KeyPurpose_AttestKey \<Rightarrow> Inr (True, seen_sign)
        | KeyPurpose_Verify \<Rightarrow> Inr (seen_attest, seen_sign)
        | _ \<Rightarrow> km_err ErrorCode_IncompatiblePurpose)
   | _ \<Rightarrow> Inr (seen_attest, seen_sign))"

definition check_mldsa_params :: "KeyParam list \<Rightarrow> SecurityLevel \<Rightarrow> Error + unit" where
  "check_mldsa_params params sec_level =
     (if sec_level = SecurityLevel_Strongbox then km_err ErrorCode_UnsupportedAlgorithm
      else res_bind (res_fold mldsa_scan_step (False, False) params) (\<lambda>(seen_attest, seen_sign).
        if seen_attest \<and> seen_sign then km_err ErrorCode_IncompatiblePurpose else Inr ()))"

definition check_mldsa_gen_params :: "KeyParam list \<Rightarrow> SecurityLevel \<Rightarrow> Error + KeyGenInfo" where
  "check_mldsa_gen_params params sec_level =
     res_bind (get_mldsa_variant params) (\<lambda>variant.
     res_bind (check_mldsa_params params sec_level) (\<lambda>_.
       Inr (KeyGenInfo_MlDsa variant)))"

definition check_mldsa_import_params ::
    "Implementation \<Rightarrow> KeyParam list \<Rightarrow> SecurityLevel \<Rightarrow> KeyFormat \<Rightarrow> bytes
     \<Rightarrow> Error + (KeyParam list \<times> KeyMaterial)" where
  "check_mldsa_import_params imp params sec_level key_format key_data =
     res_bind (get_opt_tag_value as_MlDsaVariant ErrorCode_InvalidTag params) (\<lambda>specified_variant.
     res_bind (case key_format of
         KeyFormat_Raw \<Rightarrow>
           (case specified_variant of
              None \<Rightarrow> km_err ErrorCode_InvalidArgument
            | Some variant \<Rightarrow>
                res_bind (mldsa_import_raw_key imp key_data variant params) (\<lambda>key. Inr ([], key)))
       | KeyFormat_Pkcs8 \<Rightarrow>
           res_bind (mldsa_import_pkcs8_key imp key_data params) (\<lambda>key.
           res_bind (case key of
               KeyMaterial_MlDsa actual_variant _ \<Rightarrow> Inr actual_variant
             | _ \<Rightarrow> km_err ErrorCode_ImportParameterMismatch) (\<lambda>actual_variant.
           res_bind (case specified_variant of
               Some v \<Rightarrow> if v \<noteq> actual_variant then km_err ErrorCode_ImportParameterMismatch
                         else Inr ()
             | None \<Rightarrow> Inr ()) (\<lambda>_.
             Inr ([KeyParam_MlDsaVariant actual_variant], key))))
       | _ \<Rightarrow> km_err ErrorCode_UnsupportedKeyFormat) (\<lambda>(deduced_chars, key).
     res_bind (check_mldsa_params params sec_level) (\<lambda>_.
       Inr (deduced_chars, key))))"

section \<open>Symmetric keys\<close>

definition check_aes_params :: "KeyParam list \<Rightarrow> Error + unit" where
  "check_aes_params params =
     (if KeyParam_BlockMode BlockMode_Gcm \<in> set params then
        res_bind (get_tag_value as_MinMacLength ErrorCode_MissingMinMacLength params) (\<lambda>min_mac_len.
          if min_mac_len mod 8 \<noteq> 0 \<or> \<not> (96 \<le> min_mac_len \<and> min_mac_len \<le> 128)
          then km_err ErrorCode_UnsupportedMinMacLength
          else Inr ())
      else Inr ())"

definition check_aes_gen_params :: "KeyParam list \<Rightarrow> SecurityLevel \<Rightarrow> Error + KeyGenInfo" where
  "check_aes_gen_params params sec_level =
     res_bind (get_tag_value as_KeySize ErrorCode_UnsupportedKeySize params) (\<lambda>key_size.
     res_bind (if key_size = KeySizeInBits 128 then Inr (KeyGenInfo_Aes Aes128)
               else if key_size = KeySizeInBits 256 then Inr (KeyGenInfo_Aes Aes256)
               else if key_size = KeySizeInBits 192 \<and> sec_level \<noteq> SecurityLevel_Strongbox
               then Inr (KeyGenInfo_Aes Aes192)
               else km_err ErrorCode_UnsupportedKeySize) (\<lambda>keygen_info.
     res_bind (check_aes_params params) (\<lambda>_.
       Inr keygen_info)))"

definition require_raw :: "KeyFormat \<Rightarrow> Error + unit" where
  "require_raw key_format =
     (if key_format \<noteq> KeyFormat_Raw then km_err ErrorCode_UnsupportedKeyFormat else Inr ())"

definition require_matching_key_size ::
    "KeyParam list \<Rightarrow> KeySizeInBits \<Rightarrow> Error + KeyParam list" where
  "require_matching_key_size params key_size =
     match_or_deduce as_KeySize KeyParam_KeySize key_size params []"

definition check_aes_import_params ::
    "Implementation \<Rightarrow> KeyParam list \<Rightarrow> SecurityLevel \<Rightarrow> KeyFormat \<Rightarrow> bytes
     \<Rightarrow> Error + (KeyParam list \<times> KeyMaterial)" where
  "check_aes_import_params imp params sec_level key_format key_data =
     res_bind (require_raw key_format) (\<lambda>_.
     res_bind (aes_import_key imp key_data params) (\<lambda>(key, key_size).
       if key_size = KeySizeInBits 192 \<and> sec_level = SecurityLevel_Strongbox
       then km_err ErrorCode_UnsupportedKeySize
       else
         res_bind (require_matching_key_size params key_size) (\<lambda>deduced_chars.
         res_bind (check_aes_params params) (\<lambda>_.
           Inr (deduced_chars, key)))))"

definition check_3des_gen_params :: "KeyParam list \<Rightarrow> Error + KeyGenInfo" where
  "check_3des_gen_params params =
     res_bind (get_tag_value as_KeySize ErrorCode_UnsupportedKeySize params) (\<lambda>key_size.
       if key_size \<noteq> KeySizeInBits 168 then km_err ErrorCode_UnsupportedKeySize
       else Inr KeyGenInfo_TripleDes)"

definition check_3des_import_params ::
    "Implementation \<Rightarrow> KeyParam list \<Rightarrow> KeyFormat \<Rightarrow> bytes \<Rightarrow> Error + (KeyParam list \<times> KeyMaterial)"
    where
  "check_3des_import_params imp params key_format key_data =
     res_bind (require_raw key_format) (\<lambda>_.
     res_bind (des_import_key imp key_data params) (\<lambda>key.
     res_bind (require_matching_key_size params Des_KEY_SIZE_BITS) (\<lambda>deduced_chars.
       Inr (deduced_chars, key))))"

definition check_hmac_params :: "KeyParam list \<Rightarrow> SecurityLevel \<Rightarrow> KeySizeInBits \<Rightarrow> Error + unit" where
  "check_hmac_params params sec_level key_size =
     res_bind (if sec_level = SecurityLevel_Strongbox then valid_strongbox_hal_size key_size
               else valid_hal_size key_size) (\<lambda>_.
     res_bind (get_tag_value as_Digest ErrorCode_UnsupportedDigest params) (\<lambda>digest.
       if digest = Digest_None then km_err ErrorCode_UnsupportedDigest
       else
         res_bind (get_tag_value as_MinMacLength ErrorCode_MissingMinMacLength params) (\<lambda>min_mac_len.
           if min_mac_len mod 8 \<noteq> 0 \<or> \<not> (64 \<le> min_mac_len \<and> min_mac_len \<le> 512)
           then km_err ErrorCode_UnsupportedMinMacLength
           else Inr ())))"

definition check_hmac_gen_params :: "KeyParam list \<Rightarrow> SecurityLevel \<Rightarrow> Error + KeyGenInfo" where
  "check_hmac_gen_params params sec_level =
     res_bind (get_tag_value as_KeySize ErrorCode_UnsupportedKeySize params) (\<lambda>key_size.
     res_bind (check_hmac_params params sec_level key_size) (\<lambda>_.
       Inr (KeyGenInfo_Hmac key_size)))"

definition check_hmac_import_params ::
    "Implementation \<Rightarrow> KeyParam list \<Rightarrow> SecurityLevel \<Rightarrow> KeyFormat \<Rightarrow> bytes
     \<Rightarrow> Error + (KeyParam list \<times> KeyMaterial)" where
  "check_hmac_import_params imp params sec_level key_format key_data =
     res_bind (require_raw key_format) (\<lambda>_.
     res_bind (hmac_import_key imp key_data params) (\<lambda>(key, key_size).
     res_bind (require_matching_key_size params key_size) (\<lambda>deduced_chars.
     res_bind (check_hmac_params params sec_level key_size) (\<lambda>_.
       Inr (deduced_chars, key)))))"

section \<open>Generation and import\<close>

definition extract_key_gen_characteristics ::
    "SecureStorage \<Rightarrow> KeyParam list \<Rightarrow> SecurityLevel
     \<Rightarrow> Error + (KeyCharacteristics list \<times> KeyGenInfo)" where
  "extract_key_gen_characteristics secure_storage params sec_level =
     res_bind (get_algorithm params) (\<lambda>algorithm.
     res_bind (case algorithm of
         Algorithm_Rsa \<Rightarrow> check_rsa_gen_params params sec_level
       | Algorithm_Ec \<Rightarrow> check_ec_gen_params params sec_level
       | Algorithm_MlDsa \<Rightarrow> check_mldsa_gen_params params sec_level
       | Algorithm_Aes \<Rightarrow> check_aes_gen_params params sec_level
       | Algorithm_TripleDes \<Rightarrow> check_3des_gen_params params
       | Algorithm_Hmac \<Rightarrow> check_hmac_gen_params params sec_level) (\<lambda>keygen_info.
     res_bind (extract_key_characteristics secure_storage algorithm params [] sec_level) (\<lambda>chars.
       Inr (chars, keygen_info))))"

definition check_import_params ::
    "Implementation \<Rightarrow> Algorithm \<Rightarrow> KeyParam list \<Rightarrow> SecurityLevel \<Rightarrow> KeyFormat \<Rightarrow> bytes
     \<Rightarrow> Error + (KeyParam list \<times> KeyMaterial)" where
  "check_import_params imp algorithm params sec_level key_format key_data = (case algorithm of
     Algorithm_Rsa \<Rightarrow> check_rsa_import_params imp params sec_level key_format key_data
   | Algorithm_Ec \<Rightarrow> check_ec_import_params imp params sec_level key_format key_data
   | Algorithm_MlDsa \<Rightarrow> check_mldsa_import_params imp params sec_level key_format key_data
   | Algorithm_Aes \<Rightarrow> check_aes_import_params imp params sec_level key_format key_data
   | Algorithm_TripleDes \<Rightarrow> check_3des_import_params imp params key_format key_data
   | Algorithm_Hmac \<Rightarrow> check_hmac_import_params imp params sec_level key_format key_data)"

definition extract_key_import_characteristics ::
    "Implementation \<Rightarrow> SecureStorage \<Rightarrow> KeyParam list \<Rightarrow> SecurityLevel \<Rightarrow> KeyFormat \<Rightarrow> bytes
     \<Rightarrow> Error + (KeyCharacteristics list \<times> KeyMaterial)" where
  "extract_key_import_characteristics imp secure_storage params sec_level key_format key_data =
     res_bind (get_algorithm params) (\<lambda>algorithm.
     res_bind (check_import_params imp algorithm params sec_level key_format key_data)
       (\<lambda>(deduced_params, key_material).
     res_bind (extract_key_characteristics secure_storage algorithm params deduced_params sec_level)
       (\<lambda>chars.
       Inr (chars, key_material))))"

section \<open>Wrapping keys\<close>

datatype DecryptionMode =
    DecryptionMode_NoPadding
  | DecryptionMode_OaepPadding Digest Digest
  | DecryptionMode_Pkcs1_1_5Padding

definition check_rsa_wrapping_key_params ::
    "KeyParam list \<Rightarrow> KeyParam list \<Rightarrow> Error + DecryptionMode" where
  "check_rsa_wrapping_key_params chars params =
     (if \<not> contains_tag_value as_Purpose KeyPurpose_WrapKey chars
      then km_err ErrorCode_IncompatiblePurpose
      else
        res_bind (get_tag_value as_Padding ErrorCode_IncompatiblePaddingMode params) (\<lambda>padding_mode.
        if padding_mode \<noteq> PaddingMode_RsaOaep then km_err ErrorCode_IncompatiblePaddingMode
        else
        res_bind (get_tag_value as_Digest ErrorCode_IncompatibleDigest params) (\<lambda>msg_digest.
        if msg_digest \<noteq> Digest_Sha256 then km_err ErrorCode_IncompatibleDigest
        else
        res_bind (get_opt_tag_value as_RsaOaepMgfDigest ErrorCode_InvalidTag params) (\<lambda>opt_mgf_digest.
        if opt_mgf_digest = Some Digest_None then km_err ErrorCode_UnsupportedMgfDigest
        else if \<not> contains_tag_value as_Padding padding_mode chars
        then km_err ErrorCode_IncompatiblePaddingMode
        else if \<not> contains_tag_value as_Digest msg_digest chars
        then km_err ErrorCode_IncompatibleDigest
        else if (case opt_mgf_digest of
                   Some mgf_digest \<Rightarrow> \<not> contains_tag_value as_RsaOaepMgfDigest mgf_digest chars
                 | None \<Rightarrow> False)
        then km_err ErrorCode_IncompatibleDigest
        else Inr (DecryptionMode_OaepPadding msg_digest
                    (case opt_mgf_digest of Some d \<Rightarrow> d | None \<Rightarrow> Digest_Sha1))))))"

section \<open>Case analysis on a lookup\<close>

lemma get_tag_value_cases:
  obtains (found) v where "get_tag_value variant err ps = Inr v" "List.map_filter variant ps = [v]"
  | (missing) "get_tag_value variant err ps = km_err err" "\<And>v. List.map_filter variant ps \<noteq> [v]"
  using get_tag_value_iff[of variant err ps] get_tag_value_error[of variant err ps]
  by (cases "get_tag_value variant err ps") auto

lemma get_opt_tag_value_cases:
  obtains (absent) "get_opt_tag_value variant err ps = Inr None" "List.map_filter variant ps = []"
  | (found) v where "get_opt_tag_value variant err ps = Inr (Some v)"
      "List.map_filter variant ps = [v]"
  | (duplicate) "get_opt_tag_value variant err ps = km_err err" "List.map_filter variant ps \<noteq> []"
      "\<And>v. List.map_filter variant ps \<noteq> [v]"
  by (cases "List.map_filter variant ps" rule: remdups_adj.cases)
    (auto simp: get_opt_tag_value_def tag_scan_eq Let_def)

section \<open>Purposes\<close>

definition purposes :: "KeyParam list \<Rightarrow> KeyPurpose list" where
  "purposes ps = List.map_filter as_Purpose ps"

lemma purposes_Cons:
  "purposes (p # ps) = (case as_Purpose p of Some u \<Rightarrow> u # purposes ps | None \<Rightarrow> purposes ps)"
  by (simp add: purposes_def map_filter_simps split: option.splits)

lemma purposes_Nil [simp]: "purposes [] = []"
  by (simp add: purposes_def map_filter_simps)

lemma purpose_cases:
  obtains (purpose) u where "p = KeyParam_Purpose u" | (other) "as_Purpose p = None"
  by (cases p) (auto simp: as_Purpose_def)

lemma as_Purpose_simp [simp]: "as_Purpose (KeyParam_Purpose u) = Some u"
  by (simp add: as_Purpose_def)

text \<open>
  The purpose that decides which kind of key an EC key is: the first one that is neither
  VERIFY nor a tolerated encryption flag, else VERIFY.
\<close>

definition leading_purpose :: "KeyPurpose list \<Rightarrow> KeyPurpose option" where
  "leading_purpose us =
     (case filter (\<lambda>u. u \<notin> {KeyPurpose_Verify, KeyPurpose_Encrypt, KeyPurpose_Decrypt}) us of
        u # _ \<Rightarrow> Some u
      | [] \<Rightarrow> if KeyPurpose_Verify \<in> set us then Some KeyPurpose_Verify else None)"

definition ec_purposes_ok :: "EcCurve \<Rightarrow> KeyPurpose set \<Rightarrow> bool" where
  "ec_purposes_ok curve P \<longleftrightarrow>
     KeyPurpose_WrapKey \<notin> P \<and>
     \<not> (KeyPurpose_AttestKey \<in> P \<and> P \<inter> {KeyPurpose_Sign, KeyPurpose_AgreeKey} \<noteq> {}) \<and>
     \<not> (curve = EcCurve_Curve25519 \<and> {KeyPurpose_AgreeKey, KeyPurpose_Sign} \<subseteq> P) \<and>
     \<not> (P \<inter> {KeyPurpose_Encrypt, KeyPurpose_Decrypt} \<noteq> {} \<and>
        \<not> (curve = EcCurve_P256 \<and> KeyPurpose_Sign \<in> P
           \<and> P \<inter> {KeyPurpose_AttestKey, KeyPurpose_AgreeKey} = {}))"

definition rsa_purposes_ok :: "KeyPurpose set \<Rightarrow> bool" where
  "rsa_purposes_ok P \<longleftrightarrow>
     KeyPurpose_AgreeKey \<notin> P \<and>
     \<not> (KeyPurpose_AttestKey \<in> P
        \<and> P \<inter> {KeyPurpose_Sign, KeyPurpose_Decrypt, KeyPurpose_WrapKey} \<noteq> {})"

definition mldsa_purposes_ok :: "KeyPurpose set \<Rightarrow> bool" where
  "mldsa_purposes_ok P \<longleftrightarrow>
     P \<subseteq> {KeyPurpose_Sign, KeyPurpose_Verify, KeyPurpose_AttestKey} \<and>
     \<not> {KeyPurpose_Sign, KeyPurpose_AttestKey} \<subseteq> P"

lemmas scan_step_Purpose =
  rsa_scan_step_def[where param = "KeyParam_Purpose u" for u]
  ec_scan_step_def[where param = "KeyParam_Purpose u" for u]
  mldsa_scan_step_def[where param = "KeyParam_Purpose u" for u]

lemma rsa_scan_eq:
  "res_fold rsa_scan_step s ps =
     (if KeyPurpose_AgreeKey \<in> set (purposes ps) then km_err ErrorCode_IncompatiblePurpose
      else Inr \<lparr>rsa_seen_attest = rsa_seen_attest s \<or> KeyPurpose_AttestKey \<in> set (purposes ps),
                rsa_seen_non_attest = rsa_seen_non_attest s
                  \<or> set (purposes ps) \<inter> {KeyPurpose_Sign, KeyPurpose_Decrypt, KeyPurpose_WrapKey} \<noteq> {}\<rparr>)"
proof (induction ps arbitrary: s)
  case (Cons p ps)
  show ?case
  proof (cases p rule: purpose_cases)
    case (purpose u)
    then show ?thesis
      by (cases u) (simp_all add: Cons scan_step_Purpose purposes_Cons)
  next
    case other
    then have "rsa_scan_step s p = Inr s"
      by (cases p) (simp_all add: rsa_scan_step_def)
    with other show ?thesis by (simp add: Cons purposes_Cons Let_def)
  qed
qed simp

lemma check_rsa_params_eq:
  "check_rsa_params ps =
     (if rsa_purposes_ok (set (purposes ps)) then Inr ()
      else km_err ErrorCode_IncompatiblePurpose)"
  by (auto simp: check_rsa_params_def rsa_scan_eq rsa_purposes_ok_def)

definition later_purpose :: "KeyPurpose option \<Rightarrow> KeyPurpose option \<Rightarrow> KeyPurpose option" where
  "later_purpose old new =
     (if new = None then old
      else if old = None \<or> old = Some KeyPurpose_Verify then new else old)"

lemma leading_purpose_simps [simp]:
  "leading_purpose [] = None"
  "leading_purpose (u # us) =
     (if u \<in> {KeyPurpose_Encrypt, KeyPurpose_Decrypt} then leading_purpose us
      else later_purpose (Some u) (leading_purpose us))"
  by (cases u; simp add: leading_purpose_def later_purpose_def split: list.splits)+

lemma later_purpose_assoc:
  "later_purpose (later_purpose a b) c = later_purpose a (later_purpose b c)"
  by (auto simp: later_purpose_def)

lemma ec_note_purpose_eq:
  "ec_note_purpose u s = s\<lparr>ec_primary_purpose := later_purpose (ec_primary_purpose s) (Some u)\<rparr>"
  by (simp add: ec_note_purpose_def later_purpose_def)

lemma ec_scan_eq:
  "res_fold ec_scan_step s ps =
     (let P = set (purposes ps) in
      if KeyPurpose_WrapKey \<in> P then km_err ErrorCode_IncompatiblePurpose
      else Inr \<lparr>ec_seen_attest = ec_seen_attest s \<or> KeyPurpose_AttestKey \<in> P,
                ec_seen_sign = ec_seen_sign s \<or> KeyPurpose_Sign \<in> P,
                ec_seen_agree = ec_seen_agree s \<or> KeyPurpose_AgreeKey \<in> P,
                ec_seen_compatibility_purpose = ec_seen_compatibility_purpose s
                  \<or> P \<inter> {KeyPurpose_Encrypt, KeyPurpose_Decrypt} \<noteq> {},
                ec_primary_purpose =
                  later_purpose (ec_primary_purpose s) (leading_purpose (purposes ps))\<rparr>)"
proof (induction ps arbitrary: s)
  case Nil
  show ?case by (simp add: later_purpose_def)
next
  case (Cons p ps)
  show ?case
  proof (cases p rule: purpose_cases)
    case (purpose u)
    then show ?thesis
      by (cases u)
        (simp_all add: Cons scan_step_Purpose purposes_Cons ec_note_purpose_eq later_purpose_assoc
          Let_def)
  next
    case other
    then have "ec_scan_step s p = Inr s"
      by (cases p) (simp_all add: ec_scan_step_def)
    with other show ?thesis by (simp add: Cons purposes_Cons Let_def)
  qed
qed

lemma mldsa_scan_eq:
  "res_fold mldsa_scan_step (a, b) ps =
     (let P = set (purposes ps) in
      if P \<subseteq> {KeyPurpose_Sign, KeyPurpose_Verify, KeyPurpose_AttestKey}
      then Inr (a \<or> KeyPurpose_AttestKey \<in> P, b \<or> KeyPurpose_Sign \<in> P)
      else km_err ErrorCode_IncompatiblePurpose)"
proof (induction ps arbitrary: a b)
  case (Cons p ps)
  show ?case
  proof (cases p rule: purpose_cases)
    case (purpose u)
    then show ?thesis
      by (cases u) (simp_all add: Cons scan_step_Purpose purposes_Cons Let_def)
  next
    case other
    then have "mldsa_scan_step (a, b) p = Inr (a, b)"
      by (cases p) (simp_all add: mldsa_scan_step_def)
    with other show ?thesis by (simp add: Cons purposes_Cons Let_def)
  qed
qed simp

lemma check_mldsa_params_iff:
  "check_mldsa_params ps lvl = Inr () \<longleftrightarrow>
     lvl \<noteq> SecurityLevel_Strongbox \<and> mldsa_purposes_ok (set (purposes ps))"
  by (auto simp: check_mldsa_params_def mldsa_scan_eq mldsa_purposes_ok_def Let_def)

lemma check_ec_size_iff:
  "check_ec_size curve ps = Inr () \<longleftrightarrow>
     List.map_filter as_KeySize ps \<in> {[], [curve_to_key_size curve]}"
  by (cases rule: get_opt_tag_value_cases[of as_KeySize ErrorCode_InvalidTag ps]; cases curve)
    (simp_all add: check_ec_size_def curve_to_key_size_def)

lemma check_ec_params_iff:
  "check_ec_params curve ps lvl = Inr pp \<longleftrightarrow>
     \<not> (lvl = SecurityLevel_Strongbox \<and> curve \<noteq> EcCurve_P256) \<and>
     List.map_filter as_KeySize ps \<in> {[], [curve_to_key_size curve]} \<and>
     ec_purposes_ok curve (set (purposes ps)) \<and>
     pp = leading_purpose (purposes ps)"
proof -
  have none: "later_purpose None x = x" for x
    by (simp add: later_purpose_def)
  show ?thesis
    unfolding check_ec_params_def
    by (auto simp: res_simps check_ec_size_iff ec_scan_eq ec_scan_init_def Let_def
        ec_purposes_ok_def none split: if_splits)
qed

section \<open>Key generation\<close>

text \<open>
  The specification of the parameters of a key to generate, by the kind of key that comes out.
\<close>

definition mac_length_ok :: "u32 \<Rightarrow> u32 \<Rightarrow> KeyParam list \<Rightarrow> bool" where
  "mac_length_ok lo hi ps \<longleftrightarrow>
     (\<exists>n. List.map_filter as_MinMacLength ps = [n] \<and> n mod 8 = 0 \<and> lo \<le> n \<and> n \<le> hi)"

definition gcm_mac_ok :: "KeyParam list \<Rightarrow> bool" where
  "gcm_mac_ok ps \<longleftrightarrow>
     \<not> (KeyParam_BlockMode BlockMode_Gcm \<in> set ps \<and> \<not> mac_length_ok 96 128 ps)"

definition hmac_params_ok :: "SecurityLevel \<Rightarrow> KeySizeInBits \<Rightarrow> KeyParam list \<Rightarrow> bool" where
  "hmac_params_ok lvl sz ps \<longleftrightarrow>
     bits sz mod 8 = 0 \<and>
     unat (bits sz) \<in> {64 .. if lvl = SecurityLevel_Strongbox then 512 else 1024} \<and>
     (\<exists>d. List.map_filter as_Digest ps = [d] \<and> d \<noteq> Digest_None) \<and>
     mac_length_ok 64 512 ps"

definition rsa_sizes :: "SecurityLevel \<Rightarrow> KeySizeInBits set" where
  "rsa_sizes lvl = KeySizeInBits `
     (if lvl = SecurityLevel_Strongbox then {2048} else {512, 768, 1024, 2048, 3072, 4096})"

definition ec_params_ok :: "EcCurve \<Rightarrow> SecurityLevel \<Rightarrow> KeyParam list \<Rightarrow> bool" where
  "ec_params_ok curve lvl ps \<longleftrightarrow>
     \<not> (lvl = SecurityLevel_Strongbox \<and> curve \<noteq> EcCurve_P256) \<and>
     List.map_filter as_KeySize ps \<in> {[], [curve_to_key_size curve]} \<and>
     ec_purposes_ok curve (set (purposes ps))"

definition gen_spec :: "Algorithm \<Rightarrow> SecurityLevel \<Rightarrow> KeyParam list \<Rightarrow> KeyGenInfo \<Rightarrow> bool" where
  "gen_spec alg lvl ps ki = (case ki of
     KeyGenInfo_Aes v \<Rightarrow> alg = Algorithm_Aes \<and> gcm_mac_ok ps \<and>
       List.map_filter as_KeySize ps = [KeySizeInBits (of_nat (8 * Aes_Variant_key_size v))] \<and>
       \<not> (v = Aes192 \<and> lvl = SecurityLevel_Strongbox)
   | KeyGenInfo_TripleDes \<Rightarrow> alg = Algorithm_TripleDes \<and>
       List.map_filter as_KeySize ps = [KeySizeInBits 168]
   | KeyGenInfo_Hmac sz \<Rightarrow> alg = Algorithm_Hmac \<and>
       List.map_filter as_KeySize ps = [sz] \<and> hmac_params_ok lvl sz ps
   | KeyGenInfo_Rsa sz e \<Rightarrow> alg = Algorithm_Rsa \<and>
       List.map_filter as_KeySize ps = [sz] \<and> sz \<in> rsa_sizes lvl \<and>
       List.map_filter as_RsaPublicExponent ps = [e] \<and> rsa_purposes_ok (set (purposes ps))
   | KeyGenInfo_NistEc c \<Rightarrow> alg = Algorithm_Ec \<and>
       List.map_filter as_EcCurve ps = [EcCurve_of_NistCurve c] \<and>
       ec_params_ok (EcCurve_of_NistCurve c) lvl ps
   | KeyGenInfo_Ed25519 \<Rightarrow> alg = Algorithm_Ec \<and>
       List.map_filter as_EcCurve ps = [EcCurve_Curve25519] \<and>
       ec_params_ok EcCurve_Curve25519 lvl ps \<and>
       leading_purpose (purposes ps) \<in> {Some KeyPurpose_Sign, Some KeyPurpose_AttestKey}
   | KeyGenInfo_X25519 \<Rightarrow> alg = Algorithm_Ec \<and>
       List.map_filter as_EcCurve ps = [EcCurve_Curve25519] \<and>
       ec_params_ok EcCurve_Curve25519 lvl ps \<and>
       leading_purpose (purposes ps) = Some KeyPurpose_AgreeKey
   | KeyGenInfo_MlDsa v \<Rightarrow> alg = Algorithm_MlDsa \<and>
       List.map_filter as_MlDsaVariant ps = [v] \<and> lvl \<noteq> SecurityLevel_Strongbox \<and>
       mldsa_purposes_ok (set (purposes ps)))"

lemma check_rsa_key_size_iff:
  "check_rsa_key_size sz lvl = Inr () \<longleftrightarrow> sz \<in> rsa_sizes lvl"
  by (auto simp: check_rsa_key_size_def rsa_sizes_def)

lemma check_aes_params_iff: "check_aes_params ps = Inr () \<longleftrightarrow> gcm_mac_ok ps"
  by (cases rule: get_tag_value_cases[of as_MinMacLength ErrorCode_MissingMinMacLength ps])
    (simp_all add: check_aes_params_def gcm_mac_ok_def mac_length_ok_def)

lemma check_hmac_params_iff:
  "check_hmac_params ps lvl sz = Inr () \<longleftrightarrow> hmac_params_ok lvl sz ps"
proof -
  define size_ok where "size_ok \<longleftrightarrow> bits sz mod 8 = 0
    \<and> unat (bits sz) \<in> {64 .. if lvl = SecurityLevel_Strongbox then 512 else 1024}"
  have size: "(if lvl = SecurityLevel_Strongbox then valid_strongbox_hal_size sz
               else valid_hal_size sz)
            = (if size_ok then Inr () else km_err ErrorCode_UnsupportedKeySize)"
    by (simp add: size_ok_def valid_hal_size_def valid_strongbox_hal_size_def valid_size_def
        Hmac_MAX_KEY_SIZE_BITS_def Hmac_MAX_STRONGBOX_KEY_SIZE_BITS_def Hmac_MIN_KEY_SIZE_BITS_def)
  have spec: "hmac_params_ok lvl sz ps \<longleftrightarrow> size_ok
      \<and> (\<exists>d. List.map_filter as_Digest ps = [d] \<and> d \<noteq> Digest_None) \<and> mac_length_ok 64 512 ps"
    by (simp add: hmac_params_ok_def size_ok_def)
  show ?thesis
    unfolding check_hmac_params_def spec mac_length_ok_def size
    by (cases rule: get_tag_value_cases[of as_Digest ErrorCode_UnsupportedDigest ps];
        cases rule: get_tag_value_cases[of as_MinMacLength ErrorCode_MissingMinMacLength ps])
      simp_all
qed

lemmas check_iffs =
  check_rsa_key_size_iff check_aes_params_iff check_hmac_params_iff check_mldsa_params_iff
  check_ec_params_iff

lemma check_aes_gen_params_iff:
  "check_aes_gen_params ps lvl = Inr ki \<longleftrightarrow> gen_spec Algorithm_Aes lvl ps ki"
proof (cases rule: get_tag_value_cases[of as_KeySize ErrorCode_UnsupportedKeySize ps])
  case (found v)
  then show ?thesis
    by (cases ki)
      (auto simp: check_aes_gen_params_def gen_spec_def res_simps check_iffs
        Aes_Variant_key_size_def split: Aes_Variant.splits)
qed (simp add: check_aes_gen_params_def gen_spec_def split: KeyGenInfo.splits)

lemma check_3des_gen_params_iff:
  "check_3des_gen_params ps = Inr ki \<longleftrightarrow> gen_spec Algorithm_TripleDes lvl ps ki"
  by (cases ki)
    (auto simp: check_3des_gen_params_def gen_spec_def res_simps tag_lookup_iffs split: if_splits)

lemma check_hmac_gen_params_iff:
  "check_hmac_gen_params ps lvl = Inr ki \<longleftrightarrow> gen_spec Algorithm_Hmac lvl ps ki"
  by (cases ki)
    (auto simp: check_hmac_gen_params_def gen_spec_def res_simps tag_lookup_iffs check_iffs)

lemma check_rsa_gen_params_iff:
  "check_rsa_gen_params ps lvl = Inr ki \<longleftrightarrow> gen_spec Algorithm_Rsa lvl ps ki"
  by (cases ki)
    (auto simp: check_rsa_gen_params_def gen_spec_def res_simps tag_lookup_iffs check_iffs
      check_rsa_params_eq split: if_splits)

lemma check_mldsa_gen_params_iff:
  "check_mldsa_gen_params ps lvl = Inr ki \<longleftrightarrow> gen_spec Algorithm_MlDsa lvl ps ki"
  by (cases ki)
    (auto simp: check_mldsa_gen_params_def gen_spec_def get_mldsa_variant_def res_simps
      tag_lookup_iffs check_iffs)

lemma check_ec_gen_params_iff:
  "check_ec_gen_params ps lvl = Inr ki \<longleftrightarrow> gen_spec Algorithm_Ec lvl ps ki"
proof (cases rule: get_tag_value_cases[of as_EcCurve ErrorCode_UnsupportedKeySize ps])
  case (found curve)
  then show ?thesis
    by (cases ki; cases curve)
      (auto simp: check_ec_gen_params_def gen_spec_def get_ec_curve_def res_simps
        check_iffs ec_params_ok_def EcCurve_of_NistCurve_def split: NistCurve.splits)
qed (simp add: check_ec_gen_params_def get_ec_curve_def gen_spec_def split: KeyGenInfo.splits)

text \<open>
  C25: Generating a key succeeds exactly on the parameter lists of the specification, and tells
  the key generator what the list says: one algorithm, a key size the algorithm and the security
  level support, a curve or variant, compatible purposes (ATTEST-KEY alone but for VERIFY,
  Curve25519 keys either Ed25519 or X25519), and for GCM and HMAC keys a minimum MAC length that
  is a multiple of eight within bounds; the characteristics are those of the extraction.
\<close>

theorem key_generation_correct:
  "extract_key_gen_characteristics storage ps lvl = Inr (chars, ki) \<longleftrightarrow>
     (\<exists>alg. List.map_filter as_Algorithm ps = [alg] \<and> gen_spec alg lvl ps ki \<and>
            extract_key_characteristics storage alg ps [] lvl = Inr chars)"
proof -
  have check: "(case alg of
         Algorithm_Rsa \<Rightarrow> check_rsa_gen_params ps lvl
       | Algorithm_Ec \<Rightarrow> check_ec_gen_params ps lvl
       | Algorithm_MlDsa \<Rightarrow> check_mldsa_gen_params ps lvl
       | Algorithm_Aes \<Rightarrow> check_aes_gen_params ps lvl
       | Algorithm_TripleDes \<Rightarrow> check_3des_gen_params ps
       | Algorithm_Hmac \<Rightarrow> check_hmac_gen_params ps lvl) = Inr i \<longleftrightarrow> gen_spec alg lvl ps i" for alg i
    by (cases alg)
      (simp_all add: check_rsa_gen_params_iff check_ec_gen_params_iff check_mldsa_gen_params_iff
        check_aes_gen_params_iff check_3des_gen_params_iff[of _ _ lvl] check_hmac_gen_params_iff)
  show ?thesis
    unfolding extract_key_gen_characteristics_def get_algorithm_def
    by (auto simp: res_simps tag_lookup_iffs check)
qed

section \<open>Key import\<close>

text \<open>Lookups see through the sorting and the split of the characteristics.\<close>

lemma map_filter_insort_by:
  "length (List.map_filter f (insort_by c x xs)) = length (List.map_filter f (x # xs))"
  by (induction xs) (auto simp: map_filter_simps split: option.splits)

lemma length_map_filter_sort_by:
  "length (List.map_filter f (sort_by c xs)) = length (List.map_filter f xs)"
proof (induction xs)
  case (Cons x xs)
  have "sort_by c (x # xs) = insort_by c x (sort_by c xs)"
    by (simp add: sort_by_def)
  with Cons show ?case
    by (simp only: map_filter_insort_by) (simp add: map_filter_simps split: option.splits)
qed (simp add: sort_by_def)

lemma set_map_filter_eq: "set (List.map_filter f xs) = {y. \<exists>x \<in> set xs. f x = Some y}"
  by (induction xs) (auto simp: map_filter_simps split: option.splits)

lemma map_filter_sort_by_replicate:
  assumes "List.map_filter f xs = replicate n v"
  shows "List.map_filter f (sort_by c xs) = replicate n v"
proof -
  have "set (List.map_filter f (sort_by c xs)) = set (List.map_filter f xs)"
    by (simp add: set_map_filter_eq)
  then have "\<forall>y \<in> set (List.map_filter f (sort_by c xs)). y = v"
    using assms by (auto simp: set_replicate_conv_if split: if_splits)
  then have "List.map_filter f (sort_by c xs)
           = replicate (length (List.map_filter f (sort_by c xs))) v"
    by (simp add: replicate_eqI)
  with assms show ?thesis by (simp add: length_map_filter_sort_by)
qed

lemma map_filter_filter:
  assumes "\<And>p. f p \<noteq> None \<Longrightarrow> K p"
  shows "List.map_filter f (filter K xs) = List.map_filter f xs"
  using assms by (induction xs) (auto simp: map_filter_simps split: option.splits)

lemma extract_first:
  assumes "extract_key_characteristics storage alg ps ex lvl = Inr chars"
  shows "authorizations (hd chars) =
           sort_by param_compare (filter (keymint_enforced storage alg) (ps @ ex))"
  using assms
  by (auto simp: extract_key_characteristics_def extract_fold_eq res_simps Let_def split: if_splits)

lemma first_characteristics_lookup:
  assumes "extract_key_characteristics storage alg ps ex lvl = Inr chars"
    and "\<And>p. f p \<noteq> None \<Longrightarrow> keymint_enforced storage alg p"
    and "List.map_filter f (ps @ ex) = replicate n v"
  shows "List.map_filter f (authorizations (hd chars)) = replicate n v"
proof -
  have "List.map_filter f (filter (keymint_enforced storage alg) (ps @ ex)) = replicate n v"
    using assms(2,3) map_filter_filter[of f "keymint_enforced storage alg" "ps @ ex"] by metis
  then show ?thesis
    unfolding extract_first[OF assms(1)] by (rule map_filter_sort_by_replicate)
qed

lemma projected_enforced:
  "as_KeySize p \<noteq> None \<Longrightarrow> alg \<noteq> Algorithm_MlDsa \<Longrightarrow> keymint_enforced storage alg p"
  "as_EcCurve p \<noteq> None \<Longrightarrow> keymint_enforced storage alg p"
  "as_RsaPublicExponent p \<noteq> None \<Longrightarrow> keymint_enforced storage alg p"
  "as_MlDsaVariant p \<noteq> None \<Longrightarrow> keymint_enforced storage alg p"
  by (cases p; simp add: keymint_enforced_def as_KeySize_def as_EcCurve_def
      as_RsaPublicExponent_def as_MlDsaVariant_def KEYMINT_ENFORCED_CHARACTERISTICS_def)+

text \<open>After \<open>match_or_deduce\<close>, the given and the deduced parameters hold the actual value once.\<close>

lemma match_or_deduce_lookup:
  assumes "match_or_deduce variant mk actual ps ded = Inr ded'"
    and "\<And>x. variant (mk x) = Some x" and "List.map_filter variant ded = []"
  shows "List.map_filter variant (ps @ ded') = [actual]"
  using assms
  by (cases rule: get_opt_tag_value_cases[of variant ErrorCode_InvalidTag ps])
    (auto simp: match_or_deduce_def map_filter_append map_filter_simps split: if_splits)

lemma match_or_deduce_frame:
  assumes "match_or_deduce variant mk actual ps ded = Inr ded'" and "\<And>x. f (mk x) = None"
  shows "List.map_filter f ded' = List.map_filter f ded"
  using assms
  by (cases rule: get_opt_tag_value_cases[of variant ErrorCode_InvalidTag ps])
    (auto simp: match_or_deduce_def map_filter_append map_filter_simps split: if_splits)

lemma projections [simp]:
  "as_KeySize (KeyParam_KeySize x) = Some x" "as_KeySize (KeyParam_EcCurve c) = None"
  "as_KeySize (KeyParam_RsaPublicExponent e) = None"
  "as_EcCurve (KeyParam_EcCurve c) = Some c" "as_EcCurve (KeyParam_KeySize x) = None"
  "as_RsaPublicExponent (KeyParam_RsaPublicExponent e) = Some e"
  "as_RsaPublicExponent (KeyParam_KeySize x) = None"
  "as_MlDsaVariant (KeyParam_MlDsaVariant v) = Some v"
  by (simp_all add: as_KeySize_def as_EcCurve_def as_RsaPublicExponent_def as_MlDsaVariant_def)

lemma map_filter_Nil [simp]: "List.map_filter f [] = []"
  by (simp add: map_filter_simps)

definition import_spec ::
    "(bytes \<Rightarrow> Error + (KeyMaterial \<times> KeySizeInBits \<times> RsaExponent)) \<Rightarrow> Algorithm \<Rightarrow> SecurityLevel \<Rightarrow> bytes
     \<Rightarrow> KeyParam list \<Rightarrow> KeyMaterial \<Rightarrow> KeySizeInBits \<Rightarrow> bool" where
  "import_spec rsa_pkcs8 alg lvl data ps key sz = (case alg of
     Algorithm_Aes \<Rightarrow> (\<exists>k. key = KeyMaterial_Aes (OpaqueOr_Explicit k) \<and>
       sz = Aes_Key_size k \<and> unat (bits sz) = 8 * length data \<and>
       length data \<in> {16, 32} \<union> (if lvl = SecurityLevel_Strongbox then {} else {24}))
   | Algorithm_TripleDes \<Rightarrow> key = KeyMaterial_TripleDes (OpaqueOr_Explicit (Des_Key data)) \<and>
       length data = 24 \<and> sz = KeySizeInBits 168
   | Algorithm_Hmac \<Rightarrow> key = KeyMaterial_Hmac (OpaqueOr_Explicit (Hmac_Key data)) \<and>
       sz = Hmac_Key_size (Hmac_Key data) \<and>
       unat (bits sz) \<in> {64 .. if lvl = SecurityLevel_Strongbox then 512 else 1024}
   | Algorithm_Rsa \<Rightarrow> (\<exists>e. rsa_pkcs8 data = Inr (key, sz, e) \<and> sz \<in> rsa_sizes lvl \<and>
       List.map_filter as_RsaPublicExponent ps = [e])
   | Algorithm_Ec \<Rightarrow> (\<exists>curve ty k. key = KeyMaterial_Ec curve ty k \<and>
       sz = curve_to_key_size curve \<and> List.map_filter as_EcCurve ps = [curve] \<and>
       \<not> (lvl = SecurityLevel_Strongbox \<and> curve \<noteq> EcCurve_P256))
   | Algorithm_MlDsa \<Rightarrow> False)"

lemmas deduced_lookup =
  match_or_deduce_lookup[where variant = as_KeySize and mk = KeyParam_KeySize]
  match_or_deduce_lookup[where variant = as_EcCurve and mk = KeyParam_EcCurve]
  match_or_deduce_lookup[where variant = as_RsaPublicExponent and mk = KeyParam_RsaPublicExponent]

lemma check_aes_import_spec:
  assumes "check_aes_import_params (default_implementation rsa ec) ps lvl fmt data = Inr (ded, key)"
  shows "\<exists>sz. List.map_filter as_KeySize (ps @ ded) = [sz] \<and>
              import_spec rsa Algorithm_Aes lvl data (ps @ ded) key sz"
proof -
  from assms obtain sz where imp: "Aes_import_key data ps = Inr (key, sz)"
    and lvl: "\<not> (sz = KeySizeInBits 192 \<and> lvl = SecurityLevel_Strongbox)"
    and "match_or_deduce as_KeySize KeyParam_KeySize sz ps [] = Inr ded"
    by (auto simp: check_aes_import_params_def require_matching_key_size_def
        default_implementation_def res_simps split: if_splits prod.splits)
  then have "List.map_filter as_KeySize (ps @ ded) = [sz]"
    by (auto dest: deduced_lookup(1))
  with imp lvl show ?thesis
    by (auto simp: import_spec_def Aes_import_key_iff Aes_Key_size_def split: if_splits)
qed

lemma check_3des_import_spec:
  assumes "check_3des_import_params (default_implementation rsa ec) ps fmt data = Inr (ded, key)"
  shows "\<exists>sz. List.map_filter as_KeySize (ps @ ded) = [sz] \<and>
              import_spec rsa Algorithm_TripleDes lvl data (ps @ ded) key sz"
  using assms
  by (auto simp: check_3des_import_params_def require_matching_key_size_def import_spec_def
      default_implementation_def res_simps Des_import_key_iff Des_KEY_SIZE_BITS_def
      dest!: deduced_lookup(1))

lemma check_hmac_import_spec:
  assumes "check_hmac_import_params (default_implementation rsa ec) ps lvl fmt data = Inr (ded, key)"
  shows "\<exists>sz. List.map_filter as_KeySize (ps @ ded) = [sz] \<and>
              import_spec rsa Algorithm_Hmac lvl data (ps @ ded) key sz"
proof -
  from assms obtain sz where imp: "Hmac_import_key data ps = Inr (key, sz)"
    and hmac: "hmac_params_ok lvl sz ps"
    and "match_or_deduce as_KeySize KeyParam_KeySize sz ps [] = Inr ded"
    by (auto simp: check_hmac_import_params_def require_matching_key_size_def check_iffs
        default_implementation_def res_simps split: prod.splits)
  then have "List.map_filter as_KeySize (ps @ ded) = [sz]"
    by (auto dest: deduced_lookup(1))
  with imp hmac show ?thesis
    by (auto simp: import_spec_def Hmac_import_key_def Let_def res_simps hmac_params_ok_def)
qed

lemma check_rsa_import_spec:
  assumes "check_rsa_import_params (default_implementation rsa ec) ps lvl fmt data = Inr (ded, key)"
  shows "\<exists>sz. List.map_filter as_KeySize (ps @ ded) = [sz] \<and>
              import_spec rsa Algorithm_Rsa lvl data (ps @ ded) key sz"
proof -
  from assms obtain sz e ded1 where imp: "rsa data = Inr (key, sz, e)"
    and sizes: "sz \<in> rsa_sizes lvl"
    and ded1: "match_or_deduce as_KeySize KeyParam_KeySize sz ps [] = Inr ded1"
    and ded: "match_or_deduce as_RsaPublicExponent KeyParam_RsaPublicExponent e ps ded1 = Inr ded"
    by (auto simp: check_rsa_import_params_def check_iffs default_implementation_def res_simps
        split: prod.splits if_splits)
  have "List.map_filter as_KeySize (ps @ ded) = [sz]"
    using deduced_lookup(1)[OF ded1] match_or_deduce_frame[OF ded, of as_KeySize]
    by (simp add: map_filter_append)
  moreover have "List.map_filter as_RsaPublicExponent (ps @ ded) = [e]"
    using deduced_lookup(3)[OF ded] match_or_deduce_frame[OF ded1, of as_RsaPublicExponent] by simp
  ultimately show ?thesis
    using imp sizes by (simp add: import_spec_def)
qed

lemma import_ec_key_curve:
  assumes "import_ec_key (default_implementation rsa ec) ps lvl fmt data = Inr (key, curve)"
  shows "\<exists>ty k. key = KeyMaterial_Ec curve ty k"
  using assms
  by (auto simp: import_ec_key_def default_implementation_def res_simps import_raw_x25519_key_def
      import_raw_ed25519_key_def split: KeyFormat.splits if_splits KeyMaterial.splits
      EcCurve.splits CurveType.splits)

lemma check_ec_import_spec:
  assumes "check_ec_import_params (default_implementation rsa ec) ps lvl fmt data = Inr (ded, key)"
  shows "\<exists>sz. List.map_filter as_KeySize (ps @ ded) = [sz] \<and>
              import_spec rsa Algorithm_Ec lvl data (ps @ ded) key sz"
proof -
  from assms obtain curve ded1 where
      key: "import_ec_key (default_implementation rsa ec) ps lvl fmt data = Inr (key, curve)"
    and ded1: "match_or_deduce as_EcCurve KeyParam_EcCurve curve ps [] = Inr ded1"
    and ded: "match_or_deduce as_KeySize KeyParam_KeySize (curve_to_key_size curve) ps ded1 = Inr ded"
    and ok: "\<not> (lvl = SecurityLevel_Strongbox \<and> curve \<noteq> EcCurve_P256)"
    by (auto simp: check_ec_import_params_def check_ec_params_iff res_simps split: prod.splits)
  have "List.map_filter as_EcCurve (ps @ ded) = [curve]"
    using deduced_lookup(2)[OF ded1] match_or_deduce_frame[OF ded, of as_EcCurve]
    by (simp add: map_filter_append)
  moreover have "List.map_filter as_KeySize (ps @ ded) = [curve_to_key_size curve]"
    using deduced_lookup(1)[OF ded] match_or_deduce_frame[OF ded1, of as_KeySize] by simp
  ultimately show ?thesis
    using ok import_ec_key_curve[OF key] by (auto simp: import_spec_def)
qed

lemma import_spec_authorizations:
  assumes "import_spec rsa alg lvl data ps key sz"
    and "\<And>e. List.map_filter as_RsaPublicExponent ps = [e]
           \<Longrightarrow> List.map_filter as_RsaPublicExponent qs = [e]"
    and "\<And>c. List.map_filter as_EcCurve ps = [c] \<Longrightarrow> List.map_filter as_EcCurve qs = [c]"
  shows "import_spec rsa alg lvl data qs key sz"
  using assms by (cases alg) (auto simp: import_spec_def)

text \<open>
  Importing a key (other than an ML-DSA key) yields key material of the requested
  algorithm, and the characteristics KeyMint enforces name the key size exactly once: the size
  of the imported key, whether the client gave it or it was deduced.  The same holds for the
  curve of an EC key and the public exponent of an RSA key, and the size is one the algorithm
  and the security level support.  RSA and EC PKCS#8 parsing are arbitrary functions here.
\<close>

theorem key_import_characteristics:
  assumes "extract_key_import_characteristics (default_implementation rsa ec) storage ps lvl fmt data
             = Inr (chars, key)"
    and "List.map_filter as_Algorithm ps = [alg]" and "alg \<noteq> Algorithm_MlDsa"
  shows "\<exists>sz. List.map_filter as_KeySize (authorizations (hd chars)) = [sz] \<and>
              import_spec rsa alg lvl data (authorizations (hd chars)) key sz"
proof -
  from assms(1,2) obtain ded where
      check: "check_import_params (default_implementation rsa ec) alg ps lvl fmt data = Inr (ded, key)"
    and ext: "extract_key_characteristics storage alg ps ded lvl = Inr chars"
    by (auto simp: extract_key_import_characteristics_def get_algorithm_def res_simps
        tag_lookup_iffs split: prod.splits)
  have "\<exists>sz. List.map_filter as_KeySize (ps @ ded) = [sz] \<and>
             import_spec rsa alg lvl data (ps @ ded) key sz"
    using check assms(3)
    by (cases alg) (simp_all add: check_import_params_def check_aes_import_spec
        check_3des_import_spec check_hmac_import_spec check_rsa_import_spec check_ec_import_spec)
  then obtain sz where sz: "List.map_filter as_KeySize (ps @ ded) = [sz]"
    and spec: "import_spec rsa alg lvl data (ps @ ded) key sz"
    by blast
  note first = first_characteristics_lookup[OF ext, where n = 1, simplified]
  show ?thesis
    using first[OF projected_enforced(1)[OF _ assms(3)] sz]
      import_spec_authorizations[OF spec first[OF projected_enforced(3)] first[OF projected_enforced(2)]]
    by auto
qed

lemmas lookup_eval =
  get_algorithm_def get_mldsa_variant_def get_tag_value_def get_opt_tag_value_def tag_scan_def
  scan_step_def as_Algorithm_def as_KeySize_def as_MlDsaVariant_def map_filter_simps

lemmas import_eval =
  extract_key_import_characteristics_def check_import_params_def default_implementation_def
  require_raw_def require_matching_key_size_def match_or_deduce_def
  extract_key_characteristics_def extract_step_def enforced_lists reject_incompatible_auth_def
  auth_scan_step_def sort_by_def

definition sample_aes_import :: "Error + (KeyCharacteristics list \<times> KeyMaterial)" where
  "sample_aes_import =
     extract_key_import_characteristics
       (default_implementation (\<lambda>_. km_err ErrorCode_InvalidArgument)
          (\<lambda>_. km_err ErrorCode_InvalidArgument))
       SecureStorage_Unavailable [KeyParam_Algorithm Algorithm_Aes]
       SecurityLevel_TrustedEnvironment KeyFormat_Raw (replicate 16 7)"

lemma sample_aes_import_eq:
  "sample_aes_import =
     Inr ([\<lparr>security_level = SecurityLevel_TrustedEnvironment,
             authorizations = [KeyParam_Algorithm Algorithm_Aes, KeyParam_KeySize (KeySizeInBits 128)]\<rparr>],
          KeyMaterial_Aes (OpaqueOr_Explicit (Aes_Key_Aes128 (replicate 16 7))))"
  unfolding sample_aes_import_def
  by (simp add: import_eval lookup_eval check_aes_import_params_def check_aes_params_def
      Aes_import_key_def Aes_Key_new_def Aes_Key_size_def param_compare_def less_Tag_def)

theorem key_import_characteristics_witness:
  "\<exists>chars key. sample_aes_import = Inr (chars, key) \<and>
     (\<exists>sz. List.map_filter as_KeySize (authorizations (hd chars)) = [sz] \<and>
           import_spec (\<lambda>_. km_err ErrorCode_InvalidArgument) Algorithm_Aes
             SecurityLevel_TrustedEnvironment (replicate 16 7) (authorizations (hd chars)) key sz)"
  using key_import_characteristics[OF sample_aes_import_eq[unfolded sample_aes_import_def]]
  by (simp add: sample_aes_import_eq lookup_eval)

text \<open>
  The characteristics of an imported ML-DSA key name its variant, once for a raw key and,
  when the client names the variant of a PKCS#8 key, twice: the deduced variant is added
  although it is there already.  A lookup of the variant in those characteristics, as the
  certificate builder does it for a key without a signing key, then fails.
\<close>

theorem mldsa_import_variant:
  assumes "extract_key_import_characteristics (default_implementation rsa ec) storage ps lvl fmt data
             = Inr (chars, key)"
    and "List.map_filter as_Algorithm ps = [Algorithm_MlDsa]"
    and "List.map_filter as_MlDsaVariant ps = [v]"
  shows "(\<exists>k. key = KeyMaterial_MlDsa v (OpaqueOr_Explicit k)) \<and>
         List.map_filter as_MlDsaVariant (authorizations (hd chars))
           = (if fmt = KeyFormat_Pkcs8 then [v, v] else [v]) \<and>
         get_mldsa_variant (authorizations (hd chars))
           = (if fmt = KeyFormat_Pkcs8 then km_err ErrorCode_UnsupportedMlDsaVariant else Inr v)"
proof -
  from assms(1,2) obtain ded where
      check: "check_mldsa_import_params (default_implementation rsa ec) ps lvl fmt data = Inr (ded, key)"
    and ext: "extract_key_characteristics storage Algorithm_MlDsa ps ded lvl = Inr chars"
    by (auto simp: extract_key_import_characteristics_def check_import_params_def get_algorithm_def
        res_simps tag_lookup_iffs split: prod.splits)
  have opt: "get_opt_tag_value as_MlDsaVariant ErrorCode_InvalidTag ps = Inr (Some v)"
    using assms(3) by (simp add: tag_lookup_iffs)
  have "(\<exists>k. key = KeyMaterial_MlDsa v (OpaqueOr_Explicit k)) \<and>
        ded = (if fmt = KeyFormat_Pkcs8 then [KeyParam_MlDsaVariant v] else [])"
    using check opt
    by (cases fmt)
      (auto simp: check_mldsa_import_params_def default_implementation_def res_simps
        MlDsa_import_raw_key_def MlDsa_import_pkcs8_key_def split: if_splits MlDsaVariant.splits)
  then have key: "\<exists>k. key = KeyMaterial_MlDsa v (OpaqueOr_Explicit k)"
    and "List.map_filter as_MlDsaVariant (ps @ ded)
           = replicate (if fmt = KeyFormat_Pkcs8 then 2 else 1) v"
    using assms(3) by (auto simp: map_filter_append map_filter_simps numeral_2_eq_2)
  from first_characteristics_lookup[OF ext projected_enforced(4) this(2)]
  have "List.map_filter as_MlDsaVariant (authorizations (hd chars))
          = (if fmt = KeyFormat_Pkcs8 then [v, v] else [v])"
    by (auto simp: numeral_2_eq_2)
  with key show ?thesis
    by (simp add: get_mldsa_variant_def get_tag_value_def tag_scan_eq)
qed

definition sample_mldsa_import :: "Error + (KeyCharacteristics list \<times> KeyMaterial)" where
  "sample_mldsa_import =
     extract_key_import_characteristics
       (default_implementation (\<lambda>_. km_err ErrorCode_InvalidArgument)
          (\<lambda>_. km_err ErrorCode_InvalidArgument))
       SecureStorage_Unavailable
       [KeyParam_Algorithm Algorithm_MlDsa, KeyParam_MlDsaVariant MlDsaVariant_MlDsa65]
       SecurityLevel_TrustedEnvironment KeyFormat_Pkcs8 (PKCS8_SEED_65_PREFIX @ replicate 32 7)"

lemma sample_mldsa_import_eq:
  "sample_mldsa_import =
     Inr ([\<lparr>security_level = SecurityLevel_TrustedEnvironment,
             authorizations = [KeyParam_Algorithm Algorithm_MlDsa,
               KeyParam_MlDsaVariant MlDsaVariant_MlDsa65, KeyParam_MlDsaVariant MlDsaVariant_MlDsa65]\<rparr>],
          KeyMaterial_MlDsa MlDsaVariant_MlDsa65 (OpaqueOr_Explicit (MlDsa_Key_MlDsa65 (replicate 32 7))))"
  unfolding sample_mldsa_import_def
  by (simp add: import_eval lookup_eval check_mldsa_import_params_def check_mldsa_params_def
      MlDsa_import_pkcs8_key_seed mldsa_scan_step_def param_compare_def cmp_def less_Tag_def)

theorem mldsa_import_variant_witness:
  "\<exists>chars key. sample_mldsa_import = Inr (chars, key) \<and>
     List.map_filter as_MlDsaVariant (authorizations (hd chars))
       = [MlDsaVariant_MlDsa65, MlDsaVariant_MlDsa65] \<and>
     get_mldsa_variant (authorizations (hd chars)) = km_err ErrorCode_UnsupportedMlDsaVariant"
  using mldsa_import_variant[OF sample_mldsa_import_eq[unfolded sample_mldsa_import_def]]
  by (simp add: sample_mldsa_import_eq lookup_eval)

text \<open>
  An RSA wrapping key is accepted exactly when it has the WRAP-KEY purpose, the import
  asks for RSA-OAEP with SHA-256 and the key allows both, and the MGF digest is SHA-1 by default
  or a digest other than NONE that the key allows.
\<close>

theorem check_rsa_wrapping_key_params_correct:
  "check_rsa_wrapping_key_params chars ps = Inr mode \<longleftrightarrow>
     KeyPurpose_WrapKey \<in> set (purposes chars) \<and>
     List.map_filter as_Padding ps = [PaddingMode_RsaOaep] \<and>
     PaddingMode_RsaOaep \<in> set (List.map_filter as_Padding chars) \<and>
     List.map_filter as_Digest ps = [Digest_Sha256] \<and>
     Digest_Sha256 \<in> set (List.map_filter as_Digest chars) \<and>
     (case List.map_filter as_RsaOaepMgfDigest ps of
        [] \<Rightarrow> mode = DecryptionMode_OaepPadding Digest_Sha256 Digest_Sha1
      | [d] \<Rightarrow> d \<noteq> Digest_None \<and> d \<in> set (List.map_filter as_RsaOaepMgfDigest chars) \<and>
                mode = DecryptionMode_OaepPadding Digest_Sha256 d
      | _ \<Rightarrow> False)"
  unfolding check_rsa_wrapping_key_params_def contains_tag_value_iff purposes_def
  by (cases rule: get_tag_value_cases[of as_Padding ErrorCode_IncompatiblePaddingMode ps];
      cases rule: get_tag_value_cases[of as_Digest ErrorCode_IncompatibleDigest ps];
      cases rule: get_opt_tag_value_cases[of as_RsaOaepMgfDigest ErrorCode_InvalidTag ps])
    (auto split: list.splits)

end
