(* ===== verification/Imei.thy ===== *)
theory Imei
  imports Prelude
begin

text \<open>
  Derivation of the second IMEI, the end of \<^verbatim>\<open>common/src/tag.rs\<close>: \<open>luhn_checksum\<close> and
  \<open>increment_imei\<close> on 64-bit words, with Rust's decimal parsing and printing of \<open>u64\<close>.
\<close>

section \<open>Decimal text\<close>

definition checked_mul :: "u64 \<Rightarrow> u64 \<Rightarrow> u64 option" where
  "checked_mul a b = (if unat a * unat b < 2 ^ 64 then Some (a * b) else None)"

definition checked_add :: "u64 \<Rightarrow> u64 \<Rightarrow> u64 option" where
  "checked_add a b = (if unat a + unat b < 2 ^ 64 then Some (a + b) else None)"

text \<open>\<open>str::parse::<u64>()\<close>: an optional plus sign and at least one digit; overflow is an error.\<close>

fun parse_digits :: "u64 \<Rightarrow> bytes \<Rightarrow> u64 option" where
  "parse_digits acc [] = Some acc"
| "parse_digits acc (b # bs) =
     (if 48 \<le> b \<and> b \<le> 57 then
        Option.bind (checked_mul acc 10) (\<lambda>a.
        Option.bind (checked_add a (ucast (b - 48))) (\<lambda>a.
          parse_digits a bs))
      else None)"

definition parse_u64 :: "bytes \<Rightarrow> u64 option" where
  "parse_u64 s = (case s of
     [] \<Rightarrow> None
   | b # bs \<Rightarrow> if b = 43 then (if bs = [] then None else parse_digits 0 bs)
              else parse_digits 0 (b # bs))"

fun decimal :: "nat \<Rightarrow> bytes" where
  "decimal n = (if n < 10 then [48 + of_nat n] else decimal (n div 10) @ [48 + of_nat (n mod 10)])"

declare decimal.simps [simp del]

section \<open>The Luhn checksum\<close>

lemma unat_div_10_less: "val \<noteq> 0 \<Longrightarrow> unat (val div 10 :: u64) < unat val"
  by (simp add: unat_div unat_gt_0)

function luhn_loop :: "u64 \<Rightarrow> nat \<Rightarrow> u64 \<Rightarrow> u64" where
  "luhn_loop val ii sum_digits =
     (if val = 0 then sum_digits
      else
        let curr_digit = val mod 10;
            multiplier = (if ii mod 2 = 0 then 2 else 1);
            digit_multiplied = curr_digit * multiplier
        in luhn_loop (val div 10) (ii + 1)
             (sum_digits + (digit_multiplied mod 10 + digit_multiplied div 10)))"
  by pat_completeness auto

termination
  by (relation "measure (\<lambda>(val, _, _). unat val)") (auto simp: unat_div_10_less)

declare luhn_loop.simps [simp del]

definition luhn_checksum :: "u64 \<Rightarrow> u64" where
  "luhn_checksum val = (10 - luhn_loop val 0 0 mod 10) mod 10"

text \<open>
  \<open>increment_imei\<close>.  Bytes that are not UTF-8 are not decimal digits either, so both failures
  are the failure of the parser.  The final addition is the wrapping one of a release build.
\<close>

definition increment_imei :: "bytes \<Rightarrow> bytes" where
  "increment_imei imei =
     (if imei = [] then []
      else case parse_u64 imei of
        None \<Rightarrow> []
      | Some imei \<Rightarrow>
          let imei2 = imei div 10 + 1 in
          (case checked_mul imei2 10 of
             None \<Rightarrow> []
           | Some imei2_without_checksum \<Rightarrow>
               decimal (unat (imei2_without_checksum + luhn_checksum imei2))))"

section \<open>Specification\<close>

definition digit_sum2 :: "nat \<Rightarrow> nat" where
  "digit_sum2 d = d mod 10 + d div 10"

fun luhn_sum :: "bool \<Rightarrow> nat \<Rightarrow> nat" where
  "luhn_sum doubled n =
     (if n = 0 then 0
      else (if doubled then digit_sum2 (2 * (n mod 10)) else n mod 10)
           + luhn_sum (\<not> doubled) (n div 10))"

declare luhn_sum.simps [simp del]

text \<open>
  A number passes the Luhn test if the sum of its digits, every second one from the right
  doubled (and its digits added), is a multiple of ten.
\<close>

definition luhn_valid :: "nat \<Rightarrow> bool" where
  "luhn_valid n \<longleftrightarrow> luhn_sum False n mod 10 = 0"

section \<open>The loop computes the sum\<close>

lemma digit_cases:
  assumes "(d :: nat) < 10"
  obtains "d = 0" | "d = 1" | "d = 2" | "d = 3" | "d = 4"
    | "d = 5" | "d = 6" | "d = 7" | "d = 8" | "d = 9"
  using assms by atomize_elim arith

lemma digit_sum2_bound: "d < 10 \<Longrightarrow> digit_sum2 (2 * d) \<le> 9"
  by (erule digit_cases) (simp_all add: digit_sum2_def)

lemma luhn_sum_bound: "n < 10 ^ k \<Longrightarrow> luhn_sum doubled n \<le> 9 * k"
proof (induction k arbitrary: n doubled)
  case 0
  then show ?case by (simp add: luhn_sum.simps)
next
  case (Suc k)
  have "luhn_sum (\<not> doubled) (n div 10) \<le> 9 * k"
    using Suc.prems by (intro Suc.IH) (simp add: less_mult_imp_div_less mult.commute)
  moreover have "(if doubled then digit_sum2 (2 * (n mod 10)) else n mod 10) \<le> 9"
    using digit_sum2_bound[of "n mod 10"] mod_less_divisor[of 10 n] by auto
  ultimately show ?case
    using luhn_sum.simps[of doubled n] by (cases "n = 0") auto
qed

lemma luhn_sum_u64: "luhn_sum doubled (unat (v :: u64)) \<le> 180"
proof -
  have "unat v < 2 ^ 64"
    using unsigned_less[of v, where ?'a = nat] by simp
  then have "unat v < 10 ^ 20" by simp
  then show ?thesis using luhn_sum_bound[of "unat v" 20 doubled] by simp
qed

lemma unat_mod_10: "unat (v mod 10 :: u64) = unat v mod 10"
  by (simp add: unat_mod)

lemma luhn_digit_word:
  fixes v :: u64 and multiplier :: u64
  assumes "multiplier = (if doubled then 2 else 1)"
  shows "unat ((v mod 10 * multiplier) mod 10 + (v mod 10 * multiplier) div 10)
       = (if doubled then digit_sum2 (2 * (unat v mod 10)) else unat v mod 10)"
proof -
  define d where "d = unat v mod 10"
  have "v mod 10 = of_nat d"
    by (simp add: d_def flip: unat_mod_10)
  moreover have "d < 10" by (simp add: d_def)
  ultimately show ?thesis
    unfolding assms d_def[symmetric] by (elim digit_cases) (simp_all add: digit_sum2_def)
qed

lemma luhn_loop_sum:
  assumes "unat s + luhn_sum (even ii) (unat v) < 2 ^ 64"
  shows "unat (luhn_loop v ii s) = unat s + luhn_sum (even ii) (unat v)"
  using assms
proof (induction v ii s rule: luhn_loop.induct)
  case (1 v ii s)
  show ?case
  proof (cases "v = 0")
    case True
    then show ?thesis by (simp add: luhn_loop.simps luhn_sum.simps)
  next
    case False
    define m :: u64 where "m = (if ii mod 2 = 0 then 2 else 1)"
    define t where "t = (v mod 10 * m) mod 10 + (v mod 10 * m) div 10"
    have m: "m = (if even ii then 2 else 1)"
      by (simp add: m_def even_iff_mod_2_eq_zero)
    have t: "unat t = (if even ii then digit_sum2 (2 * (unat v mod 10)) else unat v mod 10)"
      unfolding t_def by (rule luhn_digit_word[OF m])
    have split: "luhn_sum (even ii) (unat v)
        = unat t + luhn_sum (even (ii + 1)) (unat (v div 10))"
      using False t luhn_sum.simps[of "even ii" "unat v"] by (simp add: unat_eq_0 unat_div)
    have "unat s + unat t < 2 ^ 64"
      using "1.prems" split by linarith
    then have st: "unat (s + t) = unat s + unat t"
      by (simp add: unat_add_lem[symmetric])
    have "unat (luhn_loop (v div 10) (ii + 1) (s + t))
        = unat (s + t) + luhn_sum (even (ii + 1)) (unat (v div 10))"
      using "1.IH"[OF False refl refl refl] "1.prems" split st
      unfolding m_def[symmetric] t_def[symmetric] by simp
    then show ?thesis
      using False split st luhn_loop.simps[of v ii s]
      unfolding Let_def m_def[symmetric] t_def[symmetric] by simp
  qed
qed

lemma luhn_checksum_eq:
  "unat (luhn_checksum v) = (10 - luhn_sum True (unat v) mod 10) mod 10"
proof -
  have "unat (luhn_loop v 0 0) = luhn_sum True (unat v)"
    using luhn_loop_sum[of 0 0 v] luhn_sum_u64[of True v] by simp
  then have "unat (luhn_loop v 0 0 mod 10) = luhn_sum True (unat v) mod 10"
    by (simp add: unat_mod_10)
  then have "unat (10 - luhn_loop v 0 0 mod 10) = 10 - luhn_sum True (unat v) mod 10"
    by (subst unat_sub) (simp_all add: word_le_nat_alt)
  then show ?thesis
    by (simp add: luhn_checksum_def unat_mod_10)
qed

section \<open>The derived number is the next valid one\<close>

lemma luhn_sum_append:
  assumes "c < 10"
  shows "luhn_sum False (10 * k + c) = c + luhn_sum True k"
  using assms luhn_sum.simps[of False "10 * k + c"]
  by (cases "10 * k + c = 0") (auto simp: luhn_sum.simps)

lemma check_digit_iff:
  assumes "c < 10"
  shows "luhn_valid (10 * k + c) \<longleftrightarrow> c = (10 - luhn_sum True k mod 10) mod 10"
proof -
  have "(c + s) mod 10 = 0 \<longleftrightarrow> c = (10 - s mod 10) mod 10" for s :: nat
  proof -
    have "s mod 10 < 10" by simp
    then have "(c + s mod 10) mod 10 = 0 \<longleftrightarrow> c = (10 - s mod 10) mod 10"
      using assms by (elim digit_cases; simp)
    then show ?thesis by (simp add: mod_add_right_eq)
  qed
  then show ?thesis
    using luhn_sum_append[OF assms] by (simp add: luhn_valid_def)
qed

lemma Least_luhn_valid:
  "(LEAST m. 10 * k \<le> m \<and> luhn_valid m) = 10 * k + (10 - luhn_sum True k mod 10) mod 10"
proof (rule Least_equality)
  show "10 * k \<le> 10 * k + (10 - luhn_sum True k mod 10) mod 10 \<and>
        luhn_valid (10 * k + (10 - luhn_sum True k mod 10) mod 10)"
    by (simp add: check_digit_iff)
  fix m assume m: "10 * k \<le> m \<and> luhn_valid m"
  show "10 * k + (10 - luhn_sum True k mod 10) mod 10 \<le> m"
  proof (cases "m < 10 * k + 10")
    case True
    then show ?thesis
      using m check_digit_iff[of "m - 10 * k" k] by simp
  next
    case False
    moreover have "(10 - luhn_sum True k mod 10) mod 10 < 10" by simp
    ultimately show ?thesis by linarith
  qed
qed

lemma checksum_no_overflow:
  assumes "10 * k < 2 ^ 64"
  shows "10 * k + (10 - luhn_sum True k mod 10) mod 10 < (2 :: nat) ^ 64"
proof (cases "k = 1844674407370955161")
  case True
  have "luhn_sum True 1844674407370955161 = 89"
    by (simp add: luhn_sum.simps digit_sum2_def)
  with True show ?thesis by simp
next
  case False
  moreover have "(10 - luhn_sum True k mod 10) mod 10 < 10" by simp
  moreover have "k \<le> 1844674407370955161" using assms by simp
  ultimately show ?thesis by simp
qed

lemma unat_imei2: "unat (v div 10 + 1 :: u64) = unat v div 10 + 1"
proof -
  have "unat v < 2 ^ 64"
    using unsigned_less[of v, where ?'a = nat] by simp
  then show ?thesis
    by (subst unat_add_lem[THEN iffD1]) (simp_all add: unat_div)
qed

lemma increment_number:
  "(case checked_mul (v div 10 + 1) 10 of None \<Rightarrow> []
    | Some w \<Rightarrow> decimal (unat (w + luhn_checksum (v div 10 + 1))))
   = (let base = 10 * (unat v div 10 + 1) in
      if 2 ^ 64 \<le> base then [] else decimal (LEAST m. base \<le> m \<and> luhn_valid m))"
proof -
  define k where "k = unat v div 10 + 1"
  define x where "x = v div 10 + 1"
  have k: "unat x = k" by (simp add: unat_imei2 k_def x_def)
  show ?thesis
    unfolding Let_def k_def[symmetric] x_def[symmetric]
  proof (cases "10 * k < 2 ^ 64")
    case True
    then have w: "unat (x * 10) = 10 * k"
      using unat_mult_lem[of x 10] k by simp
    have "unat (x * 10 + luhn_checksum x) = 10 * k + (10 - luhn_sum True k mod 10) mod 10"
      using checksum_no_overflow[OF True] w k
      by (subst unat_add_lem[THEN iffD1]) (simp_all add: luhn_checksum_eq)
    with True k show "(case checked_mul x 10 of None \<Rightarrow> []
        | Some w \<Rightarrow> decimal (unat (w + luhn_checksum x)))
      = (if 2 ^ 64 \<le> 10 * k then [] else decimal (LEAST m. 10 * k \<le> m \<and> luhn_valid m))"
      by (simp add: checked_mul_def Least_luhn_valid)
  next
    case False
    with k show "(case checked_mul x 10 of None \<Rightarrow> []
        | Some w \<Rightarrow> decimal (unat (w + luhn_checksum x)))
      = (if 2 ^ 64 \<le> 10 * k then [] else decimal (LEAST m. 10 * k \<le> m \<and> luhn_valid m))"
      by (simp add: checked_mul_def)
  qed
qed

section \<open>Parsing what was printed\<close>

lemma decimal_not_Nil [simp]: "decimal n \<noteq> []"
  by (subst decimal.simps) simp

lemma parse_digits_append:
  "parse_digits a (xs @ ys) = Option.bind (parse_digits a xs) (\<lambda>b. parse_digits b ys)"
  by (induction xs arbitrary: a) (simp_all add: checked_mul_def checked_add_def)

lemma digit_byte:
  assumes "d < 10"
  shows "48 \<le> (48 + of_nat d :: u8)" "48 + of_nat d \<le> (57 :: u8)"
    "ucast (48 + of_nat d - 48 :: u8) = (of_nat d :: u64)" "unat (of_nat d :: u64) = d"
    "(48 + of_nat d :: u8) \<noteq> 43"
  using assms by (elim digit_cases; simp)+

lemma parse_digit:
  assumes "d < 10"
  shows "parse_digits a [48 + of_nat d] =
           (if 10 * unat a + d < 2 ^ 64 then Some (of_nat (10 * unat a + d)) else None)"
proof -
  note b = digit_byte[OF assms]
  show ?thesis
  proof (cases "10 * unat a < 2 ^ 64")
    case True
    then have m: "unat (a * 10) = 10 * unat a"
      using unat_mult_lem[of a 10] by (simp add: mult.commute)
    with True b show ?thesis
      by (simp add: checked_mul_def checked_add_def mult.commute)
  next
    case False
    with b show ?thesis
      by (simp add: checked_mul_def mult.commute)
  qed
qed

lemma parse_decimal:
  "parse_digits 0 (decimal n) = (if n < 2 ^ 64 then Some (of_nat n) else None)"
proof (induction n rule: decimal.induct)
  case (1 n)
  show ?case
  proof (cases "n < 10")
    case True
    then show ?thesis
      using parse_digit[of n 0] by (simp add: decimal.simps)
  next
    case False
    have IH: "parse_digits 0 (decimal (n div 10))
        = (if n div 10 < 2 ^ 64 then Some (of_nat (n div 10)) else None)"
      using 1 False by simp
    have "unat (of_nat (n div 10) :: u64) = n div 10" if "n div 10 < 2 ^ 64"
      using that by (simp add: unsigned_of_nat take_bit_nat_eq_self)
    then show ?thesis
      using False IH parse_digit[of "n mod 10" "of_nat (n div 10)"]
      by (subst decimal.simps) (auto simp: parse_digits_append)
  qed
qed

lemma hd_decimal_not_plus: "hd (decimal n) \<noteq> 43"
proof (induction n rule: decimal.induct)
  case (1 n)
  then show ?case
    using digit_byte(5)[of n] by (subst decimal.simps) auto
qed


end
