(* ===== verification/Keystore_Params.thy ===== *)
theory Keystore_Params
  imports Tag_Legacy
begin

text \<open>
  Keystore's own key parameters, \<^verbatim>\<open>src/src/keymaster/key_parameter.rs\<close>, and the error type of
  the Keystore daemon, \<^verbatim>\<open>src/src/keymaster/error.rs\<close>.  An AIDL enum is a newtype over
  \<open>i32\<close> and may hold any value; a 32-bit integer is read with \<^const>\<open>sint\<close>.  The macros of
  the source expand the list of variants, each with its tag and its field of the AIDL union,
  to the functions below; a match on an AIDL tag is a match on the tag with that number.
\<close>

section \<open>Errors of the daemon\<close>

type_synonym i32 = "32 word"

datatype ResponseCode =
    ResponseCode_LOCKED
  | ResponseCode_UNINITIALIZED
  | ResponseCode_SYSTEM_ERROR
  | ResponseCode_PERMISSION_DENIED
  | ResponseCode_KEY_NOT_FOUND
  | ResponseCode_VALUE_CORRUPTED
  | ResponseCode_KEY_PERMANENTLY_INVALIDATED
  | ResponseCode_BACKEND_BUSY
  | ResponseCode_OPERATION_BUSY
  | ResponseCode_INVALID_ARGUMENT
  | ResponseCode_TOO_MUCH_DATA
  | ResponseCode_OUT_OF_KEYS
  | ResponseCode_OUT_OF_KEYS_REQUIRES_SYSTEM_UPGRADE
  | ResponseCode_OUT_OF_KEYS_PENDING_INTERNET_CONNECTIVITY
  | ResponseCode_OUT_OF_KEYS_TRANSIENT_ERROR
  | ResponseCode_OUT_OF_KEYS_PERMANENT_ERROR
  | ResponseCode_GET_ATTESTATION_APPLICATION_ID_FAILED
  | ResponseCode_INFO_NOT_AVAILABLE
  | ResponseCode_TOO_MANY_APP_KEYS
  | ResponseCode_TOO_MANY_APP_KEYS_SDK37

datatype KsError =
    KsError_Rc ResponseCode
  | KsError_Km ErrorCode
  | KsError_Binder int int
  | KsError_BinderTransaction int

definition KsError_sys :: KsError where
  "KsError_sys = KsError_Rc ResponseCode_SYSTEM_ERROR"

definition KsError_perm :: KsError where
  "KsError_perm = KsError_Rc ResponseCode_PERMISSION_DENIED"

abbreviation ks_km :: "ErrorCode \<Rightarrow> KsError + 'a" where
  "ks_km code \<equiv> Inl (KsError_Km code)"

section \<open>Primitives\<close>

datatype Primitive = Primitive_I64 i64 | Primitive_I32 i32 | Primitive_Vec bytes

datatype PrimitiveError = PrimitiveError_TypeMismatch | PrimitiveError_UnknownTag

definition i64_try_from :: "Primitive \<Rightarrow> PrimitiveError + i64" where
  "i64_try_from p = (case p of Primitive_I64 v \<Rightarrow> Inr v | _ \<Rightarrow> Inl PrimitiveError_TypeMismatch)"

definition i32_try_from :: "Primitive \<Rightarrow> PrimitiveError + i32" where
  "i32_try_from p = (case p of Primitive_I32 v \<Rightarrow> Inr v | _ \<Rightarrow> Inl PrimitiveError_TypeMismatch)"

definition vec_try_from :: "Primitive \<Rightarrow> PrimitiveError + bytes" where
  "vec_try_from p = (case p of Primitive_Vec v \<Rightarrow> Inr v | _ \<Rightarrow> Inl PrimitiveError_TypeMismatch)"

text \<open>
  A cell of an SQLite row.  An integer is read as an \<open>i32\<close> only if it is in range.
\<close>

datatype SqlValue = SqlValue_Null | SqlValue_Integer i64 | SqlValue_Blob bytes

definition sql_get_i64 :: "SqlValue \<Rightarrow> KsError + i64" where
  "sql_get_i64 c = (case c of SqlValue_Integer v \<Rightarrow> Inr v
     | _ \<Rightarrow> Inl (KsError_Rc ResponseCode_VALUE_CORRUPTED))"

definition sql_get_i32 :: "SqlValue \<Rightarrow> KsError + i32" where
  "sql_get_i32 c = (case c of
       SqlValue_Integer v \<Rightarrow>
         if fits_i32 (sint v) then Inr (of_int (sint v))
         else Inl (KsError_Rc ResponseCode_VALUE_CORRUPTED)
     | _ \<Rightarrow> Inl (KsError_Rc ResponseCode_VALUE_CORRUPTED))"

definition sql_get_vec :: "SqlValue \<Rightarrow> KsError + bytes" where
  "sql_get_vec c = (case c of SqlValue_Blob v \<Rightarrow> Inr v
     | _ \<Rightarrow> Inl (KsError_Rc ResponseCode_VALUE_CORRUPTED))"

definition sql_of_i32 :: "i32 \<Rightarrow> SqlValue" where
  "sql_of_i32 v = SqlValue_Integer (of_int (sint v))"

section \<open>The parameters\<close>

datatype (plugins only: code size) KeyParameterValue =
    KeyParameterValue_Invalid
  | KeyParameterValue_KeyPurpose i32
  | KeyParameterValue_Algorithm i32
  | KeyParameterValue_KeySize i32
  | KeyParameterValue_BlockMode i32
  | KeyParameterValue_Digest i32
  | KeyParameterValue_RsaOaepMgfDigest i32
  | KeyParameterValue_PaddingMode i32
  | KeyParameterValue_CallerNonce
  | KeyParameterValue_MinMacLength i32
  | KeyParameterValue_EcCurve i32
  | KeyParameterValue_MlDsaVariant i32
  | KeyParameterValue_RSAPublicExponent i64
  | KeyParameterValue_IncludeUniqueID
  | KeyParameterValue_BootLoaderOnly
  | KeyParameterValue_RollbackResistance
  | KeyParameterValue_EarlyBootOnly
  | KeyParameterValue_ActiveDateTime i64
  | KeyParameterValue_OriginationExpireDateTime i64
  | KeyParameterValue_UsageExpireDateTime i64
  | KeyParameterValue_MinSecondsBetweenOps i32
  | KeyParameterValue_MaxUsesPerBoot i32
  | KeyParameterValue_UsageCountLimit i32
  | KeyParameterValue_UserID i32
  | KeyParameterValue_UserSecureID i64
  | KeyParameterValue_NoAuthRequired
  | KeyParameterValue_HardwareAuthenticatorType i32
  | KeyParameterValue_AuthTimeout i32
  | KeyParameterValue_AllowWhileOnBody
  | KeyParameterValue_TrustedUserPresenceRequired
  | KeyParameterValue_TrustedConfirmationRequired
  | KeyParameterValue_UnlockedDeviceRequired
  | KeyParameterValue_ApplicationID bytes
  | KeyParameterValue_ApplicationData bytes
  | KeyParameterValue_CreationDateTime i64
  | KeyParameterValue_KeyOrigin i32
  | KeyParameterValue_RootOfTrust bytes
  | KeyParameterValue_OSVersion i32
  | KeyParameterValue_OSPatchLevel i32
  | KeyParameterValue_UniqueID bytes
  | KeyParameterValue_AttestationChallenge bytes
  | KeyParameterValue_AttestationApplicationID bytes
  | KeyParameterValue_AttestationIdBrand bytes
  | KeyParameterValue_AttestationIdDevice bytes
  | KeyParameterValue_AttestationIdProduct bytes
  | KeyParameterValue_AttestationIdSerial bytes
  | KeyParameterValue_AttestationIdIMEI bytes
  | KeyParameterValue_AttestationIdSecondIMEI bytes
  | KeyParameterValue_AttestationIdMEID bytes
  | KeyParameterValue_AttestationIdManufacturer bytes
  | KeyParameterValue_AttestationIdModel bytes
  | KeyParameterValue_VendorPatchLevel i32
  | KeyParameterValue_BootPatchLevel i32
  | KeyParameterValue_AssociatedData bytes
  | KeyParameterValue_Nonce bytes
  | KeyParameterValue_MacLength i32
  | KeyParameterValue_ResetSinceIdRotation
  | KeyParameterValue_ConfirmationToken bytes
  | KeyParameterValue_CertificateSerial bytes
  | KeyParameterValue_CertificateSubject bytes
  | KeyParameterValue_CertificateNotBefore i64
  | KeyParameterValue_CertificateNotAfter i64
  | KeyParameterValue_MaxBootLevel i32

record KeyParameter =
  kp_value :: KeyParameterValue
  kp_security_level :: SecurityLevel

text \<open>The union of the AIDL interface.\<close>

datatype KmKeyParameterValue =
    Km_Invalid i32
  | Km_Algorithm i32
  | Km_BlockMode i32
  | Km_PaddingMode i32
  | Km_Digest i32
  | Km_EcCurve i32
  | Km_Origin i32
  | Km_KeyPurpose i32
  | Km_HardwareAuthenticatorType i32
  | Km_SecurityLevel i32
  | Km_BoolValue bool
  | Km_Integer i32
  | Km_LongInteger i64
  | Km_DateTime i64
  | Km_Blob bytes
  | Km_MlDsaVariant i32

record KmKeyParameter =
  km_tag :: i32
  km_value :: KmKeyParameterValue

primrec get_tag :: "KeyParameterValue \<Rightarrow> Tag" where
  "get_tag KeyParameterValue_Invalid = Tag_Invalid"
| "get_tag (KeyParameterValue_KeyPurpose _) = Tag_Purpose"
| "get_tag (KeyParameterValue_Algorithm _) = Tag_Algorithm"
| "get_tag (KeyParameterValue_KeySize _) = Tag_KeySize"
| "get_tag (KeyParameterValue_BlockMode _) = Tag_BlockMode"
| "get_tag (KeyParameterValue_Digest _) = Tag_Digest"
| "get_tag (KeyParameterValue_RsaOaepMgfDigest _) = Tag_RsaOaepMgfDigest"
| "get_tag (KeyParameterValue_PaddingMode _) = Tag_Padding"
| "get_tag KeyParameterValue_CallerNonce = Tag_CallerNonce"
| "get_tag (KeyParameterValue_MinMacLength _) = Tag_MinMacLength"
| "get_tag (KeyParameterValue_EcCurve _) = Tag_EcCurve"
| "get_tag (KeyParameterValue_MlDsaVariant _) = Tag_MlDsaVariant"
| "get_tag (KeyParameterValue_RSAPublicExponent _) = Tag_RsaPublicExponent"
| "get_tag KeyParameterValue_IncludeUniqueID = Tag_IncludeUniqueId"
| "get_tag KeyParameterValue_BootLoaderOnly = Tag_BootloaderOnly"
| "get_tag KeyParameterValue_RollbackResistance = Tag_RollbackResistance"
| "get_tag KeyParameterValue_EarlyBootOnly = Tag_EarlyBootOnly"
| "get_tag (KeyParameterValue_ActiveDateTime _) = Tag_ActiveDatetime"
| "get_tag (KeyParameterValue_OriginationExpireDateTime _) = Tag_OriginationExpireDatetime"
| "get_tag (KeyParameterValue_UsageExpireDateTime _) = Tag_UsageExpireDatetime"
| "get_tag (KeyParameterValue_MinSecondsBetweenOps _) = Tag_MinSecondsBetweenOps"
| "get_tag (KeyParameterValue_MaxUsesPerBoot _) = Tag_MaxUsesPerBoot"
| "get_tag (KeyParameterValue_UsageCountLimit _) = Tag_UsageCountLimit"
| "get_tag (KeyParameterValue_UserID _) = Tag_UserId"
| "get_tag (KeyParameterValue_UserSecureID _) = Tag_UserSecureId"
| "get_tag KeyParameterValue_NoAuthRequired = Tag_NoAuthRequired"
| "get_tag (KeyParameterValue_HardwareAuthenticatorType _) = Tag_UserAuthType"
| "get_tag (KeyParameterValue_AuthTimeout _) = Tag_AuthTimeout"
| "get_tag KeyParameterValue_AllowWhileOnBody = Tag_AllowWhileOnBody"
| "get_tag KeyParameterValue_TrustedUserPresenceRequired = Tag_TrustedUserPresenceRequired"
| "get_tag KeyParameterValue_TrustedConfirmationRequired = Tag_TrustedConfirmationRequired"
| "get_tag KeyParameterValue_UnlockedDeviceRequired = Tag_UnlockedDeviceRequired"
| "get_tag (KeyParameterValue_ApplicationID _) = Tag_ApplicationId"
| "get_tag (KeyParameterValue_ApplicationData _) = Tag_ApplicationData"
| "get_tag (KeyParameterValue_CreationDateTime _) = Tag_CreationDatetime"
| "get_tag (KeyParameterValue_KeyOrigin _) = Tag_Origin"
| "get_tag (KeyParameterValue_RootOfTrust _) = Tag_RootOfTrust"
| "get_tag (KeyParameterValue_OSVersion _) = Tag_OsVersion"
| "get_tag (KeyParameterValue_OSPatchLevel _) = Tag_OsPatchlevel"
| "get_tag (KeyParameterValue_UniqueID _) = Tag_UniqueId"
| "get_tag (KeyParameterValue_AttestationChallenge _) = Tag_AttestationChallenge"
| "get_tag (KeyParameterValue_AttestationApplicationID _) = Tag_AttestationApplicationId"
| "get_tag (KeyParameterValue_AttestationIdBrand _) = Tag_AttestationIdBrand"
| "get_tag (KeyParameterValue_AttestationIdDevice _) = Tag_AttestationIdDevice"
| "get_tag (KeyParameterValue_AttestationIdProduct _) = Tag_AttestationIdProduct"
| "get_tag (KeyParameterValue_AttestationIdSerial _) = Tag_AttestationIdSerial"
| "get_tag (KeyParameterValue_AttestationIdIMEI _) = Tag_AttestationIdImei"
| "get_tag (KeyParameterValue_AttestationIdSecondIMEI _) = Tag_AttestationIdSecondImei"
| "get_tag (KeyParameterValue_AttestationIdMEID _) = Tag_AttestationIdMeid"
| "get_tag (KeyParameterValue_AttestationIdManufacturer _) = Tag_AttestationIdManufacturer"
| "get_tag (KeyParameterValue_AttestationIdModel _) = Tag_AttestationIdModel"
| "get_tag (KeyParameterValue_VendorPatchLevel _) = Tag_VendorPatchlevel"
| "get_tag (KeyParameterValue_BootPatchLevel _) = Tag_BootPatchlevel"
| "get_tag (KeyParameterValue_AssociatedData _) = Tag_AssociatedData"
| "get_tag (KeyParameterValue_Nonce _) = Tag_Nonce"
| "get_tag (KeyParameterValue_MacLength _) = Tag_MacLength"
| "get_tag KeyParameterValue_ResetSinceIdRotation = Tag_ResetSinceIdRotation"
| "get_tag (KeyParameterValue_ConfirmationToken _) = Tag_ConfirmationToken"
| "get_tag (KeyParameterValue_CertificateSerial _) = Tag_CertificateSerial"
| "get_tag (KeyParameterValue_CertificateSubject _) = Tag_CertificateSubject"
| "get_tag (KeyParameterValue_CertificateNotBefore _) = Tag_CertificateNotBefore"
| "get_tag (KeyParameterValue_CertificateNotAfter _) = Tag_CertificateNotAfter"
| "get_tag (KeyParameterValue_MaxBootLevel _) = Tag_MaxBootLevel"

primrec to_sql :: "KeyParameterValue \<Rightarrow> SqlValue" where
  "to_sql KeyParameterValue_Invalid = SqlValue_Null"
| "to_sql (KeyParameterValue_KeyPurpose v) = sql_of_i32 v"
| "to_sql (KeyParameterValue_Algorithm v) = sql_of_i32 v"
| "to_sql (KeyParameterValue_KeySize v) = sql_of_i32 v"
| "to_sql (KeyParameterValue_BlockMode v) = sql_of_i32 v"
| "to_sql (KeyParameterValue_Digest v) = sql_of_i32 v"
| "to_sql (KeyParameterValue_RsaOaepMgfDigest v) = sql_of_i32 v"
| "to_sql (KeyParameterValue_PaddingMode v) = sql_of_i32 v"
| "to_sql KeyParameterValue_CallerNonce = SqlValue_Null"
| "to_sql (KeyParameterValue_MinMacLength v) = sql_of_i32 v"
| "to_sql (KeyParameterValue_EcCurve v) = sql_of_i32 v"
| "to_sql (KeyParameterValue_MlDsaVariant v) = sql_of_i32 v"
| "to_sql (KeyParameterValue_RSAPublicExponent v) = SqlValue_Integer v"
| "to_sql KeyParameterValue_IncludeUniqueID = SqlValue_Null"
| "to_sql KeyParameterValue_BootLoaderOnly = SqlValue_Null"
| "to_sql KeyParameterValue_RollbackResistance = SqlValue_Null"
| "to_sql KeyParameterValue_EarlyBootOnly = SqlValue_Null"
| "to_sql (KeyParameterValue_ActiveDateTime v) = SqlValue_Integer v"
| "to_sql (KeyParameterValue_OriginationExpireDateTime v) = SqlValue_Integer v"
| "to_sql (KeyParameterValue_UsageExpireDateTime v) = SqlValue_Integer v"
| "to_sql (KeyParameterValue_MinSecondsBetweenOps v) = sql_of_i32 v"
| "to_sql (KeyParameterValue_MaxUsesPerBoot v) = sql_of_i32 v"
| "to_sql (KeyParameterValue_UsageCountLimit v) = sql_of_i32 v"
| "to_sql (KeyParameterValue_UserID v) = sql_of_i32 v"
| "to_sql (KeyParameterValue_UserSecureID v) = SqlValue_Integer v"
| "to_sql KeyParameterValue_NoAuthRequired = SqlValue_Null"
| "to_sql (KeyParameterValue_HardwareAuthenticatorType v) = sql_of_i32 v"
| "to_sql (KeyParameterValue_AuthTimeout v) = sql_of_i32 v"
| "to_sql KeyParameterValue_AllowWhileOnBody = SqlValue_Null"
| "to_sql KeyParameterValue_TrustedUserPresenceRequired = SqlValue_Null"
| "to_sql KeyParameterValue_TrustedConfirmationRequired = SqlValue_Null"
| "to_sql KeyParameterValue_UnlockedDeviceRequired = SqlValue_Null"
| "to_sql (KeyParameterValue_ApplicationID v) = SqlValue_Blob v"
| "to_sql (KeyParameterValue_ApplicationData v) = SqlValue_Blob v"
| "to_sql (KeyParameterValue_CreationDateTime v) = SqlValue_Integer v"
| "to_sql (KeyParameterValue_KeyOrigin v) = sql_of_i32 v"
| "to_sql (KeyParameterValue_RootOfTrust v) = SqlValue_Blob v"
| "to_sql (KeyParameterValue_OSVersion v) = sql_of_i32 v"
| "to_sql (KeyParameterValue_OSPatchLevel v) = sql_of_i32 v"
| "to_sql (KeyParameterValue_UniqueID v) = SqlValue_Blob v"
| "to_sql (KeyParameterValue_AttestationChallenge v) = SqlValue_Blob v"
| "to_sql (KeyParameterValue_AttestationApplicationID v) = SqlValue_Blob v"
| "to_sql (KeyParameterValue_AttestationIdBrand v) = SqlValue_Blob v"
| "to_sql (KeyParameterValue_AttestationIdDevice v) = SqlValue_Blob v"
| "to_sql (KeyParameterValue_AttestationIdProduct v) = SqlValue_Blob v"
| "to_sql (KeyParameterValue_AttestationIdSerial v) = SqlValue_Blob v"
| "to_sql (KeyParameterValue_AttestationIdIMEI v) = SqlValue_Blob v"
| "to_sql (KeyParameterValue_AttestationIdSecondIMEI v) = SqlValue_Blob v"
| "to_sql (KeyParameterValue_AttestationIdMEID v) = SqlValue_Blob v"
| "to_sql (KeyParameterValue_AttestationIdManufacturer v) = SqlValue_Blob v"
| "to_sql (KeyParameterValue_AttestationIdModel v) = SqlValue_Blob v"
| "to_sql (KeyParameterValue_VendorPatchLevel v) = sql_of_i32 v"
| "to_sql (KeyParameterValue_BootPatchLevel v) = sql_of_i32 v"
| "to_sql (KeyParameterValue_AssociatedData v) = SqlValue_Blob v"
| "to_sql (KeyParameterValue_Nonce v) = SqlValue_Blob v"
| "to_sql (KeyParameterValue_MacLength v) = sql_of_i32 v"
| "to_sql KeyParameterValue_ResetSinceIdRotation = SqlValue_Null"
| "to_sql (KeyParameterValue_ConfirmationToken v) = SqlValue_Blob v"
| "to_sql (KeyParameterValue_CertificateSerial v) = SqlValue_Blob v"
| "to_sql (KeyParameterValue_CertificateSubject v) = SqlValue_Blob v"
| "to_sql (KeyParameterValue_CertificateNotBefore v) = SqlValue_Integer v"
| "to_sql (KeyParameterValue_CertificateNotAfter v) = SqlValue_Integer v"
| "to_sql (KeyParameterValue_MaxBootLevel v) = sql_of_i32 v"

primrec new_from_sql_tag :: "Tag \<Rightarrow> SqlValue \<Rightarrow> KsError + KeyParameterValue" where
  "new_from_sql_tag Tag_Invalid data = Inr KeyParameterValue_Invalid"
| "new_from_sql_tag Tag_Purpose data = map_ok KeyParameterValue_KeyPurpose (sql_get_i32 data)"
| "new_from_sql_tag Tag_Algorithm data = map_ok KeyParameterValue_Algorithm (sql_get_i32 data)"
| "new_from_sql_tag Tag_KeySize data = map_ok KeyParameterValue_KeySize (sql_get_i32 data)"
| "new_from_sql_tag Tag_BlockMode data = map_ok KeyParameterValue_BlockMode (sql_get_i32 data)"
| "new_from_sql_tag Tag_Digest data = map_ok KeyParameterValue_Digest (sql_get_i32 data)"
| "new_from_sql_tag Tag_Padding data = map_ok KeyParameterValue_PaddingMode (sql_get_i32 data)"
| "new_from_sql_tag Tag_CallerNonce data = Inr KeyParameterValue_CallerNonce"
| "new_from_sql_tag Tag_MinMacLength data = map_ok KeyParameterValue_MinMacLength (sql_get_i32 data)"
| "new_from_sql_tag Tag_EcCurve data = map_ok KeyParameterValue_EcCurve (sql_get_i32 data)"
| "new_from_sql_tag Tag_MlDsaVariant data = map_ok KeyParameterValue_MlDsaVariant (sql_get_i32 data)"
| "new_from_sql_tag Tag_RsaPublicExponent data = map_ok KeyParameterValue_RSAPublicExponent (sql_get_i64 data)"
| "new_from_sql_tag Tag_IncludeUniqueId data = Inr KeyParameterValue_IncludeUniqueID"
| "new_from_sql_tag Tag_RsaOaepMgfDigest data = map_ok KeyParameterValue_RsaOaepMgfDigest (sql_get_i32 data)"
| "new_from_sql_tag Tag_BootloaderOnly data = Inr KeyParameterValue_BootLoaderOnly"
| "new_from_sql_tag Tag_RollbackResistance data = Inr KeyParameterValue_RollbackResistance"
| "new_from_sql_tag Tag_HardwareType data = Inr KeyParameterValue_Invalid"
| "new_from_sql_tag Tag_EarlyBootOnly data = Inr KeyParameterValue_EarlyBootOnly"
| "new_from_sql_tag Tag_ActiveDatetime data = map_ok KeyParameterValue_ActiveDateTime (sql_get_i64 data)"
| "new_from_sql_tag Tag_OriginationExpireDatetime data = map_ok KeyParameterValue_OriginationExpireDateTime (sql_get_i64 data)"
| "new_from_sql_tag Tag_UsageExpireDatetime data = map_ok KeyParameterValue_UsageExpireDateTime (sql_get_i64 data)"
| "new_from_sql_tag Tag_MinSecondsBetweenOps data = map_ok KeyParameterValue_MinSecondsBetweenOps (sql_get_i32 data)"
| "new_from_sql_tag Tag_MaxUsesPerBoot data = map_ok KeyParameterValue_MaxUsesPerBoot (sql_get_i32 data)"
| "new_from_sql_tag Tag_UsageCountLimit data = map_ok KeyParameterValue_UsageCountLimit (sql_get_i32 data)"
| "new_from_sql_tag Tag_UserId data = map_ok KeyParameterValue_UserID (sql_get_i32 data)"
| "new_from_sql_tag Tag_UserSecureId data = map_ok KeyParameterValue_UserSecureID (sql_get_i64 data)"
| "new_from_sql_tag Tag_NoAuthRequired data = Inr KeyParameterValue_NoAuthRequired"
| "new_from_sql_tag Tag_UserAuthType data = map_ok KeyParameterValue_HardwareAuthenticatorType (sql_get_i32 data)"
| "new_from_sql_tag Tag_AuthTimeout data = map_ok KeyParameterValue_AuthTimeout (sql_get_i32 data)"
| "new_from_sql_tag Tag_AllowWhileOnBody data = Inr KeyParameterValue_AllowWhileOnBody"
| "new_from_sql_tag Tag_TrustedUserPresenceRequired data = Inr KeyParameterValue_TrustedUserPresenceRequired"
| "new_from_sql_tag Tag_TrustedConfirmationRequired data = Inr KeyParameterValue_TrustedConfirmationRequired"
| "new_from_sql_tag Tag_UnlockedDeviceRequired data = Inr KeyParameterValue_UnlockedDeviceRequired"
| "new_from_sql_tag Tag_ApplicationId data = map_ok KeyParameterValue_ApplicationID (sql_get_vec data)"
| "new_from_sql_tag Tag_ApplicationData data = map_ok KeyParameterValue_ApplicationData (sql_get_vec data)"
| "new_from_sql_tag Tag_CreationDatetime data = map_ok KeyParameterValue_CreationDateTime (sql_get_i64 data)"
| "new_from_sql_tag Tag_Origin data = map_ok KeyParameterValue_KeyOrigin (sql_get_i32 data)"
| "new_from_sql_tag Tag_RootOfTrust data = map_ok KeyParameterValue_RootOfTrust (sql_get_vec data)"
| "new_from_sql_tag Tag_OsVersion data = map_ok KeyParameterValue_OSVersion (sql_get_i32 data)"
| "new_from_sql_tag Tag_OsPatchlevel data = map_ok KeyParameterValue_OSPatchLevel (sql_get_i32 data)"
| "new_from_sql_tag Tag_UniqueId data = map_ok KeyParameterValue_UniqueID (sql_get_vec data)"
| "new_from_sql_tag Tag_AttestationChallenge data = map_ok KeyParameterValue_AttestationChallenge (sql_get_vec data)"
| "new_from_sql_tag Tag_AttestationApplicationId data = map_ok KeyParameterValue_AttestationApplicationID (sql_get_vec data)"
| "new_from_sql_tag Tag_AttestationIdBrand data = map_ok KeyParameterValue_AttestationIdBrand (sql_get_vec data)"
| "new_from_sql_tag Tag_AttestationIdDevice data = map_ok KeyParameterValue_AttestationIdDevice (sql_get_vec data)"
| "new_from_sql_tag Tag_AttestationIdProduct data = map_ok KeyParameterValue_AttestationIdProduct (sql_get_vec data)"
| "new_from_sql_tag Tag_AttestationIdSerial data = map_ok KeyParameterValue_AttestationIdSerial (sql_get_vec data)"
| "new_from_sql_tag Tag_AttestationIdImei data = map_ok KeyParameterValue_AttestationIdIMEI (sql_get_vec data)"
| "new_from_sql_tag Tag_AttestationIdMeid data = map_ok KeyParameterValue_AttestationIdMEID (sql_get_vec data)"
| "new_from_sql_tag Tag_AttestationIdManufacturer data = map_ok KeyParameterValue_AttestationIdManufacturer (sql_get_vec data)"
| "new_from_sql_tag Tag_AttestationIdModel data = map_ok KeyParameterValue_AttestationIdModel (sql_get_vec data)"
| "new_from_sql_tag Tag_VendorPatchlevel data = map_ok KeyParameterValue_VendorPatchLevel (sql_get_i32 data)"
| "new_from_sql_tag Tag_BootPatchlevel data = map_ok KeyParameterValue_BootPatchLevel (sql_get_i32 data)"
| "new_from_sql_tag Tag_DeviceUniqueAttestation data = Inr KeyParameterValue_Invalid"
| "new_from_sql_tag Tag_IdentityCredentialKey data = Inr KeyParameterValue_Invalid"
| "new_from_sql_tag Tag_StorageKey data = Inr KeyParameterValue_Invalid"
| "new_from_sql_tag Tag_AttestationIdSecondImei data = map_ok KeyParameterValue_AttestationIdSecondIMEI (sql_get_vec data)"
| "new_from_sql_tag Tag_AssociatedData data = map_ok KeyParameterValue_AssociatedData (sql_get_vec data)"
| "new_from_sql_tag Tag_Nonce data = map_ok KeyParameterValue_Nonce (sql_get_vec data)"
| "new_from_sql_tag Tag_MacLength data = map_ok KeyParameterValue_MacLength (sql_get_i32 data)"
| "new_from_sql_tag Tag_ResetSinceIdRotation data = Inr KeyParameterValue_ResetSinceIdRotation"
| "new_from_sql_tag Tag_ConfirmationToken data = map_ok KeyParameterValue_ConfirmationToken (sql_get_vec data)"
| "new_from_sql_tag Tag_CertificateSerial data = map_ok KeyParameterValue_CertificateSerial (sql_get_vec data)"
| "new_from_sql_tag Tag_CertificateSubject data = map_ok KeyParameterValue_CertificateSubject (sql_get_vec data)"
| "new_from_sql_tag Tag_CertificateNotBefore data = map_ok KeyParameterValue_CertificateNotBefore (sql_get_i64 data)"
| "new_from_sql_tag Tag_CertificateNotAfter data = map_ok KeyParameterValue_CertificateNotAfter (sql_get_i64 data)"
| "new_from_sql_tag Tag_MaxBootLevel data = map_ok KeyParameterValue_MaxBootLevel (sql_get_i32 data)"
| "new_from_sql_tag Tag_ModuleHash data = Inr KeyParameterValue_Invalid"

definition new_from_sql :: "i32 \<Rightarrow> SqlValue \<Rightarrow> KsError + KeyParameterValue" where
  "new_from_sql tag data = (case Tag_n (sint tag) of
     Some t \<Rightarrow> new_from_sql_tag t data
   | None \<Rightarrow> Inr KeyParameterValue_Invalid)"

primrec from_tag_primitive :: "Tag \<Rightarrow> Primitive \<Rightarrow> PrimitiveError + KeyParameterValue" where
  "from_tag_primitive Tag_Invalid p = Inr KeyParameterValue_Invalid"
| "from_tag_primitive Tag_Purpose p = map_ok KeyParameterValue_KeyPurpose (i32_try_from p)"
| "from_tag_primitive Tag_Algorithm p = map_ok KeyParameterValue_Algorithm (i32_try_from p)"
| "from_tag_primitive Tag_KeySize p = map_ok KeyParameterValue_KeySize (i32_try_from p)"
| "from_tag_primitive Tag_BlockMode p = map_ok KeyParameterValue_BlockMode (i32_try_from p)"
| "from_tag_primitive Tag_Digest p = map_ok KeyParameterValue_Digest (i32_try_from p)"
| "from_tag_primitive Tag_Padding p = map_ok KeyParameterValue_PaddingMode (i32_try_from p)"
| "from_tag_primitive Tag_CallerNonce p = Inr KeyParameterValue_CallerNonce"
| "from_tag_primitive Tag_MinMacLength p = map_ok KeyParameterValue_MinMacLength (i32_try_from p)"
| "from_tag_primitive Tag_EcCurve p = map_ok KeyParameterValue_EcCurve (i32_try_from p)"
| "from_tag_primitive Tag_MlDsaVariant p = map_ok KeyParameterValue_MlDsaVariant (i32_try_from p)"
| "from_tag_primitive Tag_RsaPublicExponent p = map_ok KeyParameterValue_RSAPublicExponent (i64_try_from p)"
| "from_tag_primitive Tag_IncludeUniqueId p = Inr KeyParameterValue_IncludeUniqueID"
| "from_tag_primitive Tag_RsaOaepMgfDigest p = map_ok KeyParameterValue_RsaOaepMgfDigest (i32_try_from p)"
| "from_tag_primitive Tag_BootloaderOnly p = Inr KeyParameterValue_BootLoaderOnly"
| "from_tag_primitive Tag_RollbackResistance p = Inr KeyParameterValue_RollbackResistance"
| "from_tag_primitive Tag_HardwareType p = Inl PrimitiveError_UnknownTag"
| "from_tag_primitive Tag_EarlyBootOnly p = Inr KeyParameterValue_EarlyBootOnly"
| "from_tag_primitive Tag_ActiveDatetime p = map_ok KeyParameterValue_ActiveDateTime (i64_try_from p)"
| "from_tag_primitive Tag_OriginationExpireDatetime p = map_ok KeyParameterValue_OriginationExpireDateTime (i64_try_from p)"
| "from_tag_primitive Tag_UsageExpireDatetime p = map_ok KeyParameterValue_UsageExpireDateTime (i64_try_from p)"
| "from_tag_primitive Tag_MinSecondsBetweenOps p = map_ok KeyParameterValue_MinSecondsBetweenOps (i32_try_from p)"
| "from_tag_primitive Tag_MaxUsesPerBoot p = map_ok KeyParameterValue_MaxUsesPerBoot (i32_try_from p)"
| "from_tag_primitive Tag_UsageCountLimit p = map_ok KeyParameterValue_UsageCountLimit (i32_try_from p)"
| "from_tag_primitive Tag_UserId p = map_ok KeyParameterValue_UserID (i32_try_from p)"
| "from_tag_primitive Tag_UserSecureId p = map_ok KeyParameterValue_UserSecureID (i64_try_from p)"
| "from_tag_primitive Tag_NoAuthRequired p = Inr KeyParameterValue_NoAuthRequired"
| "from_tag_primitive Tag_UserAuthType p = map_ok KeyParameterValue_HardwareAuthenticatorType (i32_try_from p)"
| "from_tag_primitive Tag_AuthTimeout p = map_ok KeyParameterValue_AuthTimeout (i32_try_from p)"
| "from_tag_primitive Tag_AllowWhileOnBody p = Inr KeyParameterValue_AllowWhileOnBody"
| "from_tag_primitive Tag_TrustedUserPresenceRequired p = Inr KeyParameterValue_TrustedUserPresenceRequired"
| "from_tag_primitive Tag_TrustedConfirmationRequired p = Inr KeyParameterValue_TrustedConfirmationRequired"
| "from_tag_primitive Tag_UnlockedDeviceRequired p = Inr KeyParameterValue_UnlockedDeviceRequired"
| "from_tag_primitive Tag_ApplicationId p = map_ok KeyParameterValue_ApplicationID (vec_try_from p)"
| "from_tag_primitive Tag_ApplicationData p = map_ok KeyParameterValue_ApplicationData (vec_try_from p)"
| "from_tag_primitive Tag_CreationDatetime p = map_ok KeyParameterValue_CreationDateTime (i64_try_from p)"
| "from_tag_primitive Tag_Origin p = map_ok KeyParameterValue_KeyOrigin (i32_try_from p)"
| "from_tag_primitive Tag_RootOfTrust p = map_ok KeyParameterValue_RootOfTrust (vec_try_from p)"
| "from_tag_primitive Tag_OsVersion p = map_ok KeyParameterValue_OSVersion (i32_try_from p)"
| "from_tag_primitive Tag_OsPatchlevel p = map_ok KeyParameterValue_OSPatchLevel (i32_try_from p)"
| "from_tag_primitive Tag_UniqueId p = map_ok KeyParameterValue_UniqueID (vec_try_from p)"
| "from_tag_primitive Tag_AttestationChallenge p = map_ok KeyParameterValue_AttestationChallenge (vec_try_from p)"
| "from_tag_primitive Tag_AttestationApplicationId p = map_ok KeyParameterValue_AttestationApplicationID (vec_try_from p)"
| "from_tag_primitive Tag_AttestationIdBrand p = map_ok KeyParameterValue_AttestationIdBrand (vec_try_from p)"
| "from_tag_primitive Tag_AttestationIdDevice p = map_ok KeyParameterValue_AttestationIdDevice (vec_try_from p)"
| "from_tag_primitive Tag_AttestationIdProduct p = map_ok KeyParameterValue_AttestationIdProduct (vec_try_from p)"
| "from_tag_primitive Tag_AttestationIdSerial p = map_ok KeyParameterValue_AttestationIdSerial (vec_try_from p)"
| "from_tag_primitive Tag_AttestationIdImei p = map_ok KeyParameterValue_AttestationIdIMEI (vec_try_from p)"
| "from_tag_primitive Tag_AttestationIdMeid p = map_ok KeyParameterValue_AttestationIdMEID (vec_try_from p)"
| "from_tag_primitive Tag_AttestationIdManufacturer p = map_ok KeyParameterValue_AttestationIdManufacturer (vec_try_from p)"
| "from_tag_primitive Tag_AttestationIdModel p = map_ok KeyParameterValue_AttestationIdModel (vec_try_from p)"
| "from_tag_primitive Tag_VendorPatchlevel p = map_ok KeyParameterValue_VendorPatchLevel (i32_try_from p)"
| "from_tag_primitive Tag_BootPatchlevel p = map_ok KeyParameterValue_BootPatchLevel (i32_try_from p)"
| "from_tag_primitive Tag_DeviceUniqueAttestation p = Inl PrimitiveError_UnknownTag"
| "from_tag_primitive Tag_IdentityCredentialKey p = Inl PrimitiveError_UnknownTag"
| "from_tag_primitive Tag_StorageKey p = Inl PrimitiveError_UnknownTag"
| "from_tag_primitive Tag_AttestationIdSecondImei p = map_ok KeyParameterValue_AttestationIdSecondIMEI (vec_try_from p)"
| "from_tag_primitive Tag_AssociatedData p = map_ok KeyParameterValue_AssociatedData (vec_try_from p)"
| "from_tag_primitive Tag_Nonce p = map_ok KeyParameterValue_Nonce (vec_try_from p)"
| "from_tag_primitive Tag_MacLength p = map_ok KeyParameterValue_MacLength (i32_try_from p)"
| "from_tag_primitive Tag_ResetSinceIdRotation p = Inr KeyParameterValue_ResetSinceIdRotation"
| "from_tag_primitive Tag_ConfirmationToken p = map_ok KeyParameterValue_ConfirmationToken (vec_try_from p)"
| "from_tag_primitive Tag_CertificateSerial p = map_ok KeyParameterValue_CertificateSerial (vec_try_from p)"
| "from_tag_primitive Tag_CertificateSubject p = map_ok KeyParameterValue_CertificateSubject (vec_try_from p)"
| "from_tag_primitive Tag_CertificateNotBefore p = map_ok KeyParameterValue_CertificateNotBefore (i64_try_from p)"
| "from_tag_primitive Tag_CertificateNotAfter p = map_ok KeyParameterValue_CertificateNotAfter (i64_try_from p)"
| "from_tag_primitive Tag_MaxBootLevel p = map_ok KeyParameterValue_MaxBootLevel (i32_try_from p)"
| "from_tag_primitive Tag_ModuleHash p = Inl PrimitiveError_UnknownTag"

definition new_from_tag_primitive_pair :: "i32 \<Rightarrow> Primitive \<Rightarrow> PrimitiveError + KeyParameterValue"
    where
  "new_from_tag_primitive_pair tag p = (case Tag_n (sint tag) of
     Some t \<Rightarrow> from_tag_primitive t p
   | None \<Rightarrow> Inl PrimitiveError_UnknownTag)"

primrec from_km_value :: "Tag \<Rightarrow> KmKeyParameterValue \<Rightarrow> KeyParameterValue" where
  "from_km_value Tag_Invalid v = KeyParameterValue_Invalid"
| "from_km_value Tag_Purpose v = (case v of Km_KeyPurpose x \<Rightarrow> KeyParameterValue_KeyPurpose x | _ \<Rightarrow> KeyParameterValue_Invalid)"
| "from_km_value Tag_Algorithm v = (case v of Km_Algorithm x \<Rightarrow> KeyParameterValue_Algorithm x | _ \<Rightarrow> KeyParameterValue_Invalid)"
| "from_km_value Tag_KeySize v = (case v of Km_Integer x \<Rightarrow> KeyParameterValue_KeySize x | _ \<Rightarrow> KeyParameterValue_Invalid)"
| "from_km_value Tag_BlockMode v = (case v of Km_BlockMode x \<Rightarrow> KeyParameterValue_BlockMode x | _ \<Rightarrow> KeyParameterValue_Invalid)"
| "from_km_value Tag_Digest v = (case v of Km_Digest x \<Rightarrow> KeyParameterValue_Digest x | _ \<Rightarrow> KeyParameterValue_Invalid)"
| "from_km_value Tag_Padding v = (case v of Km_PaddingMode x \<Rightarrow> KeyParameterValue_PaddingMode x | _ \<Rightarrow> KeyParameterValue_Invalid)"
| "from_km_value Tag_CallerNonce v = (case v of Km_BoolValue _ \<Rightarrow> KeyParameterValue_CallerNonce | _ \<Rightarrow> KeyParameterValue_Invalid)"
| "from_km_value Tag_MinMacLength v = (case v of Km_Integer x \<Rightarrow> KeyParameterValue_MinMacLength x | _ \<Rightarrow> KeyParameterValue_Invalid)"
| "from_km_value Tag_EcCurve v = (case v of Km_EcCurve x \<Rightarrow> KeyParameterValue_EcCurve x | _ \<Rightarrow> KeyParameterValue_Invalid)"
| "from_km_value Tag_MlDsaVariant v = (case v of Km_MlDsaVariant x \<Rightarrow> KeyParameterValue_MlDsaVariant x | _ \<Rightarrow> KeyParameterValue_Invalid)"
| "from_km_value Tag_RsaPublicExponent v = (case v of Km_LongInteger x \<Rightarrow> KeyParameterValue_RSAPublicExponent x | _ \<Rightarrow> KeyParameterValue_Invalid)"
| "from_km_value Tag_IncludeUniqueId v = (case v of Km_BoolValue _ \<Rightarrow> KeyParameterValue_IncludeUniqueID | _ \<Rightarrow> KeyParameterValue_Invalid)"
| "from_km_value Tag_RsaOaepMgfDigest v = (case v of Km_Digest x \<Rightarrow> KeyParameterValue_RsaOaepMgfDigest x | _ \<Rightarrow> KeyParameterValue_Invalid)"
| "from_km_value Tag_BootloaderOnly v = (case v of Km_BoolValue _ \<Rightarrow> KeyParameterValue_BootLoaderOnly | _ \<Rightarrow> KeyParameterValue_Invalid)"
| "from_km_value Tag_RollbackResistance v = (case v of Km_BoolValue _ \<Rightarrow> KeyParameterValue_RollbackResistance | _ \<Rightarrow> KeyParameterValue_Invalid)"
| "from_km_value Tag_HardwareType v = KeyParameterValue_Invalid"
| "from_km_value Tag_EarlyBootOnly v = (case v of Km_BoolValue _ \<Rightarrow> KeyParameterValue_EarlyBootOnly | _ \<Rightarrow> KeyParameterValue_Invalid)"
| "from_km_value Tag_ActiveDatetime v = (case v of Km_DateTime x \<Rightarrow> KeyParameterValue_ActiveDateTime x | _ \<Rightarrow> KeyParameterValue_Invalid)"
| "from_km_value Tag_OriginationExpireDatetime v = (case v of Km_DateTime x \<Rightarrow> KeyParameterValue_OriginationExpireDateTime x | _ \<Rightarrow> KeyParameterValue_Invalid)"
| "from_km_value Tag_UsageExpireDatetime v = (case v of Km_DateTime x \<Rightarrow> KeyParameterValue_UsageExpireDateTime x | _ \<Rightarrow> KeyParameterValue_Invalid)"
| "from_km_value Tag_MinSecondsBetweenOps v = (case v of Km_Integer x \<Rightarrow> KeyParameterValue_MinSecondsBetweenOps x | _ \<Rightarrow> KeyParameterValue_Invalid)"
| "from_km_value Tag_MaxUsesPerBoot v = (case v of Km_Integer x \<Rightarrow> KeyParameterValue_MaxUsesPerBoot x | _ \<Rightarrow> KeyParameterValue_Invalid)"
| "from_km_value Tag_UsageCountLimit v = (case v of Km_Integer x \<Rightarrow> KeyParameterValue_UsageCountLimit x | _ \<Rightarrow> KeyParameterValue_Invalid)"
| "from_km_value Tag_UserId v = (case v of Km_Integer x \<Rightarrow> KeyParameterValue_UserID x | _ \<Rightarrow> KeyParameterValue_Invalid)"
| "from_km_value Tag_UserSecureId v = (case v of Km_LongInteger x \<Rightarrow> KeyParameterValue_UserSecureID x | _ \<Rightarrow> KeyParameterValue_Invalid)"
| "from_km_value Tag_NoAuthRequired v = (case v of Km_BoolValue _ \<Rightarrow> KeyParameterValue_NoAuthRequired | _ \<Rightarrow> KeyParameterValue_Invalid)"
| "from_km_value Tag_UserAuthType v = (case v of Km_HardwareAuthenticatorType x \<Rightarrow> KeyParameterValue_HardwareAuthenticatorType x | _ \<Rightarrow> KeyParameterValue_Invalid)"
| "from_km_value Tag_AuthTimeout v = (case v of Km_Integer x \<Rightarrow> KeyParameterValue_AuthTimeout x | _ \<Rightarrow> KeyParameterValue_Invalid)"
| "from_km_value Tag_AllowWhileOnBody v = (case v of Km_BoolValue _ \<Rightarrow> KeyParameterValue_AllowWhileOnBody | _ \<Rightarrow> KeyParameterValue_Invalid)"
| "from_km_value Tag_TrustedUserPresenceRequired v = (case v of Km_BoolValue _ \<Rightarrow> KeyParameterValue_TrustedUserPresenceRequired | _ \<Rightarrow> KeyParameterValue_Invalid)"
| "from_km_value Tag_TrustedConfirmationRequired v = (case v of Km_BoolValue _ \<Rightarrow> KeyParameterValue_TrustedConfirmationRequired | _ \<Rightarrow> KeyParameterValue_Invalid)"
| "from_km_value Tag_UnlockedDeviceRequired v = (case v of Km_BoolValue _ \<Rightarrow> KeyParameterValue_UnlockedDeviceRequired | _ \<Rightarrow> KeyParameterValue_Invalid)"
| "from_km_value Tag_ApplicationId v = (case v of Km_Blob x \<Rightarrow> KeyParameterValue_ApplicationID x | _ \<Rightarrow> KeyParameterValue_Invalid)"
| "from_km_value Tag_ApplicationData v = (case v of Km_Blob x \<Rightarrow> KeyParameterValue_ApplicationData x | _ \<Rightarrow> KeyParameterValue_Invalid)"
| "from_km_value Tag_CreationDatetime v = (case v of Km_DateTime x \<Rightarrow> KeyParameterValue_CreationDateTime x | _ \<Rightarrow> KeyParameterValue_Invalid)"
| "from_km_value Tag_Origin v = (case v of Km_Origin x \<Rightarrow> KeyParameterValue_KeyOrigin x | _ \<Rightarrow> KeyParameterValue_Invalid)"
| "from_km_value Tag_RootOfTrust v = (case v of Km_Blob x \<Rightarrow> KeyParameterValue_RootOfTrust x | _ \<Rightarrow> KeyParameterValue_Invalid)"
| "from_km_value Tag_OsVersion v = (case v of Km_Integer x \<Rightarrow> KeyParameterValue_OSVersion x | _ \<Rightarrow> KeyParameterValue_Invalid)"
| "from_km_value Tag_OsPatchlevel v = (case v of Km_Integer x \<Rightarrow> KeyParameterValue_OSPatchLevel x | _ \<Rightarrow> KeyParameterValue_Invalid)"
| "from_km_value Tag_UniqueId v = (case v of Km_Blob x \<Rightarrow> KeyParameterValue_UniqueID x | _ \<Rightarrow> KeyParameterValue_Invalid)"
| "from_km_value Tag_AttestationChallenge v = (case v of Km_Blob x \<Rightarrow> KeyParameterValue_AttestationChallenge x | _ \<Rightarrow> KeyParameterValue_Invalid)"
| "from_km_value Tag_AttestationApplicationId v = (case v of Km_Blob x \<Rightarrow> KeyParameterValue_AttestationApplicationID x | _ \<Rightarrow> KeyParameterValue_Invalid)"
| "from_km_value Tag_AttestationIdBrand v = (case v of Km_Blob x \<Rightarrow> KeyParameterValue_AttestationIdBrand x | _ \<Rightarrow> KeyParameterValue_Invalid)"
| "from_km_value Tag_AttestationIdDevice v = (case v of Km_Blob x \<Rightarrow> KeyParameterValue_AttestationIdDevice x | _ \<Rightarrow> KeyParameterValue_Invalid)"
| "from_km_value Tag_AttestationIdProduct v = (case v of Km_Blob x \<Rightarrow> KeyParameterValue_AttestationIdProduct x | _ \<Rightarrow> KeyParameterValue_Invalid)"
| "from_km_value Tag_AttestationIdSerial v = (case v of Km_Blob x \<Rightarrow> KeyParameterValue_AttestationIdSerial x | _ \<Rightarrow> KeyParameterValue_Invalid)"
| "from_km_value Tag_AttestationIdImei v = (case v of Km_Blob x \<Rightarrow> KeyParameterValue_AttestationIdIMEI x | _ \<Rightarrow> KeyParameterValue_Invalid)"
| "from_km_value Tag_AttestationIdMeid v = (case v of Km_Blob x \<Rightarrow> KeyParameterValue_AttestationIdMEID x | _ \<Rightarrow> KeyParameterValue_Invalid)"
| "from_km_value Tag_AttestationIdManufacturer v = (case v of Km_Blob x \<Rightarrow> KeyParameterValue_AttestationIdManufacturer x | _ \<Rightarrow> KeyParameterValue_Invalid)"
| "from_km_value Tag_AttestationIdModel v = (case v of Km_Blob x \<Rightarrow> KeyParameterValue_AttestationIdModel x | _ \<Rightarrow> KeyParameterValue_Invalid)"
| "from_km_value Tag_VendorPatchlevel v = (case v of Km_Integer x \<Rightarrow> KeyParameterValue_VendorPatchLevel x | _ \<Rightarrow> KeyParameterValue_Invalid)"
| "from_km_value Tag_BootPatchlevel v = (case v of Km_Integer x \<Rightarrow> KeyParameterValue_BootPatchLevel x | _ \<Rightarrow> KeyParameterValue_Invalid)"
| "from_km_value Tag_DeviceUniqueAttestation v = KeyParameterValue_Invalid"
| "from_km_value Tag_IdentityCredentialKey v = KeyParameterValue_Invalid"
| "from_km_value Tag_StorageKey v = KeyParameterValue_Invalid"
| "from_km_value Tag_AttestationIdSecondImei v = (case v of Km_Blob x \<Rightarrow> KeyParameterValue_AttestationIdSecondIMEI x | _ \<Rightarrow> KeyParameterValue_Invalid)"
| "from_km_value Tag_AssociatedData v = (case v of Km_Blob x \<Rightarrow> KeyParameterValue_AssociatedData x | _ \<Rightarrow> KeyParameterValue_Invalid)"
| "from_km_value Tag_Nonce v = (case v of Km_Blob x \<Rightarrow> KeyParameterValue_Nonce x | _ \<Rightarrow> KeyParameterValue_Invalid)"
| "from_km_value Tag_MacLength v = (case v of Km_Integer x \<Rightarrow> KeyParameterValue_MacLength x | _ \<Rightarrow> KeyParameterValue_Invalid)"
| "from_km_value Tag_ResetSinceIdRotation v = (case v of Km_BoolValue _ \<Rightarrow> KeyParameterValue_ResetSinceIdRotation | _ \<Rightarrow> KeyParameterValue_Invalid)"
| "from_km_value Tag_ConfirmationToken v = (case v of Km_Blob x \<Rightarrow> KeyParameterValue_ConfirmationToken x | _ \<Rightarrow> KeyParameterValue_Invalid)"
| "from_km_value Tag_CertificateSerial v = (case v of Km_Blob x \<Rightarrow> KeyParameterValue_CertificateSerial x | _ \<Rightarrow> KeyParameterValue_Invalid)"
| "from_km_value Tag_CertificateSubject v = (case v of Km_Blob x \<Rightarrow> KeyParameterValue_CertificateSubject x | _ \<Rightarrow> KeyParameterValue_Invalid)"
| "from_km_value Tag_CertificateNotBefore v = (case v of Km_DateTime x \<Rightarrow> KeyParameterValue_CertificateNotBefore x | _ \<Rightarrow> KeyParameterValue_Invalid)"
| "from_km_value Tag_CertificateNotAfter v = (case v of Km_DateTime x \<Rightarrow> KeyParameterValue_CertificateNotAfter x | _ \<Rightarrow> KeyParameterValue_Invalid)"
| "from_km_value Tag_MaxBootLevel v = (case v of Km_Integer x \<Rightarrow> KeyParameterValue_MaxBootLevel x | _ \<Rightarrow> KeyParameterValue_Invalid)"
| "from_km_value Tag_ModuleHash v = KeyParameterValue_Invalid"

definition from_km :: "KmKeyParameter \<Rightarrow> KeyParameterValue" where
  "from_km kp = (case Tag_n (sint (km_tag kp)) of
     Some t \<Rightarrow> from_km_value t (km_value kp)
   | None \<Rightarrow> KeyParameterValue_Invalid)"

text \<open>A variant without a value gets the default of \<open>KpDefault\<close>: zero, or true.\<close>

primrec into_km_value :: "KeyParameterValue \<Rightarrow> KmKeyParameterValue" where
  "into_km_value KeyParameterValue_Invalid = Km_Invalid 0"
| "into_km_value (KeyParameterValue_KeyPurpose v) = Km_KeyPurpose v"
| "into_km_value (KeyParameterValue_Algorithm v) = Km_Algorithm v"
| "into_km_value (KeyParameterValue_KeySize v) = Km_Integer v"
| "into_km_value (KeyParameterValue_BlockMode v) = Km_BlockMode v"
| "into_km_value (KeyParameterValue_Digest v) = Km_Digest v"
| "into_km_value (KeyParameterValue_RsaOaepMgfDigest v) = Km_Digest v"
| "into_km_value (KeyParameterValue_PaddingMode v) = Km_PaddingMode v"
| "into_km_value KeyParameterValue_CallerNonce = Km_BoolValue True"
| "into_km_value (KeyParameterValue_MinMacLength v) = Km_Integer v"
| "into_km_value (KeyParameterValue_EcCurve v) = Km_EcCurve v"
| "into_km_value (KeyParameterValue_MlDsaVariant v) = Km_MlDsaVariant v"
| "into_km_value (KeyParameterValue_RSAPublicExponent v) = Km_LongInteger v"
| "into_km_value KeyParameterValue_IncludeUniqueID = Km_BoolValue True"
| "into_km_value KeyParameterValue_BootLoaderOnly = Km_BoolValue True"
| "into_km_value KeyParameterValue_RollbackResistance = Km_BoolValue True"
| "into_km_value KeyParameterValue_EarlyBootOnly = Km_BoolValue True"
| "into_km_value (KeyParameterValue_ActiveDateTime v) = Km_DateTime v"
| "into_km_value (KeyParameterValue_OriginationExpireDateTime v) = Km_DateTime v"
| "into_km_value (KeyParameterValue_UsageExpireDateTime v) = Km_DateTime v"
| "into_km_value (KeyParameterValue_MinSecondsBetweenOps v) = Km_Integer v"
| "into_km_value (KeyParameterValue_MaxUsesPerBoot v) = Km_Integer v"
| "into_km_value (KeyParameterValue_UsageCountLimit v) = Km_Integer v"
| "into_km_value (KeyParameterValue_UserID v) = Km_Integer v"
| "into_km_value (KeyParameterValue_UserSecureID v) = Km_LongInteger v"
| "into_km_value KeyParameterValue_NoAuthRequired = Km_BoolValue True"
| "into_km_value (KeyParameterValue_HardwareAuthenticatorType v) = Km_HardwareAuthenticatorType v"
| "into_km_value (KeyParameterValue_AuthTimeout v) = Km_Integer v"
| "into_km_value KeyParameterValue_AllowWhileOnBody = Km_BoolValue True"
| "into_km_value KeyParameterValue_TrustedUserPresenceRequired = Km_BoolValue True"
| "into_km_value KeyParameterValue_TrustedConfirmationRequired = Km_BoolValue True"
| "into_km_value KeyParameterValue_UnlockedDeviceRequired = Km_BoolValue True"
| "into_km_value (KeyParameterValue_ApplicationID v) = Km_Blob v"
| "into_km_value (KeyParameterValue_ApplicationData v) = Km_Blob v"
| "into_km_value (KeyParameterValue_CreationDateTime v) = Km_DateTime v"
| "into_km_value (KeyParameterValue_KeyOrigin v) = Km_Origin v"
| "into_km_value (KeyParameterValue_RootOfTrust v) = Km_Blob v"
| "into_km_value (KeyParameterValue_OSVersion v) = Km_Integer v"
| "into_km_value (KeyParameterValue_OSPatchLevel v) = Km_Integer v"
| "into_km_value (KeyParameterValue_UniqueID v) = Km_Blob v"
| "into_km_value (KeyParameterValue_AttestationChallenge v) = Km_Blob v"
| "into_km_value (KeyParameterValue_AttestationApplicationID v) = Km_Blob v"
| "into_km_value (KeyParameterValue_AttestationIdBrand v) = Km_Blob v"
| "into_km_value (KeyParameterValue_AttestationIdDevice v) = Km_Blob v"
| "into_km_value (KeyParameterValue_AttestationIdProduct v) = Km_Blob v"
| "into_km_value (KeyParameterValue_AttestationIdSerial v) = Km_Blob v"
| "into_km_value (KeyParameterValue_AttestationIdIMEI v) = Km_Blob v"
| "into_km_value (KeyParameterValue_AttestationIdSecondIMEI v) = Km_Blob v"
| "into_km_value (KeyParameterValue_AttestationIdMEID v) = Km_Blob v"
| "into_km_value (KeyParameterValue_AttestationIdManufacturer v) = Km_Blob v"
| "into_km_value (KeyParameterValue_AttestationIdModel v) = Km_Blob v"
| "into_km_value (KeyParameterValue_VendorPatchLevel v) = Km_Integer v"
| "into_km_value (KeyParameterValue_BootPatchLevel v) = Km_Integer v"
| "into_km_value (KeyParameterValue_AssociatedData v) = Km_Blob v"
| "into_km_value (KeyParameterValue_Nonce v) = Km_Blob v"
| "into_km_value (KeyParameterValue_MacLength v) = Km_Integer v"
| "into_km_value KeyParameterValue_ResetSinceIdRotation = Km_BoolValue True"
| "into_km_value (KeyParameterValue_ConfirmationToken v) = Km_Blob v"
| "into_km_value (KeyParameterValue_CertificateSerial v) = Km_Blob v"
| "into_km_value (KeyParameterValue_CertificateSubject v) = Km_Blob v"
| "into_km_value (KeyParameterValue_CertificateNotBefore v) = Km_DateTime v"
| "into_km_value (KeyParameterValue_CertificateNotAfter v) = Km_DateTime v"
| "into_km_value (KeyParameterValue_MaxBootLevel v) = Km_Integer v"

definition into_km :: "KeyParameterValue \<Rightarrow> KmKeyParameter" where
  "into_km x = \<lparr>km_tag = Tag_u32 (get_tag x), km_value = into_km_value x\<rparr>"

section \<open>Round trips\<close>

lemma sint_of_int_i64: "fits_i32 n \<Longrightarrow> sint (of_int n :: i64) = n"
  by (simp add: fits_i32_def signed_of_int signed_take_bit_int_eq_self)

lemma sql_get_i32_of_i32 [simp]: "sql_get_i32 (sql_of_i32 v) = Inr v"
proof -
  have fits: "fits_i32 (sint v)"
    using sint_ge[of v] sint_lt[of v] by (simp add: fits_i32_def)
  have "sql_get_i32 (SqlValue_Integer (of_int n)) = Inr (of_int n)" if "fits_i32 n" for n
    using that by (simp add: sql_get_i32_def sint_of_int_i64)
  from this[OF fits] show ?thesis
    by (simp add: sql_of_i32_def)
qed

text \<open>The primitive a parameter holds, if it holds one.\<close>

definition primitive_of :: "KeyParameterValue \<Rightarrow> Primitive option" where
  "primitive_of x = (case into_km_value x of
     Km_BoolValue _ \<Rightarrow> None
   | Km_Invalid _ \<Rightarrow> None
   | Km_LongInteger v \<Rightarrow> Some (Primitive_I64 v)
   | Km_DateTime v \<Rightarrow> Some (Primitive_I64 v)
   | Km_Blob v \<Rightarrow> Some (Primitive_Vec v)
   | Km_Algorithm v \<Rightarrow> Some (Primitive_I32 v)
   | Km_BlockMode v \<Rightarrow> Some (Primitive_I32 v)
   | Km_PaddingMode v \<Rightarrow> Some (Primitive_I32 v)
   | Km_Digest v \<Rightarrow> Some (Primitive_I32 v)
   | Km_EcCurve v \<Rightarrow> Some (Primitive_I32 v)
   | Km_Origin v \<Rightarrow> Some (Primitive_I32 v)
   | Km_KeyPurpose v \<Rightarrow> Some (Primitive_I32 v)
   | Km_HardwareAuthenticatorType v \<Rightarrow> Some (Primitive_I32 v)
   | Km_SecurityLevel v \<Rightarrow> Some (Primitive_I32 v)
   | Km_Integer v \<Rightarrow> Some (Primitive_I32 v)
   | Km_MlDsaVariant v \<Rightarrow> Some (Primitive_I32 v))"

text \<open>Which fields of the AIDL union the type of a tag allows.\<close>

definition field_matches_tag_type :: "TagType \<Rightarrow> KmKeyParameterValue \<Rightarrow> bool" where
  "field_matches_tag_type ty f = (case f of
     Km_Invalid _ \<Rightarrow> ty = TagType_Invalid
   | Km_BoolValue b \<Rightarrow> ty = TagType_Bool \<and> b
   | Km_Integer _ \<Rightarrow> ty \<in> {TagType_Uint, TagType_UintRep}
   | Km_LongInteger _ \<Rightarrow> ty \<in> {TagType_Ulong, TagType_UlongRep}
   | Km_DateTime _ \<Rightarrow> ty = TagType_Date
   | Km_Blob _ \<Rightarrow> ty \<in> {TagType_Bytes, TagType_Bignum}
   | _ \<Rightarrow> ty \<in> {TagType_Enum, TagType_EnumRep})"

lemma into_from_km: "from_km (into_km x) = x"
  by (cases x) (simp_all add: from_km_def into_km_def)

lemma to_from_sql: "new_from_sql (Tag_u32 (get_tag x)) (to_sql x) = Inr x"
  by (cases x) (simp_all add: new_from_sql_def sql_get_i64_def sql_get_vec_def)

lemma from_primitive_of:
  "new_from_tag_primitive_pair (Tag_u32 (get_tag x)) (case primitive_of x of None \<Rightarrow> p | Some q \<Rightarrow> q)
     = Inr x"
  by (cases x)
    (simp_all add: new_from_tag_primitive_pair_def primitive_of_def i32_try_from_def
      i64_try_from_def vec_try_from_def)

lemma field_matches: "field_matches_tag_type (tag_type (get_tag x)) (km_value (into_km x))"
  by (cases x) (simp_all add: field_matches_tag_type_def tag_type_def Tag_u32_def into_km_def)


text \<open>
  C34: The conversions of Keystore's key parameters are inverse to each other for every one of
  the variants: from and to the AIDL union, the database cell, and the tag and primitive pair
  (variants without a value ignore the primitive).  The field of the union always matches the
  type encoded in the tag number, and boolean tags are sent as true.
\<close>

theorem key_parameter_conversions:
  "from_km (into_km x) = x \<and>
   new_from_sql (Tag_u32 (get_tag x)) (to_sql x) = Inr x \<and>
   new_from_tag_primitive_pair (Tag_u32 (get_tag x)) (case primitive_of x of None \<Rightarrow> p | Some q \<Rightarrow> q)
     = Inr x \<and>
   field_matches_tag_type (tag_type (get_tag x)) (km_value (into_km x))"
  by (simp add: into_from_km to_from_sql from_primitive_of field_matches)

end
