(* ===== verification/Key_Usage.thy ===== *)
theory Key_Usage
  imports Keystore_Params
begin

text \<open>
  Limited-use keys: the reservations of \<^verbatim>\<open>src/src/keymaster/enforcements.rs\<close>
  (\<open>KeyUsageReservations\<close>, \<open>KeyUsageReservation\<close>) and the durable counter of
  \<^verbatim>\<open>src/src/keymaster/db.rs\<close>.  Every operation holds the lock of the \<open>in_flight\<close> map for its
  whole body, so a concurrent execution is a sequence of these atomic steps in some order.
\<close>

section \<open>The durable counter\<close>

text \<open>
  What the queries see of a key: whether its entry is live, and its rows of
  USAGE-COUNT-LIMIT at the KEYSTORE security level.
\<close>

record key_entry =
  ke_live :: bool
  ke_usage_limits :: "i32 list"

type_synonym usage_db = "i64 \<Rightarrow> key_entry option"

definition key_usage_count :: "usage_db \<Rightarrow> i64 \<Rightarrow> KsError + i32" where
  "key_usage_count db key_id =
     ok_or (KsError_Km ErrorCode_InvalidKeyBlob)
       (case db key_id of
          None \<Rightarrow> None
        | Some e \<Rightarrow>
            if ke_live e then
              (case ke_usage_limits e of
                 [] \<Rightarrow> None
               | limit # _ \<Rightarrow> if sint limit > 0 then Some limit else None)
            else None)"

text \<open>
  The transaction: an error rolls it back.  The last use removes the rows of the key.
\<close>

definition check_and_update_key_usage_count_internal ::
    "usage_db \<Rightarrow> i64 \<Rightarrow> KsError + (usage_db \<times> bool)" where
  "check_and_update_key_usage_count_internal db key_id =
     res_bind (key_usage_count db key_id) (\<lambda>limit.
       let e = the (db key_id);
           updated = length (filter (\<lambda>d. sint d > 0) (ke_usage_limits e));
           db' = db(key_id \<mapsto> e\<lparr>ke_usage_limits :=
                     map (\<lambda>d. if sint d > 0 then d - 1 else d) (ke_usage_limits e)\<rparr>)
       in if updated \<noteq> 1 then ks_km ErrorCode_InvalidKeyBlob
          else if limit = 1 then Inr (db'(key_id := None), True)
          else Inr (db', False))"

definition check_and_update_key_usage_count :: "i64 \<Rightarrow> usage_db \<Rightarrow> usage_db \<times> (KsError + unit)" where
  "check_and_update_key_usage_count key_id db =
     (case check_and_update_key_usage_count_internal db key_id of
        Inl e \<Rightarrow> (db, Inl e)
      | Inr (db', need_gc) \<Rightarrow> (db', Inr ()))"

section \<open>Reservations\<close>

type_synonym in_flight = "i64 \<Rightarrow> u32 option"

text \<open>A \<open>KeyUsageReservation\<close> holds \<open>Some(key_id)\<close> until it is committed or dropped.\<close>

type_synonym KeyUsageReservation = "i64 option"

definition reserve ::
    "in_flight \<Rightarrow> i64 \<Rightarrow> KsError + i32 \<Rightarrow> in_flight \<times> (KsError + KeyUsageReservation)" where
  "reserve in_flight key_id remaining = (case remaining of
     Inl e \<Rightarrow> (in_flight, Inl e)
   | Inr remaining \<Rightarrow>
       if sint remaining \<le> 0 then (in_flight, ks_km ErrorCode_InvalidKeyBlob)
       else
         let in_flight = (case in_flight key_id of
               None \<Rightarrow> in_flight(key_id \<mapsto> 0) | Some _ \<Rightarrow> in_flight);
             reserved = the (in_flight key_id)
         in if reserved \<ge> remaining then (in_flight, ks_km ErrorCode_KeyMaxOpsExceeded)
            else (in_flight(key_id \<mapsto> reserved + 1), Inr (Some key_id)))"

definition remove_slot :: "in_flight \<Rightarrow> i64 \<Rightarrow> in_flight" where
  "remove_slot in_flight key_id = (case in_flight key_id of
     Some reserved \<Rightarrow>
       if reserved > 1 then in_flight(key_id \<mapsto> reserved - 1) else in_flight(key_id := None)
   | None \<Rightarrow> in_flight)"

definition commit ::
    "KeyUsageReservation \<Rightarrow> in_flight \<Rightarrow> 'db \<Rightarrow> (i64 \<Rightarrow> 'db \<Rightarrow> 'db \<times> (KsError + 'a))
     \<Rightarrow> KeyUsageReservation \<times> in_flight \<times> 'db \<times> (KsError + 'a)" where
  "commit self in_flight db consume = (case self of
     None \<Rightarrow> (None, in_flight, db, ks_km ErrorCode_InvalidOperationHandle)
   | Some key_id \<Rightarrow>
       (case consume key_id db of
          (db', result) \<Rightarrow> (None, remove_slot in_flight key_id, db', result)))"

definition drop_reservation :: "KeyUsageReservation \<Rightarrow> in_flight \<Rightarrow> in_flight" where
  "drop_reservation self in_flight = (case self of
     Some key_id \<Rightarrow> remove_slot in_flight key_id
   | None \<Rightarrow> in_flight)"

definition has_keystore_usage_limit :: "KeyParameter list \<Rightarrow> bool" where
  "has_keystore_usage_limit key_params =
     list_ex (\<lambda>p. kp_security_level p = SecurityLevel_Keystore
        \<and> (case kp_value p of KeyParameterValue_UsageCountLimit _ \<Rightarrow> True | _ \<Rightarrow> False)) key_params"

definition reserve_key_usage ::
    "in_flight \<Rightarrow> usage_db \<Rightarrow> i64 \<Rightarrow> KeyParameter list
     \<Rightarrow> in_flight \<times> (KsError + KeyUsageReservation option)" where
  "reserve_key_usage in_flight db key_id key_params =
     (if \<not> has_keystore_usage_limit key_params then (in_flight, Inr None)
      else (case reserve in_flight key_id (key_usage_count db key_id) of
              (in_flight', result) \<Rightarrow> (in_flight', map_ok Some result)))"

section \<open>What the reservations rely on\<close>

lemma sint_minus_1:
  assumes "sint (r :: i32) > 0"
  shows "sint (r - 1) = sint r - 1"
  using assms sint_lt[of r] by (simp add: sint_word_diff signed_take_bit_int_eq_self)

lemma unat_positive_i32:
  assumes "sint (r :: i32) > 0"
  shows "unat r = nat (sint r)"
proof -
  have "uint r = sint r"
    using assms sint_lt[of r] by (simp add: uint_sint take_bit_int_eq_self)
  then show ?thesis by (metis nat_uint_eq)
qed

text \<open>
  The system of all live reservations, by handle.  Apart from the calls of the module, the
  database may lose a key (it is deleted) at any time, and an update may fail without effect.
  \<open>used\<close> counts the successful commits.
\<close>

record 'db usage_world =
  w_in_flight :: in_flight
  w_db :: 'db
  w_handles :: "nat \<Rightarrow> KeyUsageReservation option"
  w_used :: "i64 \<Rightarrow> nat"

definition usage_init :: "'db \<Rightarrow> 'db usage_world" where
  "usage_init db = \<lparr>w_in_flight = Map.empty, w_db = db, w_handles = Map.empty, w_used = (\<lambda>_. 0)\<rparr>"

definition storage_failure :: "KsError \<Rightarrow> i64 \<Rightarrow> 'db \<Rightarrow> 'db \<times> (KsError + unit)" where
  "storage_failure e k db = (db, Inl e)"

inductive usage_step ::
    "('db \<Rightarrow> i64 \<Rightarrow> KsError + i32) \<Rightarrow> (i64 \<Rightarrow> 'db \<Rightarrow> 'db \<times> (KsError + unit))
     \<Rightarrow> 'db usage_world \<Rightarrow> 'db usage_world \<Rightarrow> bool"
  for count consume where
  step_reserve:
    "reserve (w_in_flight w) k (count (w_db w) k) = (f', Inr r) \<Longrightarrow> w_handles w h = None \<Longrightarrow>
     usage_step count consume w (w\<lparr>w_in_flight := f', w_handles := (w_handles w)(h \<mapsto> r)\<rparr>)"
| step_refuse:
    "reserve (w_in_flight w) k (count (w_db w) k) = (f', Inl e) \<Longrightarrow>
     usage_step count consume w (w\<lparr>w_in_flight := f'\<rparr>)"
| step_commit:
    "w_handles w h = Some r \<Longrightarrow> c = consume \<or> c = storage_failure err \<Longrightarrow>
     commit r (w_in_flight w) (w_db w) c = (r', f', db', res) \<Longrightarrow>
     usage_step count consume w (w\<lparr>w_in_flight := f', w_db := db',
       w_handles := (w_handles w)(h \<mapsto> r'),
       w_used := (if is_ok res then (w_used w)(the r := Suc (w_used w (the r))) else w_used w)\<rparr>)"
| step_drop:
    "w_handles w h = Some r \<Longrightarrow>
     usage_step count consume w (w\<lparr>w_in_flight := drop_reservation r (w_in_flight w),
       w_handles := (w_handles w)(h := None)\<rparr>)"
| step_delete:
    "(\<And>j. count db' j = count (w_db w) j \<or> (\<exists>e. count db' j = Inl e)) \<Longrightarrow>
     usage_step count consume w (w\<lparr>w_db := db'\<rparr>)"

inductive usage_reachable ::
    "('db \<Rightarrow> i64 \<Rightarrow> KsError + i32) \<Rightarrow> (i64 \<Rightarrow> 'db \<Rightarrow> 'db \<times> (KsError + unit))
     \<Rightarrow> 'db \<Rightarrow> 'db usage_world \<Rightarrow> bool"
  for count consume db0 where
  reach_init: "usage_reachable count consume db0 (usage_init db0)"
| reach_step: "usage_reachable count consume db0 w \<Longrightarrow> usage_step count consume w w'
    \<Longrightarrow> usage_reachable count consume db0 w'"

text \<open>The number of reservations of a key that are neither committed nor dropped.\<close>

definition live_reservations :: "'db usage_world \<Rightarrow> i64 \<Rightarrow> nat" where
  "live_reservations w k = card {h. w_handles w h = Some (Some k)}"

lemma live_reservations_simps [simp]:
  "live_reservations (w\<lparr>w_in_flight := f\<rparr>) k = live_reservations w k"
  "live_reservations (w\<lparr>w_db := db\<rparr>) k = live_reservations w k"
  "live_reservations (w\<lparr>w_used := u\<rparr>) k = live_reservations w k"
  by (simp_all add: live_reservations_def)

lemma live_reservations_update:
  assumes "finite (dom (w_handles w))"
  shows "live_reservations (w\<lparr>w_handles := (w_handles w)(h := v)\<rparr>) k =
           live_reservations w k - (if w_handles w h = Some (Some k) then 1 else 0)
             + (if v = Some (Some k) then 1 else 0)"
proof -
  define A where "A = {i. w_handles w i = Some (Some k)}"
  have fin: "finite A"
    using finite_subset[OF _ assms, of A] by (auto simp: A_def)
  have "{i. ((w_handles w)(h := v)) i = Some (Some k)}
      = (if v = Some (Some k) then insert h (A - {h}) else A - {h})"
    by (auto simp: A_def)
  then have "live_reservations (w\<lparr>w_handles := (w_handles w)(h := v)\<rparr>) k
      = card (A - {h}) + (if v = Some (Some k) then 1 else 0)"
    using fin by (simp add: live_reservations_def card.insert_remove)
  moreover have "card (A - {h}) = card A - (if h \<in> A then 1 else 0)"
    using fin by (simp add: card_Diff_singleton_if)
  ultimately show ?thesis
    by (simp add: live_reservations_def A_def)
qed

lemma live_reservations_pos:
  "finite (dom (w_handles w)) \<Longrightarrow> w_handles w h = Some (Some k) \<Longrightarrow> live_reservations w k > 0"
  unfolding live_reservations_def
  by (rule card_gt_0_iff[THEN iffD2]) (auto intro: finite_subset[of _ "dom (w_handles w)"])

text \<open>The entry of the in-flight map for a number of live reservations.\<close>

definition slot :: "nat \<Rightarrow> u32 option" where
  "slot n = (if n = 0 then None else Some (of_nat n))"

lemma unat_of_nat_u32: "n < 2 ^ 32 \<Longrightarrow> unat (of_nat n :: u32) = n"
  by (simp add: unsigned_of_nat take_bit_nat_eq_self)

lemma reserve_slot:
  assumes "f k = slot n" and "n < 2 ^ 31" and "sint r > 0"
  shows "reserve f k (Inr r) =
           (if n < nat (sint r) then (f(k := slot (n + 1)), Inr (Some k))
            else (f, ks_km ErrorCode_KeyMaxOpsExceeded))"
proof -
  have r: "unat r = nat (sint r)" by (rule unat_positive_i32[OF assms(3)])
  show ?thesis
  proof (cases "n = 0")
    case True
    then have "\<not> r \<le> 0" using assms(3) r by (simp add: word_le_nat_alt)
    with True assms r show ?thesis
      by (simp add: reserve_def slot_def)
  next
    case False
    have "r \<le> of_nat n \<longleftrightarrow> nat (sint r) \<le> n"
      using assms(2) r by (simp add: word_le_nat_alt unat_of_nat_u32)
    with False assms show ?thesis
      by (simp add: reserve_def slot_def linorder_not_le add.commute)
  qed
qed

lemma remove_slot_slot:
  assumes "f k = slot n" and "0 < n" and "n < 2 ^ 31"
  shows "remove_slot f k = f(k := slot (n - 1))"
proof -
  have "(1 :: u32) < of_nat n \<longleftrightarrow> 1 < n"
    using assms(3) by (simp add: word_less_nat_alt unat_of_nat_u32)
  with assms show ?thesis
    by (simp add: remove_slot_def slot_def of_nat_diff)
qed

text \<open>
  The store promises a count, an update that takes one use off it or changes nothing, and that
  it leaves other keys alone.
\<close>

locale usage_store =
  fixes count :: "'db \<Rightarrow> i64 \<Rightarrow> KsError + i32"
    and consume :: "i64 \<Rightarrow> 'db \<Rightarrow> 'db \<times> (KsError + unit)"
  assumes count_positive: "count db k = Inr r \<Longrightarrow> sint r > 0"
    and consume_ok: "consume k db = (db', Inr u) \<Longrightarrow>
          (\<exists>r. count db k = Inr r \<and>
               (if r = 1 then \<exists>e. count db' k = Inl e else count db' k = Inr (r - 1)))"
    and consume_frame: "consume k db = (db', Inr u) \<Longrightarrow> j \<noteq> k \<Longrightarrow> count db' j = count db j"
    and consume_error: "consume k db = (db', Inl e) \<Longrightarrow> db' = db"
begin

definition remaining :: "'db \<Rightarrow> i64 \<Rightarrow> nat" where
  "remaining db k = (case count db k of Inr r \<Rightarrow> nat (sint r) | Inl _ \<Rightarrow> 0)"

lemma remaining_consume:
  assumes "consume k db = (db', Inr u)"
  shows "remaining db k > 0" "remaining db' j = (if j = k then remaining db k - 1 else remaining db j)"
proof -
  from consume_ok[OF assms] obtain r where r: "count db k = Inr r"
    and r': "if r = 1 then \<exists>e. count db' k = Inl e else count db' k = Inr (r - 1)"
    by blast
  have pos: "sint r > 0" using count_positive[OF r] .
  then show "remaining db k > 0" using r by (simp add: remaining_def)
  from sint_minus_1[OF pos] have "remaining db' k = remaining db k - 1"
    using r r' pos by (auto simp: remaining_def nat_diff_distrib split: if_splits)
  moreover have "remaining db' j = remaining db j" if "j \<noteq> k"
    using consume_frame[OF assms that] by (simp add: remaining_def)
  ultimately show "remaining db' j = (if j = k then remaining db k - 1 else remaining db j)"
    by simp
qed

text \<open>
  The invariant: the in-flight map counts the live reservations exactly, they never exceed
  what the store has left for a key it still knows, and uses are conserved.
\<close>

definition key_ok :: "nat \<Rightarrow> u32 option \<Rightarrow> nat \<Rightarrow> nat \<Rightarrow> nat \<Rightarrow> bool" where
  "key_ok n entry left used limit \<longleftrightarrow>
     entry = slot n \<and> n < 2 ^ 31 \<and> (left = 0 \<or> n \<le> left) \<and> used + left \<le> limit"

definition usage_inv :: "'db \<Rightarrow> 'db usage_world \<Rightarrow> bool" where
  "usage_inv db0 w \<longleftrightarrow>
     finite (dom (w_handles w)) \<and>
     (\<forall>k. key_ok (live_reservations w k) (w_in_flight w k) (remaining (w_db w) k)
            (w_used w k) (remaining db0 k))"

lemma remaining_less: "remaining db k < 2 ^ 31"
proof (cases "count db k")
  case (Inr r)
  then show ?thesis
    using count_positive[OF Inr] sint_lt[of r] by (simp add: remaining_def nat_less_iff)
qed (simp add: remaining_def)

lemma inv_init: "usage_inv db0 (usage_init db0)"
  by (simp add: usage_inv_def usage_init_def key_ok_def live_reservations_def slot_def)

lemma reserve_eq:
  assumes "usage_inv db0 w"
  shows "reserve (w_in_flight w) k (count (w_db w) k) = (case count (w_db w) k of
           Inl e \<Rightarrow> (w_in_flight w, Inl e)
         | Inr r \<Rightarrow>
             if live_reservations w k < remaining (w_db w) k
             then ((w_in_flight w)(k := slot (live_reservations w k + 1)), Inr (Some k))
             else (w_in_flight w, ks_km ErrorCode_KeyMaxOpsExceeded))"
proof (cases "count (w_db w) k")
  case (Inr r)
  have "w_in_flight w k = slot (live_reservations w k)" "live_reservations w k < 2 ^ 31"
    using assms by (simp_all add: usage_inv_def key_ok_def)
  from reserve_slot[where f = "w_in_flight w", OF this count_positive[OF Inr]] Inr show ?thesis
    by (simp add: remaining_def)
qed (simp add: reserve_def)

lemma inv_reserve:
  assumes "usage_inv db0 w" and "reserve (w_in_flight w) k (count (w_db w) k) = (f', Inr r)"
    and "w_handles w h = None"
  shows "usage_inv db0 (w\<lparr>w_in_flight := f', w_handles := (w_handles w)(h \<mapsto> r)\<rparr>)"
proof -
  have less: "live_reservations w k < remaining (w_db w) k"
    and f': "f' = (w_in_flight w)(k := slot (live_reservations w k + 1))" and r: "r = Some k"
    using assms(2) unfolding reserve_eq[OF assms(1)] by (auto split: sum.splits if_splits)
  have fin: "finite (dom (w_handles w))" using assms(1) by (simp add: usage_inv_def)
  have "live_reservations (w\<lparr>w_in_flight := f', w_handles := (w_handles w)(h \<mapsto> r)\<rparr>) j
      = live_reservations w j + (if j = k then 1 else 0)" for j
    using live_reservations_update[of "w\<lparr>w_in_flight := f'\<rparr>" h "Some r" j] fin assms(3) r by simp
  then show ?thesis
    using assms(1) less f' fin remaining_less[of "w_db w" k]
    by (auto simp: usage_inv_def key_ok_def)
qed

lemma inv_refuse:
  assumes "usage_inv db0 w" and "reserve (w_in_flight w) k (count (w_db w) k) = (f', Inl e)"
  shows "usage_inv db0 (w\<lparr>w_in_flight := f'\<rparr>)"
proof -
  have "f' = w_in_flight w"
    using assms(2) unfolding reserve_eq[OF assms(1)] by (auto split: sum.splits if_splits)
  with assms(1) show ?thesis by simp
qed

text \<open>Releasing the slot of a handle, by a drop or at the end of a commit.\<close>

lemma released:
  assumes "usage_inv db0 w" and "w_handles w h = Some (Some k)" and "v \<noteq> Some (Some k)"
    and "v = None \<or> v = Some None"
  shows "live_reservations (w\<lparr>w_handles := (w_handles w)(h := v)\<rparr>) j
           = live_reservations w j - (if j = k then 1 else 0)"
    and "live_reservations w k > 0"
    and "remove_slot (w_in_flight w) k = (w_in_flight w)(k := slot (live_reservations w k - 1))"
proof -
  have fin: "finite (dom (w_handles w))" using assms(1) by (simp add: usage_inv_def)
  show "live_reservations (w\<lparr>w_handles := (w_handles w)(h := v)\<rparr>) j
      = live_reservations w j - (if j = k then 1 else 0)"
    using live_reservations_update[OF fin, of h v j] assms(2,4) by auto
  show pos: "live_reservations w k > 0"
    by (rule live_reservations_pos[OF fin assms(2)])
  have "w_in_flight w k = slot (live_reservations w k)" "live_reservations w k < 2 ^ 31"
    using assms(1) by (simp_all add: usage_inv_def key_ok_def)
  from remove_slot_slot[where f = "w_in_flight w", OF this(1) pos this(2)]
  show "remove_slot (w_in_flight w) k = (w_in_flight w)(k := slot (live_reservations w k - 1))" .
qed

lemma inv_drop:
  assumes "usage_inv db0 w" and "w_handles w h = Some r"
  shows "usage_inv db0 (w\<lparr>w_in_flight := drop_reservation r (w_in_flight w),
           w_handles := (w_handles w)(h := None)\<rparr>)"
proof (cases r)
  case None
  have fin: "finite (dom (w_handles w))" using assms(1) by (simp add: usage_inv_def)
  have "live_reservations (w\<lparr>w_handles := (w_handles w)(h := None)\<rparr>) j = live_reservations w j" for j
    using live_reservations_update[OF fin, of h None j] assms(2) None by simp
  with assms(1) None show ?thesis
    by (simp add: usage_inv_def drop_reservation_def)
next
  case (Some k)
  then have h: "w_handles w h = Some (Some k)" using assms(2) by simp
  note rel = released[OF assms(1) h, of None, simplified]
  have "live_reservations (w\<lparr>w_in_flight := f, w_handles := (w_handles w)(h := None)\<rparr>) j
      = live_reservations w j - (if j = k then 1 else 0)" for j f
    using rel(1)[of j] by (simp add: live_reservations_def)
  with assms(1) Some rel show ?thesis
    by (auto simp: usage_inv_def drop_reservation_def key_ok_def less_imp_diff_less)
qed

lemma inv_commit:
  assumes inv: "usage_inv db0 w" and h: "w_handles w h = Some r"
    and c: "c = consume \<or> c = storage_failure err"
    and commit: "commit r (w_in_flight w) (w_db w) c = (r', f', db', res)"
  shows "usage_inv db0 (w\<lparr>w_in_flight := f', w_db := db', w_handles := (w_handles w)(h \<mapsto> r'),
           w_used := (if is_ok res then (w_used w)(the r := Suc (w_used w (the r))) else w_used w)\<rparr>)"
proof (cases r)
  case None
  then have "r' = r" "f' = w_in_flight w" "db' = w_db w" "\<not> is_ok res"
    using commit by (auto simp: commit_def)
  moreover have "(w_handles w)(h \<mapsto> r) = w_handles w" using h by auto
  ultimately show ?thesis using inv by simp
next
  case (Some k)
  then have h': "w_handles w h = Some (Some k)" using h by simp
  have r': "r' = None" and f': "f' = remove_slot (w_in_flight w) k"
    and upd: "c k (w_db w) = (db', res)"
    using commit Some by (auto simp: commit_def split: prod.splits)
  note rel = released[OF inv h', of "Some None", simplified]
  have live: "live_reservations (w\<lparr>w_in_flight := f', w_db := db',
        w_handles := (w_handles w)(h \<mapsto> None)\<rparr>) j
      = live_reservations w j - (if j = k then 1 else 0)" for j
    using rel(1)[of j] by (simp add: live_reservations_def)
  have left: "remaining db' j = remaining (w_db w) j - (if is_ok res \<and> j = k then 1 else 0)"
    and pos: "is_ok res \<Longrightarrow> remaining (w_db w) k > 0" for j
  proof -
    have "db' = w_db w" if "\<not> is_ok res"
      using c upd that consume_error[of k "w_db w" db']
      by (cases res) (auto simp: storage_failure_def)
    moreover have "consume k (w_db w) = (db', res)" if "is_ok res"
      using c upd that by (cases res) (auto simp: storage_failure_def)
    ultimately show "remaining db' j = remaining (w_db w) j - (if is_ok res \<and> j = k then 1 else 0)"
      and "is_ok res \<Longrightarrow> remaining (w_db w) k > 0"
      using remaining_consume[of k "w_db w" db'] by (cases res; simp)+
  qed
  have key: "key_ok (live_reservations w j - (if j = k then 1 else 0)) (f' j) (remaining db' j)
      ((if is_ok res then (w_used w)(k := Suc (w_used w k)) else w_used w) j) (remaining db0 j)" for j
  proof -
    have ok: "key_ok (live_reservations w j) (w_in_flight w j) (remaining (w_db w) j) (w_used w j)
        (remaining db0 j)"
      using inv by (simp add: usage_inv_def)
    show ?thesis
    proof (cases "j = k")
      case True
      with ok rel(2,3) f' left[of j] pos show ?thesis
        by (cases "is_ok res") (auto simp: key_ok_def)
    next
      case False
      with ok rel(3) f' left[of j] show ?thesis by simp
    qed
  qed
  show ?thesis
    unfolding usage_inv_def r' Some option.sel
  proof (intro conjI allI)
    show "finite (dom (w_handles (w\<lparr>w_in_flight := f', w_db := db',
        w_handles := (w_handles w)(h \<mapsto> None), w_used := if is_ok res
        then (w_used w)(k := Suc (w_used w k)) else w_used w\<rparr>)))"
      using inv by (simp add: usage_inv_def)
  qed (use key in \<open>simp add: live split del: if_split\<close>)
qed

lemma inv_delete:
  assumes "usage_inv db0 w"
    and "\<And>j. count db' j = count (w_db w) j \<or> (\<exists>e. count db' j = Inl e)"
  shows "usage_inv db0 (w\<lparr>w_db := db'\<rparr>)"
proof -
  have "remaining db' j = remaining (w_db w) j \<or> remaining db' j = 0" for j
    using assms(2)[of j] by (auto simp: remaining_def)
  with assms(1) show ?thesis
    unfolding usage_inv_def key_ok_def by simp (metis add_leD1 add.right_neutral le_0_eq)
qed

theorem reachable_inv:
  "usage_reachable count consume db0 w \<Longrightarrow> usage_inv db0 w"
proof (induction rule: usage_reachable.induct)
  case (reach_step w w')
  from reach_step.hyps(2) show ?case
  proof cases
    case (step_reserve k f' r h)
    then show ?thesis using inv_reserve[OF reach_step.IH] by simp
  next
    case (step_refuse k f' e)
    then show ?thesis using inv_refuse[OF reach_step.IH] by simp
  next
    case (step_commit h r c err r' f' db' res)
    show ?thesis
      unfolding step_commit(1) by (rule inv_commit[OF reach_step.IH step_commit(2,3,4)])
  next
    case (step_drop h r)
    then show ?thesis using inv_drop[OF reach_step.IH] by simp
  next
    case (step_delete db')
    show ?thesis
      unfolding step_delete(1) by (rule inv_delete[OF reach_step.IH step_delete(2)])
  qed
qed (rule inv_init)

end

interpretation ku: usage_store key_usage_count check_and_update_key_usage_count
proof
  fix db k r
  assume "key_usage_count db k = Inr r"
  then show "sint r > 0"
    by (auto simp: key_usage_count_def res_simps split: option.splits if_splits list.splits)
next
  fix k db db' u
  assume "check_and_update_key_usage_count k db = (db', Inr u)"
  then obtain r gc where r: "key_usage_count db k = Inr r"
    and upd: "check_and_update_key_usage_count_internal db k = Inr (db', gc)"
    by (auto simp: check_and_update_key_usage_count_def check_and_update_key_usage_count_internal_def
        res_simps split: sum.splits prod.splits)
  from r obtain e ls where e: "db k = Some e" "ke_live e" "ke_usage_limits e = r # ls" "sint r > 0"
    by (auto simp: key_usage_count_def res_simps split: option.splits if_splits list.splits)
  have "sint (r - 1) > 0 \<longleftrightarrow> r \<noteq> 1"
  proof -
    have "sint r = 1 \<longleftrightarrow> r = 1"
      using signed_word_eqI[of r 1] by auto
    then show ?thesis using sint_minus_1[OF e(4)] e(4) by auto
  qed
  then have "if r = 1 then \<exists>err. key_usage_count db' k = Inl err else key_usage_count db' k = Inr (r - 1)"
    using upd r e
    by (auto simp: check_and_update_key_usage_count_internal_def Let_def key_usage_count_def
        split: if_splits)
  with r show "\<exists>r. key_usage_count db k = Inr r \<and>
      (if r = 1 then \<exists>e. key_usage_count db' k = Inl e else key_usage_count db' k = Inr (r - 1))"
    by blast
next
  fix k db db' u j
  assume "check_and_update_key_usage_count k db = (db', Inr u)" and "j \<noteq> k"
  then show "key_usage_count db' j = key_usage_count db j"
    by (auto simp: check_and_update_key_usage_count_def check_and_update_key_usage_count_internal_def
        res_simps Let_def key_usage_count_def split: sum.splits prod.splits if_splits)
next
  fix k db db' e
  assume "check_and_update_key_usage_count k db = (db', Inl e)"
  then show "db' = db"
    by (auto simp: check_and_update_key_usage_count_def split: sum.splits prod.splits)
qed

section \<open>No use is granted twice\<close>

text \<open>
  C8: In every interleaving of reservations, commits (failing ones included), drops and key
  deletions, the in-flight map counts the live reservations of a key exactly and has no entry
  without one, the live reservations of a key that still exists never exceed its durable
  count, and the successful uses plus the durable count never exceed the count at the start.
\<close>

theorem reservations_never_overbook:
  assumes "usage_reachable key_usage_count check_and_update_key_usage_count db0 w"
  shows "w_in_flight w k = slot (live_reservations w k) \<and>
         (ku.remaining (w_db w) k = 0 \<or> live_reservations w k \<le> ku.remaining (w_db w) k) \<and>
         w_used w k + ku.remaining (w_db w) k \<le> ku.remaining db0 k"
  using ku.reachable_inv[OF assms] by (simp add: ku.usage_inv_def ku.key_ok_def)

definition sample_usage_db :: usage_db where
  "sample_usage_db = [7 \<mapsto> \<lparr>ke_live = True, ke_usage_limits = [2]\<rparr>]"

definition sample_usage_world :: "usage_db usage_world" where
  "sample_usage_world =
     \<lparr>w_in_flight = [7 \<mapsto> 1], w_db = sample_usage_db, w_handles = [0 \<mapsto> Some 7], w_used = (\<lambda>_. 0)\<rparr>"

lemma sample_usage_reachable:
  "usage_reachable key_usage_count check_and_update_key_usage_count sample_usage_db sample_usage_world"
proof -
  have "reserve Map.empty 7 (key_usage_count sample_usage_db 7) = ([7 \<mapsto> 1], Inr (Some 7))"
    by (simp add: reserve_def key_usage_count_def sample_usage_db_def)
  then have "usage_step key_usage_count check_and_update_key_usage_count
      (usage_init sample_usage_db) sample_usage_world"
    using usage_step.step_reserve[of "usage_init sample_usage_db" 7 key_usage_count "[7 \<mapsto> 1]" "Some 7" 0]
    by (simp add: usage_init_def sample_usage_world_def)
  then show ?thesis
    by (rule reach_step[OF reach_init])
qed

theorem reservations_never_overbook_witness:
  "w_in_flight sample_usage_world 7 = slot (live_reservations sample_usage_world 7) \<and>
   w_in_flight sample_usage_world 7 = Some 1 \<and>
   ku.remaining (w_db sample_usage_world) 7 = 2 \<and>
   live_reservations sample_usage_world 7 \<le> ku.remaining (w_db sample_usage_world) 7"
proof -
  have "ku.remaining (w_db sample_usage_world) 7 = 2"
    by (simp add: ku.remaining_def key_usage_count_def sample_usage_world_def sample_usage_db_def)
  with reservations_never_overbook[OF sample_usage_reachable, of 7] show ?thesis
    by (simp add: sample_usage_world_def)
qed

text \<open>
  What the client of a limited-use key sees.  As long as the key has uses left that are not
  reserved, a reservation succeeds; when all are reserved it is refused as KEY-MAX-OPS-EXCEEDED,
  and when the key is exhausted, deleted or not live as INVALID-KEY-BLOB.  Committing a
  reservation of a key with one counter row that still exists succeeds, releases the slot and
  takes one use off; a committed reservation cannot be committed again.
\<close>

theorem reservation_outcomes:
  assumes "usage_reachable key_usage_count check_and_update_key_usage_count db0 w"
  shows "snd (reserve (w_in_flight w) k (key_usage_count (w_db w) k)) =
           (if ku.remaining (w_db w) k = 0 then ks_km ErrorCode_InvalidKeyBlob
            else if live_reservations w k < ku.remaining (w_db w) k then Inr (Some k)
            else ks_km ErrorCode_KeyMaxOpsExceeded) \<and>
         (\<exists>db'. commit (Some k) (w_in_flight w) ((w_db w)(k \<mapsto> \<lparr>ke_live = True, ke_usage_limits = [c]\<rparr>))
                  check_and_update_key_usage_count
                = (None, remove_slot (w_in_flight w) k, db',
                   if sint c > 0 then Inr () else ks_km ErrorCode_InvalidKeyBlob) \<and>
                ku.remaining db' k = nat (sint c) - 1) \<and>
         commit None (w_in_flight w) (w_db w) check_and_update_key_usage_count
           = (None, w_in_flight w, w_db w, ks_km ErrorCode_InvalidOperationHandle)"
proof (intro conjI)
  have inl: "key_usage_count (w_db w) k = Inl e \<Longrightarrow> e = KsError_Km ErrorCode_InvalidKeyBlob" for e
    by (simp add: key_usage_count_def res_simps)
  show "snd (reserve (w_in_flight w) k (key_usage_count (w_db w) k)) =
           (if ku.remaining (w_db w) k = 0 then ks_km ErrorCode_InvalidKeyBlob
            else if live_reservations w k < ku.remaining (w_db w) k then Inr (Some k)
            else ks_km ErrorCode_KeyMaxOpsExceeded)"
    unfolding ku.reserve_eq[OF ku.reachable_inv[OF assms]]
    using inl ku.count_positive[of "w_db w" k]
    by (auto simp: ku.remaining_def split: sum.splits)
  show "commit None (w_in_flight w) (w_db w) check_and_update_key_usage_count
          = (None, w_in_flight w, w_db w, ks_km ErrorCode_InvalidOperationHandle)"
    by (simp add: commit_def)
  define db where "db = (w_db w)(k \<mapsto> \<lparr>ke_live = True, ke_usage_limits = [c]\<rparr>)"
  obtain db' res where upd: "check_and_update_key_usage_count k db = (db', res)"
    by fastforce
  have count: "key_usage_count db k = (if sint c > 0 then Inr c else ks_km ErrorCode_InvalidKeyBlob)"
    by (simp add: key_usage_count_def db_def)
  have res: "res = (if sint c > 0 then Inr () else ks_km ErrorCode_InvalidKeyBlob)"
    using upd count
    by (auto simp: check_and_update_key_usage_count_def check_and_update_key_usage_count_internal_def
        Let_def db_def split: if_splits)
  have "ku.remaining db' k = nat (sint c) - 1"
  proof (cases "sint c > 0")
    case True
    then show ?thesis
      using ku.remaining_consume(2)[of k db db' "()" k] upd res count by (simp add: ku.remaining_def)
  next
    case False
    then show ?thesis
      using ku.consume_error[of k db db'] upd res count by (simp add: ku.remaining_def)
  qed
  then show "\<exists>db'. commit (Some k) (w_in_flight w)
        ((w_db w)(k \<mapsto> \<lparr>ke_live = True, ke_usage_limits = [c]\<rparr>)) check_and_update_key_usage_count
      = (None, remove_slot (w_in_flight w) k, db',
         if sint c > 0 then Inr () else ks_km ErrorCode_InvalidKeyBlob) \<and>
      ku.remaining db' k = nat (sint c) - 1"
    using upd res unfolding db_def[symmetric] by (simp add: commit_def)
qed

theorem reservation_outcomes_witness:
  "snd (reserve (w_in_flight sample_usage_world) 7
      (key_usage_count (w_db sample_usage_world) 7)) = Inr (Some 7) \<and>
   live_reservations sample_usage_world 7 < ku.remaining (w_db sample_usage_world) 7"
proof -
  have "ku.remaining (w_db sample_usage_world) 7 = 2"
    by (simp add: ku.remaining_def key_usage_count_def sample_usage_world_def sample_usage_db_def)
  moreover have "{h. w_handles sample_usage_world h = Some (Some 7)} = {0}"
    by (auto simp: sample_usage_world_def)
  ultimately show ?thesis
    using reservation_outcomes[OF sample_usage_reachable, of 7 0]
    by (simp add: live_reservations_def)
qed

end
