(* ===== verification/Auth_Tokens.thy ===== *)
theory Auth_Tokens
  imports Key_Usage "HOL-Library.Signed_Division"
begin

text \<open>
  Hardware auth tokens in the Keystore daemon: the per-boot token store
  (\<^verbatim>\<open>src/src/keymaster/database/perboot.rs\<close> and \<open>AuthTokenEntry\<close>, \<open>BootTime\<close> of
  \<^verbatim>\<open>src/src/keymaster/db.rs\<close>), the outstanding per-operation auth requests
  (\<open>TokenReceiverMap\<close>, \<open>AuthRequest\<close>) and the deferred authorization state of an operation
  (\<open>AuthInfo\<close>) of \<^verbatim>\<open>src/src/keymaster/enforcements.rs\<close>.  An \<open>Arc<AuthRequest>\<close> is an
  identifier into a heap of requests; it is in the heap as long as an operation refers to it,
  which is what \<open>Weak::upgrade\<close> tests.
\<close>

section \<open>Tokens\<close>

record HardwareAuthToken =
  hat_challenge :: i64
  hat_userId :: i64
  hat_authenticatorId :: i64
  hat_authenticatorType :: i32
  hat_timestamp :: i64
  hat_mac :: bytes

record TimeStampToken =
  tst_challenge :: i64
  tst_timestamp :: i64
  tst_mac :: bytes

text \<open>\<open>BootTime\<close> in milliseconds.\<close>

definition fits_i64 :: "int \<Rightarrow> bool" where
  "fits_i64 v \<longleftrightarrow> - (2 ^ 63) \<le> v \<and> v < 2 ^ 63"

definition BootTime_checked_sub :: "i64 \<Rightarrow> i64 \<Rightarrow> i64 option" where
  "BootTime_checked_sub a b = (if fits_i64 (sint a - sint b) then Some (a - b) else None)"

definition BootTime_seconds :: "i64 \<Rightarrow> int" where
  "BootTime_seconds t = sint t sdiv 1000"

record AuthTokenEntry =
  ate_auth_token :: HardwareAuthToken
  ate_time_received :: i64

definition satisfies :: "AuthTokenEntry \<Rightarrow> i64 list \<Rightarrow> i32 \<Rightarrow> bool" where
  "satisfies self user_sids auth_type =
     list_ex (\<lambda>sid. (sid = hat_userId (ate_auth_token self)
                     \<or> sid = hat_authenticatorId (ate_auth_token self))
                    \<and> auth_type AND hat_authenticatorType (ate_auth_token self) \<noteq> 0) user_sids"

section \<open>The per-boot store\<close>

type_synonym AuthTokenId = "i64 \<times> i64 \<times> i32"

definition from_auth_token :: "HardwareAuthToken \<Rightarrow> AuthTokenId" where
  "from_auth_token tok = (hat_userId tok, hat_authenticatorId tok, hat_authenticatorType tok)"

text \<open>
  The hash set, in its iteration order.  Two entries are equal in it when their ids are;
  \<open>HashSet::replace\<close> puts the new entry in the place of an equal one.
\<close>

type_synonym PerbootDB = "AuthTokenEntry list"

definition entry_id :: "AuthTokenEntry \<Rightarrow> AuthTokenId" where
  "entry_id e = from_auth_token (ate_auth_token e)"

definition insert_auth_token_entry :: "PerbootDB \<Rightarrow> AuthTokenEntry \<Rightarrow> PerbootDB" where
  "insert_auth_token_entry db entry = filter (\<lambda>e. entry_id e \<noteq> entry_id entry) db @ [entry]"

definition find_auth_token_entry ::
    "PerbootDB \<Rightarrow> (AuthTokenEntry \<Rightarrow> bool) \<Rightarrow> AuthTokenEntry option" where
  "find_auth_token_entry db p =
     (let matches = sort_by (\<lambda>x y. cmp (sint (ate_time_received x)) (sint (ate_time_received y)))
                      (filter p db)
      in if matches = [] then None else Some (last matches))"

text \<open>\<open>KeystoreDB::insert_auth_token\<close> stamps the token with the current boot time.\<close>

definition insert_auth_token :: "PerbootDB \<Rightarrow> i64 \<Rightarrow> HardwareAuthToken \<Rightarrow> PerbootDB" where
  "insert_auth_token db now hat =
     insert_auth_token_entry db \<lparr>ate_auth_token = hat, ate_time_received = now\<rparr>"

section \<open>Outstanding auth requests\<close>

text \<open>
  \<open>AuthRequestState::TimeStamp\<close> holds the channel to the worker that asks the secure clock;
  it is the answer the blocking \<open>recv\<close> gets, or \<open>None\<close> if the worker hangs up.
\<close>

datatype AuthRequestState = OpAuth | TimeStamp "(KsError + TimeStampToken) option"

record AuthRequest =
  ar_state :: AuthRequestState
  ar_hat :: "HardwareAuthToken option"

type_synonym request_heap = "nat \<Rightarrow> AuthRequest option"

definition AuthRequest_op_auth :: AuthRequest where
  "AuthRequest_op_auth = \<lparr>ar_state = OpAuth, ar_hat = None\<rparr>"

definition AuthRequest_timestamp ::
    "HardwareAuthToken \<Rightarrow> (KsError + TimeStampToken) option \<Rightarrow> AuthRequest" where
  "AuthRequest_timestamp hat receiver = \<lparr>ar_state = TimeStamp receiver, ar_hat = Some hat\<rparr>"

text \<open>
  \<open>AuthRequest::get_auth_tokens\<close> takes the token out of the request.  An error that is not one
  of Keystore's own (the disconnected channel) reaches the client as a system error.
\<close>

definition AuthRequest_get_auth_tokens ::
    "AuthRequest \<Rightarrow> AuthRequest \<times> (KsError + (HardwareAuthToken \<times> TimeStampToken option))" where
  "AuthRequest_get_auth_tokens self = (case ar_hat self of
     None \<Rightarrow> (self, ks_km ErrorCode_KeyUserNotAuthenticated)
   | Some hat \<Rightarrow>
       (self\<lparr>ar_hat := None\<rparr>,
        (case ar_state self of
           TimeStamp None \<Rightarrow> Inl KsError_sys
         | TimeStamp (Some result) \<Rightarrow> map_ok (\<lambda>t. (hat, Some t)) result
         | OpAuth \<Rightarrow> Inr (hat, None))))"

record TokenReceiver =
  tr_req :: nat
  tr_sids :: "i64 list"
  tr_auth_type :: i32

definition is_obsolete :: "request_heap \<Rightarrow> TokenReceiver \<Rightarrow> bool" where
  "is_obsolete heap self \<longleftrightarrow> heap (tr_req self) = None"

text \<open>A token that does not match the expected user or type is only logged as such.\<close>

definition TokenReceiver_add_auth_token ::
    "TokenReceiver \<Rightarrow> HardwareAuthToken \<Rightarrow> request_heap \<Rightarrow> request_heap" where
  "TokenReceiver_add_auth_token self hat heap = (case heap (tr_req self) of
     Some req \<Rightarrow> heap(tr_req self \<mapsto> req\<lparr>ar_hat := Some hat\<rparr>)
   | None \<Rightarrow> heap)"

record TokenReceiverMap =
  trm_map :: "i64 \<Rightarrow> TokenReceiver option"
  trm_cleanup_counter :: u8

definition CLEANUP_PERIOD :: u8 where
  "CLEANUP_PERIOD = 25"

definition TokenReceiverMap_default :: TokenReceiverMap where
  "TokenReceiverMap_default = \<lparr>trm_map = Map.empty, trm_cleanup_counter = CLEANUP_PERIOD + 1\<rparr>"

definition TokenReceiverMap_add_auth_token ::
    "TokenReceiverMap \<Rightarrow> HardwareAuthToken \<Rightarrow> request_heap \<Rightarrow> TokenReceiverMap \<times> request_heap" where
  "TokenReceiverMap_add_auth_token self hat heap =
     (case trm_map self (hat_challenge hat) of
        Some recv \<Rightarrow>
          (self\<lparr>trm_map := (trm_map self)(hat_challenge hat := None)\<rparr>,
           TokenReceiver_add_auth_token recv hat heap)
      | None \<Rightarrow> (self, heap))"

definition add_receiver ::
    "TokenReceiverMap \<Rightarrow> request_heap \<Rightarrow> i64 \<Rightarrow> TokenReceiver \<Rightarrow> TokenReceiverMap" where
  "add_receiver self heap challenge recv =
     (let map = (trm_map self)(challenge \<mapsto> recv);
          cleanup_counter = trm_cleanup_counter self - 1
      in if cleanup_counter = 0
         then \<lparr>trm_map = (\<lambda>c. case map c of
                  Some v \<Rightarrow> if is_obsolete heap v then None else Some v | None \<Rightarrow> None),
               trm_cleanup_counter = CLEANUP_PERIOD + 1\<rparr>
         else \<lparr>trm_map = map, trm_cleanup_counter = cleanup_counter\<rparr>)"

section \<open>Deferred authorization of an operation\<close>

datatype DeferredAuthState =
    NoAuthRequired
  | OpAuthRequired "i64 list" i32
  | TimeStampRequired HardwareAuthToken
  | Waiting nat
  | Token HardwareAuthToken "TimeStampToken option"

text \<open>
  The operation holds a reference to the one confirmation channel of the daemon or none.  The
  channel, if its receiver is installed, is the list of the tokens in it.
\<close>

type_synonym confirmation_channel = "bytes list option"

record AuthInfo =
  ai_state :: DeferredAuthState
  ai_key_usage_reservation :: "KeyUsageReservation option"
  ai_confirmation_token_receiver :: bool

text \<open>
  \<open>finalize_create_authorization\<close>, with the identifier of the new request and the answer the
  timestamp worker will give.
\<close>

definition finalize_create_authorization ::
    "AuthInfo \<Rightarrow> TokenReceiverMap \<Rightarrow> request_heap \<Rightarrow> nat \<Rightarrow> (KsError + TimeStampToken) option \<Rightarrow> i64
     \<Rightarrow> AuthInfo \<times> TokenReceiverMap \<times> request_heap \<times> i64 option" where
  "finalize_create_authorization self op_auth_map heap req clock challenge = (case ai_state self of
     OpAuthRequired sids auth_type \<Rightarrow>
       let heap = heap(req \<mapsto> AuthRequest_op_auth);
           token_receiver = \<lparr>tr_req = req, tr_sids = sids, tr_auth_type = auth_type\<rparr>
       in (self\<lparr>ai_state := Waiting req\<rparr>, add_receiver op_auth_map heap challenge token_receiver,
           heap, Some challenge)
   | TimeStampRequired hat \<Rightarrow>
       (self\<lparr>ai_state := Waiting req\<rparr>, op_auth_map,
        heap(req \<mapsto> AuthRequest_timestamp hat clock), None)
   | _ \<Rightarrow> (self, op_auth_map, heap, None))"

text \<open>
  When the tokens have arrived, the state moves from \<open>Waiting\<close> to \<open>Token\<close> and the last
  reference to the request goes away.
\<close>

definition AuthInfo_get_auth_tokens ::
    "AuthInfo \<Rightarrow> request_heap
     \<Rightarrow> AuthInfo \<times> request_heap \<times> (KsError + (HardwareAuthToken option \<times> TimeStampToken option))" where
  "AuthInfo_get_auth_tokens self heap = (case ai_state self of
     Waiting req \<Rightarrow>
       (case AuthRequest_get_auth_tokens (the (heap req)) of
          (req', Inl e) \<Rightarrow> (self, heap(req \<mapsto> req'), Inl e)
        | (_, Inr (hat, tst)) \<Rightarrow>
            (self\<lparr>ai_state := Token hat tst\<rparr>, heap(req := None), Inr (Some hat, tst)))
   | NoAuthRequired \<Rightarrow> (self, heap, Inr (None, None))
   | Token hat tst \<Rightarrow> (self, heap, Inr (Some hat, tst))
   | OpAuthRequired _ _ \<Rightarrow> (self, heap, ks_km ErrorCode_KeyUserNotAuthenticated)
   | TimeStampRequired _ \<Rightarrow> (self, heap, ks_km ErrorCode_KeyUserNotAuthenticated))"

definition before_update ::
    "AuthInfo \<Rightarrow> request_heap
     \<Rightarrow> AuthInfo \<times> request_heap \<times> (KsError + (HardwareAuthToken option \<times> TimeStampToken option))" where
  "before_update self heap = AuthInfo_get_auth_tokens self heap"

text \<open>\<open>before_finish\<close> drains the confirmation channel and keeps the most recent token.\<close>

definition before_finish ::
    "AuthInfo \<Rightarrow> request_heap \<Rightarrow> confirmation_channel
     \<Rightarrow> AuthInfo \<times> request_heap \<times> confirmation_channel
        \<times> (KsError + (HardwareAuthToken option \<times> TimeStampToken option \<times> bytes option))" where
  "before_finish self heap channel =
     (let (channel, confirmation_token) =
            (if ai_confirmation_token_receiver self
             then (case channel of
                     Some tokens \<Rightarrow> (Some [], if tokens = [] then None else Some (last tokens))
                   | None \<Rightarrow> (None, None))
             else (channel, None))
      in (case AuthInfo_get_auth_tokens self heap of
            (self, heap, result) \<Rightarrow>
              (self, heap, channel, map_ok (\<lambda>(hat, tst). (hat, tst, confirmation_token)) result)))"

definition after_finish ::
    "AuthInfo \<Rightarrow> in_flight \<Rightarrow> usage_db \<Rightarrow> AuthInfo \<times> in_flight \<times> usage_db \<times> (KsError + unit)" where
  "after_finish self in_flight db = (case ai_key_usage_reservation self of
     None \<Rightarrow> (self, in_flight, db, Inr ())
   | Some reservation \<Rightarrow>
       (case commit reservation in_flight db check_and_update_key_usage_count of
          (reservation', in_flight', db', result) \<Rightarrow>
            (self\<lparr>ai_key_usage_reservation := None\<rparr>,
             drop_reservation reservation' in_flight', db', result)))"

definition release_usage_reservation :: "AuthInfo \<Rightarrow> in_flight \<Rightarrow> AuthInfo \<times> in_flight" where
  "release_usage_reservation self in_flight = (case ai_key_usage_reservation self of
     None \<Rightarrow> (self, in_flight)
   | Some reservation \<Rightarrow>
       (self\<lparr>ai_key_usage_reservation := None\<rparr>, drop_reservation reservation in_flight))"

section \<open>The store returns the most recent match\<close>

locale auth_token_store =
  fixes entries :: "'db \<Rightarrow> AuthTokenEntry set"
    and find :: "'db \<Rightarrow> (AuthTokenEntry \<Rightarrow> bool) \<Rightarrow> AuthTokenEntry option"
  assumes find_Some: "find db p = Some e \<Longrightarrow>
            is_arg_max (\<lambda>e. sint (ate_time_received e)) (\<lambda>e. e \<in> entries db \<and> p e) e"
    and find_None: "find db p = None \<longleftrightarrow> (\<forall>e \<in> entries db. \<not> p e)"
begin

lemma found:
  assumes "find db p = Some e"
  shows "e \<in> entries db" "p e"
    "e' \<in> entries db \<Longrightarrow> p e' \<Longrightarrow> sint (ate_time_received e') \<le> sint (ate_time_received e)"
  using find_Some[OF assms] by (auto simp: is_arg_max_def not_less)

lemma exists_match: "(\<exists>e. find db p = Some e) \<longleftrightarrow> (\<exists>e \<in> entries db. p e)"
  using find_None[of db p] by (cases "find db p") (auto dest: found)

lemma find_by:
  assumes "\<And>e. e \<in> entries db \<and> p e \<longleftrightarrow> q e"
  shows "case find db p of
           None \<Rightarrow> \<not> (\<exists>e. q e) | Some e \<Rightarrow> is_arg_max (\<lambda>e. sint (ate_time_received e)) q e"
  using find_None[of db p] find_Some[of db p] assms by (auto split: option.split)

end

lemma comparison_on: "comparison (\<lambda>x y. cmp (f x) (f y))"
  by unfold_locales auto

lemma last_sorted_max:
  assumes "sorted_wrt (\<lambda>x y. (f x :: int) \<le> f y) xs" and "x \<in> set xs"
  shows "f x \<le> f (last xs)"
  using assms by (induction xs) (auto simp: last_ConsR)

lemma find_auth_token_entry_max:
  assumes "find_auth_token_entry db p = Some e"
  shows "is_arg_max (\<lambda>e. sint (ate_time_received e)) (\<lambda>e. e \<in> set db \<and> p e) e"
proof -
  define c :: "AuthTokenEntry \<Rightarrow> AuthTokenEntry \<Rightarrow> ordering"
    where "c = (\<lambda>x y. cmp (sint (ate_time_received x)) (sint (ate_time_received y)))"
  define ms where "ms = sort_by c (filter p db)"
  have comp: "comparison c" unfolding c_def by (rule comparison_on)
  from assms have ne: "ms \<noteq> []" and e: "e = last ms"
    by (auto simp: find_auth_token_entry_def ms_def c_def Let_def split: if_splits)
  have "sorted_wrt (comparison.le_by c) ms"
    unfolding ms_def by (rule comparison.sorted_sort_by[OF comp])
  moreover have "comparison.le_by c = (\<lambda>x y. sint (ate_time_received x) \<le> sint (ate_time_received y))"
    by (intro ext, subst comparison.le_by_def[OF comp]) (simp add: c_def not_less)
  ultimately have "sorted_wrt (\<lambda>x y. sint (ate_time_received x) \<le> sint (ate_time_received y)) ms"
    by simp
  from last_sorted_max[where f = "\<lambda>e. sint (ate_time_received e)", OF this]
  have "x \<in> set db \<Longrightarrow> p x \<Longrightarrow> sint (ate_time_received x) \<le> sint (ate_time_received e)" for x
    by (simp add: ms_def e)
  moreover have "e \<in> set db \<and> p e"
    using last_in_set[OF ne] by (simp add: ms_def e)
  ultimately show ?thesis by (auto simp: is_arg_max_def not_less)
qed

interpretation pb: auth_token_store set find_auth_token_entry
proof
  fix db p
  show "find_auth_token_entry db p = None \<longleftrightarrow> (\<forall>e \<in> set db. \<not> p e)"
    by (simp add: find_auth_token_entry_def Let_def filter_empty_conv)
qed (rule find_auth_token_entry_max)

lemma filter_id_insert:
  "filter (\<lambda>e. entry_id e = i) (insert_auth_token_entry db x) =
     (if entry_id x = i then [x] else filter (\<lambda>e. entry_id e = i) db)"
  by (auto simp: insert_auth_token_entry_def filter_empty_conv intro: filter_cong)

lemma distinct_insert:
  "distinct (map entry_id db) \<Longrightarrow> distinct (map entry_id (insert_auth_token_entry db x))"
  by (auto simp: insert_auth_token_entry_def distinct_map inj_on_def)

text \<open>
  The per-boot token store.  After any sequence of insertions it holds exactly one entry
  for every user, authenticator and type that was inserted, the latest one, and a search returns
  a matching entry with the greatest receive time, or nothing when there is no match.
\<close>

theorem perboot_store_correct:
  "distinct (map entry_id (foldl insert_auth_token_entry [] es)) \<and>
   filter (\<lambda>e. entry_id e = i) (foldl insert_auth_token_entry [] es) =
     (let xs = filter (\<lambda>e. entry_id e = i) es in if xs = [] then [] else [last xs]) \<and>
   (case find_auth_token_entry db p of
      None \<Rightarrow> filter p db = []
    | Some e \<Rightarrow> is_arg_max (\<lambda>e. sint (ate_time_received e)) (\<lambda>e. e \<in> set db \<and> p e) e)"
proof (intro conjI)
  show "distinct (map entry_id (foldl insert_auth_token_entry [] es))"
    by (induction es rule: rev_induct) (auto intro: distinct_insert)
  show "filter (\<lambda>e. entry_id e = i) (foldl insert_auth_token_entry [] es) =
     (let xs = filter (\<lambda>e. entry_id e = i) es in if xs = [] then [] else [last xs])"
    by (induction es rule: rev_induct) (simp_all add: filter_id_insert)
  show "case find_auth_token_entry db p of
      None \<Rightarrow> filter p db = []
    | Some e \<Rightarrow> is_arg_max (\<lambda>e. sint (ate_time_received e)) (\<lambda>e. e \<in> set db \<and> p e) e"
    using pb.find_None[of db p] pb.find_Some[of db p]
    by (auto simp: filter_empty_conv split: option.split)
qed

section \<open>Per-operation authorization\<close>

text \<open>Tokens arriving from the authenticators.\<close>

definition deliver ::
    "TokenReceiverMap \<times> request_heap \<Rightarrow> HardwareAuthToken list \<Rightarrow> TokenReceiverMap \<times> request_heap" where
  "deliver = foldl (\<lambda>(m, heap) hat. TokenReceiverMap_add_auth_token m hat heap)"

text \<open>
  While no token with the challenge has arrived, the request waits with its receiver in the
  map; afterwards it has the first such token and no receiver refers to it.
\<close>

definition referrers :: "TokenReceiverMap \<Rightarrow> nat \<Rightarrow> i64 set" where
  "referrers m req = {c. map_option tr_req (trm_map m c) = Some req}"

definition waiting_at :: "TokenReceiverMap \<Rightarrow> request_heap \<Rightarrow> nat \<Rightarrow> i64 \<Rightarrow> bool" where
  "waiting_at m heap req challenge \<longleftrightarrow>
     heap req = Some AuthRequest_op_auth \<and> referrers m req = {challenge}"

definition fulfilled_at :: "TokenReceiverMap \<Rightarrow> request_heap \<Rightarrow> nat \<Rightarrow> HardwareAuthToken \<Rightarrow> bool" where
  "fulfilled_at m heap req hat \<longleftrightarrow>
     heap req = Some (AuthRequest_op_auth\<lparr>ar_hat := Some hat\<rparr>) \<and> referrers m req = {}"

lemma add_auth_token_effect:
  assumes "TokenReceiverMap_add_auth_token m h heap = (m', heap')"
  shows "referrers m' req = referrers m req - {hat_challenge h}"
    and "heap' req = (if hat_challenge h \<in> referrers m req
           then map_option (\<lambda>r. r\<lparr>ar_hat := Some h\<rparr>) (heap req) else heap req)"
  using assms
  by (auto simp: referrers_def TokenReceiverMap_add_auth_token_def TokenReceiver_add_auth_token_def
      split: option.splits if_splits)

lemma fulfilled_step:
  assumes "fulfilled_at m heap req hat" and "TokenReceiverMap_add_auth_token m h heap = (m', heap')"
  shows "fulfilled_at m' heap' req hat"
  using assms(1) add_auth_token_effect[OF assms(2), of req] by (simp add: fulfilled_at_def)

lemma waiting_step:
  assumes "waiting_at m heap req challenge"
    and "TokenReceiverMap_add_auth_token m h heap = (m', heap')"
  shows "if hat_challenge h = challenge then fulfilled_at m' heap' req h
         else waiting_at m' heap' req challenge"
  using assms(1) add_auth_token_effect[OF assms(2), of req]
  by (simp add: waiting_at_def fulfilled_at_def)

lemma deliver_simps [simp]:
  "deliver s [] = s"
  "deliver (m, heap) (h # hs) = deliver (TokenReceiverMap_add_auth_token m h heap) hs"
  by (simp_all add: deliver_def)

lemma deliver_fulfilled:
  "fulfilled_at m heap req hat \<Longrightarrow> deliver (m, heap) hs = (m', heap') \<Longrightarrow> fulfilled_at m' heap' req hat"
proof (induction hs arbitrary: m heap)
  case (Cons h hs)
  obtain m1 heap1 where step: "TokenReceiverMap_add_auth_token m h heap = (m1, heap1)"
    by fastforce
  from Cons.IH[OF fulfilled_step[OF Cons.prems(1) step]] Cons.prems(2) step show ?case by simp
qed simp

lemma deliver_waiting:
  assumes "waiting_at m heap req challenge" and "deliver (m, heap) hs = (m', heap')"
  shows "case List.find (\<lambda>h. hat_challenge h = challenge) hs of
           None \<Rightarrow> waiting_at m' heap' req challenge
         | Some hat \<Rightarrow> fulfilled_at m' heap' req hat"
  using assms
proof (induction hs arbitrary: m heap)
  case (Cons h hs)
  obtain m1 heap1 where step: "TokenReceiverMap_add_auth_token m h heap = (m1, heap1)"
    by fastforce
  note nxt = waiting_step[OF Cons.prems(1) step]
  show ?case
  proof (cases "hat_challenge h = challenge")
    case True
    with nxt deliver_fulfilled[of m1 heap1 req h hs m' heap'] Cons.prems(2) step show ?thesis
      by simp
  next
    case False
    with nxt Cons.IH[of m1 heap1] Cons.prems(2) step show ?thesis by simp
  qed
qed simp

lemma referrers_add_receiver:
  assumes "heap (tr_req r) \<noteq> None"
  shows "referrers (add_receiver m heap c r) (tr_req r) = insert c (referrers m (tr_req r))"
proof (rule set_eqI)
  fix x
  show "x \<in> referrers (add_receiver m heap c r) (tr_req r)
      \<longleftrightarrow> x \<in> insert c (referrers m (tr_req r))"
    using assms
    by (cases "trm_map m x")
      (auto simp: referrers_def add_receiver_def Let_def is_obsolete_def)
qed

lemma finalize_waiting:
  assumes "ai_state ai = OpAuthRequired sids ty" and "referrers m req = {}"
    and "finalize_create_authorization ai m heap req clock challenge = (ai', m', heap', ch)"
  shows "ai_state ai' = Waiting req" "ch = Some challenge" "waiting_at m' heap' req challenge"
proof -
  define r where "r = \<lparr>tr_req = req, tr_sids = sids, tr_auth_type = ty\<rparr>"
  have eqs: "ai' = ai\<lparr>ai_state := Waiting req\<rparr>" "ch = Some challenge"
    "heap' = heap(req \<mapsto> AuthRequest_op_auth)" "m' = add_receiver m heap' challenge r"
    using assms(1,3) by (auto simp: finalize_create_authorization_def Let_def r_def)
  then show "ai_state ai' = Waiting req" and "ch = Some challenge"
    by simp_all
  show "waiting_at m' heap' req challenge"
    using referrers_add_receiver[of heap' r m challenge] assms(2) eqs(3,4)
    by (simp add: waiting_at_def r_def)
qed

text \<open>
  C21: An operation whose key needs authorization per operation can proceed only with a token
  for its own challenge.  After the operation is created it is given its challenge; whatever
  tokens then arrive, asking for the tokens of the operation fails as not authenticated unless
  one of them carries that challenge, and otherwise yields the first that does, from then on
  every time.  (The request is a new one, so no receiver refers to it yet.)
\<close>

theorem op_auth_correct:
  assumes "ai_state ai = OpAuthRequired sids ty" and "referrers m req = {}"
    and "finalize_create_authorization ai m heap req clock challenge = (ai', m', heap', ch)"
    and "deliver (m', heap') hats = (m2, heap2)"
    and "AuthInfo_get_auth_tokens ai' heap2 = (ai3, heap3, res)"
  shows "ch = Some challenge \<and>
         res = (case List.find (\<lambda>h. hat_challenge h = challenge) hats of
                  None \<Rightarrow> ks_km ErrorCode_KeyUserNotAuthenticated
                | Some hat \<Rightarrow> Inr (Some hat, None)) \<and>
         snd (snd (AuthInfo_get_auth_tokens ai3 heap3)) = res"
proof -
  note fin = finalize_waiting[OF assms(1-3)]
  have "case List.find (\<lambda>h. hat_challenge h = challenge) hats of
          None \<Rightarrow> waiting_at m2 heap2 req challenge
        | Some hat \<Rightarrow> fulfilled_at m2 heap2 req hat"
    by (rule deliver_waiting[OF fin(3) assms(4)])
  then show ?thesis
    using assms(5) fin(1,2)
    by (auto simp: AuthInfo_get_auth_tokens_def AuthRequest_get_auth_tokens_def waiting_at_def
        fulfilled_at_def AuthRequest_op_auth_def split: option.splits)
qed

definition sample_hat :: "i64 \<Rightarrow> HardwareAuthToken" where
  "sample_hat c = \<lparr>hat_challenge = c, hat_userId = 1, hat_authenticatorId = 2,
     hat_authenticatorType = 1, hat_timestamp = 0, hat_mac = []\<rparr>"

definition sample_auth_info :: AuthInfo where
  "sample_auth_info = \<lparr>ai_state = OpAuthRequired [1] 1, ai_key_usage_reservation = None,
     ai_confirmation_token_receiver = False\<rparr>"

theorem op_auth_correct_witness:
  "case finalize_create_authorization sample_auth_info TokenReceiverMap_default Map.empty 0 None 42 of
     (ai', m', heap', ch) \<Rightarrow>
       (case deliver (m', heap') [sample_hat 41, sample_hat 42] of
          (m2, heap2) \<Rightarrow>
            ch = Some 42 \<and>
            snd (snd (AuthInfo_get_auth_tokens ai' heap2)) = Inr (Some (sample_hat 42), None))"
proof -
  obtain ai' m' heap' ch where
    fin: "finalize_create_authorization sample_auth_info TokenReceiverMap_default Map.empty 0 None 42
          = (ai', m', heap', ch)"
    using prod_cases4 by blast
  obtain m2 heap2 where del: "deliver (m', heap') [sample_hat 41, sample_hat 42] = (m2, heap2)"
    by fastforce
  obtain ai3 heap3 res where get: "AuthInfo_get_auth_tokens ai' heap2 = (ai3, heap3, res)"
    using prod_cases3 by blast
  have "ai_state sample_auth_info = OpAuthRequired [1] 1"
    and "referrers TokenReceiverMap_default 0 = {}"
    by (simp_all add: sample_auth_info_def referrers_def TokenReceiverMap_default_def)
  from op_auth_correct[OF this fin del get] fin del get show ?thesis
    by (simp add: sample_hat_def)
qed

section \<open>Cleaning up stale receivers\<close>

definition add_receivers ::
    "(request_heap \<times> i64 \<times> TokenReceiver) list \<Rightarrow> TokenReceiverMap" where
  "add_receivers = foldl (\<lambda>m (heap, challenge, recv). add_receiver m heap challenge recv)
     TokenReceiverMap_default"

lemma add_receiver_counter:
  assumes "0 < unat (trm_cleanup_counter m)"
  shows "unat (trm_cleanup_counter (add_receiver m heap c r)) =
           (if unat (trm_cleanup_counter m) = 1 then 26 else unat (trm_cleanup_counter m) - 1)"
proof -
  have "trm_cleanup_counter m \<noteq> 0" using assms by auto
  then have "unat (trm_cleanup_counter m - 1) = unat (trm_cleanup_counter m) - 1"
    by (rule unat_minus_one)
  moreover from this have "trm_cleanup_counter m - 1 = 0 \<longleftrightarrow> unat (trm_cleanup_counter m) = 1"
    using assms by (metis One_nat_def Suc_pred unat_eq_0 diff_self_eq_0)
  ultimately show ?thesis
    by (simp add: add_receiver_def Let_def CLEANUP_PERIOD_def)
qed

lemma add_receivers_snoc:
  "add_receivers (xs @ [(heap, c, r)]) = add_receiver (add_receivers xs) heap c r"
  by (simp add: add_receivers_def)

lemma cleanup_counter:
  "unat (trm_cleanup_counter (add_receivers xs)) = 26 - length xs mod 26"
proof (induction xs rule: rev_induct)
  case Nil
  show ?case by (simp add: add_receivers_def TokenReceiverMap_default_def CLEANUP_PERIOD_def)
next
  case (snoc x xs)
  obtain heap c r where x: "x = (heap, c, r)" by (rule prod_cases3)
  have less: "length xs mod 26 < 26" by simp
  show ?case
    using add_receiver_counter[of "add_receivers xs" heap c r] snoc less
    by (auto simp: x add_receivers_snoc mod_Suc)
qed

text \<open>
  The cleanup counter stays between one and twenty-six, so the decrement of the byte does
  not wrap.  Every twenty-sixth registration cleans the map: exactly the receivers of operations
  that still exist are kept; every other registration only adds its receiver.
\<close>

theorem receiver_cleanup:
  "unat (trm_cleanup_counter (add_receivers xs)) = 26 - length xs mod 26 \<and>
   trm_map (add_receiver (add_receivers xs) heap challenge recv) =
     (if length xs mod 26 = 25
      then (\<lambda>c. Option.bind (((trm_map (add_receivers xs))(challenge \<mapsto> recv)) c)
                  (\<lambda>r. if heap (tr_req r) = None then None else Some r))
      else (trm_map (add_receivers xs))(challenge \<mapsto> recv))"
proof
  let ?m = "add_receivers xs"
  show counter: "unat (trm_cleanup_counter ?m) = 26 - length xs mod 26"
    by (rule cleanup_counter)
  have less: "length xs mod 26 < 26" by simp
  have "trm_cleanup_counter ?m = 1 \<longleftrightarrow> unat (trm_cleanup_counter ?m) = 1"
    by (auto simp: word_unat_eq_iff)
  also have "\<dots> \<longleftrightarrow> length xs mod 26 = 25"
    using counter less by linarith
  finally show "trm_map (add_receiver ?m heap challenge recv) =
     (if length xs mod 26 = 25
      then (\<lambda>c. Option.bind (((trm_map ?m)(challenge \<mapsto> recv)) c)
                  (\<lambda>r. if heap (tr_req r) = None then None else Some r))
      else (trm_map ?m)(challenge \<mapsto> recv))"
    by (auto simp: add_receiver_def Let_def is_obsolete_def fun_eq_iff split: option.splits)
qed

end
