(* ===== verification/Enforcement.thy ===== *)
theory Enforcement
  imports Auth_Tokens
begin

text \<open>
  Authorization of a new operation in the Keystore daemon, \<open>Enforcements\<close> of
  \<^verbatim>\<open>src/src/keymaster/enforcements.rs\<close>.  The clocks, the token store, the usage counters and
  the boot-level state of the super key manager that the function consults are explicit.
\<close>

section \<open>State and environment\<close>

record Enforcements =
  en_device_unlocked_set :: "i32 set"
  en_op_auth_map :: TokenReceiverMap
  en_in_flight :: in_flight

text \<open>
  \<open>env_time\<close> is the wall clock in milliseconds since the epoch, or nothing if it is set to a
  time before the epoch.
\<close>

record create_env =
  env_time :: "nat option"
  env_boot_time :: i64
  env_perboot :: PerbootDB
  env_usage_db :: usage_db
  env_level_accessible :: "u64 \<Rightarrow> bool"

definition set_device_locked :: "Enforcements \<Rightarrow> i32 \<Rightarrow> bool \<Rightarrow> Enforcements" where
  "set_device_locked self user device_locked_status =
     (if device_locked_status
      then self\<lparr>en_device_unlocked_set := en_device_unlocked_set self - {user}\<rparr>
      else self\<lparr>en_device_unlocked_set := insert user (en_device_unlocked_set self)\<rparr>)"

definition is_device_locked :: "Enforcements \<Rightarrow> i32 \<Rightarrow> bool" where
  "is_device_locked self user \<longleftrightarrow> user \<notin> en_device_unlocked_set self"

text \<open>The given time is converted \<open>as u128\<close>: a negative time becomes a huge one.\<close>

definition is_given_time_passed :: "nat option \<Rightarrow> i64 \<Rightarrow> bool \<Rightarrow> bool" where
  "is_given_time_passed now given_time is_given_time_inclusive = (case now of
     None \<Rightarrow> False
   | Some time_since_epoch \<Rightarrow>
       let given = sint given_time mod 2 ^ 128 in
       if is_given_time_inclusive then int time_since_epoch \<ge> given
       else int time_since_epoch > given)"

section \<open>Purposes\<close>

definition aidl_purpose :: "KeyPurpose \<Rightarrow> i32" where
  "aidl_purpose p = of_int (KeyPurpose_i32 p)"

definition aidl_algorithm :: "Algorithm \<Rightarrow> i32" where
  "aidl_algorithm a = of_int (Algorithm_i32 a)"

definition check_create_purpose :: "i32 \<Rightarrow> KeyParameter list \<Rightarrow> KsError + unit" where
  "check_create_purpose purpose key_params =
     (if purpose = aidl_purpose KeyPurpose_Sign \<or> purpose = aidl_purpose KeyPurpose_Decrypt then Inr ()
      else if purpose = aidl_purpose KeyPurpose_WrapKey then ks_km ErrorCode_IncompatiblePurpose
      else if purpose = aidl_purpose KeyPurpose_AgreeKey then
        (if list_ex (\<lambda>kp. get_tag (kp_value kp) = Tag_Algorithm
               \<and> kp_value kp \<noteq> KeyParameterValue_Algorithm (aidl_algorithm Algorithm_Ec)) key_params
         then ks_km ErrorCode_UnsupportedPurpose else Inr ())
      else if purpose = aidl_purpose KeyPurpose_Verify \<or> purpose = aidl_purpose KeyPurpose_Encrypt then
        (if list_ex (\<lambda>kp. kp_value kp = KeyParameterValue_Algorithm (aidl_algorithm Algorithm_Rsa)
               \<or> kp_value kp = KeyParameterValue_Algorithm (aidl_algorithm Algorithm_Ec)) key_params
         then ks_km ErrorCode_UnsupportedPurpose else Inr ())
      else ks_km ErrorCode_UnsupportedPurpose)"

section \<open>The scan of the key parameters\<close>

record create_scan =
  cs_key_purpose_authorized :: bool
  cs_user_auth_type :: "i32 option"
  cs_no_auth_required :: bool
  cs_caller_nonce_allowed :: bool
  cs_user :: i32
  cs_user_sids :: "i64 list"
  cs_key_time_out :: "int option"
  cs_unlocked_device_required :: bool
  cs_confirmation :: bool
  cs_max_boot_level :: "u64 option"

definition create_scan_init :: create_scan where
  "create_scan_init =
     \<lparr>cs_key_purpose_authorized = False, cs_user_auth_type = None, cs_no_auth_required = False,
      cs_caller_nonce_allowed = False, cs_user = - 1, cs_user_sids = [], cs_key_time_out = None,
      cs_unlocked_device_required = False, cs_confirmation = False, cs_max_boot_level = None\<rparr>"

definition is_origination :: "i32 \<Rightarrow> bool" where
  "is_origination purpose \<longleftrightarrow>
     purpose = aidl_purpose KeyPurpose_Encrypt \<or> purpose = aidl_purpose KeyPurpose_Sign"

definition is_usage :: "i32 \<Rightarrow> bool" where
  "is_usage purpose \<longleftrightarrow>
     purpose = aidl_purpose KeyPurpose_Decrypt \<or> purpose = aidl_purpose KeyPurpose_Verify"

definition create_scan_step ::
    "nat option \<Rightarrow> i32 \<Rightarrow> create_scan \<Rightarrow> KeyParameter \<Rightarrow> KsError + create_scan" where
  "create_scan_step now purpose s key_param = (case kp_value key_param of
     KeyParameterValue_NoAuthRequired \<Rightarrow> Inr (s\<lparr>cs_no_auth_required := True\<rparr>)
   | KeyParameterValue_AuthTimeout t \<Rightarrow> Inr (s\<lparr>cs_key_time_out := Some (sint t)\<rparr>)
   | KeyParameterValue_HardwareAuthenticatorType a \<Rightarrow> Inr (s\<lparr>cs_user_auth_type := Some a\<rparr>)
   | KeyParameterValue_KeyPurpose p \<Rightarrow>
       Inr (s\<lparr>cs_key_purpose_authorized := cs_key_purpose_authorized s \<or> p = purpose\<rparr>)
   | KeyParameterValue_CallerNonce \<Rightarrow> Inr (s\<lparr>cs_caller_nonce_allowed := True\<rparr>)
   | KeyParameterValue_ActiveDateTime a \<Rightarrow>
       if \<not> is_given_time_passed now a True then ks_km ErrorCode_KeyNotYetValid else Inr s
   | KeyParameterValue_OriginationExpireDateTime t \<Rightarrow>
       if is_origination purpose \<and> is_given_time_passed now t False
       then ks_km ErrorCode_KeyExpired else Inr s
   | KeyParameterValue_UsageExpireDateTime u \<Rightarrow>
       if is_usage purpose \<and> is_given_time_passed now u False
       then ks_km ErrorCode_KeyExpired else Inr s
   | KeyParameterValue_UserSecureID sid \<Rightarrow> Inr (s\<lparr>cs_user_sids := cs_user_sids s @ [sid]\<rparr>)
   | KeyParameterValue_UserID u \<Rightarrow> Inr (s\<lparr>cs_user := u\<rparr>)
   | KeyParameterValue_UnlockedDeviceRequired \<Rightarrow> Inr (s\<lparr>cs_unlocked_device_required := True\<rparr>)
   | KeyParameterValue_TrustedConfirmationRequired \<Rightarrow> Inr (s\<lparr>cs_confirmation := True\<rparr>)
   | KeyParameterValue_MaxBootLevel level \<Rightarrow> Inr (s\<lparr>cs_max_boot_level := Some (scast level)\<rparr>)
   | _ \<Rightarrow> Inr s)"

section \<open>\<open>authorize_create\<close>\<close>

text \<open>The checks between the scan and the auth tokens.\<close>

definition check_create_policy ::
    "Enforcements \<Rightarrow> create_env \<Rightarrow> i32 \<Rightarrow> KmKeyParameter list \<Rightarrow> create_scan \<Rightarrow> KsError + unit" where
  "check_create_policy self env purpose op_params s =
     (if \<not> cs_key_purpose_authorized s then ks_km ErrorCode_IncompatiblePurpose
      else if cs_user_sids s \<noteq> [] \<and> cs_no_auth_required s then ks_km ErrorCode_InvalidKeyBlob
      else if cs_user_auth_type s \<noteq> None \<and> cs_user_sids s = []
           \<or> cs_user_auth_type s = None \<and> cs_user_sids s \<noteq> []
      then ks_km ErrorCode_KeyUserNotAuthenticated
      else if is_origination purpose \<and> \<not> cs_caller_nonce_allowed s
           \<and> list_ex (\<lambda>kp. km_tag kp = Tag_u32 Tag_Nonce) op_params
      then ks_km ErrorCode_CallerNonceProhibited
      else if cs_unlocked_device_required s \<and> is_device_locked self (cs_user s)
      then ks_km ErrorCode_DeviceLocked
      else if (case cs_max_boot_level s of
                 Some level \<Rightarrow> \<not> env_level_accessible env level | None \<Rightarrow> False)
      then ks_km ErrorCode_BootLevelExceeded
      else Inr ())"

text \<open>The immediate auth token and the deferred state.\<close>

definition create_auth_state ::
    "create_env \<Rightarrow> bool \<Rightarrow> create_scan \<Rightarrow> KsError + (HardwareAuthToken option \<times> DeferredAuthState)"
    where
  "create_auth_state env requires_timestamp s =
     (if cs_user_sids s = [] then Inr (None, NoAuthRequired)
      else case cs_key_time_out s of
        Some key_time_out \<Rightarrow>
          res_bind (ok_or (KsError_Km ErrorCode_KeyUserNotAuthenticated)
             (find_auth_token_entry (env_perboot env) (\<lambda>hat. case cs_user_auth_type s of
                Some auth_type \<Rightarrow> satisfies hat (cs_user_sids s) auth_type | None \<Rightarrow> False))) (\<lambda>hat.
          res_bind (ok_or KsError_sys
             (BootTime_checked_sub (env_boot_time env) (ate_time_received hat))) (\<lambda>token_age.
            if BootTime_seconds token_age > key_time_out
            then ks_km ErrorCode_KeyUserNotAuthenticated
            else Inr (Some (ate_auth_token hat),
                      if requires_timestamp then TimeStampRequired (ate_auth_token hat)
                      else NoAuthRequired)))
      | None \<Rightarrow>
          Inr (None, OpAuthRequired (cs_user_sids s)
                 (case cs_user_auth_type s of Some t \<Rightarrow> t | None \<Rightarrow> 0)))"

text \<open>Everything before the reservation.\<close>

definition create_checks ::
    "Enforcements \<Rightarrow> create_env \<Rightarrow> i32 \<Rightarrow> KeyParameter list \<Rightarrow> KmKeyParameter list \<Rightarrow> bool
     \<Rightarrow> KsError + (HardwareAuthToken option \<times> DeferredAuthState \<times> bool)" where
  "create_checks self env purpose key_params op_params requires_timestamp =
     res_bind (check_create_purpose purpose key_params) (\<lambda>_.
     res_bind (res_fold (create_scan_step (env_time env) purpose) create_scan_init key_params) (\<lambda>s.
     res_bind (check_create_policy self env purpose op_params s) (\<lambda>_.
     res_bind (create_auth_state env requires_timestamp s) (\<lambda>(hat, state).
       Inr (hat, state, cs_confirmation s)))))"

definition authorize_create ::
    "Enforcements \<Rightarrow> create_env \<Rightarrow> i32 \<Rightarrow> (i64 \<times> KeyParameter list) option \<Rightarrow> KmKeyParameter list
     \<Rightarrow> bool \<Rightarrow> Enforcements \<times> (KsError + (HardwareAuthToken option \<times> AuthInfo))" where
  "authorize_create self env purpose key_properties op_params requires_timestamp =
     (case key_properties of
        None \<Rightarrow>
          (self, Inr (None, \<lparr>ai_state = NoAuthRequired, ai_key_usage_reservation = None,
                             ai_confirmation_token_receiver = False\<rparr>))
      | Some (key_id, key_params) \<Rightarrow>
          (case create_checks self env purpose key_params op_params requires_timestamp of
             Inl e \<Rightarrow> (self, Inl e)
           | Inr (hat, state, confirmation) \<Rightarrow>
               (case reserve_key_usage (en_in_flight self) (env_usage_db env) key_id key_params of
                  (in_flight', reservation) \<Rightarrow>
                    (self\<lparr>en_in_flight := in_flight'\<rparr>,
                     map_ok (\<lambda>r. (hat, \<lparr>ai_state = state, ai_key_usage_reservation = r,
                                        ai_confirmation_token_receiver = confirmation\<rparr>))
                       reservation))))"

section \<open>Tokens for other components\<close>

definition Enforcements_add_auth_token ::
    "Enforcements \<Rightarrow> PerbootDB \<Rightarrow> i64 \<Rightarrow> HardwareAuthToken \<Rightarrow> request_heap
     \<Rightarrow> Enforcements \<times> PerbootDB \<times> request_heap" where
  "Enforcements_add_auth_token self db now hat heap =
     (case TokenReceiverMap_add_auth_token (en_op_auth_map self) hat heap of
        (m, heap') \<Rightarrow> (self\<lparr>en_op_auth_map := m\<rparr>, insert_auth_token db now hat, heap'))"

datatype AuthzError = AuthzError_NO_AUTH_TOKEN_FOUND | AuthzError_Clock KsError

text \<open>
  \<open>get_auth_tokens\<close>; \<open>clock\<close> is the answer of the secure clock for the challenge.
\<close>

definition HardwareAuthenticatorType_ANY :: i32 where
  "HardwareAuthenticatorType_ANY = - 1"

definition Enforcements_get_auth_tokens ::
    "PerbootDB \<Rightarrow> i64 \<Rightarrow> KsError + TimeStampToken \<Rightarrow> i64 \<Rightarrow> i64 \<Rightarrow> i64
     \<Rightarrow> AuthzError + (HardwareAuthToken \<times> TimeStampToken)" where
  "Enforcements_get_auth_tokens db now clock challenge sid auth_token_max_age_millis =
     (let by_challenge = find_auth_token_entry db (\<lambda>hat.
            challenge = hat_challenge (ate_auth_token hat)
            \<and> satisfies hat [sid] HardwareAuthenticatorType_ANY);
          by_age = find_auth_token_entry db (\<lambda>entry.
            (case BootTime_checked_sub now (ate_time_received entry) of
               Some age \<Rightarrow> sint auth_token_max_age_millis > sint age | None \<Rightarrow> False)
            \<and> satisfies entry [sid] HardwareAuthenticatorType_ANY)
      in res_bind (ok_or AuthzError_NO_AUTH_TOKEN_FOUND
           (case by_challenge of
              Some entry \<Rightarrow> Some (ate_auth_token entry)
            | None \<Rightarrow>
                if auth_token_max_age_millis \<noteq> 0 then map_option ate_auth_token by_age else None))
           (\<lambda>auth_token.
              map_ok (\<lambda>tst. (auth_token, tst)) (map_err AuthzError_Clock clock)))"

definition get_last_auth_time :: "PerbootDB \<Rightarrow> i64 \<Rightarrow> i32 \<Rightarrow> i64 option" where
  "get_last_auth_time db sid auth_type =
     map_option ate_time_received (find_auth_token_entry db (\<lambda>entry. satisfies entry [sid] auth_type))"

section \<open>Super encryption\<close>

datatype Domain = Domain_APP | Domain_GRANT | Domain_SELINUX | Domain_BLOB | Domain_KEY_ID

datatype SuperEncryptionType =
    SuperEncryptionType_None
  | SuperEncryptionType_CredentialEncrypted
  | SuperEncryptionType_UnlockedDeviceRequired
  | SuperEncryptionType_BootLevel u64

definition KEY_FLAG_AUTH_BOUND_WITHOUT_CRYPTOGRAPHIC_LSKF_BINDING :: i32 where
  "KEY_FLAG_AUTH_BOUND_WITHOUT_CRYPTOGRAPHIC_LSKF_BINDING = 1"

definition super_candidate :: "Domain \<Rightarrow> KeyParameter \<Rightarrow> nat \<times> SuperEncryptionType" where
  "super_candidate domain kp = (case kp_value kp of
     KeyParameterValue_MaxBootLevel level \<Rightarrow> (3, SuperEncryptionType_BootLevel (scast level))
   | KeyParameterValue_UnlockedDeviceRequired \<Rightarrow>
       if domain = Domain_APP then (2, SuperEncryptionType_UnlockedDeviceRequired)
       else (0, SuperEncryptionType_None)
   | KeyParameterValue_UserSecureID _ \<Rightarrow>
       if domain = Domain_APP then (1, SuperEncryptionType_CredentialEncrypted)
       else (0, SuperEncryptionType_None)
   | _ \<Rightarrow> (0, SuperEncryptionType_None))"

definition super_encryption_required ::
    "Domain \<Rightarrow> KeyParameter list \<Rightarrow> i32 option \<Rightarrow> SuperEncryptionType" where
  "super_encryption_required domain key_parameters flags =
     (if (case flags of
            Some flags \<Rightarrow> flags AND KEY_FLAG_AUTH_BOUND_WITHOUT_CRYPTOGRAPHIC_LSKF_BINDING \<noteq> 0
          | None \<Rightarrow> False)
      then SuperEncryptionType_None
      else snd (foldl (\<lambda>result kp. let t = super_candidate domain kp in
                   if fst t > fst result then t else result)
                 (0, SuperEncryptionType_None) key_parameters))"

section \<open>Device lock\<close>

lemma is_device_locked_set:
  "is_device_locked (set_device_locked self u locked) v =
     (if v = u then locked else is_device_locked self v)"
  by (simp add: is_device_locked_def set_device_locked_def)

section \<open>What a create call is checked against\<close>

text \<open>The values of the parameters of a key, and the last one of a kind.\<close>

definition param_values :: "KeyParameter list \<Rightarrow> KeyParameterValue set" where
  "param_values ps = kp_value ` set ps"

definition last_param :: "(KeyParameterValue \<Rightarrow> 'a option) \<Rightarrow> KeyParameter list \<Rightarrow> 'a option" where
  "last_param f ps = (let vs = List.map_filter (\<lambda>p. f (kp_value p)) ps in
     if vs = [] then None else Some (last vs))"

definition secure_ids :: "KeyParameter list \<Rightarrow> i64 list" where
  "secure_ids = List.map_filter (\<lambda>p.
     case kp_value p of KeyParameterValue_UserSecureID sid \<Rightarrow> Some sid | _ \<Rightarrow> None)"

definition auth_timeout :: "KeyParameter list \<Rightarrow> int option" where
  "auth_timeout = last_param (\<lambda>v. case v of KeyParameterValue_AuthTimeout t \<Rightarrow> Some (sint t) | _ \<Rightarrow> None)"

definition authenticator_type :: "KeyParameter list \<Rightarrow> i32 option" where
  "authenticator_type = last_param (\<lambda>v.
     case v of KeyParameterValue_HardwareAuthenticatorType a \<Rightarrow> Some a | _ \<Rightarrow> None)"

definition owner_user :: "KeyParameter list \<Rightarrow> i32" where
  "owner_user ps = (case last_param (\<lambda>v. case v of KeyParameterValue_UserID u \<Rightarrow> Some u | _ \<Rightarrow> None) ps of
     Some u \<Rightarrow> u | None \<Rightarrow> - 1)"

definition max_boot_level :: "KeyParameter list \<Rightarrow> u64 option" where
  "max_boot_level = last_param (\<lambda>v.
     case v of KeyParameterValue_MaxBootLevel l \<Rightarrow> Some (scast l) | _ \<Rightarrow> None)"

definition scan_of :: "i32 \<Rightarrow> KeyParameter list \<Rightarrow> create_scan" where
  "scan_of purpose ps =
     \<lparr>cs_key_purpose_authorized = (KeyParameterValue_KeyPurpose purpose \<in> param_values ps),
      cs_user_auth_type = authenticator_type ps,
      cs_no_auth_required = (KeyParameterValue_NoAuthRequired \<in> param_values ps),
      cs_caller_nonce_allowed = (KeyParameterValue_CallerNonce \<in> param_values ps),
      cs_user = owner_user ps, cs_user_sids = secure_ids ps, cs_key_time_out = auth_timeout ps,
      cs_unlocked_device_required = (KeyParameterValue_UnlockedDeviceRequired \<in> param_values ps),
      cs_confirmation = (KeyParameterValue_TrustedConfirmationRequired \<in> param_values ps),
      cs_max_boot_level = max_boot_level ps\<rparr>"

definition in_validity_period :: "nat option \<Rightarrow> i32 \<Rightarrow> KeyParameterValue \<Rightarrow> bool" where
  "in_validity_period now purpose v = (case v of
     KeyParameterValue_ActiveDateTime a \<Rightarrow> is_given_time_passed now a True
   | KeyParameterValue_OriginationExpireDateTime t \<Rightarrow>
       \<not> (is_origination purpose \<and> is_given_time_passed now t False)
   | KeyParameterValue_UsageExpireDateTime u \<Rightarrow>
       \<not> (is_usage purpose \<and> is_given_time_passed now u False)
   | _ \<Rightarrow> True)"

lemmas scan_field_defs = param_values_def last_param_def secure_ids_def auth_timeout_def
  authenticator_type_def owner_user_def max_boot_level_def List.map_filter_simps

declare map_filter_append [simp]

lemma last_param_snoc:
  "last_param f (ps @ [p]) = (case f (kp_value p) of Some v \<Rightarrow> Some v | None \<Rightarrow> last_param f ps)"
  by (simp add: last_param_def List.map_filter_simps split: option.split)

lemma scan_step_of:
  "create_scan_step now purpose (scan_of purpose ps) p =
     (if in_validity_period now purpose (kp_value p) then Inr (scan_of purpose (ps @ [p]))
      else case kp_value p of
        KeyParameterValue_ActiveDateTime _ \<Rightarrow> ks_km ErrorCode_KeyNotYetValid
      | _ \<Rightarrow> ks_km ErrorCode_KeyExpired)"
  by (cases "kp_value p")
    (auto simp: create_scan_step_def scan_of_def in_validity_period_def param_values_def secure_ids_def
      auth_timeout_def authenticator_type_def owner_user_def max_boot_level_def last_param_snoc
      List.map_filter_simps)

lemma scan_init_of: "create_scan_init = scan_of purpose []"
  by (simp add: create_scan_init_def scan_of_def scan_field_defs)

lemma scan_correct:
  "(case res_fold (create_scan_step now purpose) create_scan_init ps of
      Inr s \<Rightarrow> s = scan_of purpose ps \<and> list_all (\<lambda>p. in_validity_period now purpose (kp_value p)) ps
    | Inl _ \<Rightarrow> \<not> list_all (\<lambda>p. in_validity_period now purpose (kp_value p)) ps)"
proof (induction ps rule: rev_induct)
  case Nil
  show ?case by (simp add: scan_init_of)
next
  case (snoc p ps)
  then show ?case
    by (auto simp: res_fold_append scan_step_of split: sum.splits KeyParameterValue.splits)
qed

text \<open>The purposes a key may be used for at all, by its algorithm.\<close>

definition purpose_supported :: "i32 \<Rightarrow> KeyParameterValue set \<Rightarrow> bool" where
  "purpose_supported purpose vs \<longleftrightarrow>
     purpose \<in> aidl_purpose ` {KeyPurpose_Sign, KeyPurpose_Decrypt}
   \<or> purpose = aidl_purpose KeyPurpose_AgreeKey
       \<and> (\<forall>a. KeyParameterValue_Algorithm a \<in> vs \<longrightarrow> a = aidl_algorithm Algorithm_Ec)
   \<or> purpose \<in> aidl_purpose ` {KeyPurpose_Verify, KeyPurpose_Encrypt}
       \<and> KeyParameterValue_Algorithm (aidl_algorithm Algorithm_Rsa) \<notin> vs
       \<and> KeyParameterValue_Algorithm (aidl_algorithm Algorithm_Ec) \<notin> vs"

text \<open>
  A token authenticates a time-bound key if it is one of the most recently received that match,
  and it is at most \<open>timeout\<close> seconds old.
\<close>

definition token_age_ok :: "i64 \<Rightarrow> int \<Rightarrow> AuthTokenEntry \<Rightarrow> bool" where
  "token_age_ok now timeout e \<longleftrightarrow>
     fits_i64 (sint now - sint (ate_time_received e))
   \<and> (sint now - sint (ate_time_received e)) sdiv 1000 \<le> timeout"

definition newest_match :: "create_env \<Rightarrow> i64 list \<Rightarrow> i32 \<Rightarrow> AuthTokenEntry \<Rightarrow> bool" where
  "newest_match env sids ty e \<longleftrightarrow>
     is_arg_max (\<lambda>e. sint (ate_time_received e)) (\<lambda>e. e \<in> set (env_perboot env) \<and> satisfies e sids ty) e"

definition authenticated :: "create_env \<Rightarrow> KeyParameter list \<Rightarrow> bool" where
  "authenticated env ps = (case (authenticator_type ps, auth_timeout ps) of
     (None, _) \<Rightarrow> secure_ids ps = []
   | (Some ty, None) \<Rightarrow> secure_ids ps \<noteq> []
   | (Some ty, Some timeout) \<Rightarrow>
       secure_ids ps \<noteq> [] \<and>
       (\<exists>e. newest_match env (secure_ids ps) ty e \<and> token_age_ok (env_boot_time env) timeout e))"

definition uses_left :: "in_flight \<Rightarrow> usage_db \<Rightarrow> i64 \<Rightarrow> bool" where
  "uses_left in_flight db key_id = (case key_usage_count db key_id of
     Inl _ \<Rightarrow> False
   | Inr n \<Rightarrow> (case in_flight key_id of None \<Rightarrow> True | Some reserved \<Rightarrow> reserved < n))"

definition create_permitted ::
    "Enforcements \<Rightarrow> create_env \<Rightarrow> i32 \<Rightarrow> i64 \<Rightarrow> KeyParameter list \<Rightarrow> KmKeyParameter list \<Rightarrow> bool" where
  "create_permitted self env purpose key_id ps op_params \<longleftrightarrow>
     purpose_supported purpose (param_values ps)
   \<and> KeyParameterValue_KeyPurpose purpose \<in> param_values ps
   \<and> (\<forall>v \<in> param_values ps. in_validity_period (env_time env) purpose v)
   \<and> \<not> (secure_ids ps \<noteq> [] \<and> KeyParameterValue_NoAuthRequired \<in> param_values ps)
   \<and> authenticated env ps
   \<and> (is_origination purpose \<and> (\<exists>p \<in> set op_params. km_tag p = Tag_u32 Tag_Nonce)
      \<longrightarrow> KeyParameterValue_CallerNonce \<in> param_values ps)
   \<and> (KeyParameterValue_UnlockedDeviceRequired \<in> param_values ps
      \<longrightarrow> owner_user ps \<in> en_device_unlocked_set self)
   \<and> (case max_boot_level ps of Some level \<Rightarrow> env_level_accessible env level | None \<Rightarrow> True)
   \<and> (has_keystore_usage_limit ps \<longrightarrow> uses_left (en_in_flight self) (env_usage_db env) key_id)"

lemma get_tag_Algorithm: "get_tag v = Tag_Algorithm \<longleftrightarrow> (\<exists>a. v = KeyParameterValue_Algorithm a)"
  by (cases v) simp_all

lemma aidl_purpose_eq: "aidl_purpose p = aidl_purpose q \<longleftrightarrow> p = q"
  by (cases p; cases q) (simp_all add: aidl_purpose_def)

lemma list_ex_param_values: "list_ex (\<lambda>p. P (kp_value p)) ps \<longleftrightarrow> (\<exists>v \<in> param_values ps. P v)"
  by (auto simp: list_ex_iff param_values_def)

lemma list_all_param_values: "list_all (\<lambda>p. P (kp_value p)) ps \<longleftrightarrow> (\<forall>v \<in> param_values ps. P v)"
  by (auto simp: list_all_iff param_values_def)

lemma check_create_purpose_ok:
  "check_create_purpose purpose ps = Inr u \<longleftrightarrow> purpose_supported purpose (param_values ps)"
proof -
  have "list_ex (\<lambda>kp. get_tag (kp_value kp) = Tag_Algorithm
          \<and> kp_value kp \<noteq> KeyParameterValue_Algorithm (aidl_algorithm Algorithm_Ec)) ps
      \<longleftrightarrow> (\<exists>a. KeyParameterValue_Algorithm a \<in> param_values ps \<and> a \<noteq> aidl_algorithm Algorithm_Ec)"
    using list_ex_param_values[where P = "\<lambda>v. get_tag v = Tag_Algorithm
        \<and> v \<noteq> KeyParameterValue_Algorithm (aidl_algorithm Algorithm_Ec)"]
    by (auto simp: get_tag_Algorithm)
  moreover have "list_ex (\<lambda>kp. kp_value kp = KeyParameterValue_Algorithm (aidl_algorithm Algorithm_Rsa)
          \<or> kp_value kp = KeyParameterValue_Algorithm (aidl_algorithm Algorithm_Ec)) ps
      \<longleftrightarrow> KeyParameterValue_Algorithm (aidl_algorithm Algorithm_Rsa) \<in> param_values ps
        \<or> KeyParameterValue_Algorithm (aidl_algorithm Algorithm_Ec) \<in> param_values ps"
    using list_ex_param_values[where P = "\<lambda>v. v = KeyParameterValue_Algorithm (aidl_algorithm Algorithm_Rsa)
        \<or> v = KeyParameterValue_Algorithm (aidl_algorithm Algorithm_Ec)"]
    by auto
  ultimately show ?thesis
    by (auto simp: check_create_purpose_def purpose_supported_def aidl_purpose_eq)
qed

lemma sint_diff_i64: "fits_i64 (sint a - sint b) \<Longrightarrow> sint (a - b :: i64) = sint a - sint b"
  by (simp add: sint_word_diff signed_take_bit_int_eq_self fits_i64_def)

lemma newest_match_found:
  "(\<exists>e. newest_match env sids ty e \<and> token_age_ok now t e) \<longleftrightarrow>
     (case find_auth_token_entry (env_perboot env) (\<lambda>h. satisfies h sids ty) of
        None \<Rightarrow> False | Some e \<Rightarrow> token_age_ok now t e)"
proof (cases "find_auth_token_entry (env_perboot env) (\<lambda>h. satisfies h sids ty)")
  case None
  then have "\<forall>e \<in> set (env_perboot env). \<not> satisfies e sids ty"
    using pb.find_None[of "env_perboot env" "\<lambda>h. satisfies h sids ty"] by simp
  then show ?thesis unfolding None by (auto simp: newest_match_def is_arg_max_def)
next
  case (Some e)
  from pb.find_Some[OF Some] have e: "newest_match env sids ty e" by (simp add: newest_match_def)
  have same: "ate_time_received e' = ate_time_received e" if e': "newest_match env sids ty e'" for e'
  proof (rule signed_word_eqI)
    have "\<not> sint (ate_time_received e) < sint (ate_time_received e')"
      and "\<not> sint (ate_time_received e') < sint (ate_time_received e)"
      using e e' unfolding newest_match_def is_arg_max_def by blast+
    then show "sint (ate_time_received e') = sint (ate_time_received e)" by linarith
  qed
  have "token_age_ok now t e' \<longleftrightarrow> token_age_ok now t e" if "newest_match env sids ty e'" for e'
    unfolding token_age_ok_def same[OF that] ..
  with e show ?thesis unfolding Some option.case by blast
qed

text \<open>The outcome of the authentication part of a permitted call.\<close>

definition granted_auth ::
    "create_env \<Rightarrow> bool \<Rightarrow> KeyParameter list \<Rightarrow> HardwareAuthToken option \<times> DeferredAuthState \<Rightarrow> bool" where
  "granted_auth env requires_timestamp ps r = (case (authenticator_type ps, auth_timeout ps) of
     (None, _) \<Rightarrow> r = (None, NoAuthRequired)
   | (Some ty, None) \<Rightarrow> r = (None, OpAuthRequired (secure_ids ps) ty)
   | (Some ty, Some timeout) \<Rightarrow>
       \<exists>e. newest_match env (secure_ids ps) ty e \<and> token_age_ok (env_boot_time env) timeout e
         \<and> r = (Some (ate_auth_token e),
                if requires_timestamp then TimeStampRequired (ate_auth_token e) else NoAuthRequired))"

lemma create_auth_state_timed:
  assumes "secure_ids ps \<noteq> []" "authenticator_type ps = Some ty" "auth_timeout ps = Some t"
  shows "case create_auth_state env ts (scan_of purpose ps) of
      Inr r \<Rightarrow> granted_auth env ts ps r
    | Inl _ \<Rightarrow> \<not> (\<exists>e. newest_match env (secure_ids ps) ty e \<and> token_age_ok (env_boot_time env) t e)"
proof (cases "find_auth_token_entry (env_perboot env) (\<lambda>h. satisfies h (secure_ids ps) ty)")
  case None
  with assms show ?thesis
    unfolding newest_match_found by (simp add: create_auth_state_def scan_of_def)
next
  case (Some e)
  from pb.find_Some[OF Some] have e: "newest_match env (secure_ids ps) ty e"
    by (simp add: newest_match_def)
  show ?thesis
  proof (cases "token_age_ok (env_boot_time env) t e")
    case True
    with assms Some have "create_auth_state env ts (scan_of purpose ps) = Inr (Some (ate_auth_token e),
        if ts then TimeStampRequired (ate_auth_token e) else NoAuthRequired)"
      by (simp add: create_auth_state_def scan_of_def token_age_ok_def BootTime_checked_sub_def
          BootTime_seconds_def sint_diff_i64)
    with assms True e show ?thesis by (auto simp: granted_auth_def)
  next
    case False
    with assms Some have "\<not> is_ok (create_auth_state env ts (scan_of purpose ps))"
      by (auto simp: create_auth_state_def scan_of_def token_age_ok_def BootTime_checked_sub_def
          BootTime_seconds_def sint_diff_i64)
    with Some False show ?thesis
      unfolding newest_match_found by (auto simp: is_ok_def split: sum.splits)
  qed
qed

lemma create_auth_state_correct:
  assumes "(authenticator_type ps = None) = (secure_ids ps = [])"
  shows "case create_auth_state env ts (scan_of purpose ps) of
      Inr r \<Rightarrow> authenticated env ps \<and> granted_auth env ts ps r
    | Inl _ \<Rightarrow> \<not> authenticated env ps"
proof (cases "authenticator_type ps")
  case None
  with assms show ?thesis
    by (simp add: create_auth_state_def scan_of_def authenticated_def granted_auth_def)
next
  case type: (Some ty)
  show ?thesis
  proof (cases "auth_timeout ps")
    case None
    with type assms show ?thesis
      by (simp add: create_auth_state_def scan_of_def authenticated_def granted_auth_def)
  next
    case (Some t)
    with type assms create_auth_state_timed[of ps ty t env ts purpose] show ?thesis
      by (auto simp: authenticated_def granted_auth_def split: sum.splits)
  qed
qed

lemma check_create_policy_ok:
  "check_create_policy self env purpose op_params (scan_of purpose ps) = Inr u \<longleftrightarrow>
     KeyParameterValue_KeyPurpose purpose \<in> param_values ps
   \<and> \<not> (secure_ids ps \<noteq> [] \<and> KeyParameterValue_NoAuthRequired \<in> param_values ps)
   \<and> (authenticator_type ps = None) = (secure_ids ps = [])
   \<and> (is_origination purpose \<and> (\<exists>p \<in> set op_params. km_tag p = Tag_u32 Tag_Nonce)
      \<longrightarrow> KeyParameterValue_CallerNonce \<in> param_values ps)
   \<and> (KeyParameterValue_UnlockedDeviceRequired \<in> param_values ps
      \<longrightarrow> owner_user ps \<in> en_device_unlocked_set self)
   \<and> (case max_boot_level ps of Some level \<Rightarrow> env_level_accessible env level | None \<Rightarrow> True)"
  by (cases "authenticator_type ps"; cases "max_boot_level ps"; cases "secure_ids ps = []")
    (auto simp: check_create_policy_def scan_of_def list_ex_iff is_device_locked_def)

lemma reserve_key_usage_correct:
  "case reserve_key_usage f db key_id ps of (f', res) \<Rightarrow>
     (is_ok res \<longleftrightarrow> (has_keystore_usage_limit ps \<longrightarrow> uses_left f db key_id)) \<and>
     (case res of
        Inl _ \<Rightarrow> f' = f
      | Inr r \<Rightarrow>
          if has_keystore_usage_limit ps
          then r = Some (Some key_id) \<and> f' = f(key_id \<mapsto> (case f key_id of None \<Rightarrow> 0 | Some n \<Rightarrow> n) + 1)
          else r = None \<and> f' = f)"
proof -
  have "\<not> n \<le> (0 :: i32)" if "key_usage_count db key_id = Inr n" for n
    using ku.count_positive[OF that] unat_positive_i32[of n] by (auto simp: word_le_nat_alt)
  then show ?thesis
    using ku.count_positive[of db key_id]
    by (auto simp: reserve_key_usage_def reserve_def uses_left_def Let_def not_le
        split: sum.splits option.splits if_splits)
qed

text \<open>The conditions that do not depend on the usage counter.\<close>

definition checks_permitted ::
    "Enforcements \<Rightarrow> create_env \<Rightarrow> i32 \<Rightarrow> KeyParameter list \<Rightarrow> KmKeyParameter list \<Rightarrow> bool" where
  "checks_permitted self env purpose ps op_params \<longleftrightarrow>
     purpose_supported purpose (param_values ps)
   \<and> (\<forall>v \<in> param_values ps. in_validity_period (env_time env) purpose v)
   \<and> check_create_policy self env purpose op_params (scan_of purpose ps) = Inr ()
   \<and> authenticated env ps"

lemma create_permitted_split:
  "create_permitted self env purpose key_id ps op_params \<longleftrightarrow>
     checks_permitted self env purpose ps op_params
   \<and> (has_keystore_usage_limit ps \<longrightarrow> uses_left (en_in_flight self) (env_usage_db env) key_id)"
  unfolding create_permitted_def checks_permitted_def check_create_policy_ok
  by (auto simp: authenticated_def split: option.splits)

lemma create_checks_correct:
  "case create_checks self env purpose ps op_params ts of
     Inl _ \<Rightarrow> \<not> checks_permitted self env purpose ps op_params
   | Inr (hat, state, conf) \<Rightarrow>
       checks_permitted self env purpose ps op_params \<and> granted_auth env ts ps (hat, state)
     \<and> conf = (KeyParameterValue_TrustedConfirmationRequired \<in> param_values ps)"
proof (cases "check_create_purpose purpose ps")
  case (Inl e)
  then show ?thesis
    using check_create_purpose_ok[of purpose ps "()"]
    by (simp add: create_checks_def checks_permitted_def)
next
  case purpose: (Inr u)
  let ?s = "scan_of purpose ps"
  let ?scan = "res_fold (create_scan_step (env_time env) purpose) create_scan_init ps"
  let ?valid = "\<forall>v \<in> param_values ps. in_validity_period (env_time env) purpose v"
  have scan: "case ?scan of Inr s \<Rightarrow> s = ?s \<and> ?valid | Inl _ \<Rightarrow> \<not> ?valid"
    using scan_correct[of "env_time env" purpose ps]
    unfolding list_all_param_values[where P = "in_validity_period (env_time env) purpose"] .
  show ?thesis
  proof (cases ?scan)
    case (Inl e)
    with purpose scan show ?thesis by (simp add: create_checks_def checks_permitted_def)
  next
    case (Inr s)
    with scan have s: "?scan = Inr ?s" and valid: ?valid by auto
    show ?thesis
    proof (cases "check_create_policy self env purpose op_params ?s")
      case (Inl e)
      with purpose s show ?thesis by (simp add: create_checks_def checks_permitted_def)
    next
      case policy: (Inr u)
      then have "(authenticator_type ps = None) = (secure_ids ps = [])"
        unfolding check_create_policy_ok by blast
      from create_auth_state_correct[OF this, of env ts purpose]
      show ?thesis
        using purpose s valid policy check_create_purpose_ok[of purpose ps "()"]
        by (auto simp: create_checks_def checks_permitted_def scan_of_def split: sum.splits)
    qed
  qed
qed

text \<open>
  C6: A create call on a key is authorized exactly when every restriction of the key allows
  it: the purpose is supported for the algorithm and listed in the key, the key is in its
  validity period, the authentication tags are consistent and a time-bound key has a matching
  most recent token that is not older than its timeout, a nonce is given only if the caller may
  choose it, the device is unlocked for the key's user and the boot level is not exceeded where
  the key asks for it, and a limited-use key has a use left that is not reserved.  A refusal
  changes nothing; a grant reserves one use of a limited-use key and hands out the token and
  the deferred authorization its tags ask for.
\<close>

theorem authorize_create_correct:
  "case authorize_create self env purpose (Some (key_id, ps)) op_params requires_timestamp of
     (self', res) \<Rightarrow>
       (is_ok res \<longleftrightarrow> create_permitted self env purpose key_id ps op_params) \<and>
       (case res of
          Inl _ \<Rightarrow> self' = self
        | Inr (hat, info) \<Rightarrow>
            granted_auth env requires_timestamp ps (hat, ai_state info) \<and>
            ai_confirmation_token_receiver info =
              (KeyParameterValue_TrustedConfirmationRequired \<in> param_values ps) \<and>
            (if has_keystore_usage_limit ps
             then ai_key_usage_reservation info = Some (Some key_id) \<and>
                  self' = self\<lparr>en_in_flight := (en_in_flight self)(key_id \<mapsto>
                    (case en_in_flight self key_id of None \<Rightarrow> 0 | Some n \<Rightarrow> n) + 1)\<rparr>
             else ai_key_usage_reservation info = None \<and> self' = self))"
proof (cases "create_checks self env purpose ps op_params requires_timestamp")
  case (Inl e)
  with create_checks_correct[of self env purpose ps op_params requires_timestamp] show ?thesis
    by (simp add: authorize_create_def create_permitted_split)
next
  case (Inr r)
  obtain hat state conf where r: "r = (hat, state, conf)" by (rule prod_cases3)
  obtain f' res where res: "reserve_key_usage (en_in_flight self) (env_usage_db env) key_id ps = (f', res)"
    by fastforce
  have checks: "checks_permitted self env purpose ps op_params"
      "granted_auth env requires_timestamp ps (hat, state)"
      "conf = (KeyParameterValue_TrustedConfirmationRequired \<in> param_values ps)"
    using create_checks_correct[of self env purpose ps op_params requires_timestamp] Inr r
    by simp_all
  have "authorize_create self env purpose (Some (key_id, ps)) op_params requires_timestamp =
      (self\<lparr>en_in_flight := f'\<rparr>, map_ok (\<lambda>r. (hat, \<lparr>ai_state = state,
        ai_key_usage_reservation = r, ai_confirmation_token_receiver = conf\<rparr>)) res)"
    using Inr r res by (simp add: authorize_create_def)
  then show ?thesis
    using reserve_key_usage_correct[where f = "en_in_flight self" and db = "env_usage_db env"
        and key_id = key_id and ps = ps] res checks
    by (cases res) (auto simp: create_permitted_split)
qed

section \<open>Super encryption by priority\<close>

definition boot_levels :: "KeyParameter list \<Rightarrow> u64 list" where
  "boot_levels = List.map_filter (\<lambda>p.
     case kp_value p of KeyParameterValue_MaxBootLevel l \<Rightarrow> Some (scast l) | _ \<Rightarrow> None)"

definition super_priority :: "Domain \<Rightarrow> KeyParameter list \<Rightarrow> nat \<times> SuperEncryptionType" where
  "super_priority domain ps =
     (if boot_levels ps \<noteq> [] then (3, SuperEncryptionType_BootLevel (hd (boot_levels ps)))
      else if domain = Domain_APP \<and> KeyParameterValue_UnlockedDeviceRequired \<in> param_values ps
      then (2, SuperEncryptionType_UnlockedDeviceRequired)
      else if domain = Domain_APP \<and> secure_ids ps \<noteq> []
      then (1, SuperEncryptionType_CredentialEncrypted)
      else (0, SuperEncryptionType_None))"

lemma super_priority_snoc:
  "super_priority domain (ps @ [p]) =
     (let t = super_candidate domain p in
      if fst t > fst (super_priority domain ps) then t else super_priority domain ps)"
  by (cases "kp_value p")
    (simp_all add: Let_def super_candidate_def super_priority_def boot_levels_def
      secure_ids_def param_values_def List.map_filter_simps)

lemma super_candidates_fold:
  "foldl (\<lambda>result kp. let t = super_candidate domain kp in
       if fst t > fst result then t else result) (0, SuperEncryptionType_None) ps
   = super_priority domain ps"
proof (induction ps rule: rev_induct)
  case Nil
  show ?case
    by (simp add: super_priority_def boot_levels_def secure_ids_def param_values_def
        List.map_filter_simps)
next
  case (snoc p ps)
  show ?case unfolding foldl_append foldl.simps snoc super_priority_snoc ..
qed

text \<open>
  The super encryption of a new key.  Unless the caller opts out, a key with a maximum boot
  level is encrypted with the boot level key of its first such parameter, in every domain.
  Otherwise an app key that needs an unlocked device is bound to that, and an app key that is
  bound to a secure user id is bound to the credential; every other key is not super encrypted.
\<close>

theorem super_encryption_priority:
  "super_encryption_required domain ps flags =
     (if \<exists>f. flags = Some f \<and> f AND 1 \<noteq> 0 then SuperEncryptionType_None
      else case boot_levels ps of
        level # _ \<Rightarrow> SuperEncryptionType_BootLevel level
      | [] \<Rightarrow>
          if domain \<noteq> Domain_APP then SuperEncryptionType_None
          else if KeyParameterValue_UnlockedDeviceRequired \<in> param_values ps
          then SuperEncryptionType_UnlockedDeviceRequired
          else if secure_ids ps = [] then SuperEncryptionType_None
          else SuperEncryptionType_CredentialEncrypted)"
  unfolding super_encryption_required_def super_candidates_fold
  by (auto simp: super_priority_def KEY_FLAG_AUTH_BOUND_WITHOUT_CRYPTOGRAPHIC_LSKF_BINDING_def
      split: option.splits list.splits)

section \<open>Tokens by challenge or by age\<close>

definition challenge_match :: "PerbootDB \<Rightarrow> i64 \<Rightarrow> i64 \<Rightarrow> AuthTokenEntry \<Rightarrow> bool" where
  "challenge_match db sid challenge e \<longleftrightarrow>
     e \<in> set db \<and> satisfies e [sid] HardwareAuthenticatorType_ANY
     \<and> hat_challenge (ate_auth_token e) = challenge"

definition age_match :: "PerbootDB \<Rightarrow> i64 \<Rightarrow> i64 \<Rightarrow> i64 \<Rightarrow> AuthTokenEntry \<Rightarrow> bool" where
  "age_match db sid now max_age e \<longleftrightarrow>
     e \<in> set db \<and> satisfies e [sid] HardwareAuthenticatorType_ANY \<and> max_age \<noteq> 0
     \<and> fits_i64 (sint now - sint (ate_time_received e))
     \<and> sint now - sint (ate_time_received e) < sint max_age"

definition wanted_token :: "PerbootDB \<Rightarrow> i64 \<Rightarrow> i64 \<Rightarrow> i64 \<Rightarrow> i64 \<Rightarrow> AuthTokenEntry \<Rightarrow> bool" where
  "wanted_token db sid challenge now max_age =
     (if \<exists>e. challenge_match db sid challenge e then challenge_match db sid challenge
      else age_match db sid now max_age)"

definition chosen_token :: "PerbootDB \<Rightarrow> i64 \<Rightarrow> i64 \<Rightarrow> i64 \<Rightarrow> i64 \<Rightarrow> AuthTokenEntry option" where
  "chosen_token db sid challenge now max_age =
     (case find_auth_token_entry db (\<lambda>hat. challenge = hat_challenge (ate_auth_token hat)
             \<and> satisfies hat [sid] HardwareAuthenticatorType_ANY) of
        Some e \<Rightarrow> Some e
      | None \<Rightarrow> if max_age \<noteq> 0 then find_auth_token_entry db (\<lambda>entry.
            (case BootTime_checked_sub now (ate_time_received entry) of
               Some age \<Rightarrow> sint max_age > sint age | None \<Rightarrow> False)
            \<and> satisfies entry [sid] HardwareAuthenticatorType_ANY) else None)"

lemma get_auth_tokens_chosen:
  "Enforcements_get_auth_tokens db now clock challenge sid max_age =
     (case chosen_token db sid challenge now max_age of
        None \<Rightarrow> Inl AuthzError_NO_AUTH_TOKEN_FOUND
      | Some e \<Rightarrow> map_ok (\<lambda>tst. (ate_auth_token e, tst)) (map_err AuthzError_Clock clock))"
  by (simp add: Enforcements_get_auth_tokens_def chosen_token_def Let_def split: option.split)

lemma chosen_token_wanted:
  "case chosen_token db sid challenge now max_age of
     None \<Rightarrow> \<not> (\<exists>e. wanted_token db sid challenge now max_age e)
   | Some e \<Rightarrow> is_arg_max (\<lambda>e. sint (ate_time_received e)) (wanted_token db sid challenge now max_age) e"
proof -
  let ?c = "\<lambda>hat. challenge = hat_challenge (ate_auth_token hat)
      \<and> satisfies hat [sid] HardwareAuthenticatorType_ANY"
  let ?a = "\<lambda>entry. (case BootTime_checked_sub now (ate_time_received entry) of
      Some age \<Rightarrow> sint max_age > sint age | None \<Rightarrow> False)
      \<and> satisfies entry [sid] HardwareAuthenticatorType_ANY"
  have c: "case find_auth_token_entry db ?c of
      None \<Rightarrow> \<not> (\<exists>e. challenge_match db sid challenge e)
    | Some e \<Rightarrow> is_arg_max (\<lambda>e. sint (ate_time_received e)) (challenge_match db sid challenge) e"
    by (rule pb.find_by) (auto simp: challenge_match_def)
  have a: "case find_auth_token_entry db ?a of
      None \<Rightarrow> \<not> (\<exists>e. age_match db sid now max_age e)
    | Some e \<Rightarrow> is_arg_max (\<lambda>e. sint (ate_time_received e)) (age_match db sid now max_age) e"
    if "max_age \<noteq> 0"
    by (rule pb.find_by)
      (use that in \<open>auto simp: age_match_def BootTime_checked_sub_def sint_diff_i64\<close>)
  show ?thesis
  proof (cases "find_auth_token_entry db ?c")
    case None
    with c have wanted: "wanted_token db sid challenge now max_age = age_match db sid now max_age"
      by (auto simp: wanted_token_def)
    show ?thesis
      using a unfolding chosen_token_def None wanted
      by (cases "max_age = 0") (simp_all add: age_match_def)
  next
    case (Some e)
    with c have "is_arg_max (\<lambda>e. sint (ate_time_received e)) (challenge_match db sid challenge) e"
      by simp
    moreover from this have "wanted_token db sid challenge now max_age = challenge_match db sid challenge"
      by (auto simp: wanted_token_def is_arg_max_def)
    ultimately show ?thesis unfolding chosen_token_def Some by simp
  qed
qed

text \<open>
  The token handed to another component.  It belongs to the user id and, if any such token
  carries the challenge, it carries the challenge and is a most recent one of these; otherwise
  it is a most recent one among those younger than the given age.  No token is returned
  exactly when there is none of either kind; age zero admits none.  The last authentication
  time is the receive time of a most recent matching token.
\<close>

theorem get_auth_tokens_correct:
  "(case Enforcements_get_auth_tokens db now clock challenge sid max_age of
      Inr (hat, tst) \<Rightarrow> clock = Inr tst \<and>
        hat \<in> ate_auth_token ` {e. is_arg_max (\<lambda>e. sint (ate_time_received e))
                                     (wanted_token db sid challenge now max_age) e}
    | Inl AuthzError_NO_AUTH_TOKEN_FOUND \<Rightarrow> \<not> (\<exists>e. wanted_token db sid challenge now max_age e)
    | Inl (AuthzError_Clock e) \<Rightarrow>
        clock = Inl e \<and> (\<exists>e. wanted_token db sid challenge now max_age e)) \<and>
   (case get_last_auth_time db sid auth_type of
      None \<Rightarrow> filter (\<lambda>e. satisfies e [sid] auth_type) db = []
    | Some t \<Rightarrow> t \<in> ate_time_received ` {e. is_arg_max (\<lambda>e. sint (ate_time_received e))
                      (\<lambda>e. e \<in> set db \<and> satisfies e [sid] auth_type) e})"
  (is "?tokens \<and> ?last")
proof
  show ?last
    using pb.find_by[of db "\<lambda>e. satisfies e [sid] auth_type"
        "\<lambda>e. e \<in> set db \<and> satisfies e [sid] auth_type"]
    by (auto simp: get_last_auth_time_def filter_empty_conv split: option.splits)
  show ?tokens
  proof (cases "chosen_token db sid challenge now max_age")
    case None
    with chosen_token_wanted[of db sid challenge now max_age] show ?thesis
      by (simp add: get_auth_tokens_chosen)
  next
    case (Some e)
    with chosen_token_wanted[of db sid challenge now max_age]
    have e: "is_arg_max (\<lambda>e. sint (ate_time_received e)) (wanted_token db sid challenge now max_age) e"
      by simp
    then have "\<exists>e. wanted_token db sid challenge now max_age e"
      by (auto simp: is_arg_max_def)
    with e Some show ?thesis by (cases clock) (auto simp: get_auth_tokens_chosen)
  qed
qed

end
