(* ===== verification/Operation.thy ===== *)
theory Operation
  imports Enforcement
begin

text \<open>
  Ongoing key operations in the Keystore daemon, \<^verbatim>\<open>src/src/keymaster/operation.rs\<close>: the life
  cycle of an operation, the operation database with its slots, the pruning strategy and the
  client's proxy object.  Every request that can change the outcome holds the outcome lock for
  its whole body, so it is one step; \<open>try_lock\<close> of another thread sees the lock as an argument.
  KeyMint's answers, already mapped by \<open>map_km_error\<close>, are functions of the call.
\<close>

section \<open>Data\<close>

primrec ResponseCode_i32 :: "ResponseCode \<Rightarrow> int" where
  "ResponseCode_i32 ResponseCode_LOCKED = 2"
| "ResponseCode_i32 ResponseCode_UNINITIALIZED = 3"
| "ResponseCode_i32 ResponseCode_SYSTEM_ERROR = 4"
| "ResponseCode_i32 ResponseCode_PERMISSION_DENIED = 6"
| "ResponseCode_i32 ResponseCode_KEY_NOT_FOUND = 7"
| "ResponseCode_i32 ResponseCode_VALUE_CORRUPTED = 8"
| "ResponseCode_i32 ResponseCode_KEY_PERMANENTLY_INVALIDATED = 17"
| "ResponseCode_i32 ResponseCode_BACKEND_BUSY = 18"
| "ResponseCode_i32 ResponseCode_OPERATION_BUSY = 19"
| "ResponseCode_i32 ResponseCode_INVALID_ARGUMENT = 20"
| "ResponseCode_i32 ResponseCode_TOO_MUCH_DATA = 21"
| "ResponseCode_i32 ResponseCode_OUT_OF_KEYS = 22"
| "ResponseCode_i32 ResponseCode_OUT_OF_KEYS_REQUIRES_SYSTEM_UPGRADE = 23"
| "ResponseCode_i32 ResponseCode_OUT_OF_KEYS_PENDING_INTERNET_CONNECTIVITY = 24"
| "ResponseCode_i32 ResponseCode_OUT_OF_KEYS_TRANSIENT_ERROR = 25"
| "ResponseCode_i32 ResponseCode_OUT_OF_KEYS_PERMANENT_ERROR = 26"
| "ResponseCode_i32 ResponseCode_GET_ATTESTATION_APPLICATION_ID_FAILED = 27"
| "ResponseCode_i32 ResponseCode_INFO_NOT_AVAILABLE = 28"
| "ResponseCode_i32 ResponseCode_TOO_MANY_APP_KEYS = 29"
| "ResponseCode_i32 ResponseCode_TOO_MANY_APP_KEYS_SDK37 = 30"

datatype SerializedError = SerializedError i32

definition error_to_serialized_error :: "KsError \<Rightarrow> SerializedError" where
  "error_to_serialized_error e = (case e of
     KsError_Rc rcode \<Rightarrow> SerializedError (of_int (ResponseCode_i32 rcode))
   | KsError_Km ec \<Rightarrow> SerializedError (of_int (ErrorCode_i32 ec))
   | KsError_Binder _ _ \<Rightarrow>
       SerializedError (of_int (ResponseCode_i32 ResponseCode_SYSTEM_ERROR))
   | KsError_BinderTransaction _ \<Rightarrow>
       SerializedError (of_int (ResponseCode_i32 ResponseCode_SYSTEM_ERROR)))"

datatype Outcome =
    Outcome_Unknown
  | Outcome_Success
  | Outcome_Abort
  | Outcome_Dropped
  | Outcome_Pruned
  | Outcome_ErrorCode SerializedError

record OperationMetrics =
  om_total_duration :: nat
  om_call_count :: i32
  om_total_input_bytes :: u64

definition OperationMetrics_default :: OperationMetrics where
  "OperationMetrics_default =
     \<lparr>om_total_duration = 0, om_call_count = 0, om_total_input_bytes = 0\<rparr>"

text \<open>An operation; \<open>Instant\<close>s are milliseconds, \<open>op_km_op\<close> names KeyMint's operation.\<close>

record Operation =
  op_index :: nat
  op_km_op :: nat
  op_last_usage :: nat
  op_outcome :: Outcome
  op_owner :: u32
  op_auth_info :: AuthInfo
  op_forced :: bool
  op_operation_metrics :: OperationMetrics

record PruningInfo =
  pi_last_usage :: nat
  pi_owner :: u32
  pi_index :: nat
  pi_forced :: bool

text \<open>KeyMint's answers to the calls on one operation.\<close>

record IKeyMintOperation =
  km_updateAad :: "bytes \<Rightarrow> HardwareAuthToken option \<Rightarrow> TimeStampToken option \<Rightarrow> KsError + unit"
  km_update :: "bytes \<Rightarrow> HardwareAuthToken option \<Rightarrow> TimeStampToken option \<Rightarrow> KsError + bytes"
  km_finish :: "bytes option \<Rightarrow> bytes option \<Rightarrow> HardwareAuthToken option \<Rightarrow> TimeStampToken option
                \<Rightarrow> bytes option \<Rightarrow> KsError + bytes"
  km_abort :: "KsError + unit"

text \<open>What the operations of the daemon share, apart from the operation database.\<close>

record op_env =
  oe_requests :: request_heap
  oe_channel :: confirmation_channel
  oe_in_flight :: in_flight
  oe_usage_db :: usage_db

definition MAX_RECEIVE_DATA :: nat where
  "MAX_RECEIVE_DATA = 0x8000"

section \<open>The life cycle of an operation\<close>

definition Operation_new :: "nat \<Rightarrow> nat \<Rightarrow> u32 \<Rightarrow> AuthInfo \<Rightarrow> bool \<Rightarrow> nat \<Rightarrow> Operation" where
  "Operation_new index km_op owner auth_info forced now =
     \<lparr>op_index = index, op_km_op = km_op, op_last_usage = now, op_outcome = Outcome_Unknown,
      op_owner = owner, op_auth_info = auth_info, op_forced = forced,
      op_operation_metrics = OperationMetrics_default\<rparr>"

definition get_pruning_info :: "bool \<Rightarrow> Operation \<Rightarrow> PruningInfo option" where
  "get_pruning_info locked self =
     (if \<not> locked \<and> op_outcome self \<noteq> Outcome_Unknown then None
      else Some \<lparr>pi_last_usage = op_last_usage self, pi_owner = op_owner self,
                 pi_index = op_index self, pi_forced = op_forced self\<rparr>)"

text \<open>\<open>release_usage_reservation\<close> of the auth info the operation holds.\<close>

definition op_release :: "Operation \<Rightarrow> op_env \<Rightarrow> Operation \<times> op_env" where
  "op_release self env =
     (case release_usage_reservation (op_auth_info self) (oe_in_flight env) of
        (info, f) \<Rightarrow> (self\<lparr>op_auth_info := info\<rparr>, env\<lparr>oe_in_flight := f\<rparr>))"

text \<open>An error of KeyMint's \<open>abort\<close> is only logged.\<close>

definition Operation_prune ::
    "bool \<Rightarrow> nat \<Rightarrow> Operation \<Rightarrow> op_env \<Rightarrow> Operation \<times> op_env \<times> (KsError + unit)" where
  "Operation_prune locked last_usage self env =
     (if locked then (self, env, Inl (KsError_Rc ResponseCode_OPERATION_BUSY))
      else if op_outcome self \<noteq> Outcome_Unknown
      then (self, env, ks_km ErrorCode_InvalidOperationHandle)
      else if op_last_usage self \<noteq> last_usage
      then (self, env, Inl (KsError_Rc ResponseCode_OPERATION_BUSY))
      else case op_release (self\<lparr>op_outcome := Outcome_Pruned\<rparr>) env of
             (self', env') \<Rightarrow> (self', env', Inr ()))"

definition update_outcome ::
    "Operation \<Rightarrow> op_env \<Rightarrow> KsError + 'a \<Rightarrow> Operation \<times> op_env \<times> (KsError + 'a)" where
  "update_outcome self env err = (case err of
     Inl e \<Rightarrow>
       (case op_release (self\<lparr>op_outcome := Outcome_ErrorCode (error_to_serialized_error e)\<rparr>) env of
          (self', env') \<Rightarrow> (self', env', err))
   | Inr _ \<Rightarrow> (self, env, err))"

definition check_active :: "Operation \<Rightarrow> KsError + unit" where
  "check_active self =
     (if op_outcome self = Outcome_Unknown then Inr () else ks_km ErrorCode_InvalidOperationHandle)"

definition check_input_length :: "bytes \<Rightarrow> KsError + unit" where
  "check_input_length data =
     (if length data > MAX_RECEIVE_DATA then Inl (KsError_Rc ResponseCode_TOO_MUCH_DATA) else Inr ())"

definition touch :: "nat \<Rightarrow> Operation \<Rightarrow> Operation" where
  "touch now self = self\<lparr>op_last_usage := now\<rparr>"

text \<open>The auth tokens the operation has, with the state they leave behind.\<close>

definition op_before_update ::
    "Operation \<Rightarrow> op_env
     \<Rightarrow> Operation \<times> op_env \<times> (KsError + (HardwareAuthToken option \<times> TimeStampToken option))" where
  "op_before_update self env =
     (case before_update (op_auth_info self) (oe_requests env) of
        (info, heap, res) \<Rightarrow>
          (self\<lparr>op_auth_info := info\<rparr>, env\<lparr>oe_requests := heap\<rparr>, res))"

text \<open>\<open>update_aad\<close> and \<open>update\<close> share their frame; \<open>call\<close> is the KeyMint call.\<close>

definition op_update_with ::
    "(HardwareAuthToken option \<Rightarrow> TimeStampToken option \<Rightarrow> KsError + 'a) \<Rightarrow> nat \<Rightarrow> bytes
     \<Rightarrow> Operation \<Rightarrow> op_env \<Rightarrow> Operation \<times> op_env \<times> (KsError + 'a)" where
  "op_update_with call now input self env =
     (case res_bind (check_active self) (\<lambda>_. check_input_length input) of
        Inl e \<Rightarrow> (self, env, Inl e)
      | Inr _ \<Rightarrow>
          (case op_before_update (touch now self) env of
             (self, env, Inl e) \<Rightarrow> (self, env, Inl e)
           | (self, env, Inr (hat, tst)) \<Rightarrow> update_outcome self env (call hat tst)))"

definition update_aad ::
    "IKeyMintOperation \<Rightarrow> nat \<Rightarrow> bytes \<Rightarrow> Operation \<Rightarrow> op_env \<Rightarrow> Operation \<times> op_env \<times> (KsError + unit)"
    where
  "update_aad km now aad_input = op_update_with (km_updateAad km aad_input) now aad_input"

definition nonempty_output :: "bytes \<Rightarrow> bytes option" where
  "nonempty_output output = (if output = [] then None else Some output)"

definition update ::
    "IKeyMintOperation \<Rightarrow> nat \<Rightarrow> bytes \<Rightarrow> Operation \<Rightarrow> op_env
     \<Rightarrow> Operation \<times> op_env \<times> (KsError + bytes option)" where
  "update km now input self env =
     (case op_update_with (km_update km input) now input self env of
        (self, env, res) \<Rightarrow> (self, env, map_ok nonempty_output res))"

text \<open>\<open>after_finish\<close> on the auth info of the operation, and the outcome it leads to.\<close>

definition op_after_finish ::
    "Operation \<Rightarrow> op_env \<Rightarrow> Operation \<times> op_env \<times> (KsError + unit)" where
  "op_after_finish self env =
     (case after_finish (op_auth_info self) (oe_in_flight env) (oe_usage_db env) of
        (info, f, db, usage_result) \<Rightarrow>
          (self\<lparr>op_auth_info := info,
             op_outcome := (case usage_result of
                Inl e \<Rightarrow> Outcome_ErrorCode (error_to_serialized_error e)
              | Inr _ \<Rightarrow> Outcome_Success)\<rparr>,
           env\<lparr>oe_in_flight := f, oe_usage_db := db\<rparr>, usage_result))"

definition op_before_finish ::
    "Operation \<Rightarrow> op_env \<Rightarrow> Operation \<times> op_env
       \<times> (KsError + (HardwareAuthToken option \<times> TimeStampToken option \<times> bytes option))" where
  "op_before_finish self env =
     (case before_finish (op_auth_info self) (oe_requests env) (oe_channel env) of
        (info, heap, channel, res) \<Rightarrow>
          (self\<lparr>op_auth_info := info\<rparr>, env\<lparr>oe_requests := heap, oe_channel := channel\<rparr>, res))"

definition finish ::
    "IKeyMintOperation \<Rightarrow> nat \<Rightarrow> bytes option \<Rightarrow> bytes option \<Rightarrow> Operation \<Rightarrow> op_env
     \<Rightarrow> Operation \<times> op_env \<times> (KsError + bytes option)" where
  "finish km now input signature self env =
     (case res_bind (check_active self) (\<lambda>_.
             case input of Some input \<Rightarrow> check_input_length input | None \<Rightarrow> Inr ()) of
        Inl e \<Rightarrow> (self, env, Inl e)
      | Inr _ \<Rightarrow>
          (case op_before_finish (touch now self) env of
             (self, env, Inl e) \<Rightarrow> (self, env, Inl e)
           | (self, env, Inr (hat, tst, confirmation_token)) \<Rightarrow>
               (case update_outcome self env
                       (km_finish km input signature hat tst confirmation_token) of
                  (self, env, Inl e) \<Rightarrow> (self, env, Inl e)
                | (self, env, Inr output) \<Rightarrow>
                    (case op_after_finish self env of
                       (self, env, usage_result) \<Rightarrow>
                         (self, env, map_ok (\<lambda>_. nonempty_output output) usage_result)))))"

definition abort ::
    "IKeyMintOperation \<Rightarrow> Outcome \<Rightarrow> Operation \<Rightarrow> op_env \<Rightarrow> Operation \<times> op_env \<times> (KsError + unit)"
    where
  "abort km outcome self env = (case check_active self of
     Inl e \<Rightarrow> (self, env, Inl e)
   | Inr _ \<Rightarrow>
       (case op_release (self\<lparr>op_outcome := outcome\<rparr>) env of
          (self, env) \<Rightarrow> (self, env, km_abort km)))"

definition update_metrics :: "nat \<Rightarrow> nat \<Rightarrow> Operation \<Rightarrow> Operation" where
  "update_metrics latency input_bytes self =
     (let m = op_operation_metrics self in
      self\<lparr>op_operation_metrics :=
        \<lparr>om_total_duration = om_total_duration m + latency,
         om_call_count = om_call_count m + 1,
         om_total_input_bytes =
           of_nat (min (2 ^ 64 - 1) (unat (om_total_input_bytes m) + input_bytes))\<rparr>\<rparr>)"

text \<open>Dropping the last reference; the statistics it logs are not part of the state.\<close>

definition drop_operation :: "IKeyMintOperation \<Rightarrow> Operation \<Rightarrow> op_env \<Rightarrow> Operation \<times> op_env" where
  "drop_operation km self env =
     (if op_outcome self = Outcome_Unknown
      then (case abort km Outcome_Dropped self env of (self, env, _) \<Rightarrow> (self, env))
      else (self, env))"

section \<open>The operation database\<close>

text \<open>
  An \<open>Arc<Operation>\<close> is an identifier that is in \<open>ow_arcs\<close> as long as a strong reference
  exists; the database holds weak references, in \<open>ow_slots\<close>.  A weak reference keeps its
  identifier from being used again.
\<close>

record op_world =
  ow_arcs :: "nat \<Rightarrow> Operation option"
  ow_slots :: "nat list"
  ow_env :: op_env

fun find_free_slot :: "(nat \<Rightarrow> Operation option) \<Rightarrow> nat \<Rightarrow> nat list \<Rightarrow> nat option" where
  "find_free_slot arcs index [] = None"
| "find_free_slot arcs index (s # slots) =
     (if arcs s = None then Some index else find_free_slot arcs (index + 1) slots)"

definition create_operation ::
    "op_world \<Rightarrow> nat \<Rightarrow> nat \<Rightarrow> u32 \<Rightarrow> AuthInfo \<Rightarrow> bool \<Rightarrow> nat \<Rightarrow> op_world" where
  "create_operation w new_op km_op owner auth_info forced now =
     (case find_free_slot (ow_arcs w) 0 (ow_slots w) of
        Some index \<Rightarrow>
          w\<lparr>ow_arcs := (ow_arcs w)(new_op \<mapsto> Operation_new index km_op owner auth_info forced now),
            ow_slots := (ow_slots w)[index := new_op]\<rparr>
      | None \<Rightarrow>
          w\<lparr>ow_arcs := (ow_arcs w)(new_op \<mapsto>
              Operation_new (length (ow_slots w)) km_op owner auth_info forced now),
            ow_slots := ow_slots w @ [new_op]\<rparr>)"

definition OperationDb_get :: "op_world \<Rightarrow> nat \<Rightarrow> (nat \<times> Operation) option" where
  "OperationDb_get w index =
     (if index < length (ow_slots w)
      then map_option (Pair (ow_slots w ! index)) (ow_arcs w (ow_slots w ! index))
      else None)"

section \<open>Pruning\<close>

record CandidateInfo =
  ci_index :: nat
  ci_malus :: nat
  ci_last_usage :: nat
  ci_age :: nat

text \<open>
  The live operations that are not finalized, as the thread that prunes sees them.
\<close>

definition gather_pruning_info :: "(nat \<Rightarrow> bool) \<Rightarrow> op_world \<Rightarrow> PruningInfo list" where
  "gather_pruning_info locked w =
     List.map_filter (\<lambda>s. Option.bind (ow_arcs w s) (get_pruning_info (locked s))) (ow_slots w)"

definition count_owners :: "PruningInfo list \<Rightarrow> u32 \<Rightarrow> nat" where
  "count_owners = foldl (\<lambda>owners i. owners(pi_owner i := owners (pi_owner i) + 1)) (\<lambda>_. 0)"

text \<open>
  \<open>log6\<close> stands for the value of \<open>((secs + 1) as f64).log(6.0).floor() as u64\<close>; the precision of
  \<open>f64::log\<close> is not specified.  An age is zero if the clock stood before the last usage.
\<close>

definition pruning_age :: "nat \<Rightarrow> PruningInfo \<Rightarrow> nat" where
  "pruning_age now i = now - pi_last_usage i"

definition malus :: "(nat \<Rightarrow> nat) \<Rightarrow> nat \<Rightarrow> (u32 \<Rightarrow> nat) \<Rightarrow> PruningInfo \<Rightarrow> nat" where
  "malus log6 now owners i =
     (if pi_forced i then 0 else owners (pi_owner i) + log6 (pruning_age now i div 1000))"

definition caller_malus :: "u32 \<Rightarrow> bool \<Rightarrow> (u32 \<Rightarrow> nat) \<Rightarrow> nat" where
  "caller_malus caller forced owners = (if forced then 0 else 1 + owners caller)"

definition candidate_step ::
    "(nat \<Rightarrow> nat) \<Rightarrow> nat \<Rightarrow> u32 \<Rightarrow> nat \<Rightarrow> (u32 \<Rightarrow> nat)
     \<Rightarrow> CandidateInfo option \<times> CandidateInfo option \<Rightarrow> PruningInfo
     \<Rightarrow> CandidateInfo option \<times> CandidateInfo option" where
  "candidate_step log6 now caller limit owners = (\<lambda>(acc, oldest_caller_op) i.
     let age = pruning_age now i;
         sibling = \<lparr>ci_index = pi_index i, ci_malus = 0, ci_last_usage = pi_last_usage i, ci_age = age\<rparr>;
         oldest_caller_op =
           (if pi_owner i = caller then
              (case oldest_caller_op of
                 Some c \<Rightarrow> if age > ci_age c then Some sibling else Some c
               | None \<Rightarrow> Some sibling)
            else oldest_caller_op);
         m = malus log6 now owners i;
         this = \<lparr>ci_index = pi_index i, ci_malus = m, ci_last_usage = pi_last_usage i, ci_age = age\<rparr>;
         acc = (case acc of
                  None \<Rightarrow> if limit < m then Some this else None
                | Some c \<Rightarrow>
                    if m > ci_malus c \<or> m = ci_malus c \<and> age > ci_age c then Some this else Some c)
     in (acc, oldest_caller_op))"

definition prune_candidate ::
    "(nat \<Rightarrow> nat) \<Rightarrow> nat \<Rightarrow> u32 \<Rightarrow> bool \<Rightarrow> PruningInfo list \<Rightarrow> CandidateInfo option" where
  "prune_candidate log6 now caller forced infos =
     (let owners = count_owners infos;
          limit = caller_malus caller forced owners
      in case foldl (candidate_step log6 now caller limit owners) (None, None) infos of
           (candidate, oldest_caller_op) \<Rightarrow>
             (case candidate of Some c \<Rightarrow> Some c | None \<Rightarrow> oldest_caller_op))"

text \<open>
  One round of the loop.  The operations are looked at in \<open>w\<close>; when the candidate is pruned, other
  threads may have moved the world on to \<open>w'\<close>.  No result means that the loop continues.
\<close>

definition prune_round ::
    "(nat \<Rightarrow> nat) \<Rightarrow> nat \<Rightarrow> u32 \<Rightarrow> bool \<Rightarrow> (nat \<Rightarrow> bool) \<times> op_world \<Rightarrow> (nat \<Rightarrow> bool) \<times> op_world
     \<Rightarrow> op_world \<times> (KsError + unit) option" where
  "prune_round log6 now caller forced = (\<lambda>(locked, w) (locked', w').
     case prune_candidate log6 now caller forced (gather_pruning_info locked w) of
       None \<Rightarrow> (w', Some (Inl (KsError_Rc ResponseCode_BACKEND_BUSY)))
     | Some c \<Rightarrow>
         (case OperationDb_get w' (ci_index c) of
            None \<Rightarrow> (w', Some (Inr ()))
          | Some (arc, op) \<Rightarrow>
              (case Operation_prune (locked' arc) (ci_last_usage c) op (ow_env w') of
                 (op', env', res) \<Rightarrow>
                   (w'\<lparr>ow_arcs := (ow_arcs w')(arc \<mapsto> op'), ow_env := env'\<rparr>,
                    (if res = Inr () then Some (Inr ())
                     else if res = ks_km ErrorCode_InvalidOperationHandle then Some (Inr ())
                     else if res = Inl (KsError_Rc ResponseCode_OPERATION_BUSY) then Some (Inr ())
                     else None)))))"

text \<open>The loop; \<open>views n\<close> is what its \<open>n\<close>-th round sees.\<close>

partial_function (option) prune ::
    "(nat \<Rightarrow> nat) \<Rightarrow> u32 \<Rightarrow> bool
     \<Rightarrow> (nat \<Rightarrow> nat \<times> ((nat \<Rightarrow> bool) \<times> op_world) \<times> ((nat \<Rightarrow> bool) \<times> op_world)) \<Rightarrow> nat
     \<Rightarrow> (op_world \<times> (KsError + unit)) option" where
  [code]: "prune log6 caller forced views n =
     (case views n of (now, seen, acted) \<Rightarrow>
        (case prune_round log6 now caller forced seen acted of
           (w, Some r) \<Rightarrow> Some (w, r)
         | (w, None) \<Rightarrow> prune log6 caller forced views (n + 1)))"

section \<open>The client's proxy\<close>

text \<open>
  \<open>with_locked_operation\<close>: \<open>busy\<close> tells whether another call holds the proxy's lock.  The proxy
  holds the only lasting strong reference, so giving it up drops the operation, and with it a
  reservation its auth info still holds.
\<close>

definition drop_arc :: "IKeyMintOperation \<Rightarrow> nat \<Rightarrow> op_world \<Rightarrow> op_world" where
  "drop_arc km arc w = (case ow_arcs w arc of
     None \<Rightarrow> w
   | Some op \<Rightarrow>
       (case drop_operation km op (ow_env w) of
          (op, env) \<Rightarrow>
            (case op_release op env of
               (_, env) \<Rightarrow> w\<lparr>ow_arcs := (ow_arcs w)(arc := None), ow_env := env\<rparr>)))"

definition with_locked_operation ::
    "IKeyMintOperation \<Rightarrow> bool \<Rightarrow> (Operation \<Rightarrow> op_env \<Rightarrow> Operation \<times> op_env \<times> (KsError + 'a)) \<Rightarrow> bool
     \<Rightarrow> nat \<Rightarrow> nat \<Rightarrow> nat option \<Rightarrow> op_world \<Rightarrow> nat option \<times> op_world \<times> (KsError + 'a)" where
  "with_locked_operation km busy f delete_op input_len latency proxy w =
     (if busy then (proxy, w, Inl (KsError_Rc ResponseCode_OPERATION_BUSY))
      else case proxy of
        None \<Rightarrow> (None, w, ks_km ErrorCode_InvalidOperationHandle)
      | Some arc \<Rightarrow>
          (case f (the (ow_arcs w arc)) (ow_env w) of
             (op, env, result) \<Rightarrow>
               (let w = w\<lparr>ow_arcs := (ow_arcs w)(arc \<mapsto> update_metrics latency input_len op),
                          ow_env := env\<rparr>
                in if delete_op \<or> \<not> is_ok result then (None, drop_arc km arc w, result)
                   else (Some arc, w, result))))"

definition KeystoreOperation_updateAad where
  "KeystoreOperation_updateAad km busy now latency aad_input =
     with_locked_operation km busy (update_aad km now aad_input) False (length aad_input) latency"

definition KeystoreOperation_update where
  "KeystoreOperation_update km busy now latency input =
     with_locked_operation km busy (update km now input) False (length input) latency"

definition KeystoreOperation_finish where
  "KeystoreOperation_finish km busy now latency input signature =
     with_locked_operation km busy (finish km now input signature) True
       (case input of Some v \<Rightarrow> length v | None \<Rightarrow> 0) latency"

definition KeystoreOperation_abort where
  "KeystoreOperation_abort km busy latency =
     with_locked_operation km busy (abort km Outcome_Abort) True 0 latency"

section \<open>What a call does to the reservation\<close>

definition op_reservation :: "Operation \<Rightarrow> KeyUsageReservation option" where
  "op_reservation op = ai_key_usage_reservation (op_auth_info op)"

text \<open>
  Either nothing happens to it, or it is given up without or with a use of the key; an
  operation that has ended is not changed at all, and one that ends holds no reservation.
\<close>

definition reservation_kept :: "Operation \<Rightarrow> op_env \<Rightarrow> Operation \<Rightarrow> op_env \<Rightarrow> bool" where
  "reservation_kept op env op' env' \<longleftrightarrow>
     op_reservation op' = op_reservation op \<and> oe_in_flight env' = oe_in_flight env
   \<and> oe_usage_db env' = oe_usage_db env"

definition reservation_released :: "Operation \<Rightarrow> op_env \<Rightarrow> Operation \<Rightarrow> op_env \<Rightarrow> bool" where
  "reservation_released op env op' env' \<longleftrightarrow>
     op_reservation op' = None \<and> oe_usage_db env' = oe_usage_db env
   \<and> oe_in_flight env' = (case op_reservation op of
       None \<Rightarrow> oe_in_flight env | Some r \<Rightarrow> drop_reservation r (oe_in_flight env))"

definition reservation_spent :: "Operation \<Rightarrow> op_env \<Rightarrow> Operation \<Rightarrow> op_env \<Rightarrow> bool" where
  "reservation_spent op env op' env' \<longleftrightarrow>
     op_reservation op' = None
   \<and> (\<exists>r res. op_reservation op = Some r
        \<and> commit r (oe_in_flight env) (oe_usage_db env) check_and_update_key_usage_count
          = (None, oe_in_flight env', oe_usage_db env', res))"

definition op_effect :: "Operation \<Rightarrow> op_env \<Rightarrow> Operation \<Rightarrow> op_env \<Rightarrow> bool" where
  "op_effect op env op' env' \<longleftrightarrow>
     (if op_outcome op \<noteq> Outcome_Unknown then op' = op \<and> env' = env
      else if op_outcome op' = Outcome_Unknown then reservation_kept op env op' env'
      else reservation_released op env op' env' \<or> reservation_spent op env op' env')
   \<and> op_index op' = op_index op"

lemmas effect_defs = op_effect_def reservation_kept_def reservation_released_def
  reservation_spent_def op_reservation_def

lemma op_release_fields:
  assumes "op_release op env = (op', env')"
  shows "op_outcome op' = op_outcome op" "op_index op' = op_index op"
    "reservation_released op env op' env'"
  using assms
  by (auto simp: op_release_def release_usage_reservation_def effect_defs split: prod.splits option.splits)

lemma update_outcome_effect:
  assumes "update_outcome op env err = (op', env', res)" "op_outcome op = Outcome_Unknown"
  shows "op_effect op env op' env'" "res = err"
    "op_outcome op' = (case err of
       Inl e \<Rightarrow> Outcome_ErrorCode (error_to_serialized_error e) | Inr _ \<Rightarrow> Outcome_Unknown)"
proof (atomize (full), cases err)
  case (Inl e)
  let ?op = "op\<lparr>op_outcome := Outcome_ErrorCode (error_to_serialized_error e)\<rparr>"
  have "op_release ?op env = (op', env')" "res = err"
    using assms Inl by (auto simp: update_outcome_def split: prod.splits)
  with op_release_fields[of ?op env op' env'] show "op_effect op env op' env' \<and> res = err \<and>
      op_outcome op' = (case err of
        Inl e \<Rightarrow> Outcome_ErrorCode (error_to_serialized_error e) | Inr _ \<Rightarrow> Outcome_Unknown)"
    using assms(2) Inl by (auto simp: effect_defs)
next
  case (Inr a)
  with assms show "op_effect op env op' env' \<and> res = err \<and>
      op_outcome op' = (case err of
        Inl e \<Rightarrow> Outcome_ErrorCode (error_to_serialized_error e) | Inr _ \<Rightarrow> Outcome_Unknown)"
    by (auto simp: update_outcome_def effect_defs)
qed

lemma get_auth_tokens_reservation:
  "AuthInfo_get_auth_tokens info heap = (info', heap', res)
   \<Longrightarrow> ai_key_usage_reservation info' = ai_key_usage_reservation info"
  by (auto simp: AuthInfo_get_auth_tokens_def split: DeferredAuthState.splits prod.splits sum.splits)

lemma before_update_kept:
  assumes "op_before_update op env = (op', env', res)"
  shows "reservation_kept op env op' env'" "op_outcome op' = op_outcome op" "op_index op' = op_index op"
  using assms get_auth_tokens_reservation
  by (auto simp: op_before_update_def before_update_def effect_defs split: prod.splits)

lemma before_finish_kept:
  assumes "op_before_finish op env = (op', env', res)"
  shows "reservation_kept op env op' env'" "op_outcome op' = op_outcome op" "op_index op' = op_index op"
  using assms get_auth_tokens_reservation
  by (auto simp: op_before_finish_def before_finish_def effect_defs Let_def
      split: prod.splits if_splits option.splits)

lemma touch_fields [simp]:
  "op_outcome (touch now op) = op_outcome op" "op_index (touch now op) = op_index op"
  "op_reservation (touch now op) = op_reservation op"
  by (simp_all add: touch_def op_reservation_def)

lemma kept_then:
  assumes "reservation_kept op env op1 env1" "op_effect op1 env1 op2 env2"
    "op_outcome op = Outcome_Unknown" "op_outcome op1 = Outcome_Unknown" "op_index op1 = op_index op"
  shows "op_effect op env op2 env2"
  using assms by (cases "op_reservation op") (auto simp: effect_defs split: if_splits)

lemma kept_effect:
  assumes "reservation_kept op env op1 env1"
    "op_outcome op = Outcome_Unknown" "op_outcome op1 = Outcome_Unknown" "op_index op1 = op_index op"
  shows "op_effect op env op1 env1"
  using assms by (auto simp: op_effect_def)

lemma op_update_withE:
  assumes "op_update_with call now input op env = (op', env', res)"
  obtains (ended) "op_outcome op \<noteq> Outcome_Unknown" "op' = op" "env' = env"
      "res = ks_km ErrorCode_InvalidOperationHandle"
    | (too_much) "op_outcome op = Outcome_Unknown" "length input > 0x8000" "op' = op" "env' = env"
      "res = Inl (KsError_Rc ResponseCode_TOO_MUCH_DATA)"
    | (no_tokens) e where "op_outcome op = Outcome_Unknown"
      "op_before_update (touch now op) env = (op', env', Inl e)" "res = Inl e"
    | (called) op1 env1 hat tst where "op_outcome op = Outcome_Unknown"
      "op_before_update (touch now op) env = (op1, env1, Inr (hat, tst))"
      "update_outcome op1 env1 (call hat tst) = (op', env', res)"
proof -
  obtain op1 env1 r1 where "op_before_update (touch now op) env = (op1, env1, r1)"
    by (rule prod_cases3)
  with assms that show thesis
    by (cases r1) (auto simp: op_update_with_def check_active_def check_input_length_def
        MAX_RECEIVE_DATA_def split: if_splits)
qed

lemma op_update_with_effect:
  assumes "op_update_with call now input op env = (op', env', res)"
  shows "op_effect op env op' env'"
    "op_outcome op = Outcome_Unknown \<Longrightarrow> op_outcome op' = Outcome_Unknown \<or>
       (\<exists>e. res = Inl e \<and> op_outcome op' = Outcome_ErrorCode (error_to_serialized_error e))"
  using assms
proof (atomize (full), cases rule: op_update_withE)
  case (no_tokens e)
  from before_update_kept[OF no_tokens(2)] no_tokens(1)
  show "op_effect op env op' env' \<and> (op_outcome op = Outcome_Unknown \<longrightarrow>
      op_outcome op' = Outcome_Unknown \<or>
      (\<exists>e. res = Inl e \<and> op_outcome op' = Outcome_ErrorCode (error_to_serialized_error e)))"
    by (simp add: op_effect_def reservation_kept_def)
next
  case (called op1 env1 hat tst)
  note kept = before_update_kept[OF called(2)]
  have active: "op_outcome op1 = Outcome_Unknown" using kept called(1) by simp
  from kept called(1) have "reservation_kept op env op1 env1" "op_index op1 = op_index op"
    by (simp_all add: reservation_kept_def)
  with update_outcome_effect[OF called(3) active] active called(1)
  show "op_effect op env op' env' \<and> (op_outcome op = Outcome_Unknown \<longrightarrow>
      op_outcome op' = Outcome_Unknown \<or>
      (\<exists>e. res = Inl e \<and> op_outcome op' = Outcome_ErrorCode (error_to_serialized_error e)))"
    by (auto intro: kept_then split: sum.splits)
qed (simp_all add: effect_defs)

lemma after_finish_effect:
  assumes "op_after_finish op env = (op', env', res)" "op_outcome op = Outcome_Unknown"
  shows "op_effect op env op' env'"
    "op_outcome op' = (case res of
       Inl e \<Rightarrow> Outcome_ErrorCode (error_to_serialized_error e) | Inr _ \<Rightarrow> Outcome_Success)"
proof -
  show outcome: "op_outcome op' = (case res of
       Inl e \<Rightarrow> Outcome_ErrorCode (error_to_serialized_error e) | Inr _ \<Rightarrow> Outcome_Success)"
    using assms by (auto simp: op_after_finish_def split: prod.splits)
  show "op_effect op env op' env'"
  proof (cases "op_reservation op")
    case None
    with assms show ?thesis
      by (auto simp: op_after_finish_def after_finish_def effect_defs)
  next
    case (Some r)
    obtain r' f' db' res' where c: "commit r (oe_in_flight env) (oe_usage_db env)
        check_and_update_key_usage_count = (r', f', db', res')"
      by (rule prod_cases4)
    then have "r' = None" by (auto simp: commit_def split: option.splits prod.splits)
    with c Some assms(1) have "reservation_spent op env op' env'" "op_index op' = op_index op"
      by (auto simp: op_after_finish_def after_finish_def reservation_spent_def op_reservation_def
          drop_reservation_def)
    with assms(2) outcome show ?thesis by (auto simp: op_effect_def split: sum.splits)
  qed
qed

lemma finishE:
  assumes "finish km now input sig op env = (op', env', res)"
  obtains (ended) "op_outcome op \<noteq> Outcome_Unknown" "op' = op" "env' = env"
      "res = ks_km ErrorCode_InvalidOperationHandle"
    | (too_much) "op_outcome op = Outcome_Unknown" "op' = op" "env' = env"
      "res = Inl (KsError_Rc ResponseCode_TOO_MUCH_DATA)"
    | (no_tokens) e where "op_outcome op = Outcome_Unknown"
      "op_before_finish (touch now op) env = (op', env', Inl e)" "res = Inl e"
    | (failed) op1 env1 tokens answer e where "op_outcome op = Outcome_Unknown"
      "op_before_finish (touch now op) env = (op1, env1, Inr tokens)"
      "update_outcome op1 env1 (answer :: KsError + bytes) = (op', env', Inl e)" "res = Inl e"
    | (concluded) op1 env1 tokens out r3 where "op_outcome op = Outcome_Unknown"
      "op_before_finish (touch now op) env = (op1, env1, Inr tokens)"
      "op_after_finish op1 env1 = (op', env', r3)" "res = map_ok (\<lambda>_. nonempty_output out) r3"
proof -
  obtain op1 env1 r1 where b: "op_before_finish (touch now op) env = (op1, env1, r1)"
    by (rule prod_cases3)
  show thesis
  proof (cases "\<exists>e. r1 = Inl e \<or> op_outcome op \<noteq> Outcome_Unknown
      \<or> (\<exists>i. input = Some i \<and> length i > 0x8000)")
    case True
    with assms that(1-3) b show thesis
      by (auto simp: finish_def check_active_def check_input_length_def MAX_RECEIVE_DATA_def
          split: if_splits option.splits)
  next
    case False
    then obtain hat tst conf where r1: "r1 = Inr (hat, tst, conf)" by (cases r1) auto
    obtain op2 env2 r2 where u: "update_outcome op1 env1 (km_finish km input sig hat tst conf) = (op2, env2, r2)"
      by (rule prod_cases3)
    obtain op3 env3 r3 where a: "op_after_finish op2 env2 = (op3, env3, r3)" by (rule prod_cases3)
    have eq: "(op', env', res) = (case r2 of Inl e \<Rightarrow> (op2, env2, Inl e)
        | Inr out \<Rightarrow> (op3, env3, map_ok (\<lambda>_. nonempty_output out) r3))"
      using assms b r1 u a False
      by (auto simp: finish_def check_active_def check_input_length_def MAX_RECEIVE_DATA_def
          split: option.splits sum.splits)
    show thesis
    proof (cases r2)
      case (Inl e)
      with eq b r1 u False show thesis by (intro that(4)) auto
    next
      case (Inr out)
      with u have "op2 = op1" "env2 = env1"
        by (auto simp: update_outcome_def split: sum.splits prod.splits)
      with Inr eq a b r1 False show thesis by (intro that(5)) auto
    qed
  qed
qed

definition finish_end :: "KsError + 'a \<Rightarrow> Outcome \<Rightarrow> bool" where
  "finish_end res outcome = (case res of
     Inr _ \<Rightarrow> outcome = Outcome_Success
   | Inl e \<Rightarrow> outcome = Outcome_Unknown \<or> outcome = Outcome_ErrorCode (error_to_serialized_error e))"

lemma finish_effect:
  assumes "finish km now input sig op env = (op', env', res)"
  shows "op_effect op env op' env'"
    "op_outcome op = Outcome_Unknown \<Longrightarrow> finish_end res (op_outcome op')"
  using assms
proof (atomize (full), cases rule: finishE)
  case (no_tokens e)
  from before_finish_kept[OF no_tokens(2)] no_tokens(1,3)
  show "op_effect op env op' env' \<and> (op_outcome op = Outcome_Unknown \<longrightarrow> finish_end res (op_outcome op'))"
    by (simp add: op_effect_def reservation_kept_def finish_end_def)
next
  case (failed op1 env1 tokens answer e)
  from before_finish_kept[OF failed(2)] failed(1)
  have kept: "reservation_kept op env op1 env1" "op_outcome op1 = Outcome_Unknown" "op_index op1 = op_index op"
    by (simp_all add: reservation_kept_def)
  from update_outcome_effect[OF failed(3) kept(2)] kept failed(1,4)
  show "op_effect op env op' env' \<and> (op_outcome op = Outcome_Unknown \<longrightarrow> finish_end res (op_outcome op'))"
    by (auto intro: kept_then simp: finish_end_def)
next
  case (concluded op1 env1 tokens out r3)
  from before_finish_kept[OF concluded(2)] concluded(1)
  have kept: "reservation_kept op env op1 env1" "op_outcome op1 = Outcome_Unknown" "op_index op1 = op_index op"
    by (simp_all add: reservation_kept_def)
  from after_finish_effect[OF concluded(3) kept(2)] kept concluded(1,4)
  show "op_effect op env op' env' \<and> (op_outcome op = Outcome_Unknown \<longrightarrow> finish_end res (op_outcome op'))"
    by (auto intro: kept_then simp: finish_end_def split: sum.splits)
qed (simp_all add: effect_defs finish_end_def)

lemma abort_effect:
  assumes "abort km outcome op env = (op', env', res)" "outcome \<noteq> Outcome_Unknown"
  shows "op_effect op env op' env'" "op_outcome op' \<noteq> Outcome_Unknown"
  using assms op_release_fields[of "op\<lparr>op_outcome := outcome\<rparr>" env op' env']
  by (auto simp: abort_def check_active_def effect_defs split: if_splits prod.splits)

lemma prune_effect:
  assumes "Operation_prune locked last_usage op env = (op', env', res)"
  shows "op_effect op env op' env'"
  using assms op_release_fields[of "op\<lparr>op_outcome := Outcome_Pruned\<rparr>" env op' env']
  by (auto simp: Operation_prune_def effect_defs split: if_splits prod.splits)

lemma update_effect:
  assumes "update km now input op env = (op', env', res)"
  shows "op_effect op env op' env'"
  using assms op_update_with_effect(1) by (fastforce simp: update_def split: prod.splits)

lemma update_aad_effect:
  assumes "update_aad km now input op env = (op', env', res)"
  shows "op_effect op env op' env'"
  using assms op_update_with_effect(1) by (fastforce simp: update_aad_def)

lemma drop_effect:
  assumes "drop_operation km op env = (op1, env1)" "op_release op1 env1 = (op', env')"
  shows "reservation_released op env op' env'"
proof (cases "op_outcome op = Outcome_Unknown")
  case True
  then have "op_release (op\<lparr>op_outcome := Outcome_Dropped\<rparr>) env = (op1, env1)"
    using assms(1) by (auto simp: drop_operation_def abort_def check_active_def split: prod.splits)
  from op_release_fields(3)[OF this] op_release_fields(3)[OF assms(2)] show ?thesis
    by (auto simp: effect_defs)
next
  case False
  with assms op_release_fields(3)[OF assms(2)] show ?thesis by (simp add: drop_operation_def)
qed

section \<open>Client calls\<close>

datatype client_call =
    Call_updateAad bytes
  | Call_update bytes
  | Call_finish "bytes option" "bytes option"
  | Call_abort

definition error_of :: "KsError + 'a \<Rightarrow> KsError option" where
  "error_of r = (case r of Inl e \<Rightarrow> Some e | Inr _ \<Rightarrow> None)"

definition run_call ::
    "IKeyMintOperation \<Rightarrow> nat \<Rightarrow> client_call \<Rightarrow> Operation \<Rightarrow> op_env
     \<Rightarrow> Operation \<times> op_env \<times> KsError option" where
  "run_call km now call op env = (case call of
     Call_updateAad input \<Rightarrow>
       (case update_aad km now input op env of (op, env, r) \<Rightarrow> (op, env, error_of r))
   | Call_update input \<Rightarrow>
       (case update km now input op env of (op, env, r) \<Rightarrow> (op, env, error_of r))
   | Call_finish input sig \<Rightarrow>
       (case finish km now input sig op env of (op, env, r) \<Rightarrow> (op, env, error_of r))
   | Call_abort \<Rightarrow>
       (case abort km Outcome_Abort op env of (op, env, r) \<Rightarrow> (op, env, error_of r)))"

lemma run_call_effect:
  assumes "run_call km now call op env = (op', env', err)"
  shows "op_effect op env op' env'"
  using assms update_aad_effect update_effect finish_effect(1) abort_effect(1)
  by (cases call) (fastforce simp: run_call_def split: prod.splits)+

text \<open>An operation that has ended refuses every call, and nothing changes.\<close>

lemma run_call_ended:
  "op_outcome op \<noteq> Outcome_Unknown \<Longrightarrow>
   run_call km now call op env = (op, env, Some (KsError_Km ErrorCode_InvalidOperationHandle))"
  by (cases call) (simp_all add: run_call_def update_aad_def update_def op_update_with_def
      finish_def abort_def check_active_def error_of_def)

end
