(* ===== verification/Operation_Safety.thy ===== *)
theory Operation_Safety
  imports Operation
begin

text \<open>
  The operations of the daemon as a system: create calls, client calls, drops and pruning in any
  order.  It refines the reservations of limited-use keys, so no use is leaked or granted twice.
  The rest is about the slots of the operation database and the choice of the operation to prune.
\<close>

section \<open>The system\<close>

text \<open>
  Between \<open>authorize_create\<close> and \<open>create_operation\<close> the thread that serves the create call holds
  the auth info; KeyMint's \<open>begin\<close> may fail, and then it is dropped.
\<close>

record op_system =
  os_world :: op_world
  os_pending :: "nat \<Rightarrow> AuthInfo option"

definition op_init :: "usage_db \<Rightarrow> op_system" where
  "op_init db = \<lparr>os_world = \<lparr>ow_arcs = Map.empty, ow_slots = [],
     ow_env = \<lparr>oe_requests = Map.empty, oe_channel = None, oe_in_flight = Map.empty, oe_usage_db = db\<rparr>\<rparr>,
     os_pending = Map.empty\<rparr>"

definition put_op :: "nat \<Rightarrow> Operation \<Rightarrow> op_env \<Rightarrow> op_world \<Rightarrow> op_world" where
  "put_op arc op env w = w\<lparr>ow_arcs := (ow_arcs w)(arc \<mapsto> op), ow_env := env\<rparr>"

definition fresh_arc :: "op_system \<Rightarrow> nat \<Rightarrow> bool" where
  "fresh_arc s arc \<longleftrightarrow>
     ow_arcs (os_world s) arc = None \<and> arc \<notin> set (ow_slots (os_world s)) \<and> os_pending s arc = None"

inductive op_step :: "op_system \<Rightarrow> op_system \<Rightarrow> bool" where
  op_authorize:
    "env = ow_env (os_world s) \<Longrightarrow> en_in_flight en = oe_in_flight env \<Longrightarrow>
     env_usage_db cenv = oe_usage_db env \<Longrightarrow> fresh_arc s arc \<Longrightarrow>
     authorize_create en cenv purpose key_properties op_params ts = (en', Inr (hat, info)) \<Longrightarrow>
     op_step s \<lparr>os_world = (os_world s)\<lparr>ow_env := env\<lparr>oe_in_flight := en_in_flight en'\<rparr>\<rparr>,
                os_pending = (os_pending s)(arc \<mapsto> info)\<rparr>"
| op_unauthorized:
    "env = ow_env (os_world s) \<Longrightarrow> en_in_flight en = oe_in_flight env \<Longrightarrow>
     env_usage_db cenv = oe_usage_db env \<Longrightarrow>
     authorize_create en cenv purpose key_properties op_params ts = (en', Inl e) \<Longrightarrow>
     op_step s (s\<lparr>os_world := (os_world s)\<lparr>ow_env := env\<lparr>oe_in_flight := en_in_flight en'\<rparr>\<rparr>\<rparr>)"
| op_finalize:
    "env = ow_env (os_world s) \<Longrightarrow> os_pending s arc = Some info \<Longrightarrow>
     finalize_create_authorization info m (oe_requests env) req clock challenge = (info', m', heap', c) \<Longrightarrow>
     op_step s \<lparr>os_world = (os_world s)\<lparr>ow_env := env\<lparr>oe_requests := heap'\<rparr>\<rparr>,
                os_pending = (os_pending s)(arc \<mapsto> info')\<rparr>"
| op_create:
    "os_pending s arc = Some info \<Longrightarrow> arc \<notin> set (ow_slots (os_world s)) \<Longrightarrow>
     op_step s \<lparr>os_world = create_operation (os_world s) arc km_op owner info forced now,
                os_pending = (os_pending s)(arc := None)\<rparr>"
| op_abandon:
    "env = ow_env (os_world s) \<Longrightarrow> os_pending s arc = Some info \<Longrightarrow>
     release_usage_reservation info (oe_in_flight env) = (info', f') \<Longrightarrow>
     op_step s \<lparr>os_world = (os_world s)\<lparr>ow_env := env\<lparr>oe_in_flight := f'\<rparr>\<rparr>,
                os_pending = (os_pending s)(arc := None)\<rparr>"
| op_client_call:
    "ow_arcs (os_world s) arc = Some op \<Longrightarrow>
     run_call km now call op (ow_env (os_world s)) = (op', env', err) \<Longrightarrow>
     op_step s (s\<lparr>os_world := put_op arc (update_metrics latency len op') env' (os_world s)\<rparr>)"
| op_pruned:
    "ow_arcs (os_world s) arc = Some op \<Longrightarrow>
     Operation_prune locked last_usage op (ow_env (os_world s)) = (op', env', res) \<Longrightarrow>
     op_step s (s\<lparr>os_world := put_op arc op' env' (os_world s)\<rparr>)"
| op_dropped:
    "op_step s (s\<lparr>os_world := drop_arc km arc (os_world s)\<rparr>)"
| op_others:
    "env = ow_env (os_world s) \<Longrightarrow> oe_in_flight env' = oe_in_flight env \<Longrightarrow>
     (\<And>k. key_usage_count (oe_usage_db env') k = key_usage_count (oe_usage_db env) k
        \<or> (\<exists>e. key_usage_count (oe_usage_db env') k = Inl e)) \<Longrightarrow>
     op_step s (s\<lparr>os_world := (os_world s)\<lparr>ow_env := env'\<rparr>\<rparr>)"

inductive op_reachable :: "usage_db \<Rightarrow> op_system \<Rightarrow> bool" for db0 where
  op_reach_init: "op_reachable db0 (op_init db0)"
| op_reach_step: "op_reachable db0 s \<Longrightarrow> op_step s s' \<Longrightarrow> op_reachable db0 s'"

section \<open>Refinement of the usage reservations\<close>

definition handles :: "op_system \<Rightarrow> nat \<Rightarrow> KeyUsageReservation option" where
  "handles s arc = (case ow_arcs (os_world s) arc of
     Some op \<Rightarrow> op_reservation op
   | None \<Rightarrow> Option.bind (os_pending s arc) ai_key_usage_reservation)"

definition refines :: "usage_db \<Rightarrow> op_system \<Rightarrow> usage_db usage_world \<Rightarrow> bool" where
  "refines db0 s u \<longleftrightarrow>
     usage_reachable key_usage_count check_and_update_key_usage_count db0 u
   \<and> w_in_flight u = oe_in_flight (ow_env (os_world s))
   \<and> w_db u = oe_usage_db (ow_env (os_world s))
   \<and> w_handles u = handles s
   \<and> (\<forall>arc. os_pending s arc \<noteq> None \<longrightarrow> ow_arcs (os_world s) arc = None)"

lemma usage_give_up:
  assumes "usage_reachable key_usage_count check_and_update_key_usage_count db0 u"
  shows "\<exists>u'. usage_reachable key_usage_count check_and_update_key_usage_count db0 u'
    \<and> w_in_flight u' = (case w_handles u h of
        None \<Rightarrow> w_in_flight u | Some r \<Rightarrow> drop_reservation r (w_in_flight u))
    \<and> w_db u' = w_db u \<and> w_handles u' = (w_handles u)(h := None)"
proof (cases "w_handles u h")
  case None
  with assms show ?thesis by (intro exI[of _ u]) (auto simp: fun_upd_idem_iff)
next
  case (Some r)
  from reach_step[OF assms step_drop[OF Some]] Some show ?thesis
    by (intro exI) (auto)
qed

lemma usage_spend:
  assumes u: "usage_reachable key_usage_count check_and_update_key_usage_count db0 u"
    and h: "w_handles u h = Some r"
    and c: "commit r (w_in_flight u) (w_db u) check_and_update_key_usage_count = (None, f', db', res)"
  shows "\<exists>u'. usage_reachable key_usage_count check_and_update_key_usage_count db0 u'
    \<and> w_in_flight u' = f' \<and> w_db u' = db' \<and> w_handles u' = (w_handles u)(h := None)"
proof -
  note u1 = reach_step[OF u step_commit[OF h disjI1[OF refl] c]]
  from usage_give_up[OF u1, of h] show ?thesis by (auto simp: drop_reservation_def)
qed

lemma refines_effect:
  assumes r: "refines db0 s u" and op: "ow_arcs (os_world s) arc = Some op"
    and eff: "op_effect op (ow_env (os_world s)) op' env'"
    and res: "op_reservation op2 = op_reservation op'"
  shows "\<exists>u'. refines db0 (s\<lparr>os_world := put_op arc op2 env' (os_world s)\<rparr>) u'"
proof -
  let ?s = "s\<lparr>os_world := put_op arc op2 env' (os_world s)\<rparr>"
  have h: "w_handles u arc = op_reservation op"
    using r op by (simp add: refines_def handles_def)
  have h': "handles ?s = (handles s)(arc := op_reservation op')"
    by (rule ext) (simp add: res handles_def put_op_def split: option.split)
  have same: "refines db0 ?s u'"
    if "usage_reachable key_usage_count check_and_update_key_usage_count db0 u'"
      "w_in_flight u' = oe_in_flight env'" "w_db u' = oe_usage_db env'"
      "w_handles u' = (w_handles u)(arc := op_reservation op')" for u'
    using that r op h' by (auto simp: refines_def put_op_def)
  from eff consider "reservation_kept op (ow_env (os_world s)) op' env'"
    | "reservation_released op (ow_env (os_world s)) op' env'"
    | "reservation_spent op (ow_env (os_world s)) op' env'"
    by (auto simp: op_effect_def reservation_kept_def split: if_splits)
  then show ?thesis
  proof cases
    case 1
    with r h have "refines db0 ?s u"
      by (intro same) (auto simp: refines_def reservation_kept_def fun_upd_idem_iff)
    then show ?thesis ..
  next
    case 2
    from r usage_give_up[of db0 u arc] obtain u' where
      "usage_reachable key_usage_count check_and_update_key_usage_count db0 u'"
      "w_in_flight u' = (case w_handles u arc of
        None \<Rightarrow> w_in_flight u | Some r \<Rightarrow> drop_reservation r (w_in_flight u))"
      "w_db u' = w_db u" "w_handles u' = (w_handles u)(arc := None)"
      by (auto simp: refines_def)
    with 2 r h have "refines db0 ?s u'"
      by (intro same) (auto simp: refines_def reservation_released_def split: option.splits)
    then show ?thesis ..
  next
    case 3
    then obtain rv rs where "op_reservation op = Some rv" "op_reservation op' = None"
      "commit rv (w_in_flight u) (w_db u) check_and_update_key_usage_count
         = (None, oe_in_flight env', oe_usage_db env', rs)"
      using r by (auto simp: reservation_spent_def refines_def)
    with r h usage_spend[of db0 u arc rv] obtain u' where
      "usage_reachable key_usage_count check_and_update_key_usage_count db0 u'"
      "w_in_flight u' = oe_in_flight env'" "w_db u' = oe_usage_db env'"
      "w_handles u' = (w_handles u)(arc := op_reservation op')"
      by (auto simp: refines_def)
    then have "refines db0 ?s u'" by (intro same)
    then show ?thesis ..
  qed
qed

lemma refines_drop:
  assumes r: "refines db0 s u"
  shows "\<exists>u'. refines db0 (s\<lparr>os_world := drop_arc km arc (os_world s)\<rparr>) u'"
proof (cases "ow_arcs (os_world s) arc")
  case None
  then have "s\<lparr>os_world := drop_arc km arc (os_world s)\<rparr> = s" by (simp add: drop_arc_def)
  with r show ?thesis by metis
next
  case (Some op)
  obtain op1 env1 where d: "drop_operation km op (ow_env (os_world s)) = (op1, env1)" by fastforce
  obtain op2 env2 where rel: "op_release op1 env1 = (op2, env2)" by fastforce
  let ?s = "s\<lparr>os_world := drop_arc km arc (os_world s)\<rparr>"
  have w: "drop_arc km arc (os_world s) =
      (os_world s)\<lparr>ow_arcs := (ow_arcs (os_world s))(arc := None), ow_env := env2\<rparr>"
    using Some d rel by (simp add: drop_arc_def)
  have pend: "os_pending s arc = None" using r Some by (auto simp: refines_def)
  have h: "handles ?s = (handles s)(arc := None)"
    by (rule ext) (simp add: w handles_def pend split: option.split)
  have ha: "w_handles u arc = op_reservation op" using r Some by (simp add: refines_def handles_def)
  note eff = drop_effect[OF d rel]
  from r usage_give_up[of db0 u arc] obtain u' where
      "usage_reachable key_usage_count check_and_update_key_usage_count db0 u'"
      "w_in_flight u' = (case w_handles u arc of
        None \<Rightarrow> w_in_flight u | Some r \<Rightarrow> drop_reservation r (w_in_flight u))"
      "w_db u' = w_db u" "w_handles u' = (w_handles u)(arc := None)"
    by (auto simp: refines_def)
  with r h ha eff have "refines db0 ?s u'"
    by (auto simp: refines_def reservation_released_def w split: option.splits)
  then show ?thesis ..
qed

lemma authorize_reserve:
  assumes "authorize_create en cenv purpose props op_params ts = (en', res)"
  shows "(en_in_flight en' = en_in_flight en \<and> (case res of
            Inr (hat, info) \<Rightarrow> ai_key_usage_reservation info = None | Inl _ \<Rightarrow> True))
       \<or> (\<exists>k. case res of
            Inr (hat, info) \<Rightarrow> \<exists>r. reserve (en_in_flight en) k (key_usage_count (env_usage_db cenv) k)
                                 = (en_in_flight en', Inr r) \<and> ai_key_usage_reservation info = Some r
          | Inl _ \<Rightarrow> \<exists>e. reserve (en_in_flight en) k (key_usage_count (env_usage_db cenv) k)
                                 = (en_in_flight en', Inl e))"
proof (cases props)
  case None
  with assms show ?thesis by (auto simp: authorize_create_def)
next
  case (Some p)
  obtain k ps where p: "p = (k, ps)" by fastforce
  show ?thesis
  proof (cases "create_checks en cenv purpose ps op_params ts")
    case (Inl e)
    with assms Some p show ?thesis by (auto simp: authorize_create_def)
  next
    case (Inr c)
    obtain hat state conf where c: "c = (hat, state, conf)" by (rule prod_cases3)
    obtain f r where r: "reserve (en_in_flight en) k (key_usage_count (env_usage_db cenv) k) = (f, r)"
      by fastforce
    show ?thesis
      using assms Some p Inr c r
      by (cases r) (auto simp: authorize_create_def reserve_key_usage_def split: if_splits)
  qed
qed

lemma handles_create:
  assumes "os_pending s arc = Some info" "ow_arcs (os_world s) arc = None"
  shows "handles \<lparr>os_world = create_operation (os_world s) arc km_op owner info forced now,
           os_pending = (os_pending s)(arc := None)\<rparr> = handles s"
  by (rule ext) (use assms in \<open>auto simp: handles_def create_operation_def Operation_new_def
      op_reservation_def split: option.splits\<close>)

lemma refines_step:
  assumes step: "op_step s s'" and r: "refines db0 s u"
  shows "\<exists>u'. refines db0 s' u'"
  using step r
proof (cases rule: op_step.cases)
  case (op_authorize env en cenv arc purpose key_properties op_params ts en' hat info)
  have none: "handles s arc = None" using op_authorize by (simp add: fresh_arc_def handles_def)
  have h: "handles s' = (handles s)(arc := ai_key_usage_reservation info)"
    by (rule ext) (use op_authorize in \<open>auto simp: handles_def fresh_arc_def split: option.splits\<close>)
  from authorize_reserve[OF op_authorize(6)] consider
      "en_in_flight en' = en_in_flight en" "ai_key_usage_reservation info = None"
    | k rv where "reserve (w_in_flight u) k (key_usage_count (w_db u) k) = (en_in_flight en', Inr rv)"
        "ai_key_usage_reservation info = Some rv"
    using op_authorize r by (auto simp: refines_def)
  then show ?thesis
  proof cases
    case 1
    with op_authorize r h none have "refines db0 s' u"
      by (auto simp: refines_def fun_upd_idem_iff fresh_arc_def)
    then show ?thesis ..
  next
    case 2
    have "w_handles u arc = None" using r none by (simp add: refines_def)
    from reach_step[OF _ step_reserve[where h = arc and count = key_usage_count, OF 2(1) this]] r
    have "usage_reachable key_usage_count check_and_update_key_usage_count db0
        (u\<lparr>w_in_flight := en_in_flight en', w_handles := (w_handles u)(arc \<mapsto> rv)\<rparr>)"
      by (auto simp: refines_def)
    with 2(2) op_authorize r h have "refines db0 s'
        (u\<lparr>w_in_flight := en_in_flight en', w_handles := (w_handles u)(arc \<mapsto> rv)\<rparr>)"
      by (auto simp: refines_def fresh_arc_def)
    then show ?thesis ..
  qed
next
  case (op_unauthorized env en cenv purpose key_properties op_params ts en' e)
  then have h: "handles s' = handles s" by (auto simp: handles_def fun_eq_iff split: option.splits)
  from authorize_reserve[OF op_unauthorized(5)] consider
      "en_in_flight en' = en_in_flight en"
    | k e' where "reserve (w_in_flight u) k (key_usage_count (w_db u) k) = (en_in_flight en', Inl e')"
    using op_unauthorized r by (auto simp: refines_def)
  then show ?thesis
  proof cases
    case 1
    with op_unauthorized r h have "refines db0 s' u" by (auto simp: refines_def)
    then show ?thesis ..
  next
    case 2
    from reach_step[OF _ step_refuse[where count = key_usage_count, OF 2]] r op_unauthorized h
    have "refines db0 s' (u\<lparr>w_in_flight := en_in_flight en'\<rparr>)" by (auto simp: refines_def)
    then show ?thesis ..
  qed
next
  case (op_finalize env arc info m req clock challenge info' m' heap' c)
  then have "ai_key_usage_reservation info' = ai_key_usage_reservation info"
    by (auto simp: finalize_create_authorization_def Let_def split: DeferredAuthState.splits)
  then have "handles s' = handles s"
    by (intro ext) (use op_finalize in \<open>auto simp: handles_def split: option.splits\<close>)
  with op_finalize r have "refines db0 s' u" by (auto simp: refines_def)
  then show ?thesis ..
next
  case (op_create arc info km_op owner forced now)
  with r have "ow_arcs (os_world s) arc = None" by (auto simp: refines_def)
  with handles_create[OF op_create(2) this] op_create r have "refines db0 s' u"
    by (auto simp: refines_def create_operation_def split: option.splits)
  then show ?thesis ..
next
  case (op_abandon env arc info info' f')
  have none: "ow_arcs (os_world s) arc = None" using op_abandon r by (auto simp: refines_def)
  then have ha: "w_handles u arc = ai_key_usage_reservation info"
    using op_abandon r by (auto simp: refines_def handles_def)
  have h: "handles s' = (handles s)(arc := None)"
    by (rule ext) (use op_abandon none in \<open>auto simp: handles_def split: option.splits\<close>)
  from r usage_give_up[of db0 u arc] obtain u' where
      "usage_reachable key_usage_count check_and_update_key_usage_count db0 u'"
      "w_in_flight u' = (case w_handles u arc of
        None \<Rightarrow> w_in_flight u | Some r \<Rightarrow> drop_reservation r (w_in_flight u))"
      "w_db u' = w_db u" "w_handles u' = (w_handles u)(arc := None)"
    by (auto simp: refines_def)
  with op_abandon r h ha have "refines db0 s' u'"
    by (auto simp: refines_def release_usage_reservation_def split: option.splits)
  then show ?thesis ..
next
  case (op_client_call arc op km now call op' env' err latency len)
  have "op_reservation (update_metrics latency len op') = op_reservation op'"
    by (simp add: update_metrics_def op_reservation_def Let_def)
  from refines_effect[OF r op_client_call(2) run_call_effect[OF op_client_call(3)] this] op_client_call(1)
  show ?thesis by simp
next
  case (op_pruned arc op locked last_usage op' env' res)
  from refines_effect[OF r op_pruned(2) prune_effect[OF op_pruned(3)] refl] op_pruned(1)
  show ?thesis by simp
next
  case (op_dropped km arc)
  from refines_drop[OF r] op_dropped show ?thesis by simp
next
  case (op_others env env')
  then have h: "handles s' = handles s" by (auto simp: handles_def fun_eq_iff split: option.splits)
  have "usage_step key_usage_count check_and_update_key_usage_count u (u\<lparr>w_db := oe_usage_db env'\<rparr>)"
    by (rule step_delete) (use op_others r in \<open>auto simp: refines_def\<close>)
  with r have "usage_reachable key_usage_count check_and_update_key_usage_count db0
      (u\<lparr>w_db := oe_usage_db env'\<rparr>)"
    by (auto simp: refines_def intro: reach_step)
  with op_others r h have "refines db0 s' (u\<lparr>w_db := oe_usage_db env'\<rparr>)"
    by (auto simp: refines_def)
  then show ?thesis ..
qed

lemma refines_init: "refines db0 (op_init db0) (usage_init db0)"
  by (auto simp: refines_def op_init_def usage_init_def handles_def fun_eq_iff intro: reach_init[unfolded usage_init_def])

lemma reachable_refines:
  assumes "op_reachable db0 s"
  shows "\<exists>u. refines db0 s u"
  using assms by induction (auto intro: refines_init refines_step)

section \<open>Ended operations and slots\<close>

definition op_ok :: "op_world \<Rightarrow> nat \<Rightarrow> Operation \<Rightarrow> bool" where
  "op_ok w arc op \<longleftrightarrow>
     (op_outcome op \<noteq> Outcome_Unknown \<longrightarrow> op_reservation op = None)
   \<and> op_index op < length (ow_slots w) \<and> ow_slots w ! op_index op = arc"

definition world_ok :: "op_world \<Rightarrow> bool" where
  "world_ok w \<longleftrightarrow> (\<forall>arc op. ow_arcs w arc = Some op \<longrightarrow> op_ok w arc op)"

lemma op_ok_cong:
  "ow_slots w' = ow_slots w \<Longrightarrow> op_ok w' arc op = op_ok w arc op"
  by (simp add: op_ok_def)

lemma world_ok_env: "world_ok (w\<lparr>ow_env := env\<rparr>) = world_ok w"
  by (simp add: world_ok_def op_ok_def)

lemma op_ok_effect:
  assumes "op_effect op env op' env'" "op_ok w arc op"
  shows "op_ok w arc op'"
  using assms by (auto simp: op_ok_def op_effect_def reservation_released_def reservation_spent_def
      split: if_splits)

lemma world_ok_put:
  assumes "world_ok w" "op_ok w arc op'"
  shows "world_ok (put_op arc op' env' w)"
  using assms by (auto simp: world_ok_def put_op_def op_ok_def)

lemma world_ok_drop:
  "world_ok w \<Longrightarrow> world_ok (drop_arc km arc w)"
  by (auto simp: world_ok_def drop_arc_def op_ok_def split: option.splits prod.splits)

lemma find_free_slot_Some:
  "find_free_slot arcs n xs = Some i \<Longrightarrow>
     n \<le> i \<and> i < n + length xs \<and> arcs (xs ! (i - n)) = None
   \<and> (\<forall>j. n \<le> j \<and> j < i \<longrightarrow> arcs (xs ! (j - n)) \<noteq> None)"
proof (induction arcs n xs rule: find_free_slot.induct)
  case (2 arcs n x xs)
  show ?case
  proof (cases "arcs x = None")
    case False
    with 2 have IH: "Suc n \<le> i" "i < Suc n + length xs" "arcs (xs ! (i - Suc n)) = None"
      "\<forall>j. Suc n \<le> j \<and> j < i \<longrightarrow> arcs (xs ! (j - Suc n)) \<noteq> None"
      by auto
    have "arcs ((x # xs) ! (j - n)) \<noteq> None" if "n \<le> j" "j < i" for j
      using that False IH(4) by (cases "j = n") (auto simp: nth_Cons' Suc_diff_le)
    with IH False show ?thesis by (auto simp: nth_Cons' Suc_diff_le)
  qed (use 2 in auto)
qed simp

lemma find_free_slot_None:
  "find_free_slot arcs n xs = None \<longleftrightarrow> (\<forall>x \<in> set xs. arcs x \<noteq> None)"
  by (induction arcs n xs rule: find_free_slot.induct) auto

lemma find_free_slot_filter:
  "find_free_slot arcs 0 xs =
     (case filter (\<lambda>i. arcs (xs ! i) = None) [0..<length xs] of i # _ \<Rightarrow> Some i | [] \<Rightarrow> None)"
proof (cases "find_free_slot arcs 0 xs")
  case None
  then have "filter (\<lambda>i. arcs (xs ! i) = None) [0..<length xs] = []"
    by (auto simp: find_free_slot_None filter_empty_conv)
  with None show ?thesis by simp
next
  case (Some i)
  from find_free_slot_Some[OF Some] have i: "i < length xs" "arcs (xs ! i) = None"
    "\<forall>j < i. arcs (xs ! j) \<noteq> None" by auto
  have "[0..<length xs] = [0..<i] @ i # [Suc i..<length xs]"
    using i(1) upt_add_eq_append[of 0 i "length xs - i"] by (simp add: upt_conv_Cons)
  moreover have "filter (\<lambda>j. arcs (xs ! j) = None) [0..<i] = []"
    using i(3) by (auto simp: filter_empty_conv)
  ultimately show ?thesis using i(2) Some by simp
qed

lemma world_ok_create:
  assumes w: "world_ok w" and free: "ow_arcs w arc = None" "arc \<notin> set (ow_slots w)"
  shows "world_ok (create_operation w arc km owner info forced now)"
proof (cases "find_free_slot (ow_arcs w) 0 (ow_slots w)")
  case None
  with w free show ?thesis
    by (auto simp: world_ok_def op_ok_def create_operation_def Operation_new_def nth_append
        intro: less_SucI)
next
  case (Some i)
  from find_free_slot_Some[OF Some] have i: "i < length (ow_slots w)" "ow_arcs w (ow_slots w ! i) = None"
    by auto
  then have "ow_arcs w a = Some op \<Longrightarrow> op_index op \<noteq> i" for a op
    using w by (fastforce simp: world_ok_def op_ok_def)
  with w free Some i show ?thesis
    by (auto simp: world_ok_def op_ok_def create_operation_def Operation_new_def nth_list_update)
qed

lemma world_ok_step:
  assumes "op_step s s'" "world_ok (os_world s)" "refines db0 s u"
  shows "world_ok (os_world s')"
  using assms(1)
proof cases
  case (op_create arc info km_op owner forced now)
  then have "ow_arcs (os_world s) arc = None" using assms(3) by (auto simp: refines_def)
  with op_create assms(2) show ?thesis by (auto intro: world_ok_create)
next
  case (op_client_call arc op km now call op' env' err latency len)
  then have "op_ok (os_world s) arc op'"
    using assms(2) run_call_effect op_ok_effect by (metis world_ok_def)
  then have "op_ok (os_world s) arc (update_metrics latency len op')"
    by (simp add: op_ok_def update_metrics_def Let_def op_reservation_def)
  with op_client_call assms(2) show ?thesis by (auto intro: world_ok_put)
next
  case (op_pruned arc op locked last_usage op' env' res)
  then have "op_ok (os_world s) arc op'"
    using assms(2) prune_effect op_ok_effect by (metis world_ok_def)
  with op_pruned assms(2) show ?thesis by (auto intro: world_ok_put)
qed (use assms(2) in \<open>auto simp: world_ok_env intro: world_ok_drop\<close>)

lemma reachable_ok:
  assumes "op_reachable db0 s"
  shows "world_ok (os_world s)"
  using assms
proof induction
  case op_reach_init
  show ?case by (simp add: op_init_def world_ok_def)
next
  case (op_reach_step s s')
  with reachable_refines world_ok_step show ?case by blast
qed

text \<open>
  C7: In every execution of the daemon, with create calls, client calls, pruning and drops in
  any order and KeyMint answering as it likes, the in-flight count of a limited-use key is
  exactly the number of operations (created or about to be) that hold a reservation of it, and
  has no entry when there is none; these never exceed the uses the database has left for a key
  it still knows; and an operation that has ended holds no reservation.  (Keys created later
  are counted as being in the database from the start; their ids are never used twice.)
\<close>

theorem operation_reservations:
  assumes "op_reachable db0 s"
  shows "oe_in_flight (ow_env (os_world s)) k = slot (card {arc. handles s arc = Some (Some k)}) \<and>
         (ku.remaining (oe_usage_db (ow_env (os_world s))) k = 0 \<or>
          card {arc. handles s arc = Some (Some k)} \<le> ku.remaining (oe_usage_db (ow_env (os_world s))) k) \<and>
         ow_arcs (os_world s) arc \<notin>
           Some ` {op. op_outcome op \<noteq> Outcome_Unknown \<and> op_reservation op \<noteq> None}"
proof -
  from reachable_refines[OF assms] obtain u where u: "refines db0 s u" ..
  then have "ku.usage_inv db0 u" by (auto simp: refines_def intro: ku.reachable_inv)
  with u have "oe_in_flight (ow_env (os_world s)) k = slot (card {arc. handles s arc = Some (Some k)}) \<and>
      (ku.remaining (oe_usage_db (ow_env (os_world s))) k = 0 \<or>
       card {arc. handles s arc = Some (Some k)} \<le> ku.remaining (oe_usage_db (ow_env (os_world s))) k)"
    by (auto simp: ku.usage_inv_def ku.key_ok_def refines_def live_reservations_def)
  moreover have "ow_arcs (os_world s) arc \<notin>
      Some ` {op. op_outcome op \<noteq> Outcome_Unknown \<and> op_reservation op \<noteq> None}"
    using reachable_ok[OF assms] by (auto simp: world_ok_def op_ok_def)
  ultimately show ?thesis by blast
qed

definition sample_params :: "KeyParameter list" where
  "sample_params =
     [\<lparr>kp_value = KeyParameterValue_KeyPurpose (aidl_purpose KeyPurpose_Sign),
       kp_security_level = SecurityLevel_Keystore\<rparr>,
      \<lparr>kp_value = KeyParameterValue_NoAuthRequired, kp_security_level = SecurityLevel_Keystore\<rparr>,
      \<lparr>kp_value = KeyParameterValue_UsageCountLimit 2, kp_security_level = SecurityLevel_Keystore\<rparr>]"

definition sample_enforcements :: Enforcements where
  "sample_enforcements = \<lparr>en_device_unlocked_set = {}, en_op_auth_map = TokenReceiverMap_default,
     en_in_flight = Map.empty\<rparr>"

definition sample_create_env :: create_env where
  "sample_create_env = \<lparr>env_time = Some 0, env_boot_time = 0, env_perboot = [],
     env_usage_db = sample_usage_db, env_level_accessible = (\<lambda>_. True)\<rparr>"

definition sample_info :: AuthInfo where
  "sample_info = \<lparr>ai_state = NoAuthRequired, ai_key_usage_reservation = Some (Some 7),
     ai_confirmation_token_receiver = False\<rparr>"

definition sample_system :: op_system where
  "sample_system = \<lparr>os_world = (os_world (op_init sample_usage_db))\<lparr>ow_env :=
       (ow_env (os_world (op_init sample_usage_db)))\<lparr>oe_in_flight := [7 \<mapsto> 1]\<rparr>\<rparr>,
     os_pending = [0 \<mapsto> sample_info]\<rparr>"

lemma sample_authorize:
  "authorize_create sample_enforcements sample_create_env (aidl_purpose KeyPurpose_Sign)
     (Some (7, sample_params)) [] False
   = (sample_enforcements\<lparr>en_in_flight := [7 \<mapsto> 1]\<rparr>, Inr (None, sample_info))"
  by (simp add: authorize_create_def create_checks_def check_create_purpose_def sample_params_def
      create_scan_init_def create_scan_step_def check_create_policy_def create_auth_state_def
      reserve_key_usage_def has_keystore_usage_limit_def reserve_def key_usage_count_def
      sample_create_env_def sample_usage_db_def sample_enforcements_def sample_info_def)

lemma sample_reachable: "op_reachable sample_usage_db sample_system"
proof -
  have "op_step (op_init sample_usage_db) sample_system"
    unfolding sample_system_def
    using op_authorize[of "ow_env (os_world (op_init sample_usage_db))" "op_init sample_usage_db"
        sample_enforcements sample_create_env 0, OF refl _ _ _ sample_authorize]
    by (simp add: op_init_def sample_enforcements_def sample_create_env_def fresh_arc_def)
  then show ?thesis by (rule op_reach_step[OF op_reach_init])
qed

theorem operation_reservations_witness:
  "oe_in_flight (ow_env (os_world sample_system)) 7 = Some 1 \<and>
   card {arc. handles sample_system arc = Some (Some 7)} \<le> 2 \<and>
   ow_arcs (os_world sample_system) 0 \<notin>
     Some ` {op. op_outcome op \<noteq> Outcome_Unknown \<and> op_reservation op \<noteq> None}"
proof -
  have "ku.remaining (oe_usage_db (ow_env (os_world sample_system))) 7 = 2"
    by (simp add: ku.remaining_def key_usage_count_def sample_system_def sample_usage_db_def op_init_def)
  with operation_reservations[OF sample_reachable, of 7 0] show ?thesis
    by (simp add: sample_system_def)
qed

section \<open>Life cycle\<close>

text \<open>The outcomes a call on an active operation can lead to.\<close>

definition call_outcome :: "client_call \<Rightarrow> KsError option \<Rightarrow> Outcome \<Rightarrow> bool" where
  "call_outcome call err outcome = (case (call, err) of
     (Call_abort, _) \<Rightarrow> outcome = Outcome_Abort
   | (Call_finish _ _, None) \<Rightarrow> outcome = Outcome_Success
   | (_, None) \<Rightarrow> outcome = Outcome_Unknown
   | (_, Some e) \<Rightarrow> outcome \<in> {Outcome_Unknown, Outcome_ErrorCode (error_to_serialized_error e)})"

lemma run_call_outcome:
  assumes "run_call km now call op env = (op', env', err)" "op_outcome op = Outcome_Unknown"
  shows "call_outcome call err (op_outcome op')"
proof (cases call)
  case (Call_updateAad input)
  with assms op_update_with_effect(2)[of "km_updateAad km input" now input op env] show ?thesis
    by (auto simp: run_call_def update_aad_def call_outcome_def error_of_def split: prod.splits sum.splits)
next
  case (Call_update input)
  with assms op_update_with_effect(2)[of "km_update km input" now input op env] show ?thesis
    by (auto simp: run_call_def update_def call_outcome_def error_of_def split: prod.splits sum.splits)
next
  case (Call_finish input sig)
  with assms finish_effect(2)[of km now input sig op env] show ?thesis
    by (auto simp: run_call_def finish_end_def call_outcome_def error_of_def split: prod.splits sum.splits)
next
  case Call_abort
  with assms op_release_fields(1)[of "op\<lparr>op_outcome := Outcome_Abort\<rparr>" env] show ?thesis
    by (auto simp: run_call_def abort_def check_active_def call_outcome_def split: prod.splits)
qed

lemma prune_life_cycle:
  "case Operation_prune locked last_usage op env of (op', env', res) \<Rightarrow>
      if locked then (op', env', res) = (op, env, Inl (KsError_Rc ResponseCode_OPERATION_BUSY))
      else if op_outcome op \<noteq> Outcome_Unknown
      then (op', env', res) = (op, env, ks_km ErrorCode_InvalidOperationHandle)
      else if op_last_usage op \<noteq> last_usage
      then (op', env', res) = (op, env, Inl (KsError_Rc ResponseCode_OPERATION_BUSY))
      else res = Inr () \<and> op_outcome op' = Outcome_Pruned \<and> reservation_released op env op' env'"
proof -
  obtain op1 env1 where rel: "op_release (op\<lparr>op_outcome := Outcome_Pruned\<rparr>) env = (op1, env1)"
    by fastforce
  from op_release_fields[OF rel] have "op_outcome op1 = Outcome_Pruned" "reservation_released op env op1 env1"
    by (simp_all add: reservation_released_def op_reservation_def)
  with rel show ?thesis by (simp add: Operation_prune_def)
qed


section \<open>Slots\<close>

text \<open>
  The operation database.  In every reachable state every live operation is found at the index it
  carries, so no two live operations share a slot.  A new operation takes the first slot whose operation is
  gone and only appends a slot when all are in use; it is active, and other operations are
  not affected.
\<close>

theorem operation_slots:
  assumes "op_reachable db0 s"
  shows "(case ow_arcs (os_world s) arc of
            None \<Rightarrow> True
          | Some op \<Rightarrow> OperationDb_get (os_world s) (op_index op) = Some (arc, op)) \<and>
         (let w' = create_operation (os_world s) new km owner info forced now;
              free = filter (\<lambda>i. ow_arcs (os_world s) (ow_slots (os_world s) ! i) = None)
                       [0..<length (ow_slots (os_world s))]
          in ow_slots w' = (case free of
               i # _ \<Rightarrow> (ow_slots (os_world s))[i := new] | [] \<Rightarrow> ow_slots (os_world s) @ [new]) \<and>
             ow_arcs w' = (ow_arcs (os_world s))(new \<mapsto> Operation_new
               (case free of i # _ \<Rightarrow> i | [] \<Rightarrow> length (ow_slots (os_world s))) km owner info forced now))"
proof -
  let ?w = "os_world s"
  let ?free = "filter (\<lambda>i. ow_arcs ?w (ow_slots ?w ! i) = None) [0..<length (ow_slots ?w)]"
  have get: "case ow_arcs ?w arc of None \<Rightarrow> True
      | Some op \<Rightarrow> OperationDb_get ?w (op_index op) = Some (arc, op)"
    using reachable_ok[OF assms] by (auto simp: world_ok_def op_ok_def OperationDb_get_def split: option.split)
  have free: "find_free_slot (ow_arcs ?w) 0 (ow_slots ?w) = (case ?free of i # _ \<Rightarrow> Some i | [] \<Rightarrow> None)"
    by (rule find_free_slot_filter)
  show ?thesis
    using get unfolding create_operation_def free Let_def by (auto split: list.split)
qed

definition sample_live :: op_system where
  "sample_live = \<lparr>os_world = create_operation (os_world sample_system) 0 5 1000 sample_info False 3,
     os_pending = (os_pending sample_system)(0 := None)\<rparr>"

lemma sample_live_reachable: "op_reachable sample_usage_db sample_live"
  unfolding sample_live_def
  by (rule op_reach_step[OF sample_reachable], rule op_create)
    (simp_all add: sample_system_def op_init_def)

theorem operation_slots_witness:
  "OperationDb_get (os_world sample_live) 0 = Some (0, Operation_new 0 5 1000 sample_info False 3) \<and>
   ow_slots (create_operation (os_world sample_live) 1 6 1000 sample_info False 4) = [0, 1]"
proof -
  have "ow_slots (os_world sample_live) = [0]"
    "ow_arcs (os_world sample_live) = [0 \<mapsto> Operation_new 0 5 1000 sample_info False 3]"
    by (simp_all add: sample_live_def create_operation_def sample_system_def op_init_def)
  with operation_slots[OF sample_live_reachable, of 0 1 6 1000 sample_info False 4] show ?thesis
    by (simp add: Operation_new_def Let_def)
qed

section \<open>The choice of the operation to prune\<close>

lemma count_owners_eq:
  "count_owners infos o' = length (filter (\<lambda>i. pi_owner i = o') infos)"
  by (induction infos rule: rev_induct) (auto simp: count_owners_def)

text \<open>The documented malus: an operation counts itself and its siblings, and it ages.\<close>

definition running_siblings :: "PruningInfo list \<Rightarrow> u32 \<Rightarrow> nat" where
  "running_siblings infos owner = length (filter (\<lambda>i. pi_owner i = owner) infos)"

definition running_malus :: "(nat \<Rightarrow> nat) \<Rightarrow> nat \<Rightarrow> PruningInfo list \<Rightarrow> PruningInfo \<Rightarrow> nat" where
  "running_malus log6 now infos i =
     (if pi_forced i then 0
      else running_siblings infos (pi_owner i) + log6 ((now - pi_last_usage i) div 1000))"

definition pruning_power :: "u32 \<Rightarrow> bool \<Rightarrow> PruningInfo list \<Rightarrow> nat" where
  "pruning_power caller forced infos = (if forced then 0 else 1 + running_siblings infos caller)"

definition least_recent :: "nat \<Rightarrow> PruningInfo set \<Rightarrow> PruningInfo \<Rightarrow> bool" where
  "least_recent now X i \<longleftrightarrow> i \<in> X \<and> (\<forall>j \<in> X. now - pi_last_usage j \<le> now - pi_last_usage i)"

definition weakest :: "(PruningInfo \<Rightarrow> nat) \<Rightarrow> nat \<Rightarrow> PruningInfo set \<Rightarrow> PruningInfo \<Rightarrow> bool" where
  "weakest m now X i \<longleftrightarrow>
     i \<in> X \<and> (\<forall>j \<in> X. m j \<le> m i) \<and> least_recent now {j \<in> X. m j = m i} i"

definition candidate_of :: "nat \<Rightarrow> nat \<Rightarrow> PruningInfo \<Rightarrow> CandidateInfo" where
  "candidate_of now m i = \<lparr>ci_index = pi_index i, ci_malus = m, ci_last_usage = pi_last_usage i,
     ci_age = pruning_age now i\<rparr>"

definition best_step :: "(PruningInfo \<Rightarrow> nat) \<Rightarrow> nat \<Rightarrow> nat \<Rightarrow> CandidateInfo option \<Rightarrow> PruningInfo
    \<Rightarrow> CandidateInfo option" where
  "best_step m limit now acc i = (case acc of
     None \<Rightarrow> if limit < m i then Some (candidate_of now (m i) i) else None
   | Some c \<Rightarrow>
       if m i > ci_malus c \<or> m i = ci_malus c \<and> pruning_age now i > ci_age c
       then Some (candidate_of now (m i) i) else Some c)"

definition oldest_step :: "u32 \<Rightarrow> nat \<Rightarrow> CandidateInfo option \<Rightarrow> PruningInfo \<Rightarrow> CandidateInfo option" where
  "oldest_step caller now oldest i =
     (if pi_owner i = caller then
        (case oldest of
           Some c \<Rightarrow> if pruning_age now i > ci_age c then Some (candidate_of now 0 i) else Some c
         | None \<Rightarrow> Some (candidate_of now 0 i))
      else oldest)"

lemma candidate_step_eq:
  "candidate_step log6 now caller limit owners (acc, oldest) i =
     (best_step (malus log6 now owners) limit now acc i, oldest_step caller now oldest i)"
  unfolding candidate_step_def best_step_def oldest_step_def candidate_of_def Let_def by simp

lemma candidates_fold:
  "foldl (candidate_step log6 now caller limit owners) (acc, oldest) infos =
     (foldl (best_step (malus log6 now owners) limit now) acc infos,
      foldl (oldest_step caller now) oldest infos)"
  by (induction infos arbitrary: acc oldest) (simp_all add: candidate_step_eq)

lemma best_fold:
  "case foldl (best_step m limit now) None infos of
     None \<Rightarrow> \<forall>i \<in> set infos. m i \<le> limit
   | Some c \<Rightarrow> \<exists>i. weakest m now (set infos) i \<and> limit < m i \<and> c = candidate_of now (m i) i"
proof (induction infos rule: rev_induct)
  case (snoc x xs)
  show ?case
  proof (cases "foldl (best_step m limit now) None xs")
    case None
    then have e: "foldl (best_step m limit now) None (xs @ [x]) = best_step m limit now None x" by simp
    from snoc None have "\<forall>i \<in> set xs. m i \<le> limit" by simp
    then show ?thesis
      unfolding e by (auto simp: best_step_def weakest_def least_recent_def intro!: exI[of _ x])
  next
    case (Some c)
    then have e: "foldl (best_step m limit now) None (xs @ [x]) = best_step m limit now (Some c) x" by simp
    from snoc Some obtain i where i: "weakest m now (set xs) i" "limit < m i" "c = candidate_of now (m i) i"
      by auto
    show ?thesis
    proof (cases "m x > m i \<or> m x = m i \<and> pruning_age now x > pruning_age now i")
      case True
      then have "weakest m now (set (xs @ [x])) x" "limit < m x"
        using i by (force simp: weakest_def least_recent_def pruning_age_def)+
      with True i(3) show ?thesis unfolding e by (auto simp: best_step_def candidate_of_def)
    next
      case False
      then have "weakest m now (set (xs @ [x])) i"
        using i by (auto simp: weakest_def least_recent_def pruning_age_def)
      with False i show ?thesis unfolding e by (auto simp: best_step_def candidate_of_def)
    qed
  qed
qed simp

lemma oldest_fold:
  "case foldl (oldest_step caller now) None infos of
     None \<Rightarrow> \<forall>i \<in> set infos. pi_owner i \<noteq> caller
   | Some c \<Rightarrow> \<exists>i. least_recent now {i \<in> set infos. pi_owner i = caller} i \<and> c = candidate_of now 0 i"
proof (induction infos rule: rev_induct)
  case (snoc x xs)
  show ?case
  proof (cases "foldl (oldest_step caller now) None xs")
    case None
    then have e: "foldl (oldest_step caller now) None (xs @ [x]) = oldest_step caller now None x" by simp
    from snoc None have "\<forall>i \<in> set xs. pi_owner i \<noteq> caller" by simp
    then show ?thesis
      unfolding e by (auto simp: oldest_step_def least_recent_def intro!: exI[of _ x])
  next
    case (Some c)
    then have e: "foldl (oldest_step caller now) None (xs @ [x]) = oldest_step caller now (Some c) x" by simp
    from snoc Some obtain i
      where i: "least_recent now {i \<in> set xs. pi_owner i = caller} i" "c = candidate_of now 0 i"
      by auto
    show ?thesis
    proof (cases "pi_owner x = caller \<and> pruning_age now x > pruning_age now i")
      case True
      then have "least_recent now {i \<in> set (xs @ [x]). pi_owner i = caller} x"
        using i by (force simp: least_recent_def pruning_age_def)
      with True i(2) show ?thesis unfolding e by (auto simp: oldest_step_def candidate_of_def)
    next
      case False
      then have "least_recent now {i \<in> set (xs @ [x]). pi_owner i = caller} i"
        using i by (auto simp: least_recent_def pruning_age_def)
      with False i show ?thesis unfolding e by (auto simp: oldest_step_def candidate_of_def)
    qed
  qed
qed simp

text \<open>
  The pruning strategy, for any way of rounding the logarithm of the age.  If some
  operation has a malus above the pruning power of the caller, the chosen one has the greatest
  malus of all and is a least recently used one among those; it is above the caller's power and
  not a forced operation.  Otherwise the caller's least recently used own operation is chosen,
  and nothing is chosen exactly if the caller has none.
\<close>

theorem prune_candidate_correct:
  "case prune_candidate log6 now caller forced infos of
     None \<Rightarrow>
       {i \<in> set infos. running_malus log6 now infos i > pruning_power caller forced infos} = {} \<and>
       running_siblings infos caller = 0
   | Some c \<Rightarrow> \<exists>i. ci_index c = pi_index i \<and> ci_last_usage c = pi_last_usage i \<and>
       (if {i \<in> set infos. running_malus log6 now infos i > pruning_power caller forced infos} = {}
        then least_recent now {i \<in> set infos. pi_owner i = caller} i
        else weakest (running_malus log6 now infos) now (set infos) i \<and>
             running_malus log6 now infos i > pruning_power caller forced infos \<and> \<not> pi_forced i)"
proof -
  define m where "m = running_malus log6 now infos"
  define limit where "limit = pruning_power caller forced infos"
  have m: "malus log6 now (count_owners infos) = m"
    by (auto simp: fun_eq_iff m_def malus_def running_malus_def count_owners_eq running_siblings_def pruning_age_def)
  have l: "caller_malus caller forced (count_owners infos) = limit"
    by (simp add: limit_def caller_malus_def pruning_power_def count_owners_eq running_siblings_def)
  define best where "best = foldl (best_step m limit now) None infos"
  define oldest where "oldest = foldl (oldest_step caller now) None infos"
  have eq: "prune_candidate log6 now caller forced infos =
      (case best of Some c \<Rightarrow> Some c | None \<Rightarrow> oldest)"
    unfolding best_def oldest_def by (simp add: prune_candidate_def Let_def candidates_fold m l)
  have forced: "m i > limit \<Longrightarrow> \<not> pi_forced i" for i by (auto simp: m_def running_malus_def)
  show ?thesis
  proof (cases best)
    case None
    then have none: "{i \<in> set infos. m i > limit} = {}"
      using best_fold[where m = m and limit = limit and now = now and infos = infos] by (auto simp: best_def not_less)
    have "case oldest of None \<Rightarrow> running_siblings infos caller = 0
        | Some c \<Rightarrow> \<exists>i. least_recent now {i \<in> set infos. pi_owner i = caller} i \<and> c = candidate_of now 0 i"
      using oldest_fold[where caller = caller and now = now and infos = infos]
      by (auto simp: oldest_def running_siblings_def filter_empty_conv split: option.splits)
    with none None show ?thesis
      unfolding eq m_def[symmetric] limit_def[symmetric]
      by (auto simp: candidate_of_def split: option.splits)
  next
    case (Some c)
    then obtain i where i: "weakest m now (set infos) i" "limit < m i" "c = candidate_of now (m i) i"
      using best_fold[where m = m and limit = limit and now = now and infos = infos] by (auto simp: best_def)
    then have "{i \<in> set infos. m i > limit} \<noteq> {}" by (auto simp: weakest_def)
    with i Some forced[OF i(2)] show ?thesis
      unfolding eq m_def[symmetric] limit_def[symmetric]
      by (auto simp: candidate_of_def)
  qed
qed

section \<open>The pruning loop\<close>

lemma Operation_prune_results:
  assumes "Operation_prune locked last_usage op env = (op', env', res)"
  shows "res \<in> {Inr (), ks_km ErrorCode_InvalidOperationHandle,
                Inl (KsError_Rc ResponseCode_OPERATION_BUSY)}"
  using assms by (auto simp: Operation_prune_def split: if_splits prod.splits)


section \<open>The client's proxy\<close>

lemma drop_arc_gone: "ow_arcs (drop_arc km arc w) arc = None"
  by (auto simp: drop_arc_def split: option.splits prod.splits)

text \<open>
  The proxy of the client.  A call that fails, and every \<open>finish\<close> and \<open>abort\<close>, gives
  up the operation, which is gone afterwards (an operation still active is aborted and its
  reservation released), and from then on every call is refused as INVALID-OPERATION-HANDLE; a
  successful update keeps it.  While another call is running the call is refused as busy and
  changes nothing.
\<close>

theorem proxy_calls:
  "(case with_locked_operation km busy f delete_op len latency (Some arc) w of (proxy, w', res) \<Rightarrow>
      if busy then (proxy, w', res) = (Some arc, w, Inl (KsError_Rc ResponseCode_OPERATION_BUSY))
      else res = snd (snd (f (the (ow_arcs w arc)) (ow_env w))) \<and>
           (if is_ok res \<and> \<not> delete_op
            then proxy = Some arc \<and>
                 map_option op_outcome (ow_arcs w' arc) =
                   Some (op_outcome (fst (f (the (ow_arcs w arc)) (ow_env w))))
            else proxy = None \<and> ow_arcs w' arc = None \<and>
                 with_locked_operation km' False f' delete_op' len' latency' proxy w' =
                   (None, w', ks_km ErrorCode_InvalidOperationHandle))) \<and>
   (case ow_arcs w arc of
      None \<Rightarrow> drop_arc km arc w = w
    | Some op \<Rightarrow> \<exists>op' env'. reservation_released op (ow_env w) op' env' \<and>
        drop_arc km arc w = w\<lparr>ow_arcs := (ow_arcs w)(arc := None), ow_env := env'\<rparr>)"
proof
  obtain op env r where f: "f (the (ow_arcs w arc)) (ow_env w) = (op, env, r)" by (rule prod_cases3)
  show "case with_locked_operation km busy f delete_op len latency (Some arc) w of (proxy, w', res) \<Rightarrow>
      if busy then (proxy, w', res) = (Some arc, w, Inl (KsError_Rc ResponseCode_OPERATION_BUSY))
      else res = snd (snd (f (the (ow_arcs w arc)) (ow_env w))) \<and>
           (if is_ok res \<and> \<not> delete_op
            then proxy = Some arc \<and>
                 map_option op_outcome (ow_arcs w' arc) =
                   Some (op_outcome (fst (f (the (ow_arcs w arc)) (ow_env w))))
            else proxy = None \<and> ow_arcs w' arc = None \<and>
                 with_locked_operation km' False f' delete_op' len' latency' proxy w' =
                   (None, w', ks_km ErrorCode_InvalidOperationHandle))"
    by (simp add: with_locked_operation_def f Let_def drop_arc_gone update_metrics_def)
  show "case ow_arcs w arc of
      None \<Rightarrow> drop_arc km arc w = w
    | Some op \<Rightarrow> \<exists>op' env'. reservation_released op (ow_env w) op' env' \<and>
        drop_arc km arc w = w\<lparr>ow_arcs := (ow_arcs w)(arc := None), ow_env := env'\<rparr>"
    using drop_effect[of km _ "ow_env w"]
    by (auto simp: drop_arc_def split: option.splits prod.splits) blast
qed

end
