(* ===== verification/Crypto_Traits.thy ===== *)
theory Crypto_Traits
  imports Key_Params
begin

text \<open>
  The abstractions of cryptography the trusted application is written against
  (\<^verbatim>\<open>common/src/crypto.rs\<close> and \<^verbatim>\<open>common/src/crypto/traits.rs\<close>): the random number
  generator, operations in progress, and the default key derivation functions built on
  HMAC (HKDF, RFC 5869) and AES-CMAC (the counter mode KDF of NIST SP 800-108).

  The primitives behind the traits are implemented in BoringSSL and enter as the fields of
  the records below; the functions the traits define on top of them are modelled.
\<close>

section \<open>Random numbers\<close>

text \<open>
  \<open>Rng\<close>: \<open>rng_fill n\<close> says which bytes \<open>fill_bytes\<close> writes into a buffer of \<open>n\<close> bytes.
\<close>

record 'r Rng =
  rng_fill :: "nat \<Rightarrow> 'r \<Rightarrow> (nat \<Rightarrow> u8) \<times> 'r"
  rng_add_entropy :: "bytes \<Rightarrow> 'r \<Rightarrow> 'r"

definition fill_bytes :: "'r Rng \<Rightarrow> nat \<Rightarrow> 'r \<Rightarrow> bytes \<times> 'r" where
  "fill_bytes R n rng = (case rng_fill R n rng of (f, rng') \<Rightarrow> (map f [0..<n], rng'))"

definition next_u64 :: "'r Rng \<Rightarrow> 'r \<Rightarrow> u64 \<times> 'r" where
  "next_u64 R rng = (case fill_bytes R 8 rng of (buf, rng') \<Rightarrow> (u64_from_ne_bytes buf, rng'))"

lemma length_fill_bytes: "fill_bytes R n rng = (b, rng') \<Longrightarrow> length b = n"
  by (auto simp: fill_bytes_def split: prod.splits)

section \<open>Operations in progress\<close>

datatype SymmetricOperation = SymmetricOperation_Encrypt | SymmetricOperation_Decrypt

datatype CipherMode =
    CipherMode_EcbNoPadding
  | CipherMode_EcbPkcs7Padding
  | CipherMode_CbcNoPadding bytes
  | CipherMode_CbcPkcs7Padding bytes
  | CipherMode_Ctr bytes

datatype GcmMode =
    GcmMode_GcmTag12 bytes
  | GcmMode_GcmTag13 bytes
  | GcmMode_GcmTag14 bytes
  | GcmMode_GcmTag15 bytes
  | GcmMode_GcmTag16 bytes

datatype Aes_Mode = Aes_Mode_Cipher CipherMode | Aes_Mode_Aead GcmMode

datatype Des_Mode =
    Des_Mode_EcbNoPadding
  | Des_Mode_EcbPkcs7Padding
  | Des_Mode_CbcNoPadding bytes
  | Des_Mode_CbcPkcs7Padding bytes

datatype SignMode =
    SignMode_NoPadding
  | SignMode_PssPadding Digest
  | SignMode_Pkcs1_1_5Padding Digest

text \<open>
  The trait objects: \<open>EmittingOperation\<close>, \<open>AadOperation\<close> and \<open>AccumulatingOperation\<close> share a
  state type \<open>'c\<close>; a method that takes \<open>&mut self\<close> returns the new state, \<open>finish\<close> consumes it.
\<close>

record 'c Crypto =
  emit_update :: "'c \<Rightarrow> bytes \<Rightarrow> 'c \<times> (Error + bytes)"
  emit_finish :: "'c \<Rightarrow> Error + bytes"
  aad_update :: "'c \<Rightarrow> bytes \<Rightarrow> 'c \<times> (Error + unit)"
  acc_update :: "'c \<Rightarrow> bytes \<Rightarrow> 'c \<times> (Error + unit)"
  acc_finish :: "'c \<Rightarrow> Error + bytes"
  acc_max_input_size :: "'c \<Rightarrow> nat option"
  aes_begin :: "Aes_Key OpaqueOr \<Rightarrow> CipherMode \<Rightarrow> SymmetricOperation \<Rightarrow> Error + 'c"
  aes_begin_aead :: "Aes_Key OpaqueOr \<Rightarrow> GcmMode \<Rightarrow> SymmetricOperation \<Rightarrow> Error + 'c"
  des_begin :: "Des_Key OpaqueOr \<Rightarrow> Des_Mode \<Rightarrow> SymmetricOperation \<Rightarrow> Error + 'c"
  hmac_begin :: "Hmac_Key OpaqueOr \<Rightarrow> Digest \<Rightarrow> Error + 'c"
  cmac_begin :: "Aes_Key OpaqueOr \<Rightarrow> Error + 'c"
  rsa_begin_decrypt :: "Rsa_Key OpaqueOr \<Rightarrow> DecryptionMode \<Rightarrow> Error + 'c"
  rsa_begin_sign :: "Rsa_Key OpaqueOr \<Rightarrow> SignMode \<Rightarrow> Error + 'c"
  ec_begin_agree :: "Ec_Key OpaqueOr \<Rightarrow> Error + 'c"
  ec_begin_sign :: "Ec_Key OpaqueOr \<Rightarrow> Digest \<Rightarrow> Error + 'c"
  mldsa_begin_sign :: "MlDsa_Key OpaqueOr \<Rightarrow> Error + 'c"

text \<open>A run of \<open>op.update(..)?\<close> calls.\<close>

fun acc_updates :: "'c Crypto \<Rightarrow> 'c \<Rightarrow> bytes list \<Rightarrow> Error + 'c" where
  "acc_updates C op [] = Inr op"
| "acc_updates C op (d # ds) = (case acc_update C op d of
     (op', r) \<Rightarrow> res_bind r (\<lambda>_. acc_updates C op' ds))"

section \<open>Key derivation\<close>

definition explicit :: "'k OpaqueOr \<Rightarrow> Error + 'k" where
  "explicit key = (case key of
     OpaqueOr_Explicit k \<Rightarrow> Inr k | OpaqueOr_Opaque _ \<Rightarrow> km_err ErrorCode_IncompatibleKeyFormat)"

definition SHA256_DIGEST_LEN :: nat where
  "SHA256_DIGEST_LEN = 32"

definition AES_BLOCK_SIZE :: nat where
  "AES_BLOCK_SIZE = 16"

definition HKDF_EMPTY_SALT :: bytes where
  "HKDF_EMPTY_SALT = replicate SHA256_DIGEST_LEN 0"

definition hmac_sha256 :: "'c Crypto \<Rightarrow> bytes \<Rightarrow> bytes \<Rightarrow> Error + bytes" where
  "hmac_sha256 C key data =
     res_bind (hmac_begin C (OpaqueOr_Explicit (Hmac_Key key)) Digest_Sha256) (\<lambda>op.
     res_bind (acc_updates C op [data]) (acc_finish C))"

definition hkdf_extract :: "'c Crypto \<Rightarrow> bytes \<Rightarrow> bytes \<Rightarrow> Error + Hmac_Key OpaqueOr" where
  "hkdf_extract C salt ikm =
     (let salt = if salt = [] then HKDF_EMPTY_SALT else salt in
      res_bind (hmac_sha256 C salt ikm) (\<lambda>prk. Inr (OpaqueOr_Explicit (Hmac_Key prk))))"

text \<open>\<open>usize::div_ceil\<close>.\<close>

definition div_ceil :: "nat \<Rightarrow> nat \<Rightarrow> nat" where
  "div_ceil a b = (a + b - 1) div b"

definition expand_step ::
    "'c Crypto \<Rightarrow> bytes \<Rightarrow> bytes \<Rightarrow> bytes \<times> bytes \<Rightarrow> u8 \<Rightarrow> Error + (bytes \<times> bytes)" where
  "expand_step C prk inf_data = (\<lambda>(t, okm) idx.
     res_bind (hmac_sha256 C prk (t @ inf_data @ [idx + 1])) (\<lambda>t. Inr (t, okm @ t)))"

text \<open>The number of blocks is cut down to a byte after the check against 256.\<close>

definition hkdf_expand :: "'c Crypto \<Rightarrow> Hmac_Key OpaqueOr \<Rightarrow> bytes \<Rightarrow> nat \<Rightarrow> Error + bytes" where
  "hkdf_expand C prk inf_data out_len =
     res_bind (explicit prk) (\<lambda>key. case key of Hmac_Key prk \<Rightarrow>
       let n = div_ceil out_len SHA256_DIGEST_LEN in
       if n > 256 then km_err ErrorCode_InvalidArgument
       else
         let n = (of_nat n :: u8) in
         res_bind (res_fold (expand_step C prk inf_data) ([], []) (map of_nat [0..<unat n])) (\<lambda>(t, okm).
         Inr (take out_len okm)))"

definition hkdf :: "'c Crypto \<Rightarrow> bytes \<Rightarrow> bytes \<Rightarrow> bytes \<Rightarrow> nat \<Rightarrow> Error + bytes" where
  "hkdf C salt ikm inf_data out_len =
     res_bind (hkdf_extract C salt ikm) (\<lambda>prk. hkdf_expand C prk inf_data out_len)"

definition hkdf_aes ::
    "'c Crypto \<Rightarrow> bytes \<Rightarrow> bytes \<Rightarrow> bytes \<Rightarrow> Aes_Variant \<Rightarrow> Error + Aes_Key OpaqueOr" where
  "hkdf_aes C salt ikm inf_data variant =
     res_bind (hkdf C salt ikm inf_data (Aes_Variant_key_size variant)) (\<lambda>data.
     res_bind (Aes_Key_new data) (\<lambda>k. Inr (OpaqueOr_Explicit k)))"

definition expand_aes ::
    "'c Crypto \<Rightarrow> Hmac_Key OpaqueOr \<Rightarrow> bytes \<Rightarrow> Aes_Variant \<Rightarrow> Error + Aes_Key OpaqueOr" where
  "expand_aes C prk inf_data variant =
     res_bind (hkdf_expand C prk inf_data (Aes_Variant_key_size variant)) (\<lambda>data.
     res_bind (Aes_Key_new data) (\<lambda>k. Inr (OpaqueOr_Explicit k)))"

text \<open>
  \<open>ckdf\<close>: the output buffer has \<open>out_len\<close> bytes, of which the blocks fill as many as there is
  room for; the loop state is what has been written so far.
\<close>

definition ckdf_block ::
    "'c Crypto \<Rightarrow> Aes_Key \<Rightarrow> bytes \<Rightarrow> bytes list \<Rightarrow> u32 \<Rightarrow> u32 \<Rightarrow> Error + bytes" where
  "ckdf_block C key label chunks l i =
     res_bind (cmac_begin C (OpaqueOr_Explicit key)) (\<lambda>op.
     res_bind (acc_updates C op
        ([u32_to_be_bytes i, label, [0]] @ chunks @ [u32_to_be_bytes l])) (acc_finish C))"

definition ckdf_step ::
    "'c Crypto \<Rightarrow> Aes_Key \<Rightarrow> bytes \<Rightarrow> bytes list \<Rightarrow> u32 \<Rightarrow> nat \<Rightarrow> bytes \<Rightarrow> u32 \<Rightarrow> Error + bytes" where
  "ckdf_step C key label chunks l out_len written i =
     res_bind (ckdf_block C key label chunks l i) (\<lambda>data.
       let copy_len = min (length data) (out_len - length written) in
       Inr (written @ take copy_len data))"

definition ckdf ::
    "'c Crypto \<Rightarrow> Aes_Key OpaqueOr \<Rightarrow> bytes \<Rightarrow> bytes list \<Rightarrow> nat \<Rightarrow> Error + bytes" where
  "ckdf C key label chunks out_len =
     res_bind (explicit key) (\<lambda>key.
       let blocks = (of_nat (div_ceil out_len AES_BLOCK_SIZE) :: u32);
           l = (of_nat (out_len * 8) :: u32)
       in res_bind (res_fold (ckdf_step C key label chunks l out_len) []
                      (map of_nat [1..<Suc (unat blocks)])) (\<lambda>output.
          if length output \<noteq> out_len then km_err ErrorCode_InvalidArgument else Inr output))"

section \<open>The key derivation functions compute the standard ones\<close>

text \<open>The blocks T(i) of RFC 5869, section 2.3, for a keyed hash.\<close>

fun hkdf_T :: "(bytes \<Rightarrow> bytes) \<Rightarrow> bytes \<Rightarrow> nat \<Rightarrow> bytes" where
  "hkdf_T H inf_data 0 = []"
| "hkdf_T H inf_data (Suc i) = H (hkdf_T H inf_data i @ inf_data @ [of_nat (Suc i)])"

definition rfc5869_expand :: "(bytes \<Rightarrow> bytes) \<Rightarrow> bytes \<Rightarrow> nat \<Rightarrow> bytes" where
  "rfc5869_expand H inf_data L =
     take L (concat (map (\<lambda>i. hkdf_T H inf_data (Suc i)) [0..<div_ceil L SHA256_DIGEST_LEN]))"

text \<open>The blocks K(i) of the counter mode of SP 800-108, with 32-bit counter and length.\<close>

definition sp800_108_block :: "(bytes \<Rightarrow> bytes) \<Rightarrow> bytes \<Rightarrow> bytes \<Rightarrow> nat \<Rightarrow> nat \<Rightarrow> bytes" where
  "sp800_108_block M label context L i =
     M (u32_to_be_bytes (of_nat i) @ label @ [0] @ context @ u32_to_be_bytes (of_nat (8 * L)))"

definition sp800_108 :: "(bytes \<Rightarrow> bytes) \<Rightarrow> bytes \<Rightarrow> bytes \<Rightarrow> nat \<Rightarrow> bytes" where
  "sp800_108 M label context L =
     take L (concat (map (\<lambda>i. sp800_108_block M label context L (Suc i))
                        [0..<div_ceil L AES_BLOCK_SIZE]))"

text \<open>What is relied on of the primitives: they are functions of the whole input.\<close>

definition hmac_sha256_is :: "'c Crypto \<Rightarrow> (bytes \<Rightarrow> bytes \<Rightarrow> bytes) \<Rightarrow> bool" where
  "hmac_sha256_is C H \<longleftrightarrow>
     (\<forall>k d. hmac_sha256 C k d = Inr (H k d) \<and> length (H k d) = SHA256_DIGEST_LEN)"

definition aes_cmac_is :: "'c Crypto \<Rightarrow> (Aes_Key \<Rightarrow> bytes \<Rightarrow> bytes) \<Rightarrow> bool" where
  "aes_cmac_is C M \<longleftrightarrow>
     (\<forall>k ds. res_bind (cmac_begin C (OpaqueOr_Explicit k)) (\<lambda>op.
               res_bind (acc_updates C op ds) (acc_finish C)) = Inr (M k (concat ds))) \<and>
     (\<forall>k d. length (M k d) = AES_BLOCK_SIZE)"

lemma div_ceil_le_iff:
  assumes "0 < b"
  shows "div_ceil a b \<le> n \<longleftrightarrow> a \<le> n * b"
proof -
  have "div_ceil a b \<le> n \<longleftrightarrow> a + b - 1 < Suc n * b"
    using assms by (simp add: div_ceil_def div_less_iff_less_mult flip: less_Suc_eq_le)
  with assms show ?thesis by auto
qed

lemma le_div_ceil_mult: "0 < b \<Longrightarrow> a \<le> div_ceil a b * b"
  using div_ceil_le_iff[of b a "div_ceil a b"] by simp

lemma length_concat_const:
  "(\<And>x. x \<in> set xs \<Longrightarrow> length (f x) = k) \<Longrightarrow> length (concat (map f xs)) = length xs * k"
  by (induction xs) auto

lemma expand_fold:
  assumes "hmac_sha256_is C H"
  shows "res_fold (expand_step C prk inf_data) ([], []) (map of_nat [0..<n]) =
           Inr (hkdf_T (H prk) inf_data n, concat (map (\<lambda>i. hkdf_T (H prk) inf_data (Suc i)) [0..<n]))"
proof (induction n)
  case (Suc n)
  then show ?case
    using assms by (simp add: res_fold_append expand_step_def hmac_sha256_is_def add.commute)
qed simp

lemma length_rfc5869_expand:
  assumes "hmac_sha256_is C H"
  shows "length (rfc5869_expand (H prk) inf_data L) = L"
proof -
  have "length (hkdf_T (H prk) inf_data (Suc i)) = SHA256_DIGEST_LEN" for i
    using assms by (simp add: hmac_sha256_is_def)
  then show ?thesis
    by (simp add: rfc5869_expand_def length_concat_const le_div_ceil_mult SHA256_DIGEST_LEN_def
        del: hkdf_T.simps)
qed

lemma ckdf_fold:
  assumes "aes_cmac_is C M"
  shows "res_fold (ckdf_step C key label chunks (of_nat (L * 8)) L) [] (map of_nat [1..<Suc n]) =
           Inr (take L (concat (map (\<lambda>i. sp800_108_block (M key) label (concat chunks) L (Suc i)) [0..<n])))"
proof (induction n)
  case (Suc n)
  have "ckdf_block C key label chunks (of_nat (L * 8)) (of_nat (Suc n)) =
          Inr (sp800_108_block (M key) label (concat chunks) L (Suc n))"
    using assms
    by (simp add: ckdf_block_def aes_cmac_is_def sp800_108_block_def mult.commute
        del: of_nat_Suc acc_updates.simps)
  with Suc show ?case
    by (simp add: res_fold_append ckdf_step_def Let_def del: of_nat_Suc) (simp add: min_def)
qed simp

text \<open>
  C37: HKDF-Expand returns the output of RFC 5869, of the length asked for, for every length the
  standard allows (255 blocks).  A length that needs exactly 256 blocks passes the overflow
  check, but the block count is then truncated to a byte and the call succeeds with no output
  at all; beyond that it is refused.  The CMAC-based function returns the output of the counter
  mode of SP 800-108 for every length below the 32-bit limit of its length field.
\<close>

theorem key_derivation_correct:
  assumes "hmac_sha256_is C H" and "aes_cmac_is C M" and "L < 2 ^ 29"
  shows "hkdf_expand C (OpaqueOr_Explicit (Hmac_Key prk)) inf_data L =
           (if L \<le> 255 * 32 then Inr (rfc5869_expand (H prk) inf_data L)
            else if L \<le> 256 * 32 then Inr []
            else km_err ErrorCode_InvalidArgument) \<and>
         length (rfc5869_expand (H prk) inf_data L) = L \<and>
         ckdf C (OpaqueOr_Explicit key) label chunks L =
           Inr (sp800_108 (M key) label (concat chunks) L) \<and>
         length (sp800_108 (M key) label (concat chunks) L) = L"
  (is "?expand \<and> ?expand_length \<and> ?ckdf \<and> ?ckdf_length")
proof (intro conjI)
  have n: "div_ceil L SHA256_DIGEST_LEN \<le> k \<longleftrightarrow> L \<le> k * 32" for k
    by (simp add: div_ceil_le_iff SHA256_DIGEST_LEN_def)
  show ?expand
  proof (cases "L \<le> 256 * 32 \<and> \<not> L \<le> 255 * 32")
    case True
    then have "div_ceil L SHA256_DIGEST_LEN = 256"
      using n[of 255] n[of 256] by auto
    with True show ?thesis
      by (simp add: hkdf_expand_def explicit_def)
  next
    case False
    then show ?thesis
      using n[of 255] n[of 256]
      by (auto simp: hkdf_expand_def explicit_def Let_def not_less unat_of_nat expand_fold[OF assms(1)]
          rfc5869_expand_def)
  qed
  show ?expand_length
    by (rule length_rfc5869_expand[OF assms(1)])
  show ckdf_length: ?ckdf_length
    using assms(2)
    by (simp add: sp800_108_def length_concat_const sp800_108_block_def aes_cmac_is_def
        le_div_ceil_mult AES_BLOCK_SIZE_def)
  have "div_ceil L AES_BLOCK_SIZE < 2 ^ 32"
    using assms(3) div_ceil_le_iff[of 16 L "2 ^ 32 - 1"] by (simp add: AES_BLOCK_SIZE_def)
  then show ?ckdf
    using ckdf_length
    by (simp add: ckdf_def explicit_def Let_def unat_of_nat ckdf_fold[OF assms(2)] sp800_108_def
        del: upt_Suc of_nat_mult One_nat_def)
qed

text \<open>Primitives that answer with a constant tag of the right length, to run the code on.\<close>

definition sample_crypto :: "(nat \<times> bytes) Crypto" where
  "sample_crypto =
     \<lparr>emit_update = \<lambda>(n, d) b. ((n, d @ b), Inr b),
      emit_finish = \<lambda>(n, d). Inr (replicate n 7),
      aad_update = \<lambda>s _. (s, Inr ()),
      acc_update = \<lambda>(n, d) b. ((n, d @ b), Inr ()),
      acc_finish = \<lambda>(n, d). Inr (replicate n 7),
      acc_max_input_size = \<lambda>_. None,
      aes_begin = \<lambda>_ _ _. Inr (0, []),
      aes_begin_aead = \<lambda>_ _ _. Inr (0, []),
      des_begin = \<lambda>_ _ _. Inr (0, []),
      hmac_begin = \<lambda>_ _. Inr (32, []),
      cmac_begin = \<lambda>_. Inr (16, []),
      rsa_begin_decrypt = \<lambda>_ _. Inr (0, []),
      rsa_begin_sign = \<lambda>_ _. Inr (256, []),
      ec_begin_agree = \<lambda>_. Inr (32, []),
      ec_begin_sign = \<lambda>_ _. Inr (64, []),
      mldsa_begin_sign = \<lambda>_. Inr (64, [])\<rparr>"

lemma sample_acc_updates: "acc_updates sample_crypto (n, d) ds = Inr (n, d @ concat ds)"
  by (induction ds arbitrary: d) (simp_all add: sample_crypto_def)

lemma sample_hmac: "hmac_sha256_is sample_crypto (\<lambda>_ _. replicate 32 7)"
  unfolding hmac_sha256_is_def hmac_sha256_def
  by (simp add: sample_crypto_def SHA256_DIGEST_LEN_def)

lemma sample_cmac: "aes_cmac_is sample_crypto (\<lambda>_ _. replicate 16 7)"
  using sample_acc_updates[of 16 "[]"]
  unfolding aes_cmac_is_def by (simp add: sample_crypto_def AES_BLOCK_SIZE_def)

theorem key_derivation_correct_witness:
  "hkdf_expand sample_crypto (OpaqueOr_Explicit (Hmac_Key [1])) [] 48 =
     Inr (rfc5869_expand (\<lambda>_. replicate 32 7) [] 48) \<and>
   hkdf_expand sample_crypto (OpaqueOr_Explicit (Hmac_Key [1])) [] 8192 = Inr [] \<and>
   ckdf sample_crypto (OpaqueOr_Explicit (Aes_Key_Aes128 (replicate 16 0))) [1] [[2], [3]] 20 =
     Inr (sp800_108 (\<lambda>_. replicate 16 7) [1] [2, 3] 20)"
  using key_derivation_correct[OF sample_hmac sample_cmac, of 48 "[1]" "[]"]
    key_derivation_correct[OF sample_hmac sample_cmac, of 8192 "[1]" "[]"]
    key_derivation_correct[OF sample_hmac sample_cmac, of 20 _ _
      "Aes_Key_Aes128 (replicate 16 0)" "[1]" "[[2], [3]]"]
  by simp

end
