(* ===== verification/Sdd.thy ===== *)
theory Sdd
  imports Crypto_Traits "HOL-Library.AList"
begin

text \<open>
  Secure deletion secrets: the \<open>SecureDeletionSecretManager\<close> trait of
  \<^verbatim>\<open>common/src/keyblob.rs\<close> with its two implementations, the one in memory
  (\<^verbatim>\<open>common/src/keyblob/sdd_mem.rs\<close>) and the one the program uses, which keeps the secrets in a
  file (\<^verbatim>\<open>src/keymint/sdd.rs\<close>).

  A method that may panic returns \<open>None\<close> for the panic.  The file holds the bytes \<open>prost\<close>
  encodes; its encoder and decoder are parameters.  Each access to the disk has an outcome the
  environment decides.
\<close>

section \<open>The trait\<close>

type_synonym SecureDeletionSlot = u32

record SecureDeletionData =
  factory_reset_secret :: bytes
  secure_deletion_secret :: bytes

datatype SlotPurpose = SlotPurpose_KeyGeneration | SlotPurpose_KeyImport | SlotPurpose_KeyUpgrade

record ('s, 'r) SecretManager =
  sm_get_or_create_factory_reset_secret :: "'r \<Rightarrow> 's \<Rightarrow> 's \<times> 'r \<times> (Error + SecureDeletionData)"
  sm_get_factory_reset_secret :: "'s \<Rightarrow> Error + SecureDeletionData"
  sm_new_secret ::
    "'r \<Rightarrow> SlotPurpose \<Rightarrow> 's \<Rightarrow> ('s \<times> 'r \<times> (Error + (SecureDeletionSlot \<times> SecureDeletionData))) option"
  sm_get_secret :: "SecureDeletionSlot \<Rightarrow> 's \<Rightarrow> (Error + SecureDeletionData) option"
  sm_delete_secret :: "SecureDeletionSlot \<Rightarrow> 's \<Rightarrow> ('s \<times> (Error + unit)) option"
  sm_delete_all :: "'s \<Rightarrow> 's option"

section \<open>Secrets in memory\<close>

record InMemorySlotManager =
  im_factory_secret :: "bytes option"
  im_slots :: "SecureDeletionData option list"

definition InMemorySlotManager_default :: "nat \<Rightarrow> InMemorySlotManager" where
  "InMemorySlotManager_default N = \<lparr>im_factory_secret = None, im_slots = replicate N None\<rparr>"

definition im_get_factory_reset_secret :: "InMemorySlotManager \<Rightarrow> Error + SecureDeletionData" where
  "im_get_factory_reset_secret self = (case im_factory_secret self of
     Some secret \<Rightarrow>
       Inr \<lparr>factory_reset_secret = secret, secure_deletion_secret = replicate 16 0\<rparr>
   | None \<Rightarrow> km_err ErrorCode_UnknownError)"

definition im_get_or_create_factory_reset_secret ::
    "'r Rng \<Rightarrow> 'r \<Rightarrow> InMemorySlotManager \<Rightarrow> InMemorySlotManager \<times> 'r \<times> (Error + SecureDeletionData)" where
  "im_get_or_create_factory_reset_secret R rng self =
     (case (case im_factory_secret self of
              None \<Rightarrow>
                (case fill_bytes R 32 rng of
                   (secret, rng) \<Rightarrow> (self\<lparr>im_factory_secret := Some secret\<rparr>, rng))
            | Some _ \<Rightarrow> (self, rng)) of
        (self, rng) \<Rightarrow> (self, rng, im_get_factory_reset_secret self))"

definition im_new_secret ::
    "'r Rng \<Rightarrow> 'r \<Rightarrow> SlotPurpose \<Rightarrow> InMemorySlotManager
     \<Rightarrow> (InMemorySlotManager \<times> 'r \<times> (Error + (SecureDeletionSlot \<times> SecureDeletionData))) option" where
  "im_new_secret R rng purpose self = Some (
     case position (\<lambda>slot. slot = None) (im_slots self) of
       None \<Rightarrow> (self, rng, km_err ErrorCode_RollbackResistanceUnavailable)
     | Some idx \<Rightarrow>
         (case im_get_or_create_factory_reset_secret R rng self of
            (self, rng, Inl e) \<Rightarrow> (self, rng, Inl e)
          | (self, rng, Inr sdd) \<Rightarrow>
              (case fill_bytes R 16 rng of
                 (secret, rng) \<Rightarrow>
                   let sdd = sdd\<lparr>secure_deletion_secret := secret\<rparr> in
                   (self\<lparr>im_slots := (im_slots self)[idx := Some sdd]\<rparr>, rng,
                    Inr (of_nat idx, sdd)))))"

definition im_get_secret ::
    "SecureDeletionSlot \<Rightarrow> InMemorySlotManager \<Rightarrow> (Error + SecureDeletionData) option" where
  "im_get_secret slot self = Some (
     let idx = unat slot in
     if \<not> idx < length (im_slots self) then km_err ErrorCode_InvalidKeyBlob
     else case im_slots self ! idx of
       Some data \<Rightarrow> Inr data
     | None \<Rightarrow> km_err ErrorCode_InvalidKeyBlob)"

text \<open>Indexing past the end of the array panics.\<close>

definition im_delete_secret ::
    "SecureDeletionSlot \<Rightarrow> InMemorySlotManager \<Rightarrow> (InMemorySlotManager \<times> (Error + unit)) option" where
  "im_delete_secret slot self =
     (let idx = unat slot in
      if \<not> idx < length (im_slots self) then None
      else Some (case im_slots self ! idx of
        Some _ \<Rightarrow> (self\<lparr>im_slots := (im_slots self)[idx := None]\<rparr>, Inr ())
      | None \<Rightarrow> (self, km_err ErrorCode_InvalidKeyBlob)))"

definition im_delete_all :: "InMemorySlotManager \<Rightarrow> InMemorySlotManager option" where
  "im_delete_all self =
     Some (self\<lparr>im_factory_secret := None, im_slots := map (\<lambda>_. None) (im_slots self)\<rparr>)"

definition in_memory_manager :: "'r Rng \<Rightarrow> (InMemorySlotManager, 'r) SecretManager" where
  "in_memory_manager R =
     \<lparr>sm_get_or_create_factory_reset_secret = im_get_or_create_factory_reset_secret R,
      sm_get_factory_reset_secret = im_get_factory_reset_secret,
      sm_new_secret = im_new_secret R,
      sm_get_secret = im_get_secret,
      sm_delete_secret = im_delete_secret,
      sm_delete_all = im_delete_all\<rparr>"

section \<open>Secrets in a file\<close>

text \<open>The \<open>prost\<close> message; its map as an association list with distinct keys.\<close>

record SddStorage =
  last_free_slot :: u32
  factory_secret :: bytes
  secure_deletion_secrets :: "(u32 \<times> bytes) list"

definition SddStorage_default :: SddStorage where
  "SddStorage_default = \<lparr>last_free_slot = 0, factory_secret = [], secure_deletion_secrets = []\<rparr>"

record Prost =
  prost_encode :: "SddStorage \<Rightarrow> bytes"
  prost_decode :: "bytes \<Rightarrow> SddStorage option"

text \<open>
  What happens on the disk during one call: whether the file can be opened and read; what a
  write does, which on failure may leave anything behind; and which of the attempts to remove
  the file succeed.
\<close>

datatype WriteOutcome = Written | WriteFailed "bytes option"

record SddIo =
  io_read :: bool
  io_write :: WriteOutcome
  io_remove :: "nat \<Rightarrow> bool"

record HostSddManager =
  hs_data :: SddStorage
  hs_file :: "bytes option"
  hs_io :: "nat \<Rightarrow> SddIo"

definition next_io :: "HostSddManager \<Rightarrow> SddIo \<times> HostSddManager" where
  "next_io self = (hs_io self 0, self\<lparr>hs_io := \<lambda>n. hs_io self (Suc n)\<rparr>)"

text \<open>
  One \<open>fill_buf\<close> of a \<open>BufReader\<close> returns what its buffer holds, at most the default capacity of
  8 KiB.  The decoded map is a \<open>HashMap\<close>, so its keys are distinct.
\<close>

definition BUF_SIZE :: nat where
  "BUF_SIZE = 8192"

definition read_sdd_file :: "Prost \<Rightarrow> SddIo \<Rightarrow> bytes option \<Rightarrow> Error + SddStorage" where
  "read_sdd_file P io file = (case file of
     None \<Rightarrow> km_err ErrorCode_SecureHwCommunicationFailed
   | Some content \<Rightarrow>
       if \<not> io_read io then km_err ErrorCode_SecureHwCommunicationFailed
       else ok_or (Error_Hal ErrorCode_SecureHwCommunicationFailed)
              (map_option (\<lambda>d. d\<lparr>secure_deletion_secrets :=
                              AList.clearjunk (secure_deletion_secrets d)\<rparr>)
                 (prost_decode P (take BUF_SIZE content))))"

definition write_sdd_file ::
    "Prost \<Rightarrow> SddIo \<Rightarrow> HostSddManager \<Rightarrow> HostSddManager \<times> (Error + unit)" where
  "write_sdd_file P io self = (case io_write io of
     Written \<Rightarrow> (self\<lparr>hs_file := Some (prost_encode P (hs_data self))\<rparr>, Inr ())
   | WriteFailed file \<Rightarrow> (self\<lparr>hs_file := file\<rparr>, km_err ErrorCode_SecureHwCommunicationFailed))"

definition randomize_factory_secret :: "'r Rng \<Rightarrow> SddStorage \<Rightarrow> 'r \<Rightarrow> SddStorage \<times> 'r" where
  "randomize_factory_secret R data rng = (case fill_bytes R 32 rng of
     (b, rng) \<Rightarrow> (data\<lparr>factory_secret := b\<rparr>, rng))"

text \<open>\<open>None\<close> is an error, whose reason is only logged.\<close>

definition validate_loaded_data :: "SddStorage \<Rightarrow> SddStorage option" where
  "validate_loaded_data data =
     (if length (factory_secret data) \<noteq> 32 then None
      else if list_all (\<lambda>b. b = 0) (factory_secret data) then None
      else if list_ex (\<lambda>(slot, secret). length secret \<noteq> 16) (secure_deletion_secrets data) then None
      else
        let max_slot = foldl (\<lambda>m (slot, secret). max m slot) 0 (secure_deletion_secrets data) in
        Some (if last_free_slot data < max_slot then data\<lparr>last_free_slot := max_slot\<rparr> else data))"

definition reinitialize_persisted_state ::
    "'r Rng \<Rightarrow> Prost \<Rightarrow> SddIo \<Rightarrow> 'r \<Rightarrow> HostSddManager \<Rightarrow> HostSddManager \<times> 'r \<times> (Error + unit)" where
  "reinitialize_persisted_state R P io rng self =
     (case randomize_factory_secret R SddStorage_default rng of
        (data, rng) \<Rightarrow>
          (case write_sdd_file P io (self\<lparr>hs_data := data\<rparr>) of (self, r) \<Rightarrow> (self, rng, r)))"

definition hs_init ::
    "'r Rng \<Rightarrow> Prost \<Rightarrow> SddIo \<Rightarrow> 'r \<Rightarrow> HostSddManager \<Rightarrow> HostSddManager \<times> 'r \<times> (Error + unit)" where
  "hs_init R P io rng self =
     (if hs_file self \<noteq> None then
        (case read_sdd_file P io (hs_file self) of
           Inl e \<Rightarrow> (self, rng, Inl e)
         | Inr data \<Rightarrow>
             (case validate_loaded_data data of
                None \<Rightarrow> reinitialize_persisted_state R P io rng (self\<lparr>hs_data := data\<rparr>)
              | Some data \<Rightarrow> (self\<lparr>hs_data := data\<rparr>, rng, Inr ())))
      else
        (case randomize_factory_secret R (hs_data self) rng of
           (data, rng) \<Rightarrow>
             (case write_sdd_file P io (self\<lparr>hs_data := data\<rparr>) of (self, r) \<Rightarrow> (self, rng, r))))"

definition HostSddManager_new ::
    "'r Rng \<Rightarrow> Prost \<Rightarrow> bytes option \<Rightarrow> (nat \<Rightarrow> SddIo) \<Rightarrow> 'r \<Rightarrow> 'r \<times> (Error + HostSddManager)" where
  "HostSddManager_new R P file io rng =
     (case next_io \<lparr>hs_data = SddStorage_default, hs_file = file, hs_io = io\<rparr> of
        (i, self) \<Rightarrow>
          (case hs_init R P i rng self of (self, rng, r) \<Rightarrow> (rng, map_ok (\<lambda>_. self) r)))"

definition hs_get_factory_reset_secret :: "HostSddManager \<Rightarrow> Error + SecureDeletionData" where
  "hs_get_factory_reset_secret self =
     (if length (factory_secret (hs_data self)) \<noteq> 32 then km_err ErrorCode_UnknownError
      else Inr \<lparr>factory_reset_secret = factory_secret (hs_data self),
                secure_deletion_secret = replicate 16 0\<rparr>)"

definition hs_get_or_create_factory_reset_secret ::
    "'r Rng \<Rightarrow> Prost \<Rightarrow> 'r \<Rightarrow> HostSddManager \<Rightarrow> HostSddManager \<times> 'r \<times> (Error + SecureDeletionData)" where
  "hs_get_or_create_factory_reset_secret R P rng self =
     (if factory_secret (hs_data self) = [] then
        (case next_io self of (io, self) \<Rightarrow>
          (case hs_init R P io rng self of
             (self, rng, Inl e) \<Rightarrow> (self, rng, Inl e)
           | (self, rng, Inr _) \<Rightarrow> (self, rng, hs_get_factory_reset_secret self)))
      else (self, rng, hs_get_factory_reset_secret self))"

text \<open>The secret enters the cache, which is written out; a failed write takes it back.\<close>

definition hs_store_secret ::
    "Prost \<Rightarrow> SecureDeletionSlot \<Rightarrow> SecureDeletionData \<Rightarrow> HostSddManager
     \<Rightarrow> HostSddManager \<times> (Error + (SecureDeletionSlot \<times> SecureDeletionData))" where
  "hs_store_secret P slot_id sdd self =
     (let data = (hs_data self)\<lparr>secure_deletion_secrets :=
                    AList.update slot_id (secure_deletion_secret sdd)
                      (secure_deletion_secrets (hs_data self)),
                  last_free_slot := slot_id\<rparr>
      in case next_io (self\<lparr>hs_data := data\<rparr>) of (io, self) \<Rightarrow>
        (case write_sdd_file P io self of
           (self, Inr _) \<Rightarrow> (self, Inr (slot_id, sdd))
         | (self, Inl e) \<Rightarrow>
             (self\<lparr>hs_data := (hs_data self)\<lparr>
                 secure_deletion_secrets := AList.delete slot_id (secure_deletion_secrets (hs_data self)),
                 last_free_slot := slot_id - 1\<rparr>\<rparr>, Inl e)))"

definition hs_new_secret ::
    "'r Rng \<Rightarrow> Prost \<Rightarrow> 'r \<Rightarrow> SlotPurpose \<Rightarrow> HostSddManager
     \<Rightarrow> (HostSddManager \<times> 'r \<times> (Error + (SecureDeletionSlot \<times> SecureDeletionData))) option" where
  "hs_new_secret R P rng purpose self =
     (if last_free_slot (hs_data self) = - 1
      then Some (self, rng, km_err ErrorCode_RollbackResistanceUnavailable)
      else
        let slot_id = last_free_slot (hs_data self) + 1 in
        if slot_id \<in> fst ` set (secure_deletion_secrets (hs_data self)) then None
        else Some (
          case hs_get_or_create_factory_reset_secret R P rng self of
            (self, rng, Inl e) \<Rightarrow> (self, rng, Inl e)
          | (self, rng, Inr sdd) \<Rightarrow>
              (case fill_bytes R 16 rng of
                 (secret, rng) \<Rightarrow>
                   (case hs_store_secret P slot_id (sdd\<lparr>secure_deletion_secret := secret\<rparr>) self of
                      (self, r) \<Rightarrow> (self, rng, r)))))"

text \<open>Converting a vector of the wrong length into an array panics.\<close>

definition hs_get_secret ::
    "SecureDeletionSlot \<Rightarrow> HostSddManager \<Rightarrow> (Error + SecureDeletionData) option" where
  "hs_get_secret slot self =
     (case map_of (secure_deletion_secrets (hs_data self)) slot of
        None \<Rightarrow> Some (km_err ErrorCode_InvalidKeyBlob)
      | Some secret \<Rightarrow>
          if length (factory_secret (hs_data self)) \<noteq> 32 \<or> length secret \<noteq> 16 then None
          else Some (Inr \<lparr>factory_reset_secret = factory_secret (hs_data self),
                          secure_deletion_secret = secret\<rparr>))"

text \<open>
  When the write fails, the removed secret is put back with \<open>insert(..).unwrap()\<close>; \<open>insert\<close>
  returns the value the key had before, which is none here, so the \<open>unwrap\<close> panics.
\<close>

definition hs_delete_secret ::
    "Prost \<Rightarrow> SecureDeletionSlot \<Rightarrow> HostSddManager \<Rightarrow> (HostSddManager \<times> (Error + unit)) option" where
  "hs_delete_secret P slot self =
     (case map_of (secure_deletion_secrets (hs_data self)) slot of
        None \<Rightarrow> Some (self, km_err ErrorCode_InvalidKeyBlob)
      | Some secret \<Rightarrow>
          let data = (hs_data self)\<lparr>secure_deletion_secrets :=
                        AList.delete slot (secure_deletion_secrets (hs_data self))\<rparr>
          in case next_io (self\<lparr>hs_data := data\<rparr>) of (io, self) \<Rightarrow>
            (case write_sdd_file P io self of
               (self, Inr _) \<Rightarrow> Some (self, Inr ())
             | (self, Inl e) \<Rightarrow>
                 (case map_of (secure_deletion_secrets (hs_data self)) slot of
                    None \<Rightarrow> None
                  | Some _ \<Rightarrow>
                      Some (self\<lparr>hs_data := (hs_data self)\<lparr>secure_deletion_secrets :=
                        AList.update slot secret (secure_deletion_secrets (hs_data self))\<rparr>\<rparr>, Inl e))))"

definition hs_delete_all :: "HostSddManager \<Rightarrow> HostSddManager option" where
  "hs_delete_all self =
     (let self = self\<lparr>hs_data := SddStorage_default\<rparr> in
      if hs_file self \<noteq> None then
        (case next_io self of (io, self) \<Rightarrow>
          if list_ex (io_remove io) [0..<5] then Some (self\<lparr>hs_file := None\<rparr>) else None)
      else Some self)"

definition host_manager :: "'r Rng \<Rightarrow> Prost \<Rightarrow> (HostSddManager, 'r) SecretManager" where
  "host_manager R P =
     \<lparr>sm_get_or_create_factory_reset_secret = hs_get_or_create_factory_reset_secret R P,
      sm_get_factory_reset_secret = hs_get_factory_reset_secret,
      sm_new_secret = hs_new_secret R P,
      sm_get_secret = hs_get_secret,
      sm_delete_secret = hs_delete_secret P,
      sm_delete_all = hs_delete_all\<rparr>"

section \<open>The contract of a secret manager\<close>

text \<open>
  \<open>secrets\<close> is the map from slots to secrets a manager stands for, \<open>factory\<close> what a key without
  a slot of its own is bound to.
\<close>

locale secret_manager =
  fixes m :: "('s, 'r) SecretManager"
    and inv :: "'s \<Rightarrow> bool"
    and secrets :: "'s \<Rightarrow> SecureDeletionSlot \<Rightarrow> SecureDeletionData option"
    and factory :: "'s \<Rightarrow> SecureDeletionData option"
  assumes get_secret: "inv s \<Longrightarrow>
      sm_get_secret m slot s = Some (ok_or (Error_Hal ErrorCode_InvalidKeyBlob) (secrets s slot))"
    and get_factory: "inv s \<Longrightarrow>
      sm_get_factory_reset_secret m s = ok_or (Error_Hal ErrorCode_UnknownError) (factory s)"
    and get_or_create: "inv s \<Longrightarrow>
      sm_get_or_create_factory_reset_secret m rng s = (s', rng', r) \<Longrightarrow>
      inv s' \<and> secrets s' = secrets s \<and> (factory s \<noteq> None \<longrightarrow> factory s' = factory s) \<and>
      (case r of Inr sdd \<Rightarrow> factory s' = Some sdd | Inl _ \<Rightarrow> True)"
    and new_secret_ok: "inv s \<Longrightarrow>
      sm_new_secret m rng p s = Some (s', rng', Inr (slot, sdd)) \<Longrightarrow>
      inv s' \<and> secrets s slot = None \<and> secrets s' = (secrets s)(slot \<mapsto> sdd) \<and>
      (factory s \<noteq> None \<longrightarrow> factory s' = factory s)"
    and new_secret_err: "inv s \<Longrightarrow>
      sm_new_secret m rng p s = Some (s', rng', Inl e) \<Longrightarrow>
      inv s' \<and> secrets s' = secrets s \<and> (factory s \<noteq> None \<longrightarrow> factory s' = factory s)"
    and delete_secret: "inv s \<Longrightarrow>
      sm_delete_secret m slot s = Some (s', d) \<Longrightarrow>
      inv s' \<and> factory s' = factory s \<and>
      (case d of
         Inr _ \<Rightarrow> secrets s slot \<noteq> None \<and> secrets s' = (secrets s)(slot := None)
       | Inl _ \<Rightarrow> secrets s slot = None \<and> secrets s' = secrets s)"
    and delete_all: "inv s \<Longrightarrow>
      sm_delete_all m s = Some s' \<Longrightarrow> inv s' \<and> secrets s' = Map.empty \<and> factory s' = None"

text \<open>A manager that counts slots up and so never hands one out again.\<close>

locale counting_manager = secret_manager +
  fixes last_slot :: "'s \<Rightarrow> u32"
  assumes last_get_or_create: "inv s \<Longrightarrow>
      sm_get_or_create_factory_reset_secret m rng s = (s', rng', r) \<Longrightarrow> last_slot s' = last_slot s"
    and last_new: "inv s \<Longrightarrow> \<exists>s' rng' r. sm_new_secret m rng p s = Some (s', rng', r) \<and>
      (case r of
         Inr (slot, sdd) \<Rightarrow> last_slot s < slot \<and> last_slot s' = slot
       | Inl _ \<Rightarrow> last_slot s' = last_slot s)"
    and last_delete: "inv s \<Longrightarrow>
      sm_delete_secret m slot s = Some (s', d) \<Longrightarrow> last_slot s' = last_slot s"
    and last_bound: "inv s \<Longrightarrow> secrets s slot \<noteq> None \<Longrightarrow> slot \<le> last_slot s"

text \<open>
  Any sequence of calls, with the secrets that are live and the slots handed out since the start
  or the last factory reset.
\<close>

inductive sm_reach ::
    "('s, 'r) SecretManager \<Rightarrow> ('s \<Rightarrow> (SecureDeletionSlot \<Rightarrow> SecureDeletionData option) \<Rightarrow> bool)
     \<Rightarrow> 's \<Rightarrow> (SecureDeletionSlot \<Rightarrow> SecureDeletionData option) \<Rightarrow> SecureDeletionSlot set \<Rightarrow> bool"
  for m start where
  start: "start s g \<Longrightarrow> sm_reach m start s g (dom g)"
| factory: "sm_reach m start s g I \<Longrightarrow>
    sm_get_or_create_factory_reset_secret m rng s = (s', rng', r) \<Longrightarrow> sm_reach m start s' g I"
| new_ok: "sm_reach m start s g I \<Longrightarrow>
    sm_new_secret m rng p s = Some (s', rng', Inr (slot, sdd)) \<Longrightarrow>
    sm_reach m start s' (g(slot \<mapsto> sdd)) (insert slot I)"
| new_err: "sm_reach m start s g I \<Longrightarrow>
    sm_new_secret m rng p s = Some (s', rng', Inl e) \<Longrightarrow> sm_reach m start s' g I"
| delete_ok: "sm_reach m start s g I \<Longrightarrow>
    sm_delete_secret m slot s = Some (s', Inr u) \<Longrightarrow> sm_reach m start s' (g(slot := None)) I"
| delete_err: "sm_reach m start s g I \<Longrightarrow>
    sm_delete_secret m slot s = Some (s', Inl e) \<Longrightarrow> sm_reach m start s' g I"
| reset: "sm_reach m start s g I \<Longrightarrow>
    sm_delete_all m s = Some s' \<Longrightarrow> sm_reach m start s' Map.empty {}"

context secret_manager
begin

lemma reach_secrets:
  assumes "sm_reach m start s g I" and "\<And>s g. start s g \<Longrightarrow> inv s \<and> secrets s = g"
  shows "inv s \<and> secrets s = g \<and> dom g \<subseteq> I"
  using assms(1)
proof (induction rule: sm_reach.induct)
  case (start s g)
  then show ?case using assms(2) by blast
next
  case factory
  then show ?case using get_or_create by blast
next
  case new_ok
  then show ?case using new_secret_ok by (auto simp: dom_def)
next
  case new_err
  then show ?case using new_secret_err by blast
next
  case delete_ok
  then show ?case using delete_secret by (fastforce split: if_splits)
next
  case delete_err
  then show ?case using delete_secret by fastforce
next
  case reset
  then show ?case using delete_all by auto
qed

end

context counting_manager
begin

lemma reach_counts:
  assumes "sm_reach m start s g I" and "\<And>s g. start s g \<Longrightarrow> inv s \<and> secrets s = g"
  shows "I \<subseteq> {slot. slot \<le> last_slot s}"
  using assms(1)
proof (induction rule: sm_reach.induct)
  case (start s g)
  then show ?case using assms(2) last_bound by (auto simp: dom_def)
next
  case (factory s g I rng s' rng' r)
  then show ?case
    using last_get_or_create reach_secrets[OF factory(1) assms(2)] by metis
next
  case (new_ok s g I rng p s' rng' slot sdd)
  then show ?case
    using last_new[of s rng p] reach_secrets[OF new_ok(1) assms(2)]
    by (auto intro: order_trans less_imp_le)
next
  case (new_err s g I rng p s' rng' e)
  then show ?case
    using last_new[of s rng p] reach_secrets[OF new_err(1) assms(2)] by auto
next
  case (delete_ok s g I slot s' u)
  then show ?case
    using last_delete reach_secrets[OF delete_ok(1) assms(2)] by metis
next
  case (delete_err s g I slot s' e)
  then show ?case
    using last_delete reach_secrets[OF delete_err(1) assms(2)] by metis
qed simp

end

section \<open>Both managers keep the contract\<close>

definition im_inv :: "InMemorySlotManager \<Rightarrow> bool" where
  "im_inv s \<longleftrightarrow> length (im_slots s) \<le> 2 ^ 32"

definition im_secrets :: "InMemorySlotManager \<Rightarrow> SecureDeletionSlot \<Rightarrow> SecureDeletionData option" where
  "im_secrets s slot = (if unat slot < length (im_slots s) then im_slots s ! unat slot else None)"

definition im_factory :: "InMemorySlotManager \<Rightarrow> SecureDeletionData option" where
  "im_factory s = map_option
     (\<lambda>f. \<lparr>factory_reset_secret = f, secure_deletion_secret = replicate 16 0\<rparr>) (im_factory_secret s)"

definition hs_inv :: "HostSddManager \<Rightarrow> bool" where
  "hs_inv s \<longleftrightarrow>
     (if factory_secret (hs_data s) = []
      then map_of (secure_deletion_secrets (hs_data s)) = Map.empty \<and> hs_file s = None
      else length (factory_secret (hs_data s)) = 32) \<and>
     distinct (map fst (secure_deletion_secrets (hs_data s))) \<and>
     (\<forall>slot secret. map_of (secure_deletion_secrets (hs_data s)) slot = Some secret \<longrightarrow>
        length secret = 16 \<and> slot \<le> last_free_slot (hs_data s))"

definition hs_secrets :: "HostSddManager \<Rightarrow> SecureDeletionSlot \<Rightarrow> SecureDeletionData option" where
  "hs_secrets s slot = map_option
     (\<lambda>b. \<lparr>factory_reset_secret = factory_secret (hs_data s), secure_deletion_secret = b\<rparr>)
     (map_of (secure_deletion_secrets (hs_data s)) slot)"

definition hs_factory :: "HostSddManager \<Rightarrow> SecureDeletionData option" where
  "hs_factory s =
     (if length (factory_secret (hs_data s)) = 32
      then Some \<lparr>factory_reset_secret = factory_secret (hs_data s),
                 secure_deletion_secret = replicate 16 0\<rparr>
      else None)"

lemma im_get_or_create_effect:
  assumes "im_get_or_create_factory_reset_secret R rng s = (s', rng', r)"
  shows "im_slots s' = im_slots s \<and> (\<exists>sdd. r = Inr sdd \<and> im_factory s' = Some sdd) \<and>
         (im_factory s \<noteq> None \<longrightarrow> s' = s)"
  using assms
  by (auto simp: im_get_or_create_factory_reset_secret_def im_get_factory_reset_secret_def
      im_factory_def split: option.splits prod.splits)

lemma im_new_secretE:
  assumes "im_new_secret R rng p s = Some (s', rng', r)"
  obtains "position (\<lambda>slot. slot = None) (im_slots s) = None" "s' = s"
      "r = km_err ErrorCode_RollbackResistanceUnavailable"
  | idx s1 sdd where "position (\<lambda>slot. slot = None) (im_slots s) = Some idx"
      "im_slots s1 = im_slots s" "im_factory s \<noteq> None \<longrightarrow> s1 = s"
      "s' = s1\<lparr>im_slots := (im_slots s)[idx := Some sdd]\<rparr>" "r = Inr (of_nat idx, sdd)"
proof (cases "position (\<lambda>slot. slot = None) (im_slots s)")
  case None
  with assms have "s' = s" "r = km_err ErrorCode_RollbackResistanceUnavailable"
    by (simp_all add: im_new_secret_def)
  with None show ?thesis by (rule that(1))
next
  case (Some idx)
  obtain s1 rng1 r1 where g: "im_get_or_create_factory_reset_secret R rng s = (s1, rng1, r1)"
    by (rule prod_cases3)
  from im_get_or_create_effect[OF g] obtain sdd where
      e: "im_slots s1 = im_slots s" "im_factory s \<noteq> None \<longrightarrow> s1 = s" "r1 = Inr sdd"
    by blast
  obtain secret rng2 where "fill_bytes R 16 rng1 = (secret, rng2)" by (rule prod.exhaust)
  with assms e(1,3) have
      "s' = s1\<lparr>im_slots := (im_slots s)[idx := Some (sdd\<lparr>secure_deletion_secret := secret\<rparr>)]\<rparr>"
      "r = Inr (of_nat idx, sdd\<lparr>secure_deletion_secret := secret\<rparr>)"
    by (simp_all add: im_new_secret_def Some g Let_def)
  from that(2)[OF Some e(1,2) this] show ?thesis .
qed

interpretation im: secret_manager "in_memory_manager R" im_inv im_secrets im_factory
  for R :: "'r Rng"
proof unfold_locales
  fix s s' :: InMemorySlotManager and rng rng' :: 'r and r p slot sdd
  assume inv: "im_inv s"
    and "sm_new_secret (in_memory_manager R) rng p s = Some (s', rng', Inr (slot, sdd))"
  then obtain idx s1 where *: "position (\<lambda>slot. slot = None) (im_slots s) = Some idx"
      "im_slots s1 = im_slots s" "im_factory s \<noteq> None \<longrightarrow> s1 = s"
      "s' = s1\<lparr>im_slots := (im_slots s)[idx := Some sdd]\<rparr>" "slot = of_nat idx"
    by (simp add: in_memory_manager_def) (erule im_new_secretE, simp, blast)
  then have "unat slot = idx"
    using inv by (auto simp: im_inv_def position_Some_iff unat_of_nat)
  with * inv show "im_inv s' \<and> im_secrets s slot = None \<and> im_secrets s' = (im_secrets s)(slot \<mapsto> sdd) \<and>
      (im_factory s \<noteq> None \<longrightarrow> im_factory s' = im_factory s)"
    by (auto simp: im_inv_def im_secrets_def im_factory_def fun_eq_iff position_Some_iff
        nth_list_update)
next
  fix s s' :: InMemorySlotManager and rng rng' :: 'r and p e
  assume "im_inv s" "sm_new_secret (in_memory_manager R) rng p s = Some (s', rng', Inl e)"
  then show "im_inv s' \<and> im_secrets s' = im_secrets s \<and>
      (im_factory s \<noteq> None \<longrightarrow> im_factory s' = im_factory s)"
    by (auto simp: in_memory_manager_def elim: im_new_secretE)
next
  fix s s' :: InMemorySlotManager and rng rng' :: 'r and r
  assume "im_inv s"
    "sm_get_or_create_factory_reset_secret (in_memory_manager R) rng s = (s', rng', r)"
  then show "im_inv s' \<and> im_secrets s' = im_secrets s \<and>
      (im_factory s \<noteq> None \<longrightarrow> im_factory s' = im_factory s) \<and>
      (case r of Inl _ \<Rightarrow> True | Inr sdd \<Rightarrow> im_factory s' = Some sdd)"
    using im_get_or_create_effect[of R rng s s' rng' r]
    by (auto simp: in_memory_manager_def im_inv_def im_secrets_def fun_eq_iff)
qed (auto simp: in_memory_manager_def im_inv_def im_secrets_def im_factory_def im_get_secret_def
    im_get_factory_reset_secret_def im_delete_secret_def im_delete_all_def ok_or_def fun_eq_iff
    Let_def nth_list_update dest: unsigned_word_eqI split: option.splits if_splits)

lemma write_sdd_file_effect:
  "write_sdd_file P io s = (s', r) \<Longrightarrow> hs_data s' = hs_data s"
  by (auto simp: write_sdd_file_def split: WriteOutcome.splits)

lemma hs_init_fresh:
  assumes "hs_init R P io rng s = (s', rng', r)" "hs_file s = None"
  shows "\<exists>b. length b = 32 \<and> hs_data s' = (hs_data s)\<lparr>factory_secret := b\<rparr>"
  using assms
  by (auto simp: hs_init_def randomize_factory_secret_def dest!: write_sdd_file_effect
      split: prod.splits dest: length_fill_bytes)

lemma hs_get_or_create_effect:
  assumes "hs_inv s" "hs_get_or_create_factory_reset_secret R P rng s = (s', rng', r)"
  shows "hs_inv s'" "factory_secret (hs_data s') \<noteq> []"
    and "secure_deletion_secrets (hs_data s') = secure_deletion_secrets (hs_data s)"
    and "last_free_slot (hs_data s') = last_free_slot (hs_data s)"
    and "factory_secret (hs_data s) \<noteq> [] \<Longrightarrow> s' = s"
    and "r = Inr sdd \<Longrightarrow> hs_factory s' = Some sdd"
proof -
  show "factory_secret (hs_data s) \<noteq> [] \<Longrightarrow> s' = s"
    using assms(2) by (simp add: hs_get_or_create_factory_reset_secret_def)
  show "r = Inr sdd \<Longrightarrow> hs_factory s' = Some sdd"
    using assms(2)
    by (auto simp: hs_get_or_create_factory_reset_secret_def hs_get_factory_reset_secret_def
        hs_factory_def split: if_splits prod.splits sum.splits)
  have "hs_inv s' \<and> factory_secret (hs_data s') \<noteq> [] \<and>
      secure_deletion_secrets (hs_data s') = secure_deletion_secrets (hs_data s) \<and>
      last_free_slot (hs_data s') = last_free_slot (hs_data s)"
  proof (cases "factory_secret (hs_data s) = []")
    case False
    with assms show ?thesis by (auto simp: hs_get_or_create_factory_reset_secret_def)
  next
    case True
    then have no_file: "hs_file (snd (next_io s)) = None"
      using assms(1) by (simp add: hs_inv_def next_io_def)
    obtain s1 rng1 r1 where i: "hs_init R P (fst (next_io s)) rng (snd (next_io s)) = (s1, rng1, r1)"
      by (rule prod_cases3)
    then have "s' = s1"
      using True assms(2)
      by (auto simp: hs_get_or_create_factory_reset_secret_def split_beta split: prod.splits sum.splits)
    moreover obtain b where "length b = 32"
        "hs_data s1 = (hs_data (snd (next_io s)))\<lparr>factory_secret := b\<rparr>"
      using hs_init_fresh[OF i no_file] by blast
    ultimately show ?thesis
      using assms(1) True by (auto simp: hs_inv_def next_io_def)
  qed
  then show "hs_inv s'" "factory_secret (hs_data s') \<noteq> []"
    and "secure_deletion_secrets (hs_data s') = secure_deletion_secrets (hs_data s)"
    and "last_free_slot (hs_data s') = last_free_slot (hs_data s)"
    by simp_all
qed

lemma hs_inv_fresh_slot:
  assumes "hs_inv s" "last_free_slot (hs_data s) < slot"
  shows "map_of (secure_deletion_secrets (hs_data s)) slot = None"
    and "slot \<notin> fst ` set (secure_deletion_secrets (hs_data s))"
proof -
  show "map_of (secure_deletion_secrets (hs_data s)) slot = None"
    using assms unfolding hs_inv_def by (metis not_less option.exhaust)
  then show "slot \<notin> fst ` set (secure_deletion_secrets (hs_data s))"
    by (simp add: map_of_eq_None_iff)
qed

lemma hs_store_secret_effect:
  assumes "hs_inv s" "factory_secret (hs_data s) \<noteq> []"
    and "last_free_slot (hs_data s) < slot" "slot - 1 = last_free_slot (hs_data s)"
    and "length (secure_deletion_secret sdd) = 16"
    and "hs_store_secret P slot sdd s = (s', r)"
  shows "hs_inv s'" "factory_secret (hs_data s') = factory_secret (hs_data s)"
    and "case r of
           Inr (slot', sdd') \<Rightarrow> slot' = slot \<and> sdd' = sdd \<and> last_free_slot (hs_data s') = slot \<and>
             map_of (secure_deletion_secrets (hs_data s')) =
               (map_of (secure_deletion_secrets (hs_data s)))(slot \<mapsto> secure_deletion_secret sdd)
         | Inl _ \<Rightarrow> last_free_slot (hs_data s') = last_free_slot (hs_data s) \<and>
             map_of (secure_deletion_secrets (hs_data s')) =
               map_of (secure_deletion_secrets (hs_data s))"
proof -
  let ?m = "map_of (secure_deletion_secrets (hs_data s))"
  have "?m(slot := None) = ?m"
    using hs_inv_fresh_slot(1)[OF assms(1,3)] by auto
  with assms(4,6) have eff: "factory_secret (hs_data s') = factory_secret (hs_data s) \<and>
      (case r of
         Inr (slot', sdd') \<Rightarrow> slot' = slot \<and> sdd' = sdd \<and> last_free_slot (hs_data s') = slot \<and>
           map_of (secure_deletion_secrets (hs_data s')) = ?m(slot \<mapsto> secure_deletion_secret sdd)
       | Inl _ \<Rightarrow> last_free_slot (hs_data s') = last_free_slot (hs_data s) \<and>
           map_of (secure_deletion_secrets (hs_data s')) = ?m)"
    by (auto simp: hs_store_secret_def next_io_def write_sdd_file_def Let_def update_conv'
        delete_conv' split: WriteOutcome.splits)
  moreover have "distinct (map fst (secure_deletion_secrets (hs_data s')))"
    using assms(1,6)
    by (auto simp: hs_inv_def hs_store_secret_def next_io_def write_sdd_file_def Let_def
        intro!: distinct_update distinct_delete split: WriteOutcome.splits)
  moreover have "k \<le> slot" if "?m k = Some v" for k v
    using that assms(1,3) unfolding hs_inv_def by (meson less_imp_le order_trans)
  ultimately have "hs_inv s'"
    using assms(1,2,5) unfolding hs_inv_def
    by (cases r) (auto split: if_splits simp del: map_of_eq_Some_iff Some_eq_map_of_iff)
  with eff show "hs_inv s'" "factory_secret (hs_data s') = factory_secret (hs_data s)"
    and "case r of
           Inr (slot', sdd') \<Rightarrow> slot' = slot \<and> sdd' = sdd \<and> last_free_slot (hs_data s') = slot \<and>
             map_of (secure_deletion_secrets (hs_data s')) =
               (map_of (secure_deletion_secrets (hs_data s)))(slot \<mapsto> secure_deletion_secret sdd)
         | Inl _ \<Rightarrow> last_free_slot (hs_data s') = last_free_slot (hs_data s) \<and>
             map_of (secure_deletion_secrets (hs_data s')) =
               map_of (secure_deletion_secrets (hs_data s))"
    by simp_all
qed

lemma hs_new_secret_effect:
  assumes "hs_inv s"
  obtains s' rng' r where "hs_new_secret R P rng p s = Some (s', rng', r)" "hs_inv s'"
    "factory_secret (hs_data s) \<noteq> [] \<Longrightarrow> factory_secret (hs_data s') = factory_secret (hs_data s)"
    "case r of
       Inr (slot, sdd) \<Rightarrow>
         last_free_slot (hs_data s) < slot \<and> last_free_slot (hs_data s') = slot \<and>
         factory_reset_secret sdd = factory_secret (hs_data s') \<and>
         map_of (secure_deletion_secrets (hs_data s')) =
           (map_of (secure_deletion_secrets (hs_data s)))(slot \<mapsto> secure_deletion_secret sdd)
     | Inl _ \<Rightarrow> last_free_slot (hs_data s') = last_free_slot (hs_data s) \<and>
         map_of (secure_deletion_secrets (hs_data s')) =
           map_of (secure_deletion_secrets (hs_data s))"
proof (cases "last_free_slot (hs_data s) = - 1")
  case True
  then show ?thesis using assms by (intro that) (auto simp: hs_new_secret_def)
next
  case False
  let ?slot = "last_free_slot (hs_data s) + 1"
  have slot: "last_free_slot (hs_data s) < ?slot"
    using False inc_less_eq_triv_imp not_less by blast
  note fresh = hs_inv_fresh_slot[OF assms slot]
  obtain s1 rng1 r1 where g: "hs_get_or_create_factory_reset_secret R P rng s = (s1, rng1, r1)"
    by (rule prod_cases3)
  note eff = hs_get_or_create_effect[OF assms g]
  show ?thesis
  proof (cases r1)
    case (Inl e)
    with False fresh g eff show ?thesis
      by (intro that[of s1 rng1 "Inl e"]) (simp_all add: hs_new_secret_def)
  next
    case (Inr sdd)
    obtain secret rng2 where f: "fill_bytes R 16 rng1 = (secret, rng2)" by (rule prod.exhaust)
    let ?sdd = "sdd\<lparr>secure_deletion_secret := secret\<rparr>"
    obtain s2 r2 where st: "hs_store_secret P ?slot ?sdd s1 = (s2, r2)" by (rule prod.exhaust)
    have "factory_reset_secret sdd = factory_secret (hs_data s1)"
      using eff(6)[OF Inr] by (auto simp: hs_factory_def split: if_splits)
    moreover note hs_store_secret_effect[OF eff(1,2) _ _ _ st]
    ultimately show ?thesis
      using False fresh g Inr f st slot eff length_fill_bytes[OF f]
      by (intro that[of s2 rng2 r2]) (auto simp: hs_new_secret_def split: sum.splits)
  qed
qed

lemma hs_new_secret_result:
  assumes "hs_inv s" "hs_new_secret R P rng p s = Some (s', rng', r)"
  shows "hs_inv s'"
    and "factory_secret (hs_data s) \<noteq> [] \<Longrightarrow> factory_secret (hs_data s') = factory_secret (hs_data s)"
    and "case r of
           Inr (slot, sdd) \<Rightarrow>
             last_free_slot (hs_data s) < slot \<and> last_free_slot (hs_data s') = slot \<and>
             factory_reset_secret sdd = factory_secret (hs_data s') \<and>
             map_of (secure_deletion_secrets (hs_data s')) =
               (map_of (secure_deletion_secrets (hs_data s)))(slot \<mapsto> secure_deletion_secret sdd)
         | Inl _ \<Rightarrow> last_free_slot (hs_data s') = last_free_slot (hs_data s) \<and>
             map_of (secure_deletion_secrets (hs_data s')) =
               map_of (secure_deletion_secrets (hs_data s))"
  by (rule hs_new_secret_effect[OF assms(1), of R P rng p]; use assms(2) in simp)+

lemma hs_delete_secret_effect:
  assumes "hs_inv s" "hs_delete_secret P slot s = Some (s', r)"
  shows "hs_inv s'" "factory_secret (hs_data s') = factory_secret (hs_data s)"
    and "last_free_slot (hs_data s') = last_free_slot (hs_data s)"
    and "case r of
           Inr _ \<Rightarrow> map_of (secure_deletion_secrets (hs_data s)) slot \<noteq> None \<and>
             map_of (secure_deletion_secrets (hs_data s')) =
               (map_of (secure_deletion_secrets (hs_data s)))(slot := None)
         | Inl _ \<Rightarrow> map_of (secure_deletion_secrets (hs_data s)) slot = None \<and> s' = s"
proof -
  have eff: "factory_secret (hs_data s') = factory_secret (hs_data s) \<and>
      last_free_slot (hs_data s') = last_free_slot (hs_data s) \<and>
      (case r of
         Inr _ \<Rightarrow> map_of (secure_deletion_secrets (hs_data s)) slot \<noteq> None \<and>
           map_of (secure_deletion_secrets (hs_data s')) =
             (map_of (secure_deletion_secrets (hs_data s)))(slot := None)
       | Inl _ \<Rightarrow> map_of (secure_deletion_secrets (hs_data s)) slot = None \<and> s' = s)"
    using assms(2)
    by (auto simp: hs_delete_secret_def next_io_def write_sdd_file_def Let_def delete_conv'
        split: option.splits WriteOutcome.splits)
  moreover have "distinct (map fst (secure_deletion_secrets (hs_data s')))"
    using assms
    by (auto simp: hs_inv_def hs_delete_secret_def next_io_def write_sdd_file_def Let_def
        delete_conv' intro!: distinct_delete split: option.splits WriteOutcome.splits)
  ultimately have "hs_inv s'"
    using assms(1) unfolding hs_inv_def
    by (cases r) (auto split: if_splits simp del: map_of_eq_Some_iff Some_eq_map_of_iff)
  with eff show "hs_inv s'" "factory_secret (hs_data s') = factory_secret (hs_data s)"
    and "last_free_slot (hs_data s') = last_free_slot (hs_data s)"
    and "case r of
           Inr _ \<Rightarrow> map_of (secure_deletion_secrets (hs_data s)) slot \<noteq> None \<and>
             map_of (secure_deletion_secrets (hs_data s')) =
               (map_of (secure_deletion_secrets (hs_data s)))(slot := None)
         | Inl _ \<Rightarrow> map_of (secure_deletion_secrets (hs_data s)) slot = None \<and> s' = s"
    by simp_all
qed

lemma hs_secrets_cong:
  assumes "map_of (secure_deletion_secrets (hs_data s')) = map_of (secure_deletion_secrets (hs_data s))"
    and "factory_secret (hs_data s') = factory_secret (hs_data s) \<or>
         map_of (secure_deletion_secrets (hs_data s)) = Map.empty"
  shows "hs_secrets s' = hs_secrets s"
  using assms by (auto simp: hs_secrets_def fun_eq_iff)

lemma hs_inv_factory:
  assumes "hs_inv s"
  shows "hs_factory s \<noteq> None \<longleftrightarrow> factory_secret (hs_data s) \<noteq> []"
    and "factory_secret (hs_data s) = [] \<Longrightarrow> map_of (secure_deletion_secrets (hs_data s)) = Map.empty"
  using assms by (auto simp: hs_inv_def hs_factory_def split: if_splits)

interpretation hs: secret_manager "host_manager R P" hs_inv hs_secrets hs_factory
  for R :: "'r Rng" and P
proof unfold_locales
  fix s slot assume "hs_inv s"
  then show "sm_get_secret (host_manager R P) slot s =
      Some (ok_or (Error_Hal ErrorCode_InvalidKeyBlob) (hs_secrets s slot))"
    by (auto simp: host_manager_def hs_get_secret_def hs_secrets_def hs_inv_def ok_or_def
        split: option.splits if_splits)
next
  fix s s' :: HostSddManager and rng rng' :: 'r and r
  assume "hs_inv s" "sm_get_or_create_factory_reset_secret (host_manager R P) rng s = (s', rng', r)"
  note eff = hs_get_or_create_effect[OF this(1) this(2)[simplified host_manager_def, simplified]]
  from eff(5) hs_inv_factory[OF \<open>hs_inv s\<close>] hs_secrets_cong[of s' s] eff(3)
  show "hs_inv s' \<and> hs_secrets s' = hs_secrets s \<and>
      (hs_factory s \<noteq> None \<longrightarrow> hs_factory s' = hs_factory s) \<and>
      (case r of Inl _ \<Rightarrow> True | Inr sdd \<Rightarrow> hs_factory s' = Some sdd)"
    using eff(1,6) by (auto split: sum.splits)
next
  fix s s' :: HostSddManager and rng rng' :: 'r and p slot sdd
  assume inv: "hs_inv s"
    and "sm_new_secret (host_manager R P) rng p s = Some (s', rng', Inr (slot, sdd))"
  then have n: "hs_new_secret R P rng p s = Some (s', rng', Inr (slot, sdd))"
    by (simp add: host_manager_def)
  show "hs_inv s' \<and> hs_secrets s slot = None \<and> hs_secrets s' = (hs_secrets s)(slot \<mapsto> sdd) \<and>
      (hs_factory s \<noteq> None \<longrightarrow> hs_factory s' = hs_factory s)"
    using hs_new_secret_result[OF inv n] hs_inv_factory[OF inv] hs_inv_fresh_slot(1)[OF inv, of slot]
    by (auto simp: hs_secrets_def hs_factory_def fun_eq_iff)
next
  fix s s' :: HostSddManager and rng rng' :: 'r and p e
  assume inv: "hs_inv s"
    and "sm_new_secret (host_manager R P) rng p s = Some (s', rng', Inl e)"
  then have n: "hs_new_secret R P rng p s = Some (s', rng', Inl e)"
    by (simp add: host_manager_def)
  show "hs_inv s' \<and> hs_secrets s' = hs_secrets s \<and>
      (hs_factory s \<noteq> None \<longrightarrow> hs_factory s' = hs_factory s)"
    using hs_new_secret_result[OF inv n] hs_inv_factory[OF inv] hs_secrets_cong[of s' s]
    by (auto simp: hs_factory_def)
next
  fix s s' :: HostSddManager and slot d
  assume "hs_inv s" "sm_delete_secret (host_manager R P) slot s = Some (s', d)"
  then show "hs_inv s' \<and> hs_factory s' = hs_factory s \<and>
      (case d of
         Inl _ \<Rightarrow> hs_secrets s slot = None \<and> hs_secrets s' = hs_secrets s
       | Inr _ \<Rightarrow> hs_secrets s slot \<noteq> None \<and> hs_secrets s' = (hs_secrets s)(slot := None))"
    using hs_delete_secret_effect[of s P slot s' d]
    by (auto simp: host_manager_def hs_factory_def hs_secrets_def fun_eq_iff split: sum.splits)
qed (auto simp: host_manager_def hs_get_factory_reset_secret_def hs_factory_def hs_delete_all_def
    hs_inv_def hs_secrets_def SddStorage_default_def next_io_def Let_def ok_or_def fun_eq_iff
    split: if_splits)

interpretation hs: counting_manager "host_manager R P" hs_inv hs_secrets hs_factory
    "\<lambda>s. last_free_slot (hs_data s)"
  for R :: "'r Rng" and P
proof unfold_locales
  fix s rng p assume "hs_inv s"
  then show "\<exists>s' rng' r. sm_new_secret (host_manager R P) rng p s = Some (s', rng', r) \<and>
      (case r of
         Inl _ \<Rightarrow> last_free_slot (hs_data s') = last_free_slot (hs_data s)
       | Inr (slot, sdd) \<Rightarrow>
           last_free_slot (hs_data s) < slot \<and> last_free_slot (hs_data s') = slot)"
    by (rule hs_new_secret_effect[of _ R P rng p])
      (auto simp: host_manager_def split: sum.splits)
next
  fix s slot assume "hs_inv s" "hs_secrets s slot \<noteq> None"
  then show "slot \<le> last_free_slot (hs_data s)" by (auto simp: hs_secrets_def hs_inv_def)
qed (auto simp: host_manager_def dest: hs_get_or_create_effect(4) hs_delete_secret_effect(3))

section \<open>What holds of the manager of the program\<close>

lemma max_slot_fold:
  "m \<le> foldl (\<lambda>m (slot, secret). max m slot) m xs \<and>
   (map_of xs slot = Some secret \<longrightarrow> slot \<le> foldl (\<lambda>m (slot, secret). max m slot) (m :: u32) xs)"
proof (induction xs arbitrary: m)
  case (Cons x xs)
  obtain k v where x: "x = (k, v)" by (rule prod.exhaust)
  from Cons[of "max m k"] show ?case by (auto simp: x split: if_splits)
qed simp

lemma validate_loaded_data_ok:
  assumes "validate_loaded_data d = Some d'"
  shows "length (factory_secret d') = 32" "factory_secret d' = factory_secret d"
    and "secure_deletion_secrets d' = secure_deletion_secrets d"
    and "map_of (secure_deletion_secrets d') slot = Some secret \<Longrightarrow>
           length secret = 16 \<and> slot \<le> last_free_slot d'"
    and "last_free_slot d \<le> last_free_slot d'"
proof -
  let ?max = "foldl (\<lambda>m (slot, secret). max m slot) 0 (secure_deletion_secrets d)"
  from assms have d': "d' = (if last_free_slot d < ?max then d\<lparr>last_free_slot := ?max\<rparr> else d)"
    and len: "length (factory_secret d) = 32"
    and s16: "\<not> list_ex (\<lambda>(slot, secret). length secret \<noteq> 16) (secure_deletion_secrets d)"
    by (auto simp: validate_loaded_data_def Let_def split: if_splits)
  then show "length (factory_secret d') = 32" "factory_secret d' = factory_secret d"
    and "secure_deletion_secrets d' = secure_deletion_secrets d"
    and "last_free_slot d \<le> last_free_slot d'"
    by auto
  assume "map_of (secure_deletion_secrets d') slot = Some secret"
  then have m: "map_of (secure_deletion_secrets d) slot = Some secret" using d' by (auto split: if_splits)
  have "slot \<le> last_free_slot d'"
    using max_slot_fold[of 0 "secure_deletion_secrets d" slot secret] m d' by (auto simp: not_less)
  moreover have "length secret = 16"
    using map_of_SomeD[OF m] s16 by (force simp: list_ex_iff)
  ultimately show "length secret = 16 \<and> slot \<le> last_free_slot d'" by simp
qed

definition host_start ::
    "'r Rng \<Rightarrow> Prost \<Rightarrow> HostSddManager \<Rightarrow> (SecureDeletionSlot \<Rightarrow> SecureDeletionData option) \<Rightarrow> bool" where
  "host_start R P s g \<longleftrightarrow>
     (\<exists>stored io rng rng'. HostSddManager_new R P stored io rng = (rng', Inr s)) \<and> g = hs_secrets s"

lemma host_new_inv:
  assumes "HostSddManager_new R P stored io rng = (rng', Inr s)"
  shows "hs_inv s"
proof -
  let ?s0 = "\<lparr>hs_data = SddStorage_default, hs_file = stored, hs_io = \<lambda>n. io (Suc n)\<rparr>"
  have i: "hs_init R P (io 0) rng ?s0 = (s, rng', Inr ())"
    using assms by (auto simp: HostSddManager_new_def next_io_def map_ok_Inr_iff split: prod.splits)
  have def_ok: "hs_inv s'" if "hs_data s' = SddStorage_default\<lparr>factory_secret := b\<rparr>" "length b = 32"
    for s' b using that by (auto simp: hs_inv_def SddStorage_default_def)
  show ?thesis
  proof (cases stored)
    case None
    with hs_init_fresh[OF i] def_ok show ?thesis by auto
  next
    case (Some content)
    with i obtain data where r: "read_sdd_file P (io 0) (Some content) = Inr data"
      by (auto simp: hs_init_def split: sum.splits)
    show ?thesis
    proof (cases "validate_loaded_data data")
      case None
      with i Some r def_ok show ?thesis
        by (auto simp: hs_init_def reinitialize_persisted_state_def randomize_factory_secret_def
            dest!: write_sdd_file_effect dest: length_fill_bytes split: prod.splits)
    next
      case (Some d')
      then have "hs_data s = d'"
        using i \<open>stored = Some content\<close> r by (auto simp: hs_init_def)
      moreover have "distinct (map fst (secure_deletion_secrets data))"
        using r by (auto simp: read_sdd_file_def ok_or_Inr_iff split: if_splits)
      ultimately show ?thesis
        using validate_loaded_data_ok[OF Some] by (auto simp: hs_inv_def)
    qed
  qed
qed


lemma validate_loaded_data_inv:
  assumes "hs_inv s" "factory_secret (hs_data s) \<noteq> []"
    and "\<not> list_all (\<lambda>b. b = 0) (factory_secret (hs_data s))"
  shows "validate_loaded_data (hs_data s) = Some (hs_data s)"
proof -
  let ?al = "secure_deletion_secrets (hs_data s)"
  have entries: "\<forall>(k, v) \<in> set ?al. length v = 16 \<and> k \<le> last_free_slot (hs_data s)"
    using assms(1) by (auto simp: hs_inv_def)
  have "foldl (\<lambda>m (slot, secret). max m slot) m xs \<le> L"
    if "\<forall>(k, v) \<in> set xs. k \<le> L" "m \<le> L" for m L :: u32 and xs :: "(u32 \<times> bytes) list"
    using that by (induction xs arbitrary: m) auto
  from this[of ?al _ 0] entries
  have "foldl (\<lambda>m (slot, secret). max m slot) 0 ?al \<le> last_free_slot (hs_data s)" by auto
  moreover have "\<not> list_ex (\<lambda>(slot, secret). length secret \<noteq> 16) ?al"
    using entries by (auto simp: list_ex_iff)
  ultimately show ?thesis
    using assms by (simp add: validate_loaded_data_def hs_inv_def not_less Let_def)
qed

lemma hs_new_secret_written:
  assumes "hs_new_secret R P rng p s = Some (s', rng', Inr x)"
  shows "hs_file s' = Some (prost_encode P (hs_data s'))"
  using assms
  by (auto simp: hs_new_secret_def hs_store_secret_def next_io_def write_sdd_file_def Let_def
      split: if_splits prod.splits sum.splits WriteOutcome.splits)

text \<open>
  C36: A new secret is on disk before its slot is handed out.  A manager started later from that
  file has the same secrets and goes on counting slots where the old one stopped, if the encoded
  state fits the 8 KiB read buffer and the factory secret is not all zeroes.  A longer file is
  cut off at 8 KiB: when the rest does not decode, starting the manager fails and every key
  bound to a secret is lost.
\<close>

theorem host_secrets_persist:
  assumes "sm_reach (host_manager R P) (host_start R P) s g issued"
    and "hs_new_secret R P rng p s = Some (s', rng', Inr (slot, sdd))"
    and "prost_decode P (prost_encode P (hs_data s')) = Some (hs_data s')"
    and "io_read (io 0)"
  shows "hs_file s' = Some (prost_encode P (hs_data s')) \<and>
         (case snd (HostSddManager_new R P (hs_file s') io rng'') of restarted \<Rightarrow>
            if length (prost_encode P (hs_data s')) \<le> BUF_SIZE
            then list_all (\<lambda>b. b = 0) (factory_secret (hs_data s')) \<or>
                 (\<exists>t. restarted = Inr t \<and> hs_secrets t = (hs_secrets s)(slot \<mapsto> sdd) \<and>
                      last_free_slot (hs_data t) = slot)
            else prost_decode P (take BUF_SIZE (prost_encode P (hs_data s'))) = None \<longrightarrow>
                 restarted = km_err ErrorCode_SecureHwCommunicationFailed)"
proof -
  let ?enc = "prost_encode P (hs_data s')"
  have start: "host_start R P s g \<Longrightarrow> hs_inv s \<and> hs_secrets s = g" for s g
    using host_new_inv by (auto simp: host_start_def)
  from hs.reach_secrets[OF assms(1) start] have inv: "hs_inv s" by simp
  note res = hs_new_secret_result[OF inv assms(2), simplified]
  have stored: "hs_file s' = Some ?enc" by (rule hs_new_secret_written[OF assms(2)])
  have nonempty: "factory_secret (hs_data s') \<noteq> []"
    using res hs_inv_factory(2)[OF res(1)] by (metis fun_upd_same option.distinct(1))
  have secrets: "hs_secrets s' = (hs_secrets s)(slot \<mapsto> sdd)"
    using hs.new_secret_ok[OF inv, of R P rng p s' rng' slot sdd] assms(2)
    by (simp add: host_manager_def)
  let ?t = "\<lparr>hs_data = hs_data s', hs_file = Some ?enc, hs_io = \<lambda>n. io (Suc n)\<rparr>"
  have "snd (HostSddManager_new R P (hs_file s') io rng'') = Inr ?t"
    if "length ?enc \<le> BUF_SIZE" "\<not> list_all (\<lambda>b. b = 0) (factory_secret (hs_data s'))"
  proof -
    have "read_sdd_file P (io 0) (Some ?enc) = Inr (hs_data s')"
      using that(1) assms(3,4) res(1) by (simp add: read_sdd_file_def ok_or_def hs_inv_def)
    then show ?thesis
      using validate_loaded_data_inv[OF res(1) nonempty that(2)]
      by (simp add: HostSddManager_new_def next_io_def hs_init_def stored)
  qed
  moreover have "hs_secrets ?t = hs_secrets s'" by (rule hs_secrets_cong) simp_all
  moreover have "snd (HostSddManager_new R P (hs_file s') io rng'') =
      km_err ErrorCode_SecureHwCommunicationFailed"
    if "prost_decode P (take BUF_SIZE ?enc) = None"
    using that by (simp add: HostSddManager_new_def next_io_def hs_init_def stored read_sdd_file_def
        ok_or_def)
  ultimately show ?thesis
    using stored secrets res(3) by auto
qed

text \<open>A manager started on an empty disk, for both properties.\<close>

definition sample_rng :: "unit Rng" where
  "sample_rng = \<lparr>rng_fill = \<lambda>_ r. (\<lambda>_. 1, r), rng_add_entropy = \<lambda>_ r. r\<rparr>"

definition sample_storage :: SddStorage where
  "sample_storage = \<lparr>last_free_slot = 1, factory_secret = replicate 32 1,
     secure_deletion_secrets = [(1, replicate 16 1)]\<rparr>"

definition sample_prost :: Prost where
  "sample_prost = \<lparr>prost_encode = \<lambda>d. [of_nat (length (secure_deletion_secrets d))],
     prost_decode = \<lambda>b. if b = [1] then Some sample_storage else None\<rparr>"

definition sample_io :: "nat \<Rightarrow> SddIo" where
  "sample_io n = \<lparr>io_read = True, io_write = Written, io_remove = \<lambda>_. True\<rparr>"

definition sample_host :: HostSddManager where
  "sample_host = \<lparr>hs_data = SddStorage_default\<lparr>factory_secret := replicate 32 1\<rparr>,
     hs_file = Some [0], hs_io = sample_io\<rparr>"

definition sample_host' :: HostSddManager where
  "sample_host' = \<lparr>hs_data = sample_storage, hs_file = Some [1], hs_io = sample_io\<rparr>"

definition sample_sdd :: SecureDeletionData where
  "sample_sdd = \<lparr>factory_reset_secret = replicate 32 1, secure_deletion_secret = replicate 16 1\<rparr>"

lemma sample_io_simps [simp]:
  "(\<lambda>n. sample_io (Suc n)) = sample_io" "io_read (sample_io n)" "io_write (sample_io n) = Written"
  by (simp_all add: sample_io_def fun_eq_iff)

lemma sample_fill: "fill_bytes sample_rng n r = (replicate n 1, r)"
  by (simp add: fill_bytes_def sample_rng_def map_replicate_const)

lemma sample_new: "HostSddManager_new sample_rng sample_prost None sample_io () = ((), Inr sample_host)"
  by (simp add: HostSddManager_new_def next_io_def hs_init_def randomize_factory_secret_def
      sample_fill write_sdd_file_def sample_host_def sample_prost_def SddStorage_default_def)

lemma sample_secrets: "hs_secrets sample_host = Map.empty"
  by (simp add: hs_secrets_def sample_host_def SddStorage_default_def fun_eq_iff)

lemma sample_reach:
  "sm_reach (host_manager sample_rng sample_prost) (host_start sample_rng sample_prost)
     sample_host Map.empty {}"
proof -
  have "host_start sample_rng sample_prost sample_host Map.empty"
    using sample_new sample_secrets by (auto simp: host_start_def)
  from sm_reach.start[of "host_start sample_rng sample_prost", OF this] show ?thesis by simp
qed

lemma sample_new_secret:
  "hs_new_secret sample_rng sample_prost () SlotPurpose_KeyGeneration sample_host =
     Some (sample_host', (), Inr (1, sample_sdd))"
  by (simp add: hs_new_secret_def hs_get_or_create_factory_reset_secret_def
      hs_get_factory_reset_secret_def hs_store_secret_def sample_host_def sample_host'_def
      SddStorage_default_def sample_fill next_io_def write_sdd_file_def sample_prost_def
      sample_storage_def sample_sdd_def)


theorem host_secrets_persist_witness:
  "hs_file sample_host' = Some [1] \<and>
   (\<exists>t. snd (HostSddManager_new sample_rng sample_prost (Some [1]) sample_io ()) = Inr t \<and>
        hs_secrets t = [1 \<mapsto> sample_sdd])"
proof -
  have "hs_file sample_host' = Some [1]" "hs_data sample_host' = sample_storage"
      "prost_encode sample_prost sample_storage = [1]"
      "prost_decode sample_prost [1] = Some sample_storage"
      "\<not> list_all (\<lambda>b. b = 0) (factory_secret sample_storage)"
    by (simp_all add: sample_host'_def sample_storage_def sample_prost_def list_all_iff)
  then show ?thesis
    using host_secrets_persist[OF sample_reach sample_new_secret, of sample_io "()"] sample_secrets
    by (auto simp: BUF_SIZE_def)
qed

end
