(* ===== verification/Keyblob.thy ===== *)
theory Keyblob
  imports Sdd Cbor_Wire
begin

text \<open>
  Key blobs: the CBOR form of key material (\<^verbatim>\<open>common/src/crypto.rs\<close>) and of encrypted key blobs,
  the derivation of the key encryption key, and encryption and decryption with secure deletion
  secrets (\<^verbatim>\<open>common/src/keyblob.rs\<close>, and the CBOR form of \<open>CoseEncrypt0\<close> of
  \<^verbatim>\<open>wire/src/lib.rs\<close>).

  The CBOR reader and writer (\<open>ciborium\<close>) and the COSE structures (\<open>coset\<close>) are libraries and
  enter as parameters.
\<close>

section \<open>CBOR form of key material\<close>

definition CurveType_i32 :: "CurveType \<Rightarrow> int" where
  "CurveType_i32 t = (case t of CurveType_Nist \<Rightarrow> 0 | CurveType_EdDsa \<Rightarrow> 1 | CurveType_Xdh \<Rightarrow> 2)"

definition CurveType_variants :: "CurveType list" where
  "CurveType_variants = [CurveType_Nist, CurveType_EdDsa, CurveType_Xdh]"

primrec Aes_key_bytes :: "Aes_Key \<Rightarrow> bytes" where
  "Aes_key_bytes (Aes_Key_Aes128 k) = k"
| "Aes_key_bytes (Aes_Key_Aes192 k) = k"
| "Aes_key_bytes (Aes_Key_Aes256 k) = k"

primrec Ec_private_key_bytes :: "Ec_Key \<Rightarrow> bytes" where
  "Ec_private_key_bytes (Ec_Key_P224 k) = k"
| "Ec_private_key_bytes (Ec_Key_P256 k) = k"
| "Ec_private_key_bytes (Ec_Key_P384 k) = k"
| "Ec_private_key_bytes (Ec_Key_P521 k) = k"
| "Ec_private_key_bytes (Ec_Key_Ed25519 k) = k"
| "Ec_private_key_bytes (Ec_Key_X25519 k) = k"

primrec MlDsa_private_key_bytes :: "MlDsa_Key \<Rightarrow> bytes" where
  "MlDsa_private_key_bytes (MlDsa_Key_MlDsa65 k) = k"
| "MlDsa_private_key_bytes (MlDsa_Key_MlDsa87 k) = k"

text \<open>The raw bytes of a key and whether they are opaque.\<close>

definition raw_key :: "('k \<Rightarrow> bytes) \<Rightarrow> 'k OpaqueOr \<Rightarrow> Value \<times> Value" where
  "raw_key f key = (case key of
     OpaqueOr_Opaque k \<Rightarrow> (Value_Bool True, Value_Bytes k)
   | OpaqueOr_Explicit k \<Rightarrow> (Value_Bool False, Value_Bytes (f k)))"

primrec KeyMaterial_to_cbor_value :: "KeyMaterial \<Rightarrow> CborError + Value" where
  "KeyMaterial_to_cbor_value (KeyMaterial_Aes key) = (case raw_key Aes_key_bytes key of
     (opaque, k) \<Rightarrow> Inr (Value_Array [Value_Integer (Algorithm_i32 Algorithm_Aes), opaque, k]))"
| "KeyMaterial_to_cbor_value (KeyMaterial_TripleDes key) =
     (case raw_key (\<lambda>k. case k of Des_Key k \<Rightarrow> k) key of
        (opaque, k) \<Rightarrow>
          Inr (Value_Array [Value_Integer (Algorithm_i32 Algorithm_TripleDes), opaque, k]))"
| "KeyMaterial_to_cbor_value (KeyMaterial_Hmac key) =
     (case raw_key (\<lambda>k. case k of Hmac_Key k \<Rightarrow> k) key of
        (opaque, k) \<Rightarrow> Inr (Value_Array [Value_Integer (Algorithm_i32 Algorithm_Hmac), opaque, k]))"
| "KeyMaterial_to_cbor_value (KeyMaterial_Rsa key) =
     (case raw_key (\<lambda>k. case k of Rsa_Key k \<Rightarrow> k) key of
        (opaque, k) \<Rightarrow> Inr (Value_Array [Value_Integer (Algorithm_i32 Algorithm_Rsa), opaque, k]))"
| "KeyMaterial_to_cbor_value (KeyMaterial_Ec curve curve_type key) =
     (case raw_key Ec_private_key_bytes key of
        (opaque, k) \<Rightarrow>
          Inr (Value_Array [Value_Integer (Algorithm_i32 Algorithm_Ec), opaque,
            Value_Array [Value_Integer (EcCurve_i32 curve),
                         Value_Integer (CurveType_i32 curve_type), k]]))"
| "KeyMaterial_to_cbor_value (KeyMaterial_MlDsa variant key) =
     (case raw_key MlDsa_private_key_bytes key of
        (opaque, k) \<Rightarrow>
          Inr (Value_Array [Value_Integer (Algorithm_i32 Algorithm_MlDsa), opaque,
            Value_Array [Value_Integer (MlDsaVariant_i32 variant), k]]))"

definition Ec_key_from_raw :: "EcCurve \<Rightarrow> CurveType \<Rightarrow> bytes \<Rightarrow> CborError + Ec_Key" where
  "Ec_key_from_raw curve curve_type k = (case (curve, curve_type) of
     (EcCurve_P224, CurveType_Nist) \<Rightarrow> Inr (Ec_Key_P224 k)
   | (EcCurve_P256, CurveType_Nist) \<Rightarrow> Inr (Ec_Key_P256 k)
   | (EcCurve_P384, CurveType_Nist) \<Rightarrow> Inr (Ec_Key_P384 k)
   | (EcCurve_P521, CurveType_Nist) \<Rightarrow> Inr (Ec_Key_P521 k)
   | (EcCurve_Curve25519, CurveType_EdDsa) \<Rightarrow>
       if length k = CURVE25519_PRIV_KEY_LEN then Inr (Ec_Key_Ed25519 k)
       else Inl CborError_OutOfRangeIntegerValue
   | (EcCurve_Curve25519, CurveType_Xdh) \<Rightarrow>
       if length k = CURVE25519_PRIV_KEY_LEN then Inr (Ec_Key_X25519 k)
       else Inl CborError_OutOfRangeIntegerValue
   | _ \<Rightarrow> Inl CborError_NonEnumValue)"

definition Ec_material_from_value :: "bool \<Rightarrow> Value \<Rightarrow> CborError + KeyMaterial" where
  "Ec_material_from_value opaque v = (case v of
     Value_Array a \<Rightarrow>
       if length a \<noteq> 3 then cbor_type_error v ''arr len 3''
       else
         res_bind (bytes_from_cbor_value (a ! 2)) (\<lambda>k.
         res_bind (enum_from_cbor_value CurveType_i32 CurveType_variants (a ! 1)) (\<lambda>curve_type.
         res_bind (enum_from_cbor_value EcCurve_i32 EcCurve_variants (a ! 0)) (\<lambda>curve.
           if opaque then Inr (KeyMaterial_Ec curve curve_type (OpaqueOr_Opaque k))
           else res_bind (Ec_key_from_raw curve curve_type k) (\<lambda>key.
                Inr (KeyMaterial_Ec curve curve_type (OpaqueOr_Explicit key))))))
   | _ \<Rightarrow> cbor_type_error v ''arr len 3'')"

definition MlDsa_material_from_value :: "bool \<Rightarrow> Value \<Rightarrow> CborError + KeyMaterial" where
  "MlDsa_material_from_value opaque v = (case v of
     Value_Array a \<Rightarrow>
       if length a \<noteq> 2 then cbor_type_error v ''arr len 2''
       else
         res_bind (bytes_from_cbor_value (a ! 1)) (\<lambda>k.
         res_bind (enum_from_cbor_value MlDsaVariant_i32 MlDsaVariant_variants (a ! 0)) (\<lambda>variant.
           if opaque then Inr (KeyMaterial_MlDsa variant (OpaqueOr_Opaque k))
           else if length k \<noteq> SEED_SIZE then Inl CborError_InvalidValue
           else Inr (KeyMaterial_MlDsa variant (OpaqueOr_Explicit (case variant of
                  MlDsaVariant_MlDsa65 \<Rightarrow> MlDsa_Key_MlDsa65 k
                | MlDsaVariant_MlDsa87 \<Rightarrow> MlDsa_Key_MlDsa87 k)))))
   | _ \<Rightarrow> cbor_type_error v ''arr len 2'')"

text \<open>The symmetric and RSA arms: a byte string, opaque or turned into a key.\<close>

definition material_from_bytes ::
    "('k OpaqueOr \<Rightarrow> KeyMaterial) \<Rightarrow> (bytes \<Rightarrow> CborError + 'k) \<Rightarrow> bool \<Rightarrow> Value
     \<Rightarrow> CborError + KeyMaterial" where
  "material_from_bytes mk key opaque v =
     res_bind (bytes_from_cbor_value v) (\<lambda>raw.
       if opaque then Inr (mk (OpaqueOr_Opaque raw))
       else res_bind (key raw) (\<lambda>k. Inr (mk (OpaqueOr_Explicit k))))"

definition KeyMaterial_from_algo :: "int \<Rightarrow> bool \<Rightarrow> Value \<Rightarrow> CborError + KeyMaterial" where
  "KeyMaterial_from_algo algo opaque v =
     (if algo = 1000 then Inl CborError_NonEnumValue
      else if algo = Algorithm_i32 Algorithm_Aes then
        material_from_bytes KeyMaterial_Aes
          (\<lambda>k. map_err (\<lambda>_. CborError_UnexpectedItem ''bstr'' ''bstr len 16/24/32'') (Aes_Key_new k))
          opaque v
      else if algo = Algorithm_i32 Algorithm_TripleDes then
        material_from_bytes KeyMaterial_TripleDes
          (\<lambda>k. if length k = Des_KEY_SIZE_BYTES then Inr (Des_Key k)
               else Inl (CborError_UnexpectedItem ''bstr'' ''bstr len 24''))
          opaque v
      else if algo = Algorithm_i32 Algorithm_Hmac then
        material_from_bytes KeyMaterial_Hmac (\<lambda>k. Inr (Hmac_Key k)) opaque v
      else if algo = Algorithm_i32 Algorithm_Rsa then
        material_from_bytes KeyMaterial_Rsa (\<lambda>k. Inr (Rsa_Key k)) opaque v
      else if algo = Algorithm_i32 Algorithm_Ec then Ec_material_from_value opaque v
      else if algo = Algorithm_i32 Algorithm_MlDsa then MlDsa_material_from_value opaque v
      else Inl (CborError_UnexpectedItem ''unknown enum'' ''algo enum''))"

definition KeyMaterial_from_cbor_value :: "Value \<Rightarrow> CborError + KeyMaterial" where
  "KeyMaterial_from_cbor_value v = (case v of
     Value_Array a \<Rightarrow>
       if length a \<noteq> 3 then cbor_type_error v ''arr len 3''
       else (case a ! 1 of
         Value_Bool opaque \<Rightarrow>
           (case a ! 0 of
              Value_Integer i \<Rightarrow>
                if fits_i32 i then KeyMaterial_from_algo i opaque (a ! 2)
                else Inl CborError_OutOfRangeIntegerValue
            | w \<Rightarrow> cbor_type_error w ''uint'')
       | w \<Rightarrow> cbor_type_error w ''bool'')
   | _ \<Rightarrow> cbor_type_error v ''arr len 3'')"

section \<open>Key blobs\<close>

record CoseEncrypt0 =
  ce_protected :: bytes
  ce_ciphertext :: "bytes option"

record EncryptedKeyBlobV1 =
  kb_characteristics :: "KeyCharacteristics list"
  kb_key_derivation_input :: bytes
  kb_kek_context :: bytes
  kb_encrypted_key_material :: CoseEncrypt0
  kb_secure_deletion_slot :: "SecureDeletionSlot option"

datatype EncryptedKeyBlob = EncryptedKeyBlob_V1 EncryptedKeyBlobV1

record PlaintextKeyBlob =
  pk_characteristics :: "KeyCharacteristics list"
  pk_key_material :: KeyMaterial

definition kb_characteristics_at ::
    "PlaintextKeyBlob \<Rightarrow> SecurityLevel \<Rightarrow> Error + KeyParam list" where
  "kb_characteristics_at self sec_level = characteristics_at (pk_characteristics self) sec_level"

definition suitable_for :: "PlaintextKeyBlob \<Rightarrow> KeyPurpose \<Rightarrow> SecurityLevel \<Rightarrow> Error + unit" where
  "suitable_for self purpose sec_level =
     res_bind (kb_characteristics_at self sec_level) (\<lambda>chars.
       if contains_tag_value as_Purpose purpose chars then Inr ()
       else km_err ErrorCode_IncompatiblePurpose)"

text \<open>
  The libraries: writing and reading one CBOR item (with the bytes behind it), the CBOR form of
  a \<open>CoseEncrypt0\<close>, its encoded header for AES-256-GCM, and the additional data COSE
  authenticates for a header.
\<close>

record 'c KbEnv =
  kb_crypto :: "'c Crypto"
  cbor_ser :: "Value \<Rightarrow> CborError + bytes"
  cbor_de :: "bytes \<Rightarrow> CborError + (Value \<times> bytes)"
  ce_to_value :: "CoseEncrypt0 \<Rightarrow> CborError + Value"
  ce_from_value :: "Value \<Rightarrow> CborError + CoseEncrypt0"
  a256gcm_header :: bytes
  enc_structure_data :: "bytes \<Rightarrow> bytes"

definition read_to_value :: "'c KbEnv \<Rightarrow> bytes \<Rightarrow> CborError + Value" where
  "read_to_value E data =
     res_bind (cbor_de E data) (\<lambda>(v, rest). if rest = [] then Inr v else Inl CborError_ExtraneousData)"

definition into_vec :: "'c KbEnv \<Rightarrow> ('a \<Rightarrow> CborError + Value) \<Rightarrow> 'a \<Rightarrow> CborError + bytes" where
  "into_vec E to_v x = res_bind (to_v x) (cbor_ser E)"

definition from_slice :: "'c KbEnv \<Rightarrow> (Value \<Rightarrow> CborError + 'a) \<Rightarrow> bytes \<Rightarrow> CborError + 'a" where
  "from_slice E from_v data = res_bind (read_to_value E data) from_v"

definition COSE_ENCRYPT0_TAG :: u64 where
  "COSE_ENCRYPT0_TAG = 16"

definition CoseEncrypt0_from_cbor_value :: "'c KbEnv \<Rightarrow> Value \<Rightarrow> CborError + CoseEncrypt0" where
  "CoseEncrypt0_from_cbor_value E v = (case v of
     Value_Tag tag inner \<Rightarrow>
       if tag = COSE_ENCRYPT0_TAG then ce_from_value E inner
       else Inl (CborError_UnexpectedItem ''tag'' ''tag 16'')
   | _ \<Rightarrow> cbor_type_error v ''tag 16'')"

definition CoseEncrypt0_to_cbor_value :: "'c KbEnv \<Rightarrow> CoseEncrypt0 \<Rightarrow> CborError + Value" where
  "CoseEncrypt0_to_cbor_value E c =
     res_bind (ce_to_value E c) (\<lambda>inner. Inr (Value_Tag COSE_ENCRYPT0_TAG inner))"

definition SecureDeletionData_to_cbor_value :: "SecureDeletionData \<Rightarrow> CborError + Value" where
  "SecureDeletionData_to_cbor_value d =
     Inr (Value_Array [Value_Bytes (factory_reset_secret d), Value_Bytes (secure_deletion_secret d)])"

definition EncryptedKeyBlobV1_to_cbor_value ::
    "'c KbEnv \<Rightarrow> EncryptedKeyBlobV1 \<Rightarrow> CborError + Value" where
  "EncryptedKeyBlobV1_to_cbor_value E b =
     res_bind (vec_to_cbor_value KeyCharacteristics_to_cbor_value (kb_characteristics b)) (\<lambda>chars.
     res_bind (bytes_to_cbor_value (kb_key_derivation_input b)) (\<lambda>kdi.
     res_bind (bytes_to_cbor_value (kb_kek_context b)) (\<lambda>ctx.
     res_bind (CoseEncrypt0_to_cbor_value E (kb_encrypted_key_material b)) (\<lambda>mat.
     res_bind (option_to_cbor_value u32_to_cbor_value (kb_secure_deletion_slot b)) (\<lambda>slot.
     Inr (Value_Array [chars, kdi, ctx, mat, slot]))))))"

definition EncryptedKeyBlobV1_from_cbor_value ::
    "'c KbEnv \<Rightarrow> Value \<Rightarrow> CborError + EncryptedKeyBlobV1" where
  "EncryptedKeyBlobV1_from_cbor_value E v = (case v of
     Value_Array a \<Rightarrow>
       if length a \<noteq> 5 then Inl (CborError_UnexpectedItem ''arr'' ''arr len 5'')
       else
         res_bind (option_from_cbor_value u32_from_cbor_value (a ! 4)) (\<lambda>slot.
         res_bind (CoseEncrypt0_from_cbor_value E (a ! 3)) (\<lambda>mat.
         res_bind (bytes_from_cbor_value (a ! 2)) (\<lambda>ctx.
         res_bind (array_from_cbor_value 32 (a ! 1)) (\<lambda>kdi.
         res_bind (vec_from_cbor_value KeyCharacteristics_from_cbor_value (a ! 0)) (\<lambda>chars.
         Inr \<lparr>kb_characteristics = chars, kb_key_derivation_input = kdi, kb_kek_context = ctx,
              kb_encrypted_key_material = mat, kb_secure_deletion_slot = slot\<rparr>)))))
   | _ \<Rightarrow> cbor_type_error v ''arr'')"

datatype Version = Version_V1

definition Version_i32 :: "Version \<Rightarrow> int" where
  "Version_i32 v = (case v of Version_V1 \<Rightarrow> 0)"

definition EncryptedKeyBlob_to_cbor_value ::
    "'c KbEnv \<Rightarrow> EncryptedKeyBlob \<Rightarrow> CborError + Value" where
  "EncryptedKeyBlob_to_cbor_value E b = (case b of
     EncryptedKeyBlob_V1 inner \<Rightarrow>
       res_bind (enum_to_cbor_value Version_i32 Version_V1) (\<lambda>version.
       res_bind (EncryptedKeyBlobV1_to_cbor_value E inner) (\<lambda>v. Inr (Value_Array [version, v]))))"

definition EncryptedKeyBlob_from_cbor_value ::
    "'c KbEnv \<Rightarrow> Value \<Rightarrow> CborError + EncryptedKeyBlob" where
  "EncryptedKeyBlob_from_cbor_value E v = (case v of
     Value_Array a \<Rightarrow>
       if length a \<noteq> 2 then cbor_type_error v ''arr len 2''
       else
         res_bind (enum_from_cbor_value Version_i32 [Version_V1] (a ! 0)) (\<lambda>version.
           case version of Version_V1 \<Rightarrow>
             res_bind (EncryptedKeyBlobV1_from_cbor_value E (a ! 1)) (\<lambda>inner.
             Inr (EncryptedKeyBlob_V1 inner)))
   | _ \<Rightarrow> cbor_type_error v ''arr len 2'')"

definition EncryptedKeyBlob_new :: "'c KbEnv \<Rightarrow> bytes \<Rightarrow> Error + EncryptedKeyBlob" where
  "EncryptedKeyBlob_new E data =
     map_err (\<lambda>_. Error_Hal ErrorCode_InvalidKeyBlob)
       (from_slice E (EncryptedKeyBlob_from_cbor_value E) data)"

definition kb_slot :: "EncryptedKeyBlob \<Rightarrow> SecureDeletionSlot option" where
  "kb_slot self = (case self of EncryptedKeyBlob_V1 blob \<Rightarrow> kb_secure_deletion_slot blob)"

definition kb_context :: "EncryptedKeyBlob \<Rightarrow> bytes" where
  "kb_context self = (case self of EncryptedKeyBlob_V1 blob \<Rightarrow> kb_kek_context blob)"

section \<open>Encryption and decryption\<close>

definition kek_info ::
    "'c KbEnv \<Rightarrow> bytes \<Rightarrow> KeyCharacteristics list \<Rightarrow> KeyParam list \<Rightarrow> SecureDeletionData option
     \<Rightarrow> CborError + bytes" where
  "kek_info E key_derivation_input characteristics hidden_params sdd =
     res_bind (into_vec E (vec_to_cbor_value KeyCharacteristics_to_cbor_value) characteristics) (\<lambda>c.
     res_bind (into_vec E (vec_to_cbor_value KeyParam_to_cbor_value) hidden_params) (\<lambda>h.
     res_bind (case sdd of
                 Some d \<Rightarrow> into_vec E SecureDeletionData_to_cbor_value d
               | None \<Rightarrow> Inr []) (\<lambda>d.
     Inr (key_derivation_input @ c @ h @ d))))"

definition derive_kek ::
    "'c KbEnv \<Rightarrow> Hmac_Key OpaqueOr \<Rightarrow> bytes \<Rightarrow> KeyCharacteristics list \<Rightarrow> KeyParam list
     \<Rightarrow> SecureDeletionData option \<Rightarrow> Error + Aes_Key OpaqueOr" where
  "derive_kek E root_key key_derivation_input characteristics hidden_params sdd =
     res_bind (map_err Error_Cbor (kek_info E key_derivation_input characteristics hidden_params sdd)) (\<lambda>ctx.
       case root_key of
         OpaqueOr_Explicit (Hmac_Key key_material) \<Rightarrow>
           hkdf_aes (kb_crypto E) [] key_material ctx Aes256
       | OpaqueOr_Opaque _ \<Rightarrow> expand_aes (kb_crypto E) root_key ctx Aes256)"

definition ZERO_NONCE :: bytes where
  "ZERO_NONCE = replicate 12 0"

text \<open>One pass over a single piece of data; \<open>fin\<close> turns the error of \<open>finish\<close>.\<close>

definition aead_run ::
    "'c Crypto \<Rightarrow> (Error \<Rightarrow> Error) \<Rightarrow> Aes_Key OpaqueOr \<Rightarrow> SymmetricOperation \<Rightarrow> bytes \<Rightarrow> bytes
     \<Rightarrow> Error + bytes" where
  "aead_run C fin kek dir aad data =
     res_bind (aes_begin_aead C kek (GcmMode_GcmTag16 ZERO_NONCE) dir) (\<lambda>op.
       case aad_update C op aad of (op, r) \<Rightarrow>
       res_bind r (\<lambda>_.
         case emit_update C op data of (op, r) \<Rightarrow>
         res_bind r (\<lambda>out.
         res_bind (map_err fin (emit_finish C op)) (\<lambda>last. Inr (out @ last)))))"

definition requires_sdd :: "KeyParam list \<Rightarrow> bool" where
  "requires_sdd chars =
     list_ex (\<lambda>param. param = KeyParam_RollbackResistance \<or> param = KeyParam_UsageCountLimit 1) chars"

text \<open>The slot holder and the secrets the key is bound to; \<open>None\<close> is a panic of the manager.\<close>

definition acquire_sdd ::
    "('s, 'r) SecretManager \<Rightarrow> bool \<Rightarrow> 's option \<Rightarrow> 'r \<Rightarrow> SlotPurpose
     \<Rightarrow> ('s option \<times> 'r \<times> (Error + (SecureDeletionSlot option \<times> SecureDeletionData option))) option" where
  "acquire_sdd M required sdd_mgr rng purpose = (case (required, sdd_mgr) of
     (True, Some mgr) \<Rightarrow>
       map_option (\<lambda>(mgr, rng, r). (Some mgr, rng, map_ok (\<lambda>(slot, sdd). (Some slot, Some sdd)) r))
         (sm_new_secret M rng purpose mgr)
   | (True, None) \<Rightarrow> Some (None, rng, km_err ErrorCode_RollbackResistanceUnavailable)
   | (False, Some mgr) \<Rightarrow>
       (case sm_get_or_create_factory_reset_secret M rng mgr of
          (mgr, rng, r) \<Rightarrow> Some (Some mgr, rng, map_ok (\<lambda>sdd. (None, Some sdd)) r))
   | (False, None) \<Rightarrow> Some (None, rng, Inr (None, None)))"

definition drop_slot_holder ::
    "('s, 'r) SecretManager \<Rightarrow> SecureDeletionSlot option \<Rightarrow> 's option \<Rightarrow> 's option option" where
  "drop_slot_holder M slot sdd_mgr = (case (slot, sdd_mgr) of
     (Some slot, Some mgr) \<Rightarrow> map_option (\<lambda>(mgr, r). Some mgr) (sm_delete_secret M slot mgr)
   | _ \<Rightarrow> Some sdd_mgr)"

definition seal_keyblob ::
    "'c KbEnv \<Rightarrow> Hmac_Key OpaqueOr \<Rightarrow> bytes \<Rightarrow> PlaintextKeyBlob \<Rightarrow> KeyParam list \<Rightarrow> bytes
     \<Rightarrow> SecureDeletionSlot option \<Rightarrow> SecureDeletionData option \<Rightarrow> Error + EncryptedKeyBlob" where
  "seal_keyblob E root_key kek_context blob hidden_params key_derivation_input slot sdd =
     res_bind (derive_kek E root_key key_derivation_input (pk_characteristics blob) hidden_params sdd) (\<lambda>kek.
     res_bind (map_err Error_Cbor (into_vec E KeyMaterial_to_cbor_value (pk_key_material blob))) (\<lambda>pt.
     res_bind (aead_run (kb_crypto E) id kek SymmetricOperation_Encrypt
                 (enc_structure_data E (a256gcm_header E)) pt) (\<lambda>ct.
     Inr (EncryptedKeyBlob_V1
       \<lparr>kb_characteristics = pk_characteristics blob,
        kb_key_derivation_input = key_derivation_input,
        kb_kek_context = kek_context,
        kb_encrypted_key_material = \<lparr>ce_protected = a256gcm_header E, ce_ciphertext = Some ct\<rparr>,
        kb_secure_deletion_slot = slot\<rparr>))))"

definition keyblob_encrypt ::
    "'c KbEnv \<Rightarrow> 'r Rng \<Rightarrow> ('s, 'r) SecretManager \<Rightarrow> SecurityLevel \<Rightarrow> 's option \<Rightarrow> 'r
     \<Rightarrow> Hmac_Key OpaqueOr \<Rightarrow> bytes \<Rightarrow> PlaintextKeyBlob \<Rightarrow> KeyParam list \<Rightarrow> SlotPurpose
     \<Rightarrow> ('s option \<times> 'r \<times> (Error + EncryptedKeyBlob)) option" where
  "keyblob_encrypt E R M sec_level sdd_mgr rng root_key kek_context blob hidden_params purpose =
     (case kb_characteristics_at blob sec_level of
        Inl e \<Rightarrow> Some (sdd_mgr, rng, Inl e)
      | Inr chars \<Rightarrow>
          (case acquire_sdd M (requires_sdd chars) sdd_mgr rng purpose of
             None \<Rightarrow> None
           | Some (sdd_mgr, rng, Inl e) \<Rightarrow> Some (sdd_mgr, rng, Inl e)
           | Some (sdd_mgr, rng, Inr (slot, sdd)) \<Rightarrow>
               (case fill_bytes R 32 rng of
                  (key_derivation_input, rng) \<Rightarrow>
                    (case seal_keyblob E root_key kek_context blob hidden_params key_derivation_input slot sdd of
                       Inr b \<Rightarrow> Some (sdd_mgr, rng, Inr b)
                     | Inl e \<Rightarrow>
                         map_option (\<lambda>sdd_mgr. (sdd_mgr, rng, Inl e))
                           (drop_slot_holder M slot sdd_mgr)))))"

definition decrypt_sdd ::
    "('s, 'r) SecretManager \<Rightarrow> SecureDeletionSlot option \<Rightarrow> 's option
     \<Rightarrow> (Error + SecureDeletionData option) option" where
  "decrypt_sdd M slot sdd_mgr = (case (slot, sdd_mgr) of
     (Some slot, Some mgr) \<Rightarrow> map_option (map_ok Some) (sm_get_secret M slot mgr)
   | (Some _, None) \<Rightarrow> Some (km_err ErrorCode_InvalidKeyBlob)
   | (None, Some mgr) \<Rightarrow> Some (map_ok Some (sm_get_factory_reset_secret M mgr))
   | (None, None) \<Rightarrow> Some (Inr None))"

definition open_keyblob ::
    "'c KbEnv \<Rightarrow> Hmac_Key OpaqueOr \<Rightarrow> EncryptedKeyBlobV1 \<Rightarrow> KeyParam list \<Rightarrow> SecureDeletionData option
     \<Rightarrow> Error + PlaintextKeyBlob" where
  "open_keyblob E root_key blob hidden_params sdd =
     res_bind (derive_kek E root_key (kb_key_derivation_input blob) (kb_characteristics blob)
                 hidden_params sdd) (\<lambda>kek.
     res_bind (aead_run (kb_crypto E) (\<lambda>_. Error_Hal ErrorCode_InvalidKeyBlob) kek
                 SymmetricOperation_Decrypt
                 (enc_structure_data E (ce_protected (kb_encrypted_key_material blob)))
                 (case ce_ciphertext (kb_encrypted_key_material blob) of
                    Some ct \<Rightarrow> ct | None \<Rightarrow> [])) (\<lambda>pt.
     res_bind (map_err Error_Cbor (from_slice E KeyMaterial_from_cbor_value pt)) (\<lambda>material.
     Inr \<lparr>pk_characteristics = kb_characteristics blob, pk_key_material = material\<rparr>)))"

definition keyblob_decrypt ::
    "'c KbEnv \<Rightarrow> ('s, 'r) SecretManager \<Rightarrow> 's option \<Rightarrow> Hmac_Key OpaqueOr \<Rightarrow> EncryptedKeyBlob
     \<Rightarrow> KeyParam list \<Rightarrow> (Error + PlaintextKeyBlob) option" where
  "keyblob_decrypt E M sdd_mgr root_key encrypted hidden_params = (case encrypted of
     EncryptedKeyBlob_V1 blob \<Rightarrow>
       map_option (\<lambda>r. res_bind r (open_keyblob E root_key blob hidden_params))
         (decrypt_sdd M (kb_secure_deletion_slot blob) sdd_mgr))"

section \<open>Encoded key material decodes to itself\<close>

text \<open>The invariant of the Rust types: array lengths, and the key variant fits the curve.\<close>

primrec KeyMaterial_wf :: "KeyMaterial \<Rightarrow> bool" where
  "KeyMaterial_wf (KeyMaterial_Aes key) = (case key of
     OpaqueOr_Explicit k \<Rightarrow> Aes_Key_new (Aes_key_bytes k) = Inr k | OpaqueOr_Opaque _ \<Rightarrow> True)"
| "KeyMaterial_wf (KeyMaterial_TripleDes key) = (case key of
     OpaqueOr_Explicit (Des_Key k) \<Rightarrow> length k = Des_KEY_SIZE_BYTES | OpaqueOr_Opaque _ \<Rightarrow> True)"
| "KeyMaterial_wf (KeyMaterial_Hmac key) = True"
| "KeyMaterial_wf (KeyMaterial_Rsa key) = True"
| "KeyMaterial_wf (KeyMaterial_Ec curve curve_type key) = (case key of
     OpaqueOr_Explicit k \<Rightarrow> Ec_key_from_raw curve curve_type (Ec_private_key_bytes k) = Inr k
   | OpaqueOr_Opaque _ \<Rightarrow> True)"
| "KeyMaterial_wf (KeyMaterial_MlDsa variant key) = (case key of
     OpaqueOr_Explicit k \<Rightarrow> length (MlDsa_private_key_bytes k) = SEED_SIZE \<and>
       k = (case variant of
              MlDsaVariant_MlDsa65 \<Rightarrow> MlDsa_Key_MlDsa65 (MlDsa_private_key_bytes k)
            | MlDsaVariant_MlDsa87 \<Rightarrow> MlDsa_Key_MlDsa87 (MlDsa_private_key_bytes k))
   | OpaqueOr_Opaque _ \<Rightarrow> True)"

interpretation we_CurveType: wire_enum CurveType_i32 CurveType_variants
proof
  fix x show "x \<in> set CurveType_variants" by (cases x) (simp_all add: CurveType_variants_def)
  show "fits_i32 (CurveType_i32 x)" by (cases x) (simp_all add: fits_i32_def CurveType_i32_def)
qed (simp add: CurveType_variants_def CurveType_i32_def)

lemma bytes_value [simp]: "bytes_from_cbor_value (Value_Bytes b) = Inr b"
  by (simp add: bytes_from_cbor_value_def)

lemma KeyMaterial_cbor_round_trip:
  assumes "KeyMaterial_wf k"
  shows "\<exists>v. KeyMaterial_to_cbor_value k = Inr v \<and> KeyMaterial_from_cbor_value v = Inr k"
  using assms
  by (cases k) (auto simp: KeyMaterial_from_cbor_value_def KeyMaterial_from_algo_def
      raw_key_def material_from_bytes_def Ec_material_from_value_def MlDsa_material_from_value_def
      fits_i32_def split: OpaqueOr.splits Des_Key.splits Hmac_Key.splits Rsa_Key.splits)

section \<open>What is relied on of the libraries\<close>

text \<open>
  The nesting of a CBOR item; the reader of the program refuses items nested more than 16 deep.
\<close>

primrec value_depth :: "Value \<Rightarrow> nat" where
  "value_depth (Value_Integer i) = 0"
| "value_depth (Value_Bytes b) = 0"
| "value_depth (Value_Text t) = 0"
| "value_depth (Value_Array a) = Suc (foldr max (map value_depth a) 0)"
| "value_depth (Value_Map m) =
     Suc (foldr (\<lambda>(k, v) d. max (max k v) d) (map (map_prod value_depth value_depth) m) 0)"
| "value_depth (Value_Tag t v) = Suc (value_depth v)"
| "value_depth (Value_Float f) = 0"
| "value_depth (Value_Bool b) = 0"
| "value_depth Value_Null = 0"

definition cbor_correct :: "'c KbEnv \<Rightarrow> bool" where
  "cbor_correct E \<longleftrightarrow>
     (\<forall>v b. cbor_ser E v = Inr b \<and> value_depth v \<le> 16 \<longrightarrow> cbor_de E b = Inr (v, []))"

definition coset_correct :: "'c KbEnv \<Rightarrow> bool" where
  "coset_correct E \<longleftrightarrow>
     (\<forall>c v. ce_to_value E c = Inr v \<longrightarrow> ce_from_value E v = Inr c \<and> value_depth v \<le> 8)"

definition aead_correct :: "'c Crypto \<Rightarrow> bool" where
  "aead_correct C \<longleftrightarrow>
     (\<forall>fin kek aad pt ct. aead_run C id kek SymmetricOperation_Encrypt aad pt = Inr ct \<longrightarrow>
        aead_run C fin kek SymmetricOperation_Decrypt aad ct = Inr pt)"

lemma from_slice_into_vec:
  assumes "cbor_correct E" "into_vec E to_v x = Inr b" "to_v x = Inr v" "value_depth v \<le> 16"
  shows "from_slice E from_v b = from_v v"
  using assms by (auto simp: cbor_correct_def into_vec_def from_slice_def read_to_value_def)

lemma KeyMaterial_depth: "KeyMaterial_to_cbor_value k = Inr v \<Longrightarrow> value_depth v \<le> 2"
  by (cases k) (auto simp: raw_key_def split: OpaqueOr.splits)

section \<open>A sealed key blob opens to what was sealed\<close>

lemma open_seal:
  assumes "aead_correct (kb_crypto E)" "cbor_correct E" "KeyMaterial_wf (pk_key_material blob)"
    and "seal_keyblob E root ctx blob hidden_params kdi slot sdd = Inr (EncryptedKeyBlob_V1 b)"
  shows "open_keyblob E root b hidden_params sdd = Inr blob"
    and "kb_secure_deletion_slot b = slot" "kb_kek_context b = ctx" "kb_key_derivation_input b = kdi"
proof -
  obtain v where v: "KeyMaterial_to_cbor_value (pk_key_material blob) = Inr v"
    "KeyMaterial_from_cbor_value v = Inr (pk_key_material blob)"
    using KeyMaterial_cbor_round_trip[OF assms(3)] by blast
  from assms(4) obtain kek pt ct where
      k: "derive_kek E root kdi (pk_characteristics blob) hidden_params sdd = Inr kek"
    and pt: "into_vec E KeyMaterial_to_cbor_value (pk_key_material blob) = Inr pt"
    and ct: "aead_run (kb_crypto E) id kek SymmetricOperation_Encrypt
              (enc_structure_data E (a256gcm_header E)) pt = Inr ct"
    and b: "b = \<lparr>kb_characteristics = pk_characteristics blob, kb_key_derivation_input = kdi,
        kb_kek_context = ctx,
        kb_encrypted_key_material = \<lparr>ce_protected = a256gcm_header E, ce_ciphertext = Some ct\<rparr>,
        kb_secure_deletion_slot = slot\<rparr>"
    by (auto simp: seal_keyblob_def res_bind_Inr_iff map_err_Inr_iff)
  have "from_slice E KeyMaterial_from_cbor_value pt = Inr (pk_key_material blob)"
    using from_slice_into_vec[OF assms(2) pt v(1), of KeyMaterial_from_cbor_value]
      KeyMaterial_depth[OF v(1)] v(2) by simp
  with k ct assms(1) show "open_keyblob E root b hidden_params sdd = Inr blob"
    by (simp add: open_keyblob_def b aead_correct_def)
  show "kb_secure_deletion_slot b = slot" "kb_kek_context b = ctx" "kb_key_derivation_input b = kdi"
    by (simp_all add: b)
qed

lemma seal_slot:
  "seal_keyblob E root ctx blob hidden_params kdi slot sdd = Inr (EncryptedKeyBlob_V1 b) \<Longrightarrow>
   kb_secure_deletion_slot b = slot"
  by (auto simp: seal_keyblob_def res_bind_Inr_iff)

lemma keyblob_encrypt_okE:
  assumes "keyblob_encrypt E R M lvl mgr rng root ctx blob hidden_params p = Some (mgr', rng', Inr enc)"
  obtains chars rng1 slot sdd kdi b where
    "kb_characteristics_at blob lvl = Inr chars"
    "acquire_sdd M (requires_sdd chars) mgr rng p = Some (mgr', rng1, Inr (slot, sdd))"
    "fill_bytes R 32 rng1 = (kdi, rng')" "enc = EncryptedKeyBlob_V1 b"
    "seal_keyblob E root ctx blob hidden_params kdi slot sdd = Inr (EncryptedKeyBlob_V1 b)"
  using assms
  by (cases enc) (auto simp: keyblob_encrypt_def split: sum.splits option.splits prod.splits)

lemma keyblob_encrypt_errE:
  assumes "keyblob_encrypt E R M lvl mgr rng root ctx blob hidden_params p = Some (mgr', rng', Inl e)"
  obtains "mgr' = mgr"
  | chars rng1 where "acquire_sdd M (requires_sdd chars) mgr rng p = Some (mgr', rng1, Inl e)"
  | chars mgr1 rng1 slot sdd where
      "acquire_sdd M (requires_sdd chars) mgr rng p = Some (mgr1, rng1, Inr (slot, sdd))"
      "drop_slot_holder M slot mgr1 = Some mgr'"
  using assms
  by (auto simp: keyblob_encrypt_def split: sum.splits option.splits prod.splits)

context secret_manager
begin

lemma acquire_ok:
  assumes "inv s" "acquire_sdd m req (Some s) rng p = Some (mgr', rng', Inr (slot, sdd))"
  obtains t where "mgr' = Some t" "inv t" "decrypt_sdd m slot (Some t) = Some (Inr sdd)"
    "if req then \<exists>k d. slot = Some k \<and> sdd = Some d \<and> secrets s k = None \<and>
                      secrets t = (secrets s)(k \<mapsto> d)
     else slot = None \<and> secrets t = secrets s \<and> factory t \<noteq> None"
proof (cases req)
  case True
  with assms(2) obtain t k d where n: "mgr' = Some t" "slot = Some k" "sdd = Some d"
      "sm_new_secret m rng p s = Some (t, rng', Inr (k, d))"
    by (auto simp: acquire_sdd_def map_ok_Inr_iff)
  from new_secret_ok[OF assms(1) n(4)] n True show ?thesis
    by (intro that[of t]) (auto simp: decrypt_sdd_def get_secret ok_or_def)
next
  case False
  with assms(2) obtain t d where n: "mgr' = Some t" "slot = None" "sdd = Some d"
      "sm_get_or_create_factory_reset_secret m rng s = (t, rng', Inr d)"
    by (auto simp: acquire_sdd_def map_ok_Inr_iff split: prod.splits)
  from get_or_create[OF assms(1) n(4)] n False show ?thesis
    by (intro that[of t]) (auto simp: decrypt_sdd_def get_factory ok_or_def)
qed

lemma acquire_err:
  assumes "inv s" "acquire_sdd m req (Some s) rng p = Some (mgr', rng', Inl e)"
  obtains t where "mgr' = Some t" "inv t" "secrets t = secrets s"
proof (cases req)
  case True
  with assms(2) obtain t where "mgr' = Some t" "sm_new_secret m rng p s = Some (t, rng', Inl e)"
    by (auto simp: acquire_sdd_def map_ok_Inl_iff)
  with new_secret_err[OF assms(1)] that show ?thesis by blast
next
  case False
  with assms(2) obtain t where "mgr' = Some t"
      "sm_get_or_create_factory_reset_secret m rng s = (t, rng', Inl e)"
    by (auto simp: acquire_sdd_def map_ok_Inl_iff split: prod.splits)
  with get_or_create[OF assms(1)] that show ?thesis by blast
qed

lemma drop_holder:
  assumes "inv s" "decrypt_sdd m (Some k) (Some s) = Some (Inr d)"
    and "drop_slot_holder m (Some k) (Some s) = Some mgr'"
  obtains t where "mgr' = Some t" "inv t" "secrets t = (secrets s)(k := None)"
proof -
  from assms(3) obtain t r where d: "mgr' = Some t" "sm_delete_secret m k s = Some (t, r)"
    by (auto simp: drop_slot_holder_def)
  have "secrets s k \<noteq> None"
    using assms(1,2)
    by (cases "secrets s k") (auto simp: decrypt_sdd_def get_secret ok_or_def)
  with delete_secret[OF assms(1) d(2)] d(1) that show ?thesis by (cases r) auto
qed

text \<open>A failed encryption leaves no slot behind.\<close>

lemma encrypt_err:
  assumes "inv s"
    and "keyblob_encrypt E R m lvl (Some s) rng root ctx blob hidden_params p = Some (mgr', rng', Inl e)"
  obtains t where "mgr' = Some t" "inv t" "secrets t = secrets s"
  using assms(2)
proof (cases rule: keyblob_encrypt_errE)
  case 1
  with assms(1) that show ?thesis by blast
next
  case (2 chars rng1)
  from acquire_err[OF assms(1) 2] that show ?thesis by blast
next
  case (3 chars mgr1 rng1 slot sdd)
  from assms(1) 3(1) show ?thesis
  proof (rule acquire_ok)
    fix t
    assume t: "mgr1 = Some t" "inv t" "decrypt_sdd m slot (Some t) = Some (Inr sdd)"
      "if requires_sdd chars
       then \<exists>k d. slot = Some k \<and> sdd = Some d \<and> secrets s k = None \<and> secrets t = (secrets s)(k \<mapsto> d)
       else slot = None \<and> secrets t = secrets s \<and> factory t \<noteq> None"
    show ?thesis
    proof (cases slot)
      case None
      with t 3(2) that show ?thesis by (auto simp: drop_slot_holder_def split: if_splits)
    next
      case (Some k)
      with t obtain d where d: "secrets s k = None" "secrets t = (secrets s)(k \<mapsto> d)"
        by (auto split: if_splits)
      from drop_holder[OF t(2)] t(1,3) 3(2) Some obtain u where
        "mgr' = Some u" "inv u" "secrets u = (secrets t)(k := None)" by metis
      with d that[of u] show ?thesis by (simp add: fun_upd_idem)
    qed
  qed
qed

lemma encrypt_ok:
  assumes "inv s"
    and "keyblob_encrypt E R m lvl (Some s) rng root ctx blob hidden_params p = Some (mgr', rng', Inr enc)"
  obtains t b sdd kdi slot where "mgr' = Some t" "inv t" "enc = EncryptedKeyBlob_V1 b" "length kdi = 32"
    "seal_keyblob E root ctx blob hidden_params kdi slot sdd = Inr (EncryptedKeyBlob_V1 b)"
    "decrypt_sdd m slot (Some t) = Some (Inr sdd)"
    "case slot of
       Some k \<Rightarrow> secrets s k = None \<and> secrets t = (secrets s)(k \<mapsto> the sdd)
     | None \<Rightarrow> secrets t = secrets s \<and> factory t \<noteq> None"
  using assms(2)
proof (cases rule: keyblob_encrypt_okE)
  case (1 chars rng1 slot sdd kdi b)
  from assms(1) 1(2) show ?thesis
    by (rule acquire_ok)
      (rule that[OF _ _ 1(4) length_fill_bytes[OF 1(3)] 1(5)], auto split: if_splits)
qed

lemma decrypt_deleted:
  assumes "inv s" "secrets s k = None" "kb_secure_deletion_slot b = Some k"
  shows "keyblob_decrypt E m (Some s) root (EncryptedKeyBlob_V1 b) hidden_params =
           Some (km_err ErrorCode_InvalidKeyBlob)"
  using assms by (simp add: keyblob_decrypt_def decrypt_sdd_def get_secret ok_or_def)

lemma decrypt_reset:
  assumes "inv s" "secrets s = Map.empty" "factory s = None"
  shows "\<exists>e. keyblob_decrypt E m (Some s) root (EncryptedKeyBlob_V1 b) hidden_params = Some (Inl e)"
  using assms
  by (cases "kb_secure_deletion_slot b")
    (auto simp: keyblob_decrypt_def decrypt_sdd_def get_secret get_factory ok_or_def)

end

section \<open>A serialized key blob is read back\<close>

lemma vec_depth:
  assumes "\<And>x v. to_v x = Inr v \<Longrightarrow> value_depth v \<le> n" "vec_to_cbor_value to_v xs = Inr v"
  shows "value_depth v \<le> Suc n"
proof -
  obtain vs where vs: "res_collect to_v xs = Inr vs" "v = Value_Array vs"
    using assms(2) by (auto simp: vec_to_cbor_value_def map_ok_Inr_iff)
  have "foldr max (map value_depth vs) 0 \<le> n"
    using vs(1)
  proof (induction xs arbitrary: vs)
    case (Cons x xs)
    then show ?case using assms(1) by (fastforce simp: res_bind_Inr_iff)
  qed simp
  with vs(2) show ?thesis by simp
qed

lemma KeyParam_depth: "KeyParam_to_cbor_value p = Inr v \<Longrightarrow> value_depth v \<le> 1"
proof -
  have "KeySizeInBits_to_cbor_value k = u32_to_cbor_value (bits k)"
    "RsaExponent_to_cbor_value e = u64_to_cbor_value (case e of RsaExponent n \<Rightarrow> n)" for k e
    by (cases k; cases e; simp)+
  then show "KeyParam_to_cbor_value p = Inr v \<Longrightarrow> value_depth v \<le> 1"
    by (cases p)
      (auto simp: KeyParam_to_cbor_value_def enum_to_cbor_value_def u32_to_cbor_value_def
        u64_to_cbor_value_def bytes_to_cbor_value_def bool_to_cbor_value_def
        unit_to_cbor_value_def DateTime_to_cbor_value_def i64_to_cbor_value_def)
qed

lemma KeyCharacteristics_depth: "KeyCharacteristics_to_cbor_value k = Inr v \<Longrightarrow> value_depth v \<le> 3"
  using vec_depth[of KeyParam_to_cbor_value 1, OF KeyParam_depth]
  by (fastforce simp: KeyCharacteristics_to_cbor_value_def enum_to_cbor_value_def res_bind_Inr_iff)

lemma EncryptedKeyBlob_encoded:
  assumes "coset_correct E" "length (kb_key_derivation_input b) = 32"
    and "EncryptedKeyBlob_to_cbor_value E (EncryptedKeyBlob_V1 b) = Inr v"
  shows "EncryptedKeyBlob_from_cbor_value E v = Inr (EncryptedKeyBlob_V1 b)" "value_depth v \<le> 16"
proof -
  from assms(3) obtain chars mat slot where
      chars: "vec_to_cbor_value KeyCharacteristics_to_cbor_value (kb_characteristics b) = Inr chars"
    and mat: "ce_to_value E (kb_encrypted_key_material b) = Inr mat"
    and slot: "option_to_cbor_value u32_to_cbor_value (kb_secure_deletion_slot b) = Inr slot"
    and v: "v = Value_Array [Value_Integer 0,
        Value_Array [chars, Value_Bytes (kb_key_derivation_input b), Value_Bytes (kb_kek_context b),
          Value_Tag COSE_ENCRYPT0_TAG mat, slot]]"
    by (auto simp: EncryptedKeyBlob_to_cbor_value_def EncryptedKeyBlobV1_to_cbor_value_def
        enum_to_cbor_value_def bytes_to_cbor_value_def CoseEncrypt0_to_cbor_value_def Version_i32_def
        res_bind_Inr_iff)
  have "vec_from_cbor_value KeyCharacteristics_from_cbor_value chars = Inr (kb_characteristics b)"
    using KeyCharacteristics_cbor.vec_round_trip[of "kb_characteristics b"] chars by auto
  moreover have "option_from_cbor_value u32_from_cbor_value slot = Inr (kb_secure_deletion_slot b)"
    using u32_cbor.option_round_trip[of "kb_secure_deletion_slot b"] slot by auto
  moreover have "ce_from_value E mat = Inr (kb_encrypted_key_material b)" "value_depth mat \<le> 8"
    using assms(1) mat by (auto simp: coset_correct_def)
  moreover have "value_depth chars \<le> 4"
    using vec_depth[OF KeyCharacteristics_depth chars] by simp
  moreover have "value_depth slot \<le> 1"
    using slot by (auto simp: option_to_cbor_value_def u32_to_cbor_value_def split: option.splits)
  ultimately show "EncryptedKeyBlob_from_cbor_value E v = Inr (EncryptedKeyBlob_V1 b)"
      "value_depth v \<le> 16"
    using assms(2)
    by (simp_all add: v EncryptedKeyBlob_from_cbor_value_def EncryptedKeyBlobV1_from_cbor_value_def
        enum_from_cbor_value_def Version_i32_def fits_i32_def array_from_cbor_value_def
        CoseEncrypt0_from_cbor_value_def ok_or_def)
qed

lemma EncryptedKeyBlob_new_into_vec:
  assumes "cbor_correct E" "coset_correct E" "length (kb_key_derivation_input b) = 32"
    and "into_vec E (EncryptedKeyBlob_to_cbor_value E) (EncryptedKeyBlob_V1 b) = Inr data"
  shows "EncryptedKeyBlob_new E data = Inr (EncryptedKeyBlob_V1 b)"
proof -
  from assms(4) obtain v where v: "EncryptedKeyBlob_to_cbor_value E (EncryptedKeyBlob_V1 b) = Inr v"
    by (auto simp: into_vec_def res_bind_Inr_iff)
  note enc = EncryptedKeyBlob_encoded[OF assms(2,3) v]
  from from_slice_into_vec[OF assms(1,4) v enc(2), of "EncryptedKeyBlob_from_cbor_value E"] enc(1)
  show ?thesis by (simp add: EncryptedKeyBlob_new_def)
qed

section \<open>Key blobs of the program\<close>

text \<open>The secret manager is absent, or in a state the program can bring it into.\<close>

definition mgr_reachable :: "'r Rng \<Rightarrow> Prost \<Rightarrow> HostSddManager option \<Rightarrow> bool" where
  "mgr_reachable R P mgr = (case mgr of
     None \<Rightarrow> True
   | Some s \<Rightarrow> \<exists>g issued. sm_reach (host_manager R P) (host_start R P) s g issued)"

lemma mgr_reachable_inv: "mgr_reachable R P (Some s) \<Longrightarrow> hs_inv s"
  using hs.reach_secrets[of R P "host_start R P" s] host_new_inv
  by (fastforce simp: mgr_reachable_def host_start_def)

lemma keyblob_encrypt_decrypt:
  assumes "aead_correct (kb_crypto E)" "cbor_correct E" "coset_correct E"
    and "KeyMaterial_wf (pk_key_material blob)" "mgr_reachable R P mgr"
    and "keyblob_encrypt E R (host_manager R P) lvl mgr rng root ctx blob hidden_params p =
           Some (mgr', rng', Inr enc)"
  shows "keyblob_decrypt E (host_manager R P) mgr' root enc hidden_params = Some (Inr blob) \<and>
         kb_context enc = ctx \<and>
         (case into_vec E (EncryptedKeyBlob_to_cbor_value E) enc of
            Inr data \<Rightarrow> EncryptedKeyBlob_new E data = Inr enc
          | Inl _ \<Rightarrow> True)"
proof -
  obtain b kdi slot sdd where b: "enc = EncryptedKeyBlob_V1 b" "length kdi = 32"
      "seal_keyblob E root ctx blob hidden_params kdi slot sdd = Inr (EncryptedKeyBlob_V1 b)"
      "decrypt_sdd (host_manager R P) slot mgr' = Some (Inr sdd)"
  proof (cases mgr)
    case None
    from assms(6) show ?thesis
    proof (cases rule: keyblob_encrypt_okE)
      case (1 chars rng1 slot sdd kdi b)
      with None have "mgr' = None" "slot = None" "sdd = None"
        by (auto simp: acquire_sdd_def split: bool.splits)
      with 1 length_fill_bytes[OF 1(3)] that[of b kdi None None] show ?thesis
        by (simp add: decrypt_sdd_def)
    qed
  next
    case (Some s)
    with assms(5) have "hs_inv s" by (simp add: mgr_reachable_inv)
    from hs.encrypt_ok[OF this assms(6)[unfolded Some]] that show ?thesis by metis
  qed
  note op = open_seal[OF assms(1,2,4) b(3)]
  have "case into_vec E (EncryptedKeyBlob_to_cbor_value E) enc of
      Inr data \<Rightarrow> EncryptedKeyBlob_new E data = Inr enc | Inl _ \<Rightarrow> True"
    using EncryptedKeyBlob_new_into_vec[OF assms(2,3), of b] op(4) b(1,2)
    by (auto split: sum.splits)
  with b(1,4) op show ?thesis by (simp add: keyblob_decrypt_def kb_context_def)
qed

text \<open>
  C3: A key blob made by \<open>encrypt\<close> decrypts, with the same root key and hidden parameters, to the
  characteristics and key material that went in; so does the blob read back from its bytes.
\<close>

theorem keyblob_round_trip:
  assumes "aead_correct (kb_crypto E)" "cbor_correct E" "coset_correct E"
    and "KeyMaterial_wf (pk_key_material blob)" "mgr_reachable R P mgr"
    and "keyblob_encrypt E R (host_manager R P) lvl mgr rng root ctx blob hidden_params p =
           Some (mgr', rng', Inr enc)"
  shows "keyblob_decrypt E (host_manager R P) mgr' root enc hidden_params = Some (Inr blob) \<and>
         kb_context enc = ctx \<and>
         (case into_vec E (EncryptedKeyBlob_to_cbor_value E) enc of
            Inr data \<Rightarrow> EncryptedKeyBlob_new E data = Inr enc
          | Inl _ \<Rightarrow> True)"
  using assms by (rule keyblob_encrypt_decrypt)

text \<open>
  C2: Secure deletion.  A failed encryption leaves no secret behind, and a successful one adds
  at most the one its blob names.  Once that secret is deleted, or all secrets are, the blob can
  never be decrypted again.
\<close>

theorem keyblob_secure_deletion:
  assumes "mgr_reachable R P (Some s)"
    and "keyblob_encrypt E R (host_manager R P) lvl (Some s) rng root ctx blob hidden_params p =
           Some (mgr', rng', res)"
  shows "\<exists>t. mgr' = Some t \<and> (case res of
     Inl _ \<Rightarrow> hs_secrets t = hs_secrets s
   | Inr enc \<Rightarrow>
       (case kb_slot enc of
          None \<Rightarrow> hs_secrets t = hs_secrets s
        | Some slot \<Rightarrow>
            slot \<notin> dom (hs_secrets s) \<and> dom (hs_secrets t) = insert slot (dom (hs_secrets s)) \<and>
            (case hs_delete_secret P slot t of
               Some (u, Inr _) \<Rightarrow>
                 hs_secrets u = hs_secrets s \<and>
                 keyblob_decrypt E (host_manager R P) (Some u) root enc hidden_params =
                   Some (km_err ErrorCode_InvalidKeyBlob)
             | Some (u, Inl _) \<Rightarrow> False
             | None \<Rightarrow> io_write (hs_io t 0) \<noteq> Written)) \<and>
       (case hs_delete_all t of
          Some u \<Rightarrow> \<exists>e. keyblob_decrypt E (host_manager R P) (Some u) root enc hidden_params = Some (Inl e)
        | None \<Rightarrow> True))"
proof (cases res)
  case (Inl e)
  from mgr_reachable_inv[OF assms(1)] assms(2)[unfolded Inl] show ?thesis
    by (rule hs.encrypt_err) (simp add: Inl)
next
  case (Inr enc)
  note inv = mgr_reachable_inv[OF assms(1)]
  from inv assms(2)[unfolded Inr] show ?thesis
  proof (rule hs.encrypt_ok)
    fix t b sdd kdi slot
    assume t: "mgr' = Some t" "hs_inv t" "enc = EncryptedKeyBlob_V1 b"
      and seal: "seal_keyblob E root ctx blob hidden_params kdi slot sdd = Inr (EncryptedKeyBlob_V1 b)"
      and slot: "case slot of
          Some k \<Rightarrow> hs_secrets s k = None \<and> hs_secrets t = (hs_secrets s)(k \<mapsto> the sdd)
        | None \<Rightarrow> hs_secrets t = hs_secrets s \<and> hs_factory t \<noteq> None"
    have b: "kb_slot enc = slot" "kb_secure_deletion_slot b = slot"
      using seal_slot[OF seal] t(3) by (simp_all add: kb_slot_def)
    have reset: "case hs_delete_all t of
        Some u \<Rightarrow> \<exists>e. keyblob_decrypt E (host_manager R P) (Some u) root enc hidden_params = Some (Inl e)
      | None \<Rightarrow> True"
    proof (cases "hs_delete_all t")
      case (Some u)
      then have "hs_inv u \<and> hs_secrets u = Map.empty \<and> hs_factory u = None"
        using hs.delete_all[OF t(2), of R P u] by (simp add: host_manager_def)
      with hs.decrypt_reset Some t(3) show ?thesis by auto
    qed simp
    have delete: "case hs_delete_secret P k t of
        Some (u, Inr _) \<Rightarrow> hs_secrets u = hs_secrets s \<and>
          keyblob_decrypt E (host_manager R P) (Some u) root enc hidden_params =
            Some (km_err ErrorCode_InvalidKeyBlob)
      | Some (u, Inl _) \<Rightarrow> False
      | None \<Rightarrow> io_write (hs_io t 0) \<noteq> Written" if k: "slot = Some k" for k
    proof (cases "hs_delete_secret P k t")
      case None
      then show ?thesis
        by (auto simp: hs_delete_secret_def next_io_def write_sdd_file_def Let_def
            split: option.splits WriteOutcome.splits)
    next
      case (Some ur)
      obtain u r where ur: "ur = (u, r)" by (rule prod.exhaust)
      have "sm_delete_secret (host_manager R P) k t = Some (u, r)"
        using Some ur by (simp add: host_manager_def)
      note d = hs.delete_secret[OF t(2) this]
      with slot k have "r \<noteq> Inl e" for e by auto
      then obtain x where r: "r = Inr x" by (cases r) auto
      with d slot k have "hs_inv u" "hs_secrets u = hs_secrets s" "hs_secrets u k = None"
        by (auto simp: fun_upd_idem)
      with hs.decrypt_deleted[OF this(1,3)] b(2) k r ur Some t(3) show ?thesis by simp
    qed
    show ?thesis
      using t(1) Inr b(1) slot delete reset by (auto split: option.splits)
  qed
qed

text \<open>A rollback resistant HMAC key, and libraries that know just the items it needs.\<close>

definition sample_blob :: PlaintextKeyBlob where
  "sample_blob =
     \<lparr>pk_characteristics = [\<lparr>security_level = SecurityLevel_TrustedEnvironment,
                            authorizations = [KeyParam_RollbackResistance]\<rparr>],
      pk_key_material = KeyMaterial_Hmac (OpaqueOr_Explicit (Hmac_Key [1, 2, 3]))\<rparr>"

definition sample_values :: "Value list" where
  "sample_values =
     [Value_Array [],
      Value_Array [Value_Array [Value_Integer (SecurityLevel_i32 SecurityLevel_TrustedEnvironment),
        Value_Array [Value_Array [Value_Integer (Tag_i32 Tag_RollbackResistance), Value_Bool True]]]],
      Value_Array [Value_Bytes (replicate 32 1), Value_Bytes (replicate 16 1)],
      Value_Array [Value_Integer (Algorithm_i32 Algorithm_Hmac), Value_Bool False,
        Value_Bytes [1, 2, 3]]]"

definition sample_env :: "(nat \<times> bytes) KbEnv" where
  "sample_env =
     \<lparr>kb_crypto = sample_crypto,
      cbor_ser = \<lambda>v. case position (\<lambda>w. w = v) sample_values of
                       Some i \<Rightarrow> Inr [of_nat i] | None \<Rightarrow> Inl CborError_EncodeFailed,
      cbor_de = \<lambda>b. Inr (sample_values ! unat (hd b), []),
      ce_to_value = \<lambda>c. Inl CborError_EncodeFailed,
      ce_from_value = \<lambda>v. Inl CborError_InvalidValue,
      a256gcm_header = [],
      enc_structure_data = id\<rparr>"

lemma sample_env_laws:
  "aead_correct (kb_crypto sample_env)" "cbor_correct sample_env" "coset_correct sample_env"
proof -
  show "aead_correct (kb_crypto sample_env)"
    by (auto simp: aead_correct_def aead_run_def sample_env_def sample_crypto_def)
  have "unat (of_nat i :: u8) = i" if "i < length sample_values" for i
    using that by (simp add: sample_values_def unat_of_nat)
  then show "cbor_correct sample_env"
    by (auto simp: cbor_correct_def sample_env_def position_Some_iff split: option.splits)
  show "coset_correct sample_env" by (simp add: coset_correct_def sample_env_def)
qed

lemma sample_hkdf:
  "hkdf_aes sample_crypto salt ikm ctx Aes256 =
     Inr (OpaqueOr_Explicit (Aes_Key_Aes256 (replicate 32 7)))"
proof -
  have "hmac_sha256 sample_crypto k d = Inr (replicate 32 7)" for k d
    using sample_hmac by (simp add: hmac_sha256_is_def)
  then show ?thesis
    by (simp add: hkdf_aes_def hkdf_def hkdf_extract_def hkdf_expand_def explicit_def div_ceil_def
        SHA256_DIGEST_LEN_def Aes_Variant_key_size_def expand_step_def Aes_Key_new_def)
qed

definition sample_enc :: EncryptedKeyBlob where
  "sample_enc = EncryptedKeyBlob_V1
     \<lparr>kb_characteristics = pk_characteristics sample_blob,
      kb_key_derivation_input = replicate 32 1,
      kb_kek_context = [9],
      kb_encrypted_key_material = \<lparr>ce_protected = [], ce_ciphertext = Some [3]\<rparr>,
      kb_secure_deletion_slot = Some 1\<rparr>"

lemma sample_into_vec:
  "into_vec sample_env (vec_to_cbor_value KeyCharacteristics_to_cbor_value)
     (pk_characteristics sample_blob) = Inr [1]"
  "into_vec sample_env (vec_to_cbor_value KeyParam_to_cbor_value) [] = Inr [0]"
  "into_vec sample_env SecureDeletionData_to_cbor_value sample_sdd = Inr [2]"
  "into_vec sample_env KeyMaterial_to_cbor_value (pk_key_material sample_blob) = Inr [3]"
  by (simp_all add: into_vec_def sample_blob_def sample_env_def sample_values_def vec_to_cbor_value_def
      KeyCharacteristics_to_cbor_value_def KeyParam_to_cbor_value_def enum_to_cbor_value_def
      bool_to_cbor_value_def SecureDeletionData_to_cbor_value_def sample_sdd_def raw_key_def)

lemma sample_encrypt:
  "keyblob_encrypt sample_env sample_rng (host_manager sample_rng sample_prost)
     SecurityLevel_TrustedEnvironment (Some sample_host) () (OpaqueOr_Explicit (Hmac_Key [5])) [9]
     sample_blob [] SlotPurpose_KeyGeneration = Some (Some sample_host', (), Inr sample_enc)"
proof -
  have chars: "kb_characteristics_at sample_blob SecurityLevel_TrustedEnvironment =
      Inr [KeyParam_RollbackResistance]"
    by (simp add: kb_characteristics_at_def characteristics_at_def sample_blob_def)
  have "acquire_sdd (host_manager sample_rng sample_prost) True (Some sample_host) ()
      SlotPurpose_KeyGeneration = Some (Some sample_host', (), Inr (Some 1, Some sample_sdd))"
    using sample_new_secret by (simp add: acquire_sdd_def host_manager_def)
  moreover have "derive_kek sample_env (OpaqueOr_Explicit (Hmac_Key [5])) kdi
      (pk_characteristics sample_blob) [] (Some sample_sdd) =
        Inr (OpaqueOr_Explicit (Aes_Key_Aes256 (replicate 32 7)))" for kdi
    using sample_hkdf
    by (simp add: derive_kek_def kek_info_def sample_into_vec) (simp add: sample_env_def)
  moreover have "aead_run (kb_crypto sample_env) id kek SymmetricOperation_Encrypt aad pt = Inr pt"
    for kek aad pt by (simp add: aead_run_def sample_env_def sample_crypto_def)
  ultimately show ?thesis
    by (simp add: keyblob_encrypt_def chars requires_sdd_def sample_fill seal_keyblob_def
        sample_into_vec sample_enc_def) (simp add: sample_env_def)
qed

lemma sample_mgr_reachable: "mgr_reachable sample_rng sample_prost (Some sample_host)"
  using sample_reach by (auto simp: mgr_reachable_def)

theorem keyblob_round_trip_witness:
  "keyblob_decrypt sample_env (host_manager sample_rng sample_prost) (Some sample_host')
     (OpaqueOr_Explicit (Hmac_Key [5])) sample_enc [] = Some (Inr sample_blob) \<and>
   kb_context sample_enc = [9]"
proof -
  have "KeyMaterial_wf (pk_key_material sample_blob)" by (simp add: sample_blob_def)
  from keyblob_round_trip[OF sample_env_laws this sample_mgr_reachable sample_encrypt]
  show ?thesis by simp
qed

theorem keyblob_secure_deletion_witness:
  "1 \<notin> dom (hs_secrets sample_host) \<and>
   dom (hs_secrets sample_host') = insert 1 (dom (hs_secrets sample_host))"
  using keyblob_secure_deletion[OF sample_mgr_reachable sample_encrypt]
  by (simp add: kb_slot_def sample_enc_def)

end
