(* ===== verification/Ta_Begin.thy ===== *)
theory Ta_Begin
  imports Keyblob
begin

text \<open>
  The parameter checks of a beginning operation in the trusted application
  (\<^verbatim>\<open>ta/src/operation/begin.rs\<close>): the general checks, the checks of each algorithm, and the
  choice of the cipher, padding and signing modes.
\<close>

section \<open>Rejected tags\<close>

definition as_Nonce where
  "as_Nonce p = (case p of KeyParam_Nonce v \<Rightarrow> Some v | _ \<Rightarrow> None)"

definition as_MacLength where
  "as_MacLength p = (case p of KeyParam_MacLength v \<Rightarrow> Some v | _ \<Rightarrow> None)"

definition reject_tags :: "KeyParam list \<Rightarrow> Tag list \<Rightarrow> Error + unit" where
  "reject_tags params exclude =
     (if list_ex (\<lambda>param. KeyParam_tag param \<in> set exclude) params
      then km_err ErrorCode_InvalidTag else Inr ())"

definition reject_some_padding :: "KeyParam list \<Rightarrow> Error + unit" where
  "reject_some_padding params =
     res_bind (get_opt_tag_value as_Padding ErrorCode_InvalidTag params) (\<lambda>padding.
       case padding of
         Some p \<Rightarrow> if p \<noteq> PaddingMode_None then km_err ErrorCode_InvalidTag else Inr ()
       | None \<Rightarrow> Inr ())"

definition reject_some_digest :: "KeyParam list \<Rightarrow> Error + unit" where
  "reject_some_digest params =
     res_bind (get_opt_tag_value as_Digest ErrorCode_InvalidTag params) (\<lambda>digest.
       case digest of
         Some d \<Rightarrow> if d \<noteq> Digest_None then km_err ErrorCode_InvalidTag else Inr ()
       | None \<Rightarrow> Inr ())"

section \<open>Checks of one algorithm\<close>

record BeginParamsToCheck =
  check_block_mode :: bool
  check_padding :: bool
  check_digest :: bool
  check_mgf_digest :: bool

definition for_encryption :: "KeyPurpose \<Rightarrow> bool" where
  "for_encryption purpose =
     (purpose = KeyPurpose_Encrypt \<or> purpose = KeyPurpose_Decrypt \<or> purpose = KeyPurpose_WrapKey)"

definition for_signing :: "KeyPurpose \<Rightarrow> bool" where
  "for_signing purpose = (purpose = KeyPurpose_Sign)"

text \<open>The \<open>match padding\<close> of the RSA checks, with the digest found before it.\<close>

definition check_begin_rsa_padding ::
    "KeyParam list \<Rightarrow> KeyPurpose \<Rightarrow> KeyParam list \<Rightarrow> PaddingMode \<Rightarrow> Digest option \<Rightarrow> Error + unit" where
  "check_begin_rsa_padding chars purpose params padding digest =
     (if padding = PaddingMode_None then Inr ()
      else if padding = PaddingMode_RsaOaep \<and> for_encryption purpose then
        (if digest = None \<or> digest = Some Digest_None then km_err ErrorCode_IncompatibleDigest
         else res_bind (get_mgf_digest params) (\<lambda>mgf_digest.
              if mgf_digest = Digest_None then km_err ErrorCode_UnsupportedMgfDigest else Inr ()))
      else if padding = PaddingMode_RsaPss \<and> for_signing purpose then
        (case digest of
           Some digest \<Rightarrow>
             res_bind (get_tag_value as_KeySize ErrorCode_InvalidArgument chars) (\<lambda>key_size_bits.
             res_bind (digest_len digest) (\<lambda>d.
               if bits key_size_bits < 2 * d + 9 then km_err ErrorCode_IncompatibleDigest else Inr ()))
         | None \<Rightarrow> km_err ErrorCode_IncompatibleDigest)
      else if padding = PaddingMode_RsaPkcs115Encrypt \<and> for_encryption purpose then Inr ()
      else if padding = PaddingMode_RsaPkcs115Sign \<and> for_signing purpose then
        (if digest = None then km_err ErrorCode_IncompatibleDigest else Inr ())
      else km_err ErrorCode_UnsupportedPaddingMode)"

definition check_begin_rsa_params ::
    "KeyParam list \<Rightarrow> KeyPurpose \<Rightarrow> KeyParam list \<Rightarrow> Error + BeginParamsToCheck" where
  "check_begin_rsa_params chars purpose params =
     res_bind (get_padding_mode params) (\<lambda>padding.
     res_bind
       (if for_signing purpose \<or> for_encryption purpose \<and> padding = PaddingMode_RsaOaep
        then map_ok Some (get_digest params) else Inr None) (\<lambda>digest.
       if for_signing purpose \<and> padding = PaddingMode_None \<and> digest \<noteq> Some Digest_None
       then km_err ErrorCode_IncompatibleDigest
       else res_bind (check_begin_rsa_padding chars purpose params padding digest) (\<lambda>_.
         Inr \<lparr>check_block_mode = False, check_padding = True, check_digest = True,
              check_mgf_digest = True\<rparr>)))"

definition check_begin_ec_params ::
    "KeyParam list \<Rightarrow> KeyPurpose \<Rightarrow> KeyParam list \<Rightarrow> Error + BeginParamsToCheck" where
  "check_begin_ec_params chars purpose params =
     res_bind (get_ec_curve chars) (\<lambda>curve.
     res_bind
       (if purpose = KeyPurpose_Sign then
          res_bind (get_digest params) (\<lambda>digest.
            if digest = Digest_Md5 then km_err ErrorCode_UnsupportedDigest
            else if curve = EcCurve_Curve25519 \<and> digest \<noteq> Digest_None
            then km_err ErrorCode_UnsupportedDigest
            else Inr ())
        else Inr ()) (\<lambda>_.
     Inr \<lparr>check_block_mode = False, check_padding = False, check_digest = True,
          check_mgf_digest = False\<rparr>))"

definition check_begin_mldsa_params ::
    "KeyPurpose \<Rightarrow> KeyParam list \<Rightarrow> Error + BeginParamsToCheck" where
  "check_begin_mldsa_params purpose params =
     res_bind
       (if purpose = KeyPurpose_Sign then
          res_bind (get_digest params) (\<lambda>digest.
            if digest \<noteq> Digest_None then km_err ErrorCode_UnsupportedDigest else Inr ())
        else Inr ()) (\<lambda>_.
     Inr \<lparr>check_block_mode = False, check_padding = False, check_digest = True,
          check_mgf_digest = False\<rparr>)"

definition check_aes_mac_length ::
    "KeyParam list \<Rightarrow> KeyParam list \<Rightarrow> Error + unit" where
  "check_aes_mac_length chars params =
     res_bind (get_tag_value as_MacLength ErrorCode_MissingMacLength params) (\<lambda>mac_len.
       if mac_len mod 8 \<noteq> 0 \<or> mac_len > 128 then km_err ErrorCode_UnsupportedMacLength
       else res_bind (get_tag_value as_MinMacLength ErrorCode_MissingMinMacLength chars) (\<lambda>min_mac_len.
         if mac_len < min_mac_len then km_err ErrorCode_InvalidMacLength else Inr ()))"

definition check_begin_aes_params ::
    "KeyParam list \<Rightarrow> KeyParam list \<Rightarrow> bytes option \<Rightarrow> Error + BeginParamsToCheck" where
  "check_begin_aes_params chars params caller_nonce =
     res_bind (reject_tags params [Tag_RsaOaepMgfDigest]) (\<lambda>_.
     res_bind (reject_some_digest params) (\<lambda>_.
     res_bind (get_block_mode params) (\<lambda>bmode.
     res_bind (get_padding_mode params) (\<lambda>padding.
     res_bind (if bmode = BlockMode_Gcm then check_aes_mac_length chars params else Inr ()) (\<lambda>_.
     res_bind
       (case bmode of
          BlockMode_Gcm \<Rightarrow>
            if padding = PaddingMode_None then Inr () else km_err ErrorCode_IncompatiblePaddingMode
        | BlockMode_Ctr \<Rightarrow>
            if padding = PaddingMode_None then Inr () else km_err ErrorCode_IncompatiblePaddingMode
        | _ \<Rightarrow>
            if padding = PaddingMode_None \<or> padding = PaddingMode_Pkcs7 then Inr ()
            else km_err ErrorCode_IncompatiblePaddingMode) (\<lambda>_.
     res_bind
       (case caller_nonce of
          None \<Rightarrow> Inr ()
        | Some nonce \<Rightarrow>
            if bmode = BlockMode_Cbc \<and> length nonce = 16 \<or> bmode = BlockMode_Ctr \<and> length nonce = 16
               \<or> bmode = BlockMode_Gcm \<and> length nonce = 12
            then Inr () else km_err ErrorCode_InvalidNonce) (\<lambda>_.
     Inr \<lparr>check_block_mode = True, check_padding = True, check_digest = False,
          check_mgf_digest = False\<rparr>)))))))"

definition check_begin_3des_params ::
    "KeyParam list \<Rightarrow> bytes option \<Rightarrow> Error + BeginParamsToCheck" where
  "check_begin_3des_params params caller_nonce =
     res_bind (reject_tags params [Tag_RsaOaepMgfDigest]) (\<lambda>_.
     res_bind (reject_some_digest params) (\<lambda>_.
     res_bind (get_block_mode params) (\<lambda>bmode.
     res_bind (get_padding_mode params) (\<lambda>_.
     res_bind
       (if bmode = BlockMode_Cbc \<or> bmode = BlockMode_Ecb then Inr ()
        else km_err ErrorCode_UnsupportedBlockMode) (\<lambda>_.
     res_bind
       (case caller_nonce of
          None \<Rightarrow> Inr ()
        | Some nonce \<Rightarrow>
            if bmode = BlockMode_Cbc \<and> length nonce = 8 then Inr ()
            else km_err ErrorCode_InvalidNonce) (\<lambda>_.
     Inr \<lparr>check_block_mode = True, check_padding = True, check_digest = False,
          check_mgf_digest = False\<rparr>))))))"

definition check_begin_hmac_params ::
    "KeyParam list \<Rightarrow> KeyPurpose \<Rightarrow> KeyParam list \<Rightarrow> Error + BeginParamsToCheck" where
  "check_begin_hmac_params chars purpose params =
     res_bind (reject_tags params [Tag_BlockMode, Tag_RsaOaepMgfDigest]) (\<lambda>_.
     res_bind (reject_some_padding params) (\<lambda>_.
     res_bind (get_digest params) (\<lambda>digest.
     res_bind
       (if purpose = KeyPurpose_Sign then
          res_bind (get_tag_value as_MacLength ErrorCode_MissingMacLength params) (\<lambda>mac_len.
            if mac_len mod 8 \<noteq> 0 then km_err ErrorCode_UnsupportedMacLength
            else res_bind (digest_len digest) (\<lambda>d.
              if mac_len > d then km_err ErrorCode_UnsupportedMacLength
              else res_bind (get_tag_value as_MinMacLength ErrorCode_MissingMinMacLength chars)
                (\<lambda>min_mac_len.
                  if mac_len < min_mac_len then km_err ErrorCode_InvalidMacLength else Inr ())))
        else Inr ()) (\<lambda>_.
     Inr \<lparr>check_block_mode = False, check_padding = False, check_digest = True,
          check_mgf_digest = False\<rparr>))))"

section \<open>The checks of a begin call\<close>

definition valid_purpose :: "Algorithm \<Rightarrow> KeyPurpose \<Rightarrow> bool" where
  "valid_purpose algo purpose = (case algo of
     Algorithm_Aes \<Rightarrow> purpose \<in> {KeyPurpose_Encrypt, KeyPurpose_Decrypt}
   | Algorithm_TripleDes \<Rightarrow> purpose \<in> {KeyPurpose_Encrypt, KeyPurpose_Decrypt}
   | Algorithm_Hmac \<Rightarrow> purpose \<in> {KeyPurpose_Sign, KeyPurpose_Verify}
   | Algorithm_Ec \<Rightarrow> purpose \<in> {KeyPurpose_Sign, KeyPurpose_AttestKey, KeyPurpose_AgreeKey}
   | Algorithm_Rsa \<Rightarrow> purpose \<in> {KeyPurpose_Sign, KeyPurpose_Decrypt, KeyPurpose_AttestKey}
   | Algorithm_MlDsa \<Rightarrow> purpose \<in> {KeyPurpose_Sign, KeyPurpose_AttestKey})"

definition check_authorized ::
    "bool \<Rightarrow> (KeyParam \<Rightarrow> 'v option) \<Rightarrow> ErrorCode \<Rightarrow> ErrorCode \<Rightarrow> KeyParam list \<Rightarrow> KeyParam list
     \<Rightarrow> Error + unit" where
  "check_authorized check variant dup_error incompatible chars params =
     (if \<not> check then Inr ()
      else res_bind (get_opt_tag_value variant dup_error params) (\<lambda>value.
        case value of
          Some v \<Rightarrow> if contains_tag_value variant v chars then Inr () else km_err incompatible
        | None \<Rightarrow> Inr ()))"

definition check_mgf_authorized :: "bool \<Rightarrow> KeyParam list \<Rightarrow> KeyParam list \<Rightarrow> Error + unit" where
  "check_mgf_authorized check chars params =
     (if \<not> check then Inr ()
      else res_bind (get_opt_tag_value as_RsaOaepMgfDigest ErrorCode_UnsupportedMgfDigest params)
        (\<lambda>mgf_digest_to_find.
          let chars_have_mgf_digest = list_ex (\<lambda>p. as_RsaOaepMgfDigest p \<noteq> None) chars;
              mgf_digest_to_find =
                (if chars_have_mgf_digest \<and> mgf_digest_to_find = None then Some Digest_Sha1
                 else mgf_digest_to_find)
          in case mgf_digest_to_find of
               Some d \<Rightarrow> if contains_tag_value as_RsaOaepMgfDigest d chars then Inr ()
                         else km_err ErrorCode_IncompatibleMgfDigest
             | None \<Rightarrow> Inr ()))"

definition check_begin_algorithm ::
    "Algorithm \<Rightarrow> KeyParam list \<Rightarrow> KeyPurpose \<Rightarrow> KeyParam list \<Rightarrow> bytes option
     \<Rightarrow> Error + BeginParamsToCheck" where
  "check_begin_algorithm algo chars purpose params nonce = (case algo of
     Algorithm_Rsa \<Rightarrow> check_begin_rsa_params chars purpose params
   | Algorithm_Ec \<Rightarrow> check_begin_ec_params chars purpose params
   | Algorithm_MlDsa \<Rightarrow> check_begin_mldsa_params purpose params
   | Algorithm_Aes \<Rightarrow> check_begin_aes_params chars params nonce
   | Algorithm_TripleDes \<Rightarrow> check_begin_3des_params params nonce
   | Algorithm_Hmac \<Rightarrow> check_begin_hmac_params chars purpose params)"

definition check_begin_params ::
    "KeyParam list \<Rightarrow> KeyPurpose \<Rightarrow> KeyParam list \<Rightarrow> Error + unit" where
  "check_begin_params chars purpose params =
     res_bind (get_algorithm chars) (\<lambda>algo.
       if \<not> valid_purpose algo purpose then km_err ErrorCode_UnsupportedPurpose
       else if \<not> contains_tag_value as_Purpose purpose chars
       then km_err ErrorCode_IncompatiblePurpose
       else res_bind (get_bool_tag_value KeyParam_StorageKey chars) (\<lambda>storage_key.
         if storage_key then km_err ErrorCode_StorageKeyUnsupported
         else
           res_bind (get_opt_tag_value as_Nonce ErrorCode_InvalidTag params) (\<lambda>nonce.
           res_bind (get_bool_tag_value KeyParam_CallerNonce chars) (\<lambda>caller_nonce.
             if \<not> caller_nonce \<and> nonce \<noteq> None \<and> purpose = KeyPurpose_Encrypt
             then km_err ErrorCode_CallerNonceProhibited
             else
               res_bind (check_begin_algorithm algo chars purpose params nonce) (\<lambda>check.
               res_bind (check_authorized (check_block_mode check) as_BlockMode
                  ErrorCode_UnsupportedBlockMode ErrorCode_IncompatibleBlockMode chars params) (\<lambda>_.
               res_bind (check_authorized (check_padding check) as_Padding
                  ErrorCode_UnsupportedPaddingMode ErrorCode_IncompatiblePaddingMode chars params) (\<lambda>_.
               res_bind (check_authorized (check_digest check) as_Digest
                  ErrorCode_UnsupportedDigest ErrorCode_IncompatibleDigest chars params) (\<lambda>_.
               check_mgf_authorized (check_mgf_digest check) chars params))))))))"

section \<open>Modes\<close>

definition nonce_bytes :: "'r Rng \<Rightarrow> nat \<Rightarrow> bytes option \<Rightarrow> 'r \<Rightarrow> 'r \<times> (Error + bytes)" where
  "nonce_bytes R n caller_nonce rng = (case caller_nonce of
     Some b \<Rightarrow> (rng, if length b = n then Inr b else km_err ErrorCode_InvalidNonce)
   | None \<Rightarrow> (case fill_bytes R n rng of (arr, rng) \<Rightarrow> (rng, Inr arr)))"

definition GCM_NONCE_SIZE :: nat where
  "GCM_NONCE_SIZE = 12"

definition DES_BLOCK_SIZE :: nat where
  "DES_BLOCK_SIZE = 8"

definition gcm_mode :: "KeyParam list \<Rightarrow> bytes \<Rightarrow> Error + Aes_Mode" where
  "gcm_mode params nonce =
     res_bind (get_tag_value as_MacLength ErrorCode_InvalidMacLength params) (\<lambda>tag_len.
       if tag_len mod 8 \<noteq> 0 then km_err ErrorCode_InvalidMacLength
       else let n = tag_len div 8 in
         if n = 12 then Inr (Aes_Mode_Aead (GcmMode_GcmTag12 nonce))
         else if n = 13 then Inr (Aes_Mode_Aead (GcmMode_GcmTag13 nonce))
         else if n = 14 then Inr (Aes_Mode_Aead (GcmMode_GcmTag14 nonce))
         else if n = 15 then Inr (Aes_Mode_Aead (GcmMode_GcmTag15 nonce))
         else if n = 16 then Inr (Aes_Mode_Aead (GcmMode_GcmTag16 nonce))
         else km_err ErrorCode_InvalidMacLength)"

definition aes_mode ::
    "'r Rng \<Rightarrow> KeyParam list \<Rightarrow> bytes option \<Rightarrow> 'r \<Rightarrow> 'r \<times> (Error + Aes_Mode)" where
  "aes_mode R params caller_nonce rng =
     (case res_bind (get_block_mode params) (\<lambda>mode.
             res_bind (get_padding_mode params) (\<lambda>padding. Inr (mode, padding))) of
        Inl e \<Rightarrow> (rng, Inl e)
      | Inr (BlockMode_Ecb, padding) \<Rightarrow>
          (rng,
           if caller_nonce \<noteq> None then km_err ErrorCode_InvalidNonce
           else if padding = PaddingMode_None then Inr (Aes_Mode_Cipher CipherMode_EcbNoPadding)
           else if padding = PaddingMode_Pkcs7 then Inr (Aes_Mode_Cipher CipherMode_EcbPkcs7Padding)
           else km_err ErrorCode_IncompatiblePaddingMode)
      | Inr (BlockMode_Cbc, padding) \<Rightarrow>
          (case nonce_bytes R AES_BLOCK_SIZE caller_nonce rng of (rng, r) \<Rightarrow>
            (rng, res_bind r (\<lambda>nonce.
               if padding = PaddingMode_None then Inr (Aes_Mode_Cipher (CipherMode_CbcNoPadding nonce))
               else if padding = PaddingMode_Pkcs7
               then Inr (Aes_Mode_Cipher (CipherMode_CbcPkcs7Padding nonce))
               else km_err ErrorCode_IncompatiblePaddingMode)))
      | Inr (BlockMode_Ctr, padding) \<Rightarrow>
          if padding \<noteq> PaddingMode_None then (rng, km_err ErrorCode_IncompatiblePaddingMode)
          else (case nonce_bytes R AES_BLOCK_SIZE caller_nonce rng of (rng, r) \<Rightarrow>
            (rng, res_bind r (\<lambda>nonce. Inr (Aes_Mode_Cipher (CipherMode_Ctr nonce)))))
      | Inr (BlockMode_Gcm, padding) \<Rightarrow>
          if padding \<noteq> PaddingMode_None then (rng, km_err ErrorCode_IncompatiblePaddingMode)
          else (case nonce_bytes R GCM_NONCE_SIZE caller_nonce rng of (rng, r) \<Rightarrow>
            (rng, res_bind r (gcm_mode params))))"

definition des_mode ::
    "'r Rng \<Rightarrow> KeyParam list \<Rightarrow> bytes option \<Rightarrow> 'r \<Rightarrow> 'r \<times> (Error + Des_Mode)" where
  "des_mode R params caller_nonce rng =
     (case res_bind (get_block_mode params) (\<lambda>mode.
             res_bind (get_padding_mode params) (\<lambda>padding. Inr (mode, padding))) of
        Inl e \<Rightarrow> (rng, Inl e)
      | Inr (BlockMode_Ecb, padding) \<Rightarrow>
          (rng,
           if caller_nonce \<noteq> None then km_err ErrorCode_InvalidNonce
           else if padding = PaddingMode_None then Inr Des_Mode_EcbNoPadding
           else if padding = PaddingMode_Pkcs7 then Inr Des_Mode_EcbPkcs7Padding
           else km_err ErrorCode_IncompatiblePaddingMode)
      | Inr (BlockMode_Cbc, padding) \<Rightarrow>
          (case nonce_bytes R DES_BLOCK_SIZE caller_nonce rng of (rng, r) \<Rightarrow>
            (rng, res_bind r (\<lambda>nonce.
               if padding = PaddingMode_None then Inr (Des_Mode_CbcNoPadding nonce)
               else if padding = PaddingMode_Pkcs7 then Inr (Des_Mode_CbcPkcs7Padding nonce)
               else km_err ErrorCode_IncompatiblePaddingMode)))
      | Inr (_, padding) \<Rightarrow> (rng, km_err ErrorCode_UnsupportedBlockMode))"

definition rsa_decryption_mode :: "KeyParam list \<Rightarrow> Error + DecryptionMode" where
  "rsa_decryption_mode params =
     res_bind (get_padding_mode params) (\<lambda>padding. case padding of
       PaddingMode_None \<Rightarrow> Inr DecryptionMode_NoPadding
     | PaddingMode_RsaOaep \<Rightarrow>
         res_bind (get_digest params) (\<lambda>msg_digest.
         res_bind (get_mgf_digest params) (\<lambda>mgf_digest.
         Inr (DecryptionMode_OaepPadding msg_digest mgf_digest)))
     | PaddingMode_RsaPkcs115Encrypt \<Rightarrow> Inr DecryptionMode_Pkcs1_1_5Padding
     | _ \<Rightarrow> km_err ErrorCode_UnsupportedPaddingMode)"

definition rsa_sign_mode :: "KeyParam list \<Rightarrow> Error + SignMode" where
  "rsa_sign_mode params =
     res_bind (get_padding_mode params) (\<lambda>padding. case padding of
       PaddingMode_None \<Rightarrow> Inr SignMode_NoPadding
     | PaddingMode_RsaPss \<Rightarrow>
         res_bind (get_digest params) (\<lambda>digest. Inr (SignMode_PssPadding digest))
     | PaddingMode_RsaPkcs115Sign \<Rightarrow>
         res_bind (get_digest params) (\<lambda>digest. Inr (SignMode_Pkcs1_1_5Padding digest))
     | _ \<Rightarrow> km_err ErrorCode_UnsupportedPaddingMode)"

section \<open>What a begin call is accepted for\<close>

text \<open>
  At most one value of a tag is given, and it is one of those the key is authorized for.
\<close>

definition given_authorized :: "(KeyParam \<Rightarrow> 'v option) \<Rightarrow> KeyParam list \<Rightarrow> KeyParam list \<Rightarrow> bool" where
  "given_authorized variant chars params \<longleftrightarrow>
     length (List.map_filter variant params) \<le> 1 \<and>
     set (List.map_filter variant params) \<subseteq> set (List.map_filter variant chars)"

text \<open>The MGF digest defaults to SHA-1 for keys that name MGF digests at all.\<close>

definition mgf_authorized :: "KeyParam list \<Rightarrow> KeyParam list \<Rightarrow> bool" where
  "mgf_authorized chars params \<longleftrightarrow>
     given_authorized as_RsaOaepMgfDigest chars params \<and>
     \<not> (List.map_filter as_RsaOaepMgfDigest chars \<noteq> [] \<and>
        List.map_filter as_RsaOaepMgfDigest params = [] \<and>
        Digest_Sha1 \<notin> set (List.map_filter as_RsaOaepMgfDigest chars))"

definition caller_nonce_ok :: "KeyParam list \<Rightarrow> KeyPurpose \<Rightarrow> KeyParam list \<Rightarrow> bool" where
  "caller_nonce_ok chars purpose params \<longleftrightarrow>
     length (List.map_filter as_Nonce params) \<le> 1 \<and> count_list chars KeyParam_CallerNonce \<le> 1 \<and>
     \<not> (List.map_filter as_Nonce params \<noteq> [] \<and> purpose = KeyPurpose_Encrypt \<and>
        KeyParam_CallerNonce \<notin> set chars)"

definition mac_length_between :: "u32 \<Rightarrow> KeyParam list \<Rightarrow> KeyParam list \<Rightarrow> bool" where
  "mac_length_between hi chars params \<longleftrightarrow>
     (\<exists>n lo. List.map_filter as_MacLength params = [n] \<and> List.map_filter as_MinMacLength chars = [lo] \<and>
             n mod 8 = 0 \<and> lo \<le> n \<and> n \<le> hi)"

definition aes_nonce_len :: "BlockMode \<Rightarrow> nat option" where
  "aes_nonce_len bm = (case bm of
     BlockMode_Ecb \<Rightarrow> None | BlockMode_Cbc \<Rightarrow> Some 16 | BlockMode_Ctr \<Rightarrow> Some 16 | BlockMode_Gcm \<Rightarrow> Some 12)"

definition nonce_lens_ok :: "nat option \<Rightarrow> KeyParam list \<Rightarrow> bool" where
  "nonce_lens_ok n params \<longleftrightarrow> Some ` length ` set (List.map_filter as_Nonce params) \<subseteq> {n} \<inter> range Some"

definition aes_begin_spec :: "KeyParam list \<Rightarrow> KeyParam list \<Rightarrow> bool" where
  "aes_begin_spec chars params \<longleftrightarrow>
     (\<exists>bm pm. List.map_filter as_BlockMode params = [bm] \<and> List.map_filter as_Padding params = [pm] \<and>
        KeyParam_BlockMode bm \<in> set chars \<and> KeyParam_Padding pm \<in> set chars \<and>
        (pm = PaddingMode_None \<or> pm = PaddingMode_Pkcs7 \<and> bm \<in> {BlockMode_Ecb, BlockMode_Cbc}) \<and>
        (if bm = BlockMode_Gcm then mac_length_between 128 chars params else True) \<and>
        nonce_lens_ok (aes_nonce_len bm) params) \<and>
     List.map_filter as_RsaOaepMgfDigest params = [] \<and>
     List.map_filter as_Digest params \<in> {[], [Digest_None]}"

definition des_begin_spec :: "KeyParam list \<Rightarrow> KeyParam list \<Rightarrow> bool" where
  "des_begin_spec chars params \<longleftrightarrow>
     (\<exists>bm pm. List.map_filter as_BlockMode params = [bm] \<and> List.map_filter as_Padding params = [pm] \<and>
        KeyParam_BlockMode bm \<in> set chars \<and> KeyParam_Padding pm \<in> set chars \<and>
        bm \<in> {BlockMode_Ecb, BlockMode_Cbc} \<and>
        nonce_lens_ok (if bm = BlockMode_Cbc then Some 8 else None) params) \<and>
     List.map_filter as_RsaOaepMgfDigest params = [] \<and>
     List.map_filter as_Digest params \<in> {[], [Digest_None]}"

definition hmac_begin_spec :: "KeyParam list \<Rightarrow> KeyPurpose \<Rightarrow> KeyParam list \<Rightarrow> bool" where
  "hmac_begin_spec chars purpose params \<longleftrightarrow>
     (\<exists>d. List.map_filter as_Digest params = [d] \<and> KeyParam_Digest d \<in> set chars \<and>
        (if purpose = KeyPurpose_Sign
         then \<exists>len. digest_len d = Inr len \<and> mac_length_between len chars params else True)) \<and>
     List.map_filter as_BlockMode params = [] \<and> List.map_filter as_RsaOaepMgfDigest params = [] \<and>
     List.map_filter as_Padding params \<in> {[], [PaddingMode_None]}"

definition ec_begin_spec :: "KeyParam list \<Rightarrow> KeyPurpose \<Rightarrow> KeyParam list \<Rightarrow> bool" where
  "ec_begin_spec chars purpose params \<longleftrightarrow>
     (\<exists>curve. List.map_filter as_EcCurve chars = [curve] \<and>
        (if purpose = KeyPurpose_Sign
         then \<exists>d. List.map_filter as_Digest params = [d] \<and> d \<noteq> Digest_Md5 \<and>
                  (curve \<noteq> EcCurve_Curve25519 \<or> d = Digest_None)
         else True)) \<and>
     given_authorized as_Digest chars params"

definition mldsa_begin_spec :: "KeyParam list \<Rightarrow> KeyPurpose \<Rightarrow> KeyParam list \<Rightarrow> bool" where
  "mldsa_begin_spec chars purpose params \<longleftrightarrow>
     (purpose = KeyPurpose_Sign \<longrightarrow> List.map_filter as_Digest params = [Digest_None]) \<and>
     given_authorized as_Digest chars params"

definition rsa_padding_spec ::
    "KeyParam list \<Rightarrow> KeyPurpose \<Rightarrow> KeyParam list \<Rightarrow> PaddingMode \<Rightarrow> bool" where
  "rsa_padding_spec chars purpose params pm \<longleftrightarrow>
     (if purpose = KeyPurpose_Sign then
        \<exists>d. List.map_filter as_Digest params = [d] \<and>
          (pm = PaddingMode_None \<and> d = Digest_None \<or> pm = PaddingMode_RsaPkcs115Sign \<or>
           pm = PaddingMode_RsaPss \<and>
             (\<exists>size len. List.map_filter as_KeySize chars = [size] \<and> digest_len d = Inr len \<and>
                         2 * len + 9 \<le> bits size))
      else if purpose = KeyPurpose_Decrypt then
        pm = PaddingMode_None \<or> pm = PaddingMode_RsaPkcs115Encrypt \<or>
        pm = PaddingMode_RsaOaep \<and>
          (\<exists>d. List.map_filter as_Digest params = [d] \<and> d \<noteq> Digest_None) \<and>
          List.map_filter as_RsaOaepMgfDigest params \<noteq> [Digest_None]
      else pm = PaddingMode_None)"

definition rsa_begin_spec :: "KeyParam list \<Rightarrow> KeyPurpose \<Rightarrow> KeyParam list \<Rightarrow> bool" where
  "rsa_begin_spec chars purpose params \<longleftrightarrow>
     (\<exists>pm. List.map_filter as_Padding params = [pm] \<and> KeyParam_Padding pm \<in> set chars \<and>
        rsa_padding_spec chars purpose params pm) \<and>
     given_authorized as_Digest chars params \<and> mgf_authorized chars params"

definition algorithm_spec ::
    "Algorithm \<Rightarrow> KeyParam list \<Rightarrow> KeyPurpose \<Rightarrow> KeyParam list \<Rightarrow> bool" where
  "algorithm_spec algo chars purpose params = (case algo of
     Algorithm_Rsa \<Rightarrow> rsa_begin_spec chars purpose params
   | Algorithm_Ec \<Rightarrow> ec_begin_spec chars purpose params
   | Algorithm_MlDsa \<Rightarrow> mldsa_begin_spec chars purpose params
   | Algorithm_Aes \<Rightarrow> aes_begin_spec chars params
   | Algorithm_TripleDes \<Rightarrow> des_begin_spec chars params
   | Algorithm_Hmac \<Rightarrow> hmac_begin_spec chars purpose params)"

definition begin_spec :: "KeyParam list \<Rightarrow> KeyPurpose \<Rightarrow> KeyParam list \<Rightarrow> bool" where
  "begin_spec chars purpose params \<longleftrightarrow>
     (\<exists>algo. List.map_filter as_Algorithm chars = [algo] \<and> valid_purpose algo purpose \<and>
        algorithm_spec algo chars purpose params) \<and>
     KeyParam_Purpose purpose \<in> set chars \<and> KeyParam_StorageKey \<notin> set chars \<and>
     caller_nonce_ok chars purpose params"

text \<open>Looking a tag up and going on with the value.\<close>

lemma opt_bind_iff:
  "res_bind (get_opt_tag_value variant e ps) f = Inr y \<longleftrightarrow>
     List.map_filter variant ps = [] \<and> f None = Inr y \<or>
     (\<exists>v. List.map_filter variant ps = [v] \<and> f (Some v) = Inr y)"
  by (cases "List.map_filter variant ps" rule: remdups_adj.cases)
    (auto simp: get_opt_tag_value_def tag_scan_eq Let_def)

lemma value_bind_iff:
  "res_bind (get_tag_value variant e ps) f = Inr y \<longleftrightarrow>
     (\<exists>v. List.map_filter variant ps = [v] \<and> f v = Inr y)"
  by (auto simp: res_bind_Inr_iff get_tag_value_iff)

lemma getter_bind_iffs:
  "res_bind (get_algorithm ps) f1 = Inr y \<longleftrightarrow>
     (\<exists>v. List.map_filter as_Algorithm ps = [v] \<and> f1 v = Inr y)"
  "res_bind (get_block_mode ps) f2 = Inr y \<longleftrightarrow>
     (\<exists>v. List.map_filter as_BlockMode ps = [v] \<and> f2 v = Inr y)"
  "res_bind (get_padding_mode ps) f3 = Inr y \<longleftrightarrow>
     (\<exists>v. List.map_filter as_Padding ps = [v] \<and> f3 v = Inr y)"
  "res_bind (get_digest ps) f4 = Inr y \<longleftrightarrow>
     (\<exists>v. List.map_filter as_Digest ps = [v] \<and> f4 v = Inr y)"
  "res_bind (get_ec_curve ps) f5 = Inr y \<longleftrightarrow>
     (\<exists>v. List.map_filter as_EcCurve ps = [v] \<and> f5 v = Inr y)"
  by (simp_all add: get_algorithm_def get_block_mode_def get_padding_mode_def get_digest_def
      get_ec_curve_def value_bind_iff)

lemma bool_bind_iff:
  "res_bind (get_bool_tag_value b ps) f = Inr y \<longleftrightarrow>
     b \<notin> set ps \<and> f False = Inr y \<or> count_list ps b = 1 \<and> f True = Inr y"
  by (auto simp: get_bool_tag_value_eq count_list_0_iff)

lemma unit_bind_iff: "res_bind r (\<lambda>_ :: unit. k) = Inr y \<longleftrightarrow> r = Inr () \<and> k = Inr y"
  by (cases r) auto

lemmas begin_iffs = opt_bind_iff value_bind_iff getter_bind_iffs bool_bind_iff unit_bind_iff

lemma as_variant_iff:
  "as_BlockMode p = Some a \<longleftrightarrow> p = KeyParam_BlockMode a"
  "as_Padding p = Some b \<longleftrightarrow> p = KeyParam_Padding b"
  "as_Digest p = Some c \<longleftrightarrow> p = KeyParam_Digest c"
  "as_Purpose p = Some d \<longleftrightarrow> p = KeyParam_Purpose d"
  by (cases p; simp add: as_BlockMode_def as_Padding_def as_Digest_def as_Purpose_def)+

lemma map_filter_tag:
  "a \<in> set (List.map_filter as_BlockMode ps) \<longleftrightarrow> KeyParam_BlockMode a \<in> set ps"
  "b \<in> set (List.map_filter as_Padding ps) \<longleftrightarrow> KeyParam_Padding b \<in> set ps"
  "c \<in> set (List.map_filter as_Digest ps) \<longleftrightarrow> KeyParam_Digest c \<in> set ps"
  "d \<in> set (List.map_filter as_Purpose ps) \<longleftrightarrow> KeyParam_Purpose d \<in> set ps"
  by (simp_all add: set_map_filter_eq as_variant_iff)

lemma rejected_tag_iff:
  "KeyParam_tag p = Tag_RsaOaepMgfDigest \<longleftrightarrow> as_RsaOaepMgfDigest p \<noteq> None"
  "KeyParam_tag p = Tag_BlockMode \<longleftrightarrow> as_BlockMode p \<noteq> None"
  by (cases p; simp add: as_RsaOaepMgfDigest_def as_BlockMode_def)+

lemma map_filter_Nil_iff: "List.map_filter f xs = [] \<longleftrightarrow> (\<forall>x\<in>set xs. f x = None)"
  by (induction xs) (auto simp: map_filter_simps split: option.splits)

lemma reject_tags_iff:
  "reject_tags ps [Tag_RsaOaepMgfDigest] = Inr () \<longleftrightarrow> List.map_filter as_RsaOaepMgfDigest ps = []"
  "reject_tags ps [Tag_BlockMode, Tag_RsaOaepMgfDigest] = Inr () \<longleftrightarrow>
     List.map_filter as_BlockMode ps = [] \<and> List.map_filter as_RsaOaepMgfDigest ps = []"
  by (auto simp: reject_tags_def list_ex_iff rejected_tag_iff map_filter_Nil_iff)

lemma reject_some_iff:
  "reject_some_digest ps = Inr () \<longleftrightarrow> List.map_filter as_Digest ps \<in> {[], [Digest_None]}"
  "reject_some_padding ps = Inr () \<longleftrightarrow> List.map_filter as_Padding ps \<in> {[], [PaddingMode_None]}"
  by (auto simp: reject_some_digest_def reject_some_padding_def opt_bind_iff)

lemma check_authorized_iff:
  "check_authorized c variant dup inc chars params = Inr () \<longleftrightarrow>
     \<not> c \<or> given_authorized variant chars params"
  by (auto simp: check_authorized_def given_authorized_def contains_tag_value_iff opt_bind_iff
      le_Suc_eq length_Suc_conv)

lemma check_mgf_authorized_iff:
  "check_mgf_authorized c chars params = Inr () \<longleftrightarrow> \<not> c \<or> mgf_authorized chars params"
proof -
  have "list_ex (\<lambda>p. as_RsaOaepMgfDigest p \<noteq> None) chars \<longleftrightarrow>
      List.map_filter as_RsaOaepMgfDigest chars \<noteq> []"
    by (auto simp: list_ex_iff map_filter_Nil_iff)
  then show ?thesis
    by (auto simp: check_mgf_authorized_def mgf_authorized_def given_authorized_def Let_def
        contains_tag_value_iff opt_bind_iff le_Suc_eq length_Suc_conv)
qed

section \<open>The checks decide the specification\<close>

lemma nonce_lens_simps:
  "List.map_filter as_Nonce ps = [] \<Longrightarrow> nonce_lens_ok n ps"
  "List.map_filter as_Nonce ps = [v] \<Longrightarrow> nonce_lens_ok n ps \<longleftrightarrow> n = Some (length v)"
  by (auto simp: nonce_lens_ok_def)

lemma guard_iffs:
  "(if P then Inr () else km_err e) = Inr () \<longleftrightarrow> P"
  "(if P then km_err e else r) = Inr y \<longleftrightarrow> \<not> P \<and> r = Inr y"
  "(if P then r' else Inr ()) = Inr () \<longleftrightarrow> (P \<longrightarrow> r' = Inr ())"
  by auto

lemma aes_mac_iff: "check_aes_mac_length chars params = Inr () \<longleftrightarrow> mac_length_between 128 chars params"
  unfolding check_aes_mac_length_def mac_length_between_def value_bind_iff guard_iffs
  by (auto simp: not_less del: mod_0_imp_dvd)

definition params_to_check :: "bool \<Rightarrow> bool \<Rightarrow> bool \<Rightarrow> bool \<Rightarrow> BeginParamsToCheck" where
  "params_to_check bm pm d mgf =
     \<lparr>check_block_mode = bm, check_padding = pm, check_digest = d, check_mgf_digest = mgf\<rparr>"

lemma given_single:
  "List.map_filter as_BlockMode params = [bm] \<Longrightarrow>
     given_authorized as_BlockMode chars params \<longleftrightarrow> KeyParam_BlockMode bm \<in> set chars"
  "List.map_filter as_Padding params = [pm] \<Longrightarrow>
     given_authorized as_Padding chars params \<longleftrightarrow> KeyParam_Padding pm \<in> set chars"
  "List.map_filter as_Digest params = [d] \<Longrightarrow>
     given_authorized as_Digest chars params \<longleftrightarrow> KeyParam_Digest d \<in> set chars"
  by (simp_all add: given_authorized_def map_filter_tag)

definition nonce_list :: "bytes option \<Rightarrow> bytes list" where
  "nonce_list nonce = (case nonce of None \<Rightarrow> [] | Some n \<Rightarrow> [n])"

definition nonce_len_given :: "nat option \<Rightarrow> bytes option \<Rightarrow> bool" where
  "nonce_len_given n nonce = (case nonce of None \<Rightarrow> True | Some b \<Rightarrow> n = Some (length b))"

lemma nonce_len_given_iff:
  assumes "List.map_filter as_Nonce params = nonce_list nonce"
  shows "nonce_lens_ok n params = nonce_len_given n nonce"
  using assms
  by (cases nonce) (auto simp: nonce_lens_ok_def nonce_list_def nonce_len_given_def)

lemma aes_nonce_check:
  "(case nonce of
      None \<Rightarrow> Inr ()
    | Some nonce \<Rightarrow>
        if bm = BlockMode_Cbc \<and> length nonce = 16 \<or> bm = BlockMode_Ctr \<and> length nonce = 16
           \<or> bm = BlockMode_Gcm \<and> length nonce = 12
        then Inr () else km_err ErrorCode_InvalidNonce) = Inr () \<longleftrightarrow>
     nonce_len_given (aes_nonce_len bm) nonce"
  by (cases nonce; cases bm) (auto simp: nonce_len_given_def aes_nonce_len_def)

lemma aes_padding_check:
  "(case bm of
      BlockMode_Gcm \<Rightarrow>
        if padding = PaddingMode_None then Inr () else km_err ErrorCode_IncompatiblePaddingMode
    | BlockMode_Ctr \<Rightarrow>
        if padding = PaddingMode_None then Inr () else km_err ErrorCode_IncompatiblePaddingMode
    | _ \<Rightarrow>
        if padding = PaddingMode_None \<or> padding = PaddingMode_Pkcs7 then Inr ()
        else km_err ErrorCode_IncompatiblePaddingMode) = Inr () \<longleftrightarrow>
     padding = PaddingMode_None \<or> padding = PaddingMode_Pkcs7 \<and> bm \<in> {BlockMode_Ecb, BlockMode_Cbc}"
  by (cases bm) auto

lemma Inr_eq: "Inr \<lparr>check_block_mode = bm, check_padding = pm, check_digest = d, check_mgf_digest = mgf\<rparr>
    = Inr c \<longleftrightarrow> c = params_to_check bm pm d mgf"
  by (auto simp: params_to_check_def)

lemma modes_iff:
  assumes "\<And>bm pm. R bm pm \<longleftrightarrow> Q bm pm \<and> C"
  shows "(A \<and> B \<and> (\<exists>bm. List.map_filter as_BlockMode params = [bm] \<and>
      (\<exists>pm. List.map_filter as_Padding params = [pm] \<and> R bm pm))) \<and>
     given_authorized as_BlockMode chars params \<and> given_authorized as_Padding chars params \<longleftrightarrow>
   ((\<exists>bm pm. List.map_filter as_BlockMode params = [bm] \<and> List.map_filter as_Padding params = [pm] \<and>
      KeyParam_BlockMode bm \<in> set chars \<and> KeyParam_Padding pm \<in> set chars \<and> Q bm pm) \<and> A \<and> B) \<and> C"
  by (auto simp: given_single assms)

lemma check_begin_aes_iff:
  assumes "List.map_filter as_Nonce params = nonce_list nonce"
  shows "check_begin_aes_params chars params nonce = Inr c \<and>
           given_authorized as_BlockMode chars params \<and> given_authorized as_Padding chars params \<longleftrightarrow>
         aes_begin_spec chars params \<and> c = params_to_check True True False False"
  unfolding check_begin_aes_params_def aes_begin_spec_def unit_bind_iff getter_bind_iffs reject_tags_iff
    reject_some_iff guard_iffs aes_mac_iff aes_nonce_check aes_padding_check
    nonce_len_given_iff [OF assms] Inr_eq
  by (rule modes_iff) auto

lemma check_begin_3des_iff:
  assumes "List.map_filter as_Nonce params = nonce_list nonce"
  shows "check_begin_3des_params params nonce = Inr c \<and>
           given_authorized as_BlockMode chars params \<and> given_authorized as_Padding chars params \<longleftrightarrow>
         des_begin_spec chars params \<and> c = params_to_check True True False False"
proof -
  have nonce: "(case nonce of None \<Rightarrow> Inr ()
      | Some nonce \<Rightarrow> if bm = BlockMode_Cbc \<and> length nonce = 8 then Inr ()
                      else km_err ErrorCode_InvalidNonce) = Inr () \<longleftrightarrow>
      nonce_len_given (if bm = BlockMode_Cbc then Some 8 else None) nonce" for bm
    by (cases nonce) (auto simp: nonce_len_given_def)
  show ?thesis
    unfolding check_begin_3des_params_def des_begin_spec_def unit_bind_iff getter_bind_iffs
      reject_tags_iff reject_some_iff guard_iffs nonce nonce_len_given_iff [OF assms] Inr_eq
    by (rule modes_iff) auto
qed

lemma check_begin_hmac_iff:
  "check_begin_hmac_params chars purpose params = Inr c \<and> given_authorized as_Digest chars params \<longleftrightarrow>
   hmac_begin_spec chars purpose params \<and> c = params_to_check False False True False"
proof -
  have mac: "res_bind (get_tag_value as_MacLength ErrorCode_MissingMacLength params) (\<lambda>mac_len.
       if mac_len mod 8 \<noteq> 0 then km_err ErrorCode_UnsupportedMacLength
       else res_bind (digest_len digest) (\<lambda>d.
         if mac_len > d then km_err ErrorCode_UnsupportedMacLength
         else res_bind (get_tag_value as_MinMacLength ErrorCode_MissingMinMacLength chars)
           (\<lambda>min_mac_len.
             if mac_len < min_mac_len then km_err ErrorCode_InvalidMacLength else Inr ()))) = Inr () \<longleftrightarrow>
      (\<exists>len. digest_len digest = Inr len \<and> mac_length_between len chars params)" for digest
    unfolding value_bind_iff guard_iffs res_bind_Inr_iff [of "digest_len digest"]
    by (auto simp: mac_length_between_def not_less del: mod_0_imp_dvd)
  show ?thesis
    unfolding check_begin_hmac_params_def hmac_begin_spec_def unit_bind_iff getter_bind_iffs
      reject_tags_iff reject_some_iff guard_iffs mac
    by (auto simp: given_single params_to_check_def)
qed

lemma check_begin_ec_iff:
  "check_begin_ec_params chars purpose params = Inr c \<and> given_authorized as_Digest chars params \<longleftrightarrow>
   ec_begin_spec chars purpose params \<and> c = params_to_check False False True False"
  unfolding check_begin_ec_params_def ec_begin_spec_def unit_bind_iff getter_bind_iffs guard_iffs
  by (auto simp: params_to_check_def)

lemma check_begin_mldsa_iff:
  "check_begin_mldsa_params purpose params = Inr c \<and> given_authorized as_Digest chars params \<longleftrightarrow>
   mldsa_begin_spec chars purpose params \<and> c = params_to_check False False True False"
  unfolding check_begin_mldsa_params_def mldsa_begin_spec_def unit_bind_iff getter_bind_iffs guard_iffs
  by (auto simp: params_to_check_def)

lemma rsa_pss_iff:
  "res_bind (get_tag_value as_KeySize ErrorCode_InvalidArgument chars) (\<lambda>size.
     res_bind (digest_len d) (\<lambda>len.
       if bits size < 2 * len + 9 then km_err ErrorCode_IncompatibleDigest else Inr ())) = Inr () \<longleftrightarrow>
   (\<exists>size len. List.map_filter as_KeySize chars = [size] \<and> digest_len d = Inr len \<and>
      2 * len + 9 \<le> bits size)"
  unfolding value_bind_iff guard_iffs res_bind_Inr_iff [of "digest_len d"]
  by (auto simp: not_less)

lemma mgf_digest_iff:
  "res_bind (get_mgf_digest params) (\<lambda>mgf. if mgf = Digest_None
       then km_err ErrorCode_UnsupportedMgfDigest else Inr ()) = Inr () \<and>
     mgf_authorized chars params \<longleftrightarrow>
   List.map_filter as_RsaOaepMgfDigest params \<noteq> [Digest_None] \<and> mgf_authorized chars params"
  by (cases "List.map_filter as_RsaOaepMgfDigest params" rule: remdups_adj.cases)
    (auto simp: get_mgf_digest_def get_opt_tag_value_def tag_scan_eq Let_def mgf_authorized_def
      given_authorized_def map_ok_def)

lemma some_digest_bind_iff:
  "res_bind (map_ok Some (get_digest ps)) f = Inr y \<longleftrightarrow>
     (\<exists>v. List.map_filter as_Digest ps = [v] \<and> f (Some v) = Inr y)"
proof -
  have "res_bind (map_ok Some r) f = res_bind r (\<lambda>v. f (Some v))" for r :: "Error + Digest"
    by (cases r) simp_all
  then show ?thesis
    by (simp add: getter_bind_iffs)
qed

lemma rsa_padding_check_iff:
  assumes "valid_purpose Algorithm_Rsa purpose"
  shows "res_bind
       (if for_signing purpose \<or> for_encryption purpose \<and> padding = PaddingMode_RsaOaep
        then map_ok Some (get_digest params) else Inr None) (\<lambda>digest.
       if for_signing purpose \<and> padding = PaddingMode_None \<and> digest \<noteq> Some Digest_None
       then km_err ErrorCode_IncompatibleDigest
       else res_bind (check_begin_rsa_padding chars purpose params padding digest) (\<lambda>_. k)) = Inr c \<and>
       mgf_authorized chars params \<longleftrightarrow>
     rsa_padding_spec chars purpose params padding \<and> mgf_authorized chars params \<and> k = Inr c"
proof -
  from assms consider "purpose = KeyPurpose_Sign" | "purpose = KeyPurpose_Decrypt"
    | "purpose = KeyPurpose_AttestKey"
    by (auto simp: valid_purpose_def)
  then show ?thesis
  proof cases
    case 1
    then show ?thesis
      by (cases padding)
        (auto simp: some_digest_bind_iff check_begin_rsa_padding_def rsa_padding_spec_def for_signing_def
          for_encryption_def unit_bind_iff rsa_pss_iff)
  next
    case 2
    then show ?thesis
      using mgf_digest_iff [of params chars]
      by (cases padding)
        (auto simp: some_digest_bind_iff check_begin_rsa_padding_def rsa_padding_spec_def for_signing_def
          for_encryption_def unit_bind_iff)
  next
    case 3
    then show ?thesis
      by (cases padding)
        (auto simp: check_begin_rsa_padding_def rsa_padding_spec_def for_signing_def for_encryption_def)
  qed
qed

lemma padding_iff:
  assumes "\<And>pm. R pm \<and> M \<longleftrightarrow> S pm \<and> M \<and> C'" "C' \<longleftrightarrow> C"
  shows "(\<exists>pm. List.map_filter as_Padding params = [pm] \<and> R pm) \<and>
       given_authorized as_Padding chars params \<and> D \<and> M \<longleftrightarrow>
     ((\<exists>pm. List.map_filter as_Padding params = [pm] \<and> KeyParam_Padding pm \<in> set chars \<and> S pm) \<and>
       D \<and> M) \<and> C"
  using assms by (auto simp: given_single)

lemma check_begin_rsa_iff:
  assumes "valid_purpose Algorithm_Rsa purpose"
  shows "check_begin_rsa_params chars purpose params = Inr c \<and>
           given_authorized as_Padding chars params \<and> given_authorized as_Digest chars params \<and>
           mgf_authorized chars params \<longleftrightarrow>
         rsa_begin_spec chars purpose params \<and> c = params_to_check False True True True"
  unfolding check_begin_rsa_params_def rsa_begin_spec_def getter_bind_iffs
  by (rule padding_iff [OF rsa_padding_check_iff [OF assms] Inr_eq])

section \<open>The decision\<close>

lemma check_begin_results:
  "check_begin_rsa_params chars purpose params = Inr c \<Longrightarrow> c = params_to_check False True True True"
  "check_begin_ec_params chars purpose params = Inr c \<Longrightarrow> c = params_to_check False False True False"
  "check_begin_mldsa_params purpose params = Inr c \<Longrightarrow> c = params_to_check False False True False"
  "check_begin_aes_params chars params nonce = Inr c \<Longrightarrow> c = params_to_check True True False False"
  "check_begin_3des_params params nonce = Inr c \<Longrightarrow> c = params_to_check True True False False"
  "check_begin_hmac_params chars purpose params = Inr c \<Longrightarrow> c = params_to_check False False True False"
  unfolding check_begin_rsa_params_def check_begin_ec_params_def check_begin_mldsa_params_def
    check_begin_aes_params_def check_begin_3des_params_def check_begin_hmac_params_def
    unit_bind_iff getter_bind_iffs Inr_eq res_bind_Inr_iff guard_iffs
  by blast+

lemma algorithm_checks_iff:
  assumes "List.map_filter as_Nonce params = nonce_list nonce" "valid_purpose algo purpose"
  shows "res_bind (check_begin_algorithm algo chars purpose params nonce) (\<lambda>check.
           res_bind (check_authorized (check_block_mode check) as_BlockMode e1 e2 chars params) (\<lambda>_.
           res_bind (check_authorized (check_padding check) as_Padding e3 e4 chars params) (\<lambda>_.
           res_bind (check_authorized (check_digest check) as_Digest e5 e6 chars params) (\<lambda>_.
             check_mgf_authorized (check_mgf_digest check) chars params)))) = Inr () \<longleftrightarrow>
         algorithm_spec algo chars purpose params"
proof -
  note iffs = check_begin_ec_iff check_begin_mldsa_iff check_begin_aes_iff [OF assms(1)]
    check_begin_3des_iff [OF assms(1)] check_begin_hmac_iff
  note rsa = check_begin_rsa_iff [of purpose]
  show ?thesis
    unfolding res_bind_Inr_iff [of "check_begin_algorithm algo chars purpose params nonce"]
      unit_bind_iff check_authorized_iff check_mgf_authorized_iff
    using assms(2)
    by (cases algo)
      (simp_all add: check_begin_algorithm_def algorithm_spec_def,
       (metis check_begin_results rsa iffs params_to_check_def BeginParamsToCheck.select_convs)+)
qed

lemma nonce_checks_iff:
  assumes "\<And>nonce. List.map_filter as_Nonce params = nonce_list nonce \<Longrightarrow> k nonce = Inr () \<longleftrightarrow> P"
  shows "res_bind (get_opt_tag_value as_Nonce ErrorCode_InvalidTag params) (\<lambda>nonce.
           res_bind (get_bool_tag_value KeyParam_CallerNonce chars) (\<lambda>caller_nonce.
             if \<not> caller_nonce \<and> nonce \<noteq> None \<and> purpose = KeyPurpose_Encrypt
             then km_err ErrorCode_CallerNonceProhibited else k nonce)) = Inr () \<longleftrightarrow>
         caller_nonce_ok chars purpose params \<and> P"
proof -
  have one: "count_list chars KeyParam_CallerNonce \<le> 1 \<longleftrightarrow>
      KeyParam_CallerNonce \<notin> set chars \<or> count_list chars KeyParam_CallerNonce = 1"
    by (auto simp: le_Suc_eq count_list_0_iff)
  have "count_list chars KeyParam_CallerNonce = 1 \<Longrightarrow> KeyParam_CallerNonce \<in> set chars"
    by (metis count_list_0_iff zero_neq_one)
  with one show ?thesis
    using assms
    by (cases "List.map_filter as_Nonce params" rule: remdups_adj.cases)
      (auto simp: opt_bind_iff bool_bind_iff caller_nonce_ok_def nonce_list_def)
qed


end
