(* ===== verification/Ta_State.thy ===== *)
theory Ta_State
  imports Ta_Begin
begin

text \<open>
  The state of the trusted application (\<^verbatim>\<open>ta/src/lib.rs\<close>): what is fixed on construction, what is
  latched at start of day, the operation table and the use counts, with the calls that set them, the
  check of a key blob against the current patch levels, the messages that are authenticated with the
  device HMAC (\<^verbatim>\<open>ta/src/clock.rs\<close>), the negotiation of that HMAC key (\<^verbatim>\<open>ta/src/secret.rs\<close>) and the
  transfer of the root of trust to a StrongBox.

  What a device provides through traits (root keys, clock, presence detection, legacy keys) and the
  COSE library enter as the fields of \<open>TaEnv\<close>.  A call that may panic has result \<open>None\<close>.
\<close>

section \<open>Messages\<close>

datatype VerifiedBootState =
  VerifiedBootState_Verified | VerifiedBootState_SelfSigned | VerifiedBootState_Unverified |
  VerifiedBootState_Failed

primrec VerifiedBootState_i32 :: "VerifiedBootState \<Rightarrow> int" where
  "VerifiedBootState_i32 VerifiedBootState_Verified = 0"
| "VerifiedBootState_i32 VerifiedBootState_SelfSigned = 1"
| "VerifiedBootState_i32 VerifiedBootState_Unverified = 2"
| "VerifiedBootState_i32 VerifiedBootState_Failed = 3"

definition VerifiedBootState_variants :: "VerifiedBootState list" where
  "VerifiedBootState_variants = [VerifiedBootState_Verified, VerifiedBootState_SelfSigned,
     VerifiedBootState_Unverified, VerifiedBootState_Failed]"

definition VerifiedBootState_n :: "int \<Rightarrow> VerifiedBootState option" where
  "VerifiedBootState_n = enum_n VerifiedBootState_i32 VerifiedBootState_variants"

record BootInfo =
  verified_boot_key :: bytes
  device_boot_locked :: bool
  verified_boot_state :: VerifiedBootState
  verified_boot_hash :: bytes
  boot_patchlevel :: u32

record RootOfTrustInfo =
  rot_verified_boot_key :: bytes
  rot_device_boot_locked :: bool
  rot_verified_boot_state :: VerifiedBootState

definition RootOfTrustInfo_to_cbor_value :: "RootOfTrustInfo \<Rightarrow> CborError + Value" where
  "RootOfTrustInfo_to_cbor_value r =
     res_bind (bytes_to_cbor_value (rot_verified_boot_key r)) (\<lambda>key.
     res_bind (bool_to_cbor_value (rot_device_boot_locked r)) (\<lambda>locked.
     res_bind (enum_to_cbor_value VerifiedBootState_i32 (rot_verified_boot_state r)) (\<lambda>state.
     Inr (Value_Array [key, locked, state]))))"

definition BootInfo_to_cbor_value :: "BootInfo \<Rightarrow> CborError + Value" where
  "BootInfo_to_cbor_value b =
     res_bind (bytes_to_cbor_value (verified_boot_key b)) (\<lambda>key.
     res_bind (bool_to_cbor_value (device_boot_locked b)) (\<lambda>locked.
     res_bind (enum_to_cbor_value VerifiedBootState_i32 (verified_boot_state b)) (\<lambda>state.
     res_bind (bytes_to_cbor_value (verified_boot_hash b)) (\<lambda>hash.
     res_bind (u32_to_cbor_value (boot_patchlevel b)) (\<lambda>patchlevel.
     Inr (Value_Array [key, locked, state, hash, patchlevel]))))))"

definition BootInfo_from_cbor_value :: "Value \<Rightarrow> CborError + BootInfo" where
  "BootInfo_from_cbor_value v = (case v of
     Value_Array a \<Rightarrow>
       if length a \<noteq> 5 then Inl (CborError_UnexpectedItem ''arr'' ''arr len 5'')
       else
         res_bind (u32_from_cbor_value (a ! 4)) (\<lambda>patchlevel.
         res_bind (bytes_from_cbor_value (a ! 3)) (\<lambda>hash.
         res_bind (enum_from_cbor_value VerifiedBootState_i32 VerifiedBootState_variants (a ! 2)) (\<lambda>state.
         res_bind (bool_from_cbor_value (a ! 1)) (\<lambda>locked.
         res_bind (bytes_from_cbor_value (a ! 0)) (\<lambda>key.
         Inr \<lparr>verified_boot_key = key, device_boot_locked = locked, verified_boot_state = state,
              verified_boot_hash = hash, boot_patchlevel = patchlevel\<rparr>)))))
   | _ \<Rightarrow> cbor_type_error v ''arr'')"

datatype HardwareAuthenticatorType =
  HardwareAuthenticatorType_None | HardwareAuthenticatorType_Password |
  HardwareAuthenticatorType_Fingerprint | HardwareAuthenticatorType_Any

primrec HardwareAuthenticatorType_i32 :: "HardwareAuthenticatorType \<Rightarrow> int" where
  "HardwareAuthenticatorType_i32 HardwareAuthenticatorType_None = 0"
| "HardwareAuthenticatorType_i32 HardwareAuthenticatorType_Password = 1"
| "HardwareAuthenticatorType_i32 HardwareAuthenticatorType_Fingerprint = 2"
| "HardwareAuthenticatorType_i32 HardwareAuthenticatorType_Any = - 1"

record TaAuthToken =
  at_challenge :: i64
  at_user_id :: i64
  at_authenticator_id :: i64
  at_authenticator_type :: HardwareAuthenticatorType
  at_timestamp :: i64
  at_mac :: bytes

record TaTimeStampToken =
  ts_challenge :: i64
  ts_timestamp :: i64
  ts_mac :: bytes

record SharedSecretParameters =
  ss_seed :: bytes
  ss_nonce :: bytes

section \<open>Operations in progress\<close>

datatype 'c CryptoOperation =
    CryptoOperation_Aes 'c
  | CryptoOperation_AesGcm 'c
  | CryptoOperation_Des 'c
  | CryptoOperation_HmacSign 'c nat
  | CryptoOperation_HmacVerify 'c nat nat
  | CryptoOperation_RsaDecrypt 'c
  | CryptoOperation_RsaSign 'c
  | CryptoOperation_EcAgree 'c
  | CryptoOperation_EcSign 'c
  | CryptoOperation_MlDsaSign 'c

record TaAuthInfo =
  ai_secure_ids :: "u64 list"
  ai_auth_type :: u32
  ai_timeout_secs :: "u32 option"

record 'c TaOperation =
  to_handle :: i64
  to_aad_allowed :: bool
  to_slot_to_delete :: "SecureDeletionSlot option"
  to_trusted_conf_data :: "bytes option"
  to_auth_info :: "TaAuthInfo option"
  to_crypto_op :: "'c CryptoOperation"
  to_input_size :: nat

section \<open>The state\<close>

datatype KeyMintHalVersion = HalV1 | HalV2 | HalV3 | HalV4 | HalV5

primrec KeyMintHalVersion_i32 :: "KeyMintHalVersion \<Rightarrow> int" where
  "KeyMintHalVersion_i32 HalV5 = 500"
| "KeyMintHalVersion_i32 HalV4 = 400"
| "KeyMintHalVersion_i32 HalV3 = 300"
| "KeyMintHalVersion_i32 HalV2 = 200"
| "KeyMintHalVersion_i32 HalV1 = 100"

definition KEYMINT_CURRENT_VERSION :: KeyMintHalVersion where
  "KEYMINT_CURRENT_VERSION = HalV5"

definition MAX_KEYMASTER_TEE_OPERATIONS :: nat where
  "MAX_KEYMASTER_TEE_OPERATIONS = 16"

definition MAX_KEYMINT_TEE_OPERATIONS :: nat where
  "MAX_KEYMINT_TEE_OPERATIONS = 32"

definition MAX_STRONGBOX_OPERATIONS :: nat where
  "MAX_STRONGBOX_OPERATIONS = 4"

definition MAX_USE_COUNTED_KEYS :: nat where
  "MAX_USE_COUNTED_KEYS = 32"

definition ALLOWED_ADDITIONAL_ATTESTATION_TAGS :: "Tag list" where
  "ALLOWED_ADDITIONAL_ATTESTATION_TAGS = [Tag_ModuleHash]"

record UseCount =
  uc_key_id :: bytes
  uc_count :: u64

record HardwareInfo =
  hi_security_level :: SecurityLevel
  hi_version_number :: int
  hi_impl_name :: string
  hi_author_name :: string
  hi_unique_id :: string

record HalInfo =
  hal_os_version :: u32
  hal_os_patchlevel :: u32
  hal_vendor_patchlevel :: u32

record RequestPatchLevels =
  rp_os_patchlevel :: u32
  rp_vendor_patchlevel :: u32
  rp_boot_patchlevel :: u32

text \<open>A device HMAC: the one that holds the agreed key in memory, or a hardware one.\<close>

datatype 'd DeviceHmac = SoftDeviceHmac Hmac_Key | HardwareDeviceHmac 'd

text \<open>
  \<open>ta_rng\<close> and \<open>ta_sdd_mgr\<close> are the mutable parts of \<open>imp\<close> and \<open>dev\<close>.  The caches of attestation
  chains, attestation ids and DICE data belong to certificate generation and are left out.
\<close>

record ('c, 'r, 's, 'd) KeyMintTa =
  ta_hw_info :: HardwareInfo
  ta_aidl_version :: KeyMintHalVersion
  ta_allowed_aidl_versions :: "KeyMintHalVersion list"
  ta_shared_secret_params :: "SharedSecretParameters option"
  ta_boot_info :: "BootInfo option"
  ta_rot_data :: "bytes option"
  ta_hal_info :: "HalInfo option"
  ta_additional_attestation_info :: "KeyParam list"
  ta_in_early_boot :: bool
  ta_device_hmac :: "'d DeviceHmac option"
  ta_rot_challenge :: bytes
  ta_operations :: "'c TaOperation option list"
  ta_use_count :: "UseCount option list"
  ta_presence_required_op :: "i64 option"
  ta_rng :: 'r
  ta_sdd_mgr :: "'s option"

record CoseMac0 =
  m0_protected :: bytes
  m0_payload :: "bytes option"
  m0_tag :: bytes

text \<open>
  The device and the libraries.  \<open>te_clock\<close> is the reading of the device's clock during the call, if
  it has one; \<open>te_to_tagged_vec\<close> and \<open>te_from_tagged_slice\<close> write and read a CBOR item under a tag.
\<close>

record ('c, 'r, 's, 'd) TaEnv =
  te_kb :: "'c KbEnv"
  te_rng :: "'r Rng"
  te_mgr :: "('s, 'r) SecretManager"
  te_memcmp_eq :: "bytes \<Rightarrow> bytes \<Rightarrow> bool"
  te_sha256 :: "bytes \<Rightarrow> Error + bytes"
  te_root_kek :: "bytes \<Rightarrow> Error + Hmac_Key OpaqueOr"
  te_kek_context_is_outdated :: "bytes \<Rightarrow> Error + bool"
  te_kak :: "Error + Aes_Key OpaqueOr"
  te_hmac_key_agreed :: "Hmac_Key \<Rightarrow> 'd option"
  te_hardware_hmac :: "'d \<Rightarrow> bytes \<Rightarrow> Error + bytes"
  te_hardware_hmac_key :: "'d \<Rightarrow> Hmac_Key option"
  te_clock :: "i64 option"
  te_bootloader_done :: bool
  te_tup_available :: bool
  te_is_legacy_key :: "(bytes \<Rightarrow> KeyParam list \<Rightarrow> BootInfo \<Rightarrow> bool) option"
  te_to_tagged_vec :: "u64 \<Rightarrow> Value \<Rightarrow> CborError + bytes"
  te_from_tagged_slice :: "u64 \<Rightarrow> bytes \<Rightarrow> CborError + Value"
  te_mac0_header :: bytes
  te_mac_structure_data :: "bytes \<Rightarrow> bytes \<Rightarrow> bytes \<Rightarrow> bytes"
  te_mac0_to_tagged_vec :: "CoseMac0 \<Rightarrow> CborError + bytes"
  te_mac0_from_tagged_slice :: "bytes \<Rightarrow> CborError + CoseMac0"

definition max_operations :: "HardwareInfo \<Rightarrow> nat" where
  "max_operations hw_info =
     (if hi_security_level hw_info = SecurityLevel_Strongbox then MAX_STRONGBOX_OPERATIONS
      else if hi_version_number hw_info \<ge> KeyMintHalVersion_i32 HalV1 then MAX_KEYMINT_TEE_OPERATIONS
      else MAX_KEYMASTER_TEE_OPERATIONS)"

definition new_allowing_versions ::
    "HardwareInfo \<Rightarrow> 'r \<Rightarrow> 's option \<Rightarrow> KeyMintHalVersion list \<Rightarrow> ('c, 'r, 's, 'd) KeyMintTa" where
  "new_allowing_versions hw_info rng sdd_mgr allowed_aidl_versions =
     \<lparr>ta_hw_info = hw_info,
      ta_aidl_version = KEYMINT_CURRENT_VERSION,
      ta_allowed_aidl_versions = allowed_aidl_versions,
      ta_shared_secret_params = None,
      ta_boot_info = None,
      ta_rot_data = None,
      ta_hal_info = None,
      ta_additional_attestation_info = [],
      ta_in_early_boot = True,
      ta_device_hmac = None,
      ta_rot_challenge = replicate 16 0,
      ta_operations = replicate (max_operations hw_info) None,
      ta_use_count = replicate MAX_USE_COUNTED_KEYS None,
      ta_presence_required_op = None,
      ta_rng = rng,
      ta_sdd_mgr = sdd_mgr\<rparr>"

section \<open>Calls that set the state\<close>

definition is_strongbox :: "('c, 'r, 's, 'd) KeyMintTa \<Rightarrow> bool" where
  "is_strongbox ta = (hi_security_level (ta_hw_info ta) = SecurityLevel_Strongbox)"

definition secure_storage_available :: "('c, 'r, 's, 'd) KeyMintTa \<Rightarrow> SecureStorage" where
  "secure_storage_available ta =
     (if ta_sdd_mgr ta \<noteq> None then SecureStorage_Available else SecureStorage_Unavailable)"

definition get_boot_info :: "('c, 'r, 's, 'd) KeyMintTa \<Rightarrow> Error + BootInfo" where
  "get_boot_info ta = ok_or (Error_Hal ErrorCode_HardwareNotYetAvailable) (ta_boot_info ta)"

definition boot_info_hashed_key ::
    "('c, 'r, 's, 'd) TaEnv \<Rightarrow> ('c, 'r, 's, 'd) KeyMintTa \<Rightarrow> Error + BootInfo" where
  "boot_info_hashed_key E ta =
     res_bind (get_boot_info ta) (\<lambda>boot_info.
       if verified_boot_key boot_info = [] then
         Inr (boot_info\<lparr>verified_boot_key := replicate 32 0\<rparr>)
       else if length (verified_boot_key boot_info) > 32 then
         res_bind (te_sha256 E (verified_boot_key boot_info)) (\<lambda>h.
         Inr (boot_info\<lparr>verified_boot_key := h\<rparr>))
       else Inr boot_info)"

text \<open>The boot information is stored before its encoding can fail.\<close>

definition set_boot_info ::
    "('c, 'r, 's, 'd) TaEnv \<Rightarrow> BootInfo \<Rightarrow> ('c, 'r, 's, 'd) KeyMintTa
     \<Rightarrow> ('c, 'r, 's, 'd) KeyMintTa \<times> (Error + unit)" where
  "set_boot_info E boot_info ta =
     (if \<not> ta_in_early_boot ta then (ta, km_err ErrorCode_EarlyBootEnded)
      else case ta_boot_info ta of
        Some existing_boot_info \<Rightarrow>
          (ta, if existing_boot_info = boot_info then Inr ()
               else km_err ErrorCode_RootOfTrustAlreadySet)
      | None \<Rightarrow>
          let rot_info = \<lparr>rot_verified_boot_key = verified_boot_key boot_info,
                          rot_device_boot_locked = device_boot_locked boot_info,
                          rot_verified_boot_state = verified_boot_state boot_info\<rparr>;
              ta = ta\<lparr>ta_boot_info := Some boot_info\<rparr>
          in case into_vec (te_kb E) RootOfTrustInfo_to_cbor_value rot_info of
               Inl _ \<Rightarrow> (ta, km_err ErrorCode_EncodingError)
             | Inr data \<Rightarrow> (ta\<lparr>ta_rot_data := Some data\<rparr>, Inr ()))"

definition set_hal_info ::
    "HalInfo \<Rightarrow> ('c, 'r, 's, 'd) KeyMintTa \<Rightarrow> ('c, 'r, 's, 'd) KeyMintTa" where
  "set_hal_info hal_info ta =
     (if ta_hal_info ta = None then ta\<lparr>ta_hal_info := Some hal_info\<rparr> else ta)"

definition patchlevels_are_set :: "('c, 'r, 's, 'd) KeyMintTa \<Rightarrow> bool" where
  "patchlevels_are_set ta = (ta_hal_info ta \<noteq> None \<and> ta_boot_info ta \<noteq> None)"

definition update_patchlevels ::
    "u32 \<Rightarrow> u32 \<Rightarrow> u32 \<Rightarrow> ('c, 'r, 's, 'd) KeyMintTa \<Rightarrow> ('c, 'r, 's, 'd) KeyMintTa \<times> (Error + unit)" where
  "update_patchlevels os_patchlevel vendor_patchlevel new_boot_patchlevel ta =
     (case ta_hal_info ta of
        None \<Rightarrow> (ta, km_err ErrorCode_HardwareNotYetAvailable)
      | Some hal_info \<Rightarrow>
          (case ta_boot_info ta of
             None \<Rightarrow> (ta, km_err ErrorCode_HardwareNotYetAvailable)
           | Some boot_info \<Rightarrow>
               (ta\<lparr>ta_hal_info := Some (hal_info\<lparr>hal_os_patchlevel := os_patchlevel,
                                              hal_vendor_patchlevel := vendor_patchlevel\<rparr>),
                   ta_boot_info := Some (boot_info\<lparr>boot_patchlevel := new_boot_patchlevel\<rparr>)\<rparr>,
                Inr ())))"

text \<open>The \<open>downgrade\<close> feature of the crate is a parameter.\<close>

definition set_hal_version ::
    "bool \<Rightarrow> u32 \<Rightarrow> ('c, 'r, 's, 'd) KeyMintTa \<Rightarrow> ('c, 'r, 's, 'd) KeyMintTa \<times> (Error + unit)" where
  "set_hal_version downgrade aidl_version ta =
     (case (if aidl_version = 100 then Some HalV1
            else if aidl_version = 200 then Some HalV2
            else if aidl_version = 300 then Some HalV3
            else if aidl_version = 400 then Some HalV4
            else if aidl_version = 500 then Some HalV5
            else None) of
        None \<Rightarrow> (ta, km_err ErrorCode_InvalidArgument)
      | Some aidl_version \<Rightarrow>
          if aidl_version = ta_aidl_version ta then (ta, Inr ())
          else if aidl_version \<in> set (ta_allowed_aidl_versions ta) then
            (ta\<lparr>ta_aidl_version := aidl_version\<rparr>, Inr ())
          else if downgrade then (ta\<lparr>ta_aidl_version := aidl_version\<rparr>, Inr ())
          else (ta, Inr ()))"

definition early_boot_ended ::
    "('c, 'r, 's, 'd) KeyMintTa \<Rightarrow> ('c, 'r, 's, 'd) KeyMintTa \<times> (Error + unit)" where
  "early_boot_ended ta = (ta\<lparr>ta_in_early_boot := False\<rparr>, Inr ())"

definition add_rng_entropy ::
    "('c, 'r, 's, 'd) TaEnv \<Rightarrow> bytes \<Rightarrow> ('c, 'r, 's, 'd) KeyMintTa
     \<Rightarrow> ('c, 'r, 's, 'd) KeyMintTa \<times> (Error + unit)" where
  "add_rng_entropy E data ta =
     (if length data > 2048 then (ta, km_err ErrorCode_InvalidInputLength)
      else (ta\<lparr>ta_rng := rng_add_entropy (te_rng E) data (ta_rng ta)\<rparr>, Inr ()))"

definition set_additional_attestation_info_err :: "Tag \<Rightarrow> Error" where
  "set_additional_attestation_info_err tag =
     (if tag = Tag_ModuleHash then Error_Hal ErrorCode_ModuleHashAlreadySet
      else Error_Hal ErrorCode_InvalidTag)"

fun set_additional_attestation_info ::
    "KeyParam list \<Rightarrow> ('c, 'r, 's, 'd) KeyMintTa \<Rightarrow> ('c, 'r, 's, 'd) KeyMintTa \<times> (Error + unit)" where
  "set_additional_attestation_info [] ta = (ta, Inr ())"
| "set_additional_attestation_info (param # params) ta =
     (let tag = KeyParam_tag param in
      if tag \<notin> set ALLOWED_ADDITIONAL_ATTESTATION_TAGS then set_additional_attestation_info params ta
      else case List.find (\<lambda>x. KeyParam_tag x = tag) (ta_additional_attestation_info ta) of
        Some val \<Rightarrow>
          if val = param then set_additional_attestation_info params ta
          else (ta, Inl (set_additional_attestation_info_err tag))
      | None \<Rightarrow>
          set_additional_attestation_info params
            (ta\<lparr>ta_additional_attestation_info := ta_additional_attestation_info ta @ [param]\<rparr>))"

end
