(* ===== verification/Ta_Secrets.thy ===== *)
theory Ta_Secrets
  imports Ta_State
begin

text \<open>
  The device HMAC of the trusted application: what is authenticated with it (auth tokens, timestamps,
  confirmations, the root of trust; \<^verbatim>\<open>ta/src/lib.rs\<close>, \<^verbatim>\<open>ta/src/clock.rs\<close>), the negotiation of its key
  (\<^verbatim>\<open>ta/src/secret.rs\<close>) and the transfer of the root of trust from the TEE to a StrongBox.
\<close>

section \<open>The device HMAC\<close>

definition str_bytes :: "string \<Rightarrow> bytes" where
  "str_bytes s = map of_char s"

definition BoringEq_eq :: "('c, 'r, 's, 'd) TaEnv \<Rightarrow> bytes \<Rightarrow> bytes \<Rightarrow> bool" where
  "BoringEq_eq E left right = (if length left \<noteq> length right then False else te_memcmp_eq E left right)"

definition SoftDeviceHmac_hmac :: "'c Crypto \<Rightarrow> Hmac_Key \<Rightarrow> bytes \<Rightarrow> Error + bytes" where
  "SoftDeviceHmac_hmac C key data =
     res_bind (hmac_begin C (OpaqueOr_Explicit key) Digest_Sha256) (\<lambda>op.
     res_bind (acc_updates C op [data]) (acc_finish C))"

definition device_hmac ::
    "('c, 'r, 's, 'd) TaEnv \<Rightarrow> ('c, 'r, 's, 'd) KeyMintTa \<Rightarrow> bytes \<Rightarrow> Error + bytes" where
  "device_hmac E ta data = (case ta_device_hmac ta of
     Some (SoftDeviceHmac key) \<Rightarrow> SoftDeviceHmac_hmac (kb_crypto (te_kb E)) key data
   | Some (HardwareDeviceHmac d) \<Rightarrow> te_hardware_hmac E d data
   | None \<Rightarrow> km_err ErrorCode_HardwareNotYetAvailable)"

definition verify_device_hmac ::
    "('c, 'r, 's, 'd) TaEnv \<Rightarrow> ('c, 'r, 's, 'd) KeyMintTa \<Rightarrow> bytes \<Rightarrow> bytes \<Rightarrow> Error + bool" where
  "verify_device_hmac E ta data mac =
     res_bind (device_hmac E ta data) (\<lambda>remac. Inr (BoringEq_eq E mac remac))"

definition get_hmac_key ::
    "('c, 'r, 's, 'd) TaEnv \<Rightarrow> ('c, 'r, 's, 'd) KeyMintTa \<Rightarrow> Hmac_Key option" where
  "get_hmac_key E ta = (case ta_device_hmac ta of
     Some (SoftDeviceHmac key) \<Rightarrow> Some key
   | Some (HardwareDeviceHmac d) \<Rightarrow> te_hardware_hmac_key E d
   | None \<Rightarrow> None)"

definition set_device_hmac ::
    "'d DeviceHmac \<Rightarrow> ('c, 'r, 's, 'd) KeyMintTa \<Rightarrow> ('c, 'r, 's, 'd) KeyMintTa" where
  "set_device_hmac h ta = ta\<lparr>ta_device_hmac := Some h\<rparr>"

definition set_device_hmac_key ::
    "bytes \<Rightarrow> ('c, 'r, 's, 'd) KeyMintTa \<Rightarrow> ('c, 'r, 's, 'd) KeyMintTa \<times> (Error + unit)" where
  "set_device_hmac_key key ta =
     (if length key \<noteq> SHA256_DIGEST_LEN then (ta, km_err ErrorCode_InvalidArgument)
      else (set_device_hmac (SoftDeviceHmac (Hmac_Key key)) ta, Inr ()))"

section \<open>What is authenticated\<close>

definition hardware_auth_token_mac_input :: "TaAuthToken \<Rightarrow> bytes" where
  "hardware_auth_token_mac_input token =
     [0] @ u64_to_ne_bytes (at_challenge token) @ u64_to_ne_bytes (at_user_id token)
     @ u64_to_ne_bytes (at_authenticator_id token)
     @ u32_to_be_bytes (of_int (HardwareAuthenticatorType_i32 (at_authenticator_type token)))
     @ u64_to_be_bytes (at_timestamp token)"

definition TIME_STAMP_MAC_LABEL :: bytes where
  "TIME_STAMP_MAC_LABEL = str_bytes ''Auth Verification''"

definition timestamp_token_mac_input :: "TaTimeStampToken \<Rightarrow> bytes" where
  "timestamp_token_mac_input token =
     TIME_STAMP_MAC_LABEL @ u64_to_be_bytes (ts_challenge token)
     @ u64_to_be_bytes (ts_timestamp token) @ u32_to_be_bytes 1"

definition generate_timestamp ::
    "('c, 'r, 's, 'd) TaEnv \<Rightarrow> ('c, 'r, 's, 'd) KeyMintTa \<Rightarrow> i64 \<Rightarrow> Error + TaTimeStampToken" where
  "generate_timestamp E ta challenge = (case te_clock E of
     Some now \<Rightarrow>
       let ret = \<lparr>ts_challenge = challenge, ts_timestamp = now, ts_mac = []\<rparr> in
       res_bind (device_hmac E ta (timestamp_token_mac_input ret)) (\<lambda>mac. Inr (ret\<lparr>ts_mac := mac\<rparr>))
   | None \<Rightarrow> km_err ErrorCode_Unimplemented)"

definition CONFIRMATION_TOKEN_SIZE :: nat where
  "CONFIRMATION_TOKEN_SIZE = 32"

definition CONFIRMATION_DATA_PREFIX :: bytes where
  "CONFIRMATION_DATA_PREFIX = str_bytes ''confirmation token''"

definition CONFIRMATION_MESSAGE_MAX_LEN :: nat where
  "CONFIRMATION_MESSAGE_MAX_LEN = 6144"

definition verify_confirmation_token ::
    "('c, 'r, 's, 'd) TaEnv \<Rightarrow> ('c, 'r, 's, 'd) KeyMintTa \<Rightarrow> bytes \<Rightarrow> bytes option \<Rightarrow> Error + unit" where
  "verify_confirmation_token E ta data token = (case token of
     Some token \<Rightarrow>
       if length token \<noteq> CONFIRMATION_TOKEN_SIZE then km_err ErrorCode_InvalidArgument
       else res_bind (map_err (\<lambda>_. Error_Hal ErrorCode_VerificationFailed)
                        (verify_device_hmac E ta data token)) (\<lambda>ok.
              if ok then Inr () else km_err ErrorCode_NoUserConfirmation)
   | None \<Rightarrow> km_err ErrorCode_NoUserConfirmation)"

section \<open>Negotiation of the key\<close>

definition KEY_AGREEMENT_LABEL :: bytes where
  "KEY_AGREEMENT_LABEL = str_bytes ''KeymasterSharedMac''"

definition KEY_CHECK_LABEL :: bytes where
  "KEY_CHECK_LABEL = str_bytes ''Keymaster HMAC Verification''"

definition set_shared_secret_params ::
    "SharedSecretParameters \<Rightarrow> ('c, 'r, 's, 'd) KeyMintTa \<Rightarrow> ('c, 'r, 's, 'd) KeyMintTa \<times> (Error + unit)" where
  "set_shared_secret_params params ta =
     (if length (ss_nonce params) \<noteq> 32 then (ta, km_err ErrorCode_InvalidArgument)
      else (ta\<lparr>ta_shared_secret_params := Some params\<rparr>, Inr ()))"

definition get_shared_secret_params ::
    "('c, 'r, 's, 'd) TaEnv \<Rightarrow> ('c, 'r, 's, 'd) KeyMintTa
     \<Rightarrow> ('c, 'r, 's, 'd) KeyMintTa \<times> (Error + SharedSecretParameters)" where
  "get_shared_secret_params E ta = (case ta_shared_secret_params ta of
     Some params \<Rightarrow> (ta, Inr params)
   | None \<Rightarrow>
       (case fill_bytes (te_rng E) 32 (ta_rng ta) of (nonce, rng) \<Rightarrow>
         let params = \<lparr>ss_seed = [], ss_nonce = nonce\<rparr> in
         (ta\<lparr>ta_rng := rng, ta_shared_secret_params := Some params\<rparr>, Inr params)))"

definition shared_secret_step ::
    "SharedSecretParameters \<Rightarrow> bytes \<times> bool \<Rightarrow> SharedSecretParameters \<Rightarrow> Error + (bytes \<times> bool)" where
  "shared_secret_step must_include = (\<lambda>(result, seen) param.
     if length (ss_nonce param) \<noteq> 32 then km_err ErrorCode_InvalidArgument
     else Inr (result @ ss_seed param @ ss_nonce param, seen \<or> param = must_include))"

definition shared_secret_context ::
    "SharedSecretParameters list \<Rightarrow> SharedSecretParameters \<Rightarrow> Error + bytes" where
  "shared_secret_context params must_include =
     res_bind (res_fold (shared_secret_step must_include) ([], False) params) (\<lambda>(result, seen).
       if \<not> seen then km_err ErrorCode_InvalidArgument else Inr result)"

definition agreed_key ::
    "('c, 'r, 's, 'd) TaEnv \<Rightarrow> SharedSecretParameters list \<Rightarrow> SharedSecretParameters \<Rightarrow> Error + Hmac_Key" where
  "agreed_key E params local_params =
     res_bind (shared_secret_context params local_params) (\<lambda>ctx.
     res_bind (te_kak E) (\<lambda>kak.
     res_bind (ckdf (kb_crypto (te_kb E)) kak KEY_AGREEMENT_LABEL [ctx] SHA256_DIGEST_LEN) (\<lambda>key.
     Inr (Hmac_Key key))))"

definition compute_shared_secret ::
    "('c, 'r, 's, 'd) TaEnv \<Rightarrow> SharedSecretParameters list \<Rightarrow> ('c, 'r, 's, 'd) KeyMintTa
     \<Rightarrow> ('c, 'r, 's, 'd) KeyMintTa \<times> (Error + bytes)" where
  "compute_shared_secret E params ta = (case ta_shared_secret_params ta of
     None \<Rightarrow> (ta, km_err ErrorCode_HardwareNotYetAvailable)
   | Some local_params \<Rightarrow>
       (case agreed_key E params local_params of
          Inl e \<Rightarrow> (ta, Inl e)
        | Inr key \<Rightarrow>
            let h = (case te_hmac_key_agreed E key of
                       Some d \<Rightarrow> HardwareDeviceHmac d | None \<Rightarrow> SoftDeviceHmac key);
                ta = set_device_hmac h ta
            in (ta, device_hmac E ta KEY_CHECK_LABEL)))"

section \<open>Transfer of the root of trust\<close>

definition BootInfo_TAG :: u64 where
  "BootInfo_TAG = 40001"

definition root_of_trust :: "('c, 'r, 's, 'd) KeyMintTa \<Rightarrow> Error + bytes" where
  "root_of_trust ta = ok_or (Error_Hal ErrorCode_HardwareNotYetAvailable) (ta_rot_data ta)"

definition get_root_of_trust_challenge ::
    "('c, 'r, 's, 'd) TaEnv \<Rightarrow> ('c, 'r, 's, 'd) KeyMintTa
     \<Rightarrow> ('c, 'r, 's, 'd) KeyMintTa \<times> (Error + bytes)" where
  "get_root_of_trust_challenge E ta =
     (if \<not> is_strongbox ta then (ta, km_err ErrorCode_Unimplemented)
      else case fill_bytes (te_rng E) 16 (ta_rng ta) of (challenge, rng) \<Rightarrow>
        (ta\<lparr>ta_rng := rng, ta_rot_challenge := challenge\<rparr>, Inr challenge))"

definition get_root_of_trust ::
    "('c, 'r, 's, 'd) TaEnv \<Rightarrow> ('c, 'r, 's, 'd) KeyMintTa \<Rightarrow> bytes \<Rightarrow> Error + bytes" where
  "get_root_of_trust E ta challenge =
     (if is_strongbox ta then km_err ErrorCode_Unimplemented
      else
        res_bind (boot_info_hashed_key E ta) (\<lambda>boot_info.
        res_bind (map_err (\<lambda>_. Error_Hal ErrorCode_EncodingError)
          (res_bind (BootInfo_to_cbor_value boot_info) (te_to_tagged_vec E BootInfo_TAG))) (\<lambda>payload.
        res_bind (device_hmac E ta (te_mac_structure_data E (te_mac0_header E) challenge payload)) (\<lambda>tag.
        map_err (\<lambda>_. Error_Hal ErrorCode_EncodingError)
          (te_mac0_to_tagged_vec E
             \<lparr>m0_protected = te_mac0_header E, m0_payload = Some payload, m0_tag = tag\<rparr>)))))"

text \<open>The message a StrongBox accepts, and the boot information in it.\<close>

definition verify_root_of_trust ::
    "('c, 'r, 's, 'd) TaEnv \<Rightarrow> ('c, 'r, 's, 'd) KeyMintTa \<Rightarrow> bytes \<Rightarrow> Error + BootInfo" where
  "verify_root_of_trust E ta rot_msg =
     res_bind (map_err (\<lambda>_. Error_Hal ErrorCode_InvalidArgument)
       (te_mac0_from_tagged_slice E rot_msg)) (\<lambda>mac0.
       case m0_payload mac0 of
         None \<Rightarrow> km_err ErrorCode_InvalidArgument
       | Some payload \<Rightarrow>
           res_bind (verify_device_hmac E ta
               (te_mac_structure_data E (m0_protected mac0) (ta_rot_challenge ta) payload)
               (m0_tag mac0)) (\<lambda>ok.
             if \<not> ok then km_err ErrorCode_VerificationFailed
             else map_err (\<lambda>_. Error_Hal ErrorCode_InvalidArgument)
               (res_bind (te_from_tagged_slice E BootInfo_TAG payload) BootInfo_from_cbor_value)))"

definition send_root_of_trust ::
    "('c, 'r, 's, 'd) TaEnv \<Rightarrow> bytes \<Rightarrow> ('c, 'r, 's, 'd) KeyMintTa
     \<Rightarrow> ('c, 'r, 's, 'd) KeyMintTa \<times> (Error + unit)" where
  "send_root_of_trust E rot_msg ta =
     (if \<not> is_strongbox ta then (ta, km_err ErrorCode_Unimplemented)
      else case verify_root_of_trust E ta rot_msg of
        Inl e \<Rightarrow> (ta, Inl e)
      | Inr boot_info \<Rightarrow>
          if ta_boot_info ta = None then (ta\<lparr>ta_boot_info := Some boot_info\<rparr>, Inr ())
          else (ta, Inr ()))"

section \<open>The device HMAC separates what it authenticates\<close>

lemma authenticator_type_inject:
  "(of_int (HardwareAuthenticatorType_i32 a) :: u32) = of_int (HardwareAuthenticatorType_i32 b) \<longleftrightarrow> a = b"
  by (cases a; cases b) simp_all

lemma mac_labels:
  "TIME_STAMP_MAC_LABEL = 65 # tl TIME_STAMP_MAC_LABEL"
  "CONFIRMATION_DATA_PREFIX = 99 # tl CONFIRMATION_DATA_PREFIX"
  "KEY_CHECK_LABEL = 75 # tl KEY_CHECK_LABEL"
  by (simp_all add: TIME_STAMP_MAC_LABEL_def CONFIRMATION_DATA_PREFIX_def KEY_CHECK_LABEL_def
      str_bytes_def)

lemma mac_inputs_heads:
  "hardware_auth_token_mac_input t = 0 # tl (hardware_auth_token_mac_input t)"
  "timestamp_token_mac_input s = 65 # tl (timestamp_token_mac_input s)"
  "CONFIRMATION_DATA_PREFIX @ d = 99 # tl (CONFIRMATION_DATA_PREFIX @ d)"
  using mac_labels
  by (simp_all add: hardware_auth_token_mac_input_def timestamp_token_mac_input_def,
      (metis append_Cons list.sel(3))+)

text \<open>
  C28: Everything is authenticated with the one device HMAC key, so a MAC made for one purpose must
  not be valid for another.  The MAC input of an auth token determines every field of the token, that
  of a timestamp every field of the timestamp, and the inputs of auth tokens, timestamps, confirmations
  and the key check are never equal to each other.
\<close>

theorem mac_inputs_separated:
  "(hardware_auth_token_mac_input t = hardware_auth_token_mac_input t' \<longleftrightarrow>
      t\<lparr>at_mac := []\<rparr> = t'\<lparr>at_mac := []\<rparr>) \<and>
   (timestamp_token_mac_input s = timestamp_token_mac_input s' \<longleftrightarrow>
      s\<lparr>ts_mac := []\<rparr> = s'\<lparr>ts_mac := []\<rparr>) \<and>
   distinct [hardware_auth_token_mac_input t, timestamp_token_mac_input s,
             CONFIRMATION_DATA_PREFIX @ d, KEY_CHECK_LABEL]"
proof (intro conjI)
  show "hardware_auth_token_mac_input t = hardware_auth_token_mac_input t' \<longleftrightarrow>
      t\<lparr>at_mac := []\<rparr> = t'\<lparr>at_mac := []\<rparr>"
    by (cases t; cases t')
      (auto simp: hardware_auth_token_mac_input_def authenticator_type_inject)
  show "timestamp_token_mac_input s = timestamp_token_mac_input s' \<longleftrightarrow>
      s\<lparr>ts_mac := []\<rparr> = s'\<lparr>ts_mac := []\<rparr>"
    by (cases s; cases s') (auto simp: timestamp_token_mac_input_def)
  show "distinct [hardware_auth_token_mac_input t, timestamp_token_mac_input s,
             CONFIRMATION_DATA_PREFIX @ d, KEY_CHECK_LABEL]"
    by (subst mac_inputs_heads(1), subst mac_inputs_heads(2), subst mac_inputs_heads(3),
        subst mac_labels(3)) simp
qed

section \<open>Agreement on the key\<close>

lemma shared_secret_fold_iff:
  "res_fold (shared_secret_step l) (r, b) params = Inr (r', b') \<longleftrightarrow>
     list_all (\<lambda>p. length (ss_nonce p) = 32) params \<and>
     r' = r @ concat (map (\<lambda>p. ss_seed p @ ss_nonce p) params) \<and> b' = (b \<or> l \<in> set params)"
  by (induction params arbitrary: r b) (auto simp: shared_secret_step_def)

lemma shared_secret_context_iff:
  "shared_secret_context params l = Inr ctx \<longleftrightarrow>
     list_all (\<lambda>p. length (ss_nonce p) = 32) params \<and> l \<in> set params \<and>
     ctx = concat (map (\<lambda>p. ss_seed p @ ss_nonce p) params)"
  by (auto simp: shared_secret_context_def res_bind_Inr_iff shared_secret_fold_iff split: if_splits)

lemma compute_shared_secret_ok:
  assumes "compute_shared_secret E params ta = (ta', Inr check)"
  obtains l key where "ta_shared_secret_params ta = Some l" "l \<in> set params"
    "agreed_key E params l = Inr key"
    "ta' = ta\<lparr>ta_device_hmac := Some (case te_hmac_key_agreed E key of
               Some d \<Rightarrow> HardwareDeviceHmac d | None \<Rightarrow> SoftDeviceHmac key)\<rparr>"
    "device_hmac E ta' KEY_CHECK_LABEL = Inr check"
  using assms
  by (auto simp: compute_shared_secret_def Let_def set_device_hmac_def agreed_key_def
      res_bind_Inr_iff shared_secret_context_iff split: option.splits sum.splits)

lemma agreed_key_same:
  "agreed_key E params l = Inr k \<Longrightarrow> agreed_key E params l' = Inr k' \<Longrightarrow> k = k'"
  by (auto simp: agreed_key_def res_bind_Inr_iff shared_secret_context_iff)

lemma device_hmac_cong:
  "ta_device_hmac ta = ta_device_hmac ta' \<Longrightarrow> device_hmac E ta = device_hmac E ta'"
  by (simp add: device_hmac_def fun_eq_iff)

lemma failed_negotiation:
  assumes "\<not> (list_all (\<lambda>p. length (ss_nonce p) = 32) params \<and>
               ta_shared_secret_params ta \<in> Some ` set params)"
  shows "\<exists>e. compute_shared_secret E params ta = (ta, Inl e)"
  using assms
  by (cases "ta_shared_secret_params ta"; cases "agreed_key E params (the (ta_shared_secret_params ta))")
    (auto simp: compute_shared_secret_def agreed_key_def res_bind_Inr_iff shared_secret_context_iff)

lemma verify_own_hmac:
  assumes "\<And>a b. te_memcmp_eq E a b \<longleftrightarrow> a = b"
    and "device_hmac E ta data = Inr mac" "device_hmac E ta' = device_hmac E ta"
  shows "verify_device_hmac E ta' data mac = Inr True"
  using assms by (simp add: verify_device_hmac_def BoringEq_eq_def)

lemma verify_device_hmac_iff:
  assumes "\<And>a b. te_memcmp_eq E a b \<longleftrightarrow> a = b"
  shows "verify_device_hmac E ta data mac = Inr True \<longleftrightarrow> device_hmac E ta data = Inr mac"
  using assms by (auto simp: verify_device_hmac_def BoringEq_eq_def res_bind_Inr_iff)

text \<open>
  C24: Two parties that negotiate with the same list of parameters compute the same check value and
  from then on the same device HMAC, so a timestamp one of them generates carries the challenge asked
  for and is verified by the other.  A negotiation fails without changing the state when a nonce does
  not have 32 bytes or the party's own parameters are not in the list.
\<close>

theorem shared_secret_agreement:
  assumes memcmp: "\<And>a b. te_memcmp_eq E a b \<longleftrightarrow> a = b"
    and first: "compute_shared_secret E params ta1 = (ta1', Inr check1)"
    and second: "compute_shared_secret E params ta2 = (ta2', Inr check2)"
  shows "check1 = check2 \<and> device_hmac E ta1' = device_hmac E ta2' \<and>
         (case generate_timestamp E ta1' challenge of
            Inl _ \<Rightarrow> te_clock E = None \<or> (\<exists>d e. device_hmac E ta1' d = Inl e)
          | Inr token \<Rightarrow> ts_challenge token = challenge \<and> te_clock E = Some (ts_timestamp token) \<and>
              verify_device_hmac E ta2' (timestamp_token_mac_input token) (ts_mac token) = Inr True) \<and>
         (if list_all (\<lambda>p. length (ss_nonce p) = 32) params' \<and>
             ta_shared_secret_params ta3 \<in> Some ` set params' then True
          else \<exists>e. compute_shared_secret E params' ta3 = (ta3, Inl e))"
proof -
  obtain k1 where 1: "agreed_key E params (the (ta_shared_secret_params ta1)) = Inr k1"
      "ta1' = ta1\<lparr>ta_device_hmac := Some (case te_hmac_key_agreed E k1 of
               Some d \<Rightarrow> HardwareDeviceHmac d | None \<Rightarrow> SoftDeviceHmac k1)\<rparr>"
      "device_hmac E ta1' KEY_CHECK_LABEL = Inr check1"
    by (rule compute_shared_secret_ok [OF first]) simp
  obtain k2 where 2: "agreed_key E params (the (ta_shared_secret_params ta2)) = Inr k2"
      "ta2' = ta2\<lparr>ta_device_hmac := Some (case te_hmac_key_agreed E k2 of
               Some d \<Rightarrow> HardwareDeviceHmac d | None \<Rightarrow> SoftDeviceHmac k2)\<rparr>"
      "device_hmac E ta2' KEY_CHECK_LABEL = Inr check2"
    by (rule compute_shared_secret_ok [OF second]) simp
  have k: "k2 = k1" using 2(1) 1(1) by (rule agreed_key_same)
  have same: "device_hmac E ta1' = device_hmac E ta2'"
    by (rule device_hmac_cong) (simp add: 1(2) 2(2) k cong: option.case_cong)
  have stamp: "case generate_timestamp E ta1' challenge of
            Inl _ \<Rightarrow> te_clock E = None \<or> (\<exists>d e. device_hmac E ta1' d = Inl e)
          | Inr token \<Rightarrow> ts_challenge token = challenge \<and> te_clock E = Some (ts_timestamp token) \<and>
              verify_device_hmac E ta2' (timestamp_token_mac_input token) (ts_mac token) = Inr True"
  proof (cases "te_clock E")
    case (Some now)
    define token where "token = \<lparr>ts_challenge = challenge, ts_timestamp = now, ts_mac = []\<rparr>"
    have input: "timestamp_token_mac_input (token\<lparr>ts_mac := mac\<rparr>) = timestamp_token_mac_input token" for mac
      by (simp add: timestamp_token_mac_input_def)
    show ?thesis
    proof (cases "device_hmac E ta1' (timestamp_token_mac_input token)")
      case (Inl e)
      with Some show ?thesis by (auto simp: generate_timestamp_def token_def)
    next
      case (Inr mac)
      with verify_own_hmac [OF memcmp Inr same [symmetric]] Some show ?thesis
        by (simp add: generate_timestamp_def token_def [symmetric] input) (simp add: token_def)
    qed
  qed (simp add: generate_timestamp_def)
  show ?thesis
    using 1(3) 2(3) same stamp failed_negotiation [of params' ta3 E] by simp
qed

section \<open>The root of trust reaches the StrongBox\<close>

definition cose_correct :: "('c, 'r, 's, 'd) TaEnv \<Rightarrow> bool" where
  "cose_correct E \<longleftrightarrow>
     (\<forall>m b. te_mac0_to_tagged_vec E m = Inr b \<longrightarrow> te_mac0_from_tagged_slice E b = Inr m) \<and>
     (\<forall>t v b. te_to_tagged_vec E t v = Inr b \<longrightarrow> te_from_tagged_slice E t b = Inr v)"

interpretation we_VerifiedBootState: wire_enum VerifiedBootState_i32 VerifiedBootState_variants
proof
  fix x show "x \<in> set VerifiedBootState_variants"
    by (cases x) (simp_all add: VerifiedBootState_variants_def)
  show "fits_i32 (VerifiedBootState_i32 x)" by (cases x) (simp_all add: fits_i32_def)
qed (simp add: VerifiedBootState_variants_def)

lemma uint_u32: "uint (w :: u32) < 4294967296"
  using unsigned_less [of w, where ?'a = int] by simp

lemma BootInfo_cbor_round_trip:
  "BootInfo_to_cbor_value b = Inr v \<Longrightarrow> BootInfo_from_cbor_value v = Inr b"
  by (cases b) (auto simp: BootInfo_to_cbor_value_def BootInfo_from_cbor_value_def
      bytes_to_cbor_value_def bool_to_cbor_value_def bool_from_cbor_value_def enum_to_cbor_value_def
      u32_to_cbor_value_def u32_from_cbor_value_def uint_u32)

lemma verify_root_of_trust_iff:
  assumes "\<And>a b. te_memcmp_eq E a b \<longleftrightarrow> a = b"
  shows "verify_root_of_trust E ta msg = Inr b \<longleftrightarrow>
    (\<exists>mac0 payload v. te_mac0_from_tagged_slice E msg = Inr mac0 \<and> m0_payload mac0 = Some payload \<and>
       device_hmac E ta (te_mac_structure_data E (m0_protected mac0) (ta_rot_challenge ta) payload)
         = Inr (m0_tag mac0) \<and>
       te_from_tagged_slice E BootInfo_TAG payload = Inr v \<and> BootInfo_from_cbor_value v = Inr b)"
proof -
  have guard: "res_bind r (\<lambda>ok. if \<not> ok then km_err e else k) = Inr b \<longleftrightarrow> r = Inr True \<and> k = Inr b"
    for r k e by (cases r) auto
  show ?thesis
    by (cases "te_mac0_from_tagged_slice E msg"; cases "m0_payload (projr (te_mac0_from_tagged_slice E msg))")
      (simp_all add: verify_root_of_trust_def guard verify_device_hmac_iff [OF assms] map_err_Inr_iff
        res_bind_Inr_iff, auto)
qed

text \<open>
  C23: The message a TEE makes for the challenge of a StrongBox that shares its HMAC key is accepted
  by the StrongBox, which then has the boot information of the TEE with the verified boot key hashed.
  Whatever message arrives, the StrongBox only ever takes boot information from one whose MAC is valid
  for its own challenge, and never once it has boot information.
\<close>

theorem root_of_trust_transfer:
  assumes memcmp: "\<And>a b. te_memcmp_eq E a b \<longleftrightarrow> a = b" and cose: "cose_correct E"
    and hmac: "device_hmac E sb = device_hmac E tee"
    and sb: "is_strongbox sb" "ta_boot_info sb = None"
    and msg: "get_root_of_trust E tee (ta_rot_challenge sb) = Inr msg"
  shows "(\<exists>b. boot_info_hashed_key E tee = Inr b \<and>
              send_root_of_trust E msg sb = (sb\<lparr>ta_boot_info := Some b\<rparr>, Inr ())) \<and>
         (case send_root_of_trust E any_msg any_sb of
            (sb', r) \<Rightarrow> sb' = any_sb \<or>
              (\<exists>mac0 payload b. is_strongbox any_sb \<and> ta_boot_info any_sb = None \<and>
                 sb' = any_sb\<lparr>ta_boot_info := Some b\<rparr> \<and>
                 te_mac0_from_tagged_slice E any_msg = Inr mac0 \<and> m0_payload mac0 = Some payload \<and>
                 device_hmac E any_sb (te_mac_structure_data E (m0_protected mac0)
                   (ta_rot_challenge any_sb) payload) = Inr (m0_tag mac0) \<and>
                 res_bind (te_from_tagged_slice E BootInfo_TAG payload) BootInfo_from_cbor_value = Inr b))"
proof
  from msg obtain b v payload tag where b: "boot_info_hashed_key E tee = Inr b"
      and v: "BootInfo_to_cbor_value b = Inr v" "te_to_tagged_vec E BootInfo_TAG v = Inr payload"
      and tag: "device_hmac E tee (te_mac_structure_data E (te_mac0_header E) (ta_rot_challenge sb)
          payload) = Inr tag"
      and m: "te_mac0_to_tagged_vec E \<lparr>m0_protected = te_mac0_header E, m0_payload = Some payload,
          m0_tag = tag\<rparr> = Inr msg"
    by (auto simp: get_root_of_trust_def res_bind_Inr_iff map_err_Inr_iff split: if_splits)
  have "verify_root_of_trust E sb msg = Inr b"
    using cose v m tag hmac BootInfo_cbor_round_trip [OF v(1)]
    by (auto simp: verify_root_of_trust_iff [OF memcmp] cose_correct_def)
  with b sb show "\<exists>b. boot_info_hashed_key E tee = Inr b \<and>
      send_root_of_trust E msg sb = (sb\<lparr>ta_boot_info := Some b\<rparr>, Inr ())"
    by (simp add: send_root_of_trust_def)
next
  show "case send_root_of_trust E any_msg any_sb of
            (sb', r) \<Rightarrow> sb' = any_sb \<or>
              (\<exists>mac0 payload b. is_strongbox any_sb \<and> ta_boot_info any_sb = None \<and>
                 sb' = any_sb\<lparr>ta_boot_info := Some b\<rparr> \<and>
                 te_mac0_from_tagged_slice E any_msg = Inr mac0 \<and> m0_payload mac0 = Some payload \<and>
                 device_hmac E any_sb (te_mac_structure_data E (m0_protected mac0)
                   (ta_rot_challenge any_sb) payload) = Inr (m0_tag mac0) \<and>
                 res_bind (te_from_tagged_slice E BootInfo_TAG payload) BootInfo_from_cbor_value = Inr b)"
  proof (cases "verify_root_of_trust E any_sb any_msg")
    case (Inr b)
    with verify_root_of_trust_iff [OF memcmp, of any_sb any_msg b] obtain mac0 payload v where
      "te_mac0_from_tagged_slice E any_msg = Inr mac0" "m0_payload mac0 = Some payload"
      "device_hmac E any_sb (te_mac_structure_data E (m0_protected mac0) (ta_rot_challenge any_sb)
         payload) = Inr (m0_tag mac0)"
      "te_from_tagged_slice E BootInfo_TAG payload = Inr v" "BootInfo_from_cbor_value v = Inr b"
      by blast
    with Inr show ?thesis
      by (simp add: send_root_of_trust_def)
  qed (simp add: send_root_of_trust_def)
qed

section \<open>A device to run the code on\<close>

definition sample_boot_info :: BootInfo where
  "sample_boot_info = \<lparr>verified_boot_key = replicate 32 9, device_boot_locked = True,
     verified_boot_state = VerifiedBootState_Verified, verified_boot_hash = [3],
     boot_patchlevel = 20250101\<rparr>"

definition sample_boot_value :: Value where
  "sample_boot_value = Value_Array [Value_Bytes (replicate 32 9), Value_Bool True, Value_Integer 0,
     Value_Bytes [3], Value_Integer 20250101]"

definition sample_mac0 :: CoseMac0 where
  "sample_mac0 = \<lparr>m0_protected = [1], m0_payload = Some [2], m0_tag = replicate 32 7\<rparr>"

definition sample_ta_env :: "(nat \<times> bytes, unit, HostSddManager, unit) TaEnv" where
  "sample_ta_env =
     \<lparr>te_kb = sample_env,
      te_rng = sample_rng,
      te_mgr = host_manager sample_rng sample_prost,
      te_memcmp_eq = (=),
      te_sha256 = \<lambda>_. Inr (replicate 32 2),
      te_root_kek = \<lambda>_. Inr (OpaqueOr_Explicit (Hmac_Key [5])),
      te_kek_context_is_outdated = \<lambda>_. Inr False,
      te_kak = Inr (OpaqueOr_Explicit (Aes_Key_Aes256 (replicate 32 4))),
      te_hmac_key_agreed = \<lambda>_. None,
      te_hardware_hmac = \<lambda>_ _. Inr [],
      te_hardware_hmac_key = \<lambda>_. None,
      te_clock = Some 1000,
      te_bootloader_done = True,
      te_tup_available = False,
      te_is_legacy_key = None,
      te_to_tagged_vec = \<lambda>t v. if v = sample_boot_value then Inr [2] else Inl CborError_EncodeFailed,
      te_from_tagged_slice = \<lambda>t b. Inr sample_boot_value,
      te_mac0_header = [1],
      te_mac_structure_data = \<lambda>h c p. h @ c @ p,
      te_mac0_to_tagged_vec = \<lambda>m. if m = sample_mac0 then Inr [8] else Inl CborError_EncodeFailed,
      te_mac0_from_tagged_slice = \<lambda>b. Inr sample_mac0\<rparr>"

definition sample_ta :: "SecurityLevel \<Rightarrow> (nat \<times> bytes, unit, HostSddManager, unit) KeyMintTa" where
  "sample_ta level =
     (new_allowing_versions \<lparr>hi_security_level = level, hi_version_number = 400,
       hi_impl_name = ''KM'', hi_author_name = ''AOSP'', hi_unique_id = ''id''\<rparr> () None [])
       \<lparr>ta_device_hmac := Some (SoftDeviceHmac (Hmac_Key [6])),
        ta_shared_secret_params := Some \<lparr>ss_seed = [], ss_nonce = replicate 32 1\<rparr>\<rparr>"

lemma sample_ta_hmac: "device_hmac sample_ta_env (sample_ta level) data = Inr (replicate 32 7)"
  using sample_acc_updates [of 32 "[]"]
  by (simp add: device_hmac_def sample_ta_def sample_ta_env_def SoftDeviceHmac_hmac_def sample_env_def
      del: acc_updates.simps) (simp add: sample_crypto_def)

lemma sample_ta_env_laws:
  "te_memcmp_eq sample_ta_env a b \<longleftrightarrow> a = b" "cose_correct sample_ta_env"
  by (simp_all add: sample_ta_env_def cose_correct_def)

theorem root_of_trust_transfer_witness:
  "send_root_of_trust sample_ta_env [8] (sample_ta SecurityLevel_Strongbox) =
     ((sample_ta SecurityLevel_Strongbox)\<lparr>ta_boot_info := Some sample_boot_info\<rparr>, Inr ())"
proof -
  let ?sb = "sample_ta SecurityLevel_Strongbox"
  let ?tee = "(sample_ta SecurityLevel_TrustedEnvironment)\<lparr>ta_boot_info := Some sample_boot_info\<rparr>"
  have hmac: "device_hmac sample_ta_env ?sb = device_hmac sample_ta_env ?tee"
    by (rule device_hmac_cong) (simp add: sample_ta_def)
  have boot: "boot_info_hashed_key sample_ta_env ?tee = Inr sample_boot_info"
    by (simp add: boot_info_hashed_key_def get_boot_info_def sample_boot_info_def)
  have "BootInfo_to_cbor_value sample_boot_info = Inr sample_boot_value"
    by (simp add: BootInfo_to_cbor_value_def sample_boot_info_def sample_boot_value_def
        bytes_to_cbor_value_def bool_to_cbor_value_def enum_to_cbor_value_def u32_to_cbor_value_def)
  then have msg: "get_root_of_trust sample_ta_env ?tee (ta_rot_challenge ?sb) = Inr [8]"
    using boot sample_ta_hmac [of SecurityLevel_Strongbox, unfolded hmac]
    by (simp add: get_root_of_trust_def is_strongbox_def)
      (simp add: sample_ta_def new_allowing_versions_def sample_ta_env_def sample_mac0_def)
  have "is_strongbox ?sb" "ta_boot_info ?sb = None"
    by (simp_all add: is_strongbox_def sample_ta_def new_allowing_versions_def)
  from root_of_trust_transfer [OF sample_ta_env_laws hmac this msg] boot show ?thesis by simp
qed

lemma sample_agreed_key:
  "\<exists>key. agreed_key sample_ta_env [\<lparr>ss_seed = [], ss_nonce = replicate 32 1\<rparr>]
     \<lparr>ss_seed = [], ss_nonce = replicate 32 1\<rparr> = Inr key"
proof -
  have block: "ckdf_block sample_crypto k l c n i = Inr (replicate 16 7)" for k l c n i
    using sample_acc_updates [of 16 "[]"]
    by (simp add: ckdf_block_def sample_crypto_def del: acc_updates.simps)
  have derive: "ckdf sample_crypto (OpaqueOr_Explicit k) l c SHA256_DIGEST_LEN = Inr (replicate 32 7)" for k l c
  proof -
    have blocks: "map of_nat [1..<Suc (unat (of_nat (div_ceil 32 16) :: u32))] = [1, 2 :: u32]"
      by (simp add: div_ceil_def upt_rec)
    have two: "replicate 16 7 @ replicate 16 7 = replicate 32 (7 :: u8)"
      by (simp flip: replicate_add)
    show ?thesis
      unfolding ckdf_def explicit_def SHA256_DIGEST_LEN_def AES_BLOCK_SIZE_def OpaqueOr.case res_bind.simps
        Let_def blocks
      by (simp add: ckdf_step_def block two)
  qed
  have "shared_secret_context [\<lparr>ss_seed = [], ss_nonce = replicate 32 1\<rparr>]
      \<lparr>ss_seed = [], ss_nonce = replicate 32 1\<rparr> = Inr (replicate 32 1)"
    by (simp add: shared_secret_context_iff)
  moreover have "te_kak sample_ta_env = Inr (OpaqueOr_Explicit (Aes_Key_Aes256 (replicate 32 4)))"
    "kb_crypto (te_kb sample_ta_env) = sample_crypto"
    by (simp_all add: sample_ta_env_def sample_env_def)
  ultimately show ?thesis
    by (simp add: agreed_key_def derive)
qed

theorem shared_secret_agreement_witness:
  "\<exists>sb tee check.
     compute_shared_secret sample_ta_env [\<lparr>ss_seed = [], ss_nonce = replicate 32 1\<rparr>]
       (sample_ta SecurityLevel_Strongbox) = (sb, Inr check) \<and>
     compute_shared_secret sample_ta_env [\<lparr>ss_seed = [], ss_nonce = replicate 32 1\<rparr>]
       (sample_ta SecurityLevel_TrustedEnvironment) = (tee, Inr check) \<and>
     device_hmac sample_ta_env sb = device_hmac sample_ta_env tee"
proof -
  have "SoftDeviceHmac_hmac sample_crypto key data = Inr (replicate 32 7)" for key data
    using sample_acc_updates [of 32 "[]"]
    by (simp add: SoftDeviceHmac_hmac_def del: acc_updates.simps) (simp add: sample_crypto_def)
  then have "\<exists>ta. compute_shared_secret sample_ta_env [\<lparr>ss_seed = [], ss_nonce = replicate 32 1\<rparr>]
      (sample_ta level) = (ta, Inr (replicate 32 7))" for level
    using sample_agreed_key
    by (auto simp: compute_shared_secret_def sample_ta_def set_device_hmac_def device_hmac_def
        sample_ta_env_def sample_env_def)
  then obtain sb tee where
    "compute_shared_secret sample_ta_env [\<lparr>ss_seed = [], ss_nonce = replicate 32 1\<rparr>]
       (sample_ta SecurityLevel_Strongbox) = (sb, Inr (replicate 32 7))"
    "compute_shared_secret sample_ta_env [\<lparr>ss_seed = [], ss_nonce = replicate 32 1\<rparr>]
       (sample_ta SecurityLevel_TrustedEnvironment) = (tee, Inr (replicate 32 7))"
    by blast
  with shared_secret_agreement [OF sample_ta_env_laws(1) this] show ?thesis by blast
qed

end
