(* ===== verification/Ta_Blobs.thy ===== *)
theory Ta_Blobs
  imports Ta_Secrets
begin

text \<open>
  What the trusted application (\<^verbatim>\<open>ta/src/lib.rs\<close>) does with key blobs: opening one and checking its
  versions against the current ones, the tags added to a new key, the use counts of keys limited per
  boot, the checks of a key's own restrictions when an operation begins, and deletion.
\<close>

section \<open>Opening a key blob\<close>

record KeyBlobDecryptionResult =
  kd_keyblob :: PlaintextKeyBlob
  kd_slot :: "SecureDeletionSlot option"
  kd_kek_context_is_outdated :: bool

text \<open>The error of a blob that does not parse.\<close>

definition unparsed_blob_error ::
    "('c, 'r, 's, 'd) TaEnv \<Rightarrow> ('c, 'r, 's, 'd) KeyMintTa \<Rightarrow> bytes \<Rightarrow> KeyParam list \<Rightarrow> Error \<Rightarrow> Error" where
  "unparsed_blob_error E ta key_blob params e = (case te_is_legacy_key E of
     Some is_legacy_key \<Rightarrow>
       (case get_boot_info ta of
          Inl e' \<Rightarrow> e'
        | Inr boot_info \<Rightarrow>
            if is_legacy_key key_blob params boot_info then Error_Hal ErrorCode_KeyRequiresUpgrade else e)
   | None \<Rightarrow> e)"

definition keyblob_parse_decrypt_backlevel ::
    "('c, 'r, 's, 'd) TaEnv \<Rightarrow> ('c, 'r, 's, 'd) KeyMintTa \<Rightarrow> bytes \<Rightarrow> KeyParam list
     \<Rightarrow> (Error + KeyBlobDecryptionResult) option" where
  "keyblob_parse_decrypt_backlevel E ta key_blob params =
     (case EncryptedKeyBlob_new (te_kb E) key_blob of
        Inl e \<Rightarrow> Some (Inl (unparsed_blob_error E ta key_blob params e))
      | Inr encrypted_keyblob \<Rightarrow>
          (case
             res_bind (te_kek_context_is_outdated E (kb_context encrypted_keyblob)) (\<lambda>outdated.
             res_bind (root_of_trust ta) (\<lambda>rot.
             res_bind (te_root_kek E (kb_context encrypted_keyblob)) (\<lambda>root_kek.
             Inr (outdated, hidden params rot, root_kek)))) of
             Inl e \<Rightarrow> Some (Inl e)
           | Inr (outdated, hidden_params, root_kek) \<Rightarrow>
               map_option (map_ok (\<lambda>keyblob.
                   \<lparr>kd_keyblob = keyblob, kd_slot = kb_slot encrypted_keyblob,
                    kd_kek_context_is_outdated = outdated\<rparr>))
                 (keyblob_decrypt (te_kb E) (te_mgr E) (ta_sdd_mgr ta) root_kek encrypted_keyblob
                    hidden_params)))"

definition check_version :: "u32 \<Rightarrow> u32 \<Rightarrow> Error + unit" where
  "check_version v current = (case cmp v current of
     Less \<Rightarrow> km_err ErrorCode_KeyRequiresUpgrade | Equal \<Rightarrow> Inr () | Greater \<Rightarrow> Inr ())"

definition level_or :: "u32 \<Rightarrow> (RequestPatchLevels \<Rightarrow> u32) \<Rightarrow> RequestPatchLevels option \<Rightarrow> u32" where
  "level_or device f patchlevels = (case patchlevels of None \<Rightarrow> device | Some p \<Rightarrow> f p)"

definition check_key_version ::
    "('c, 'r, 's, 'd) KeyMintTa \<Rightarrow> RequestPatchLevels option \<Rightarrow> KeyParam \<Rightarrow> Error + unit" where
  "check_key_version ta patchlevels param = (case param of
     KeyParam_OsVersion v \<Rightarrow>
       (case ta_hal_info ta of
          Some hal_info \<Rightarrow>
            if hal_os_version hal_info = 0 then
              (if v \<noteq> 0 then km_err ErrorCode_KeyRequiresUpgrade else Inr ())
            else check_version v (hal_os_version hal_info)
        | None \<Rightarrow> Inr ())
   | KeyParam_OsPatchlevel v \<Rightarrow>
       (case ta_hal_info ta of
          Some hal_info \<Rightarrow>
            check_version v (level_or (hal_os_patchlevel hal_info) rp_os_patchlevel patchlevels)
        | None \<Rightarrow> Inr ())
   | KeyParam_VendorPatchlevel v \<Rightarrow>
       (case ta_hal_info ta of
          Some hal_info \<Rightarrow>
            check_version v (level_or (hal_vendor_patchlevel hal_info) rp_vendor_patchlevel patchlevels)
        | None \<Rightarrow> Inr ())
   | KeyParam_BootPatchlevel v \<Rightarrow>
       (case ta_boot_info ta of
          Some boot_info \<Rightarrow>
            check_version v (level_or (boot_patchlevel boot_info) rp_boot_patchlevel patchlevels)
        | None \<Rightarrow> Inr ())
   | _ \<Rightarrow> Inr ())"

definition check_key_versions ::
    "('c, 'r, 's, 'd) KeyMintTa \<Rightarrow> RequestPatchLevels option \<Rightarrow> KeyParam list \<Rightarrow> Error + unit" where
  "check_key_versions ta patchlevels key_chars =
     res_fold (\<lambda>_. check_key_version ta patchlevels) () key_chars"

definition keyblob_parse_decrypt_with_patchlevels ::
    "('c, 'r, 's, 'd) TaEnv \<Rightarrow> ('c, 'r, 's, 'd) KeyMintTa \<Rightarrow> bytes \<Rightarrow> KeyParam list
     \<Rightarrow> RequestPatchLevels option \<Rightarrow> (Error + (PlaintextKeyBlob \<times> SecureDeletionSlot option)) option" where
  "keyblob_parse_decrypt_with_patchlevels E ta key_blob params patchlevels =
     map_option (\<lambda>r. res_bind r (\<lambda>result.
         if kd_kek_context_is_outdated result then km_err ErrorCode_KeyRequiresUpgrade
         else
           res_bind (kb_characteristics_at (kd_keyblob result) (hi_security_level (ta_hw_info ta))) (\<lambda>key_chars.
           res_bind (check_key_versions ta patchlevels key_chars) (\<lambda>_.
           Inr (kd_keyblob result, kd_slot result)))))
       (keyblob_parse_decrypt_backlevel E ta key_blob params)"

definition get_key_characteristics_with_patchlevels ::
    "('c, 'r, 's, 'd) TaEnv \<Rightarrow> ('c, 'r, 's, 'd) KeyMintTa \<Rightarrow> bytes \<Rightarrow> bytes \<Rightarrow> bytes
     \<Rightarrow> RequestPatchLevels option \<Rightarrow> (Error + KeyCharacteristics list) option" where
  "get_key_characteristics_with_patchlevels E ta key_blob app_id app_data patchlevels =
     (let params = (if app_id \<noteq> [] then [KeyParam_ApplicationId app_id] else [])
                   @ (if app_data \<noteq> [] then [KeyParam_ApplicationData app_data] else [])
      in map_option (map_ok (\<lambda>(keyblob, _). pk_characteristics keyblob))
           (keyblob_parse_decrypt_with_patchlevels E ta key_blob params patchlevels))"

section \<open>The tags of a new key\<close>

definition keymint_tags ::
    "('c, 'r, 's, 'd) KeyMintTa \<Rightarrow> KeyOrigin \<Rightarrow> RequestPatchLevels option \<Rightarrow> KeyParam list" where
  "keymint_tags ta origin patchlevels =
     [KeyParam_Origin origin]
     @ (case ta_hal_info ta of
          Some hal_info \<Rightarrow>
            [KeyParam_OsVersion (hal_os_version hal_info),
             KeyParam_OsPatchlevel (level_or (hal_os_patchlevel hal_info) rp_os_patchlevel patchlevels),
             KeyParam_VendorPatchlevel
               (level_or (hal_vendor_patchlevel hal_info) rp_vendor_patchlevel patchlevels)]
        | None \<Rightarrow> [])
     @ (case ta_boot_info ta of
          Some boot_info \<Rightarrow>
            [KeyParam_BootPatchlevel (level_or (boot_patchlevel boot_info) rp_boot_patchlevel patchlevels)]
        | None \<Rightarrow> [])"

fun add_keymint_tags ::
    "('c, 'r, 's, 'd) KeyMintTa \<Rightarrow> KeyCharacteristics list \<Rightarrow> KeyOrigin \<Rightarrow> RequestPatchLevels option
     \<Rightarrow> Error + KeyCharacteristics list" where
  "add_keymint_tags ta [] origin patchlevels = km_err ErrorCode_InvalidArgument"
| "add_keymint_tags ta (kc # chars) origin patchlevels =
     (if security_level kc = hi_security_level (ta_hw_info ta) then
        Inr (kc\<lparr>authorizations := authorizations kc @ keymint_tags ta origin patchlevels\<rparr> # chars)
      else map_ok (\<lambda>chars. kc # chars) (add_keymint_tags ta chars origin patchlevels))"

section \<open>Use counts and restrictions\<close>

definition key_id :: "('c, 'r, 's, 'd) TaEnv \<Rightarrow> bytes \<Rightarrow> Error + bytes" where
  "key_id E keyblob =
     (let C = kb_crypto (te_kb E) in
      res_bind (hmac_begin C (OpaqueOr_Explicit (Hmac_Key (replicate 16 0))) Digest_Sha256) (\<lambda>op.
      res_bind (acc_updates C op [keyblob]) (\<lambda>op.
      res_bind (acc_finish C op) (\<lambda>tag.
        if length tag \<noteq> 32 then km_err ErrorCode_SecureHwCommunicationFailed else Inr tag))))"

text \<open>The loop over the entries: the first free one, and the one of the key, where it stops.\<close>

fun use_count_scan ::
    "bytes \<Rightarrow> nat \<Rightarrow> UseCount option list \<Rightarrow> nat option \<Rightarrow> nat option \<times> nat option" where
  "use_count_scan k idx [] free_idx = (free_idx, None)"
| "use_count_scan k idx (None # entries) free_idx =
     use_count_scan k (Suc idx) entries (if free_idx = None then Some idx else free_idx)"
| "use_count_scan k idx (Some c # entries) free_idx =
     (if uc_key_id c = k then (free_idx, Some idx) else use_count_scan k (Suc idx) entries free_idx)"

definition update_use_count ::
    "bytes \<Rightarrow> u32 \<Rightarrow> UseCount option list \<Rightarrow> UseCount option list \<times> (Error + unit)" where
  "update_use_count k max_uses entries =
     (case (case use_count_scan k 0 entries None of
              (free_idx, Some idx) \<Rightarrow> (entries, Some idx)
            | (Some idx, None) \<Rightarrow> (entries[idx := Some \<lparr>uc_key_id = k, uc_count = 0\<rparr>], Some idx)
            | (None, None) \<Rightarrow> (entries, None)) of
        (entries, Some idx) \<Rightarrow>
          let c = the (entries ! idx) in
          if uc_count c \<ge> ucast max_uses then (entries, km_err ErrorCode_KeyMaxOpsExceeded)
          else (entries[idx := Some (c\<lparr>uc_count := uc_count c + 1\<rparr>)], Inr ())
      | (entries, None) \<Rightarrow> (entries, km_err ErrorCode_TooManyOperations))"

definition as_MaxUsesPerBoot where
  "as_MaxUsesPerBoot p = (case p of KeyParam_MaxUsesPerBoot v \<Rightarrow> Some v | _ \<Rightarrow> None)"

definition check_begin_auths ::
    "('c, 'r, 's, 'd) TaEnv \<Rightarrow> KeyParam list \<Rightarrow> bytes \<Rightarrow> ('c, 'r, 's, 'd) KeyMintTa
     \<Rightarrow> ('c, 'r, 's, 'd) KeyMintTa \<times> (Error + unit)" where
  "check_begin_auths E key_chars key_blob ta =
     (case
        res_bind (if te_bootloader_done E then get_bool_tag_value KeyParam_BootloaderOnly key_chars
                  else Inr False) (\<lambda>bootloader_only.
          if bootloader_only then km_err ErrorCode_InvalidKeyBlob
          else
            res_bind (if \<not> ta_in_early_boot ta then get_bool_tag_value KeyParam_EarlyBootOnly key_chars
                      else Inr False) (\<lambda>early_boot_only.
              if early_boot_only then km_err ErrorCode_EarlyBootEnded
              else
                res_bind (get_opt_tag_value as_MaxUsesPerBoot ErrorCode_InvalidTag key_chars) (\<lambda>max_uses.
                  case max_uses of
                    Some max_uses \<Rightarrow> map_ok (\<lambda>k. Some (k, max_uses)) (key_id E key_blob)
                  | None \<Rightarrow> Inr None))) of
        Inl e \<Rightarrow> (ta, Inl e)
      | Inr None \<Rightarrow> (ta, Inr ())
      | Inr (Some (k, max_uses)) \<Rightarrow>
          (case update_use_count k max_uses (ta_use_count ta) of
             (entries, r) \<Rightarrow> (ta\<lparr>ta_use_count := entries\<rparr>, r)))"

section \<open>Deletion\<close>

text \<open>
  Errors of the deletion are logged and ignored; the manager may still panic.  The handler of legacy
  keys keeps its own state, which is not part of the model.
\<close>

definition delete_key ::
    "('c, 'r, 's, 'd) TaEnv \<Rightarrow> bytes \<Rightarrow> ('c, 'r, 's, 'd) KeyMintTa
     \<Rightarrow> (('c, 'r, 's, 'd) KeyMintTa \<times> (Error + unit)) option" where
  "delete_key E keyblob ta = (case EncryptedKeyBlob_new (te_kb E) keyblob of
     Inr (EncryptedKeyBlob_V1 encrypted_keyblob) \<Rightarrow>
       (case (ta_sdd_mgr ta, kb_secure_deletion_slot encrypted_keyblob) of
          (Some mgr, Some slot) \<Rightarrow>
            map_option (\<lambda>(mgr, _). (ta\<lparr>ta_sdd_mgr := Some mgr\<rparr>, Inr ())) (sm_delete_secret (te_mgr E) slot mgr)
        | _ \<Rightarrow> Some (ta, Inr ()))
   | Inl _ \<Rightarrow> Some (ta, Inr ()))"

definition delete_all_keys ::
    "('c, 'r, 's, 'd) TaEnv \<Rightarrow> ('c, 'r, 's, 'd) KeyMintTa
     \<Rightarrow> (('c, 'r, 's, 'd) KeyMintTa \<times> (Error + unit)) option" where
  "delete_all_keys E ta = (case ta_sdd_mgr ta of
     Some mgr \<Rightarrow> map_option (\<lambda>mgr. (ta\<lparr>ta_sdd_mgr := Some mgr\<rparr>, Inr ())) (sm_delete_all (te_mgr E) mgr)
   | None \<Rightarrow> Some (ta, Inr ()))"

section \<open>Which keys need an upgrade\<close>

text \<open>A version a key was made for, against the one the device is at.\<close>

fun up_to_date :: "('c, 'r, 's, 'd) KeyMintTa \<Rightarrow> RequestPatchLevels option \<Rightarrow> KeyParam \<Rightarrow> bool" where
  "up_to_date ta pl (KeyParam_OsVersion v) = (case ta_hal_info ta of
     Some h \<Rightarrow> if hal_os_version h = 0 then v = 0 else hal_os_version h \<le> v | None \<Rightarrow> True)"
| "up_to_date ta pl (KeyParam_OsPatchlevel v) = (case ta_hal_info ta of
     Some h \<Rightarrow> level_or (hal_os_patchlevel h) rp_os_patchlevel pl \<le> v | None \<Rightarrow> True)"
| "up_to_date ta pl (KeyParam_VendorPatchlevel v) = (case ta_hal_info ta of
     Some h \<Rightarrow> level_or (hal_vendor_patchlevel h) rp_vendor_patchlevel pl \<le> v | None \<Rightarrow> True)"
| "up_to_date ta pl (KeyParam_BootPatchlevel v) = (case ta_boot_info ta of
     Some b \<Rightarrow> level_or (boot_patchlevel b) rp_boot_patchlevel pl \<le> v | None \<Rightarrow> True)"
| "up_to_date ta pl _ = True"

lemma check_version_eq:
  "check_version v c = (if c \<le> v then Inr () else km_err ErrorCode_KeyRequiresUpgrade)"
  by (auto simp: check_version_def cmp_def)

lemma check_key_version_eq:
  "check_key_version ta pl p =
     (if up_to_date ta pl p then Inr () else km_err ErrorCode_KeyRequiresUpgrade)"
  by (cases p) (auto simp: check_key_version_def check_version_eq split: option.splits)

lemma check_key_versions_eq:
  "check_key_versions ta pl chars =
     (if list_all (up_to_date ta pl) chars then Inr () else km_err ErrorCode_KeyRequiresUpgrade)"
  by (induction chars) (auto simp: check_key_versions_def check_key_version_eq)

lemma keymint_tags_up_to_date: "list_all (up_to_date ta pl) (keymint_tags ta origin pl)"
  by (auto simp: keymint_tags_def split: option.splits)

lemma characteristics_at_Cons:
  "characteristics_at (kc # chars) level =
     (if security_level kc = level
      then if list_ex (\<lambda>c. security_level c = level) chars then km_err ErrorCode_InvalidKeyBlob
           else Inr (authorizations kc)
      else characteristics_at chars level)"
proof -
  have "res_fold (\<lambda>result c. if security_level c \<noteq> level then Inr result
          else if result = None then Inr (Some (authorizations c))
          else km_err ErrorCode_InvalidKeyBlob) (Some x) chars =
        (if list_ex (\<lambda>c. security_level c = level) chars then km_err ErrorCode_InvalidKeyBlob
         else Inr (Some x))" for x
    by (induction chars) auto
  then show ?thesis
    by (simp add: characteristics_at_def)
qed

lemma list_ex_level: "list_ex (\<lambda>c. security_level c = l) cs \<longleftrightarrow> l \<in> set (map security_level cs)"
  by (auto simp: list_ex_iff)

lemma add_keymint_tags_at:
  assumes "add_keymint_tags ta chars origin pl = Inr chars'"
  shows "characteristics_at chars' (hi_security_level (ta_hw_info ta)) =
           map_ok (\<lambda>auths. auths @ keymint_tags ta origin pl)
             (characteristics_at chars (hi_security_level (ta_hw_info ta)))"
  using assms
  by (induction chars arbitrary: chars')
    (auto simp: characteristics_at_Cons map_ok_Inr_iff list_ex_level split: if_splits)

lemma add_keymint_tags_error:
  "add_keymint_tags ta chars origin pl = Inl e \<Longrightarrow>
     hi_security_level (ta_hw_info ta) \<notin> security_level ` set chars"
  by (induction chars) (auto simp: map_ok_Inl_iff split: if_splits)


section \<open>Uses per boot\<close>

text \<open>The table as a map from key to uses, and that it has no two entries for a key.\<close>

definition entry_pairs :: "UseCount option list \<Rightarrow> (bytes \<times> u64) list" where
  "entry_pairs entries = map (\<lambda>c. (uc_key_id c, uc_count c)) (List.map_filter id entries)"

definition use_count_wf :: "UseCount option list \<Rightarrow> bool" where
  "use_count_wf entries \<longleftrightarrow>
     length entries = MAX_USE_COUNTED_KEYS \<and> distinct (map fst (entry_pairs entries))"

definition uses :: "UseCount option list \<Rightarrow> bytes \<Rightarrow> u64 option" where
  "uses entries = map_of (entry_pairs entries)"

text \<open>What a use of a key does to the map: at most 32 keys are counted, and none is forgotten.\<close>

definition count_use ::
    "bytes \<Rightarrow> u32 \<Rightarrow> (bytes \<Rightarrow> u64 option) \<Rightarrow> (bytes \<Rightarrow> u64 option) \<times> (Error + unit)" where
  "count_use k max_uses m =
     (case (case m k of
              Some c \<Rightarrow> Some c
            | None \<Rightarrow> if card (dom m) < MAX_USE_COUNTED_KEYS then Some 0 else None) of
        None \<Rightarrow> (m, km_err ErrorCode_TooManyOperations)
      | Some c \<Rightarrow>
          if c \<ge> ucast max_uses then (m(k \<mapsto> c), km_err ErrorCode_KeyMaxOpsExceeded)
          else (m(k \<mapsto> c + 1), Inr ()))"

lemma use_count_scan_eq:
  "use_count_scan k n entries f =
     (case position (\<lambda>e. map_option uc_key_id e = Some k) entries of
        Some i \<Rightarrow> (fst (use_count_scan k n entries f), Some (n + i))
      | None \<Rightarrow> (if f = None then map_option ((+) n) (position (\<lambda>e. e = None) entries) else f, None))"
  by (induction k n entries f rule: use_count_scan.induct)
    (auto split: option.splits simp: option.map_comp o_def intro!: option.map_cong)

lemma entry_pairs_update:
  assumes "i < length entries"
  obtains P Q where "\<And>x. entry_pairs (entries[i := x]) =
      P @ (case x of None \<Rightarrow> [] | Some c \<Rightarrow> [(uc_key_id c, uc_count c)]) @ Q"
proof
  fix x
  show "entry_pairs (entries[i := x]) = entry_pairs (take i entries) @
      (case x of None \<Rightarrow> [] | Some c \<Rightarrow> [(uc_key_id c, uc_count c)]) @ entry_pairs (drop (Suc i) entries)"
    using assms by (simp add: upd_conv_take_nth_drop entry_pairs_def map_filter_append map_filter_simps
        split: option.splits)
qed

lemma use_count_wf_update:
  assumes "i < length entries" "use_count_wf entries" "uses (entries[i := None]) k = None"
  shows "use_count_wf (entries[i := Some \<lparr>uc_key_id = k, uc_count = n\<rparr>])"
    and "uses (entries[i := Some \<lparr>uc_key_id = k, uc_count = n\<rparr>]) = (uses (entries[i := None]))(k \<mapsto> n)"
proof -
  obtain P Q where PQ: "\<And>x. entry_pairs (entries[i := x]) =
      P @ (case x of None \<Rightarrow> [] | Some c \<Rightarrow> [(uc_key_id c, uc_count c)]) @ Q"
    using entry_pairs_update [OF assms(1)] by blast
  have self: "entry_pairs entries =
      P @ (case entries ! i of None \<Rightarrow> [] | Some c \<Rightarrow> [(uc_key_id c, uc_count c)]) @ Q"
    using PQ [of "entries ! i"] by simp
  have k: "k \<notin> fst ` set P" "k \<notin> fst ` set Q"
    using assms(3) PQ [of None] by (auto simp: uses_def map_of_eq_None_iff)
  have "distinct (map fst (P @ Q))"
    using assms(2) self by (auto simp: use_count_wf_def split: option.splits)
  with k assms(2) PQ show "use_count_wf (entries[i := Some \<lparr>uc_key_id = k, uc_count = n\<rparr>])"
    by (auto simp: use_count_wf_def)
  show "uses (entries[i := Some \<lparr>uc_key_id = k, uc_count = n\<rparr>]) = (uses (entries[i := None]))(k \<mapsto> n)"
  proof -
    have "map_of P k = None"
      using k(1) by (simp add: map_of_eq_None_iff)
    then show ?thesis
      by (simp add: uses_def PQ map_add_upd_left dom_map_of_conv_image_fst) (auto simp: fun_eq_iff map_add_def split: option.splits)
  qed
qed

lemma uses_of_entry:
  assumes "use_count_wf entries" "i < length entries" "entries ! i = Some c"
  shows "uses (entries[i := None]) (uc_key_id c) = None"
    and "uses entries = (uses (entries[i := None]))(uc_key_id c \<mapsto> uc_count c)"
proof -
  obtain P Q where PQ: "\<And>x. entry_pairs (entries[i := x]) =
      P @ (case x of None \<Rightarrow> [] | Some c \<Rightarrow> [(uc_key_id c, uc_count c)]) @ Q"
    using entry_pairs_update [OF assms(2)] by blast
  have self: "entry_pairs entries = P @ [(uc_key_id c, uc_count c)] @ Q"
    using PQ [of "entries ! i"] assms(3) list_update_id [of entries i] by simp
  show none: "uses (entries[i := None]) (uc_key_id c) = None"
    using assms(1) self PQ [of None] by (auto simp: use_count_wf_def uses_def map_of_eq_None_iff)
  have "entries[i := Some \<lparr>uc_key_id = uc_key_id c, uc_count = uc_count c\<rparr>] = entries"
    using assms(3) by (simp add: list_update_same_conv assms(2))
  with use_count_wf_update(2) [OF assms(2,1) none, of "uc_count c"]
  show "uses entries = (uses (entries[i := None]))(uc_key_id c \<mapsto> uc_count c)" by simp
qed

lemma free_entry_iff:
  assumes "use_count_wf entries"
  shows "card (dom (uses entries)) < MAX_USE_COUNTED_KEYS \<longleftrightarrow> None \<in> set entries"
proof -
  have "length (List.map_filter id xs) < length xs \<longleftrightarrow> None \<in> set xs" for xs :: "UseCount option list"
  proof -
    have "length (List.map_filter id xs) \<le> length xs" for xs :: "UseCount option list"
      by (induction xs) (auto simp: map_filter_simps split: option.splits)
    then show ?thesis
      by (induction xs) (auto simp: map_filter_simps less_Suc_eq_le split: option.splits)
  qed
  moreover have "card (dom (uses entries)) = length (List.map_filter id entries)"
    using assms distinct_card [of "map fst (entry_pairs entries)"]
    by (simp add: uses_def dom_map_of_conv_image_fst use_count_wf_def) (simp add: entry_pairs_def)
  ultimately show ?thesis
    using assms by (metis use_count_wf_def)
qed

definition bump :: "nat \<Rightarrow> u32 \<Rightarrow> UseCount option list \<Rightarrow> UseCount option list \<times> (Error + unit)" where
  "bump idx max_uses entries =
     (let c = the (entries ! idx) in
      if uc_count c \<ge> ucast max_uses then (entries, km_err ErrorCode_KeyMaxOpsExceeded)
      else (entries[idx := Some (c\<lparr>uc_count := uc_count c + 1\<rparr>)], Inr ()))"

lemma update_use_count_eq:
  "update_use_count k max_uses entries =
     (case position (\<lambda>e. map_option uc_key_id e = Some k) entries of
        Some i \<Rightarrow> bump i max_uses entries
      | None \<Rightarrow>
          (case position (\<lambda>e. e = None) entries of
             Some i \<Rightarrow> bump i max_uses (entries[i := Some \<lparr>uc_key_id = k, uc_count = 0\<rparr>])
           | None \<Rightarrow> (entries, km_err ErrorCode_TooManyOperations)))"
  unfolding update_use_count_def bump_def [symmetric]
  by (subst use_count_scan_eq) (simp split: option.splits prod.splits)

lemma bump_eq:
  assumes "use_count_wf entries" "i < length entries" "entries ! i = Some c"
  shows "case bump i max_uses entries of (entries', r) \<Rightarrow> use_count_wf entries' \<and>
           (uses entries', r) =
             (if uc_count c \<ge> ucast max_uses then (uses entries, km_err ErrorCode_KeyMaxOpsExceeded)
              else ((uses entries)(uc_key_id c \<mapsto> uc_count c + 1), Inr ()))"
  using uses_of_entry [OF assms] use_count_wf_update [OF assms(2,1), of "uc_key_id c"] assms
  by (cases c) (simp add: bump_def)

lemma use_count_step:
  assumes "use_count_wf entries"
  shows "case update_use_count k max_uses entries of (entries', r) \<Rightarrow>
           use_count_wf entries' \<and> (uses entries', r) = count_use k max_uses (uses entries)"
proof (cases "position (\<lambda>e. map_option uc_key_id e = Some k) entries")
  case (Some i)
  then obtain c where c: "i < length entries" "entries ! i = Some c" "uc_key_id c = k"
    by (auto simp: position_Some_iff)
  have "uses entries k = Some (uc_count c)"
    using uses_of_entry(2) [OF assms c(1,2)] c(3) by simp
  with bump_eq [OF assms c(1,2), of max_uses] c(3) Some show ?thesis
    by (auto simp: update_use_count_eq count_use_def fun_upd_idem)
next
  case None
  then have fresh: "uses entries k = None"
    by (auto simp: position_None_iff uses_def entry_pairs_def map_of_eq_None_iff List.map_filter_def)
  show ?thesis
  proof (cases "position (\<lambda>e. e = None) entries")
    case (Some i)
    then have i: "i < length entries" "entries ! i = None" "None \<in> set entries"
      by (auto simp: position_Some_iff) (metis nth_mem)
    then have "entries[i := None] = entries"
      by (metis list_update_id)
    with use_count_wf_update [OF i(1) assms, of k 0] fresh
    have new: "use_count_wf (entries[i := Some \<lparr>uc_key_id = k, uc_count = 0\<rparr>])"
      "uses (entries[i := Some \<lparr>uc_key_id = k, uc_count = 0\<rparr>]) = (uses entries)(k \<mapsto> 0)"
      by simp_all
    from bump_eq [OF new(1), of i "\<lparr>uc_key_id = k, uc_count = 0\<rparr>" max_uses] i new(2) None Some
    show ?thesis
      using free_entry_iff [OF assms] fresh by (auto simp: update_use_count_eq count_use_def)
  next
    case full: None
    then have "None \<notin> set entries"
      by (auto simp: position_None_iff)
    with None full fresh assms show ?thesis
      using free_entry_iff [OF assms] by (simp add: update_use_count_eq count_use_def)
  qed
qed

text \<open>A sequence of uses since boot, and which of them were granted.\<close>

definition use_run :: "(bytes \<Rightarrow> u32) \<Rightarrow> bytes list \<Rightarrow> UseCount option list \<times> bytes list" where
  "use_run limit ks =
     foldl (\<lambda>(entries, granted) k. case update_use_count k (limit k) entries of
              (entries, r) \<Rightarrow> (entries, if is_ok r then granted @ [k] else granted))
       (replicate MAX_USE_COUNTED_KEYS None, []) ks"

definition granted_uses :: "(bytes \<Rightarrow> u32) \<Rightarrow> bytes list \<Rightarrow> (bytes \<Rightarrow> u64 option) \<Rightarrow> bytes list \<Rightarrow> bool" where
  "granted_uses limit ks m granted \<longleftrightarrow>
     dom m \<subseteq> set ks \<and>
     (\<forall>k. case m k of
        None \<Rightarrow> count_list granted k = 0 \<and> (k \<in> set ks \<longrightarrow> MAX_USE_COUNTED_KEYS \<le> card (dom m))
      | Some c \<Rightarrow> unat c = count_list granted k \<and>
                  count_list granted k = min (unat (limit k)) (count_list ks k))"

lemma unat_lt2p_u32: "unat (l :: u32) < 18446744073709551616"
  using unsigned_less [of l, where ?'a = nat] by simp

lemma ucast_le_count:
  fixes c :: u64 and l :: u32
  shows "ucast l \<le> c \<longleftrightarrow> unat l \<le> unat c"
  by (simp add: word_le_nat_alt unsigned_ucast_eq take_bit_nat_eq_self unat_lt2p_u32)

lemma granted_uses_step:
  assumes run: "granted_uses limit ks m granted" and "count_use k (limit k) m = (m', r)"
  shows "granted_uses limit (ks @ [k]) m' (if is_ok r then granted @ [k] else granted)"
proof -
  have fin: "finite (dom m)"
    using run finite_subset [of "dom m" "set ks"] by (simp add: granted_uses_def)
  have known: "m j = Some c \<Longrightarrow> unat c = count_list granted j \<and>
      count_list granted j = min (unat (limit j)) (count_list ks j)"
    and unknown: "m j = None \<Longrightarrow> count_list granted j = 0 \<and>
      (j \<in> set ks \<longrightarrow> MAX_USE_COUNTED_KEYS \<le> card (dom m))" for j c
    using run by (auto simp: granted_uses_def split: option.splits dest: spec [of _ j])
  have others: "granted_uses limit (ks @ [k]) (m(k \<mapsto> c)) g"
    if "unat c = count_list g k" "count_list g k = min (unat (limit k)) (Suc (count_list ks k))"
      and g: "\<And>j. j \<noteq> k \<Longrightarrow> count_list g j = count_list granted j" for c g
  proof -
    have "MAX_USE_COUNTED_KEYS \<le> card (insert k (dom m))" if "m j = None" "j \<in> set ks" for j
      using unknown [of j] that card_insert_le [of "dom m" k] by simp
    with that known unknown run show ?thesis
      by (auto simp: granted_uses_def split: option.splits)
  qed
  show ?thesis
  proof (cases "m k = None \<and> MAX_USE_COUNTED_KEYS \<le> card (dom m)")
    case True
    with assms(2) have "m' = m" "r = km_err ErrorCode_TooManyOperations"
      by (auto simp: count_use_def)
    with True run known unknown show ?thesis
      by (auto simp: granted_uses_def split: option.splits)
  next
    case False
    obtain c where c: "unat c = count_list granted k"
        "count_list granted k = min (unat (limit k)) (count_list ks k)"
      and step: "(m', r) = (if c \<ge> ucast (limit k) then (m(k \<mapsto> c), km_err ErrorCode_KeyMaxOpsExceeded)
          else (m(k \<mapsto> c + 1), Inr ()))"
    proof (cases "m k")
      case (Some c)
      with known [of k c] assms(2) show ?thesis by (intro that [of c]) (auto simp: count_use_def)
    next
      case None
      with unknown [of k] False assms(2) show ?thesis
        by (intro that [of 0]) (auto simp: count_use_def count_list_0_iff)
    qed
    show ?thesis
    proof (cases "unat (limit k) \<le> unat c")
      case True
      with step c others [of c granted] show ?thesis
        by (simp add: ucast_le_count)
    next
      case False
      then have "unat (c + 1) = Suc (unat c)"
        using unat_lt2p_u32 [of "limit k"] by (simp add: unat_word_ariths)
      with False step c others [of "c + 1" "granted @ [k]"] show ?thesis
        by (simp add: ucast_le_count)
    qed
  qed
qed

lemma use_run_invariant:
  "case use_run limit ks of (entries, granted) \<Rightarrow>
     use_count_wf entries \<and> granted_uses limit ks (uses entries) granted"
proof (induction ks rule: rev_induct)
  case Nil
  have "List.map_filter id (replicate n None) = ([] :: UseCount list)" for n
    by (induction n) (auto simp: map_filter_simps)
  then show ?case
    by (simp add: use_run_def use_count_wf_def entry_pairs_def uses_def granted_uses_def)
next
  case (snoc k ks)
  obtain entries granted where run: "use_run limit ks = (entries, granted)"
    by fastforce
  obtain entries' r where step: "update_use_count k (limit k) entries = (entries', r)"
    by fastforce
  from snoc run have "use_count_wf entries" "granted_uses limit ks (uses entries) granted"
    by simp_all
  with use_count_step [of entries k "limit k"] step granted_uses_step show ?case
    using run [unfolded use_run_def] by (simp add: use_run_def)
qed

lemma granted_uses_exact:
  assumes "granted_uses limit ks m granted"
  shows "count_list granted k \<le> min (unat (limit k)) (count_list ks k)"
    and "card (set ks) \<le> MAX_USE_COUNTED_KEYS \<Longrightarrow>
           count_list granted k = min (unat (limit k)) (count_list ks k)"
proof -
  show "count_list granted k \<le> min (unat (limit k)) (count_list ks k)"
    using assms by (cases "m k") (auto simp: granted_uses_def split: option.splits dest: spec [of _ k])
  assume few: "card (set ks) \<le> MAX_USE_COUNTED_KEYS"
  show "count_list granted k = min (unat (limit k)) (count_list ks k)"
  proof (cases "m k")
    case None
    have "k \<notin> set ks"
    proof
      assume k: "k \<in> set ks"
      with None assms have "MAX_USE_COUNTED_KEYS \<le> card (dom m)"
        by (auto simp: granted_uses_def split: option.splits dest: spec [of _ k])
      moreover have "dom m \<subset> set ks"
        using assms None k by (auto simp: granted_uses_def)
      then have "card (dom m) < card (set ks)"
        by (intro psubset_card_mono) auto
      ultimately show False using few by simp
    qed
    with None assms show ?thesis
      by (auto simp: granted_uses_def count_list_0_iff split: option.splits dest: spec [of _ k])
  next
    case (Some c)
    with assms show ?thesis
      by (auto simp: granted_uses_def split: option.splits dest: spec [of _ k])
  qed
qed

text \<open>
  C20: Whatever sequence of limited keys is used since boot, the table of 32 entries behaves as a map
  from keys to their uses: a use is refused when the key's limit is reached or when the map is full
  and does not have the key.  So a key is never used more often than its limit, and as long as no more
  than 32 different keys are used, exactly the uses above the limit are refused.
\<close>

theorem uses_per_boot:
  "case use_run limit ks of (entries, granted) \<Rightarrow>
     (case update_use_count k max_uses entries of (entries', r) \<Rightarrow>
        (uses entries', r) = count_use k max_uses (uses entries)) \<and>
     count_list granted k \<le> min (unat (limit k)) (count_list ks k) \<and>
     (if card (set ks) \<le> MAX_USE_COUNTED_KEYS
      then count_list granted k = min (unat (limit k)) (count_list ks k) else True)"
  using use_run_invariant [of limit ks] use_count_step [of "fst (use_run limit ks)" k max_uses]
    granted_uses_exact [of limit ks "uses (fst (use_run limit ks))" "snd (use_run limit ks)" k]
  by (auto split: prod.splits)

end
