(* ===== verification/Ta_Operation.thy ===== *)
theory Ta_Operation
  imports Ta_Blobs
begin

text \<open>
  Cryptographic operations in the trusted application (\<^verbatim>\<open>ta/src/operation.rs\<close> and
  \<open>begin_operation\<close> of \<^verbatim>\<open>ta/src/operation/begin.rs\<close>): the operation table, the authentication a
  key asks for, and the calls that begin, feed, finish and abort an operation.

  A call returns the new state and its result; \<open>None\<close> is a panic, or the loop that draws a fresh
  handle not ending.
\<close>

section \<open>Threading the state\<close>

type_synonym ('st, 'a) ta_result = "('st \<times> (Error + 'a)) option"

definition ta_bind :: "('st, 'a) ta_result \<Rightarrow> ('st \<Rightarrow> 'a \<Rightarrow> ('st, 'b) ta_result) \<Rightarrow> ('st, 'b) ta_result" where
  "ta_bind m f = (case m of
     None \<Rightarrow> None
   | Some (st, Inl e) \<Rightarrow> Some (st, Inl e)
   | Some (st, Inr a) \<Rightarrow> f st a)"

definition ta_lift :: "'st \<Rightarrow> Error + 'a \<Rightarrow> ('st, 'a) ta_result" where
  "ta_lift st r = Some (st, r)"

lemma ta_bind_simps [simp]:
  "ta_bind None f = None" "ta_bind (Some (st, Inl e)) f = Some (st, Inl e)"
  "ta_bind (Some (st, Inr a)) f = f st a"
  by (simp_all add: ta_bind_def)

lemma ta_bind_Some_iff:
  "ta_bind m f = Some (st', r) \<longleftrightarrow>
     (\<exists>e. m = Some (st', Inl e) \<and> r = Inl e) \<or> (\<exists>st a. m = Some (st, Inr a) \<and> f st a = Some (st', r))"
  by (auto simp: ta_bind_def split: option.splits sum.splits)

section \<open>Authentication requirements\<close>

record ta_auth_scan =
  as_secure_ids :: "u64 list"
  as_auth_type :: "u32 option"
  as_timeout_secs :: "u32 option"
  as_no_auth_required :: bool

definition ta_auth_step :: "ta_auth_scan \<Rightarrow> KeyParam \<Rightarrow> Error + ta_auth_scan" where
  "ta_auth_step s param = (case param of
     KeyParam_UserSecureId sid \<Rightarrow> Inr (s\<lparr>as_secure_ids := as_secure_ids s @ [sid]\<rparr>)
   | KeyParam_UserAuthType atype \<Rightarrow>
       if as_auth_type s = None then Inr (s\<lparr>as_auth_type := Some atype\<rparr>)
       else km_err ErrorCode_InvalidKeyBlob
   | KeyParam_AuthTimeout secs \<Rightarrow>
       if as_timeout_secs s = None then Inr (s\<lparr>as_timeout_secs := Some secs\<rparr>)
       else km_err ErrorCode_InvalidKeyBlob
   | KeyParam_NoAuthRequired \<Rightarrow> Inr (s\<lparr>as_no_auth_required := True\<rparr>)
   | _ \<Rightarrow> Inr s)"

definition TaAuthInfo_new :: "KeyParam list \<Rightarrow> Error + TaAuthInfo option" where
  "TaAuthInfo_new key_chars =
     res_bind (res_fold ta_auth_step
        \<lparr>as_secure_ids = [], as_auth_type = None, as_timeout_secs = None, as_no_auth_required = False\<rparr>
        key_chars) (\<lambda>s.
       if as_secure_ids s = [] then Inr None
       else case as_auth_type s of
         Some auth_type \<Rightarrow>
           if as_no_auth_required s then km_err ErrorCode_InvalidKeyBlob
           else Inr (Some \<lparr>ai_secure_ids = as_secure_ids s, ai_auth_type = auth_type,
                          ai_timeout_secs = as_timeout_secs s\<rparr>)
       | None \<Rightarrow> km_err ErrorCode_KeyUserNotAuthenticated)"

text \<open>Release builds wrap around when the timeout is added to the time of the token.\<close>

definition check_auth_token ::
    "('c, 'r, 's, 'd) TaEnv \<Rightarrow> ('c, 'r, 's, 'd) KeyMintTa \<Rightarrow> TaAuthToken \<Rightarrow> TaAuthInfo
     \<Rightarrow> i64 option \<Rightarrow> u32 option \<Rightarrow> i64 option \<Rightarrow> Error + unit" where
  "check_auth_token E ta auth_token auth_info now timeout_secs challenge =
     res_bind (verify_device_hmac E ta (hardware_auth_token_mac_input auth_token) (at_mac auth_token)) (\<lambda>ok.
       if \<not> ok then km_err ErrorCode_KeyUserNotAuthenticated
       else if (of_int (HardwareAuthenticatorType_i32 (at_authenticator_type auth_token)) :: u32)
               AND ai_auth_type auth_info = 0
       then km_err ErrorCode_KeyUserNotAuthenticated
       else if \<not> list_ex (\<lambda>sid. at_user_id auth_token = sid \<or> at_authenticator_id auth_token = sid)
                 (ai_secure_ids auth_info)
       then km_err ErrorCode_KeyUserNotAuthenticated
       else if (case (now, timeout_secs) of
                  (Some now, Some timeout_secs) \<Rightarrow>
                    sint now > sint (at_timestamp auth_token + 1000 * ucast timeout_secs)
                | _ \<Rightarrow> False)
       then km_err ErrorCode_KeyUserNotAuthenticated
       else if (case challenge of Some challenge \<Rightarrow> at_challenge auth_token \<noteq> challenge | None \<Rightarrow> False)
       then km_err ErrorCode_KeyUserNotAuthenticated
       else Inr ())"

text \<open>Whether later calls of the operation have to be authenticated again.\<close>

definition check_subsequent_auth ::
    "('c, 'r, 's, 'd) TaEnv \<Rightarrow> ('c, 'r, 's, 'd) KeyMintTa \<Rightarrow> 'c TaOperation \<Rightarrow> TaAuthToken option
     \<Rightarrow> TaTimeStampToken option \<Rightarrow> Error + bool" where
  "check_subsequent_auth E ta op auth_token timestamp_token = (case to_auth_info op of
     None \<Rightarrow> Inr False
   | Some auth_info \<Rightarrow>
       res_bind (ok_or (Error_Hal ErrorCode_KeyUserNotAuthenticated) auth_token) (\<lambda>auth_token.
         case ai_timeout_secs auth_info of
           Some timeout_secs \<Rightarrow>
             if te_clock E \<noteq> None then km_err ErrorCode_InvalidAuthorizationTimeout
             else
               res_bind (ok_or (Error_Hal ErrorCode_InvalidArgument) timestamp_token) (\<lambda>timestamp_token.
                 if ts_challenge timestamp_token \<noteq> to_handle op then km_err ErrorCode_InvalidArgument
                 else
                   res_bind (verify_device_hmac E ta (timestamp_token_mac_input timestamp_token)
                       (ts_mac timestamp_token)) (\<lambda>ok.
                     if \<not> ok then km_err ErrorCode_InvalidArgument
                     else
                       res_bind (check_auth_token E ta auth_token auth_info
                           (Some (ts_timestamp timestamp_token)) (Some timeout_secs)
                           (Some (to_handle op))) (\<lambda>_. Inr False)))
         | None \<Rightarrow>
             res_bind (check_auth_token E ta auth_token auth_info None None (Some (to_handle op)))
               (\<lambda>_. Inr True)))"

section \<open>The operation table\<close>

definition new_operation_index :: "('c, 'r, 's, 'd) KeyMintTa \<Rightarrow> Error + nat" where
  "new_operation_index ta =
     ok_or (Error_Hal ErrorCode_TooManyOperations) (position (\<lambda>op. op = None) (ta_operations ta))"

definition op_index :: "('c, 'r, 's, 'd) KeyMintTa \<Rightarrow> i64 \<Rightarrow> Error + nat" where
  "op_index ta op_handle =
     ok_or (Error_Hal ErrorCode_InvalidOperation)
       (position (\<lambda>op. case op of Some op \<Rightarrow> to_handle op = op_handle | None \<Rightarrow> False) (ta_operations ta))"

partial_function (option) new_op_handle ::
    "'r Rng \<Rightarrow> ('c, 'r, 's, 'd) KeyMintTa \<Rightarrow> (('c, 'r, 's, 'd) KeyMintTa \<times> i64) option" where
  "new_op_handle R ta =
     (case next_u64 R (ta_rng ta) of
        (op_handle, rng) \<Rightarrow>
          let ta = ta\<lparr>ta_rng := rng\<rparr> in
          if \<not> is_ok (op_index ta op_handle) then Some (ta, op_handle)
          else new_op_handle R ta)"

definition take_operation ::
    "i64 \<Rightarrow> ('c, 'r, 's, 'd) KeyMintTa \<Rightarrow> ('c, 'r, 's, 'd) KeyMintTa \<times> (Error + 'c TaOperation)" where
  "take_operation op_handle ta = (case op_index ta op_handle of
     Inl e \<Rightarrow> (ta, Inl e)
   | Inr op_idx \<Rightarrow>
       (ta\<lparr>ta_operations := (ta_operations ta)[op_idx := None]\<rparr>, Inr (the (ta_operations ta ! op_idx))))"

definition with_authed_operation ::
    "('c, 'r, 's, 'd) TaEnv \<Rightarrow> i64 \<Rightarrow> TaAuthToken option \<Rightarrow> TaTimeStampToken option
     \<Rightarrow> ('c TaOperation \<Rightarrow> 'c TaOperation \<times> (Error + 'a)) \<Rightarrow> ('c, 'r, 's, 'd) KeyMintTa
     \<Rightarrow> ('c, 'r, 's, 'd) KeyMintTa \<times> (Error + 'a)" where
  "with_authed_operation E op_handle auth_token timestamp_token f ta =
     (case res_bind (op_index ta op_handle) (\<lambda>op_idx.
             res_bind (check_subsequent_auth E ta (the (ta_operations ta ! op_idx)) auth_token
                 timestamp_token) (\<lambda>check_again. Inr (op_idx, check_again))) of
        Inl e \<Rightarrow> (ta, Inl e)
      | Inr (op_idx, check_again) \<Rightarrow>
          let op = the (ta_operations ta ! op_idx);
              op = (if \<not> check_again then op\<lparr>to_auth_info := None\<rparr> else op)
          in case f op of
               (op, Inr a) \<Rightarrow>
                 (ta\<lparr>ta_operations := (ta_operations ta)[op_idx := Some op]\<rparr>, Inr a)
             | (op, Inl e) \<Rightarrow>
                 (ta\<lparr>ta_presence_required_op :=
                       (if ta_presence_required_op ta = Some op_handle then None
                        else ta_presence_required_op ta),
                     ta_operations := (ta_operations ta)[op_idx := None]\<rparr>, Inl e))"

section \<open>Feeding an operation\<close>

definition op_max_input_size :: "'c Crypto \<Rightarrow> 'c CryptoOperation \<Rightarrow> nat option" where
  "op_max_input_size C crypto_op = (case crypto_op of
     CryptoOperation_HmacSign op _ \<Rightarrow> acc_max_input_size C op
   | CryptoOperation_HmacVerify op _ _ \<Rightarrow> acc_max_input_size C op
   | CryptoOperation_RsaDecrypt op \<Rightarrow> acc_max_input_size C op
   | CryptoOperation_RsaSign op \<Rightarrow> acc_max_input_size C op
   | CryptoOperation_EcAgree op \<Rightarrow> acc_max_input_size C op
   | CryptoOperation_EcSign op \<Rightarrow> acc_max_input_size C op
   | _ \<Rightarrow> None)"

definition check_size :: "'c Crypto \<Rightarrow> nat \<Rightarrow> 'c TaOperation \<Rightarrow> 'c TaOperation \<times> (Error + unit)" where
  "check_size C len op =
     (let op = op\<lparr>to_input_size := to_input_size op + len\<rparr> in
      (op, case op_max_input_size C (to_crypto_op op) of
             Some max_size \<Rightarrow>
               if to_input_size op > max_size then km_err ErrorCode_InvalidInputLength else Inr ()
           | None \<Rightarrow> Inr ()))"

definition update_aad_body ::
    "'c Crypto \<Rightarrow> bytes \<Rightarrow> 'c TaOperation \<Rightarrow> 'c TaOperation \<times> (Error + unit)" where
  "update_aad_body C data op =
     (if \<not> to_aad_allowed op then (op, km_err ErrorCode_InvalidTag)
      else case to_crypto_op op of
        CryptoOperation_AesGcm c \<Rightarrow>
          (case aad_update C c data of (c, r) \<Rightarrow> (op\<lparr>to_crypto_op := CryptoOperation_AesGcm c\<rparr>, r))
      | _ \<Rightarrow> (op, km_err ErrorCode_InvalidOperation))"

definition op_update_aad ::
    "('c, 'r, 's, 'd) TaEnv \<Rightarrow> i64 \<Rightarrow> bytes \<Rightarrow> TaAuthToken option \<Rightarrow> TaTimeStampToken option
     \<Rightarrow> ('c, 'r, 's, 'd) KeyMintTa \<Rightarrow> ('c, 'r, 's, 'd) KeyMintTa \<times> (Error + unit)" where
  "op_update_aad E op_handle data auth_token timestamp_token ta =
     with_authed_operation E op_handle auth_token timestamp_token
       (update_aad_body (kb_crypto (te_kb E)) data) ta"

text \<open>An emitting operation returns output, an accumulating one nothing.\<close>

definition crypto_update ::
    "'c Crypto \<Rightarrow> bytes \<Rightarrow> 'c CryptoOperation \<Rightarrow> 'c CryptoOperation \<times> (Error + bytes)" where
  "crypto_update C data crypto_op = (case crypto_op of
     CryptoOperation_Aes op \<Rightarrow> apfst CryptoOperation_Aes (emit_update C op data)
   | CryptoOperation_AesGcm op \<Rightarrow> apfst CryptoOperation_AesGcm (emit_update C op data)
   | CryptoOperation_Des op \<Rightarrow> apfst CryptoOperation_Des (emit_update C op data)
   | CryptoOperation_HmacSign op n \<Rightarrow>
       map_prod (\<lambda>op. CryptoOperation_HmacSign op n) (map_ok (\<lambda>_. [])) (acc_update C op data)
   | CryptoOperation_HmacVerify op lo hi \<Rightarrow>
       map_prod (\<lambda>op. CryptoOperation_HmacVerify op lo hi) (map_ok (\<lambda>_. [])) (acc_update C op data)
   | CryptoOperation_RsaDecrypt op \<Rightarrow>
       map_prod CryptoOperation_RsaDecrypt (map_ok (\<lambda>_. [])) (acc_update C op data)
   | CryptoOperation_RsaSign op \<Rightarrow>
       map_prod CryptoOperation_RsaSign (map_ok (\<lambda>_. [])) (acc_update C op data)
   | CryptoOperation_EcAgree op \<Rightarrow>
       map_prod CryptoOperation_EcAgree (map_ok (\<lambda>_. [])) (acc_update C op data)
   | CryptoOperation_EcSign op \<Rightarrow>
       map_prod CryptoOperation_EcSign (map_ok (\<lambda>_. [])) (acc_update C op data)
   | CryptoOperation_MlDsaSign op \<Rightarrow>
       map_prod CryptoOperation_MlDsaSign (map_ok (\<lambda>_. [])) (acc_update C op data))"

definition add_conf_data :: "bytes \<Rightarrow> 'c TaOperation \<Rightarrow> Error + 'c TaOperation" where
  "add_conf_data data op = (case to_trusted_conf_data op of
     None \<Rightarrow> Inr op
   | Some trusted_conf_data \<Rightarrow>
       if length trusted_conf_data + length data
            > length CONFIRMATION_DATA_PREFIX + CONFIRMATION_MESSAGE_MAX_LEN
       then km_err ErrorCode_InvalidArgument
       else Inr (op\<lparr>to_trusted_conf_data := Some (trusted_conf_data @ data)\<rparr>))"

definition update_body ::
    "'c Crypto \<Rightarrow> bool \<Rightarrow> bytes \<Rightarrow> 'c TaOperation \<Rightarrow> 'c TaOperation \<times> (Error + bytes)" where
  "update_body C presence_missing data op =
     (if presence_missing then (op, km_err ErrorCode_ProofOfPresenceRequired)
      else case add_conf_data data op of
        Inl e \<Rightarrow> (op, Inl e)
      | Inr op \<Rightarrow>
          (case check_size C (length data) (op\<lparr>to_aad_allowed := False\<rparr>) of
             (op, Inl e) \<Rightarrow> (op, Inl e)
           | (op, Inr _) \<Rightarrow>
               (case crypto_update C data (to_crypto_op op) of
                  (crypto_op, r) \<Rightarrow> (op\<lparr>to_crypto_op := crypto_op\<rparr>, r))))"

definition op_update ::
    "('c, 'r, 's, 'd) TaEnv \<Rightarrow> i64 \<Rightarrow> bytes \<Rightarrow> TaAuthToken option \<Rightarrow> TaTimeStampToken option
     \<Rightarrow> ('c, 'r, 's, 'd) KeyMintTa \<Rightarrow> ('c, 'r, 's, 'd) KeyMintTa \<times> (Error + bytes)" where
  "op_update E op_handle data auth_token timestamp_token ta =
     (let check_presence = (ta_presence_required_op ta = Some op_handle);
          ta = (if check_presence then ta\<lparr>ta_presence_required_op := None\<rparr> else ta)
      in with_authed_operation E op_handle auth_token timestamp_token
           (update_body (kb_crypto (te_kb E)) (check_presence \<and> \<not> te_tup_available E) data) ta)"

section \<open>Finishing an operation\<close>

definition acc_feed :: "'c Crypto \<Rightarrow> bytes option \<Rightarrow> 'c \<Rightarrow> Error + 'c" where
  "acc_feed C data op = (case data of
     Some data \<Rightarrow> (case acc_update C op data of (op, r) \<Rightarrow> map_ok (\<lambda>_. op) r)
   | None \<Rightarrow> Inr op)"

definition acc_complete :: "'c Crypto \<Rightarrow> bytes option \<Rightarrow> 'c \<Rightarrow> Error + bytes" where
  "acc_complete C data op = res_bind (acc_feed C data op) (acc_finish C)"

definition emit_complete :: "'c Crypto \<Rightarrow> bytes option \<Rightarrow> 'c \<Rightarrow> Error + bytes" where
  "emit_complete C data op =
     (case (case data of Some data \<Rightarrow> emit_update C op data | None \<Rightarrow> (op, Inr [])) of
        (op, r) \<Rightarrow> res_bind r (\<lambda>result. res_bind (emit_finish C op) (\<lambda>last. Inr (result @ last))))"

text \<open>The slice \<open>got[..sig.len()]\<close> panics when the signature is longer than the tag.\<close>

definition hmac_verify_complete ::
    "('c, 'r, 's, 'd) TaEnv \<Rightarrow> bytes option \<Rightarrow> bytes option \<Rightarrow> nat \<Rightarrow> nat \<Rightarrow> 'c \<Rightarrow> (Error + bytes) option" where
  "hmac_verify_complete E data signature lo hi op = (case signature of
     None \<Rightarrow> Some (km_err ErrorCode_InvalidArgument)
   | Some sig \<Rightarrow>
       if \<not> (lo \<le> length sig \<and> length sig < hi) then Some (km_err ErrorCode_InvalidArgument)
       else case acc_complete (kb_crypto (te_kb E)) data op of
         Inl e \<Rightarrow> Some (Inl e)
       | Inr got \<Rightarrow>
           if length sig > length got then None
           else Some (if BoringEq_eq E (take (length sig) got) sig then Inr []
                      else km_err ErrorCode_VerificationFailed))"

definition crypto_complete ::
    "('c, 'r, 's, 'd) TaEnv \<Rightarrow> bytes option \<Rightarrow> bytes option \<Rightarrow> 'c CryptoOperation
     \<Rightarrow> (Error + bytes) option" where
  "crypto_complete E data signature crypto_op = (let C = kb_crypto (te_kb E) in case crypto_op of
     CryptoOperation_Aes op \<Rightarrow> Some (emit_complete C data op)
   | CryptoOperation_AesGcm op \<Rightarrow> Some (emit_complete C data op)
   | CryptoOperation_Des op \<Rightarrow> Some (emit_complete C data op)
   | CryptoOperation_HmacSign op tag_len \<Rightarrow> Some (map_ok (take tag_len) (acc_complete C data op))
   | CryptoOperation_HmacVerify op lo hi \<Rightarrow> hmac_verify_complete E data signature lo hi op
   | CryptoOperation_RsaDecrypt op \<Rightarrow> Some (acc_complete C data op)
   | CryptoOperation_RsaSign op \<Rightarrow> Some (acc_complete C data op)
   | CryptoOperation_EcAgree op \<Rightarrow> Some (acc_complete C data op)
   | CryptoOperation_EcSign op \<Rightarrow> Some (acc_complete C data op)
   | CryptoOperation_MlDsaSign op \<Rightarrow> Some (acc_complete C data op))"

text \<open>The presence check of a finishing operation, after its authentication.\<close>

definition finish_presence ::
    "('c, 'r, 's, 'd) TaEnv \<Rightarrow> i64 \<Rightarrow> ('c, 'r, 's, 'd) KeyMintTa
     \<Rightarrow> ('c, 'r, 's, 'd) KeyMintTa \<times> (Error + unit)" where
  "finish_presence E op_handle ta =
     (if ta_presence_required_op ta = Some op_handle then
        (ta\<lparr>ta_presence_required_op := None\<rparr>,
         if \<not> te_tup_available E then km_err ErrorCode_ProofOfPresenceRequired else Inr ())
      else (ta, Inr ()))"

text \<open>A single-use key is deleted after it was used; a failure to do so is only logged.\<close>

definition delete_single_use ::
    "('c, 'r, 's, 'd) TaEnv \<Rightarrow> SecureDeletionSlot option \<Rightarrow> ('c, 'r, 's, 'd) KeyMintTa
     \<Rightarrow> ('c, 'r, 's, 'd) KeyMintTa option" where
  "delete_single_use E slot ta = (case (slot, ta_sdd_mgr ta) of
     (Some slot, Some mgr) \<Rightarrow>
       map_option (\<lambda>(mgr, _). ta\<lparr>ta_sdd_mgr := Some mgr\<rparr>) (sm_delete_secret (te_mgr E) slot mgr)
   | _ \<Rightarrow> Some ta)"

definition op_finish ::
    "('c, 'r, 's, 'd) TaEnv \<Rightarrow> i64 \<Rightarrow> bytes option \<Rightarrow> bytes option \<Rightarrow> TaAuthToken option
     \<Rightarrow> TaTimeStampToken option \<Rightarrow> bytes option \<Rightarrow> ('c, 'r, 's, 'd) KeyMintTa
     \<Rightarrow> (('c, 'r, 's, 'd) KeyMintTa, bytes) ta_result" where
  "op_finish E op_handle data signature auth_token timestamp_token confirmation_token ta =
     ta_bind (Some (take_operation op_handle ta)) (\<lambda>ta op.
     ta_bind (ta_lift ta (check_subsequent_auth E ta op auth_token timestamp_token)) (\<lambda>ta _.
     ta_bind (Some (finish_presence E op_handle ta)) (\<lambda>ta _.
     ta_bind (ta_lift ta (case data of Some data \<Rightarrow> add_conf_data data op | None \<Rightarrow> Inr op)) (\<lambda>ta op.
     ta_bind (ta_lift ta (snd (check_size (kb_crypto (te_kb E))
                (case data of Some data \<Rightarrow> length data | None \<Rightarrow> 0) op))) (\<lambda>ta _.
       case crypto_complete E data signature (to_crypto_op op) of
         None \<Rightarrow> None
       | Some (Inl e) \<Rightarrow> Some (ta, Inl e)
       | Some (Inr result) \<Rightarrow>
           ta_bind (ta_lift ta (case to_trusted_conf_data op of
                                  Some conf_data \<Rightarrow>
                                    verify_confirmation_token E ta conf_data confirmation_token
                                | None \<Rightarrow> Inr ())) (\<lambda>ta _.
             map_option (\<lambda>ta. (ta, Inr result)) (delete_single_use E (to_slot_to_delete op) ta)))))))"

definition op_abort ::
    "i64 \<Rightarrow> ('c, 'r, 's, 'd) KeyMintTa \<Rightarrow> ('c, 'r, 's, 'd) KeyMintTa \<times> (Error + unit)" where
  "op_abort op_handle ta =
     (let ta = (if ta_presence_required_op ta = Some op_handle then ta\<lparr>ta_presence_required_op := None\<rparr>
                else ta)
      in case take_operation op_handle ta of (ta, r) \<Rightarrow> (ta, map_ok (\<lambda>_. ()) r))"

section \<open>Beginning an operation\<close>

text \<open>The direction of a cipher, the nonce that is returned to the caller.\<close>

definition cipher_direction :: "KeyPurpose \<Rightarrow> Error + SymmetricOperation" where
  "cipher_direction purpose =
     (if purpose = KeyPurpose_Encrypt then Inr SymmetricOperation_Encrypt
      else if purpose = KeyPurpose_Decrypt then Inr SymmetricOperation_Decrypt
      else km_err ErrorCode_IncompatiblePurpose)"

definition aes_ret_params :: "Aes_Mode \<Rightarrow> KeyParam list" where
  "aes_ret_params mode = (case mode of
     Aes_Mode_Cipher CipherMode_EcbNoPadding \<Rightarrow> []
   | Aes_Mode_Cipher CipherMode_EcbPkcs7Padding \<Rightarrow> []
   | Aes_Mode_Cipher (CipherMode_CbcNoPadding n) \<Rightarrow> [KeyParam_Nonce n]
   | Aes_Mode_Cipher (CipherMode_CbcPkcs7Padding n) \<Rightarrow> [KeyParam_Nonce n]
   | Aes_Mode_Cipher (CipherMode_Ctr n) \<Rightarrow> [KeyParam_Nonce n]
   | Aes_Mode_Aead (GcmMode_GcmTag12 n) \<Rightarrow> [KeyParam_Nonce n]
   | Aes_Mode_Aead (GcmMode_GcmTag13 n) \<Rightarrow> [KeyParam_Nonce n]
   | Aes_Mode_Aead (GcmMode_GcmTag14 n) \<Rightarrow> [KeyParam_Nonce n]
   | Aes_Mode_Aead (GcmMode_GcmTag15 n) \<Rightarrow> [KeyParam_Nonce n]
   | Aes_Mode_Aead (GcmMode_GcmTag16 n) \<Rightarrow> [KeyParam_Nonce n])"

definition des_ret_params :: "Des_Mode \<Rightarrow> KeyParam list" where
  "des_ret_params mode = (case mode of
     Des_Mode_EcbNoPadding \<Rightarrow> []
   | Des_Mode_EcbPkcs7Padding \<Rightarrow> []
   | Des_Mode_CbcNoPadding n \<Rightarrow> [KeyParam_Nonce n]
   | Des_Mode_CbcPkcs7Padding n \<Rightarrow> [KeyParam_Nonce n])"

text \<open>
  The arms of \<open>match key_material\<close>: the operation begun, whether it takes additional data, and the
  parameters to return.
\<close>

definition begin_aes ::
    "'c Crypto \<Rightarrow> 'r Rng \<Rightarrow> Aes_Key OpaqueOr \<Rightarrow> KeyPurpose \<Rightarrow> KeyParam list \<Rightarrow> 'r
     \<Rightarrow> 'r \<times> (Error + (bool \<times> 'c CryptoOperation \<times> KeyParam list))" where
  "begin_aes C R key purpose params rng =
     (case get_opt_tag_value as_Nonce ErrorCode_InvalidTag params of
        Inl e \<Rightarrow> (rng, Inl e)
      | Inr caller_nonce \<Rightarrow>
          (case aes_mode R params caller_nonce rng of (rng, r) \<Rightarrow>
            (rng,
             res_bind r (\<lambda>mode.
             res_bind (cipher_direction purpose) (\<lambda>dir.
               let ret_params = (if caller_nonce = None then aes_ret_params mode else [])
               in case mode of
                    Aes_Mode_Cipher m \<Rightarrow>
                      map_ok (\<lambda>op. (False, CryptoOperation_Aes op, ret_params)) (aes_begin C key m dir)
                  | Aes_Mode_Aead m \<Rightarrow>
                      map_ok (\<lambda>op. (True, CryptoOperation_AesGcm op, ret_params))
                        (aes_begin_aead C key m dir))))))"

definition begin_des ::
    "'c Crypto \<Rightarrow> 'r Rng \<Rightarrow> Des_Key OpaqueOr \<Rightarrow> KeyPurpose \<Rightarrow> KeyParam list \<Rightarrow> 'r
     \<Rightarrow> 'r \<times> (Error + (bool \<times> 'c CryptoOperation \<times> KeyParam list))" where
  "begin_des C R key purpose params rng =
     (case get_opt_tag_value as_Nonce ErrorCode_InvalidTag params of
        Inl e \<Rightarrow> (rng, Inl e)
      | Inr caller_nonce \<Rightarrow>
          (case des_mode R params caller_nonce rng of (rng, r) \<Rightarrow>
            (rng,
             res_bind r (\<lambda>mode.
             res_bind (cipher_direction purpose) (\<lambda>dir.
               let ret_params = (if caller_nonce = None then des_ret_params mode else [])
               in map_ok (\<lambda>op. (False, CryptoOperation_Des op, ret_params)) (des_begin C key mode dir))))))"

text \<open>
  The tag lengths an HMAC verification accepts: the lower bound is in bytes, the upper bound is
  \<open>digest_len\<close>, which is in bits.
\<close>

definition begin_hmac ::
    "'c Crypto \<Rightarrow> Hmac_Key OpaqueOr \<Rightarrow> KeyPurpose \<Rightarrow> KeyParam list \<Rightarrow> KeyParam list
     \<Rightarrow> Error + 'c CryptoOperation" where
  "begin_hmac C key purpose key_chars params =
     res_bind (get_digest params) (\<lambda>digest.
       if purpose = KeyPurpose_Sign then
         res_bind (get_tag_value as_MacLength ErrorCode_MissingMacLength params) (\<lambda>mac_len.
         res_bind (hmac_begin C key digest) (\<lambda>op.
         Inr (CryptoOperation_HmacSign op (unat mac_len div 8))))
       else if purpose = KeyPurpose_Verify then
         res_bind (get_tag_value as_MinMacLength ErrorCode_MissingMinMacLength key_chars) (\<lambda>min_len.
         res_bind (digest_len digest) (\<lambda>max_tag_len.
         res_bind (hmac_begin C key digest) (\<lambda>op.
         Inr (CryptoOperation_HmacVerify op (unat min_len div 8) (unat max_tag_len)))))
       else km_err ErrorCode_IncompatiblePurpose)"

definition begin_rsa ::
    "'c Crypto \<Rightarrow> Rsa_Key OpaqueOr \<Rightarrow> KeyPurpose \<Rightarrow> KeyParam list \<Rightarrow> Error + 'c CryptoOperation" where
  "begin_rsa C key purpose params =
     (if purpose = KeyPurpose_Decrypt then
        res_bind (rsa_decryption_mode params) (\<lambda>mode.
        map_ok CryptoOperation_RsaDecrypt (rsa_begin_decrypt C key mode))
      else if purpose = KeyPurpose_Sign then
        res_bind (rsa_sign_mode params) (\<lambda>mode.
        map_ok CryptoOperation_RsaSign (rsa_begin_sign C key mode))
      else km_err ErrorCode_IncompatiblePurpose)"

definition begin_ec ::
    "'c Crypto \<Rightarrow> Ec_Key OpaqueOr \<Rightarrow> KeyPurpose \<Rightarrow> KeyParam list \<Rightarrow> Error + 'c CryptoOperation" where
  "begin_ec C key purpose params =
     (if purpose = KeyPurpose_AgreeKey then map_ok CryptoOperation_EcAgree (ec_begin_agree C key)
      else if purpose = KeyPurpose_Sign then
        res_bind (get_digest params) (\<lambda>digest.
        map_ok CryptoOperation_EcSign (ec_begin_sign C key digest))
      else km_err ErrorCode_IncompatiblePurpose)"

definition begin_mldsa ::
    "'c Crypto \<Rightarrow> MlDsa_Key OpaqueOr \<Rightarrow> KeyPurpose \<Rightarrow> Error + 'c CryptoOperation" where
  "begin_mldsa C key purpose =
     (if purpose = KeyPurpose_Sign then map_ok CryptoOperation_MlDsaSign (mldsa_begin_sign C key)
      else km_err ErrorCode_IncompatiblePurpose)"

definition begin_crypto ::
    "'c Crypto \<Rightarrow> 'r Rng \<Rightarrow> KeyMaterial \<Rightarrow> KeyPurpose \<Rightarrow> KeyParam list \<Rightarrow> KeyParam list \<Rightarrow> 'r
     \<Rightarrow> 'r \<times> (Error + (bool \<times> 'c CryptoOperation \<times> KeyParam list))" where
  "begin_crypto C R key_material purpose key_chars params rng =
     (let plain = map_ok (\<lambda>op. (False, op, [])) in case key_material of
        KeyMaterial_Aes key \<Rightarrow> begin_aes C R key purpose params rng
      | KeyMaterial_TripleDes key \<Rightarrow> begin_des C R key purpose params rng
      | KeyMaterial_Hmac key \<Rightarrow> (rng, plain (begin_hmac C key purpose key_chars params))
      | KeyMaterial_Rsa key \<Rightarrow> (rng, plain (begin_rsa C key purpose params))
      | KeyMaterial_Ec _ _ key \<Rightarrow> (rng, plain (begin_ec C key purpose params))
      | KeyMaterial_MlDsa _ key \<Rightarrow> (rng, plain (begin_mldsa C key purpose)))"

text \<open>The authentication that can be checked when the operation begins, and what is left of it.\<close>

definition begin_auth ::
    "('c, 'r, 's, 'd) TaEnv \<Rightarrow> ('c, 'r, 's, 'd) KeyMintTa \<Rightarrow> TaAuthToken option \<Rightarrow> TaAuthInfo option
     \<Rightarrow> Error + TaAuthInfo option" where
  "begin_auth E ta auth_token op_auth_info = (case op_auth_info of
     None \<Rightarrow> Inr None
   | Some auth_info \<Rightarrow>
       (case ai_timeout_secs auth_info of
          None \<Rightarrow> Inr (Some auth_info)
        | Some timeout_secs \<Rightarrow>
            (case te_clock E of
               Some now \<Rightarrow>
                 res_bind (ok_or (Error_Hal ErrorCode_KeyUserNotAuthenticated) auth_token) (\<lambda>auth_token.
                 res_bind (check_auth_token E ta auth_token auth_info (Some now) (Some timeout_secs) None)
                   (\<lambda>_. Inr None))
             | None \<Rightarrow>
                 (case auth_token of
                    Some auth_token \<Rightarrow>
                      res_bind (check_auth_token E ta auth_token auth_info None None None)
                        (\<lambda>_. Inr (Some auth_info))
                  | None \<Rightarrow> Inr (Some auth_info)))))"

definition as_UsageCountLimit where
  "as_UsageCountLimit p = (case p of KeyParam_UsageCountLimit v \<Rightarrow> Some v | _ \<Rightarrow> None)"

text \<open>The attributes of the new operation that follow from the characteristics of the key.\<close>

definition begin_attributes ::
    "('c, 'r, 's, 'd) TaEnv \<Rightarrow> ('c, 'r, 's, 'd) KeyMintTa \<Rightarrow> KeyPurpose \<Rightarrow> KeyParam list
     \<Rightarrow> SecureDeletionSlot option \<Rightarrow> TaAuthToken option
     \<Rightarrow> Error + (bytes option \<times> SecureDeletionSlot option \<times> bool \<times> TaAuthInfo option)" where
  "begin_attributes E ta purpose key_chars sdd_slot auth_token =
     res_bind (if purpose = KeyPurpose_Sign
               then get_bool_tag_value KeyParam_TrustedConfirmationRequired key_chars
               else Inr False) (\<lambda>confirm.
     res_bind (get_opt_tag_value as_UsageCountLimit ErrorCode_InvalidTag key_chars) (\<lambda>limit.
     res_bind (get_bool_tag_value KeyParam_TrustedUserPresenceRequired key_chars) (\<lambda>presence_required.
       if presence_required \<and> ta_presence_required_op ta \<noteq> None
       then km_err ErrorCode_ConcurrentProofOfPresenceRequested
       else
         res_bind (TaAuthInfo_new key_chars) (\<lambda>op_auth_info.
         res_bind (begin_auth E ta auth_token op_auth_info) (\<lambda>op_auth_info.
         Inr (if confirm then Some CONFIRMATION_DATA_PREFIX else None,
              if limit = Some 1 then sdd_slot else None, presence_required, op_auth_info))))))"

record InternalBeginResult =
  br_challenge :: i64
  br_params :: "KeyParam list"
  br_op_handle :: i64

definition begin_operation_with_patchlevels ::
    "('c, 'r, 's, 'd) TaEnv \<Rightarrow> KeyPurpose \<Rightarrow> bytes \<Rightarrow> KeyParam list \<Rightarrow> TaAuthToken option
     \<Rightarrow> RequestPatchLevels option \<Rightarrow> ('c, 'r, 's, 'd) KeyMintTa
     \<Rightarrow> (('c, 'r, 's, 'd) KeyMintTa, InternalBeginResult) ta_result" where
  "begin_operation_with_patchlevels E purpose key_blob params auth_token patchlevels ta =
     ta_bind (ta_lift ta (new_operation_index ta)) (\<lambda>ta op_idx.
     ta_bind (map_option (Pair ta)
        (keyblob_parse_decrypt_with_patchlevels E ta key_blob params patchlevels)) (\<lambda>ta (keyblob, sdd_slot).
     ta_bind (ta_lift ta
        (res_bind (kb_characteristics_at keyblob (hi_security_level (ta_hw_info ta))) (\<lambda>key_chars.
         res_bind (check_begin_params key_chars purpose params) (\<lambda>_. Inr key_chars)))) (\<lambda>ta key_chars.
     ta_bind (Some (check_begin_auths E key_chars key_blob ta)) (\<lambda>ta _.
     ta_bind (ta_lift ta (begin_attributes E ta purpose key_chars sdd_slot auth_token))
       (\<lambda>ta (trusted_conf_data, slot_to_delete, presence_required, op_auth_info).
     ta_bind (map_option (\<lambda>(ta, h). (ta, Inr h)) (new_op_handle (te_rng E) ta)) (\<lambda>ta op_handle.
     ta_bind
       (case begin_crypto (kb_crypto (te_kb E)) (te_rng E) (pk_key_material keyblob) purpose key_chars
               params (ta_rng ta) of
          (rng, r) \<Rightarrow> Some (ta\<lparr>ta_rng := rng\<rparr>, r)) (\<lambda>ta (aad_allowed, crypto_op, ret_params).
       let op = \<lparr>to_handle = op_handle, to_aad_allowed = aad_allowed, to_slot_to_delete = slot_to_delete,
                 to_trusted_conf_data = trusted_conf_data, to_auth_info = op_auth_info,
                 to_crypto_op = crypto_op, to_input_size = 0\<rparr>;
           ta = ta\<lparr>ta_operations := (ta_operations ta)[op_idx := Some op]\<rparr>;
           ta = (if presence_required then ta\<lparr>ta_presence_required_op := Some op_handle\<rparr> else ta)
       in Some (ta, Inr \<lparr>br_challenge = op_handle, br_params = ret_params,
                         br_op_handle = op_handle\<rparr>))))))))"

end
