(* ===== verification/Ta_Operation_Safety.thy ===== *)
theory Ta_Operation_Safety
  imports Ta_Operation
begin

text \<open>
  Properties of the operations of the trusted application: drawing a fresh handle, the operation table,
  the authentication of every call, and the end of an operation.
\<close>

section \<open>Handles in use\<close>

definition live_ops :: "('c, 'r, 's, 'd) KeyMintTa \<Rightarrow> 'c TaOperation list" where
  "live_ops ta = List.map_filter id (ta_operations ta)"

definition handles :: "('c, 'r, 's, 'd) KeyMintTa \<Rightarrow> i64 set" where
  "handles ta = to_handle ` set (live_ops ta)"

lemma set_live_ops: "op \<in> set (live_ops ta) \<longleftrightarrow> Some op \<in> set (ta_operations ta)"
  by (force simp: live_ops_def List.map_filter_def image_iff)

lemma handles_iff: "h \<in> handles ta \<longleftrightarrow> (\<exists>op. Some op \<in> set (ta_operations ta) \<and> to_handle op = h)"
  by (auto simp: handles_def set_live_ops)

lemma handles_cong [simp]: "handles (ta\<lparr>ta_rng := r\<rparr>) = handles ta"
  by (simp add: handles_def live_ops_def)

lemma op_index_ok_iff: "is_ok (op_index ta h) \<longleftrightarrow> h \<in> handles ta"
proof -
  let ?P = "\<lambda>op. case op of Some op \<Rightarrow> to_handle op = h | None \<Rightarrow> False"
  have "is_ok (op_index ta h) \<longleftrightarrow> position ?P (ta_operations ta) \<noteq> None"
    by (simp add: op_index_def is_ok_def ok_or_def split: option.splits)
  also have "\<dots> \<longleftrightarrow> (\<exists>x\<in>set (ta_operations ta). ?P x)"
    by (simp add: position_None_iff)
  also have "\<dots> \<longleftrightarrow> h \<in> handles ta"
    by (force simp: handles_iff split: option.splits)
  finally show ?thesis .
qed

section \<open>A fresh handle is found\<close>

fun rng_after :: "'r Rng \<Rightarrow> 'r \<Rightarrow> nat \<Rightarrow> 'r" where
  "rng_after R rng 0 = rng"
| "rng_after R rng (Suc n) = rng_after R (snd (next_u64 R rng)) n"

definition handle_draw :: "'r Rng \<Rightarrow> 'r \<Rightarrow> nat \<Rightarrow> i64" where
  "handle_draw R rng n = fst (next_u64 R (rng_after R rng n))"

lemma handle_draw_Suc: "handle_draw R rng (Suc n) = handle_draw R (snd (next_u64 R rng)) n"
  by (simp add: handle_draw_def)

lemma new_op_handle_unfold:
  "new_op_handle R ta =
     (let ta' = ta\<lparr>ta_rng := snd (next_u64 R (ta_rng ta))\<rparr> in
      if handle_draw R (ta_rng ta) 0 \<notin> handles ta then Some (ta', handle_draw R (ta_rng ta) 0)
      else new_op_handle R ta')"
  by (subst new_op_handle.simps)
    (simp add: Let_def op_index_ok_iff handle_draw_def split: prod.splits)

lemma new_op_handle_finds:
  "handle_draw R (ta_rng ta) n \<notin> handles ta \<Longrightarrow> \<exists>x. new_op_handle R ta = Some x"
proof (induction n arbitrary: ta)
  case 0
  then show ?case by (subst new_op_handle_unfold) simp
next
  case (Suc n)
  from Suc.IH [of "ta\<lparr>ta_rng := snd (next_u64 R (ta_rng ta))\<rparr>"] Suc.prems show ?case
    by (subst new_op_handle_unfold) (simp add: handle_draw_Suc Let_def)
qed

lemma new_op_handle_result:
  assumes "new_op_handle R ta = Some y"
  shows "\<exists>n. snd y = handle_draw R (ta_rng ta) n \<and> snd y \<notin> handles ta \<and>
         set (map (handle_draw R (ta_rng ta)) [0..<n]) \<subseteq> handles ta \<and>
         fst y = ta\<lparr>ta_rng := rng_after R (ta_rng ta) (Suc n)\<rparr>"
proof (rule new_op_handle.raw_induct [OF _ assms], goal_cases)
  case (1 f R ta y)
  let ?ta = "ta\<lparr>ta_rng := snd (next_u64 R (ta_rng ta))\<rparr>"
  show ?case
  proof (cases "handle_draw R (ta_rng ta) 0 \<in> handles ta")
    case True
    with 1(2) have "f R ?ta = Some y"
      by (simp add: Let_def op_index_ok_iff handle_draw_def split: prod.splits)
    from 1(1) [OF this] obtain n where n: "snd y = handle_draw R (ta_rng ?ta) n" "snd y \<notin> handles ?ta"
        "set (map (handle_draw R (ta_rng ?ta)) [0..<n]) \<subseteq> handles ?ta"
        "fst y = ?ta\<lparr>ta_rng := rng_after R (ta_rng ?ta) (Suc n)\<rparr>"
      by blast
    have "set (map (handle_draw R (ta_rng ta)) [0..<Suc n]) =
        insert (handle_draw R (ta_rng ta) 0) (set (map (handle_draw R (ta_rng ?ta)) [0..<n]))"
      by (simp add: map_upt_Suc handle_draw_Suc del: upt_Suc)
    with True n show ?thesis
      by (intro exI [of _ "Suc n"]) (simp add: handle_draw_Suc del: upt_Suc)
  next
    case False
    with 1(2) show ?thesis
      by (intro exI [of _ 0]) (auto simp: Let_def op_index_ok_iff handle_draw_def split: prod.splits)
  qed
qed

lemma handles_card: "finite (handles ta)" "card (handles ta) \<le> length (ta_operations ta)"
proof -
  have "card (handles ta) \<le> length (live_ops ta)"
    unfolding handles_def by (meson card_image_le card_length finite_set le_trans)
  also have "\<dots> \<le> length (ta_operations ta)"
    by (simp add: live_ops_def List.map_filter_def)
  finally show "card (handles ta) \<le> length (ta_operations ta)" .
qed (simp add: handles_def)

text \<open>
  C38: Drawing an operation handle ends exactly when the random numbers contain one that no live
  operation has, and gives the first such number, changing nothing but the generator.  As the table
  is finite, this is the case if the first draws, one more than the table has entries, are different.
\<close>

theorem fresh_handle_found:
  "(case new_op_handle R ta of
      None \<Rightarrow> range (handle_draw R (ta_rng ta)) \<subseteq> handles ta
    | Some (ta', h) \<Rightarrow> h \<notin> handles ta \<and>
        (\<exists>n. h = handle_draw R (ta_rng ta) n \<and>
             handle_draw R (ta_rng ta) ` {..<n} \<subseteq> handles ta \<and>
             ta' = ta\<lparr>ta_rng := rng_after R (ta_rng ta) (Suc n)\<rparr>)) \<and>
   (if inj_on (handle_draw R (ta_rng ta)) {..length (ta_operations ta)}
    then \<exists>x. new_op_handle R ta = Some x else True)"
proof (intro conjI)
  let ?d = "handle_draw R (ta_rng ta)"
  show "case new_op_handle R ta of
      None \<Rightarrow> range ?d \<subseteq> handles ta
    | Some (ta', h) \<Rightarrow> h \<notin> handles ta \<and>
        (\<exists>n. h = ?d n \<and> ?d ` {..<n} \<subseteq> handles ta \<and>
             ta' = ta\<lparr>ta_rng := rng_after R (ta_rng ta) (Suc n)\<rparr>)"
    using new_op_handle_finds [of R ta] new_op_handle_result [of R ta]
    by (cases "new_op_handle R ta") (auto simp: atLeast0LessThan)
  have "\<exists>n. ?d n \<notin> handles ta" if inj: "inj_on ?d {..length (ta_operations ta)}"
  proof (rule ccontr)
    assume "\<not> ?thesis"
    then have "card (?d ` {..length (ta_operations ta)}) \<le> card (handles ta)"
      by (intro card_mono handles_card) auto
    with handles_card(2) [of ta] card_image [OF inj] show False by simp
  qed
  then show "if inj_on ?d {..length (ta_operations ta)} then \<exists>x. new_op_handle R ta = Some x else True"
    using new_op_handle_finds [of R ta] by auto
qed

section \<open>What authenticates a call\<close>

text \<open>A token with a valid MAC, of a type and for a user the key accepts.\<close>

definition token_matches ::
    "('c, 'r, 's, 'd) TaEnv \<Rightarrow> ('c, 'r, 's, 'd) KeyMintTa \<Rightarrow> TaAuthInfo \<Rightarrow> TaAuthToken \<Rightarrow> bool" where
  "token_matches E ta ainfo t \<longleftrightarrow>
     device_hmac E ta (hardware_auth_token_mac_input t) = Inr (at_mac t) \<and>
     (of_int (HardwareAuthenticatorType_i32 (at_authenticator_type t)) :: u32) AND ai_auth_type ainfo \<noteq> 0 \<and>
     {at_user_id t, at_authenticator_id t} \<inter> set (ai_secure_ids ainfo) \<noteq> {}"

definition in_time :: "i64 \<Rightarrow> TaAuthToken \<Rightarrow> u32 \<Rightarrow> bool" where
  "in_time now t secs \<longleftrightarrow> sint now \<le> sint (at_timestamp t + 1000 * ucast secs)"

definition authorized ::
    "('c, 'r, 's, 'd) TaEnv \<Rightarrow> ('c, 'r, 's, 'd) KeyMintTa \<Rightarrow> 'c TaOperation \<Rightarrow> TaAuthToken option
     \<Rightarrow> TaTimeStampToken option \<Rightarrow> bool" where
  "authorized E ta op token stamp = (case to_auth_info op of
     None \<Rightarrow> True
   | Some ainfo \<Rightarrow>
       (\<exists>t. token = Some t \<and> token_matches E ta ainfo t \<and> at_challenge t = to_handle op \<and>
          (case ai_timeout_secs ainfo of
             None \<Rightarrow> True
           | Some secs \<Rightarrow> te_clock E = None \<and>
               (\<exists>s. stamp = Some s \<and> ts_challenge s = to_handle op \<and>
                    device_hmac E ta (timestamp_token_mac_input s) = Inr (ts_mac s) \<and>
                    in_time (ts_timestamp s) t secs))))"

text \<open>Authentication depends on no other part of the state than the device HMAC.\<close>

lemma auth_cong:
  assumes "ta_device_hmac ta = ta_device_hmac ta'"
  shows "authorized E ta = authorized E ta'" "check_subsequent_auth E ta = check_subsequent_auth E ta'"
    "check_auth_token E ta = check_auth_token E ta'"
proof -
  note hmac = device_hmac_cong [OF assms, of E]
  show "authorized E ta = authorized E ta'"
    by (intro ext) (simp only: authorized_def token_matches_def hmac)
  show token: "check_auth_token E ta = check_auth_token E ta'"
    by (intro ext) (simp only: check_auth_token_def verify_device_hmac_def hmac)
  show "check_subsequent_auth E ta = check_subsequent_auth E ta'"
    by (intro ext) (simp only: check_subsequent_auth_def token verify_device_hmac_def hmac)
qed

lemma auth_updates [simp]:
  "authorized E (ta\<lparr>ta_presence_required_op := x\<rparr>) = authorized E ta"
  "authorized E (ta\<lparr>ta_operations := y\<rparr>) = authorized E ta"
  "check_subsequent_auth E (ta\<lparr>ta_presence_required_op := x\<rparr>) = check_subsequent_auth E ta"
  "check_subsequent_auth E (ta\<lparr>ta_operations := y\<rparr>) = check_subsequent_auth E ta"
  by (rule auth_cong; simp)+

lemma op_index_update [simp]: "op_index (ta\<lparr>ta_presence_required_op := x\<rparr>) h = op_index ta h"
  by (simp add: op_index_def)

lemma bool_guard_iff: "res_bind r (\<lambda>ok. if \<not> ok then Inl e else k) = Inr b \<longleftrightarrow> r = Inr True \<and> k = Inr b"
  by (cases r) auto

lemma check_auth_token_iff:
  assumes "\<And>a b. te_memcmp_eq E a b \<longleftrightarrow> a = b"
  shows "check_auth_token E ta t ainfo now secs challenge = Inr () \<longleftrightarrow>
           token_matches E ta ainfo t \<and>
           (case (now, secs) of (Some now, Some secs) \<Rightarrow> in_time now t secs | _ \<Rightarrow> True) \<and>
           (case challenge of Some c \<Rightarrow> at_challenge t = c | None \<Rightarrow> True)"
  unfolding check_auth_token_def bool_guard_iff verify_device_hmac_iff [OF assms]
  by (auto simp: token_matches_def in_time_def list_ex_iff not_less split: option.splits)

lemma check_subsequent_auth_iff:
  assumes memcmp: "\<And>a b. te_memcmp_eq E a b \<longleftrightarrow> a = b"
  shows "check_subsequent_auth E ta op token stamp = Inr again \<longleftrightarrow>
           authorized E ta op token stamp \<and>
           again = (\<exists>ainfo. to_auth_info op = Some ainfo \<and> ai_timeout_secs ainfo = None)"
proof (cases "to_auth_info op")
  case None
  then show ?thesis by (auto simp: check_subsequent_auth_def authorized_def)
next
  case (Some ainfo)
  note simps = check_subsequent_auth_def authorized_def Some unit_bind_iff bool_guard_iff
    check_auth_token_iff [OF memcmp] verify_device_hmac_iff [OF memcmp] res_bind_Inr_iff ok_or_Inr_iff
  show ?thesis
    by (cases token; cases "ai_timeout_secs ainfo"; cases stamp)
      (auto simp: simps split: if_splits)
qed

lemma op_index_Inr_iff:
  "op_index ta h = Inr i \<longleftrightarrow>
     i < length (ta_operations ta) \<and>
     (\<exists>op. ta_operations ta ! i = Some op \<and> to_handle op = h) \<and>
     (\<forall>j<i. \<forall>op. ta_operations ta ! j = Some op \<longrightarrow> to_handle op \<noteq> h)"
  by (auto simp: op_index_def ok_or_Inr_iff position_Some_iff split: option.splits)

lemma op_index_Inl: "op_index ta h = Inl e \<longleftrightarrow> h \<notin> handles ta \<and> e = Error_Hal ErrorCode_InvalidOperation"
proof (cases "op_index ta h")
  case (Inl e')
  then have "e' = Error_Hal ErrorCode_InvalidOperation"
    by (auto simp: op_index_def ok_or_Inl_iff)
  with Inl op_index_ok_iff [of ta h] show ?thesis by auto
next
  case (Inr i)
  with op_index_ok_iff [of ta h] show ?thesis by auto
qed

text \<open>What is left to authenticate after an authorized call.\<close>

definition still_required :: "TaAuthInfo option \<Rightarrow> TaAuthInfo option" where
  "still_required ainfo = (case ainfo of
     Some i \<Rightarrow> if ai_timeout_secs i = None then Some i else None | None \<Rightarrow> None)"

lemma with_authed_operation_eq:
  assumes memcmp: "\<And>a b. te_memcmp_eq E a b \<longleftrightarrow> a = b" and i: "op_index ta h = Inr i"
    and op: "ta_operations ta ! i = Some op"
  shows "with_authed_operation E h token stamp f ta =
    (if authorized E ta op token stamp then
       (case f (op\<lparr>to_auth_info := still_required (to_auth_info op)\<rparr>) of
          (op, Inr a) \<Rightarrow> (ta\<lparr>ta_operations := (ta_operations ta)[i := Some op]\<rparr>, Inr a)
        | (op, Inl e) \<Rightarrow>
            (ta\<lparr>ta_presence_required_op :=
                  (if ta_presence_required_op ta = Some h then None else ta_presence_required_op ta),
                ta_operations := (ta_operations ta)[i := None]\<rparr>, Inl e))
     else (ta, Inl (projl (check_subsequent_auth E ta op token stamp))))"
proof (cases "check_subsequent_auth E ta op token stamp")
  case (Inl e)
  then have "\<not> authorized E ta op token stamp"
    using check_subsequent_auth_iff [OF memcmp, of ta op token stamp] by auto
  with Inl i op show ?thesis
    by (simp add: with_authed_operation_def)
next
  case (Inr again)
  then have a: "authorized E ta op token stamp"
      "again = (\<exists>ainfo. to_auth_info op = Some ainfo \<and> ai_timeout_secs ainfo = None)"
    using check_subsequent_auth_iff [OF memcmp, of ta op token stamp] by auto
  then have eq: "(if \<not> again then (the (ta_operations ta ! i))\<lparr>to_auth_info := None\<rparr>
      else the (ta_operations ta ! i)) = op\<lparr>to_auth_info := still_required (to_auth_info op)\<rparr>"
    using op by (cases op) (auto simp: still_required_def split: option.splits)
  from Inr i op a(1) show ?thesis
    unfolding with_authed_operation_def Let_def by (simp add: eq split del: if_split)
qed

lemma body_keeps:
  "to_auth_info (fst (update_body C p d op)) = to_auth_info op"
  "to_handle (fst (update_body C p d op)) = to_handle op"
  "to_slot_to_delete (fst (update_body C p d op)) = to_slot_to_delete op"
  "to_auth_info (fst (update_aad_body C d op)) = to_auth_info op"
  "to_handle (fst (update_aad_body C d op)) = to_handle op"
  "to_slot_to_delete (fst (update_aad_body C d op)) = to_slot_to_delete op"
  by (auto simp: update_body_def update_aad_body_def add_conf_data_def check_size_def Let_def
      split: option.splits sum.splits prod.splits CryptoOperation.splits)

text \<open>
  C4: With a comparison that is correct, a call on an operation whose key asks for authentication only
  takes effect with an auth token that has a valid MAC, is of a type and for a user the key accepts and
  names the operation as its challenge, and for a key with a timeout on a device without a clock also
  with a valid timestamp for the operation at which the token is not too old.  Otherwise updates change
  nothing but a pending presence requirement and a finish only removes the operation.  The requirement
  stays with the operation, except that a timeout is checked once.
\<close>

theorem operation_calls_authorized:
  assumes memcmp: "\<And>a b. te_memcmp_eq E a b \<longleftrightarrow> a = b"
    and op: "op_index ta h = Inr i" "ta_operations ta ! i = Some op"
  shows "if authorized E ta op token stamp then
           (case op_update E h data token stamp ta of
              (ta', Inr _) \<Rightarrow> map_option to_auth_info (ta_operations ta' ! i) =
                                 Some (still_required (to_auth_info op))
            | (ta', Inl _) \<Rightarrow> ta_operations ta' ! i = None)
         else
           (\<exists>e. op_update E h data token stamp ta =
                 (if ta_presence_required_op ta = Some h then ta\<lparr>ta_presence_required_op := None\<rparr> else ta,
                  Inl e)) \<and>
           (\<exists>e. op_update_aad E h data token stamp ta = (ta, Inl e)) \<and>
           (\<exists>e. op_finish E h fin_data sig token stamp conf ta =
                 Some (ta\<lparr>ta_operations := (ta_operations ta)[i := None]\<rparr>, Inl e))"
proof -
  let ?ta = "if ta_presence_required_op ta = Some h then ta\<lparr>ta_presence_required_op := None\<rparr> else ta"
  have i: "i < length (ta_operations ta)"
    using op by (simp add: op_index_Inr_iff)
  have same: "authorized E ?ta op token stamp = authorized E ta op token stamp"
    "op_index ?ta h = op_index ta h" "ta_operations ?ta = ta_operations ta"
    by simp_all
  note eq = with_authed_operation_eq [OF memcmp, of ?ta h i op, unfolded same, OF op]
    with_authed_operation_eq [OF memcmp op]
  have update: "op_update E h data token stamp ta =
      with_authed_operation E h token stamp
        (update_body (kb_crypto (te_kb E)) (ta_presence_required_op ta = Some h \<and> \<not> te_tup_available E)
           data) ?ta"
    by (simp add: op_update_def Let_def)
  show ?thesis
  proof (cases "authorized E ta op token stamp")
    case True
    obtain op' r where body: "update_body (kb_crypto (te_kb E))
        (ta_presence_required_op ta = Some h \<and> \<not> te_tup_available E) data
        (op\<lparr>to_auth_info := still_required (to_auth_info op)\<rparr>) = (op', r)"
      by fastforce
    with body_keeps(1) have "to_auth_info op' = still_required (to_auth_info op)"
      by (metis TaOperation.select_convs(5) TaOperation.surjective TaOperation.update_convs(5) fst_conv)
    with True i body show ?thesis
      unfolding update eq(1) same by (cases r) simp_all
  next
    case False
    have "op_finish E h fin_data sig token stamp conf ta =
        Some (ta\<lparr>ta_operations := (ta_operations ta)[i := None]\<rparr>,
              Inl (projl (check_subsequent_auth E ta op token stamp)))"
    proof (cases "check_subsequent_auth E ta op token stamp")
      case (Inl e)
      with op show ?thesis
        by (simp add: op_finish_def take_operation_def ta_lift_def)
    qed (use False check_subsequent_auth_iff [OF memcmp] in blast)
    with False show ?thesis
      by (simp add: update eq same op_update_aad_def)
  qed
qed

section \<open>Proof of presence\<close>

lemma get_bool_tag_value_member: "p \<in> set ps \<Longrightarrow> get_bool_tag_value p ps \<noteq> Inr False"
  by (auto simp: get_bool_tag_value_eq count_list_0_iff)

lemma begin_refused_while_presence_pending:
  assumes "KeyParam_TrustedUserPresenceRequired \<in> set chars" "ta_presence_required_op ta = Some h"
  shows "\<exists>e. begin_attributes E ta purpose chars slot token = Inl e"
proof -
  have "res_bind r (\<lambda>x. Inl e) \<noteq> Inr y" for r :: "Error + bool" and e :: Error and y
    by (cases r) simp_all
  with get_bool_tag_value_member [OF assms(1)] assms(2)
  have "begin_attributes E ta purpose chars slot token \<noteq> Inr x" for x
    by (cases "get_bool_tag_value KeyParam_TrustedUserPresenceRequired chars")
      (auto simp: begin_attributes_def res_bind_Inr_iff)
  then show ?thesis
    by (cases "begin_attributes E ta purpose chars slot token") auto
qed

lemma with_authed_no_presence:
  assumes memcmp: "\<And>a b. te_memcmp_eq E a b \<longleftrightarrow> a = b"
    and op: "op_index ta h = Inr i" "ta_operations ta ! i = Some op"
    and auth: "authorized E ta op token stamp"
  shows "snd (with_authed_operation E h token stamp f (ta\<lparr>ta_presence_required_op := None\<rparr>)) =
           snd (f (op\<lparr>to_auth_info := still_required (to_auth_info op)\<rparr>))"
  using op auth
  by (subst with_authed_operation_eq [OF memcmp, of _ h i op]) (simp_all split: prod.splits sum.splits)

lemma presence_missing:
  assumes memcmp: "\<And>a b. te_memcmp_eq E a b \<longleftrightarrow> a = b"
    and op: "op_index ta h = Inr i" "ta_operations ta ! i = Some op"
    and presence: "ta_presence_required_op ta = Some h" "\<not> te_tup_available E"
    and auth: "authorized E ta op token stamp"
  shows "snd (op_update E h data token stamp ta) = km_err ErrorCode_ProofOfPresenceRequired"
    and "map_option snd (op_finish E h fin_data sig token stamp conf ta) =
           Some (km_err ErrorCode_ProofOfPresenceRequired)"
proof -
  show "snd (op_update E h data token stamp ta) = km_err ErrorCode_ProofOfPresenceRequired"
    using presence
    by (simp add: op_update_def with_authed_no_presence [OF memcmp op auth] update_body_def)
  obtain again where "check_subsequent_auth E ta op token stamp = Inr again"
    using auth check_subsequent_auth_iff [OF memcmp] by blast
  with op presence show "map_option snd (op_finish E h fin_data sig token stamp conf ta) =
      Some (km_err ErrorCode_ProofOfPresenceRequired)"
    by (simp add: op_finish_def take_operation_def ta_lift_def finish_presence_def)
qed

text \<open>
  C26: An authorized update or finish of the operation that needs proof of presence fails while the
  user is not present.  But a call that is not authorized interferes: after such an update the
  operation goes on without any check of presence, and after such a finish the operation is gone while
  its requirement stays, so every operation with a key that needs presence is refused.
\<close>

theorem presence_requirement:
  assumes memcmp: "\<And>a b. te_memcmp_eq E a b \<longleftrightarrow> a = b"
    and op: "op_index ta h = Inr i" "ta_operations ta ! i = Some op"
    and presence: "ta_presence_required_op ta = Some h" "\<not> te_tup_available E"
  shows "if authorized E ta op token stamp then
           snd (op_update E h data token stamp ta) = km_err ErrorCode_ProofOfPresenceRequired \<and>
           map_option snd (op_finish E h fin_data sig token stamp conf ta) =
             Some (km_err ErrorCode_ProofOfPresenceRequired)
         else
           op_update E h data' token' stamp' (fst (op_update E h data token stamp ta)) =
             with_authed_operation E h token' stamp' (update_body (kb_crypto (te_kb E)) False data')
               (ta\<lparr>ta_presence_required_op := None\<rparr>) \<and>
           (case op_finish E h fin_data sig token stamp conf ta of
              Some (ta', Inl _) \<Rightarrow>
                ta_operations ta' ! i = None \<and> ta_presence_required_op ta' = Some h \<and>
                (if KeyParam_TrustedUserPresenceRequired \<in> set chars
                 then \<exists>e. begin_attributes E ta' purpose chars slot token' = Inl e else True)
            | _ \<Rightarrow> False)"
proof (cases "authorized E ta op token stamp")
  case True
  then show ?thesis
    using presence_missing [OF assms] by simp
next
  case False
  have i: "i < length (ta_operations ta)"
    using op by (simp add: op_index_Inr_iff)
  have "\<exists>e. op_update E h data token stamp ta = (ta\<lparr>ta_presence_required_op := None\<rparr>, Inl e)"
    using op False presence
    by (simp add: op_update_def with_authed_operation_eq [OF memcmp, of _ h i op])
  moreover obtain e where "check_subsequent_auth E ta op token stamp = Inl e"
    using False check_subsequent_auth_iff [OF memcmp] by (metis sum.exhaust)
  then have "op_finish E h fin_data sig token stamp conf ta =
      Some (ta\<lparr>ta_operations := (ta_operations ta)[i := None]\<rparr>, Inl e)"
    using op by (simp add: op_finish_def take_operation_def ta_lift_def)
  ultimately show ?thesis
    using False i presence
      begin_refused_while_presence_pending [of chars "ta\<lparr>ta_operations := (ta_operations ta)[i := None]\<rparr>" h]
    by (auto simp: op_update_def)
qed

section \<open>Verification of an HMAC\<close>

lemma begin_hmac_verify:
  "begin_hmac C key KeyPurpose_Verify chars params = Inr (CryptoOperation_HmacVerify op lo hi) \<longleftrightarrow>
     (\<exists>d min_len n. List.map_filter as_Digest params = [d] \<and> List.map_filter as_MinMacLength chars = [min_len] \<and>
        digest_len d = Inr n \<and> hmac_begin C key d = Inr op \<and> lo = unat min_len div 8 \<and> hi = unat n)"
  by (auto simp: begin_hmac_def get_digest_def res_bind_Inr_iff get_tag_value_iff)

text \<open>
  C27: An HMAC verification compares the signature with the beginning of the tag if it is as long as the
  key's minimum and no longer than the tag.  A signature that is longer than the tag in bytes but
  shorter than the tag in bits is not refused: the comparison runs past the end of the tag and panics.
\<close>

theorem hmac_verification:
  assumes memcmp: "\<And>a b. te_memcmp_eq E a b \<longleftrightarrow> a = b"
    and begin_op: "begin_hmac C key KeyPurpose_Verify chars params =
          Inr (CryptoOperation_HmacVerify op0 lo hi)"
    and tag: "acc_complete (kb_crypto (te_kb E)) data op = Inr got" "8 * length got = hi"
  shows "crypto_complete E data (Some sig) (CryptoOperation_HmacVerify op lo hi) =
           (if length sig < lo \<or> 8 * length got \<le> length sig then Some (km_err ErrorCode_InvalidArgument)
            else if length got < length sig then None
            else Some (if take (length sig) got = sig then Inr []
                       else km_err ErrorCode_VerificationFailed)) \<and>
         (\<exists>d n min_len. List.map_filter as_Digest params = [d] \<and> digest_len d = Inr n \<and>
            length got = unat n div 8 \<and> List.map_filter as_MinMacLength chars = [min_len] \<and>
            lo = unat min_len div 8)"
  using tag begin_op [unfolded begin_hmac_verify] memcmp
  by (auto simp: crypto_complete_def hmac_verify_complete_def BoringEq_eq_def not_less not_le)
    (simp flip: length_0_conv)

section \<open>An operation to run the code on\<close>

definition sample_op :: "(nat \<times> bytes) TaOperation" where
  "sample_op =
     \<lparr>to_handle = 17, to_aad_allowed = False, to_slot_to_delete = None, to_trusted_conf_data = None,
      to_auth_info = Some \<lparr>ai_secure_ids = [1], ai_auth_type = 2, ai_timeout_secs = None\<rparr>,
      to_crypto_op = CryptoOperation_EcSign (64, []), to_input_size = 0\<rparr>"

definition sample_token :: TaAuthToken where
  "sample_token = \<lparr>at_challenge = 17, at_user_id = 1, at_authenticator_id = 0,
     at_authenticator_type = HardwareAuthenticatorType_Fingerprint, at_timestamp = 0,
     at_mac = replicate 32 7\<rparr>"

definition sample_op_ta :: "(nat \<times> bytes, unit, HostSddManager, unit) KeyMintTa" where
  "sample_op_ta = (sample_ta SecurityLevel_TrustedEnvironment)
     \<lparr>ta_operations := [None, Some sample_op], ta_presence_required_op := Some 17\<rparr>"

lemma sample_op_index:
  "op_index sample_op_ta 17 = Inr 1" "ta_operations sample_op_ta ! 1 = Some sample_op"
  by (simp_all add: sample_op_ta_def op_index_def sample_op_def)

lemma sample_authorized:
  "authorized sample_ta_env sample_op_ta sample_op (Some sample_token) None"
  "\<not> authorized sample_ta_env sample_op_ta sample_op None None"
proof -
  have "device_hmac sample_ta_env sample_op_ta d = Inr (replicate 32 7)" for d
    using sample_ta_hmac [of SecurityLevel_TrustedEnvironment d]
      device_hmac_cong [of sample_op_ta "sample_ta SecurityLevel_TrustedEnvironment" sample_ta_env]
    by (simp add: sample_op_ta_def)
  then show "authorized sample_ta_env sample_op_ta sample_op (Some sample_token) None"
    by (simp add: authorized_def token_matches_def sample_op_def sample_token_def)
  show "\<not> authorized sample_ta_env sample_op_ta sample_op None None"
    by (simp add: authorized_def sample_op_def)
qed

theorem operation_calls_authorized_witness:
  "(\<exists>e. op_finish sample_ta_env 17 None None None None None sample_op_ta =
          Some (sample_op_ta\<lparr>ta_operations := [None, None]\<rparr>, Inl e)) \<and>
   (case op_update sample_ta_env 17 [1] (Some sample_token) None sample_op_ta of
      (ta', Inl _) \<Rightarrow> ta_operations ta' ! 1 = None
    | (ta', Inr _) \<Rightarrow> ta_operations ta' ! 1 \<noteq> None)"
proof -
  note auth = operation_calls_authorized [OF sample_ta_env_laws(1) sample_op_index]
  have "(ta_operations sample_op_ta)[1 := None] = [None, None]"
    by (simp add: sample_op_ta_def)
  with auth [of None None _ None None None] auth [of "Some sample_token" None "[1]"] sample_authorized
  show ?thesis by (auto split: prod.splits sum.splits)
qed

theorem presence_requirement_witness:
  "snd (op_update sample_ta_env 17 [1] (Some sample_token) None sample_op_ta) =
     km_err ErrorCode_ProofOfPresenceRequired \<and>
   op_update sample_ta_env 17 [1] (Some sample_token) None
       (fst (op_update sample_ta_env 17 [1] None None sample_op_ta)) =
     with_authed_operation sample_ta_env 17 (Some sample_token) None (update_body sample_crypto False [1])
       (sample_op_ta\<lparr>ta_presence_required_op := None\<rparr>)"
proof -
  have "ta_presence_required_op sample_op_ta = Some 17" "\<not> te_tup_available sample_ta_env"
    and C: "kb_crypto (te_kb sample_ta_env) = sample_crypto"
    by (simp_all add: sample_op_ta_def sample_ta_env_def sample_env_def)
  note p = presence_requirement [OF sample_ta_env_laws(1) sample_op_index this(1,2), unfolded C]
  from p [of "Some sample_token" None "[1]"]
    p [where token = None and stamp = None and data = "[1]" and data' = "[1]"
        and token' = "Some sample_token" and stamp' = None]
    sample_authorized
  show ?thesis by simp
qed

theorem hmac_verification_witness:
  "crypto_complete sample_ta_env (Some [1]) (Some (replicate 40 7)) (CryptoOperation_HmacVerify (32, []) 8 256)
     = None"
proof -
  have "begin_hmac sample_crypto (OpaqueOr_Explicit (Hmac_Key [1])) KeyPurpose_Verify
      [KeyParam_MinMacLength 64] [KeyParam_Digest Digest_Sha256] =
      Inr (CryptoOperation_HmacVerify (32, []) 8 256)"
    unfolding begin_hmac_verify
    by (simp add: sample_crypto_def as_Digest_def as_MinMacLength_def map_filter_simps digest_len_def)
  moreover have "acc_complete (kb_crypto (te_kb sample_ta_env)) (Some [1]) (32, []) = Inr (replicate 32 7)"
    by (simp add: acc_complete_def acc_feed_def sample_ta_env_def sample_env_def sample_crypto_def)
  ultimately show ?thesis
    using hmac_verification [OF sample_ta_env_laws(1), of sample_crypto _ _ _ _ 8 256 "Some [1]" "(32, [])"
        "replicate 32 7" "replicate 40 7"]
    by simp
qed

end
