(* ===== verification/Ta_Requests.thy ===== *)
theory Ta_Requests
  imports Ta_Operation_Safety "HOL-Library.Sublist"
begin

text \<open>
  The requests the trusted application answers (\<open>process_req_with_patchlevels\<close> of
  \<^verbatim>\<open>ta/src/lib.rs\<close>) with the calls made on it directly, and what holds of its state whatever
  sequence of them it answers.

  Left out are the requests that make keys and certificates (\<^verbatim>\<open>ta/src/keys.rs\<close>, \<^verbatim>\<open>ta/src/cert.rs\<close>), those on
  attestation ids and storage keys, and those of the remote provisioning component (\<^verbatim>\<open>ta/src/rkp.rs\<close>).
\<close>

section \<open>Requests and responses\<close>

datatype PerformOpReq =
    Req_SetBootInfo bytes bool int bytes u32
  | Req_SetHalInfo u32 u32 u32
  | Req_SetHalVersion u32
  | Req_GetSharedSecretParameters
  | Req_ComputeSharedSecret "SharedSecretParameters list"
  | Req_GenerateTimeStamp i64
  | Req_GetHardwareInfo
  | Req_AddRngEntropy bytes
  | Req_DeleteKey bytes
  | Req_DeleteAllKeys
  | Req_Begin KeyPurpose bytes "KeyParam list" "TaAuthToken option"
  | Req_EarlyBootEnded
  | Req_GetKeyCharacteristics bytes bytes bytes
  | Req_GetRootOfTrustChallenge
  | Req_GetRootOfTrust bytes
  | Req_SendRootOfTrust bytes
  | Req_SetAdditionalAttestationInfo "KeyParam list"
  | Req_UpdateAad i64 bytes "TaAuthToken option" "TaTimeStampToken option"
  | Req_Update i64 bytes "TaAuthToken option" "TaTimeStampToken option"
  | Req_Finish i64 "bytes option" "bytes option" "TaAuthToken option" "TaTimeStampToken option"
      "bytes option"
  | Req_Abort i64

record KeyMintHardwareInfo =
  hwi_version_number :: int
  hwi_security_level :: SecurityLevel
  hwi_key_mint_name :: string
  hwi_key_mint_author_name :: string
  hwi_timestamp_token_required :: bool

datatype PerformOpRsp =
    Rsp_Unit
  | Rsp_SharedSecretParameters SharedSecretParameters
  | Rsp_Bytes bytes
  | Rsp_TimeStamp TaTimeStampToken
  | Rsp_HardwareInfo KeyMintHardwareInfo
  | Rsp_Begin InternalBeginResult
  | Rsp_KeyCharacteristics "KeyCharacteristics list"

record PerformOpResponse =
  por_error_code :: int
  por_rsp :: "PerformOpRsp option"

definition op_ok_rsp :: "PerformOpRsp \<Rightarrow> PerformOpResponse" where
  "op_ok_rsp rsp = \<lparr>por_error_code = 0, por_rsp = Some rsp\<rparr>"

definition error_rsp :: "int \<Rightarrow> PerformOpResponse" where
  "error_rsp error_code = \<lparr>por_error_code = error_code, por_rsp = None\<rparr>"

text \<open>For an operation that is not one of remote provisioning.\<close>

definition op_error_rsp :: "Error \<Rightarrow> PerformOpResponse" where
  "op_error_rsp err =
     error_rsp (ErrorCode_i32 (case err of
       Error_Cbor _ \<Rightarrow> ErrorCode_InvalidArgument | Error_Hal e \<Rightarrow> e))"

definition op_rsp :: "('a \<Rightarrow> PerformOpRsp) \<Rightarrow> Error + 'a \<Rightarrow> PerformOpResponse" where
  "op_rsp f r = (case r of Inr a \<Rightarrow> op_ok_rsp (f a) | Inl e \<Rightarrow> op_error_rsp e)"

definition get_hardware_info ::
    "('c, 'r, 's, 'd) TaEnv \<Rightarrow> ('c, 'r, 's, 'd) KeyMintTa \<Rightarrow> KeyMintHardwareInfo" where
  "get_hardware_info E ta =
     \<lparr>hwi_version_number = hi_version_number (ta_hw_info ta),
      hwi_security_level = hi_security_level (ta_hw_info ta),
      hwi_key_mint_name = hi_impl_name (ta_hw_info ta),
      hwi_key_mint_author_name = hi_author_name (ta_hw_info ta),
      hwi_timestamp_token_required = (te_clock E = None)\<rparr>"

definition process_set_boot_info ::
    "('c, 'r, 's, 'd) TaEnv \<Rightarrow> bytes \<Rightarrow> bool \<Rightarrow> int \<Rightarrow> bytes \<Rightarrow> u32 \<Rightarrow> ('c, 'r, 's, 'd) KeyMintTa
     \<Rightarrow> ('c, 'r, 's, 'd) KeyMintTa \<times> (Error + unit)" where
  "process_set_boot_info E key locked state hash patchlevel ta = (case VerifiedBootState_n state of
     None \<Rightarrow> (ta, Inl (Error_Cbor CborError_OutOfRangeIntegerValue))
   | Some state \<Rightarrow>
       set_boot_info E \<lparr>verified_boot_key = key, device_boot_locked = locked, verified_boot_state = state,
                        verified_boot_hash = hash, boot_patchlevel = patchlevel\<rparr> ta)"

text \<open>The first argument is the \<open>downgrade\<close> feature of the crate.\<close>

definition process_req_with_patchlevels ::
    "bool \<Rightarrow> ('c, 'r, 's, 'd) TaEnv \<Rightarrow> PerformOpReq \<Rightarrow> RequestPatchLevels option
     \<Rightarrow> ('c, 'r, 's, 'd) KeyMintTa \<Rightarrow> (('c, 'r, 's, 'd) KeyMintTa \<times> PerformOpResponse) option" where
  "process_req_with_patchlevels downgrade E req patchlevels ta = (case req of
     Req_SetBootInfo key locked state hash patchlevel \<Rightarrow>
       Some (apsnd (op_rsp (\<lambda>_. Rsp_Unit)) (process_set_boot_info E key locked state hash patchlevel ta))
   | Req_SetHalInfo os_version os_patchlevel vendor_patchlevel \<Rightarrow>
       Some (set_hal_info \<lparr>hal_os_version = os_version, hal_os_patchlevel = os_patchlevel,
                           hal_vendor_patchlevel = vendor_patchlevel\<rparr> ta, op_ok_rsp Rsp_Unit)
   | Req_SetHalVersion aidl_version \<Rightarrow>
       Some (apsnd (op_rsp (\<lambda>_. Rsp_Unit)) (set_hal_version downgrade aidl_version ta))
   | Req_GetSharedSecretParameters \<Rightarrow>
       Some (apsnd (op_rsp Rsp_SharedSecretParameters) (get_shared_secret_params E ta))
   | Req_ComputeSharedSecret params \<Rightarrow>
       Some (apsnd (op_rsp Rsp_Bytes) (compute_shared_secret E params ta))
   | Req_GenerateTimeStamp challenge \<Rightarrow>
       Some (ta, op_rsp Rsp_TimeStamp (generate_timestamp E ta challenge))
   | Req_GetHardwareInfo \<Rightarrow> Some (ta, op_ok_rsp (Rsp_HardwareInfo (get_hardware_info E ta)))
   | Req_AddRngEntropy data \<Rightarrow> Some (apsnd (op_rsp (\<lambda>_. Rsp_Unit)) (add_rng_entropy E data ta))
   | Req_DeleteKey key_blob \<Rightarrow> map_option (apsnd (op_rsp (\<lambda>_. Rsp_Unit))) (delete_key E key_blob ta)
   | Req_DeleteAllKeys \<Rightarrow> map_option (apsnd (op_rsp (\<lambda>_. Rsp_Unit))) (delete_all_keys E ta)
   | Req_Begin purpose key_blob params auth_token \<Rightarrow>
       map_option (apsnd (op_rsp Rsp_Begin))
         (begin_operation_with_patchlevels E purpose key_blob params auth_token patchlevels ta)
   | Req_EarlyBootEnded \<Rightarrow> Some (apsnd (op_rsp (\<lambda>_. Rsp_Unit)) (early_boot_ended ta))
   | Req_GetKeyCharacteristics key_blob app_id app_data \<Rightarrow>
       map_option (\<lambda>r. (ta, op_rsp Rsp_KeyCharacteristics r))
         (get_key_characteristics_with_patchlevels E ta key_blob app_id app_data patchlevels)
   | Req_GetRootOfTrustChallenge \<Rightarrow>
       Some (apsnd (op_rsp Rsp_Bytes) (get_root_of_trust_challenge E ta))
   | Req_GetRootOfTrust challenge \<Rightarrow> Some (ta, op_rsp Rsp_Bytes (get_root_of_trust E ta challenge))
   | Req_SendRootOfTrust rot_msg \<Rightarrow>
       Some (apsnd (op_rsp (\<lambda>_. Rsp_Unit)) (send_root_of_trust E rot_msg ta))
   | Req_SetAdditionalAttestationInfo params \<Rightarrow>
       Some (apsnd (op_rsp (\<lambda>_. Rsp_Unit)) (set_additional_attestation_info params ta))
   | Req_UpdateAad op_handle data auth_token timestamp_token \<Rightarrow>
       Some (apsnd (op_rsp (\<lambda>_. Rsp_Unit)) (op_update_aad E op_handle data auth_token timestamp_token ta))
   | Req_Update op_handle data auth_token timestamp_token \<Rightarrow>
       Some (apsnd (op_rsp Rsp_Bytes) (op_update E op_handle data auth_token timestamp_token ta))
   | Req_Finish op_handle data signature auth_token timestamp_token confirmation_token \<Rightarrow>
       map_option (apsnd (op_rsp Rsp_Bytes))
         (op_finish E op_handle data signature auth_token timestamp_token confirmation_token ta)
   | Req_Abort op_handle \<Rightarrow> Some (apsnd (op_rsp (\<lambda>_. Rsp_Unit)) (op_abort op_handle ta)))"

section \<open>The invariant\<close>

definition is_gcm :: "'c CryptoOperation \<Rightarrow> bool" where
  "is_gcm op = (case op of CryptoOperation_AesGcm _ \<Rightarrow> True | _ \<Rightarrow> False)"

text \<open>
  Only AEADs take additional data, and the data a confirmation is checked against starts with the
  prefix of confirmations and is bounded.
\<close>

definition op_ok :: "'c TaOperation \<Rightarrow> bool" where
  "op_ok op \<longleftrightarrow>
     (to_aad_allowed op \<longrightarrow> is_gcm (to_crypto_op op)) \<and>
     (case to_trusted_conf_data op of
        None \<Rightarrow> True
      | Some d \<Rightarrow> prefix CONFIRMATION_DATA_PREFIX d \<and>
          length d \<le> length CONFIRMATION_DATA_PREFIX + CONFIRMATION_MESSAGE_MAX_LEN)"

text \<open>The root of trust that keys are bound to is that of the boot information.\<close>

definition rot_of :: "'c KbEnv \<Rightarrow> BootInfo \<Rightarrow> CborError + bytes" where
  "rot_of K b = into_vec K RootOfTrustInfo_to_cbor_value
     \<lparr>rot_verified_boot_key = verified_boot_key b, rot_device_boot_locked = device_boot_locked b,
      rot_verified_boot_state = verified_boot_state b\<rparr>"

definition rot_bound :: "'c KbEnv \<Rightarrow> bytes option \<Rightarrow> BootInfo option \<Rightarrow> bool" where
  "rot_bound K rot boot \<longleftrightarrow> rot = None \<or> (\<exists>b d. boot = Some b \<and> rot = Some d \<and> rot_of K b = Inr d)"

definition ta_ok :: "'c KbEnv \<Rightarrow> ('c, 'r, 's, 'd) KeyMintTa \<Rightarrow> bool" where
  "ta_ok K ta \<longleftrightarrow>
     length (ta_operations ta) = max_operations (ta_hw_info ta) \<and>
     distinct (map to_handle (live_ops ta)) \<and> list_all op_ok (live_ops ta) \<and>
     use_count_wf (ta_use_count ta) \<and>
     distinct (map KeyParam_tag (ta_additional_attestation_info ta)) \<and>
     KeyParam_tag ` set (ta_additional_attestation_info ta) \<subseteq> set ALLOWED_ADDITIONAL_ATTESTATION_TAGS \<and>
     rot_bound K (ta_rot_data ta) (ta_boot_info ta)"

section \<open>What never changes again\<close>

definition latched :: "'a option \<Rightarrow> 'a option \<Rightarrow> bool" where
  "latched old new \<longleftrightarrow> old = None \<or> new = old"

definition uses_le :: "(bytes \<Rightarrow> u64 option) \<Rightarrow> (bytes \<Rightarrow> u64 option) \<Rightarrow> bool" where
  "uses_le m m' \<longleftrightarrow> (\<forall>k c. m k = Some c \<longrightarrow> (\<exists>c'. m' k = Some c' \<and> c \<le> c'))"

definition ta_evolves :: "('c, 'r, 's, 'd) KeyMintTa \<Rightarrow> ('c, 'r, 's, 'd) KeyMintTa \<Rightarrow> bool" where
  "ta_evolves ta ta' \<longleftrightarrow>
     ta_hw_info ta' = ta_hw_info ta \<and>
     latched (ta_rot_data ta) (ta_rot_data ta') \<and>
     latched (map_option (\<lambda>b. b\<lparr>boot_patchlevel := 0\<rparr>) (ta_boot_info ta))
       (map_option (\<lambda>b. b\<lparr>boot_patchlevel := 0\<rparr>) (ta_boot_info ta')) \<and>
     latched (map_option hal_os_version (ta_hal_info ta)) (map_option hal_os_version (ta_hal_info ta')) \<and>
     (ta_in_early_boot ta' \<longrightarrow> ta_in_early_boot ta) \<and>
     prefix (ta_additional_attestation_info ta) (ta_additional_attestation_info ta') \<and>
     (ta_boot_info ta \<noteq> None \<and> ta_rot_data ta = None \<longrightarrow> ta_rot_data ta' = None) \<and>
     uses_le (uses (ta_use_count ta)) (uses (ta_use_count ta'))"

lemma latched_trans: "latched a b \<Longrightarrow> latched b c \<Longrightarrow> latched a c"
  by (auto simp: latched_def)

lemma latched_refl [simp]: "latched a a"
  by (simp add: latched_def)

lemma uses_le_refl [simp]: "uses_le m m"
  by (auto simp: uses_le_def)

lemma uses_le_trans: "uses_le a b \<Longrightarrow> uses_le b c \<Longrightarrow> uses_le a c"
  unfolding uses_le_def by (meson order_trans)

lemma ta_evolves_refl [simp]: "ta_evolves ta ta"
  by (simp add: ta_evolves_def)

lemma boot_info_latched_None:
  "latched (map_option f a) (map_option f b) \<Longrightarrow> a \<noteq> None \<Longrightarrow> b \<noteq> None"
  by (auto simp: latched_def)

lemma ta_evolves_trans:
  assumes "ta_evolves a b" "ta_evolves b c"
  shows "ta_evolves a c"
proof -
  note ab = assms(1) [unfolded ta_evolves_def] and bc = assms(2) [unfolded ta_evolves_def]
  have "ta_boot_info a \<noteq> None \<Longrightarrow> ta_boot_info b \<noteq> None"
    using ab boot_info_latched_None by blast
  then show ?thesis
    unfolding ta_evolves_def
    using ab bc by (auto intro: latched_trans uses_le_trans prefix_order.trans)
qed

text \<open>Calls that keep the invariant and what is latched.\<close>

definition ta_safe :: "'c KbEnv \<Rightarrow> ('c, 'r, 's, 'd) KeyMintTa \<Rightarrow> (('c, 'r, 's, 'd) KeyMintTa \<times> 'a) option \<Rightarrow> bool" where
  "ta_safe K ta m \<longleftrightarrow> (case m of None \<Rightarrow> True | Some (ta', _) \<Rightarrow> ta_ok K ta' \<and> ta_evolves ta ta')"

lemma ta_safe_simps [simp]:
  "ta_safe K ta None" "ta_safe K ta (Some (ta', r)) \<longleftrightarrow> ta_ok K ta' \<and> ta_evolves ta ta'"
  "ta_safe K ta (map_option (apsnd f) m) \<longleftrightarrow> ta_safe K ta m"
  by (auto simp: ta_safe_def split: option.splits)

lemma ta_safe_bind:
  assumes "ta_safe K ta m"
    and "\<And>ta1 a. m = Some (ta1, Inr a) \<Longrightarrow> ta_ok K ta1 \<Longrightarrow> ta_safe K ta1 (f ta1 a)"
  shows "ta_safe K ta (ta_bind m f)"
  using assms unfolding ta_safe_def ta_bind_def
  by (fastforce split: option.splits sum.splits prod.splits intro: ta_evolves_trans)

lemma ta_safe_lift: "ta_ok K ta \<Longrightarrow> ta_safe K ta (ta_lift ta r)"
  by (simp add: ta_lift_def)

section \<open>The operation table\<close>

lemma live_ops_update:
  assumes "i < length (ta_operations ta)"
  obtains P Q where "\<And>x. live_ops (ta\<lparr>ta_operations := (ta_operations ta)[i := x]\<rparr>) =
      P @ (case x of None \<Rightarrow> [] | Some op \<Rightarrow> [op]) @ Q"
proof
  fix x
  show "live_ops (ta\<lparr>ta_operations := (ta_operations ta)[i := x]\<rparr>) =
      List.map_filter id (take i (ta_operations ta)) @ (case x of None \<Rightarrow> [] | Some op \<Rightarrow> [op]) @
      List.map_filter id (drop (Suc i) (ta_operations ta))"
    using assms by (simp add: live_ops_def upd_conv_take_nth_drop map_filter_append map_filter_simps
        split: option.splits)
qed

lemma ta_ok_table:
  assumes ok: "ta_ok K ta" and i: "i < length (ta_operations ta)"
    and x: "case x of None \<Rightarrow> True
            | Some op \<Rightarrow> op_ok op \<and>
                (ta_operations ta ! i = None \<and> to_handle op \<notin> handles ta \<or>
                 (\<exists>old. ta_operations ta ! i = Some old \<and> to_handle op = to_handle old))"
  shows "ta_ok K (ta\<lparr>ta_operations := (ta_operations ta)[i := x]\<rparr>)"
proof -
  obtain P Q where PQ: "\<And>x. live_ops (ta\<lparr>ta_operations := (ta_operations ta)[i := x]\<rparr>) =
      P @ (case x of None \<Rightarrow> [] | Some op \<Rightarrow> [op]) @ Q"
    using live_ops_update [OF i] by blast
  have self: "live_ops ta = P @ (case ta_operations ta ! i of None \<Rightarrow> [] | Some op \<Rightarrow> [op]) @ Q"
    using PQ [of "ta_operations ta ! i"] by simp
  have "distinct (map to_handle (P @ (case x of None \<Rightarrow> [] | Some op \<Rightarrow> [op]) @ Q)) \<and>
      list_all op_ok (P @ (case x of None \<Rightarrow> [] | Some op \<Rightarrow> [op]) @ Q)"
    using ok x self
    by (auto simp: ta_ok_def handles_def split: option.splits)
  with ok PQ show ?thesis
    by (simp add: ta_ok_def)
qed

section \<open>Every call is safe\<close>

locale ta_call =
  fixes K :: "'c KbEnv"
    and call :: "('c, 'r, 's, 'd) KeyMintTa \<Rightarrow> (('c, 'r, 's, 'd) KeyMintTa \<times> 'a) option"
  assumes safe: "ta_ok K ta \<Longrightarrow> ta_safe K ta (call ta)"
begin

lemma keeps_ok: "ta_ok K ta \<Longrightarrow> call ta = Some (ta', r) \<Longrightarrow> ta_ok K ta'"
  using safe [of ta] by simp

lemma evolves: "ta_ok K ta \<Longrightarrow> call ta = Some (ta', r) \<Longrightarrow> ta_evolves ta ta'"
  using safe [of ta] by simp

lemma safe_rsp: "ta_ok K ta \<Longrightarrow> ta_safe K ta (map_option (apsnd f) (call ta))"
  using safe [of ta] by simp

end

lemma ta_frame:
  assumes "ta_ok K ta" "ta_hw_info ta' = ta_hw_info ta" "ta_operations ta' = ta_operations ta"
    "ta_use_count ta' = ta_use_count ta"
    "ta_additional_attestation_info ta' = ta_additional_attestation_info ta"
    "ta_rot_data ta' = ta_rot_data ta" "ta_boot_info ta' = ta_boot_info ta"
    "ta_hal_info ta' = ta_hal_info ta" "ta_in_early_boot ta' = ta_in_early_boot ta"
  shows "ta_ok K ta' \<and> ta_evolves ta ta'"
  using assms by (simp add: ta_ok_def ta_evolves_def live_ops_def)

lemma ta_ok_table_evolves: "ta_evolves ta (ta\<lparr>ta_operations := ops\<rparr>)"
  by (simp add: ta_evolves_def)

interpretation boot: ta_call "te_kb E" "\<lambda>ta. Some (set_boot_info E b ta)" for E b
  by unfold_locales
    (auto simp: set_boot_info_def Let_def ta_ok_def ta_evolves_def live_ops_def rot_bound_def rot_of_def
      latched_def split: option.splits sum.splits)

interpretation process_boot: ta_call "te_kb E" "\<lambda>ta. Some (process_set_boot_info E k l st h p ta)"
  for E k l st h p
  by unfold_locales
    (use boot.safe [of E] in \<open>auto simp: process_set_boot_info_def split: option.splits\<close>)

interpretation hal: ta_call K "\<lambda>ta. Some (set_hal_info h ta, r)" for K h r
  by unfold_locales (auto simp: set_hal_info_def ta_ok_def ta_evolves_def live_ops_def latched_def)

interpretation patchlevels: ta_call K "\<lambda>ta. Some (update_patchlevels os vendor boot ta)" for K os vendor boot
  by unfold_locales
    (auto simp: update_patchlevels_def ta_ok_def ta_evolves_def live_ops_def rot_bound_def rot_of_def
      latched_def split: option.splits)

interpretation hal_version: ta_call K "\<lambda>ta. Some (set_hal_version downgrade v ta)" for K downgrade v
  by unfold_locales
    (simp add: set_hal_version_def ta_frame split: option.splits)

interpretation early_boot: ta_call K "\<lambda>ta. Some (early_boot_ended ta)" for K
  by unfold_locales (simp add: early_boot_ended_def ta_ok_def ta_evolves_def live_ops_def)

interpretation entropy: ta_call K "\<lambda>ta. Some (add_rng_entropy E d ta)" for K E d
  by unfold_locales (simp add: add_rng_entropy_def ta_frame)

interpretation hmac_key: ta_call K "\<lambda>ta. Some (set_device_hmac_key k ta)" for K k
  by unfold_locales (simp add: set_device_hmac_key_def set_device_hmac_def ta_frame)

interpretation secret_params: ta_call K "\<lambda>ta. Some (set_shared_secret_params ps ta)" for K ps
  by unfold_locales (simp add: set_shared_secret_params_def ta_frame)

interpretation get_secret_params: ta_call K "\<lambda>ta. Some (get_shared_secret_params E ta)" for K E
  by unfold_locales (auto simp: get_shared_secret_params_def Let_def ta_frame split: option.splits prod.splits)

interpretation secret: ta_call K "\<lambda>ta. Some (compute_shared_secret E ps ta)" for K E ps
  by unfold_locales
    (auto simp: compute_shared_secret_def Let_def set_device_hmac_def ta_frame split: option.splits sum.splits)

interpretation rot_challenge: ta_call K "\<lambda>ta. Some (get_root_of_trust_challenge E ta)" for K E
  by unfold_locales (auto simp: get_root_of_trust_challenge_def ta_frame split: prod.splits)

interpretation send_rot: ta_call K "\<lambda>ta. Some (send_root_of_trust E msg ta)" for K E msg
  by unfold_locales
    (auto simp: send_root_of_trust_def ta_ok_def ta_evolves_def live_ops_def rot_bound_def latched_def
      split: sum.splits)

interpretation del_key: ta_call K "\<lambda>ta. delete_key E blob ta" for K E blob
  by unfold_locales
    (auto simp: delete_key_def ta_safe_def ta_frame split: sum.splits EncryptedKeyBlob.splits option.splits)

interpretation del_all: ta_call K "\<lambda>ta. delete_all_keys E ta" for K E
  by unfold_locales (auto simp: delete_all_keys_def ta_safe_def ta_frame split: option.splits)

lemma find_tag_None:
  "List.find (\<lambda>x. KeyParam_tag x = t) ps = None \<longleftrightarrow> t \<notin> KeyParam_tag ` set ps"
  by (auto simp: find_None_iff)

interpretation attest: ta_call K "\<lambda>ta. Some (set_additional_attestation_info ps ta)" for K ps
proof (unfold_locales, induction ps)
  case (Cons p ps ta)
  let ?ta = "ta\<lparr>ta_additional_attestation_info := ta_additional_attestation_info ta @ [p]\<rparr>"
  show ?case
  proof (cases "List.find (\<lambda>x. KeyParam_tag x = KeyParam_tag p) (ta_additional_attestation_info ta)")
    case None
    show ?thesis
    proof (cases "KeyParam_tag p \<in> set ALLOWED_ADDITIONAL_ATTESTATION_TAGS")
      case True
      with Cons.prems None have ok: "ta_ok K ?ta" and ev: "ta_evolves ta ?ta"
        by (auto simp: find_tag_None ta_ok_def ta_evolves_def live_ops_def)
      have "ta_safe K ?ta (Some (set_additional_attestation_info ps ?ta))"
        using ok by (rule Cons.IH)
      with ev True None show ?thesis
        by (cases "set_additional_attestation_info ps ?ta") (auto intro: ta_evolves_trans)
    qed (use Cons in simp)
  qed (use Cons in \<open>simp add: Let_def\<close>)
qed simp

lemma count_use_le: "uses_le m (fst (count_use k l m))"
proof -
  have "c \<le> c + 1" if "\<not> ucast l \<le> c" for c :: u64
    using that unat_lt2p_u32 [of l] ucast_le_count [of l c]
    by (simp add: word_le_nat_alt unat_word_ariths)
  then show ?thesis
    by (auto simp: count_use_def uses_le_def split: option.splits)
qed

interpretation begin_auths: ta_call K "\<lambda>ta. Some (check_begin_auths E chars blob ta)" for K E chars blob
proof
  fix ta :: "('a, 'b, 'c, 'd) KeyMintTa"
  assume ok: "ta_ok K ta"
  then have wf: "use_count_wf (ta_use_count ta)"
    by (simp add: ta_ok_def)
  have count: "ta_ok K (ta\<lparr>ta_use_count := entries\<rparr>) \<and> ta_evolves ta (ta\<lparr>ta_use_count := entries\<rparr>)"
    if "update_use_count k m (ta_use_count ta) = (entries, r)" for k m entries r
    using use_count_step [OF wf, of k m] that count_use_le [of "uses (ta_use_count ta)" k m] ok
    by (auto simp: ta_ok_def ta_evolves_def live_ops_def) (metis fst_conv)
  show "ta_safe K ta (Some (check_begin_auths E chars blob ta))"
    unfolding check_begin_auths_def
    using ok count by (auto split: sum.splits option.splits prod.splits)
qed

section \<open>Calls on operations\<close>

lemma op_ok_update_aad: "op_ok op \<Longrightarrow> op_ok (fst (update_aad_body C d op))"
  by (auto simp: update_aad_body_def op_ok_def is_gcm_def split: CryptoOperation.splits prod.splits)

lemma op_ok_conf: "op_ok op \<Longrightarrow> add_conf_data d op = Inr op' \<Longrightarrow> op_ok op'"
  by (auto simp: add_conf_data_def op_ok_def split: option.splits if_splits)

lemma op_ok_update: "op_ok op \<Longrightarrow> op_ok (fst (update_body C p d op))"
  using op_ok_conf [of op d]
  by (fastforce simp: update_body_def check_size_def Let_def op_ok_def split: sum.splits prod.splits)

lemma with_authed_safe:
  assumes ok: "ta_ok K ta"
    and f: "\<And>op. op_ok op \<Longrightarrow> op_ok (fst (f op)) \<and> to_handle (fst (f op)) = to_handle op"
  shows "ta_safe K ta (Some (with_authed_operation E h token stamp f ta))"
proof (cases "op_index ta h")
  case (Inr i)
  then obtain op where op: "i < length (ta_operations ta)" "ta_operations ta ! i = Some op"
    by (auto simp: op_index_Inr_iff)
  then have "op_ok op"
    using ok nth_mem [OF op(1)] by (auto simp: ta_ok_def list_all_iff set_live_ops)
  then have a: "op_ok (op\<lparr>to_auth_info := a\<rparr>)" for a
    by (simp add: op_ok_def)
  have table: "ta_ok K (ta\<lparr>ta_operations := (ta_operations ta)[i := x]\<rparr>)"
    if "x = None \<or> (\<exists>a. x = Some (fst (f (op\<lparr>to_auth_info := a\<rparr>))))" for x
    using that op f [OF a] by (intro ta_ok_table [OF ok op(1)]) (auto split: option.splits)
  have gone: "ta_ok K (ta\<lparr>ta_presence_required_op := y, ta_operations := (ta_operations ta)[i := None]\<rparr>)
      \<and> ta_evolves ta (ta\<lparr>ta_presence_required_op := y, ta_operations := (ta_operations ta)[i := None]\<rparr>)" for y
    using table [of None] by (simp add: ta_ok_def ta_evolves_def live_ops_def)
  show ?thesis
  proof (cases "check_subsequent_auth E ta op token stamp")
    case (Inr again)
    define op1 where "op1 = op\<lparr>to_auth_info := if again then to_auth_info op else None\<rparr>"
    have eq: "(if \<not> again then (the (ta_operations ta ! i))\<lparr>to_auth_info := None\<rparr>
        else the (ta_operations ta ! i)) = op1"
      using op by (cases op) (simp add: op1_def)
    obtain op' r where "f op1 = (op', r)"
      by fastforce
    moreover have "ta_ok K (ta\<lparr>ta_operations := (ta_operations ta)[i := Some (fst (f op1))]\<rparr>)"
      unfolding op1_def by (intro table) blast
    ultimately show ?thesis
      using \<open>op_index ta h = Inr i\<close> op Inr gone
      unfolding with_authed_operation_def Let_def
      by (cases r) (simp_all add: eq ta_ok_table_evolves split del: if_split)
  qed (use ok op \<open>op_index ta h = Inr i\<close> in \<open>simp add: with_authed_operation_def\<close>)
qed (use ok in \<open>simp add: with_authed_operation_def\<close>)

lemma ta_safe_presence:
  "ta_ok K ta \<Longrightarrow> ta_safe K (ta\<lparr>ta_presence_required_op := x\<rparr>) m \<Longrightarrow> ta_safe K ta m"
  by (auto simp: ta_safe_def ta_ok_def ta_evolves_def split: option.splits)

lemma ta_ok_presence [simp]: "ta_ok K (ta\<lparr>ta_presence_required_op := x\<rparr>) \<longleftrightarrow> ta_ok K ta"
  by (simp add: ta_ok_def live_ops_def)

interpretation aad: ta_call K "\<lambda>ta. Some (op_update_aad E h d token stamp ta)" for K E h d token stamp
  by unfold_locales
    (simp add: op_update_aad_def with_authed_safe op_ok_update_aad body_keeps del: ta_safe_simps)

lemma update_safe:
  "ta_ok K ta \<Longrightarrow> ta_safe K ta (Some (with_authed_operation E h token stamp (update_body C p d) ta))"
  by (rule with_authed_safe) (simp_all add: op_ok_update body_keeps)

lemma safe_cleared:
  assumes "\<And>ta. ta_ok K ta \<Longrightarrow> ta_safe K ta (Some (g ta))" "ta_ok K ta"
  shows "ta_safe K ta (Some (g (if c then ta\<lparr>ta_presence_required_op := None\<rparr> else ta)))"
proof (cases c)
  case True
  have "ta_safe K (ta\<lparr>ta_presence_required_op := None\<rparr>) (Some (g (ta\<lparr>ta_presence_required_op := None\<rparr>)))"
    using assms by simp
  then have "ta_safe K ta (Some (g (ta\<lparr>ta_presence_required_op := None\<rparr>)))"
    by (rule ta_safe_presence [OF assms(2)])
  with True show ?thesis by simp
qed (use assms in simp)

interpretation upd: ta_call K "\<lambda>ta. Some (op_update E h d token stamp ta)" for K E h d token stamp
  by unfold_locales (auto simp only: op_update_def Let_def intro: safe_cleared [OF update_safe])

lemma take_operation_safe:
  assumes "ta_ok K ta"
  shows "ta_safe K ta (Some (take_operation h ta))"
proof (cases "op_index ta h")
  case (Inr i)
  then have "i < length (ta_operations ta)"
    by (simp add: op_index_Inr_iff)
  with Inr assms show ?thesis
    by (simp add: take_operation_def ta_ok_table ta_ok_table_evolves)
qed (use assms in \<open>simp add: take_operation_def\<close>)

lemma ta_safe_result: "ta_safe K ta (Some (apsnd f x)) \<longleftrightarrow> ta_safe K ta (Some x)"
  by (cases x) simp

lemma op_abort_eq:
  "op_abort h ta = apsnd (map_ok (\<lambda>_. ())) (take_operation h
     (if ta_presence_required_op ta = Some h then ta\<lparr>ta_presence_required_op := None\<rparr> else ta))"
  by (simp add: op_abort_def Let_def apsnd_def map_prod_def split: prod.splits)

interpretation abort: ta_call K "\<lambda>ta. Some (op_abort h ta)" for K h
  by unfold_locales
    (auto simp only: op_abort_eq ta_safe_result intro: safe_cleared [OF take_operation_safe])

lemma finish_presence_safe: "ta_ok K ta \<Longrightarrow> ta_safe K ta (Some (finish_presence E h ta))"
  by (simp add: finish_presence_def ta_evolves_def)

lemma delete_single_use_safe:
  "ta_ok K ta \<Longrightarrow> ta_safe K ta (map_option (\<lambda>ta. (ta, r)) (delete_single_use E slot ta))"
  by (auto simp: delete_single_use_def ta_safe_def ta_frame split: option.splits)

interpretation finish: ta_call K "\<lambda>ta. op_finish E h data sig token stamp conf ta"
  for K E h data sig token stamp conf
proof
  fix ta :: "('a, 'b, 'c, 'd) KeyMintTa"
  assume ok: "ta_ok K ta"
  show "ta_safe K ta (op_finish E h data sig token stamp conf ta)"
    unfolding op_finish_def
    by (intro ta_safe_bind take_operation_safe ta_safe_lift finish_presence_safe ok)
      (auto split: option.splits sum.splits intro!: ta_safe_bind ta_safe_lift delete_single_use_safe)
qed

section \<open>Beginning an operation\<close>

lemma begin_aes_aad:
  assumes "begin_aes C R key purpose params rng = (rng', Inr (aad, op, ps))" "aad"
  shows "is_gcm op"
proof -
  have "(case mode of
       Aes_Mode_Cipher m \<Rightarrow> map_ok (\<lambda>op. (False, CryptoOperation_Aes op, ret)) (aes_begin C key m dir)
     | Aes_Mode_Aead m \<Rightarrow> map_ok (\<lambda>op. (True, CryptoOperation_AesGcm op, ret)) (aes_begin_aead C key m dir))
      = Inr (aad, op, ps) \<Longrightarrow> is_gcm op" for mode ret dir
    using assms(2) by (cases mode) (auto simp: map_ok_Inr_iff is_gcm_def)
  with assms(1) show ?thesis
    unfolding begin_aes_def Let_def by (auto simp: res_bind_Inr_iff split: sum.splits prod.splits)
qed

lemma begin_crypto_aad:
  "begin_crypto C R key purpose chars params rng = (rng', Inr (aad, op, ps)) \<Longrightarrow> aad \<Longrightarrow> is_gcm op"
  by (cases key)
    (auto simp: begin_crypto_def begin_des_def is_gcm_def Let_def res_bind_Inr_iff map_ok_Inr_iff
      dest: begin_aes_aad split: sum.splits prod.splits)

lemma begin_attributes_conf:
  "begin_attributes E ta purpose chars slot token = Inr (conf, s, p, a) \<Longrightarrow>
     conf = None \<or> conf = Some CONFIRMATION_DATA_PREFIX"
  by (auto simp: begin_attributes_def res_bind_Inr_iff split: if_splits)

lemma check_begin_auths_operations:
  "ta_operations (fst (check_begin_auths E chars blob ta)) = ta_operations ta"
  by (simp add: check_begin_auths_def split: sum.splits option.splits prod.splits)

lemma store_operation_safe:
  assumes "ta_ok K ta" "i < length (ta_operations ta)" "ta_operations ta ! i = None"
    "to_handle op \<notin> handles ta" "op_ok op"
  shows "ta_safe K ta (Some (if p then ta\<lparr>ta_operations := (ta_operations ta)[i := Some op],
      ta_presence_required_op := Some h\<rparr> else ta\<lparr>ta_operations := (ta_operations ta)[i := Some op]\<rparr>, r))"
proof -
  have "ta_ok K (ta\<lparr>ta_operations := (ta_operations ta)[i := Some op]\<rparr>)"
    using assms by (intro ta_ok_table) auto
  then show ?thesis
    by (simp add: ta_ok_def ta_evolves_def live_ops_def)
qed

lemma new_op_handle_safe:
  assumes "ta_ok K ta"
  shows "ta_safe K ta (map_option (\<lambda>(ta, h). (ta, Inr h)) (new_op_handle R ta))"
  using new_op_handle_result [of R ta] assms ta_frame
  by (cases "new_op_handle R ta") (auto simp: ta_frame)

lemma begin_crypto_safe:
  assumes "ta_ok K ta"
  shows "ta_safe K ta (case begin_crypto C R key purpose chars params (ta_rng ta) of
           (rng, r) \<Rightarrow> Some (ta\<lparr>ta_rng := rng\<rparr>, r))"
  using assms by (simp add: ta_frame split: prod.splits)

text \<open>The part of \<open>begin_operation\<close> after the checks.\<close>

lemma begin_tail_safe:
  assumes ok: "ta_ok K ta" and i: "i < length (ta_operations ta)" "ta_operations ta ! i = None"
  shows "ta_safe K ta
    (ta_bind (ta_lift ta (begin_attributes E ta purpose chars slot token)) (\<lambda>ta (conf, del, presence, auth).
     ta_bind (map_option (\<lambda>(ta, h). (ta, Inr h)) (new_op_handle R ta)) (\<lambda>ta h.
     ta_bind (case begin_crypto C R key purpose chars params (ta_rng ta) of
                (rng, r) \<Rightarrow> Some (ta\<lparr>ta_rng := rng\<rparr>, r)) (\<lambda>ta (aad, crypto_op, ret).
       let op = \<lparr>to_handle = h, to_aad_allowed = aad, to_slot_to_delete = del, to_trusted_conf_data = conf,
                 to_auth_info = auth, to_crypto_op = crypto_op, to_input_size = 0\<rparr>;
           ta = ta\<lparr>ta_operations := (ta_operations ta)[i := Some op]\<rparr>;
           ta = (if presence then ta\<lparr>ta_presence_required_op := Some h\<rparr> else ta)
       in Some (ta, Inr (\<lparr>br_challenge = h, br_params = ret, br_op_handle = h\<rparr>))))))"
proof (rule ta_safe_bind [OF ta_safe_lift [OF ok]], goal_cases)
  case (1 ta0 attrs)
  obtain conf del presence auth where attrs: "attrs = (conf, del, presence, auth)"
    by (cases attrs)
  with 1 have ta0: "ta0 = ta" and conf: "conf = None \<or> conf = Some CONFIRMATION_DATA_PREFIX"
    by (auto simp: ta_lift_def dest: begin_attributes_conf)
  show ?case
    unfolding ta0 attrs prod.case
  proof (rule ta_safe_bind [OF new_op_handle_safe [OF ok]], goal_cases)
    case (1 ta1 h)
    then have "new_op_handle R ta = Some (ta1, h)"
      by auto
    from new_op_handle_result [OF this]
    have h: "h \<notin> handles ta" and ops1: "ta_operations ta1 = ta_operations ta"
      by auto
    show ?case
    proof (rule ta_safe_bind [OF begin_crypto_safe [OF 1(2)]], goal_cases)
      case (1 ta2 out)
      obtain aad crypto_op ret where out: "out = (aad, crypto_op, ret)"
        by (cases out)
      with 1(1) have ops2: "ta_operations ta2 = ta_operations ta" and gcm: "aad \<Longrightarrow> is_gcm crypto_op"
        using ops1 begin_crypto_aad [of C R key purpose chars params "ta_rng ta1" _ aad crypto_op ret]
        by (auto split: prod.splits)
      have "op_ok \<lparr>to_handle = h, to_aad_allowed = aad, to_slot_to_delete = del, to_trusted_conf_data = conf,
          to_auth_info = auth, to_crypto_op = crypto_op, to_input_size = 0\<rparr>"
        using conf gcm by (auto simp: op_ok_def)
      moreover have "h \<notin> handles ta2"
        using h ops2 by (simp add: handles_def live_ops_def)
      ultimately show ?case
        unfolding out prod.case Let_def
        by (intro store_operation_safe) (use 1(2) i ops2 in simp_all)
    qed
  qed
qed

interpretation begin_op: ta_call K "\<lambda>ta. begin_operation_with_patchlevels E purpose blob params token pl ta"
  for K E purpose blob params token pl
proof
  fix ta :: "('a, 'b, 'c, 'd) KeyMintTa"
  assume ok: "ta_ok K ta"
  show "ta_safe K ta (begin_operation_with_patchlevels E purpose blob params token pl ta)"
    unfolding begin_operation_with_patchlevels_def
  proof (intro ta_safe_bind [OF ta_safe_lift [OF ok]], goal_cases)
    case (1 ta0 i)
    then have i: "ta0 = ta" "i < length (ta_operations ta)" "ta_operations ta ! i = None"
      by (auto simp: ta_lift_def new_operation_index_def ok_or_Inr_iff position_Some_iff)
    show ?case
      unfolding i(1)
    proof (rule ta_safe_bind, goal_cases)
      case 1 show ?case using ok by (cases "keyblob_parse_decrypt_with_patchlevels E ta blob params pl") auto
    next
      case (2 ta0 kb)
      then have 20: "ta0 = ta" by auto
      obtain keyblob slot where kb: "kb = (keyblob, slot)" by fastforce
      show ?case
        unfolding 20 kb prod.case
      proof (rule ta_safe_bind [OF ta_safe_lift [OF ok]], goal_cases)
        case (1 ta0 chars)
        then have 10: "ta0 = ta" by (simp add: ta_lift_def)
        show ?case
          unfolding 10
        proof (rule ta_safe_bind [OF begin_auths.safe [OF ok]], goal_cases)
          case (1 ta1 u)
          then have ops: "ta_operations ta1 = ta_operations ta"
            using check_begin_auths_operations [of E chars blob ta] by simp
          show ?case
            unfolding ops [symmetric]
            by (rule begin_tail_safe) (use 1(2) i ops in simp_all)
        qed
      qed
    qed
  qed
qed

section \<open>Sequences of calls\<close>

lemma process_req_safe:
  assumes ok: "ta_ok (te_kb E) ta"
  shows "ta_safe (te_kb E) ta (process_req_with_patchlevels downgrade E req patchlevels ta)"
proof -
  have pure: "ta_safe (te_kb E) ta (Some (ta, r))" "ta_safe (te_kb E) ta (map_option (\<lambda>r. (ta, f r)) m)"
    for r f and m :: "(Error + KeyCharacteristics list) option"
    using ok by (simp, cases m) simp_all
  note safe = process_boot.safe [OF ok] hal_version.safe [OF ok] get_secret_params.safe [OF ok]
    secret.safe [OF ok] entropy.safe [OF ok] early_boot.safe [OF ok] rot_challenge.safe [OF ok]
    send_rot.safe [OF ok] attest.safe [OF ok] aad.safe [OF ok] upd.safe [OF ok] abort.safe [OF ok]
  show ?thesis
    unfolding process_req_with_patchlevels_def
    by (cases req; simp only: PerformOpReq.case)
      (auto simp del: ta_safe_simps(2,3) simp: ta_safe_result
        intro: safe pure hal.safe [OF ok] del_key.safe_rsp [OF ok] del_all.safe_rsp [OF ok]
          begin_op.safe_rsp [OF ok] finish.safe_rsp [OF ok])
qed

text \<open>
  A call and what the outside world is at that moment: the clock, whether the bootloader is done and
  whether the user is present.
\<close>

datatype ta_call_kind =
    Call_Request PerformOpReq "RequestPatchLevels option"
  | Call_UpdatePatchlevels u32 u32 u32
  | Call_SetDeviceHmacKey bytes
  | Call_SetSharedSecretParams SharedSecretParameters

record ta_step =
  ts_call :: ta_call_kind
  ts_clock :: "i64 option"
  ts_bootloader_done :: bool
  ts_tup_available :: bool

definition env_at :: "ta_step \<Rightarrow> ('c, 'r, 's, 'd) TaEnv \<Rightarrow> ('c, 'r, 's, 'd) TaEnv" where
  "env_at s E = E\<lparr>te_clock := ts_clock s, te_bootloader_done := ts_bootloader_done s,
                   te_tup_available := ts_tup_available s\<rparr>"

definition ta_call_state ::
    "bool \<Rightarrow> ('c, 'r, 's, 'd) TaEnv \<Rightarrow> ta_step \<Rightarrow> ('c, 'r, 's, 'd) KeyMintTa
     \<Rightarrow> ('c, 'r, 's, 'd) KeyMintTa option" where
  "ta_call_state downgrade E s ta = (case ts_call s of
     Call_Request req patchlevels \<Rightarrow>
       map_option fst (process_req_with_patchlevels downgrade (env_at s E) req patchlevels ta)
   | Call_UpdatePatchlevels os vendor boot \<Rightarrow> Some (fst (update_patchlevels os vendor boot ta))
   | Call_SetDeviceHmacKey key \<Rightarrow> Some (fst (set_device_hmac_key key ta))
   | Call_SetSharedSecretParams params \<Rightarrow> Some (fst (set_shared_secret_params params ta)))"

primrec ta_run ::
    "bool \<Rightarrow> ('c, 'r, 's, 'd) TaEnv \<Rightarrow> ta_step list \<Rightarrow> ('c, 'r, 's, 'd) KeyMintTa
     \<Rightarrow> ('c, 'r, 's, 'd) KeyMintTa option" where
  "ta_run downgrade E [] ta = Some ta"
| "ta_run downgrade E (s # steps) ta =
     Option.bind (ta_call_state downgrade E s ta) (ta_run downgrade E steps)"

lemma ta_safe_state: "ta_safe K ta (Some x) \<longleftrightarrow> ta_ok K (fst x) \<and> ta_evolves ta (fst x)"
  by (cases x) simp

lemma ta_call_state_safe:
  assumes "ta_ok (te_kb E) ta" "ta_call_state downgrade E s ta = Some ta'"
  shows "ta_ok (te_kb E) ta' \<and> ta_evolves ta ta'"
proof (cases "ts_call s")
  case (Call_Request req patchlevels)
  have "te_kb (env_at s E) = te_kb E"
    by (simp add: env_at_def)
  with assms Call_Request process_req_safe [of "env_at s E" ta downgrade req patchlevels] show ?thesis
    by (auto simp: ta_call_state_def)
qed (use assms patchlevels.safe [OF assms(1)] hmac_key.safe [OF assms(1)] secret_params.safe [OF assms(1)] in
    \<open>auto simp: ta_call_state_def ta_safe_state simp del: ta_safe_simps(2)\<close>)

lemma ta_run_safe:
  "ta_ok (te_kb E) ta \<Longrightarrow> ta_run downgrade E steps ta = Some ta' \<Longrightarrow>
     ta_ok (te_kb E) ta' \<and> ta_evolves ta ta'"
proof (induction steps arbitrary: ta)
  case (Cons s steps)
  then show ?case
    by (auto simp: bind_eq_Some_conv dest: ta_call_state_safe intro: ta_evolves_trans)
qed simp

lemma new_ta_ok: "ta_ok K (new_allowing_versions hw rng sdd versions)"
  by (simp add: ta_ok_def new_allowing_versions_def live_ops_def map_filter_def use_count_wf_def rot_bound_def
      entry_pairs_def)


text \<open>
  A StrongBox that got its boot information from the TEE (\<open>send_root_of_trust\<close>) never has a root of
  trust to bind keys to: \<open>set_boot_info\<close> is the only call that computes it, and it keeps the boot
  information that is already there.
\<close>

lemma sent_root_of_trust_never_bound:
  assumes ok: "ta_ok (te_kb E) ta" and new: "ta_boot_info ta = None"
    and sent: "send_root_of_trust E msg ta = (ta1, Inr ())"
    and run: "ta_run downgrade E steps ta1 = Some ta2"
  shows "ta_boot_info ta2 \<noteq> None \<and> ta_rot_data ta2 = None"
proof -
  have "ta_rot_data ta = None"
    using ok new by (simp add: ta_ok_def rot_bound_def)
  with sent have rot: "ta_boot_info ta1 \<noteq> None" "ta_rot_data ta1 = None"
    by (auto simp: send_root_of_trust_def split: sum.splits if_splits)
  have "ta_ok (te_kb E) ta1"
    using send_rot.keeps_ok [OF ok, of E msg] sent by simp
  from ta_run_safe [OF this run] have "ta_evolves ta1 ta2" ..
  with rot show ?thesis
    by (auto simp: ta_evolves_def latched_def)
qed

end
