(* ===== verification/Ta_Keys.thy ===== *)
theory Ta_Keys
  imports Ta_Requests
begin

text \<open>
  Upgrading a key blob in the trusted application (\<^verbatim>\<open>ta/src/keys.rs\<close>): the versions and patch levels of the key are
  set to those of the device and the blob is sealed again under the current key encryption key.
\<close>

section \<open>The upgrade\<close>

text \<open>
  What the upgrade needs beyond the environment of the other calls: the current context for key encryption, and the
  conversion of a blob in a legacy format.
\<close>

record KeyEnv =
  ke_kek_context :: "Error + bytes"
  ke_convert_legacy_key :: "(bytes \<Rightarrow> KeyParam list \<Rightarrow> BootInfo \<Rightarrow> SecurityLevel \<Rightarrow> Error + PlaintextKeyBlob) option"

definition upgrade_level :: "u32 \<Rightarrow> u32 \<Rightarrow> u32 \<times> bool" where
  "upgrade_level v curr' = (case cmp v curr' of Less \<Rightarrow> (curr', True) | Equal \<Rightarrow> (v, False) | Greater \<Rightarrow> (curr', True))"

definition upgrade_param ::
    "('c, 'r, 's, 'd) KeyMintTa \<Rightarrow> RequestPatchLevels option \<Rightarrow> KeyParam \<Rightarrow> KeyParam \<times> bool" where
  "upgrade_param ta patchlevels param = (case param of
     KeyParam_OsVersion v \<Rightarrow>
       (case ta_hal_info ta of
          Some hal_info \<Rightarrow>
            if hal_os_version hal_info = 0 then (KeyParam_OsVersion 0, v \<noteq> 0)
            else apfst KeyParam_OsVersion (upgrade_level v (hal_os_version hal_info))
        | None \<Rightarrow> (param, False))
   | KeyParam_OsPatchlevel v \<Rightarrow>
       (case ta_hal_info ta of
          Some hal_info \<Rightarrow> apfst KeyParam_OsPatchlevel
            (upgrade_level v (level_or (hal_os_patchlevel hal_info) rp_os_patchlevel patchlevels))
        | None \<Rightarrow> (param, False))
   | KeyParam_VendorPatchlevel v \<Rightarrow>
       (case ta_hal_info ta of
          Some hal_info \<Rightarrow> apfst KeyParam_VendorPatchlevel
            (upgrade_level v (level_or (hal_vendor_patchlevel hal_info) rp_vendor_patchlevel patchlevels))
        | None \<Rightarrow> (param, False))
   | KeyParam_BootPatchlevel v \<Rightarrow>
       (case ta_boot_info ta of
          Some boot_info \<Rightarrow> apfst KeyParam_BootPatchlevel
            (upgrade_level v (level_or (boot_patchlevel boot_info) rp_boot_patchlevel patchlevels))
        | None \<Rightarrow> (param, False))
   | _ \<Rightarrow> (param, False))"

fun upgrade_params ::
    "('c, 'r, 's, 'd) KeyMintTa \<Rightarrow> RequestPatchLevels option \<Rightarrow> KeyParam list \<Rightarrow> bool \<Rightarrow> KeyParam list \<times> bool" where
  "upgrade_params ta patchlevels [] modified = ([], modified)"
| "upgrade_params ta patchlevels (param # params) modified =
     (case upgrade_param ta patchlevels param of (param, changed) \<Rightarrow>
        apfst (Cons param) (upgrade_params ta patchlevels params (modified \<or> changed)))"

fun upgrade_characteristics ::
    "('c, 'r, 's, 'd) KeyMintTa \<Rightarrow> RequestPatchLevels option \<Rightarrow> KeyCharacteristics list \<Rightarrow> bool
     \<Rightarrow> KeyCharacteristics list \<times> bool" where
  "upgrade_characteristics ta patchlevels [] modified = ([], modified)"
| "upgrade_characteristics ta patchlevels (chars # rest) modified =
     (if security_level chars \<noteq> hi_security_level (ta_hw_info ta) then
        apfst (Cons chars) (upgrade_characteristics ta patchlevels rest modified)
      else
        (case upgrade_params ta patchlevels (authorizations chars) modified of (auths, modified) \<Rightarrow>
           apfst (Cons (chars\<lparr>authorizations := auths\<rparr>)) (upgrade_characteristics ta patchlevels rest modified)))"

text \<open>Sealing the upgraded key again.\<close>

definition reseal_keyblob ::
    "('c, 'r, 's, 'd) TaEnv \<Rightarrow> KeyEnv \<Rightarrow> PlaintextKeyBlob \<Rightarrow> KeyParam list \<Rightarrow> ('c, 'r, 's, 'd) KeyMintTa
     \<Rightarrow> (('c, 'r, 's, 'd) KeyMintTa \<times> (Error + bytes)) option" where
  "reseal_keyblob E KE keyblob upgrade_params' ta =
     (case
        res_bind (ke_kek_context KE) (\<lambda>kek_context.
        res_bind (te_root_kek E kek_context) (\<lambda>root_kek.
        res_bind (root_of_trust ta) (\<lambda>rot. Inr (kek_context, root_kek, hidden upgrade_params' rot)))) of
        Inl e \<Rightarrow> Some (ta, Inl e)
      | Inr (kek_context, root_kek, hidden_params) \<Rightarrow>
          (case keyblob_encrypt (te_kb E) (te_rng E) (te_mgr E) (hi_security_level (ta_hw_info ta)) (ta_sdd_mgr ta)
                  (ta_rng ta) root_kek kek_context keyblob hidden_params SlotPurpose_KeyUpgrade of
             None \<Rightarrow> None
           | Some (sdd_mgr, rng, r) \<Rightarrow>
               Some (ta\<lparr>ta_sdd_mgr := sdd_mgr, ta_rng := rng\<rparr>,
                 res_bind r (\<lambda>encrypted_keyblob.
                   map_err Error_Cbor (into_vec (te_kb E) (EncryptedKeyBlob_to_cbor_value (te_kb E)) encrypted_keyblob)))))"

definition upgrade_key_with_patchlevels ::
    "('c, 'r, 's, 'd) TaEnv \<Rightarrow> KeyEnv \<Rightarrow> bytes \<Rightarrow> KeyParam list \<Rightarrow> RequestPatchLevels option \<Rightarrow> ('c, 'r, 's, 'd) KeyMintTa
     \<Rightarrow> (('c, 'r, 's, 'd) KeyMintTa \<times> (Error + bytes)) option" where
  "upgrade_key_with_patchlevels E KE keyblob_to_upgrade upgrade_params' patchlevels ta =
     (case keyblob_parse_decrypt_backlevel E ta keyblob_to_upgrade upgrade_params' of
        None \<Rightarrow> None
      | Some r \<Rightarrow>
          (case
             (case r of
                Inr result \<Rightarrow> Inr (kd_keyblob result, kd_kek_context_is_outdated result)
              | Inl e \<Rightarrow>
                  if e = Error_Hal ErrorCode_KeyRequiresUpgrade then
                    res_bind (ok_or (Error_Hal ErrorCode_KeymintNotConfigured) (ke_convert_legacy_key KE)) (\<lambda>convert_legacy_key.
                    res_bind (ok_or (Error_Hal ErrorCode_HardwareNotYetAvailable) (ta_boot_info ta)) (\<lambda>boot_info.
                    res_bind (convert_legacy_key keyblob_to_upgrade upgrade_params' boot_info
                        (hi_security_level (ta_hw_info ta))) (\<lambda>keyblob. Inr (keyblob, True))))
                  else Inl e) of
             Inl e \<Rightarrow> Some (ta, Inl e)
           | Inr (keyblob, modified) \<Rightarrow>
               (case upgrade_characteristics ta patchlevels (pk_characteristics keyblob) modified of (chars, modified) \<Rightarrow>
                  if \<not> modified then Some (ta, Inr [])
                  else reseal_keyblob E KE (keyblob\<lparr>pk_characteristics := chars\<rparr>) upgrade_params' ta)))"

section \<open>Upgraded versions\<close>

lemma upgrade_level_eq: "upgrade_level v c = (c, v \<noteq> c)"
  by (auto simp: upgrade_level_def cmp_def)

lemma upgrade_param_up_to_date: "up_to_date ta pl (fst (upgrade_param ta pl p))"
  by (cases p) (auto simp: upgrade_param_def upgrade_level_eq split: option.splits)

lemma upgrade_param_unchanged: "\<not> snd (upgrade_param ta pl p) \<Longrightarrow> fst (upgrade_param ta pl p) = p"
  by (cases p) (auto simp: upgrade_param_def upgrade_level_eq split: option.splits if_splits)

lemma upgrade_params_eq:
  "upgrade_params ta pl ps m =
     (map (\<lambda>p. fst (upgrade_param ta pl p)) ps, m \<or> list_ex (\<lambda>p. snd (upgrade_param ta pl p)) ps)"
  by (induction ps arbitrary: m) (auto simp: split_beta)

definition upgraded :: "('c, 'r, 's, 'd) KeyMintTa \<Rightarrow> RequestPatchLevels option \<Rightarrow> KeyCharacteristics \<Rightarrow> KeyCharacteristics" where
  "upgraded ta pl c = (if security_level c = hi_security_level (ta_hw_info ta)
     then c\<lparr>authorizations := map (\<lambda>p. fst (upgrade_param ta pl p)) (authorizations c)\<rparr> else c)"

lemma upgrade_characteristics_eq:
  "upgrade_characteristics ta pl cs m =
     (map (upgraded ta pl) cs,
      m \<or> list_ex (\<lambda>c. security_level c = hi_security_level (ta_hw_info ta) \<and>
        list_ex (\<lambda>p. snd (upgrade_param ta pl p)) (authorizations c)) cs)"
  by (induction cs arbitrary: m) (auto simp: upgrade_params_eq upgraded_def)

lemma characteristics_at_upgraded:
  "characteristics_at (map (upgraded ta pl) cs) (hi_security_level (ta_hw_info ta)) =
     map_ok (map (\<lambda>p. fst (upgrade_param ta pl p))) (characteristics_at cs (hi_security_level (ta_hw_info ta)))"
proof (induction cs)
  case Nil
  then show ?case
    by (simp add: characteristics_at_def)
next
  case (Cons c cs)
  have level: "security_level (upgraded ta pl x) = security_level x" for x
    by (simp add: upgraded_def)
  then have "list_ex (\<lambda>c. security_level c = l) (map (upgraded ta pl) cs) \<longleftrightarrow> list_ex (\<lambda>c. security_level c = l) cs" for l
    by (simp add: list_ex_iff)
  moreover have "authorizations (upgraded ta pl c) = map (\<lambda>p. fst (upgrade_param ta pl p)) (authorizations c)"
    if "security_level c = hi_security_level (ta_hw_info ta)"
    using that by (simp add: upgraded_def)
  ultimately show ?case
    using Cons level by (simp add: characteristics_at_Cons)
qed

interpretation upgrade: ta_call K "\<lambda>ta. upgrade_key_with_patchlevels E KE blob params pl ta" for K E KE blob params pl
proof
  fix ta :: "('a, 'b, 'c, 'd) KeyMintTa"
  assume ok: "ta_ok K ta"
  have "ta_safe K ta (reseal_keyblob E KE b params ta)" for b
    unfolding reseal_keyblob_def
    by (auto simp: ta_safe_def ta_frame [OF ok] split: sum.splits option.splits prod.splits)
  with ok show "ta_safe K ta (upgrade_key_with_patchlevels E KE blob params pl ta)"
    unfolding upgrade_key_with_patchlevels_def
    by (auto split: option.splits sum.splits prod.splits)
qed

section \<open>An upgraded key is usable\<close>

lemma up_to_date_cong:
  "ta_hal_info ta' = ta_hal_info ta \<Longrightarrow> ta_boot_info ta' = ta_boot_info ta \<Longrightarrow> up_to_date ta' pl p = up_to_date ta pl p"
  by (cases p) simp_all

lemma decrypt_with_patchlevels_ok:
  assumes "keyblob_parse_decrypt_backlevel E ta blob params = Some (Inr res)" "\<not> kd_kek_context_is_outdated res"
    "kb_characteristics_at (kd_keyblob res) (hi_security_level (ta_hw_info ta)) = r" "\<And>chars. r = Inr chars \<Longrightarrow> list_all (up_to_date ta pl) chars"
  shows "keyblob_parse_decrypt_with_patchlevels E ta blob params pl = Some (map_ok (\<lambda>_. (kd_keyblob res, kd_slot res)) r)"
  using assms by (cases r) (simp_all add: keyblob_parse_decrypt_with_patchlevels_def check_key_versions_eq)

text \<open>What resealing gives: a blob that decrypts to the key again.\<close>

lemma reseal_decrypts:
  assumes laws: "aead_correct (kb_crypto (te_kb E))" "cbor_correct (te_kb E)" "coset_correct (te_kb E)"
    and mgr: "te_mgr E = host_manager (te_rng E) P" "mgr_reachable (te_rng E) P (ta_sdd_mgr ta)"
    and ctx: "\<And>ctx. ke_kek_context KE = Inr ctx \<Longrightarrow> te_kek_context_is_outdated E ctx = Inr False"
    and wf: "KeyMaterial_wf (pk_key_material b)"
    and run: "reseal_keyblob E KE b params ta = Some (ta', Inr data)"
  obtains slot chars mgr rng where "ta' = ta\<lparr>ta_sdd_mgr := mgr, ta_rng := rng\<rparr>"
    "kb_characteristics_at b (hi_security_level (ta_hw_info ta)) = Inr chars"
    "keyblob_parse_decrypt_backlevel E ta' data params =
       Some (Inr \<lparr>kd_keyblob = b, kd_slot = slot, kd_kek_context_is_outdated = False\<rparr>)"
proof -
  obtain kc root rot m rng enc where
    env: "ke_kek_context KE = Inr kc" "te_root_kek E kc = Inr root" "root_of_trust ta = Inr rot" and
    enc: "keyblob_encrypt (te_kb E) (te_rng E) (te_mgr E) (hi_security_level (ta_hw_info ta)) (ta_sdd_mgr ta) (ta_rng ta)
       root kc b (hidden params rot) SlotPurpose_KeyUpgrade = Some (m, rng, Inr enc)" and
    vec: "into_vec (te_kb E) (EncryptedKeyBlob_to_cbor_value (te_kb E)) enc = Inr data" and
    ta': "ta' = ta\<lparr>ta_sdd_mgr := m, ta_rng := rng\<rparr>"
    using run unfolding reseal_keyblob_def
    by (auto simp: res_bind_Inr_iff map_err_Inr_iff split: sum.splits option.splits prod.splits)
  from keyblob_encrypt_decrypt [OF laws wf mgr(2) enc [unfolded mgr(1)]] vec
  have "keyblob_decrypt (te_kb E) (te_mgr E) m root enc (hidden params rot) = Some (Inr b)" "kb_context enc = kc"
    "EncryptedKeyBlob_new (te_kb E) data = Inr enc"
    by (simp_all add: mgr(1))
  moreover have "root_of_trust ta' = Inr rot"
    using env(3) by (simp add: ta' root_of_trust_def)
  ultimately have "keyblob_parse_decrypt_backlevel E ta' data params =
       Some (Inr \<lparr>kd_keyblob = b, kd_slot = kb_slot enc, kd_kek_context_is_outdated = False\<rparr>)"
    using env(2) ctx [OF env(1)] by (simp add: keyblob_parse_decrypt_backlevel_def ta')
  moreover obtain chars where "kb_characteristics_at b (hi_security_level (ta_hw_info ta)) = Inr chars"
    using enc by (auto simp: keyblob_encrypt_def split: sum.splits)
  ultimately show ?thesis
    using that ta' by blast
qed


text \<open>A key of patch level 1 on a device at patch level 2, with libraries that know the items it needs.\<close>

definition level_blob :: "u32 \<Rightarrow> PlaintextKeyBlob" where
  "level_blob v =
     \<lparr>pk_characteristics = [\<lparr>security_level = SecurityLevel_TrustedEnvironment, authorizations = [KeyParam_OsPatchlevel v]\<rparr>],
      pk_key_material = KeyMaterial_Hmac (OpaqueOr_Explicit (Hmac_Key [1, 2, 3]))\<rparr>"

definition level_chars_value :: "u32 \<Rightarrow> Value" where
  "level_chars_value v = Value_Array [Value_Array [Value_Integer (SecurityLevel_i32 SecurityLevel_TrustedEnvironment),
     Value_Array [Value_Array [Value_Integer (Tag_i32 Tag_OsPatchlevel), Value_Integer (uint v)]]]]"

definition level_values :: "Value list" where
  "level_values =
     [Value_Array [Value_Array [Value_Integer (Tag_i32 Tag_RootOfTrust), Value_Bytes [7]]],
      level_chars_value 1, level_chars_value 2,
      Value_Array [Value_Integer (Algorithm_i32 Algorithm_Hmac), Value_Bool False, Value_Bytes [1, 2, 3]]]
     @ map (\<lambda>v. Value_Array [Value_Integer 0, Value_Array [level_chars_value v, Value_Bytes (replicate 32 1), Value_Bytes [9],
          Value_Tag COSE_ENCRYPT0_TAG (Value_Bytes [9]), Value_Array []]]) [1, 2]"

definition level_kb :: "(nat \<times> bytes) KbEnv" where
  "level_kb = sample_env\<lparr>
     cbor_ser := \<lambda>v. case position (\<lambda>w. w = v) level_values of Some i \<Rightarrow> Inr [of_nat i] | None \<Rightarrow> Inl CborError_EncodeFailed,
     cbor_de := \<lambda>b. Inr (level_values ! unat (hd b), []),
     ce_to_value := \<lambda>c. if c = \<lparr>ce_protected = [], ce_ciphertext = Some [3]\<rparr> then Inr (Value_Bytes [9]) else Inl CborError_EncodeFailed,
     ce_from_value := \<lambda>v. Inr \<lparr>ce_protected = [], ce_ciphertext = Some [3]\<rparr>\<rparr>"

definition level_enc :: "u32 \<Rightarrow> EncryptedKeyBlob" where
  "level_enc v = EncryptedKeyBlob_V1
     \<lparr>kb_characteristics = pk_characteristics (level_blob v), kb_key_derivation_input = replicate 32 1, kb_kek_context = [9],
      kb_encrypted_key_material = \<lparr>ce_protected = [], ce_ciphertext = Some [3]\<rparr>, kb_secure_deletion_slot = None\<rparr>"

lemma level_kb_laws: "aead_correct (kb_crypto level_kb)" "cbor_correct level_kb" "coset_correct level_kb"
proof -
  show "aead_correct (kb_crypto level_kb)"
    using sample_env_laws(1) by (simp add: level_kb_def)
  have "unat (of_nat i :: u8) = i" if "i < length level_values" for i
    using that by (simp add: level_values_def unat_of_nat)
  then show "cbor_correct level_kb"
    by (auto simp: cbor_correct_def level_kb_def position_Some_iff split: option.splits)
  show "coset_correct level_kb"
    by (auto simp: coset_correct_def level_kb_def split: if_splits)
qed

lemma level_into_vec:
  "into_vec level_kb (vec_to_cbor_value KeyParam_to_cbor_value) [KeyParam_RootOfTrust [7]] = Inr [0]"
  "into_vec level_kb (vec_to_cbor_value KeyCharacteristics_to_cbor_value) (pk_characteristics (level_blob 1)) = Inr [1]"
  "into_vec level_kb (vec_to_cbor_value KeyCharacteristics_to_cbor_value) (pk_characteristics (level_blob 2)) = Inr [2]"
  "into_vec level_kb KeyMaterial_to_cbor_value (pk_key_material (level_blob v)) = Inr [3]"
  "into_vec level_kb (EncryptedKeyBlob_to_cbor_value level_kb) (level_enc 1) = Inr [4]"
  "into_vec level_kb (EncryptedKeyBlob_to_cbor_value level_kb) (level_enc 2) = Inr [5]"
  by (simp_all add: into_vec_def level_blob_def level_enc_def level_kb_def level_values_def level_chars_value_def vec_to_cbor_value_def
      KeyCharacteristics_to_cbor_value_def KeyParam_to_cbor_value_def enum_to_cbor_value_def u32_to_cbor_value_def
      bytes_to_cbor_value_def raw_key_def EncryptedKeyBlob_to_cbor_value_def EncryptedKeyBlobV1_to_cbor_value_def
      CoseEncrypt0_to_cbor_value_def Version_i32_def option_to_cbor_value_def)

lemma level_encrypt:
  assumes "v = 1 \<or> v = 2"
  shows "keyblob_encrypt level_kb sample_rng M SecurityLevel_TrustedEnvironment None () (OpaqueOr_Explicit (Hmac_Key [5])) [9]
    (level_blob v) [KeyParam_RootOfTrust [7]] p = Some (None, (), Inr (level_enc v))"
proof -
  have chars: "kb_characteristics_at (level_blob v) SecurityLevel_TrustedEnvironment = Inr [KeyParam_OsPatchlevel v]"
    by (simp add: kb_characteristics_at_def characteristics_at_def level_blob_def)
  have crypto: "kb_crypto level_kb = sample_crypto"
    by (simp add: level_kb_def sample_env_def)
  have "\<exists>info. into_vec level_kb (vec_to_cbor_value KeyCharacteristics_to_cbor_value) (pk_characteristics (level_blob v)) = Inr info"
    using assms level_into_vec(2,3) by auto
  then have "derive_kek level_kb (OpaqueOr_Explicit (Hmac_Key [5])) kdi (pk_characteristics (level_blob v)) [KeyParam_RootOfTrust [7]] None =
        Inr (OpaqueOr_Explicit (Aes_Key_Aes256 (replicate 32 7)))" for kdi
    using sample_hkdf by (auto simp: derive_kek_def kek_info_def level_into_vec crypto)
  moreover have "aead_run (kb_crypto level_kb) id kek SymmetricOperation_Encrypt aad pt = Inr pt" for kek aad pt
    by (simp add: aead_run_def crypto sample_crypto_def)
  ultimately show ?thesis
    by (simp add: keyblob_encrypt_def chars requires_sdd_def acquire_sdd_def sample_fill seal_keyblob_def level_into_vec level_enc_def)
      (simp add: level_kb_def sample_env_def)
qed

definition level_env :: "(nat \<times> bytes, unit, HostSddManager, unit) TaEnv" where
  "level_env = sample_ta_env\<lparr>te_kb := level_kb\<rparr>"

definition level_ta :: "(nat \<times> bytes, unit, HostSddManager, unit) KeyMintTa" where
  "level_ta = (sample_ta SecurityLevel_TrustedEnvironment)\<lparr>ta_rot_data := Some [7],
     ta_hal_info := Some \<lparr>hal_os_version = 0, hal_os_patchlevel = 2, hal_vendor_patchlevel = 2\<rparr>\<rparr>"

abbreviation level_key_env :: KeyEnv where
  "level_key_env \<equiv> \<lparr>ke_kek_context = Inr [9], ke_convert_legacy_key = None\<rparr>"


end
