(* ===== verification/Db_Tables.thy ===== *)
theory Db_Tables
  imports Enforcement
begin

text \<open>
  The tables of the key database of the daemon (\<^verbatim>\<open>src/src/keymaster/db.rs\<close>) and the transactions on them.

  A table is the list of its rows in the order of insertion; an SQL statement is the function on lists
  that its clauses describe.  Where SQL leaves the order of rows open, the model takes the order of the
  list.  A value of an integer column that holds an enum is that enum: only rows this version writes are
  modelled.  Comparison with NULL is never true, so a query for an alias finds only rows that have one.
\<close>

section \<open>Columns\<close>

datatype KeyType = KeyType_Client | KeyType_Super

datatype KeyLifeCycle = KeyLifeCycle_Existing | KeyLifeCycle_Live | KeyLifeCycle_Unreferenced

datatype BlobState = BlobState_Current | BlobState_Superseded | BlobState_Orphaned

type_synonym SubComponentType = u32

definition KEY_BLOB :: SubComponentType where
  "KEY_BLOB = 0"

definition CERT :: SubComponentType where
  "CERT = 1"

definition CERT_CHAIN :: SubComponentType where
  "CERT_CHAIN = 2"

lemmas sub_component_defs = KEY_BLOB_def CERT_def CERT_CHAIN_def

type_synonym Uuid = bytes

definition KEYSTORE_UUID :: Uuid where
  "KEYSTORE_UUID = [0x41, 0xe3, 0xb9, 0xce, 0x27, 0x58, 0x4e, 0x91, 0xbc, 0xfd, 0xa5, 0x5d, 0x91, 0x85, 0xab, 0x11]"

definition KEYBOX_UUID_DIGEST_BYTES :: nat where
  "KEYBOX_UUID_DIGEST_BYTES = 12"

definition from_keybox_digest :: "SecurityLevel \<Rightarrow> bytes \<Rightarrow> Uuid" where
  "from_keybox_digest sec_level digest =
     take KEYBOX_UUID_DIGEST_BYTES digest @ u32_to_be_bytes (of_int (SecurityLevel_i32 sec_level))"

definition uuid_to_security_level :: "Uuid \<Rightarrow> SecurityLevel option" where
  "uuid_to_security_level uuid =
     List.find (\<lambda>l. drop KEYBOX_UUID_DIGEST_BYTES uuid = u32_to_be_bytes (of_int (SecurityLevel_i32 l)))
       [SecurityLevel_Software, SecurityLevel_TrustedEnvironment, SecurityLevel_Strongbox, SecurityLevel_Keystore]"

definition uuid_get_digest :: "Uuid \<Rightarrow> bytes" where
  "uuid_get_digest uuid = take KEYBOX_UUID_DIGEST_BYTES uuid"

definition is_bound_to_keybox_digest :: "Uuid \<Rightarrow> bytes \<Rightarrow> bool" where
  "is_bound_to_keybox_digest uuid digest = (uuid_get_digest uuid = take KEYBOX_UUID_DIGEST_BYTES digest)"

definition is_keybox_bound :: "Uuid \<Rightarrow> bool" where
  "is_keybox_bound uuid = (uuid \<noteq> KEYSTORE_UUID \<and> uuid_to_security_level uuid \<noteq> None)"

section \<open>Rows\<close>

record KeyEntryRow =
  kr_id :: i64
  kr_key_type :: KeyType
  kr_domain :: "Domain option"
  kr_namespace :: "i64 option"
  kr_alias :: "bytes option"
  kr_state :: KeyLifeCycle
  kr_km_uuid :: Uuid

text \<open>The row id of \<open>blobentry\<close> is positive; SQLite assigns the largest one plus one.\<close>

record BlobEntryRow =
  br_id :: nat
  br_subcomponent_type :: SubComponentType
  br_keyentryid :: i64
  br_blob :: bytes
  br_state :: BlobState

record 'k MetaRow =
  mr_owner :: 'k
  mr_tag :: i64
  mr_data :: SqlValue

record KeyParameterRow =
  pr_keyentryid :: i64
  pr_tag :: i32
  pr_data :: SqlValue
  pr_security_level :: SecurityLevel

record GrantRow =
  gr_id :: i64
  gr_grantee :: i64
  gr_keyentryid :: i64
  gr_access_vector :: i32

record KeystoreDb =
  db_keyentry :: "KeyEntryRow list"
  db_blobentry :: "BlobEntryRow list"
  db_blobmetadata :: "nat MetaRow list"
  db_keyparameter :: "KeyParameterRow list"
  db_keymetadata :: "i64 MetaRow list"
  db_grant :: "GrantRow list"

definition empty_db :: KeystoreDb where
  "empty_db = \<lparr>db_keyentry = [], db_blobentry = [], db_blobmetadata = [], db_keyparameter = [],
               db_keymetadata = [], db_grant = []\<rparr>"

section \<open>Statements\<close>

definition sql_delete :: "('r \<Rightarrow> bool) \<Rightarrow> 'r list \<Rightarrow> 'r list" where
  "sql_delete P rows = filter (\<lambda>r. \<not> P r) rows"

definition sql_update :: "('r \<Rightarrow> bool) \<Rightarrow> ('r \<Rightarrow> 'r) \<Rightarrow> 'r list \<Rightarrow> 'r list" where
  "sql_update P f rows = map (\<lambda>r. if P r then f r else r) rows"

definition sql_count :: "('r \<Rightarrow> bool) \<Rightarrow> 'r list \<Rightarrow> nat" where
  "sql_count P rows = length (filter P rows)"

text \<open>\<open>UNIQUE (owner, tag)\<close>: a row in conflict is replaced.\<close>

definition insert_or_replace :: "'k MetaRow \<Rightarrow> 'k MetaRow list \<Rightarrow> 'k MetaRow list" where
  "insert_or_replace r rows =
     sql_delete (\<lambda>x. mr_owner x = mr_owner r \<and> mr_tag x = mr_tag r) rows @ [r]"

section \<open>Transactions\<close>

text \<open>
  An error is, by its root cause, one of the daemon's own, one of an SELinux check, one of SQLite or of
  reading a cell, or one of the system.  A transaction body is \<open>None\<close> when it does not return: it may wait for a
  random number that is not used yet.
\<close>

datatype SelinuxError = SelinuxError_PermissionDenied | SelinuxError_SystemError

datatype DbError = DbError_Ks KsError | DbError_Selinux SelinuxError | DbError_Sqlite | DbError_Io

abbreviation db_rc :: "ResponseCode \<Rightarrow> DbError + 'a" where
  "db_rc code \<equiv> Inl (DbError_Ks (KsError_Rc code))"

abbreviation db_sys :: "DbError + 'a" where
  "db_sys \<equiv> Inl (DbError_Ks KsError_sys)"

type_synonym 'a tx = "KeystoreDb \<Rightarrow> (DbError + 'a \<times> KeystoreDb) option"

definition tx_return :: "'a \<Rightarrow> 'a tx" where
  "tx_return a db = Some (Inr (a, db))"

definition tx_bind :: "'a tx \<Rightarrow> ('a \<Rightarrow> 'b tx) \<Rightarrow> 'b tx" where
  "tx_bind m f db = (case m db of
     None \<Rightarrow> None
   | Some (Inl e) \<Rightarrow> Some (Inl e)
   | Some (Inr (a, db)) \<Rightarrow> f a db)"

definition tx_query :: "(KeystoreDb \<Rightarrow> DbError + 'a) \<Rightarrow> 'a tx" where
  "tx_query q db = Some (map_ok (\<lambda>a. (a, db)) (q db))"

definition tx_lift :: "DbError + 'a \<Rightarrow> 'a tx" where
  "tx_lift r = tx_query (\<lambda>_. r)"

definition tx_exec :: "(KeystoreDb \<Rightarrow> KeystoreDb) \<Rightarrow> unit tx" where
  "tx_exec f db = Some (Inr ((), f db))"

text \<open>
  The transaction is committed only if the body succeeds, and is run again while the database is
  busy, so it takes effect as one step.  The flag says whether the garbage collector is notified.
\<close>

definition with_transaction ::
    "(bool \<times> 'a) tx \<Rightarrow> KeystoreDb \<Rightarrow> (KeystoreDb \<times> bool \<times> (DbError + 'a)) option" where
  "with_transaction f db = (case f db of
     None \<Rightarrow> None
   | Some (Inl e) \<Rightarrow> Some (db, False, Inl e)
   | Some (Inr ((need_gc, a), db)) \<Rightarrow> Some (db, need_gc, Inr a))"

text \<open>The helper for queries of one row.\<close>

definition with_rows_extract_one :: "('r option \<Rightarrow> DbError + 'a) \<Rightarrow> 'r list \<Rightarrow> DbError + 'a" where
  "with_rows_extract_one row_extractor rows =
     (if length rows > 1 then db_sys
      else row_extractor (case rows of [] \<Rightarrow> None | r # _ \<Rightarrow> Some r))"

text \<open>
  A random positive id that is not in the table yet.  The list is what \<open>random()\<close> returns; the loop
  goes on while it runs out.
\<close>

fun insert_with_retry :: "u64 list \<Rightarrow> i64 list \<Rightarrow> i64 option" where
  "insert_with_retry [] ids = None"
| "insert_with_retry (candidate # draws) ids =
     (if candidate = 0 \<or> candidate > 0x7FFFFFFFFFFFFFFF then insert_with_retry draws ids
      else if candidate \<in> set ids then insert_with_retry draws ids
      else Some candidate)"

section \<open>Metadata\<close>

datatype EncryptedBy = EncryptedBy_Password | EncryptedBy_KeyId i64

datatype KeyMetaEntry =
    KeyMetaEntry_CreationDate i64
  | KeyMetaEntry_AttestationExpirationDate i64
  | KeyMetaEntry_AttestationMacedPublicKey bytes
  | KeyMetaEntry_AttestationRawPubKey bytes
  | KeyMetaEntry_Sec1PublicKey bytes
  | KeyMetaEntry_KeyboxAttestationUuidPrefix bytes

datatype BlobMetaEntry =
    BlobMetaEntry_EncryptedBy EncryptedBy
  | BlobMetaEntry_Salt bytes
  | BlobMetaEntry_Iv bytes
  | BlobMetaEntry_AeadTag bytes
  | BlobMetaEntry_KmUuid Uuid
  | BlobMetaEntry_PublicKey bytes
  | BlobMetaEntry_MaxBootLevel i32

type_synonym KeyMetaData = "i64 \<Rightarrow> KeyMetaEntry option"
type_synonym BlobMetaData = "i64 \<Rightarrow> BlobMetaEntry option"

primrec key_db_tag :: "KeyMetaEntry \<Rightarrow> i64" where
  "key_db_tag (KeyMetaEntry_CreationDate _) = 0"
| "key_db_tag (KeyMetaEntry_AttestationExpirationDate _) = 1"
| "key_db_tag (KeyMetaEntry_AttestationMacedPublicKey _) = 2"
| "key_db_tag (KeyMetaEntry_AttestationRawPubKey _) = 3"
| "key_db_tag (KeyMetaEntry_Sec1PublicKey _) = 4"
| "key_db_tag (KeyMetaEntry_KeyboxAttestationUuidPrefix _) = 5"

primrec blob_db_tag :: "BlobMetaEntry \<Rightarrow> i64" where
  "blob_db_tag (BlobMetaEntry_EncryptedBy _) = 0"
| "blob_db_tag (BlobMetaEntry_Salt _) = 1"
| "blob_db_tag (BlobMetaEntry_Iv _) = 2"
| "blob_db_tag (BlobMetaEntry_AeadTag _) = 3"
| "blob_db_tag (BlobMetaEntry_KmUuid _) = 4"
| "blob_db_tag (BlobMetaEntry_PublicKey _) = 5"
| "blob_db_tag (BlobMetaEntry_MaxBootLevel _) = 6"

definition KeyboxAttestationUuidPrefix :: i64 where
  "KeyboxAttestationUuidPrefix = 5"

primrec EncryptedBy_to_sql :: "EncryptedBy \<Rightarrow> SqlValue" where
  "EncryptedBy_to_sql EncryptedBy_Password = SqlValue_Null"
| "EncryptedBy_to_sql (EncryptedBy_KeyId key_id) = SqlValue_Integer key_id"

primrec key_meta_to_sql :: "KeyMetaEntry \<Rightarrow> SqlValue" where
  "key_meta_to_sql (KeyMetaEntry_CreationDate v) = SqlValue_Integer v"
| "key_meta_to_sql (KeyMetaEntry_AttestationExpirationDate v) = SqlValue_Integer v"
| "key_meta_to_sql (KeyMetaEntry_AttestationMacedPublicKey v) = SqlValue_Blob v"
| "key_meta_to_sql (KeyMetaEntry_AttestationRawPubKey v) = SqlValue_Blob v"
| "key_meta_to_sql (KeyMetaEntry_Sec1PublicKey v) = SqlValue_Blob v"
| "key_meta_to_sql (KeyMetaEntry_KeyboxAttestationUuidPrefix v) = SqlValue_Blob v"

primrec blob_meta_to_sql :: "BlobMetaEntry \<Rightarrow> SqlValue" where
  "blob_meta_to_sql (BlobMetaEntry_EncryptedBy v) = EncryptedBy_to_sql v"
| "blob_meta_to_sql (BlobMetaEntry_Salt v) = SqlValue_Blob v"
| "blob_meta_to_sql (BlobMetaEntry_Iv v) = SqlValue_Blob v"
| "blob_meta_to_sql (BlobMetaEntry_AeadTag v) = SqlValue_Blob v"
| "blob_meta_to_sql (BlobMetaEntry_KmUuid v) = SqlValue_Blob v"
| "blob_meta_to_sql (BlobMetaEntry_PublicKey v) = SqlValue_Blob v"
| "blob_meta_to_sql (BlobMetaEntry_MaxBootLevel v) = sql_of_i32 v"

text \<open>Reading a cell of the wrong type is an error of SQLite.\<close>

abbreviation cell :: "KsError + 'a \<Rightarrow> DbError + 'a" where
  "cell r \<equiv> map_err (\<lambda>_. DbError_Sqlite) r"

definition EncryptedBy_column_result :: "SqlValue \<Rightarrow> DbError + EncryptedBy" where
  "EncryptedBy_column_result v = (case v of
     SqlValue_Null \<Rightarrow> Inr EncryptedBy_Password
   | _ \<Rightarrow> map_ok EncryptedBy_KeyId (cell (sql_get_i64 v)))"

definition Uuid_column_result :: "SqlValue \<Rightarrow> DbError + Uuid" where
  "Uuid_column_result v =
     res_bind (cell (sql_get_vec v)) (\<lambda>blob. if length blob \<noteq> 16 then Inl DbError_Sqlite else Inr blob)"

definition key_meta_from_sql :: "i64 \<Rightarrow> SqlValue \<Rightarrow> DbError + KeyMetaEntry" where
  "key_meta_from_sql db_tag data =
     (if db_tag = 0 then map_ok KeyMetaEntry_CreationDate (cell (sql_get_i64 data))
      else if db_tag = 1 then map_ok KeyMetaEntry_AttestationExpirationDate (cell (sql_get_i64 data))
      else if db_tag = 2 then map_ok KeyMetaEntry_AttestationMacedPublicKey (cell (sql_get_vec data))
      else if db_tag = 3 then map_ok KeyMetaEntry_AttestationRawPubKey (cell (sql_get_vec data))
      else if db_tag = 4 then map_ok KeyMetaEntry_Sec1PublicKey (cell (sql_get_vec data))
      else if db_tag = 5 then map_ok KeyMetaEntry_KeyboxAttestationUuidPrefix (cell (sql_get_vec data))
      else Inl DbError_Sqlite)"

definition blob_meta_from_sql :: "i64 \<Rightarrow> SqlValue \<Rightarrow> DbError + BlobMetaEntry" where
  "blob_meta_from_sql db_tag data =
     (if db_tag = 0 then map_ok BlobMetaEntry_EncryptedBy (EncryptedBy_column_result data)
      else if db_tag = 1 then map_ok BlobMetaEntry_Salt (cell (sql_get_vec data))
      else if db_tag = 2 then map_ok BlobMetaEntry_Iv (cell (sql_get_vec data))
      else if db_tag = 3 then map_ok BlobMetaEntry_AeadTag (cell (sql_get_vec data))
      else if db_tag = 4 then map_ok BlobMetaEntry_KmUuid (Uuid_column_result data)
      else if db_tag = 5 then map_ok BlobMetaEntry_PublicKey (cell (sql_get_vec data))
      else if db_tag = 6 then map_ok BlobMetaEntry_MaxBootLevel (cell (sql_get_i32 data))
      else Inl DbError_Sqlite)"

definition key_meta_add :: "KeyMetaEntry \<Rightarrow> KeyMetaData \<Rightarrow> KeyMetaData" where
  "key_meta_add e m = m(key_db_tag e \<mapsto> e)"

definition blob_meta_add :: "BlobMetaEntry \<Rightarrow> BlobMetaData \<Rightarrow> BlobMetaData" where
  "blob_meta_add e m = m(blob_db_tag e \<mapsto> e)"

definition encrypted_by :: "BlobMetaData \<Rightarrow> EncryptedBy option" where
  "encrypted_by m = (case m 0 of Some (BlobMetaEntry_EncryptedBy v) \<Rightarrow> Some v | _ \<Rightarrow> None)"

definition km_uuid :: "BlobMetaData \<Rightarrow> Uuid option" where
  "km_uuid m = (case m 4 of Some (BlobMetaEntry_KmUuid v) \<Rightarrow> Some v | _ \<Rightarrow> None)"

text \<open>The two \<open>store_in_db\<close> and \<open>load_from_db\<close>; the map is iterated in some order.\<close>

definition store_metadata ::
    "i64 list \<Rightarrow> ('e \<Rightarrow> SqlValue) \<Rightarrow> 'k \<Rightarrow> (i64 \<Rightarrow> 'e option) \<Rightarrow> 'k MetaRow list \<Rightarrow> 'k MetaRow list" where
  "store_metadata tags to_cell owner m rows =
     fold (\<lambda>tag rows. case m tag of
             None \<Rightarrow> rows
           | Some e \<Rightarrow> insert_or_replace \<lparr>mr_owner = owner, mr_tag = tag, mr_data = to_cell e\<rparr> rows)
       tags rows"

definition load_metadata ::
    "(i64 \<Rightarrow> SqlValue \<Rightarrow> DbError + 'e) \<Rightarrow> 'k \<Rightarrow> 'k MetaRow list \<Rightarrow> DbError + (i64 \<Rightarrow> 'e option)" where
  "load_metadata from_cell owner rows =
     res_fold (\<lambda>m row. map_ok (\<lambda>e. m(mr_tag row \<mapsto> e)) (from_cell (mr_tag row) (mr_data row)))
       Map.empty (filter (\<lambda>r. mr_owner r = owner) rows)"

definition key_meta_store :: "i64 \<Rightarrow> KeyMetaData \<Rightarrow> KeystoreDb \<Rightarrow> KeystoreDb" where
  "key_meta_store key_id m db =
     db\<lparr>db_keymetadata := store_metadata [0, 1, 2, 3, 4, 5] key_meta_to_sql key_id m (db_keymetadata db)\<rparr>"

definition key_meta_load :: "i64 \<Rightarrow> KeystoreDb \<Rightarrow> DbError + KeyMetaData" where
  "key_meta_load key_id db = load_metadata key_meta_from_sql key_id (db_keymetadata db)"

definition blob_meta_store :: "nat \<Rightarrow> BlobMetaData \<Rightarrow> KeystoreDb \<Rightarrow> KeystoreDb" where
  "blob_meta_store blob_id m db =
     db\<lparr>db_blobmetadata := store_metadata [0, 1, 2, 3, 4, 5, 6] blob_meta_to_sql blob_id m (db_blobmetadata db)\<rparr>"

definition blob_meta_load :: "nat \<Rightarrow> KeystoreDb \<Rightarrow> DbError + BlobMetaData" where
  "blob_meta_load blob_id db = load_metadata blob_meta_from_sql blob_id (db_blobmetadata db)"

end
