(* ===== verification/Key_Db.thy ===== *)
theory Key_Db
  imports Db_Tables
begin

text \<open>
  The operations of the key database (\<open>KeystoreDB\<close> of \<^verbatim>\<open>src/src/keymaster/db.rs\<close>) on the tables of
  \<open>Db_Tables\<close>: creating keys and binding aliases, finding a key and who may access it, loading,
  grants, removal, and garbage collection.
\<close>

record KeyDescriptor =
  kd_domain :: Domain
  kd_nspace :: i64
  kd_alias :: "bytes option"
  kd_blob :: "bytes option"

record BlobInfo =
  bi_blob :: bytes
  bi_metadata :: BlobMetaData
  bi_superseded_blob :: "(bytes \<times> BlobMetaData) option"

record CertificateInfo =
  ci_cert :: "bytes option"
  ci_cert_chain :: "bytes option"

record KeyEntry =
  ke_id :: i64
  ke_key_blob_info :: "(bytes \<times> BlobMetaData) option"
  ke_cert :: "bytes option"
  ke_cert_chain :: "bytes option"
  ke_km_uuid :: Uuid
  ke_parameters :: "KeyParameter list"
  ke_metadata :: KeyMetaData
  ke_pure_cert :: bool

definition is_attested :: "KeyEntry \<Rightarrow> bool" where
  "is_attested e = (ke_cert_chain e \<noteq> None)"

type_synonym KeyEntryLoadBits = u32

definition LOAD_NONE :: KeyEntryLoadBits where
  "LOAD_NONE = 0"

definition LOAD_KM :: KeyEntryLoadBits where
  "LOAD_KM = 1"

definition LOAD_PUBLIC :: KeyEntryLoadBits where
  "LOAD_PUBLIC = 2"

definition LOAD_BOTH :: KeyEntryLoadBits where
  "LOAD_BOTH = 3"

definition load_public :: "KeyEntryLoadBits \<Rightarrow> bool" where
  "load_public bits = (bits AND LOAD_PUBLIC \<noteq> 0)"

definition load_km :: "KeyEntryLoadBits \<Rightarrow> bool" where
  "load_km bits = (bits AND LOAD_KM \<noteq> 0)"

definition AID_USER_OFFSET :: int where
  "AID_USER_OFFSET = 100000"

text \<open>\<open>cast((column/100000) as int) = user\<close>: integer division truncates.\<close>

definition of_user :: "i32 \<Rightarrow> i64 \<Rightarrow> bool" where
  "of_user user uid = (sint uid sdiv AID_USER_OFFSET = sint user)"

section \<open>Creating keys\<close>

definition create_key_entry_internal ::
    "u64 list \<Rightarrow> Domain \<Rightarrow> i64 \<Rightarrow> KeyType \<Rightarrow> Uuid \<Rightarrow> i64 tx" where
  "create_key_entry_internal draws domain namespace key_type uuid db =
     (if domain \<notin> {Domain_APP, Domain_SELINUX} then Some db_sys
      else case insert_with_retry draws (map kr_id (db_keyentry db)) of
        None \<Rightarrow> None
      | Some key_id \<Rightarrow>
          Some (Inr (key_id, db\<lparr>db_keyentry := db_keyentry db @
            [\<lparr>kr_id = key_id, kr_key_type = key_type, kr_domain = Some domain, kr_namespace = Some namespace,
              kr_alias = None, kr_state = KeyLifeCycle_Existing, kr_km_uuid = uuid\<rparr>]\<rparr>)))"

definition max_blob_id :: "KeystoreDb \<Rightarrow> nat" where
  "max_blob_id db = fold max (map br_id (db_blobentry db)) 0"

definition insert_blob :: "i64 \<Rightarrow> SubComponentType \<Rightarrow> bytes \<Rightarrow> KeystoreDb \<Rightarrow> KeystoreDb" where
  "insert_blob key_id sc_type blob db =
     db\<lparr>db_blobentry := db_blobentry db @
       [\<lparr>br_id = Suc (max_blob_id db), br_subcomponent_type = sc_type, br_keyentryid = key_id, br_blob = blob,
         br_state = BlobState_Current\<rparr>]\<rparr>"

definition supersede_blobs :: "i64 \<Rightarrow> SubComponentType \<Rightarrow> KeystoreDb \<Rightarrow> KeystoreDb" where
  "supersede_blobs key_id sc_type db =
     db\<lparr>db_blobentry :=
       sql_update (\<lambda>r. br_keyentryid r = key_id \<and> br_subcomponent_type r = sc_type)
         (br_state_update (\<lambda>_. BlobState_Superseded)) (db_blobentry db)\<rparr>"

definition clear_keybox_metadata :: "i64 \<Rightarrow> SubComponentType \<Rightarrow> KeystoreDb \<Rightarrow> KeystoreDb" where
  "clear_keybox_metadata key_id sc_type db =
     (if sc_type = CERT \<or> sc_type = CERT_CHAIN then
        db\<lparr>db_keymetadata :=
          sql_delete (\<lambda>r. mr_owner r = key_id \<and> mr_tag r = KeyboxAttestationUuidPrefix) (db_keymetadata db)\<rparr>
      else db)"

definition set_blob_internal ::
    "i64 \<Rightarrow> SubComponentType \<Rightarrow> bytes option \<Rightarrow> BlobMetaData option \<Rightarrow> unit tx" where
  "set_blob_internal key_id sc_type blob blob_metadata =
     tx_bind
       (case blob of
          Some blob \<Rightarrow>
            tx_exec (\<lambda>db.
              let db = insert_blob key_id sc_type blob (supersede_blobs key_id sc_type db)
              in case blob_metadata of
                   None \<Rightarrow> db
                 | Some m \<Rightarrow> blob_meta_store (max_blob_id db) m db)
        | None \<Rightarrow>
            if sc_type = CERT \<or> sc_type = CERT_CHAIN then
              tx_exec (\<lambda>db. db\<lparr>db_blobentry :=
                sql_delete (\<lambda>r. br_subcomponent_type r = sc_type \<and> br_keyentryid r = key_id) (db_blobentry db)\<rparr>)
            else tx_lift db_sys)
       (\<lambda>_. tx_exec (clear_keybox_metadata key_id sc_type))"

definition parameter_row :: "i64 \<Rightarrow> KeyParameter \<Rightarrow> KeyParameterRow" where
  "parameter_row key_id p =
     \<lparr>pr_keyentryid = key_id, pr_tag = Tag_u32 (get_tag (kp_value p)), pr_data = to_sql (kp_value p),
      pr_security_level = kp_security_level p\<rparr>"

definition insert_keyparameter_internal :: "i64 \<Rightarrow> KeyParameter list \<Rightarrow> KeystoreDb \<Rightarrow> KeystoreDb" where
  "insert_keyparameter_internal key_id params db =
     db\<lparr>db_keyparameter := db_keyparameter db @ map (parameter_row key_id) params\<rparr>"

text \<open>The number of rows the second update changes has to be one.\<close>

definition rebind_alias :: "i64 \<Rightarrow> bytes \<Rightarrow> Domain \<Rightarrow> i64 \<Rightarrow> KeyType \<Rightarrow> bool tx" where
  "rebind_alias newid alias domain namespace key_type db =
     (if domain \<notin> {Domain_APP, Domain_SELINUX} then Some db_sys
      else
        let bound = (\<lambda>r. kr_alias r = Some alias \<and> kr_domain r = Some domain \<and> kr_namespace r = Some namespace
                       \<and> kr_key_type r = key_type);
            updated = sql_count bound (db_keyentry db);
            rows = sql_update bound
              (\<lambda>r. r\<lparr>kr_alias := None, kr_domain := None, kr_namespace := None,
                      kr_state := KeyLifeCycle_Unreferenced\<rparr>) (db_keyentry db);
            fresh = (\<lambda>r. kr_id r = newid \<and> kr_domain r = Some domain \<and> kr_namespace r = Some namespace
                       \<and> kr_state r = KeyLifeCycle_Existing \<and> kr_key_type r = key_type)
        in if sql_count fresh rows \<noteq> 1 then Some db_sys
           else Some (Inr (updated \<noteq> 0, db\<lparr>db_keyentry :=
             sql_update fresh (\<lambda>r. r\<lparr>kr_alias := Some alias, kr_state := KeyLifeCycle_Live\<rparr>) rows\<rparr>)))"

section \<open>Removing keys\<close>

definition remove_key_rows :: "i64 \<Rightarrow> KeystoreDb \<Rightarrow> bool \<times> KeystoreDb" where
  "remove_key_rows key_id db =
     (sql_count (\<lambda>r. kr_id r = key_id) (db_keyentry db) \<noteq> 0,
      db\<lparr>db_keyentry := sql_delete (\<lambda>r. kr_id r = key_id) (db_keyentry db),
         db_keymetadata := sql_delete (\<lambda>r. mr_owner r = key_id) (db_keymetadata db),
         db_keyparameter := sql_delete (\<lambda>r. pr_keyentryid r = key_id) (db_keyparameter db),
         db_grant := sql_delete (\<lambda>r. gr_keyentryid r = key_id) (db_grant db),
         db_blobentry := sql_update (\<lambda>r. br_keyentryid r = key_id)
           (br_state_update (\<lambda>_. BlobState_Orphaned)) (db_blobentry db)\<rparr>)"

text \<open>The loops that remove the keys of a query, and whether one of them existed.\<close>

definition remove_keys :: "i64 list \<Rightarrow> KeystoreDb \<Rightarrow> bool \<times> KeystoreDb" where
  "remove_keys key_ids db =
     fold (\<lambda>key_id (notify_gc, db). case remove_key_rows key_id db of
             (removed, db) \<Rightarrow> (removed \<or> notify_gc, db)) key_ids (False, db)"

definition tx_remove :: "(KeystoreDb \<Rightarrow> bool \<times> KeystoreDb) \<Rightarrow> bool tx" where
  "tx_remove f db = Some (Inr (f db))"

section \<open>Use counts\<close>

definition is_usage_row :: "i64 \<Rightarrow> KeyParameterRow \<Rightarrow> bool" where
  "is_usage_row key_id r \<longleftrightarrow> pr_keyentryid r = key_id \<and> pr_tag r = Tag_u32 Tag_UsageCountLimit
     \<and> pr_security_level r = SecurityLevel_Keystore"

definition is_live :: "i64 \<Rightarrow> KeyEntryRow \<Rightarrow> bool" where
  "is_live key_id r \<longleftrightarrow> kr_id r = key_id \<and> kr_state r = KeyLifeCycle_Live"

definition key_usage_count_internal :: "i64 \<Rightarrow> KeystoreDb \<Rightarrow> DbError + i32" where
  "key_usage_count_internal key_id db =
     (let rows = (if list_ex (is_live key_id) (db_keyentry db)
                  then filter (is_usage_row key_id) (db_keyparameter db) else [])
      in case rows of
           [] \<Rightarrow> Inl (DbError_Ks (KsError_Km ErrorCode_InvalidKeyBlob))
         | r # _ \<Rightarrow>
             res_bind (cell (sql_get_i32 (pr_data r))) (\<lambda>limit.
               if sint limit > 0 then Inr limit
               else Inl (DbError_Ks (KsError_Km ErrorCode_InvalidKeyBlob))))"

definition positive_cell :: "SqlValue \<Rightarrow> bool" where
  "positive_cell v = (case v of SqlValue_Integer i \<Rightarrow> sint i > 0 | SqlValue_Null \<Rightarrow> False | SqlValue_Blob _ \<Rightarrow> True)"

definition decrement_cell :: "SqlValue \<Rightarrow> SqlValue" where
  "decrement_cell v = (case v of SqlValue_Integer i \<Rightarrow> SqlValue_Integer (i - 1) | v \<Rightarrow> v)"

definition db_check_and_update_key_usage_count_internal :: "i64 \<Rightarrow> bool tx" where
  "db_check_and_update_key_usage_count_internal key_id =
     tx_bind (tx_query (key_usage_count_internal key_id)) (\<lambda>limit db.
       let hit = (\<lambda>r. is_usage_row key_id r \<and> positive_cell (pr_data r));
           updated = sql_count hit (db_keyparameter db);
           db = db\<lparr>db_keyparameter := sql_update hit (pr_data_update decrement_cell) (db_keyparameter db)\<rparr>
       in if updated \<noteq> 1 then Some (Inl (DbError_Ks (KsError_Km ErrorCode_InvalidKeyBlob)))
          else if limit = 1 then tx_remove (remove_key_rows key_id) db
          else Some (Inr (False, db)))"

definition db_key_usage_count where
  "db_key_usage_count key_id =
     with_transaction (tx_bind (tx_query (key_usage_count_internal key_id)) (\<lambda>limit. tx_return (False, limit)))"

definition db_check_and_update_key_usage_count where
  "db_check_and_update_key_usage_count key_id =
     with_transaction (tx_bind (db_check_and_update_key_usage_count_internal key_id)
       (\<lambda>need_gc. tx_return (need_gc, ())))"

section \<open>Storing keys\<close>

definition alias_target :: "KeyDescriptor \<Rightarrow> DbError + bytes \<times> Domain \<times> i64" where
  "alias_target key = (case kd_alias key of
     Some alias \<Rightarrow>
       if kd_domain key \<in> {Domain_APP, Domain_SELINUX} \<and> kd_blob key = None
       then Inr (alias, kd_domain key, kd_nspace key)
       else db_rc ResponseCode_INVALID_ARGUMENT
   | None \<Rightarrow> db_rc ResponseCode_INVALID_ARGUMENT)"

definition set_optional_blob :: "i64 \<Rightarrow> SubComponentType \<Rightarrow> bytes option \<Rightarrow> unit tx" where
  "set_optional_blob key_id sc_type blob = (case blob of
     Some b \<Rightarrow> set_blob_internal key_id sc_type (Some b) None
   | None \<Rightarrow> tx_return ())"

definition store_new_key_tx ::
    "u64 list \<Rightarrow> bytes \<Rightarrow> Domain \<Rightarrow> i64 \<Rightarrow> KeyType \<Rightarrow> KeyParameter list \<Rightarrow> BlobInfo \<Rightarrow> CertificateInfo
     \<Rightarrow> KeyMetaData \<Rightarrow> Uuid \<Rightarrow> i64 option \<Rightarrow> (bool \<times> i64) tx" where
  "store_new_key_tx draws alias domain namespace key_type params blob_info cert_info metadata uuid usage_key_id =
     tx_bind (case usage_key_id of
                Some key_id \<Rightarrow> db_check_and_update_key_usage_count_internal key_id
              | None \<Rightarrow> tx_return False) (\<lambda>usage_need_gc.
     tx_bind (create_key_entry_internal draws domain namespace key_type uuid) (\<lambda>key_id.
     tx_bind (case bi_superseded_blob blob_info of
                Some (blob, blob_metadata) \<Rightarrow>
                  tx_bind (set_blob_internal key_id KEY_BLOB (Some blob) (Some blob_metadata))
                    (\<lambda>_. tx_return True)
              | None \<Rightarrow> tx_return False) (\<lambda>need_gc.
     tx_bind (set_blob_internal key_id KEY_BLOB (Some (bi_blob blob_info)) (Some (bi_metadata blob_info))) (\<lambda>_.
     tx_bind (set_optional_blob key_id CERT (ci_cert cert_info)) (\<lambda>_.
     tx_bind (set_optional_blob key_id CERT_CHAIN (ci_cert_chain cert_info)) (\<lambda>_.
     tx_bind (tx_exec (insert_keyparameter_internal key_id params)) (\<lambda>_.
     tx_bind (tx_exec (key_meta_store key_id metadata)) (\<lambda>_.
     tx_bind (rebind_alias key_id alias domain namespace key_type) (\<lambda>rebound.
     tx_return (rebound \<or> need_gc \<or> usage_need_gc, key_id))))))))))"

definition store_new_key where
  "store_new_key draws key key_type params blob_info cert_info metadata uuid usage_key_id db =
     (case alias_target key of
        Inl e \<Rightarrow> Some (db, False, Inl e)
      | Inr (alias, domain, namespace) \<Rightarrow>
          with_transaction (store_new_key_tx draws alias domain namespace key_type params blob_info cert_info
            metadata uuid usage_key_id) db)"

text \<open>The clock may be before the epoch or too far in the future.\<close>

definition store_new_certificate where
  "store_new_certificate draws now key key_type cert uuid db =
     (case alias_target key of
        Inl e \<Rightarrow> Some (db, False, Inl e)
      | Inr (alias, domain, namespace) \<Rightarrow>
          with_transaction (
            tx_bind (create_key_entry_internal draws domain namespace key_type uuid) (\<lambda>key_id.
            tx_bind (set_blob_internal key_id CERT_CHAIN (Some cert) None) (\<lambda>_.
            tx_bind (tx_lift (ok_or DbError_Sqlite now)) (\<lambda>now.
            tx_bind (tx_exec (key_meta_store key_id
               (key_meta_add (KeyMetaEntry_CreationDate now) Map.empty))) (\<lambda>_.
            tx_bind (rebind_alias key_id alias domain namespace key_type) (\<lambda>need_gc.
            tx_return (need_gc, key_id))))))) db)"

definition set_blob where
  "set_blob key_id sc_type blob blob_metadata =
     with_transaction (tx_bind (set_blob_internal key_id sc_type blob blob_metadata) (\<lambda>_. tx_return (True, ())))"

definition UNASSIGNED_KEY_ID :: i64 where
  "UNASSIGNED_KEY_ID = - 1"

definition set_deleted_blob where
  "set_deleted_blob blob blob_metadata =
     with_transaction (tx_bind (set_blob_internal UNASSIGNED_KEY_ID KEY_BLOB (Some blob) (Some blob_metadata))
       (\<lambda>_. tx_return (True, ())))"

section \<open>Loading keys\<close>

text \<open>Of each component of the key, the row with the largest id.\<close>

definition newest_blob :: "i64 \<Rightarrow> SubComponentType \<Rightarrow> KeystoreDb \<Rightarrow> BlobEntryRow option" where
  "newest_blob key_id sc_type db =
     (let rows = filter (\<lambda>r. br_keyentryid r = key_id \<and> br_subcomponent_type r = sc_type) (db_blobentry db)
      in List.find (\<lambda>r. br_id r = fold max (map br_id rows) 0) rows)"

definition has_unknown_component :: "i64 \<Rightarrow> KeystoreDb \<Rightarrow> bool" where
  "has_unknown_component key_id db =
     list_ex (\<lambda>r. br_keyentryid r = key_id \<and> br_subcomponent_type r \<notin> {KEY_BLOB, CERT, CERT_CHAIN}) (db_blobentry db)"

definition load_blob_components ::
    "i64 \<Rightarrow> KeyEntryLoadBits \<Rightarrow> KeystoreDb
     \<Rightarrow> DbError + bool \<times> (bytes \<times> BlobMetaData) option \<times> bytes option \<times> bytes option" where
  "load_blob_components key_id load_bits db =
     (if has_unknown_component key_id db then db_sys
      else
        let key_blob = newest_blob key_id KEY_BLOB db;
            public = (\<lambda>sc_type. if load_public load_bits then map_option br_blob (newest_blob key_id sc_type db)
                                else None)
        in res_bind (case key_blob of
             Some r \<Rightarrow>
               if load_km load_bits then map_ok (\<lambda>m. Some (br_blob r, m)) (blob_meta_load (br_id r) db)
               else Inr None
           | None \<Rightarrow> Inr None) (\<lambda>blob_info.
           Inr (key_blob \<noteq> None, blob_info, public CERT, public CERT_CHAIN)))"

definition load_key_parameters :: "i64 \<Rightarrow> KeystoreDb \<Rightarrow> DbError + KeyParameter list" where
  "load_key_parameters key_id db =
     map_err DbError_Ks (res_collect
       (\<lambda>r. map_ok (\<lambda>v. \<lparr>kp_value = v, kp_security_level = pr_security_level r\<rparr>)
              (new_from_sql (pr_tag r) (pr_data r)))
       (filter (\<lambda>r. pr_keyentryid r = key_id) (db_keyparameter db)))"

definition get_key_km_uuid :: "i64 \<Rightarrow> KeystoreDb \<Rightarrow> DbError + Uuid" where
  "get_key_km_uuid key_id db =
     ok_or DbError_Sqlite (map_option kr_km_uuid (List.find (\<lambda>r. kr_id r = key_id) (db_keyentry db)))"

definition load_key_components :: "KeyEntryLoadBits \<Rightarrow> i64 \<Rightarrow> KeystoreDb \<Rightarrow> DbError + KeyEntry" where
  "load_key_components load_bits key_id db =
     res_bind (key_meta_load key_id db) (\<lambda>metadata.
     res_bind (load_blob_components key_id load_bits db) (\<lambda>(has_km_blob, key_blob_info, cert_blob, cert_chain_blob).
     res_bind (load_key_parameters key_id db) (\<lambda>parameters.
     res_bind (get_key_km_uuid key_id db) (\<lambda>uuid.
     Inr \<lparr>ke_id = key_id, ke_key_blob_info = key_blob_info, ke_cert = cert_blob, ke_cert_chain = cert_chain_blob,
          ke_km_uuid = uuid, ke_parameters = parameters, ke_metadata = metadata, ke_pure_cert = \<not> has_km_blob\<rparr>))))"

definition load_key_entry_id :: "KeyDescriptor \<Rightarrow> KeyType \<Rightarrow> KeystoreDb \<Rightarrow> DbError + i64" where
  "load_key_entry_id key key_type db = (case kd_alias key of
     None \<Rightarrow> db_sys
   | Some alias \<Rightarrow>
       with_rows_extract_one
         (\<lambda>row. case row of None \<Rightarrow> db_rc ResponseCode_KEY_NOT_FOUND | Some r \<Rightarrow> Inr (kr_id r))
         (filter (\<lambda>r. kr_key_type r = key_type \<and> kr_domain r = Some (kd_domain key)
              \<and> kr_namespace r = Some (kd_nspace key) \<and> kr_alias r = Some alias
              \<and> kr_state r = KeyLifeCycle_Live) (db_keyentry db)))"

record KeyAccessInfo =
  ka_key_id :: i64
  ka_descriptor :: KeyDescriptor
  ka_vector :: "i32 option"

definition grant_access :: "KeyDescriptor \<Rightarrow> i64 \<Rightarrow> KeystoreDb \<Rightarrow> DbError + KeyAccessInfo" where
  "grant_access key caller_uid db =
     with_rows_extract_one
       (\<lambda>row. case row of
          None \<Rightarrow> db_rc ResponseCode_KEY_NOT_FOUND
        | Some r \<Rightarrow> Inr \<lparr>ka_key_id = gr_keyentryid r, ka_descriptor = key, ka_vector = Some (gr_access_vector r)\<rparr>)
       (filter (\<lambda>r. gr_grantee r = caller_uid \<and> gr_id r = kd_nspace key
            \<and> map_option kr_state (List.find (\<lambda>k. kr_id k = gr_keyentryid r) (db_keyentry db))
                = Some KeyLifeCycle_Live) (db_grant db))"

text \<open>
  A key that is addressed by its id.  An entry without domain or namespace cannot be read.
\<close>

definition key_id_access :: "KeyDescriptor \<Rightarrow> i64 \<Rightarrow> KeystoreDb \<Rightarrow> DbError + KeyAccessInfo" where
  "key_id_access key caller_uid db =
     res_bind (with_rows_extract_one
       (\<lambda>row. case row of
          None \<Rightarrow> db_rc ResponseCode_KEY_NOT_FOUND
        | Some r \<Rightarrow>
            (case (kr_domain r, kr_namespace r) of
               (Some domain, Some namespace) \<Rightarrow> Inr (domain, namespace)
             | _ \<Rightarrow> Inl DbError_Sqlite))
       (filter (is_live (kd_nspace key)) (db_keyentry db))) (\<lambda>(domain, namespace).
       let access_vector =
             (if domain \<noteq> Domain_APP \<or> namespace \<noteq> caller_uid then
                map_option gr_access_vector
                  (List.find (\<lambda>r. gr_grantee r = caller_uid \<and> gr_keyentryid r = kd_nspace key) (db_grant db))
              else None)
       in Inr \<lparr>ka_key_id = kd_nspace key, ka_descriptor = key\<lparr>kd_domain := domain, kd_nspace := namespace\<rparr>,
               ka_vector = access_vector\<rparr>)"

definition load_access_tuple ::
    "KeyDescriptor \<Rightarrow> KeyType \<Rightarrow> i64 \<Rightarrow> KeystoreDb \<Rightarrow> DbError + KeyAccessInfo" where
  "load_access_tuple key key_type caller_uid db = (case kd_domain key of
     Domain_APP \<Rightarrow>
       let access_key = key\<lparr>kd_nspace := caller_uid\<rparr>
       in map_ok (\<lambda>key_id. \<lparr>ka_key_id = key_id, ka_descriptor = access_key, ka_vector = None\<rparr>)
            (load_key_entry_id access_key key_type db)
   | Domain_SELINUX \<Rightarrow>
       map_ok (\<lambda>key_id. \<lparr>ka_key_id = key_id, ka_descriptor = key, ka_vector = None\<rparr>)
         (load_key_entry_id key key_type db)
   | Domain_GRANT \<Rightarrow> grant_access key caller_uid db
   | Domain_KEY_ID \<Rightarrow> key_id_access key caller_uid db
   | Domain_BLOB \<Rightarrow> db_rc ResponseCode_INVALID_ARGUMENT)"

text \<open>
  While a key is locked, \<open>KEY_ID_LOCK\<close> blocks or refuses others.  If the lock is taken, the transaction is
  rolled back, and a new one starts when the lock was given to this call; \<open>later\<close> is the database then.
\<close>

definition load_key_entry_internal ::
    "KeyDescriptor \<Rightarrow> KeyType \<Rightarrow> KeyEntryLoadBits \<Rightarrow> i64
     \<Rightarrow> (KeyDescriptor \<Rightarrow> i32 option \<Rightarrow> DbError + unit) \<Rightarrow> i64 set \<Rightarrow> KeystoreDb \<Rightarrow> KeystoreDb
     \<Rightarrow> DbError + i64 \<times> KeyEntry" where
  "load_key_entry_internal key key_type load_bits caller_uid check_permission locked_keys later db =
     res_bind (load_access_tuple key key_type caller_uid db) (\<lambda>access.
     res_bind (check_permission (ka_descriptor access) (ka_vector access)) (\<lambda>_.
     if kd_domain key = Domain_KEY_ID \<or> ka_key_id access \<notin> locked_keys then
       map_ok (Pair (ka_key_id access)) (load_key_components load_bits (ka_key_id access) db)
     else
       res_bind (load_access_tuple
           \<lparr>kd_domain = Domain_KEY_ID, kd_nspace = ka_key_id access, kd_alias = None, kd_blob = None\<rparr>
           key_type caller_uid later) (\<lambda>_.
       map_ok (Pair (ka_key_id access)) (load_key_components load_bits (ka_key_id access) later))))"

definition key_exists where
  "key_exists domain nspace alias key_type =
     with_transaction (tx_query (\<lambda>db.
       case load_key_entry_id \<lparr>kd_domain = domain, kd_nspace = nspace, kd_alias = Some alias, kd_blob = None\<rparr>
              key_type db of
         Inr _ \<Rightarrow> Inr (False, True)
       | Inl e \<Rightarrow> if e = DbError_Ks (KsError_Rc ResponseCode_KEY_NOT_FOUND) then Inr (False, False) else Inl e))"

end
