(* ===== verification/Key_Db_Admin.thy ===== *)
theory Key_Db_Admin
  imports Key_Db "HOL-Library.List_Lexorder"
begin

text \<open>
  The rest of the key database (\<^verbatim>\<open>src/src/keymaster/db.rs\<close>): super keys, moving a key, grants, removal of
  one or of many keys, listing, start-up cleanup, and the garbage collector (\<^verbatim>\<open>src/src/keymaster/gc.rs\<close>).
\<close>

section \<open>Super keys\<close>

definition store_super_key where
  "store_super_key draws user alias blob blob_metadata key_metadata =
     with_transaction (\<lambda>db.
       case insert_with_retry draws (map kr_id (db_keyentry db)) of
         None \<Rightarrow> None
       | Some key_id \<Rightarrow>
           tx_bind (tx_exec (\<lambda>db. db\<lparr>db_keyentry := db_keyentry db @
               [\<lparr>kr_id = key_id, kr_key_type = KeyType_Super, kr_domain = Some Domain_APP,
                 kr_namespace = Some (scast (user :: i32)), kr_alias = Some alias, kr_state = KeyLifeCycle_Live,
                 kr_km_uuid = KEYSTORE_UUID\<rparr>]\<rparr>)) (\<lambda>_.
           tx_bind (tx_exec (key_meta_store key_id key_metadata)) (\<lambda>_.
           tx_bind (set_blob_internal key_id KEY_BLOB (Some blob) (Some blob_metadata)) (\<lambda>_.
           tx_bind (tx_query (load_key_components LOAD_KM key_id)) (\<lambda>entry.
           tx_return (False, entry))))) db)"

text \<open>The key is then locked by its id; the call waits for the lock within the transaction.\<close>

definition load_super_key where
  "load_super_key alias user =
     with_transaction (tx_query (\<lambda>db.
       case load_key_entry_id \<lparr>kd_domain = Domain_APP, kd_nspace = scast (user :: i32), kd_alias = Some alias,
              kd_blob = None\<rparr> KeyType_Super db of
         Inr key_id \<Rightarrow> map_ok (\<lambda>entry. (False, Some (key_id, entry))) (load_key_components LOAD_KM key_id db)
       | Inl e \<Rightarrow> if e = DbError_Ks (KsError_Rc ResponseCode_KEY_NOT_FOUND) then Inr (False, None) else Inl e))"

section \<open>Moving a key\<close>

definition migrate_target :: "KeyDescriptor \<Rightarrow> i64 \<Rightarrow> DbError + KeyDescriptor" where
  "migrate_target destination caller_uid =
     (if kd_domain destination = Domain_APP then Inr (destination\<lparr>kd_nspace := caller_uid\<rparr>)
      else if kd_domain destination = Domain_SELINUX then Inr destination
      else db_rc ResponseCode_INVALID_ARGUMENT)"

definition migrate_key_namespace ::
    "i64 \<Rightarrow> KeyDescriptor \<Rightarrow> i64 \<Rightarrow> (KeyDescriptor \<Rightarrow> DbError + unit) \<Rightarrow> KeystoreDb
     \<Rightarrow> (KeystoreDb \<times> bool \<times> (DbError + unit)) option" where
  "migrate_key_namespace key_id destination caller_uid check_permission db =
     (case
        res_bind (migrate_target destination caller_uid) (\<lambda>destination.
        res_bind (check_permission destination) (\<lambda>_.
        res_bind (ok_or (DbError_Ks (KsError_Rc ResponseCode_INVALID_ARGUMENT)) (kd_alias destination)) (\<lambda>alias.
        Inr (destination, alias)))) of
        Inl e \<Rightarrow> Some (db, False, Inl e)
      | Inr (destination, alias) \<Rightarrow>
          with_transaction (\<lambda>db.
            if list_ex (\<lambda>r. kr_alias r = Some alias \<and> kr_domain r = Some (kd_domain destination)
                 \<and> kr_namespace r = Some (kd_nspace destination)) (db_keyentry db)
            then Some (db_rc ResponseCode_INVALID_ARGUMENT)
            else if sql_count (\<lambda>r. kr_id r = key_id) (db_keyentry db) \<noteq> 1 then Some db_sys
            else Some (Inr ((False, ()), db\<lparr>db_keyentry := sql_update (\<lambda>r. kr_id r = key_id)
              (\<lambda>r. r\<lparr>kr_alias := Some alias, kr_domain := Some (kd_domain destination),
                      kr_namespace := Some (kd_nspace destination)\<rparr>) (db_keyentry db)\<rparr>))) db)"

section \<open>Grants\<close>

definition grant_tx :: "u64 list \<Rightarrow> i64 \<Rightarrow> i64 \<Rightarrow> i32 \<Rightarrow> i64 tx" where
  "grant_tx draws key_id grantee_uid access_vector db =
     (case List.find (\<lambda>r. gr_keyentryid r = key_id \<and> gr_grantee r = grantee_uid) (db_grant db) of
        Some r \<Rightarrow>
          Some (Inr (gr_id r, db\<lparr>db_grant := sql_update (\<lambda>x. gr_id x = gr_id r)
            (gr_access_vector_update (\<lambda>_. access_vector)) (db_grant db)\<rparr>))
      | None \<Rightarrow>
          (case insert_with_retry draws (map gr_id (db_grant db)) of
             None \<Rightarrow> None
           | Some grant_id \<Rightarrow>
               Some (Inr (grant_id, db\<lparr>db_grant := db_grant db @
                 [\<lparr>gr_id = grant_id, gr_grantee = grantee_uid, gr_keyentryid = key_id,
                   gr_access_vector = access_vector\<rparr>]\<rparr>))))"

definition grant where
  "grant draws key caller_uid grantee_uid access_vector check_permission =
     with_transaction (
       tx_bind (tx_query (load_access_tuple key KeyType_Client caller_uid)) (\<lambda>access.
       tx_bind (tx_lift (check_permission (ka_descriptor access) access_vector)) (\<lambda>_ :: unit.
       tx_bind (grant_tx draws (ka_key_id access) grantee_uid access_vector) (\<lambda>grant_id.
       tx_return (False, \<lparr>kd_domain = Domain_GRANT, kd_nspace = grant_id, kd_alias = None, kd_blob = None\<rparr>)))))"

definition ungrant where
  "ungrant key caller_uid grantee_uid check_permission =
     with_transaction (
       tx_bind (tx_query (load_access_tuple key KeyType_Client caller_uid)) (\<lambda>access.
       tx_bind (tx_lift (check_permission (ka_descriptor access))) (\<lambda>_ :: unit.
       tx_bind (tx_exec (\<lambda>db. db\<lparr>db_grant :=
         sql_delete (\<lambda>r. gr_keyentryid r = ka_key_id access \<and> gr_grantee r = grantee_uid) (db_grant db)\<rparr>)) (\<lambda>_.
       tx_return (False, ())))))"

section \<open>Removing keys\<close>

definition unbind_key where
  "unbind_key key key_type caller_uid check_permission =
     with_transaction (
       tx_bind (tx_query (load_access_tuple key key_type caller_uid)) (\<lambda>access.
       tx_bind (tx_lift (check_permission (ka_descriptor access) (ka_vector access))) (\<lambda>_ :: unit.
       tx_bind (tx_remove (remove_key_rows (ka_key_id access))) (\<lambda>need_gc.
       tx_return (need_gc, ())))))"

text \<open>The ids a statement with a sub-select on the entries of a state or a namespace is about.\<close>

definition key_ids :: "(KeyEntryRow \<Rightarrow> bool) \<Rightarrow> KeystoreDb \<Rightarrow> i64 list" where
  "key_ids P db = map kr_id (filter P (db_keyentry db))"

definition delete_key_data :: "i64 list \<Rightarrow> KeystoreDb \<Rightarrow> KeystoreDb" where
  "delete_key_data ids db =
     db\<lparr>db_keymetadata := sql_delete (\<lambda>r. mr_owner r \<in> set ids) (db_keymetadata db),
        db_keyparameter := sql_delete (\<lambda>r. pr_keyentryid r \<in> set ids) (db_keyparameter db),
        db_grant := sql_delete (\<lambda>r. gr_keyentryid r \<in> set ids) (db_grant db)\<rparr>"

definition in_namespace :: "Domain \<Rightarrow> i64 \<Rightarrow> KeyEntryRow \<Rightarrow> bool" where
  "in_namespace domain namespace r \<longleftrightarrow> kr_domain r = Some domain \<and> kr_namespace r = Some namespace
     \<and> kr_key_type r = KeyType_Client"

definition unbind_keys_for_namespace where
  "unbind_keys_for_namespace domain namespace db =
     (if domain \<notin> {Domain_APP, Domain_SELINUX} then Some (db, False, db_rc ResponseCode_INVALID_ARGUMENT)
      else with_transaction (
        tx_bind (tx_exec (\<lambda>db.
          let db = delete_key_data (key_ids (in_namespace domain namespace) db) db;
              db = (if domain = Domain_APP
                    then db\<lparr>db_grant := sql_delete (\<lambda>r. gr_grantee r = namespace) (db_grant db)\<rparr> else db)
          in db\<lparr>db_keyentry := sql_delete (in_namespace domain namespace) (db_keyentry db)\<rparr>)) (\<lambda>_.
        tx_return (True, ()))) db)"

definition is_unreferenced :: "KeyEntryRow \<Rightarrow> bool" where
  "is_unreferenced r = (kr_state r = KeyLifeCycle_Unreferenced)"

definition cleanup_unreferenced :: "KeystoreDb \<Rightarrow> KeystoreDb" where
  "cleanup_unreferenced db =
     (let ids = key_ids is_unreferenced db;
          db = delete_key_data ids db
      in db\<lparr>db_blobentry := sql_update (\<lambda>r. br_keyentryid r \<in> set ids)
              (br_state_update (\<lambda>_. BlobState_Orphaned)) (db_blobentry db),
            db_keyentry := sql_delete is_unreferenced (db_keyentry db)\<rparr>)"

definition app_key_of_user :: "i32 \<Rightarrow> KeyEntryRow \<Rightarrow> bool" where
  "app_key_of_user user r \<longleftrightarrow> kr_key_type r = KeyType_Client \<and> kr_domain r = Some Domain_APP
     \<and> (case kr_namespace r of Some n \<Rightarrow> of_user user n | None \<Rightarrow> False) \<and> kr_state r = KeyLifeCycle_Live"

definition super_key_of_user :: "i32 \<Rightarrow> KeyEntryRow \<Rightarrow> bool" where
  "super_key_of_user user r \<longleftrightarrow> kr_key_type r = KeyType_Super \<and> kr_namespace r = Some (scast user)
     \<and> kr_state r = KeyLifeCycle_Live"

definition delete_received_grants :: "i32 \<Rightarrow> KeystoreDb \<Rightarrow> KeystoreDb" where
  "delete_received_grants user db =
     db\<lparr>db_grant := sql_delete (\<lambda>r. of_user user (gr_grantee r)) (db_grant db)\<rparr>"

definition unbind_keys_for_user where
  "unbind_keys_for_user user =
     with_transaction (
       tx_bind (tx_exec (delete_received_grants user)) (\<lambda>_.
       tx_bind (tx_remove (\<lambda>db.
         remove_keys (key_ids (\<lambda>r. app_key_of_user user r \<or> super_key_of_user user r) db) db)) (\<lambda>notify_gc.
       tx_return (notify_gc, ()))))"

definition is_auth_bound_key :: "KeyParameter list \<Rightarrow> bool" where
  "is_auth_bound_key params =
     list_ex (\<lambda>p. case kp_value p of KeyParameterValue_UserSecureID _ \<Rightarrow> True | _ \<Rightarrow> False) params"

text \<open>A loop that looks at each key before it removes it.\<close>

fun unbind_matching :: "('k \<Rightarrow> i64) \<Rightarrow> ('k \<Rightarrow> KeystoreDb \<Rightarrow> DbError + bool) \<Rightarrow> 'k list \<Rightarrow> bool \<Rightarrow> bool tx" where
  "unbind_matching the_id should_unbind [] notify_gc db = Some (Inr (notify_gc, db))"
| "unbind_matching the_id should_unbind (k # ks) notify_gc db = (case should_unbind k db of
     Inl e \<Rightarrow> Some (Inl e)
   | Inr unbind \<Rightarrow>
       if unbind then
         (case remove_key_rows (the_id k) db of (removed, db) \<Rightarrow>
            unbind_matching the_id should_unbind ks (removed \<or> notify_gc) db)
       else unbind_matching the_id should_unbind ks notify_gc db)"

definition unbind_auth_bound_keys_for_user where
  "unbind_auth_bound_keys_for_user user =
     with_transaction (\<lambda>db.
       tx_bind (unbind_matching (\<lambda>k. k)
           (\<lambda>key_id db. map_ok is_auth_bound_key (load_key_parameters key_id db))
           (key_ids (app_key_of_user user) db) False)
         (\<lambda>notify_gc. tx_return (notify_gc, ())) db)"

definition is_super_encrypted_key :: "i64 \<Rightarrow> KeystoreDb \<Rightarrow> DbError + bool" where
  "is_super_encrypted_key key_id db =
     map_ok (\<lambda>(_, blob_info, _). case blob_info of
         Some (_, blob_metadata) \<Rightarrow> encrypted_by blob_metadata \<noteq> None
       | None \<Rightarrow> False) (load_blob_components key_id LOAD_KM db)"

definition is_lskf_bound :: "i64 \<times> KeyType \<Rightarrow> KeystoreDb \<Rightarrow> DbError + bool" where
  "is_lskf_bound = (\<lambda>(key_id, key_type) db.
     if key_type = KeyType_Super then Inr True
     else
       res_bind (load_key_parameters key_id db) (\<lambda>params.
       res_bind (is_super_encrypted_key key_id db) (\<lambda>encrypted.
       Inr (is_auth_bound_key params \<or> encrypted))))"

definition unbind_lskf_bound_keys_for_user where
  "unbind_lskf_bound_keys_for_user user =
     with_transaction (\<lambda>db.
       tx_bind (unbind_matching fst is_lskf_bound
           (map (\<lambda>r. (kr_id r, kr_key_type r))
             (filter (\<lambda>r. app_key_of_user user r \<or> super_key_of_user user r) (db_keyentry db))) False)
         (\<lambda>notify_gc. tx_return (notify_gc, ())) db)"

definition terminate_uuid where
  "terminate_uuid uuid =
     with_transaction (tx_bind (tx_remove (\<lambda>db. remove_keys (key_ids (\<lambda>r. kr_km_uuid r = uuid) db) db))
       (\<lambda>notify_gc. tx_return (notify_gc, ())))"

text \<open>Attestation keys that a keybox other than the current one has signed.\<close>

definition keybox_prefix :: "i64 \<Rightarrow> KeystoreDb \<Rightarrow> SqlValue option" where
  "keybox_prefix key_id db = map_option mr_data
     (List.find (\<lambda>r. mr_owner r = key_id \<and> mr_tag r = KeyboxAttestationUuidPrefix) (db_keymetadata db))"

definition KeyPurpose_ATTEST_KEY :: i64 where
  "KeyPurpose_ATTEST_KEY = 7"

definition is_attestation_key :: "i64 \<Rightarrow> KeystoreDb \<Rightarrow> bool" where
  "is_attestation_key key_id db =
     list_ex (\<lambda>r. pr_keyentryid r = key_id \<and> pr_tag r = Tag_u32 Tag_Purpose
        \<and> pr_data r = SqlValue_Integer KeyPurpose_ATTEST_KEY) (db_keyparameter db)"

definition retire :: "bytes \<Rightarrow> Uuid \<Rightarrow> SqlValue \<Rightarrow> bool" where
  "retire current_identity_digest uuid prefix = (case prefix of
     SqlValue_Blob prefix \<Rightarrow>
       if length prefix = KEYBOX_UUID_DIGEST_BYTES \<and> is_keybox_bound uuid \<and> prefix = uuid_get_digest uuid
       then \<not> is_bound_to_keybox_digest uuid current_identity_digest
       else True
   | _ \<Rightarrow> True)"

definition is_stale :: "bytes \<Rightarrow> KeystoreDb \<Rightarrow> KeyEntryRow \<Rightarrow> bool" where
  "is_stale current_identity_digest db r \<longleftrightarrow>
     kr_key_type r = KeyType_Client \<and> kr_state r \<noteq> KeyLifeCycle_Unreferenced \<and> is_attestation_key (kr_id r) db
     \<and> (case keybox_prefix (kr_id r) db of
          Some prefix \<Rightarrow> retire current_identity_digest (kr_km_uuid r) prefix
        | None \<Rightarrow> False)"

definition retire_stale_keybox_bound_entries where
  "retire_stale_keybox_bound_entries current_identity_digest =
     with_transaction (\<lambda>db.
       let stale_keys = key_ids (is_stale current_identity_digest db) db
       in tx_bind (tx_remove (remove_keys stale_keys)) (\<lambda>notify_gc. tx_return (notify_gc, length stale_keys)) db)"

section \<open>Listing\<close>

definition is_listed :: "Domain \<Rightarrow> i64 \<Rightarrow> KeyType \<Rightarrow> KeyEntryRow \<Rightarrow> bool" where
  "is_listed domain namespace key_type r \<longleftrightarrow> kr_domain r = Some domain \<and> kr_namespace r = Some namespace
     \<and> kr_alias r \<noteq> None \<and> kr_state r = KeyLifeCycle_Live \<and> kr_key_type r = key_type"

definition LIST_LIMIT :: nat where
  "LIST_LIMIT = 10000"

definition list_past_alias where
  "list_past_alias domain namespace key_type start_past_alias =
     with_transaction (tx_query (\<lambda>db.
       let aliases = map (\<lambda>r. the (kr_alias r)) (filter (is_listed domain namespace key_type) (db_keyentry db));
           past = filter (\<lambda>a. case start_past_alias of Some s \<Rightarrow> s < a | None \<Rightarrow> True) aliases
       in Inr (False, map (\<lambda>a. \<lparr>kd_domain = domain, kd_nspace = namespace, kd_alias = Some a, kd_blob = None\<rparr>)
            (take LIST_LIMIT (sort (remdups past))))))"

definition count_keys where
  "count_keys domain namespace key_type =
     with_transaction (tx_query (\<lambda>db. Inr (False, sql_count (is_listed domain namespace key_type) (db_keyentry db))))"

definition load_key_descriptor where
  "load_key_descriptor key_id =
     with_transaction (tx_query (\<lambda>db.
       case List.find (\<lambda>r. kr_id r = key_id) (db_keyentry db) of
         None \<Rightarrow> Inr (False, None)
       | Some r \<Rightarrow>
           (case (kr_domain r, kr_namespace r) of
              (Some domain, Some namespace) \<Rightarrow>
                Inr (False, Some \<lparr>kd_domain = domain, kd_nspace = namespace, kd_alias = kr_alias r, kd_blob = None\<rparr>)
            | _ \<Rightarrow> Inl DbError_Sqlite)))"

text \<open>
  The keys are read in one transaction and the parameters of each in another; a key whose parameters
  cannot be read then is left out.  \<open>later\<close> is the database when the parameters of a key are read.
\<close>

definition get_app_uids_affected_by_sid :: "i32 \<Rightarrow> i64 \<Rightarrow> (i64 \<Rightarrow> KeystoreDb) \<Rightarrow> KeystoreDb \<Rightarrow> i64 set" where
  "get_app_uids_affected_by_sid user sid later db =
     set (map (\<lambda>r. the (kr_namespace r)) (filter (\<lambda>r.
       case load_key_parameters (kr_id r) (later (kr_id r)) of
         Inr params \<Rightarrow> list_ex (\<lambda>p. kp_value p = KeyParameterValue_UserSecureID sid) params
       | Inl _ \<Rightarrow> False) (filter (app_key_of_user user) (db_keyentry db))))"

section \<open>Start-up and garbage collection\<close>

definition mark_orphans :: "nat \<Rightarrow> KeystoreDb \<Rightarrow> KeystoreDb" where
  "mark_orphans orphan_limit db =
     (let orphans = take orphan_limit (map br_id (filter (\<lambda>r. br_keyentryid r \<notin> kr_id ` set (db_keyentry db))
            (db_blobentry db)))
      in db\<lparr>db_blobentry := sql_update (\<lambda>r. br_id r \<in> set orphans)
           (br_state_update (\<lambda>_. BlobState_Orphaned)) (db_blobentry db)\<rparr>)"

definition is_existing :: "KeyEntryRow \<Rightarrow> bool" where
  "is_existing r = (kr_state r = KeyLifeCycle_Existing)"

definition cleanup_leftovers where
  "cleanup_leftovers orphan_limit db =
     (case with_transaction (tx_bind (tx_exec (mark_orphans orphan_limit)) (\<lambda>_. tx_return (True, ()))) db of
        Some (db, notified, Inr _) \<Rightarrow>
          with_transaction (\<lambda>db. Some (Inr ((True, sql_count is_existing (db_keyentry db)),
            db\<lparr>db_keyentry := sql_update is_existing (kr_state_update (\<lambda>_. KeyLifeCycle_Unreferenced))
              (db_keyentry db)\<rparr>))) db
      | Some (db, notified, Inl e) \<Rightarrow> Some (db, notified, Inl e)
      | None \<Rightarrow> None)"

record SupersededBlob =
  sb_blob_id :: nat
  sb_blob :: bytes
  sb_metadata :: BlobMetaData

definition delete_blobs :: "nat list \<Rightarrow> KeystoreDb \<Rightarrow> KeystoreDb" where
  "delete_blobs blob_ids db =
     fold (\<lambda>blob_id db. db\<lparr>db_blobmetadata := sql_delete (\<lambda>r. mr_owner r = blob_id) (db_blobmetadata db),
             db_blobentry := sql_delete (\<lambda>r. br_id r = blob_id) (db_blobentry db)\<rparr>) blob_ids db"

definition is_garbage :: "BlobEntryRow \<Rightarrow> bool" where
  "is_garbage r \<longleftrightarrow> br_subcomponent_type r = KEY_BLOB \<and> br_state r \<noteq> BlobState_Current"

definition is_public_garbage :: "BlobEntryRow \<Rightarrow> bool" where
  "is_public_garbage r \<longleftrightarrow> br_subcomponent_type r \<noteq> KEY_BLOB \<and> br_state r \<noteq> BlobState_Current"

definition load_superseded :: "nat \<Rightarrow> KeystoreDb \<Rightarrow> DbError + SupersededBlob list" where
  "load_superseded max_blobs db =
     res_collect (\<lambda>r. map_ok (\<lambda>m. \<lparr>sb_blob_id = br_id r, sb_blob = br_blob r, sb_metadata = m\<rparr>)
         (blob_meta_load (br_id r) db))
       (take max_blobs (filter is_garbage (db_blobentry db)))"

definition handle_next_superseded_blobs where
  "handle_next_superseded_blobs blob_ids_to_delete max_blobs =
     with_transaction (
       tx_bind (tx_exec (\<lambda>db. cleanup_unreferenced (delete_blobs blob_ids_to_delete db))) (\<lambda>_.
       tx_bind (tx_query (load_superseded max_blobs)) (\<lambda>result.
       if result \<noteq> [] then tx_return (False, result)
       else
         tx_bind (tx_exec (\<lambda>db. db\<lparr>db_blobentry := sql_delete is_public_garbage (db_blobentry db)\<rparr>)) (\<lambda>_.
         tx_return (False, [])))))"

text \<open>
  The collector.  \<open>invalidate\<close> says whether unwrapping the blob and deleting the key in KeyMint succeeds;
  \<open>gc_invalidated\<close> records the blobs for which that was tried.
\<close>

record GcInternal =
  gc_deleted_blob_ids :: "nat list"
  gc_superseded_blobs :: "SupersededBlob list"
  gc_invalidated :: "(Uuid \<times> bytes) list"

definition process_one_key ::
    "(Uuid \<Rightarrow> bytes \<Rightarrow> bool) \<Rightarrow> GcInternal \<times> KeystoreDb \<Rightarrow> (GcInternal \<times> KeystoreDb \<times> (DbError + unit)) option" where
  "process_one_key invalidate = (\<lambda>(self, db).
     case (if gc_superseded_blobs self = [] then
             (case handle_next_superseded_blobs (gc_deleted_blob_ids self) 20 db of
                None \<Rightarrow> None
              | Some (db, _, Inl e) \<Rightarrow> Some (self, db, Inl e)
              | Some (db, _, Inr blobs) \<Rightarrow>
                  Some (self\<lparr>gc_deleted_blob_ids := [], gc_superseded_blobs := blobs\<rparr>, db, Inr ()))
           else Some (self, db, Inr ())) of
       None \<Rightarrow> None
     | Some (self, db, Inl e) \<Rightarrow> Some (self, db, Inl e)
     | Some (self, db, Inr _) \<Rightarrow>
         Some (if gc_superseded_blobs self = [] then (self, db, Inr ())
         else
           let b = last (gc_superseded_blobs self);
               self = self\<lparr>gc_superseded_blobs := butlast (gc_superseded_blobs self),
                           gc_deleted_blob_ids := gc_deleted_blob_ids self @ [sb_blob_id b]\<rparr>
           in case km_uuid (sb_metadata b) of
                None \<Rightarrow> (self, db, Inr ())
              | Some uuid \<Rightarrow>
                  (self\<lparr>gc_invalidated := gc_invalidated self @ [(uuid, sb_blob b)]\<rparr>, db,
                   if invalidate uuid (sb_blob b) then Inr () else db_sys)))"

text \<open>Whether the collector queues another step.\<close>

definition gc_step ::
    "bool \<Rightarrow> (Uuid \<Rightarrow> bytes \<Rightarrow> bool) \<Rightarrow> GcInternal \<times> KeystoreDb \<Rightarrow> (bool \<times> GcInternal \<times> KeystoreDb) option" where
  "gc_step boot_completed invalidate = (\<lambda>(self, db).
     if \<not> boot_completed then Some (False, self, db)
     else case process_one_key invalidate (self, db) of
       None \<Rightarrow> None
     | Some (self, db, _) \<Rightarrow> Some (gc_deleted_blob_ids self \<noteq> [], self, db))"

end
