(* ===== verification/Key_Db_Safety.thy ===== *)
theory Key_Db_Safety
  imports Key_Db_Admin
begin

text \<open>
  An invariant of the key database under every sequence of its operations: ids are unique, an alias names
  one key, rows refer to keys and blobs that exist, and of each component of a key only the newest blob
  is current.
\<close>

section \<open>The invariant\<close>

definition ids_of :: "KeystoreDb \<Rightarrow> i64 set" where
  "ids_of db = kr_id ` set (db_keyentry db)"

definition alias_key :: "KeyEntryRow \<Rightarrow> Domain option \<times> i64 option \<times> bytes option" where
  "alias_key r = (kr_domain r, kr_namespace r, kr_alias r)"

definition named_client :: "KeyEntryRow \<Rightarrow> bool" where
  "named_client r \<longleftrightarrow> kr_key_type r = KeyType_Client \<and> kr_alias r \<noteq> None"

definition row_ok :: "KeyEntryRow \<Rightarrow> bool" where
  "row_ok r \<longleftrightarrow> 0 <s kr_id r \<and>
     (kr_state r = KeyLifeCycle_Live \<longrightarrow>
        kr_domain r \<in> {Some Domain_APP, Some Domain_SELINUX} \<and> kr_namespace r \<noteq> None \<and> kr_alias r \<noteq> None)"

definition keys_ok :: "KeyEntryRow list \<Rightarrow> bool" where
  "keys_ok rows \<longleftrightarrow> distinct (map kr_id rows) \<and> list_all row_ok rows \<and>
     inj_on alias_key {r \<in> set rows. named_client r}"

definition same_component :: "BlobEntryRow \<Rightarrow> BlobEntryRow \<Rightarrow> bool" where
  "same_component r r' \<longleftrightarrow> br_keyentryid r = br_keyentryid r' \<and> br_subcomponent_type r = br_subcomponent_type r'"

definition blobs_ok :: "BlobEntryRow list \<Rightarrow> bool" where
  "blobs_ok rows \<longleftrightarrow> distinct (map br_id rows) \<and>
     (\<forall>r\<in>set rows. \<forall>r'\<in>set rows. br_state r = BlobState_Current \<and> same_component r r' \<longrightarrow> br_id r' \<le> br_id r)"

definition meta_ok :: "'k set \<Rightarrow> (i64 \<Rightarrow> SqlValue \<Rightarrow> DbError + 'e) \<Rightarrow> 'k MetaRow list \<Rightarrow> bool" where
  "meta_ok owners from_cell rows \<longleftrightarrow> distinct (map (\<lambda>r. (mr_owner r, mr_tag r)) rows) \<and>
     (\<forall>r\<in>set rows. mr_owner r \<in> owners \<and> is_ok (from_cell (mr_tag r) (mr_data r)))"

definition grants_ok :: "i64 set \<Rightarrow> GrantRow list \<Rightarrow> bool" where
  "grants_ok ids rows \<longleftrightarrow> distinct (map gr_id rows) \<and> distinct (map (\<lambda>r. (gr_keyentryid r, gr_grantee r)) rows) \<and>
     gr_keyentryid ` set rows \<subseteq> ids"

definition params_ok :: "i64 set \<Rightarrow> KeyParameterRow list \<Rightarrow> bool" where
  "params_ok ids rows \<longleftrightarrow>
     (\<forall>r\<in>set rows. pr_keyentryid r \<in> ids \<and> is_ok (new_from_sql (pr_tag r) (pr_data r)))"

definition key_blob_ids :: "BlobEntryRow list \<Rightarrow> nat set" where
  "key_blob_ids rows = set (map br_id (filter (\<lambda>r. br_subcomponent_type r = KEY_BLOB) rows))"

definition db_ok :: "KeystoreDb \<Rightarrow> bool" where
  "db_ok db \<longleftrightarrow>
     keys_ok (db_keyentry db) \<and> blobs_ok (db_blobentry db) \<and>
     meta_ok (ids_of db) key_meta_from_sql (db_keymetadata db) \<and>
     meta_ok (key_blob_ids (db_blobentry db)) blob_meta_from_sql (db_blobmetadata db) \<and>
     grants_ok (ids_of db) (db_grant db) \<and> params_ok (ids_of db) (db_keyparameter db)"

lemma empty_db_ok: "db_ok empty_db"
  by (simp add: db_ok_def empty_db_def keys_ok_def blobs_ok_def meta_ok_def grants_ok_def params_ok_def)

section \<open>Statements\<close>

lemma set_sql_delete [simp]: "set (sql_delete P rows) = {r \<in> set rows. \<not> P r}"
  by (auto simp: sql_delete_def)

lemma set_sql_update: "set (sql_update P f rows) = {r \<in> set rows. \<not> P r} \<union> f ` {r \<in> set rows. P r}"
  by (auto simp: sql_update_def)

lemma in_sql_updateE:
  assumes "r \<in> set (sql_update P f rows)"
  obtains x where "x \<in> set rows" "r = (if P x then f x else x)"
  using assms unfolding sql_update_def set_map image_iff by blast

lemma map_sql_update [simp]:
  assumes "\<And>r. g (f r) = g r"
  shows "map g (sql_update P f rows) = map g rows"
  using assms by (simp add: sql_update_def)

lemma distinct_sql_delete: "distinct (map f rows) \<Longrightarrow> distinct (map f (sql_delete P rows))"
  by (simp add: sql_delete_def distinct_map_filter)

lemma keys_ok_delete: "keys_ok rows \<Longrightarrow> keys_ok (sql_delete P rows)"
  by (auto simp: keys_ok_def distinct_sql_delete list_all_iff inj_on_def)

lemma blobs_ok_delete: "blobs_ok rows \<Longrightarrow> blobs_ok (sql_delete P rows)"
  by (auto simp: blobs_ok_def distinct_sql_delete)

lemma blobs_ok_retire:
  assumes "blobs_ok rows" "s \<noteq> BlobState_Current"
  shows "blobs_ok (sql_update P (br_state_update (\<lambda>_. s)) rows)"
proof -
  have "\<exists>r0\<in>set rows. br_id r = br_id r0 \<and> same_component r r0 \<and>
      (br_state r = BlobState_Current \<longrightarrow> br_state r0 = BlobState_Current)"
    if "r \<in> set (sql_update P (br_state_update (\<lambda>_. s)) rows)" for r
    using that assms(2) by (auto simp: set_sql_update same_component_def)
  then show ?thesis
    using assms(1) by (simp add: blobs_ok_def same_component_def) (metis (no_types, lifting))
qed

lemma key_blob_ids_retire [simp]:
  "key_blob_ids (sql_update P (br_state_update (\<lambda>_. s)) rows) = key_blob_ids rows"
proof -
  have "map br_id (filter (\<lambda>r. br_subcomponent_type r = KEY_BLOB) (sql_update P (br_state_update (\<lambda>_. s)) rows))
      = map br_id (filter (\<lambda>r. br_subcomponent_type r = KEY_BLOB) rows)"
    by (induction rows) (simp_all add: sql_update_def)
  then show ?thesis
    unfolding key_blob_ids_def by (rule arg_cong)
qed

lemma meta_ok_delete: "meta_ok A c rows \<Longrightarrow> meta_ok A c (sql_delete P rows)"
  by (auto simp: meta_ok_def distinct_sql_delete)

lemma meta_ok_owners: "meta_ok A c rows \<Longrightarrow> mr_owner ` set rows \<subseteq> B \<Longrightarrow> meta_ok B c rows"
  by (auto simp: meta_ok_def)

lemma grants_ok_delete: "grants_ok A rows \<Longrightarrow> grants_ok A (sql_delete P rows)"
  by (auto simp: grants_ok_def distinct_sql_delete)

lemma grants_ok_owners: "grants_ok A rows \<Longrightarrow> gr_keyentryid ` set rows \<subseteq> B \<Longrightarrow> grants_ok B rows"
  by (auto simp: grants_ok_def)

lemma params_ok_delete: "params_ok A rows \<Longrightarrow> params_ok A (sql_delete P rows)"
  by (auto simp: params_ok_def)

lemma params_ok_owners: "params_ok A rows \<Longrightarrow> pr_keyentryid ` set rows \<subseteq> B \<Longrightarrow> params_ok B rows"
  by (auto simp: params_ok_def)

lemmas rows_ok_delete = keys_ok_delete blobs_ok_delete meta_ok_delete grants_ok_delete params_ok_delete

text \<open>Removing keys together with the rows that refer to them.\<close>

lemma db_ok_remove:
  assumes ok: "db_ok db"
    and keys: "db_keyentry db' = sql_delete P (db_keyentry db)"
    and gone: "\<And>r. r \<in> set (db_keyentry db) \<Longrightarrow> P r \<Longrightarrow> kr_id r \<in> G"
    and rest: "db_keymetadata db' = sql_delete (\<lambda>r. mr_owner r \<in> G) (db_keymetadata db)"
      "db_keyparameter db' = sql_delete (\<lambda>r. pr_keyentryid r \<in> G) (db_keyparameter db)"
      "db_grant db' = sql_delete (\<lambda>r. gr_keyentryid r \<in> G \<or> Q r) (db_grant db)"
      "db_blobmetadata db' = db_blobmetadata db"
      "blobs_ok (db_blobentry db')" "key_blob_ids (db_blobentry db') = key_blob_ids (db_blobentry db)"
  shows "db_ok db'"
proof -
  have ids: "ids_of db - G \<subseteq> ids_of db'"
    using gone by (auto simp: ids_of_def keys)
  have "meta_ok (ids_of db') key_meta_from_sql (sql_delete (\<lambda>r. mr_owner r \<in> G) (db_keymetadata db))"
    using ok ids by (intro meta_ok_owners [OF meta_ok_delete]) (auto simp: db_ok_def meta_ok_def)
  moreover have "params_ok (ids_of db') (sql_delete (\<lambda>r. pr_keyentryid r \<in> G) (db_keyparameter db))"
    using ok ids by (intro params_ok_owners [OF params_ok_delete]) (auto simp: db_ok_def params_ok_def)
  moreover have "grants_ok (ids_of db') (sql_delete (\<lambda>r. gr_keyentryid r \<in> G \<or> Q r) (db_grant db))"
    using ok ids by (intro grants_ok_owners [OF grants_ok_delete]) (auto simp: db_ok_def grants_ok_def)
  ultimately show ?thesis
    using ok by (simp add: db_ok_def keys rest keys_ok_delete)
qed

section \<open>Triples\<close>

text \<open>What holds when a transaction body returns without an error.\<close>

definition tx_hoare :: "(KeystoreDb \<Rightarrow> bool) \<Rightarrow> 'a tx \<Rightarrow> ('a \<Rightarrow> KeystoreDb \<Rightarrow> bool) \<Rightarrow> bool" where
  "tx_hoare P m Q \<longleftrightarrow> (\<forall>db a db'. P db \<longrightarrow> m db = Some (Inr (a, db')) \<longrightarrow> Q a db')"

named_theorems tx_rules \<open>rules for triples of transaction bodies\<close>

lemma tx_hoare_bind [tx_rules]:
  "tx_hoare P m Q \<Longrightarrow> (\<And>a. tx_hoare (Q a) (f a) R) \<Longrightarrow> tx_hoare P (tx_bind m f) R"
  unfolding tx_hoare_def tx_bind_def by (fastforce split: option.splits sum.splits prod.splits)

lemma tx_hoare_return: "(\<And>db. P db \<Longrightarrow> Q a db) \<Longrightarrow> tx_hoare P (tx_return a) Q"
  by (simp add: tx_hoare_def tx_return_def)

lemma tx_hoare_query: "(\<And>db a. P db \<Longrightarrow> q db = Inr a \<Longrightarrow> Q a db) \<Longrightarrow> tx_hoare P (tx_query q) Q"
  by (auto simp: tx_hoare_def tx_query_def map_ok_Inr_iff)

lemma tx_hoare_lift: "(\<And>db a. P db \<Longrightarrow> r = Inr a \<Longrightarrow> Q a db) \<Longrightarrow> tx_hoare P (tx_lift r) Q"
  by (simp add: tx_lift_def tx_hoare_query)

lemma tx_hoare_exec: "(\<And>db. P db \<Longrightarrow> Q () (f db)) \<Longrightarrow> tx_hoare P (tx_exec f) Q"
  by (simp add: tx_hoare_def tx_exec_def)

lemma tx_hoare_remove: "(\<And>db. P db \<Longrightarrow> Q (fst (f db)) (snd (f db))) \<Longrightarrow> tx_hoare P (tx_remove f) Q"
  by (simp add: tx_hoare_def tx_remove_def) (metis fst_conv snd_conv)

lemma tx_hoare_post: "tx_hoare P m Q \<Longrightarrow> (\<And>a db. Q a db \<Longrightarrow> R a db) \<Longrightarrow> tx_hoare P m R"
  by (simp add: tx_hoare_def)

lemma tx_hoare_pre: "tx_hoare P m Q \<Longrightarrow> (\<And>db. R db \<Longrightarrow> P db) \<Longrightarrow> tx_hoare R m Q"
  unfolding tx_hoare_def by blast

lemma tx_hoareD: "tx_hoare P m Q \<Longrightarrow> P db \<Longrightarrow> m db = Some (Inr (a, db')) \<Longrightarrow> Q a db'"
  by (simp add: tx_hoare_def)

lemma with_transaction_hoare:
  assumes "tx_hoare P m (\<lambda>_. Q)" "P db" "Q db" "with_transaction m db = Some (db', gc, r)"
  shows "Q db'"
  using assms by (auto simp: with_transaction_def tx_hoare_def split: option.splits sum.splits)

section \<open>Steps that keep the invariant\<close>

abbreviation has_key :: "i64 \<Rightarrow> KeystoreDb \<Rightarrow> bool" where
  "has_key k db \<equiv> db_ok db \<and> k \<in> ids_of db"

lemma insert_with_retry_Some:
  "insert_with_retry draws ids = Some k \<Longrightarrow> k \<notin> set ids \<and> 0 <s (k :: i64)"
proof (induction draws)
  case (Cons c draws)
  have "0 <s c" if "c \<noteq> 0" "c \<le> 0x7FFFFFFFFFFFFFFF"
  proof -
    have "uint c < 2 ^ 63" "0 < uint c"
      using that by (simp_all add: word_le_def word_neq_0_conv word_less_def)
    then show ?thesis
      by (simp add: word_sless_alt sint_uint signed_take_bit_int_eq_self)
  qed
  with Cons show ?case
    by (auto split: if_splits)
qed simp

text \<open>Bodies that keep the invariant and the set of keys.\<close>

definition tx_frame :: "'a tx \<Rightarrow> bool" where
  "tx_frame m \<longleftrightarrow> (\<forall>A. tx_hoare (\<lambda>db. db_ok db \<and> ids_of db = A) m (\<lambda>_ db. db_ok db \<and> ids_of db = A))"

lemma tx_frame_hoare: "tx_frame m \<Longrightarrow> tx_hoare (\<lambda>db. db_ok db \<and> R (ids_of db)) m (\<lambda>_ db. db_ok db \<and> R (ids_of db))"
  unfolding tx_frame_def tx_hoare_def by metis

lemma tx_frame_ok: "tx_frame m \<Longrightarrow> tx_hoare db_ok m (\<lambda>_. db_ok)"
  unfolding tx_frame_def tx_hoare_def by metis

lemma tx_frame_exec: "(\<And>db. db_ok db \<Longrightarrow> db_ok (f db) \<and> ids_of (f db) = ids_of db) \<Longrightarrow> tx_frame (tx_exec f)"
  by (auto simp: tx_frame_def intro!: tx_hoare_exec)

lemma tx_frame_bind: "tx_frame m \<Longrightarrow> (\<And>a. tx_frame (f a)) \<Longrightarrow> tx_frame (tx_bind m f)"
  unfolding tx_frame_def using tx_hoare_bind by blast

lemma tx_frame_return: "tx_frame (tx_return a)"
  by (simp add: tx_frame_def tx_hoare_return)

lemma tx_frame_query: "tx_frame (tx_query q)"
  by (simp add: tx_frame_def tx_hoare_query)

lemma tx_frame_lift: "tx_frame (tx_lift r)"
  by (simp add: tx_lift_def tx_frame_query)

lemmas tx_frame_intros = tx_frame_bind tx_frame_return tx_frame_query tx_frame_lift

subsection \<open>New entries\<close>

lemma keys_ok_append:
  assumes "keys_ok rows" "kr_id r \<notin> kr_id ` set rows" "row_ok r" "\<not> named_client r"
  shows "keys_ok (rows @ [r])"
proof -
  have "{x \<in> set (rows @ [r]). named_client x} = {x \<in> set rows. named_client x}"
    using assms(4) by auto
  with assms show ?thesis
    by (simp add: keys_ok_def)
qed

lemma db_ok_new_key:
  assumes ok: "db_ok db" and keys: "keys_ok (db_keyentry db @ [r])"
  shows "has_key (kr_id r) (db\<lparr>db_keyentry := db_keyentry db @ [r]\<rparr>)"
proof -
  have ids: "ids_of (db\<lparr>db_keyentry := db_keyentry db @ [r]\<rparr>) = insert (kr_id r) (ids_of db)"
    by (auto simp: ids_of_def)
  show ?thesis
    using ok keys unfolding db_ok_def ids by (auto simp: meta_ok_def params_ok_def grants_ok_def)
qed

lemma db_ok_drawn_key:
  assumes "db_ok db" "insert_with_retry draws (map kr_id (db_keyentry db)) = Some (kr_id r)"
    and "0 <s kr_id r \<Longrightarrow> row_ok r" "\<not> named_client r"
  shows "has_key (kr_id r) (db\<lparr>db_keyentry := db_keyentry db @ [r]\<rparr>)"
  using assms insert_with_retry_Some [OF assms(2)]
  by (intro db_ok_new_key keys_ok_append) (simp_all add: db_ok_def)

lemma create_key_entry_hoare:
  "tx_hoare db_ok (create_key_entry_internal draws domain namespace key_type uuid) has_key"
proof -
  have "has_key k (db\<lparr>db_keyentry := db_keyentry db @
      [\<lparr>kr_id = k, kr_key_type = key_type, kr_domain = Some domain, kr_namespace = Some namespace,
        kr_alias = None, kr_state = KeyLifeCycle_Existing, kr_km_uuid = uuid\<rparr>]\<rparr>)"
    if "db_ok db" "insert_with_retry draws (map kr_id (db_keyentry db)) = Some k" for db k
    using db_ok_drawn_key [of db draws "\<lparr>kr_id = k, kr_key_type = key_type, kr_domain = Some domain,
        kr_namespace = Some namespace, kr_alias = None, kr_state = KeyLifeCycle_Existing, kr_km_uuid = uuid\<rparr>"] that
    by (simp add: row_ok_def named_client_def)
  then show ?thesis
    by (auto simp: tx_hoare_def create_key_entry_internal_def split: if_splits option.splits)
qed

subsection \<open>Blobs\<close>

lemma fold_max: "fold max xs (0 :: nat) = Max (insert 0 (set xs))"
  using Max.set_eq_fold [of 0 xs] by simp

lemma max_blob_id_ge: "r \<in> set (db_blobentry db) \<Longrightarrow> br_id r \<le> max_blob_id db"
  by (simp add: max_blob_id_def fold_max)

lemma max_blob_id_insert: "max_blob_id (insert_blob k sc b db) = Suc (max_blob_id db)"
  by (simp add: max_blob_id_def insert_blob_def fold_max)

lemma ids_of_simps [simp]:
  "ids_of (supersede_blobs k sc db) = ids_of db" "ids_of (insert_blob k sc b db) = ids_of db"
  "ids_of (clear_keybox_metadata k sc db) = ids_of db" "ids_of (blob_meta_store i m db) = ids_of db"
  "ids_of (key_meta_store k km db) = ids_of db" "ids_of (insert_keyparameter_internal k ps db) = ids_of db"
  by (simp_all add: ids_of_def supersede_blobs_def insert_blob_def clear_keybox_metadata_def blob_meta_store_def
      key_meta_store_def insert_keyparameter_internal_def)

lemma ids_of_blobentry [simp]: "ids_of (db\<lparr>db_blobentry := x\<rparr>) = ids_of db"
  by (simp add: ids_of_def)

lemma blobs_ok_append:
  assumes ok: "blobs_ok rows" and less: "\<And>r. r \<in> set rows \<Longrightarrow> br_id r < br_id n"
    and old: "\<And>r. r \<in> set rows \<Longrightarrow> br_state r = BlobState_Current \<Longrightarrow> same_component r n \<Longrightarrow> False"
  shows "blobs_ok (rows @ [n])"
proof -
  have "br_id n \<notin> br_id ` set rows"
    using less by fastforce
  moreover have "br_id r' \<le> br_id r"
    if "r \<in> insert n (set rows)" "r' \<in> insert n (set rows)" "br_state r = BlobState_Current" "same_component r r'"
    for r r'
    using that ok less [of r'] old [of r] unfolding blobs_ok_def by (cases "r = n"; cases "r' = n") auto
  ultimately show ?thesis
    using ok by (simp add: blobs_ok_def)
qed

lemma supersede_blobs_state:
  assumes "r \<in> set (db_blobentry (supersede_blobs k sc db))" "br_keyentryid r = k" "br_subcomponent_type r = sc"
  shows "br_state r = BlobState_Superseded"
proof -
  obtain x where "r = (if br_keyentryid x = k \<and> br_subcomponent_type x = sc
      then x\<lparr>br_state := BlobState_Superseded\<rparr> else x)"
    using assms(1) by (auto simp: supersede_blobs_def elim: in_sql_updateE)
  with assms(2,3) show ?thesis
    by (cases "br_keyentryid x = k \<and> br_subcomponent_type x = sc") simp_all
qed

lemma replace_blob_ok:
  assumes ok: "db_ok db"
  shows "db_ok (insert_blob k sc b (supersede_blobs k sc db))"
proof -
  let ?rows = "db_blobentry (supersede_blobs k sc db)"
  let ?new = "\<lparr>br_id = Suc (max_blob_id (supersede_blobs k sc db)), br_subcomponent_type = sc, br_keyentryid = k,
      br_blob = b, br_state = BlobState_Current\<rparr>"
  have rows: "blobs_ok ?rows" "key_blob_ids ?rows = key_blob_ids (db_blobentry db)"
    using ok by (simp_all add: supersede_blobs_def db_ok_def blobs_ok_retire)
  have less: "r \<in> set ?rows \<Longrightarrow> br_id r < br_id ?new" for r
    by (simp add: max_blob_id_ge le_imp_less_Suc)
  have old: "False" if "r \<in> set ?rows" "br_state r = BlobState_Current" "same_component r ?new" for r
    using that supersede_blobs_state [of r k sc db] by (simp add: same_component_def)
  have "blobs_ok (?rows @ [?new])"
    using rows(1) less old by (rule blobs_ok_append)
  moreover have "key_blob_ids (db_blobentry db) \<subseteq> key_blob_ids (?rows @ [?new])"
    using rows(2) by (auto simp: key_blob_ids_def)
  ultimately show ?thesis
    using ok meta_ok_owners [of "key_blob_ids (db_blobentry db)" blob_meta_from_sql "db_blobmetadata db"]
    by (simp add: db_ok_def insert_blob_def) (auto simp: supersede_blobs_def ids_of_def meta_ok_def)
qed

subsection \<open>Metadata\<close>

definition key_meta_wf :: "KeyMetaData \<Rightarrow> bool" where
  "key_meta_wf m \<longleftrightarrow> (\<forall>t e. m t = Some e \<longrightarrow> key_db_tag e = t)"

definition blob_meta_wf :: "BlobMetaData \<Rightarrow> bool" where
  "blob_meta_wf m \<longleftrightarrow>
     (\<forall>t e. m t = Some e \<longrightarrow> blob_db_tag e = t \<and> (case e of BlobMetaEntry_KmUuid u \<Rightarrow> length u = 16 | _ \<Rightarrow> True))"

lemma key_meta_round_trip: "key_meta_from_sql (key_db_tag e) (key_meta_to_sql e) = Inr e"
  by (cases e) (simp_all add: key_meta_from_sql_def sql_get_i64_def sql_get_vec_def)

lemma blob_meta_round_trip:
  "(case e of BlobMetaEntry_KmUuid u \<Rightarrow> length u = 16 | _ \<Rightarrow> True) \<Longrightarrow>
     blob_meta_from_sql (blob_db_tag e) (blob_meta_to_sql e) = Inr e"
proof (cases e)
  case (BlobMetaEntry_EncryptedBy x)
  then show ?thesis
    by (cases x) (simp_all add: blob_meta_from_sql_def EncryptedBy_column_result_def sql_get_i64_def)
qed (simp_all add: blob_meta_from_sql_def Uuid_column_result_def sql_get_vec_def)

lemma meta_ok_insert:
  assumes "meta_ok A c rows" "mr_owner r \<in> A" "is_ok (c (mr_tag r) (mr_data r))"
  shows "meta_ok A c (insert_or_replace r rows)"
  using assms meta_ok_delete [OF assms(1)] by (auto simp: meta_ok_def insert_or_replace_def)

lemma meta_ok_store:
  assumes "\<And>t e. m t = Some e \<Longrightarrow> is_ok (c t (to_cell e))" "owner \<in> A" "meta_ok A c rows"
  shows "meta_ok A c (store_metadata tags to_cell owner m rows)"
proof -
  have "meta_ok A c (fold (\<lambda>tag rows. case m tag of
             None \<Rightarrow> rows
           | Some e \<Rightarrow> insert_or_replace \<lparr>mr_owner = owner, mr_tag = tag, mr_data = to_cell e\<rparr> rows) tags rows)"
    using assms(3) by (induction tags arbitrary: rows) (simp_all add: meta_ok_insert assms split: option.splits)
  then show ?thesis
    by (simp add: store_metadata_def)
qed

lemma key_meta_store_ok:
  assumes "has_key k db" "key_meta_wf m"
  shows "db_ok (key_meta_store k m db)"
proof -
  have "is_ok (key_meta_from_sql t (key_meta_to_sql e))" if "m t = Some e" for t e
    using that assms(2) key_meta_round_trip [of e] by (auto simp: key_meta_wf_def)
  with assms show ?thesis
    by (simp add: db_ok_def key_meta_store_def meta_ok_store ids_of_def)
qed

lemma blob_meta_store_ok:
  assumes "db_ok db" "blob_meta_wf m" "i \<in> key_blob_ids (db_blobentry db)"
  shows "db_ok (blob_meta_store i m db)"
proof -
  have "is_ok (blob_meta_from_sql t (blob_meta_to_sql e))" if "m t = Some e" for t e
    using that assms(2) blob_meta_round_trip [of e] by (auto simp: blob_meta_wf_def)
  with assms show ?thesis
    by (simp add: db_ok_def blob_meta_store_def meta_ok_store ids_of_def)
qed

end
