(* ===== verification/Key_Db_Invariant.thy ===== *)
theory Key_Db_Invariant
  imports Key_Db_Safety
begin

text \<open>
  Every operation of the key database keeps the invariant of \<open>Key_Db_Safety\<close>, and so does every sequence of
  them, with the garbage collector in between.
\<close>

section \<open>Storing\<close>

lemma set_blob_ok:
  assumes "db_ok db" "case m of None \<Rightarrow> True | Some m \<Rightarrow> sc = KEY_BLOB \<and> blob_meta_wf m"
  shows "db_ok (let db = insert_blob k sc b (supersede_blobs k sc db)
     in case m of None \<Rightarrow> db | Some m \<Rightarrow> blob_meta_store (max_blob_id db) m db)"
proof (cases m)
  case (Some m')
  have "max_blob_id (insert_blob k sc b (supersede_blobs k sc db))
      \<in> key_blob_ids (db_blobentry (insert_blob k sc b (supersede_blobs k sc db)))"
    using assms(2) Some unfolding max_blob_id_insert by (simp add: insert_blob_def key_blob_ids_def)
  with assms Some show ?thesis
    by (simp add: Let_def replace_blob_ok blob_meta_store_ok)
qed (simp add: Let_def replace_blob_ok assms)

lemma delete_public_ok:
  assumes "db_ok db" "sc \<noteq> KEY_BLOB"
  shows "db_ok (db\<lparr>db_blobentry := sql_delete (\<lambda>r. br_subcomponent_type r = sc \<and> P r) (db_blobentry db)\<rparr>)"
proof -
  have "key_blob_ids (sql_delete (\<lambda>r. br_subcomponent_type r = sc \<and> P r) rows) = key_blob_ids rows" for rows
    using assms(2) by (auto simp: key_blob_ids_def sql_delete_def)
  with assms show ?thesis
    by (simp add: db_ok_def blobs_ok_delete)
qed

lemma clear_keybox_metadata_ok: "db_ok db \<Longrightarrow> db_ok (clear_keybox_metadata k sc db)"
  by (simp add: db_ok_def clear_keybox_metadata_def meta_ok_delete ids_of_def)

lemma set_blob_frame:
  assumes "case m of None \<Rightarrow> True | Some m \<Rightarrow> sc = KEY_BLOB \<and> blob_meta_wf m"
  shows "tx_frame (set_blob_internal k sc blob m)"
proof -
  have "tx_frame (tx_exec (clear_keybox_metadata k sc))"
    by (simp add: tx_frame_exec clear_keybox_metadata_ok)
  moreover have "tx_frame (tx_exec (\<lambda>db. let db = insert_blob k sc b (supersede_blobs k sc db)
     in case m of None \<Rightarrow> db | Some m \<Rightarrow> blob_meta_store (max_blob_id db) m db))" for b
    using set_blob_ok [OF _ assms] by (intro tx_frame_exec) (simp add: Let_def split: option.splits)
  moreover have "tx_frame (tx_exec (\<lambda>db. db\<lparr>db_blobentry :=
      sql_delete (\<lambda>r. br_subcomponent_type r = sc \<and> br_keyentryid r = k) (db_blobentry db)\<rparr>))" if "sc \<noteq> KEY_BLOB"
    using delete_public_ok [OF _ that] by (intro tx_frame_exec) simp
  moreover have "KEY_BLOB \<noteq> CERT" "KEY_BLOB \<noteq> CERT_CHAIN"
    by (simp_all add: sub_component_defs)
  ultimately show ?thesis
    unfolding set_blob_internal_def
    by (auto intro!: tx_frame_bind tx_frame_lift split: option.splits)
qed

lemma set_optional_blob_frame: "tx_frame (set_optional_blob k sc b)"
  by (auto simp: set_optional_blob_def intro!: set_blob_frame tx_frame_return split: option.splits)

lemma insert_keyparameter_ok: "has_key k db \<Longrightarrow> db_ok (insert_keyparameter_internal k ps db)"
  by (auto simp: db_ok_def insert_keyparameter_internal_def params_ok_def parameter_row_def to_from_sql ids_of_def)

section \<open>Binding an alias\<close>

lemma keys_ok_rebind:
  fixes nm :: bytes and namespace newid :: i64 and key_type :: KeyType
  assumes ok: "keys_ok rows" and ns: "domain \<in> {Domain_APP, Domain_SELINUX}"
  defines "bound \<equiv> \<lambda>r. kr_alias r = Some nm \<and> kr_domain r = Some domain \<and> kr_namespace r = Some namespace
      \<and> kr_key_type r = key_type"
    and "clear \<equiv> \<lambda>r :: KeyEntryRow. r\<lparr>kr_alias := None, kr_domain := None, kr_namespace := None,
      kr_state := KeyLifeCycle_Unreferenced\<rparr>"
    and "fresh \<equiv> \<lambda>r. kr_id r = newid \<and> kr_domain r = Some domain \<and> kr_namespace r = Some namespace
      \<and> kr_state r = KeyLifeCycle_Existing \<and> kr_key_type r = key_type"
    and "bind \<equiv> \<lambda>r :: KeyEntryRow. r\<lparr>kr_alias := Some nm, kr_state := KeyLifeCycle_Live\<rparr>"
  shows "keys_ok (sql_update fresh bind (sql_update bound clear rows))"
proof -
  let ?rows1 = "sql_update bound clear rows" and ?rows2 = "sql_update fresh bind (sql_update bound clear rows)"
  have ids: "map kr_id ?rows2 = map kr_id rows" "map kr_id ?rows1 = map kr_id rows"
    by (simp_all add: clear_def bind_def)
  have row1: "row_ok r" "named_client r \<Longrightarrow> r \<in> set rows \<and> \<not> bound r" if "r \<in> set ?rows1" for r
    using that ok by (auto simp: keys_ok_def list_all_iff row_ok_def named_client_def clear_def elim!: in_sql_updateE
        split: if_splits)
  have row2: "row_ok r" "named_client r \<Longrightarrow> \<not> (r \<in> set rows \<and> \<not> bound r) \<Longrightarrow> kr_id r = newid \<and> bound r"
    if r: "r \<in> set ?rows2" for r
  proof -
    obtain x where x: "x \<in> set ?rows1" "r = (if fresh x then bind x else x)"
      using r by (rule in_sql_updateE)
    show "row_ok r"
      using row1(1) [OF x(1)] x(2) ns by (auto simp: row_ok_def bind_def fresh_def)
    show "kr_id r = newid \<and> bound r" if "named_client r" "\<not> (r \<in> set rows \<and> \<not> bound r)"
      using row1(2) [OF x(1)] x(2) that by (cases "fresh x") (auto simp: bind_def fresh_def bound_def)
  qed
  have "r = r'" if r: "r \<in> set ?rows2" "named_client r" "r' \<in> set ?rows2" "named_client r'"
    and eq: "alias_key r = alias_key r'" for r r'
  proof -
    have d: "distinct (map kr_id ?rows2)"
      using ok ids by (simp add: keys_ok_def)
    have b: "bound r \<longleftrightarrow> bound r'" if "kr_key_type r = kr_key_type r'"
      using eq that by (simp add: bound_def alias_key_def)
    have "kr_key_type r = kr_key_type r'"
      using r by (simp add: named_client_def)
    then consider "r \<in> set rows" "r' \<in> set rows" | "kr_id r = kr_id r'"
      using row2(2) [OF r(1,2)] row2(2) [OF r(3,4)] b by metis
    then show ?thesis
    proof cases
      case 1
      with ok r eq show ?thesis
        by (auto simp: keys_ok_def inj_on_def)
    next
      case 2
      with d r show ?thesis
        by (metis distinct_map inj_on_def)
    qed
  qed
  then show ?thesis
    using ok row2(1) unfolding keys_ok_def ids by (auto simp: list_all_iff inj_on_def)
qed

lemma db_ok_same_ids:
  assumes "db_ok db" "keys_ok rows" "kr_id ` set rows = ids_of db"
  shows "db_ok (db\<lparr>db_keyentry := rows\<rparr>)"
  using assms by (simp add: db_ok_def ids_of_def)

lemma rebind_alias_hoare: "tx_hoare db_ok (rebind_alias newid nm domain namespace key_type) (\<lambda>_. db_ok)"
  unfolding tx_hoare_def
proof (intro allI impI)
  fix db a db'
  assume ok: "db_ok db" and run: "rebind_alias newid nm domain namespace key_type db = Some (Inr (a, db'))"
  from run have ns: "domain \<in> {Domain_APP, Domain_SELINUX}"
    by (auto simp: rebind_alias_def split: if_splits)
  let ?rows = "sql_update
      (\<lambda>r. kr_id r = newid \<and> kr_domain r = Some domain \<and> kr_namespace r = Some namespace
         \<and> kr_state r = KeyLifeCycle_Existing \<and> kr_key_type r = key_type)
      (\<lambda>r. r\<lparr>kr_alias := Some nm, kr_state := KeyLifeCycle_Live\<rparr>)
      (sql_update (\<lambda>r. kr_alias r = Some nm \<and> kr_domain r = Some domain \<and> kr_namespace r = Some namespace
           \<and> kr_key_type r = key_type)
        (\<lambda>r. r\<lparr>kr_alias := None, kr_domain := None, kr_namespace := None,
            kr_state := KeyLifeCycle_Unreferenced\<rparr>) (db_keyentry db))"
  have db': "db' = db\<lparr>db_keyentry := ?rows\<rparr>"
    using run by (auto simp: rebind_alias_def Let_def split: if_splits)
  have "keys_ok (db_keyentry db)"
    using ok by (simp add: db_ok_def)
  from keys_ok_rebind [OF this ns] have keys: "keys_ok ?rows" .
  have "map kr_id ?rows = map kr_id (db_keyentry db)"
    by simp
  from arg_cong [OF this, of set] have "kr_id ` set ?rows = ids_of db"
    unfolding ids_of_def set_map .
  from db_ok_same_ids [OF ok keys this] show "db_ok db'"
    unfolding db' .
qed

section \<open>Removing\<close>

lemma remove_key_rows_ok: "db_ok db \<Longrightarrow> db_ok (snd (remove_key_rows k db))"
  by (rule db_ok_remove [where G = "{k}" and P = "\<lambda>r. kr_id r = k" and Q = "\<lambda>_. False"])
    (simp_all add: remove_key_rows_def db_ok_def blobs_ok_retire)

lemma remove_keys_ok:
  assumes "db_ok db"
  shows "db_ok (snd (remove_keys ks db))"
proof -
  have "db_ok (snd (fold (\<lambda>key_id (notify_gc, db). case remove_key_rows key_id db of
             (removed, db) \<Rightarrow> (removed \<or> notify_gc, db)) ks s))" if "db_ok (snd s)" for s
    using that
  proof (induction ks arbitrary: s)
    case (Cons k ks)
    then show ?case
      using remove_key_rows_ok [of "snd s" k] by (auto simp: split_beta)
  qed simp
  from this [of "(False, db)"] assms show ?thesis
    by (simp add: remove_keys_def)
qed

lemma unbind_matching_ok:
  "db_ok db \<Longrightarrow> unbind_matching f g ks n db = Some (Inr (a, db')) \<Longrightarrow> db_ok db'"
proof (induction ks arbitrary: n db)
  case (Cons k ks)
  show ?case
  proof (cases "g k db")
    case (Inr unbind)
    then show ?thesis
      using Cons.prems Cons.IH [of db] Cons.IH [OF remove_key_rows_ok [OF Cons.prems(1)]]
      by (auto simp: split_beta split: if_splits)
  qed (use Cons in simp)
qed simp

lemma delete_key_data_ok:
  assumes ok: "db_ok db" and gone: "set ids = kr_id ` {r \<in> set (db_keyentry db). P r}"
  shows "db_ok (delete_key_data ids db\<lparr>db_grant := sql_delete Q (db_grant (delete_key_data ids db)),
           db_blobentry := sql_update B (br_state_update (\<lambda>_. BlobState_Orphaned)) (db_blobentry db),
           db_keyentry := sql_delete P (db_keyentry db)\<rparr>)"
  by (rule db_ok_remove [OF ok, where G = "set ids" and P = P and Q = Q])
    (use ok gone in \<open>auto simp: delete_key_data_def db_ok_def blobs_ok_retire sql_delete_def\<close>)

lemma set_key_ids [simp]: "set (key_ids P db) = kr_id ` {r \<in> set (db_keyentry db). P r}"
  by (simp add: key_ids_def)

lemma cleanup_unreferenced_ok:
  assumes "db_ok db"
  shows "db_ok (cleanup_unreferenced db)"
proof -
  have "sql_delete (\<lambda>_. False) rows = rows" for rows :: "GrantRow list"
    by (simp add: sql_delete_def)
  then show ?thesis
    using delete_key_data_ok [OF assms set_key_ids, where P = is_unreferenced and Q = "\<lambda>_. False"
        and B = "\<lambda>r. br_keyentryid r \<in> set (key_ids is_unreferenced db)"]
    by (simp add: cleanup_unreferenced_def Let_def delete_key_data_def)
qed

lemma delete_blobs_ok:
  assumes "db_ok db"
  shows "db_ok (delete_blobs is db)"
proof -
  have one: "db_ok (db\<lparr>db_blobmetadata := sql_delete (\<lambda>r. mr_owner r = i) (db_blobmetadata db),
      db_blobentry := sql_delete (\<lambda>r. br_id r = i) (db_blobentry db)\<rparr>)" if "db_ok db" for i db
  proof -
    have "meta_ok (key_blob_ids (sql_delete (\<lambda>r. br_id r = i) (db_blobentry db))) blob_meta_from_sql
        (sql_delete (\<lambda>r. mr_owner r = i) (db_blobmetadata db))"
      using that by (intro meta_ok_owners [OF meta_ok_delete])
        (auto simp: db_ok_def meta_ok_def key_blob_ids_def image_iff)
    with that show ?thesis
      by (simp add: db_ok_def blobs_ok_delete ids_of_def)
  qed
  show ?thesis
    using assms unfolding delete_blobs_def by (induction "is" arbitrary: db) (simp_all add: one)
qed

section \<open>Use counts\<close>

lemma decrement_decodes:
  assumes "is_ok (new_from_sql (pr_tag r) (pr_data r))" "is_usage_row k r" "positive_cell (pr_data r)"
  shows "is_ok (new_from_sql (pr_tag r) (decrement_cell (pr_data r)))"
proof -
  have tag: "new_from_sql (pr_tag r) d = map_ok KeyParameterValue_UsageCountLimit (sql_get_i32 d)" for d
    using assms(2) by (simp add: is_usage_row_def new_from_sql_def)
  obtain v where v: "pr_data r = SqlValue_Integer v" "fits_i32 (sint v)"
    using assms(1) unfolding tag
    by (cases "pr_data r") (auto simp: is_ok_iff map_ok_Inr_iff sql_get_i32_def split: if_splits)
  with assms(3) have "0 < sint v"
    by (simp add: positive_cell_def)
  then have "sint (v - 1) = sint v - 1"
    using sint_lt [of v] by (simp add: sint_word_diff signed_take_bit_int_eq_self)
  with v \<open>0 < sint v\<close> have "fits_i32 (sint (v - 1))"
    by (simp add: fits_i32_def)
  with v show ?thesis
    unfolding tag by (simp add: decrement_cell_def sql_get_i32_def)
qed

lemma decrement_ok:
  assumes "db_ok db"
  shows "db_ok (db\<lparr>db_keyparameter := sql_update (\<lambda>r. is_usage_row k r \<and> positive_cell (pr_data r))
     (pr_data_update decrement_cell) (db_keyparameter db)\<rparr>)"
proof -
  have "pr_keyentryid r \<in> ids_of db \<and> is_ok (new_from_sql (pr_tag r) (pr_data r))"
    if "r \<in> set (sql_update (\<lambda>r. is_usage_row k r \<and> positive_cell (pr_data r))
          (pr_data_update decrement_cell) (db_keyparameter db))" for r
    using that assms by (auto simp: db_ok_def params_ok_def decrement_decodes elim!: in_sql_updateE split: if_splits)
  with assms show ?thesis
    by (simp add: db_ok_def params_ok_def ids_of_def)
qed

lemma usage_count_hoare: "tx_hoare db_ok (db_check_and_update_key_usage_count_internal k) (\<lambda>_. db_ok)"
  unfolding tx_hoare_def
proof (intro allI impI)
  fix db a db'
  assume ok: "db_ok db" and run: "db_check_and_update_key_usage_count_internal k db = Some (Inr (a, db'))"
  note dec = decrement_ok [OF ok, of k]
  show "db_ok db'"
  proof (cases "key_usage_count_internal k db")
    case (Inr limit)
    with run dec remove_key_rows_ok [OF dec, of k] show ?thesis
      by (auto simp: db_check_and_update_key_usage_count_internal_def tx_bind_def tx_query_def tx_remove_def Let_def
          split: if_splits)
  qed (use run in \<open>simp add: db_check_and_update_key_usage_count_internal_def tx_bind_def tx_query_def\<close>)
qed

end
