(* ===== verification/Key_Db_Calls.thy ===== *)
theory Key_Db_Calls
  imports Key_Db_Invariant
begin

text \<open>
  Every call of the key database keeps the invariant of \<open>Key_Db_Safety\<close>, and garbage stays garbage until
  the collector removes it.  These two laws are the interface \<open>db_call\<close>, which the model of each call
  implements; the system of clients and the collector relies on nothing else.
\<close>

section \<open>Access to a key\<close>

lemma with_rows_extract_one_Inr:
  "with_rows_extract_one f rows = Inr a \<longleftrightarrow>
     (rows = [] \<and> f None = Inr a) \<or> (\<exists>r. rows = [r] \<and> f (Some r) = Inr a)"
  by (cases rows; cases "tl rows") (auto simp: with_rows_extract_one_def)

lemma filter_single_in: "filter P xs = [x] \<Longrightarrow> x \<in> set xs \<and> P x"
  using filter_set [of P xs] by auto

lemma find_SomeD: "List.find P xs = Some x \<Longrightarrow> x \<in> set xs \<and> P x"
  by (auto simp: find_Some_iff)

lemma distinct_map_eqD: "distinct (map f xs) \<Longrightarrow> x \<in> set xs \<Longrightarrow> y \<in> set xs \<Longrightarrow> f x = f y \<Longrightarrow> x = y"
  by (auto simp: distinct_map inj_on_def)

lemma load_key_entry_id_Inr:
  assumes "load_key_entry_id key key_type db = Inr k"
  obtains r where "r \<in> set (db_keyentry db)" "kr_id r = k" "kr_state r = KeyLifeCycle_Live" "kr_key_type r = key_type"
    "kr_domain r = Some (kd_domain key)" "kr_namespace r = Some (kd_nspace key)" "kr_alias r = kd_alias key"
    "kd_alias key \<noteq> None"
  using assms by (auto simp: load_key_entry_id_def with_rows_extract_one_Inr split: option.splits
      dest!: filter_single_in)

lemma key_id_access_Inr:
  assumes "key_id_access key uid db = Inr a"
  obtains r where "r \<in> set (db_keyentry db)" "is_live (kd_nspace key) r"
    "ka_key_id a = kd_nspace key" "kr_domain r = Some (kd_domain (ka_descriptor a))"
    "kr_namespace r = Some (kd_nspace (ka_descriptor a))"
    "ka_vector a = (if kd_domain (ka_descriptor a) \<noteq> Domain_APP \<or> kd_nspace (ka_descriptor a) \<noteq> uid
       then map_option gr_access_vector
              (List.find (\<lambda>r. gr_grantee r = uid \<and> gr_keyentryid r = kd_nspace key) (db_grant db))
       else None)"
  using assms by (fastforce simp: key_id_access_def res_bind_Inr_iff with_rows_extract_one_Inr Let_def
      split: option.splits dest!: filter_single_in)

lemma grant_access_Inr:
  assumes "grant_access key uid db = Inr a"
  obtains g r where "g \<in> set (db_grant db)" "gr_grantee g = uid" "gr_id g = kd_nspace key" "ka_descriptor a = key"
    "ka_key_id a = gr_keyentryid g" "ka_vector a = Some (gr_access_vector g)"
    "r \<in> set (db_keyentry db)" "is_live (gr_keyentryid g) r"
  using assms by (auto simp: grant_access_def with_rows_extract_one_Inr is_live_def
      split: option.splits dest!: filter_single_in find_SomeD)

lemma load_access_tuple_live:
  assumes "load_access_tuple key key_type uid db = Inr a"
  obtains r where "r \<in> set (db_keyentry db)" "is_live (ka_key_id a) r"
proof (cases "kd_domain key")
  case Domain_GRANT
  with assms that show ?thesis
    by (auto simp: load_access_tuple_def elim!: grant_access_Inr)
next
  case Domain_KEY_ID
  with assms that show ?thesis
    by (auto simp: load_access_tuple_def elim!: key_id_access_Inr)
qed (use assms that in \<open>auto simp: load_access_tuple_def map_ok_Inr_iff Let_def is_live_def elim!: load_key_entry_id_Inr\<close>)

section \<open>Garbage\<close>

definition garbage :: "KeystoreDb \<Rightarrow> (nat \<times> bytes) set" where
  "garbage db = (\<lambda>r. (br_id r, br_blob r)) ` {r \<in> set (db_blobentry db). is_garbage r}"

definition tx_keeps :: "'a tx \<Rightarrow> bool" where
  "tx_keeps m \<longleftrightarrow> (\<forall>db a db'. m db = Some (Inr (a, db')) \<longrightarrow> garbage db \<subseteq> garbage db')"

named_theorems keeps_intros \<open>transaction bodies that keep the garbage\<close>

lemma garbage_same: "db_blobentry db' = db_blobentry db \<Longrightarrow> garbage db \<subseteq> garbage db'"
  by (simp add: garbage_def)

lemma garbage_retire:
  assumes "db_blobentry db' = sql_update P (br_state_update (\<lambda>_. s)) (db_blobentry db)" "s \<noteq> BlobState_Current"
  shows "garbage db \<subseteq> garbage db'"
proof
  fix x assume "x \<in> garbage db"
  then obtain r where r: "r \<in> set (db_blobentry db)" "is_garbage r" "x = (br_id r, br_blob r)"
    by (auto simp: garbage_def)
  let ?r = "if P r then r\<lparr>br_state := s\<rparr> else r"
  have "?r \<in> set (db_blobentry db')"
    unfolding assms(1) sql_update_def set_map using r(1) by (rule imageI)
  moreover have "is_garbage ?r" "x = (br_id ?r, br_blob ?r)"
    using r assms(2) by (simp_all add: is_garbage_def)
  ultimately show "x \<in> garbage db'"
    unfolding garbage_def by blast
qed

lemma keeps_bind [keeps_intros]: "tx_keeps m \<Longrightarrow> (\<And>a. tx_keeps (f a)) \<Longrightarrow> tx_keeps (tx_bind m f)"
  unfolding tx_keeps_def tx_bind_def by (fastforce split: option.splits sum.splits prod.splits)

lemma keeps_return [keeps_intros]: "tx_keeps (tx_return a)"
  by (simp add: tx_keeps_def tx_return_def)

lemma keeps_query [keeps_intros]: "tx_keeps (tx_query q)"
  by (auto simp: tx_keeps_def tx_query_def map_ok_Inr_iff)

lemma keeps_lift [keeps_intros]: "tx_keeps (tx_lift r)"
  by (simp add: tx_lift_def keeps_query)

lemma keeps_exec: "(\<And>db. garbage db \<subseteq> garbage (f db)) \<Longrightarrow> tx_keeps (tx_exec f)"
  by (simp add: tx_keeps_def tx_exec_def)

lemma keeps_remove: "(\<And>db. garbage db \<subseteq> garbage (snd (f db))) \<Longrightarrow> tx_keeps (tx_remove f)"
  by (auto simp: tx_keeps_def tx_remove_def) (metis snd_conv subsetD)

lemma keeps_blobs: "(\<And>db a db'. m db = Some (Inr (a, db')) \<Longrightarrow> db_blobentry db' = db_blobentry db) \<Longrightarrow> tx_keeps m"
  unfolding tx_keeps_def using garbage_same by metis

lemma garbage_remove_key_rows: "garbage db \<subseteq> garbage (snd (remove_key_rows k db))"
  by (rule garbage_retire) (auto simp: remove_key_rows_def)

lemma garbage_remove_keys: "garbage db \<subseteq> garbage (snd (remove_keys ks db))"
proof -
  have "garbage (snd s) \<subseteq> garbage (snd (fold (\<lambda>key_id (notify_gc, db). case remove_key_rows key_id db of
             (removed, db) \<Rightarrow> (removed \<or> notify_gc, db)) ks s))" for s
  proof (induction ks arbitrary: s)
    case (Cons k ks)
    show ?case
      using garbage_remove_key_rows [of "snd s" k] Cons
      by (auto simp: split_beta) blast
  qed simp
  from this [of "(False, db)"] show ?thesis
    by (simp add: remove_keys_def)
qed

lemma keeps_remove_key_rows [keeps_intros]: "tx_keeps (tx_remove (remove_key_rows k))"
  by (rule keeps_remove) (rule garbage_remove_key_rows)

lemma keeps_remove_keys [keeps_intros]: "tx_keeps (tx_remove (\<lambda>db. remove_keys (ks db) db))"
  by (rule keeps_remove) (rule garbage_remove_keys)

lemma keeps_unbind_matching [keeps_intros]: "tx_keeps (unbind_matching f g ks n)"
proof -
  have "garbage db \<subseteq> garbage db'" if "unbind_matching f g ks n db = Some (Inr (a, db'))" for db a db'
    using that
  proof (induction ks arbitrary: n db)
    case (Cons k ks)
    show ?case
    proof (cases "g k db")
      case (Inr unbind)
      then show ?thesis
        using Cons.prems Cons.IH [of n db] Cons.IH [of _ "snd (remove_key_rows (f k) db)"]
          garbage_remove_key_rows [of db "f k"]
        by (auto simp: split_beta split: if_splits)
    qed (use Cons in simp)
  qed simp
  then show ?thesis
    by (simp add: tx_keeps_def)
qed

lemma garbage_insert_blob [simp]: "garbage (insert_blob k sc b db) = garbage db"
  by (auto simp: garbage_def insert_blob_def is_garbage_def)

lemma garbage_meta [simp]:
  "garbage (blob_meta_store i m db) = garbage db" "garbage (clear_keybox_metadata k sc db) = garbage db"
  by (simp_all add: garbage_def blob_meta_store_def clear_keybox_metadata_def)

lemma keeps_set_blob [keeps_intros]: "tx_keeps (set_blob_internal k sc b m)"
proof -
  have "garbage db \<subseteq> garbage (supersede_blobs k sc db)" for db
    by (rule garbage_retire) (auto simp: supersede_blobs_def)
  then have "tx_keeps (tx_exec (\<lambda>db. let db = insert_blob k sc b (supersede_blobs k sc db)
     in case m of None \<Rightarrow> db | Some m \<Rightarrow> blob_meta_store (max_blob_id db) m db))" for b
    by (intro keeps_exec) (simp add: Let_def split: option.splits)
  moreover have "tx_keeps (tx_exec (\<lambda>db. db\<lparr>db_blobentry :=
      sql_delete (\<lambda>r. br_subcomponent_type r = sc \<and> br_keyentryid r = k) (db_blobentry db)\<rparr>))"
    if "sc = CERT \<or> sc = CERT_CHAIN"
    using that by (intro keeps_exec) (auto simp: garbage_def is_garbage_def sub_component_defs)
  moreover have "tx_keeps (tx_exec (clear_keybox_metadata k sc))"
    by (rule keeps_exec) simp
  ultimately show ?thesis
    unfolding set_blob_internal_def by (auto intro!: keeps_bind keeps_lift split: option.splits)
qed

lemma keeps_set_optional_blob [keeps_intros]: "tx_keeps (set_optional_blob k sc b)"
  by (auto simp: set_optional_blob_def intro!: keeps_intros split: option.splits)

lemma keeps_usage [keeps_intros]: "tx_keeps (db_check_and_update_key_usage_count_internal k)"
proof -
  have "garbage db \<subseteq> garbage db'"
    if "db_check_and_update_key_usage_count_internal k db = Some (Inr (a, db'))" for db a db'
  proof (cases "key_usage_count_internal k db")
    case (Inr limit)
    let ?db = "db\<lparr>db_keyparameter := sql_update (\<lambda>r. is_usage_row k r \<and> positive_cell (pr_data r))
        (pr_data_update decrement_cell) (db_keyparameter db)\<rparr>"
    have "garbage db \<subseteq> garbage ?db"
      by (rule garbage_same) simp
    with that Inr garbage_remove_key_rows [of ?db k] show ?thesis
      by (auto simp: db_check_and_update_key_usage_count_internal_def tx_bind_def tx_query_def tx_remove_def Let_def
          split: if_splits)
  qed (use that in \<open>simp add: db_check_and_update_key_usage_count_internal_def tx_bind_def tx_query_def\<close>)
  then show ?thesis
    by (simp add: tx_keeps_def)
qed

section \<open>The interface of a call\<close>

text \<open>The blobs the collector holds are garbage of the database.\<close>

definition gc_ok :: "GcInternal \<Rightarrow> KeystoreDb \<Rightarrow> bool" where
  "gc_ok gc db \<longleftrightarrow> distinct (gc_deleted_blob_ids gc @ map sb_blob_id (gc_superseded_blobs gc)) \<and>
     set (gc_deleted_blob_ids gc) \<subseteq> fst ` garbage db \<and>
     (\<lambda>b. (sb_blob_id b, sb_blob b)) ` set (gc_superseded_blobs gc) \<subseteq> garbage db"

lemma gc_ok_mono: "gc_ok gc db \<Longrightarrow> garbage db \<subseteq> garbage db' \<Longrightarrow> gc_ok gc db'"
  unfolding gc_ok_def by blast

locale db_call =
  fixes args_ok :: bool
    and call :: "KeystoreDb \<Rightarrow> (KeystoreDb \<times> bool \<times> (DbError + 'a)) option"
  assumes keeps_invariant: "args_ok \<Longrightarrow> db_ok db \<Longrightarrow> call db = Some (db', need_gc, r) \<Longrightarrow> db_ok db'"
    and keeps_garbage: "call db = Some (db', need_gc, r) \<Longrightarrow> garbage db \<subseteq> garbage db'"
    and error_rolls_back: "call db = Some (db', need_gc, Inl e) \<Longrightarrow> db' = db \<and> \<not> need_gc"
begin

lemma call_ok:
  assumes "args_ok" "db_ok db" "gc_ok gc db" "call db = Some (db', need_gc, r)"
  shows "db_ok db'" "gc_ok gc db'"
  using keeps_invariant [OF assms(1,2,4)] gc_ok_mono [OF assms(3) keeps_garbage [OF assms(4)]] .

end

lemma with_transaction_call:
  assumes "args_ok \<Longrightarrow> tx_hoare db_ok m (\<lambda>_. db_ok)" "tx_keeps m"
  shows "db_call args_ok (with_transaction m)"
proof
  show "db_ok db'" if "args_ok" "db_ok db" "with_transaction m db = Some (db', need_gc, r)" for db db' need_gc r
    using with_transaction_hoare [OF assms(1) [OF that(1)]] that(2,3) by blast
  show "garbage db \<subseteq> garbage db'" if "with_transaction m db = Some (db', need_gc, r)" for db db' need_gc r
    using that assms(2) unfolding with_transaction_def tx_keeps_def
    by (auto split: option.splits sum.splits dest!: spec)
  show "db' = db \<and> \<not> need_gc" if "with_transaction m db = Some (db', need_gc, Inl e)" for db db' need_gc e
    using that by (auto simp: with_transaction_def split: option.splits sum.splits)
qed

lemma refused_call: "db_call args_ok (\<lambda>db. Some (db, False, Inl e))"
  by (simp add: db_call_def)

lemma target_call:
  assumes "\<And>nm domain namespace. db_call args_ok (f nm domain namespace)"
  shows "db_call args_ok (\<lambda>db. case alias_target key of Inl e \<Rightarrow> Some (db, False, Inl e)
     | Inr (nm, domain, namespace) \<Rightarrow> f nm domain namespace db)"
  using assms by (cases "alias_target key") (auto simp: refused_call split: prod.splits)

section \<open>Storing\<close>

definition blob_info_wf :: "BlobInfo \<Rightarrow> bool" where
  "blob_info_wf b \<longleftrightarrow> blob_meta_wf (bi_metadata b) \<and>
     (case bi_superseded_blob b of Some (_, m) \<Rightarrow> blob_meta_wf m | None \<Rightarrow> True)"

lemma frame_has_key: "tx_frame m \<Longrightarrow> tx_hoare (has_key k) m (\<lambda>_. has_key k)"
  by (rule tx_frame_hoare)

lemma has_key_exec:
  "(\<And>db. has_key k db \<Longrightarrow> db_ok (f db) \<and> ids_of (f db) = ids_of db) \<Longrightarrow> tx_hoare (has_key k) (tx_exec f) (\<lambda>_. has_key k)"
  by (intro tx_hoare_exec) simp

lemma rebind_has_key: "tx_hoare (has_key k) (rebind_alias newid nm domain namespace key_type) (\<lambda>_. db_ok)"
  by (rule tx_hoare_pre [OF rebind_alias_hoare]) simp

lemma keeps_create [keeps_intros]: "tx_keeps (create_key_entry_internal draws domain namespace key_type uuid)"
  by (rule keeps_blobs) (auto simp: create_key_entry_internal_def split: if_splits option.splits)

lemma keeps_rebind [keeps_intros]: "tx_keeps (rebind_alias newid nm domain namespace key_type)"
  by (rule keeps_blobs) (auto simp: rebind_alias_def Let_def split: if_splits)

lemma keeps_store_data [keeps_intros]:
  "tx_keeps (tx_exec (key_meta_store k km))" "tx_keeps (tx_exec (insert_keyparameter_internal k ps))"
  by (auto intro!: keeps_exec garbage_same simp: key_meta_store_def insert_keyparameter_internal_def)

lemma store_new_key_hoare:
  assumes "blob_info_wf b" "key_meta_wf km"
  shows "tx_hoare db_ok (store_new_key_tx draws nm domain namespace key_type ps b ci km uuid usage) (\<lambda>_. db_ok)"
proof -
  have usage: "tx_hoare db_ok (case usage of Some k \<Rightarrow> db_check_and_update_key_usage_count_internal k
      | None \<Rightarrow> tx_return False) (\<lambda>_. db_ok)"
    by (cases usage) (simp_all add: usage_count_hoare tx_hoare_return)
  have blob: "tx_frame (set_blob_internal k KEY_BLOB (Some x) (Some m))" if "blob_meta_wf m" for k x m
    using that by (simp add: set_blob_frame)
  have old: "tx_frame (case bi_superseded_blob b of
      Some (x, m) \<Rightarrow> tx_bind (set_blob_internal k KEY_BLOB (Some x) (Some m)) (\<lambda>_. tx_return True)
    | None \<Rightarrow> tx_return False)" for k
    using assms(1) by (auto simp: blob_info_wf_def intro!: tx_frame_bind tx_frame_return blob split: option.splits)
  have ps: "tx_hoare (has_key k) (tx_exec (insert_keyparameter_internal k ps)) (\<lambda>_. has_key k)" for k
    by (rule has_key_exec) (simp add: insert_keyparameter_ok)
  have km: "tx_hoare (has_key k) (tx_exec (key_meta_store k km)) (\<lambda>_. has_key k)" for k
    by (rule has_key_exec) (simp add: key_meta_store_ok assms)
  have new: "tx_frame (set_blob_internal k KEY_BLOB (Some (bi_blob b)) (Some (bi_metadata b)))" for k
    using assms(1) by (intro blob) (simp add: blob_info_wf_def)
  show ?thesis
    unfolding store_new_key_tx_def
    by (rule tx_hoare_bind [OF usage], rule tx_hoare_bind [OF create_key_entry_hoare],
        rule tx_hoare_bind [OF frame_has_key [OF old]], rule tx_hoare_bind [OF frame_has_key [OF new]],
        rule tx_hoare_bind [OF frame_has_key [OF set_optional_blob_frame]],
        rule tx_hoare_bind [OF frame_has_key [OF set_optional_blob_frame]],
        rule tx_hoare_bind [OF ps], rule tx_hoare_bind [OF km], rule tx_hoare_bind [OF rebind_has_key],
        rule tx_hoare_return)
qed

interpretation store_new_key: db_call "blob_info_wf b \<and> key_meta_wf km"
  "store_new_key draws key key_type ps b ci km uuid usage"
proof -
  have "tx_keeps (store_new_key_tx draws nm domain namespace key_type ps b ci km uuid usage)" for nm domain namespace
    unfolding store_new_key_tx_def by (auto intro!: keeps_intros split: option.splits)
  then show "db_call (blob_info_wf b \<and> key_meta_wf km) (store_new_key draws key key_type ps b ci km uuid usage)"
    unfolding store_new_key_def [abs_def] by (intro target_call with_transaction_call store_new_key_hoare) simp_all
qed

lemma creation_date_wf: "key_meta_wf (key_meta_add (KeyMetaEntry_CreationDate t) Map.empty)"
  by (simp add: key_meta_wf_def key_meta_add_def)

interpretation store_new_certificate: db_call True "store_new_certificate draws now key key_type cert uuid"
proof -
  let ?m = "\<lambda>nm domain namespace.
    tx_bind (create_key_entry_internal draws domain namespace key_type uuid) (\<lambda>key_id.
    tx_bind (set_blob_internal key_id CERT_CHAIN (Some cert) None) (\<lambda>_.
    tx_bind (tx_lift (ok_or DbError_Sqlite now)) (\<lambda>now.
    tx_bind (tx_exec (key_meta_store key_id (key_meta_add (KeyMetaEntry_CreationDate now) Map.empty))) (\<lambda>_.
    tx_bind (rebind_alias key_id nm domain namespace key_type) (\<lambda>need_gc. tx_return (need_gc, key_id))))))"
  have "tx_frame (set_blob_internal k CERT_CHAIN (Some cert) None)" for k
    by (simp add: set_blob_frame)
  note blob = frame_has_key [OF this]
  have date: "tx_hoare (has_key k) (tx_exec (key_meta_store k
      (key_meta_add (KeyMetaEntry_CreationDate t) Map.empty))) (\<lambda>_. has_key k)" for k t
    by (rule has_key_exec) (simp add: key_meta_store_ok creation_date_wf)
  have "tx_hoare db_ok (?m nm domain namespace) (\<lambda>_. db_ok)" for nm domain namespace
    by (rule tx_hoare_bind [OF create_key_entry_hoare], rule tx_hoare_bind [OF blob],
        rule tx_hoare_bind [OF frame_has_key [OF tx_frame_lift]], rule tx_hoare_bind [OF date],
        rule tx_hoare_bind [OF rebind_has_key], rule tx_hoare_return)
  moreover have "tx_keeps (?m nm domain namespace)" for nm domain namespace
    by (intro keeps_intros)
  ultimately show "db_call True (store_new_certificate draws now key key_type cert uuid)"
    unfolding store_new_certificate_def [abs_def] by (intro target_call with_transaction_call)
qed

definition set_blob_wf :: "SubComponentType \<Rightarrow> BlobMetaData option \<Rightarrow> bool" where
  "set_blob_wf sc m \<longleftrightarrow> (case m of None \<Rightarrow> True | Some m \<Rightarrow> sc = KEY_BLOB \<and> blob_meta_wf m)"

lemma frame_then_return: "tx_frame m \<Longrightarrow> tx_hoare db_ok (tx_bind m (\<lambda>_. tx_return a)) (\<lambda>_. db_ok)"
  by (intro tx_frame_ok tx_frame_bind tx_frame_return)

interpretation set_blob: db_call "set_blob_wf sc m" "set_blob k sc b m"
  unfolding set_blob_def
  by (rule with_transaction_call)
    (auto simp: set_blob_wf_def intro!: frame_then_return set_blob_frame keeps_intros)

interpretation set_deleted_blob: db_call "blob_meta_wf m" "set_deleted_blob b m"
  unfolding set_deleted_blob_def
  by (rule with_transaction_call) (auto intro!: frame_then_return set_blob_frame keeps_intros)

lemma store_super_key_start:
  assumes "db_ok db" "insert_with_retry draws (map kr_id (db_keyentry db)) = Some k"
  shows "has_key k (db\<lparr>db_keyentry := db_keyentry db @
      [\<lparr>kr_id = k, kr_key_type = KeyType_Super, kr_domain = Some Domain_APP, kr_namespace = Some n,
        kr_alias = Some nm, kr_state = KeyLifeCycle_Live, kr_km_uuid = KEYSTORE_UUID\<rparr>]\<rparr>)"
  using db_ok_drawn_key [of db draws "\<lparr>kr_id = k, kr_key_type = KeyType_Super, kr_domain = Some Domain_APP,
      kr_namespace = Some n, kr_alias = Some nm, kr_state = KeyLifeCycle_Live, kr_km_uuid = KEYSTORE_UUID\<rparr>"] assms
  by (simp add: row_ok_def named_client_def)

lemma tx_draw_hoare:
  assumes "\<And>k. tx_hoare (\<lambda>db. P db \<and> insert_with_retry draws (ids db) = Some k) (f k) Q"
  shows "tx_hoare P (\<lambda>db. case insert_with_retry draws (ids db) of None \<Rightarrow> None | Some k \<Rightarrow> f k db) Q"
  using assms by (auto simp: tx_hoare_def split: option.splits)

lemma keeps_draw [keeps_intros]:
  assumes "\<And>k. tx_keeps (f k)"
  shows "tx_keeps (\<lambda>db. case insert_with_retry draws (ids db) of None \<Rightarrow> None | Some k \<Rightarrow> f k db)"
  using assms unfolding tx_keeps_def by (fastforce split: option.splits)

interpretation store_super_key: db_call "blob_meta_wf m \<and> key_meta_wf km" "store_super_key draws user nm b m km"
proof -
  let ?row = "\<lambda>k. \<lparr>kr_id = k, kr_key_type = KeyType_Super, kr_domain = Some Domain_APP,
      kr_namespace = Some (scast user), kr_alias = Some nm, kr_state = KeyLifeCycle_Live, kr_km_uuid = KEYSTORE_UUID\<rparr>"
  let ?new = "\<lambda>k. tx_exec (\<lambda>db. db\<lparr>db_keyentry := db_keyentry db @ [?row k]\<rparr>)"
  let ?rest = "\<lambda>k. tx_bind (tx_exec (key_meta_store k km)) (\<lambda>_.
      tx_bind (set_blob_internal k KEY_BLOB (Some b) (Some m)) (\<lambda>_.
      tx_bind (tx_query (load_key_components LOAD_KM k)) (\<lambda>entry. tx_return (False, entry))))"
  have new: "tx_hoare (\<lambda>db. db_ok db \<and> insert_with_retry draws (map kr_id (db_keyentry db)) = Some k) (?new k)
      (\<lambda>_. has_key k)" for k
    by (intro tx_hoare_exec store_super_key_start [of _ draws k]) simp_all
  have rest: "tx_hoare (has_key k) (?rest k) (\<lambda>_. db_ok)" if wf: "blob_meta_wf m" "key_meta_wf km" for k
  proof -
    have "tx_hoare (has_key k) (tx_exec (key_meta_store k km)) (\<lambda>_. has_key k)"
      by (rule has_key_exec) (simp add: key_meta_store_ok wf)
    moreover have "tx_frame (tx_bind (set_blob_internal k KEY_BLOB (Some b) (Some m)) (\<lambda>_.
        tx_bind (tx_query (load_key_components LOAD_KM k)) (\<lambda>entry. tx_return (False, entry))))"
      by (intro tx_frame_intros set_blob_frame) (simp add: wf)
    ultimately show ?thesis
      by (rule tx_hoare_bind [OF _ tx_hoare_post [OF frame_has_key]]) simp
  qed
  have "tx_keeps (?new k)" for k
    by (intro keeps_exec garbage_same) simp
  then show "db_call (blob_meta_wf m \<and> key_meta_wf km) (store_super_key draws user nm b m km)"
    unfolding store_super_key_def
    by (intro with_transaction_call tx_draw_hoare tx_hoare_bind [OF new] rest keeps_intros) simp_all
qed

section \<open>Moving and granting\<close>

lemma keys_ok_move:
  assumes ok: "keys_ok rows" and ns: "domain \<in> {Domain_APP, Domain_SELINUX}"
    and free: "\<not> list_ex (\<lambda>r. kr_alias r = Some nm \<and> kr_domain r = Some domain \<and> kr_namespace r = Some namespace) rows"
  shows "keys_ok (sql_update (\<lambda>r. kr_id r = k)
      (\<lambda>r. r\<lparr>kr_alias := Some nm, kr_domain := Some domain, kr_namespace := Some namespace\<rparr>) rows)"
    (is "keys_ok ?rows")
proof -
  have old: "kr_id r \<noteq> k \<Longrightarrow> r \<in> set rows" "kr_id r = k \<Longrightarrow> alias_key r = (Some domain, Some namespace, Some nm)"
    and row: "row_ok r" if "r \<in> set ?rows" for r
  proof -
    obtain x where x: "x \<in> set rows" "r = (if kr_id x = k
        then x\<lparr>kr_alias := Some nm, kr_domain := Some domain, kr_namespace := Some namespace\<rparr> else x)"
      using \<open>r \<in> set ?rows\<close> by (rule in_sql_updateE)
    then have "row_ok x"
      using ok by (simp add: keys_ok_def list_all_iff)
    with x ns show "kr_id r \<noteq> k \<Longrightarrow> r \<in> set rows" "kr_id r = k \<Longrightarrow> alias_key r = (Some domain, Some namespace, Some nm)"
      "row_ok r"
      by (cases "kr_id x = k"; simp add: alias_key_def row_ok_def)+
  qed
  have ids: "map kr_id ?rows = map kr_id rows"
    by simp
  have free': "alias_key r \<noteq> (Some domain, Some namespace, Some nm)" if "r \<in> set rows" for r
    using free that by (auto simp: list_ex_iff alias_key_def)
  have "r = r'" if r: "r \<in> set ?rows" "named_client r" "r' \<in> set ?rows" "named_client r'"
    and eq: "alias_key r = alias_key r'" for r r'
  proof -
    consider "r \<in> set rows" "r' \<in> set rows" | "kr_id r = kr_id r'"
      using old [OF r(1)] old [OF r(3)] free' [of r] free' [of r'] eq
      by (cases "kr_id r = k"; cases "kr_id r' = k") simp_all
    then show ?thesis
    proof cases
      case 1
      with ok r eq show ?thesis
        by (auto simp: keys_ok_def inj_on_def)
    next
      case 2
      have "distinct (map kr_id ?rows)"
        using ok ids by (simp add: keys_ok_def)
      from distinct_map_eqD [OF this r(1,3) 2] show ?thesis .
    qed
  qed
  then show ?thesis
    using ok row unfolding keys_ok_def ids by (auto simp: list_all_iff inj_on_def)
qed

lemma migrate_target_domain: "migrate_target d uid = Inr d' \<Longrightarrow> kd_domain d' \<in> {Domain_APP, Domain_SELINUX}"
  by (auto simp: migrate_target_def split: if_splits)

interpretation migrate_key_namespace: db_call True "migrate_key_namespace k destination uid check_permission"
proof -
  let ?m = "\<lambda>d nm db. if list_ex (\<lambda>r. kr_alias r = Some nm \<and> kr_domain r = Some (kd_domain d)
                 \<and> kr_namespace r = Some (kd_nspace d)) (db_keyentry db)
            then Some (db_rc ResponseCode_INVALID_ARGUMENT)
            else if sql_count (\<lambda>r. kr_id r = k) (db_keyentry db) \<noteq> 1 then Some db_sys
            else Some (Inr ((False, ()), db\<lparr>db_keyentry := sql_update (\<lambda>r. kr_id r = k)
              (\<lambda>r. r\<lparr>kr_alias := Some nm, kr_domain := Some (kd_domain d),
                      kr_namespace := Some (kd_nspace d)\<rparr>) (db_keyentry db)\<rparr>))"
  have "db_ok (db\<lparr>db_keyentry := sql_update (\<lambda>r. kr_id r = k)
              (\<lambda>r. r\<lparr>kr_alias := Some nm, kr_domain := Some (kd_domain d),
                      kr_namespace := Some (kd_nspace d)\<rparr>) (db_keyentry db)\<rparr>)" (is "db_ok (db\<lparr>db_keyentry := ?rows\<rparr>)")
    if "db_ok db" "kd_domain d \<in> {Domain_APP, Domain_SELINUX}"
      "\<not> list_ex (\<lambda>r. kr_alias r = Some nm \<and> kr_domain r = Some (kd_domain d)
                 \<and> kr_namespace r = Some (kd_nspace d)) (db_keyentry db)" for d nm db
  proof (rule db_ok_same_ids [OF that(1)])
    show "keys_ok ?rows"
      using that by (intro keys_ok_move) (simp_all add: db_ok_def)
    have "map kr_id ?rows = map kr_id (db_keyentry db)"
      by simp
    from arg_cong [OF this, of set] show "kr_id ` set ?rows = ids_of db"
      unfolding ids_of_def set_map .
  qed
  then have "tx_hoare db_ok (?m d nm) (\<lambda>_. db_ok)" if "kd_domain d \<in> {Domain_APP, Domain_SELINUX}" for d nm
    using that by (auto simp: tx_hoare_def split: if_splits)
  moreover have "tx_keeps (?m d nm)" for d nm
    by (rule keeps_blobs) (auto split: if_splits)
  ultimately have move: "db_call True (with_transaction (?m d nm))"
    if "kd_domain d \<in> {Domain_APP, Domain_SELINUX}" for d nm
    using that by (intro with_transaction_call)
  let ?c = "res_bind (migrate_target destination uid) (\<lambda>destination.
        res_bind (check_permission destination) (\<lambda>_.
        res_bind (ok_or (DbError_Ks (KsError_Rc ResponseCode_INVALID_ARGUMENT)) (kd_alias destination)) (\<lambda>nm.
        Inr (destination, nm))))"
  show "db_call True (migrate_key_namespace k destination uid check_permission)"
  proof (cases ?c)
    case (Inl e)
    then show ?thesis
      unfolding migrate_key_namespace_def [abs_def] by (simp add: refused_call)
  next
    case (Inr t)
    then obtain d nm where t: "t = (d, nm)" "migrate_target destination uid = Inr d"
      by (auto simp: res_bind_Inr_iff)
    show ?thesis
      unfolding migrate_key_namespace_def [abs_def] Inr t(1)
      using move [OF migrate_target_domain [OF t(2)]] by simp
  qed
qed

lemma grants_ok_insert:
  assumes "grants_ok A rows" "gr_id g \<notin> gr_id ` set rows" "gr_keyentryid g \<in> A"
    "\<And>r. r \<in> set rows \<Longrightarrow> \<not> (gr_keyentryid r = gr_keyentryid g \<and> gr_grantee r = gr_grantee g)"
  shows "grants_ok A (rows @ [g])"
proof -
  have "(gr_keyentryid g, gr_grantee g) \<notin> (\<lambda>r. (gr_keyentryid r, gr_grantee r)) ` set rows"
    using assms(4) by fastforce
  with assms(1-3) show ?thesis
    by (simp add: grants_ok_def)
qed

lemma grants_ok_update: "grants_ok A rows \<Longrightarrow> grants_ok A (sql_update P (gr_access_vector_update f) rows)"
  by (auto simp: grants_ok_def elim!: in_sql_updateE)

lemma grant_tx_hoare: "tx_hoare (has_key k) (grant_tx draws k uid v) (\<lambda>_. db_ok)"
  unfolding tx_hoare_def
proof (intro allI impI)
  fix db i db' assume ok: "has_key k db" and run: "grant_tx draws k uid v db = Some (Inr (i, db'))"
  have grants: "db_ok (db\<lparr>db_grant := rows\<rparr>)" if "grants_ok (ids_of db) rows" for rows
    using ok that by (simp add: db_ok_def ids_of_def)
  show "db_ok db'"
  proof (cases "List.find (\<lambda>r. gr_keyentryid r = k \<and> gr_grantee r = uid) (db_grant db)")
    case None
    with run have i: "insert_with_retry draws (map gr_id (db_grant db)) = Some i"
      and db': "db' = db\<lparr>db_grant := db_grant db @
        [\<lparr>gr_id = i, gr_grantee = uid, gr_keyentryid = k, gr_access_vector = v\<rparr>]\<rparr>"
      by (auto simp: grant_tx_def split: option.splits)
    show ?thesis
      unfolding db' using ok None insert_with_retry_Some [OF i]
      by (intro grants grants_ok_insert) (auto simp: db_ok_def find_None_iff)
  next
    case (Some g)
    have "db_ok (db\<lparr>db_grant := sql_update (\<lambda>x. gr_id x = gr_id g)
        (gr_access_vector_update (\<lambda>_. v)) (db_grant db)\<rparr>)"
      using ok by (intro grants grants_ok_update) (simp add: db_ok_def)
    with run Some show ?thesis
      by (auto simp: grant_tx_def)
  qed
qed

lemma access_hoare:
  "tx_hoare db_ok (tx_query (load_access_tuple key key_type uid)) (\<lambda>a. has_key (ka_key_id a))"
  by (rule tx_hoare_query) (force simp: ids_of_def is_live_def elim!: load_access_tuple_live)

interpretation grant: db_call True "grant draws key uid grantee v check_permission"
proof -
  have "tx_hoare db_ok (tx_bind (tx_query (load_access_tuple key KeyType_Client uid)) (\<lambda>access.
       tx_bind (tx_lift (check_permission (ka_descriptor access) v)) (\<lambda>_ :: unit.
       tx_bind (grant_tx draws (ka_key_id access) grantee v) (\<lambda>grant_id.
       tx_return (False, \<lparr>kd_domain = Domain_GRANT, kd_nspace = grant_id, kd_alias = None, kd_blob = None\<rparr>)))))
     (\<lambda>_. db_ok)"
    by (rule tx_hoare_bind [OF access_hoare], rule tx_hoare_bind [OF frame_has_key [OF tx_frame_lift]],
        rule tx_hoare_bind [OF grant_tx_hoare], rule tx_hoare_return)
  moreover have "tx_keeps (grant_tx draws k grantee v)" for k
    by (rule keeps_blobs) (auto simp: grant_tx_def split: option.splits)
  ultimately show "db_call True (grant draws key uid grantee v check_permission)"
    unfolding grant_def by (intro with_transaction_call keeps_intros)
qed

interpretation ungrant: db_call True "ungrant key uid grantee check_permission"
proof -
  have "tx_frame (tx_exec (\<lambda>db. db\<lparr>db_grant := sql_delete P (db_grant db)\<rparr>))" for P
    by (rule tx_frame_exec) (simp add: db_ok_def grants_ok_delete ids_of_def)
  then have "tx_hoare db_ok (tx_bind (tx_query (load_access_tuple key KeyType_Client uid)) (\<lambda>access.
       tx_bind (tx_lift (check_permission (ka_descriptor access))) (\<lambda>_ :: unit.
       tx_bind (tx_exec (\<lambda>db. db\<lparr>db_grant :=
         sql_delete (\<lambda>r. gr_keyentryid r = ka_key_id access \<and> gr_grantee r = grantee) (db_grant db)\<rparr>)) (\<lambda>_.
       tx_return (False, ()))))) (\<lambda>_. db_ok)"
    by (intro tx_frame_ok tx_frame_intros)
  moreover have "tx_keeps (tx_exec (\<lambda>db. db\<lparr>db_grant := sql_delete P (db_grant db)\<rparr>))" for P
    by (intro keeps_exec garbage_same) simp
  ultimately show "db_call True (ungrant key uid grantee check_permission)"
    unfolding ungrant_def by (intro with_transaction_call keeps_intros)
qed

section \<open>Removing\<close>

lemma remove_then_return:
  assumes "\<And>db. db_ok db \<Longrightarrow> db_ok (snd (f db))"
  shows "tx_hoare db_ok (tx_bind (tx_remove f) (\<lambda>n. tx_return (g n))) (\<lambda>_. db_ok)"
  by (rule tx_hoare_bind [OF tx_hoare_remove [where Q = "\<lambda>_. db_ok"]]) (simp_all add: assms tx_hoare_return)

interpretation unbind_key: db_call True "unbind_key key key_type uid check_permission"
proof -
  have remove: "tx_hoare (has_key k) (tx_bind (tx_remove (remove_key_rows k)) (\<lambda>need_gc. tx_return (need_gc, ())))
      (\<lambda>_. db_ok)" for k
    by (rule tx_hoare_pre [OF remove_then_return]) (simp_all add: remove_key_rows_ok)
  have "tx_hoare db_ok (tx_bind (tx_query (load_access_tuple key key_type uid)) (\<lambda>access.
       tx_bind (tx_lift (check_permission (ka_descriptor access) (ka_vector access))) (\<lambda>_ :: unit.
       tx_bind (tx_remove (remove_key_rows (ka_key_id access))) (\<lambda>need_gc. tx_return (need_gc, ())))))
     (\<lambda>_. db_ok)"
    by (rule tx_hoare_bind [OF access_hoare], rule tx_hoare_bind [OF frame_has_key [OF tx_frame_lift]], rule remove)
  then show "db_call True (unbind_key key key_type uid check_permission)"
    unfolding unbind_key_def by (intro with_transaction_call keeps_intros)
qed

lemma sql_delete_twice: "sql_delete P (sql_delete Q rows) = sql_delete (\<lambda>r. Q r \<or> P r) rows"
  by (simp add: sql_delete_def)

lemma namespace_removal_ok:
  assumes "db_ok db"
  shows "db_ok (let db = delete_key_data (key_ids (in_namespace domain namespace) db) db;
              db = (if domain = Domain_APP
                    then db\<lparr>db_grant := sql_delete (\<lambda>r. gr_grantee r = namespace) (db_grant db)\<rparr> else db)
          in db\<lparr>db_keyentry := sql_delete (in_namespace domain namespace) (db_keyentry db)\<rparr>)"
  by (rule db_ok_remove [OF assms, where G = "set (key_ids (in_namespace domain namespace) db)"
        and P = "in_namespace domain namespace" and Q = "\<lambda>r. domain = Domain_APP \<and> gr_grantee r = namespace"])
    (use assms in \<open>auto simp: Let_def delete_key_data_def db_ok_def sql_delete_twice\<close>)

interpretation unbind_keys_for_namespace: db_call True "unbind_keys_for_namespace domain namespace"
proof -
  let ?f = "\<lambda>db. let db = delete_key_data (key_ids (in_namespace domain namespace) db) db;
              db = (if domain = Domain_APP
                    then db\<lparr>db_grant := sql_delete (\<lambda>r. gr_grantee r = namespace) (db_grant db)\<rparr> else db)
          in db\<lparr>db_keyentry := sql_delete (in_namespace domain namespace) (db_keyentry db)\<rparr>"
  have "tx_hoare db_ok (tx_exec ?f) (\<lambda>_. db_ok)"
    by (rule tx_hoare_exec) (rule namespace_removal_ok)
  then have "tx_hoare db_ok (tx_bind (tx_exec ?f) (\<lambda>_. tx_return (True, ()))) (\<lambda>_. db_ok)"
    by (rule tx_hoare_bind) (simp add: tx_hoare_return)
  moreover have "tx_keeps (tx_exec ?f)"
    by (intro keeps_exec garbage_same) (simp add: Let_def delete_key_data_def)
  ultimately have "db_call True (with_transaction (tx_bind (tx_exec ?f) (\<lambda>_. tx_return (True, ()))))"
    by (intro with_transaction_call keeps_intros)
  then show "db_call True (unbind_keys_for_namespace domain namespace)"
    unfolding unbind_keys_for_namespace_def [abs_def]
    by (cases "domain \<notin> {Domain_APP, Domain_SELINUX}") (simp_all add: refused_call)
qed

interpretation unbind_keys_for_user: db_call True "unbind_keys_for_user user"
proof -
  have "db_ok (delete_received_grants user db)" if "db_ok db" for db
    using that by (simp add: delete_received_grants_def db_ok_def grants_ok_delete ids_of_def)
  then have "tx_hoare db_ok (tx_exec (delete_received_grants user)) (\<lambda>_. db_ok)"
    by (rule tx_hoare_exec)
  moreover have "tx_keeps (tx_exec (delete_received_grants user))"
    by (intro keeps_exec garbage_same) (simp add: delete_received_grants_def)
  ultimately show "db_call True (unbind_keys_for_user user)"
    unfolding unbind_keys_for_user_def
    by (intro with_transaction_call keeps_intros) (rule tx_hoare_bind, assumption, simp add: remove_then_return remove_keys_ok)
qed

lemma unbind_matching_hoare: "tx_hoare db_ok (unbind_matching f g ks n) (\<lambda>_. db_ok)"
  unfolding tx_hoare_def using unbind_matching_ok by blast

lemma selected_call:
  assumes "\<And>s. tx_hoare db_ok (m s) (\<lambda>_. db_ok)" "\<And>s. tx_keeps (m s)"
  shows "db_call True (with_transaction (\<lambda>db. m (sel db) db))"
  using assms by (intro with_transaction_call) (simp_all add: tx_hoare_def tx_keeps_def)

lemma unbind_matching_call:
  "db_call True (with_transaction (\<lambda>db. tx_bind (unbind_matching f g (sel db) False) (\<lambda>n. tx_return (n, ())) db))"
  by (rule selected_call [of "\<lambda>ks. tx_bind (unbind_matching f g ks False) (\<lambda>n. tx_return (n, ()))"])
    (auto intro!: tx_hoare_bind [OF unbind_matching_hoare] tx_hoare_return keeps_intros)

interpretation unbind_auth_bound_keys_for_user: db_call True "unbind_auth_bound_keys_for_user user"
  unfolding unbind_auth_bound_keys_for_user_def by (rule unbind_matching_call)

interpretation unbind_lskf_bound_keys_for_user: db_call True "unbind_lskf_bound_keys_for_user user"
  unfolding unbind_lskf_bound_keys_for_user_def by (rule unbind_matching_call)

interpretation terminate_uuid: db_call True "terminate_uuid uuid"
  unfolding terminate_uuid_def
  by (intro with_transaction_call keeps_intros) (simp add: remove_then_return remove_keys_ok)

interpretation retire_stale_keybox_bound_entries: db_call True "retire_stale_keybox_bound_entries digest"
proof -
  have "tx_hoare db_ok (tx_bind (tx_remove (remove_keys ks)) (\<lambda>n. tx_return (n, length ks))) (\<lambda>_. db_ok)" for ks
    by (simp add: remove_then_return remove_keys_ok)
  moreover have "tx_keeps (tx_bind (tx_remove (remove_keys ks)) (\<lambda>n. tx_return (n, length ks)))" for ks
    using keeps_remove_keys [of "\<lambda>_. ks"] by (intro keeps_intros)
  ultimately show "db_call True (retire_stale_keybox_bound_entries digest)"
    unfolding retire_stale_keybox_bound_entries_def Let_def
    by (rule selected_call [where sel = "\<lambda>db. key_ids (is_stale digest db) db"])
qed

interpretation check_and_update_key_usage_count: db_call True "db_check_and_update_key_usage_count k"
  unfolding db_check_and_update_key_usage_count_def
  by (intro with_transaction_call keeps_intros tx_hoare_bind [OF usage_count_hoare] tx_hoare_return)

section \<open>Start-up\<close>

lemma mark_orphans_ok: "db_ok db \<Longrightarrow> db_ok (mark_orphans n db)"
  by (simp add: db_ok_def mark_orphans_def Let_def blobs_ok_retire)

lemma keys_ok_unreference:
  "keys_ok rows \<Longrightarrow> keys_ok (sql_update is_existing (kr_state_update (\<lambda>_. KeyLifeCycle_Unreferenced)) rows)"
proof -
  assume ok: "keys_ok rows"
  let ?rows = "sql_update is_existing (kr_state_update (\<lambda>_. KeyLifeCycle_Unreferenced)) rows"
  have ids: "map kr_id ?rows = map kr_id rows"
    by simp
  have old: "\<exists>x\<in>set rows. kr_id x = kr_id r \<and> alias_key x = alias_key r \<and> named_client x = named_client r"
    and row: "row_ok r" if "r \<in> set ?rows" for r
    using that ok by (auto simp: keys_ok_def list_all_iff row_ok_def alias_key_def named_client_def
        elim!: in_sql_updateE split: if_splits)
  have d: "distinct (map kr_id ?rows)"
    using ok unfolding ids by (simp add: keys_ok_def)
  have "r = r'" if r: "r \<in> set ?rows" "named_client r" "r' \<in> set ?rows" "named_client r'" "alias_key r = alias_key r'"
    for r r'
  proof -
    obtain x x' where x: "x \<in> set rows" "kr_id x = kr_id r" "alias_key x = alias_key r" "named_client x"
      "x' \<in> set rows" "kr_id x' = kr_id r'" "alias_key x' = alias_key r'" "named_client x'"
      using old [OF r(1)] old [OF r(3)] r(2,4) by auto
    with ok r(5) have "x = x'"
      by (auto simp: keys_ok_def inj_on_def)
    with x have "kr_id r = kr_id r'"
      by simp
    with distinct_map_eqD [OF d r(1,3)] show ?thesis .
  qed
  with row d show "keys_ok ?rows"
    by (auto simp: keys_ok_def list_all_iff inj_on_def)
qed

lemma unreference_existing_ok:
  assumes "db_ok db"
  shows "db_ok (db\<lparr>db_keyentry :=
      sql_update is_existing (kr_state_update (\<lambda>_. KeyLifeCycle_Unreferenced)) (db_keyentry db)\<rparr>)"
proof (rule db_ok_same_ids [OF assms])
  let ?rows = "sql_update is_existing (kr_state_update (\<lambda>_. KeyLifeCycle_Unreferenced)) (db_keyentry db)"
  show "keys_ok ?rows"
    using assms by (simp add: db_ok_def keys_ok_unreference)
  have "map kr_id ?rows = map kr_id (db_keyentry db)"
    by simp
  from arg_cong [OF this, of set] show "kr_id ` set ?rows = ids_of db"
    unfolding ids_of_def set_map .
qed

lemma cleanup_leftovers_eq:
  "cleanup_leftovers n db = (let db1 = mark_orphans n db in
     Some (db1\<lparr>db_keyentry := sql_update is_existing (kr_state_update (\<lambda>_. KeyLifeCycle_Unreferenced))
         (db_keyentry db1)\<rparr>, True, Inr (sql_count is_existing (db_keyentry db1))))"
  by (simp add: cleanup_leftovers_def with_transaction_def tx_bind_def tx_exec_def tx_return_def Let_def)

lemma garbage_mark_orphans: "garbage db \<subseteq> garbage (mark_orphans n db)"
  by (rule garbage_retire) (auto simp: mark_orphans_def Let_def)

interpretation cleanup_leftovers: db_call True "cleanup_leftovers n"
proof
  show "db_ok db'" if "db_ok db" "cleanup_leftovers n db = Some (db', need_gc, r)" for db db' need_gc r
    using that unreference_existing_ok [OF mark_orphans_ok [OF that(1), of n]]
    by (auto simp: cleanup_leftovers_eq Let_def)
  show "garbage db \<subseteq> garbage db'" if "cleanup_leftovers n db = Some (db', need_gc, r)" for db db' need_gc r
  proof -
    have "garbage (mark_orphans n db) \<subseteq> garbage db'"
      using that by (intro garbage_same) (auto simp: cleanup_leftovers_eq Let_def)
    with garbage_mark_orphans show ?thesis
      by blast
  qed
  show "db' = db \<and> \<not> need_gc" if "cleanup_leftovers n db = Some (db', need_gc, Inl e)" for db db' need_gc e
    using that by (simp add: cleanup_leftovers_eq Let_def)
qed

end
