(* ===== verification/Key_Db_Gc.thy ===== *)
theory Key_Db_Gc
  imports Key_Db_Calls
begin

text \<open>
  The garbage collector (\<^verbatim>\<open>src/src/keymaster/gc.rs\<close>): what one step does to the database, that its steps
  collect exactly the garbage and then stop, and the system of clients and the collector.
\<close>

section \<open>Statements of the collector\<close>

lemma filter_sql_delete: "sql_delete P rows = filter (\<lambda>r. \<not> P r) rows"
  by (simp add: sql_delete_def)

lemma delete_blobs_eq:
  "delete_blobs ids db = db\<lparr>db_blobmetadata := filter (\<lambda>r. mr_owner r \<notin> set ids) (db_blobmetadata db),
     db_blobentry := filter (\<lambda>r. br_id r \<notin> set ids) (db_blobentry db)\<rparr>"
proof (induction ids arbitrary: db)
  case (Cons i ids)
  have "delete_blobs (i # ids) db = delete_blobs ids (db\<lparr>
      db_blobmetadata := sql_delete (\<lambda>r. mr_owner r = i) (db_blobmetadata db),
      db_blobentry := sql_delete (\<lambda>r. br_id r = i) (db_blobentry db)\<rparr>)"
    by (simp add: delete_blobs_def)
  then show ?case
    unfolding Cons by (simp add: filter_sql_delete conj_commute)
qed (simp add: delete_blobs_def)

definition of_unreferenced :: "KeystoreDb \<Rightarrow> BlobEntryRow \<Rightarrow> bool" where
  "of_unreferenced db r \<longleftrightarrow> br_keyentryid r \<in> set (key_ids is_unreferenced db)"

text \<open>The key blobs that are garbage, or will be when their unreferenced keys are removed.\<close>

definition pending :: "KeystoreDb \<Rightarrow> BlobEntryRow \<Rightarrow> bool" where
  "pending db r \<longleftrightarrow> br_subcomponent_type r = KEY_BLOB \<and> (br_state r \<noteq> BlobState_Current \<or> of_unreferenced db r)"

definition gc_load :: "KeystoreDb \<Rightarrow> nat" where
  "gc_load db = sql_count (pending db) (db_blobentry db)"

text \<open>What the collector leaves alone.\<close>

definition kept_blobs :: "KeystoreDb \<Rightarrow> BlobEntryRow list" where
  "kept_blobs db = filter (\<lambda>r. br_state r = BlobState_Current \<and> \<not> of_unreferenced db r) (db_blobentry db)"

definition kept_keys :: "KeystoreDb \<Rightarrow> KeyEntryRow list" where
  "kept_keys db = filter (\<lambda>r. \<not> is_unreferenced r) (db_keyentry db)"

abbreviation swept :: "nat list \<Rightarrow> KeystoreDb \<Rightarrow> KeystoreDb" where
  "swept ids db \<equiv> cleanup_unreferenced (delete_blobs ids db)"

lemma swept_rows:
  "db_keyentry (swept ids db) = kept_keys db"
  "db_blobmetadata (swept ids db) = filter (\<lambda>r. mr_owner r \<notin> set ids) (db_blobmetadata db)"
  "db_blobentry (swept ids db) = map (\<lambda>r. if of_unreferenced db r then r\<lparr>br_state := BlobState_Orphaned\<rparr> else r)
     (filter (\<lambda>r. br_id r \<notin> set ids) (db_blobentry db))"
  by (simp_all add: cleanup_unreferenced_def delete_blobs_eq Let_def delete_key_data_def kept_keys_def
      filter_sql_delete sql_update_def key_ids_def of_unreferenced_def)

lemma swept_unreferenced: "key_ids is_unreferenced (swept ids db) = []"
  by (simp add: key_ids_def swept_rows kept_keys_def)

lemma swept_garbage:
  "filter is_garbage (db_blobentry (swept ids db)) =
     map (\<lambda>r. if of_unreferenced db r then r\<lparr>br_state := BlobState_Orphaned\<rparr> else r)
       (filter (\<lambda>r. pending db r \<and> br_id r \<notin> set ids) (db_blobentry db))"
  unfolding swept_rows filter_map filter_filter
  by (rule arg_cong [where f = "map _"]) (rule filter_cong, auto simp: is_garbage_def pending_def)

lemma pending_swept: "pending (swept ids db) = is_garbage"
  by (auto simp: fun_eq_iff pending_def of_unreferenced_def swept_unreferenced is_garbage_def)

lemma kept_swept:
  assumes "\<And>r. r \<in> set (db_blobentry db) \<Longrightarrow> br_id r \<in> set ids \<Longrightarrow> is_garbage r"
  shows "kept_blobs (swept ids db) = kept_blobs db" "kept_keys (swept ids db) = kept_keys db"
proof -
  have "kept_blobs (swept ids db) = map (\<lambda>r. if of_unreferenced db r then r\<lparr>br_state := BlobState_Orphaned\<rparr> else r)
      (filter (\<lambda>r. br_state r = BlobState_Current \<and> \<not> of_unreferenced db r \<and> br_id r \<notin> set ids) (db_blobentry db))"
    unfolding kept_blobs_def swept_rows filter_map filter_filter
    by (rule arg_cong [where f = "map _"])
      (rule filter_cong, auto simp: of_unreferenced_def swept_unreferenced split: if_splits)
  also have "\<dots> = filter (\<lambda>r. br_state r = BlobState_Current \<and> \<not> of_unreferenced db r \<and> br_id r \<notin> set ids)
      (db_blobentry db)"
    by (rule map_idI) simp
  also have "\<dots> = kept_blobs db"
    unfolding kept_blobs_def using assms by (intro filter_cong) (auto simp: is_garbage_def)
  finally show "kept_blobs (swept ids db) = kept_blobs db" .
  show "kept_keys (swept ids db) = kept_keys db"
    by (simp add: kept_keys_def swept_rows)
qed

section \<open>Loading metadata\<close>

lemma load_metadata_ok:
  assumes "meta_ok A c rows"
  shows "\<exists>m. load_metadata c i rows = Inr m"
proof -
  have fold: "\<exists>m'. res_fold (\<lambda>m row. map_ok (\<lambda>e. m(mr_tag row \<mapsto> e)) (c (mr_tag row) (mr_data row))) m xs = Inr m'"
    if "\<forall>r\<in>set xs. is_ok (c (mr_tag r) (mr_data r))" for m xs
    using that by (induction xs arbitrary: m) (auto simp: is_ok_iff)
  show ?thesis
    unfolding load_metadata_def by (rule fold) (use assms in \<open>simp add: meta_ok_def\<close>)
qed

lemma load_superseded_ok:
  assumes "db_ok db"
  shows "\<exists>bs. load_superseded n db = Inr bs"
    and "load_superseded n db = Inr bs \<Longrightarrow>
      list_all2 (\<lambda>r b. sb_blob_id b = br_id r \<and> sb_blob b = br_blob r \<and> blob_meta_load (br_id r) db = Inr (sb_metadata b))
        (take n (filter is_garbage (db_blobentry db))) bs"
proof -
  have "\<exists>m. blob_meta_load i db = Inr m" for i
    using assms load_metadata_ok by (auto simp: blob_meta_load_def db_ok_def)
  then have "\<forall>i. \<exists>m. blob_meta_load i db = Inr m"
    by blast
  from choice [OF this] obtain m where m: "\<And>i. blob_meta_load i db = Inr (m i)"
    by blast
  have "load_superseded n db = Inr (map (\<lambda>r. \<lparr>sb_blob_id = br_id r, sb_blob = br_blob r, sb_metadata = m (br_id r)\<rparr>)
      (take n (filter is_garbage (db_blobentry db))))"
    unfolding load_superseded_def by (rule res_collect_all_ok) (simp add: m)
  then show "\<exists>bs. load_superseded n db = Inr bs"
    and "load_superseded n db = Inr bs \<Longrightarrow>
      list_all2 (\<lambda>r b. sb_blob_id b = br_id r \<and> sb_blob b = br_blob r \<and> blob_meta_load (br_id r) db = Inr (sb_metadata b))
        (take n (filter is_garbage (db_blobentry db))) bs"
    by (auto simp: list_all2_conv_all_nth m)
qed

section \<open>One step\<close>

lemma swept_ok: "db_ok db \<Longrightarrow> db_ok (swept ids db)"
  by (intro cleanup_unreferenced_ok delete_blobs_ok)

definition purge_public :: "KeystoreDb \<Rightarrow> KeystoreDb" where
  "purge_public db = db\<lparr>db_blobentry := sql_delete is_public_garbage (db_blobentry db)\<rparr>"

lemma purge_public_ok: "db_ok db \<Longrightarrow> db_ok (purge_public db)"
proof -
  have "key_blob_ids (sql_delete is_public_garbage rows) = key_blob_ids rows" for rows
    by (auto simp: key_blob_ids_def is_public_garbage_def)
  then show "db_ok db \<Longrightarrow> db_ok (purge_public db)"
    by (simp add: db_ok_def purge_public_def blobs_ok_delete)
qed

lemma handle_next_eq:
  assumes "db_ok db"
  obtains bs where "load_superseded n (swept ids db) = Inr bs"
    "handle_next_superseded_blobs ids n db =
       Some (if bs = [] then purge_public (swept ids db) else swept ids db, False, Inr bs)"
proof -
  obtain bs where bs: "load_superseded n (swept ids db) = Inr bs"
    using load_superseded_ok(1) [OF swept_ok [OF assms]] by blast
  have "handle_next_superseded_blobs ids n db =
       Some (if bs = [] then purge_public (swept ids db) else swept ids db, False, Inr bs)"
    using bs by (simp add: handle_next_superseded_blobs_def with_transaction_def tx_bind_def tx_exec_def tx_query_def
        tx_return_def purge_public_def)
  from that [OF bs this] show ?thesis .
qed


definition popped :: "GcInternal \<Rightarrow> GcInternal" where
  "popped gc = (let b = last (gc_superseded_blobs gc) in
     gc\<lparr>gc_superseded_blobs := butlast (gc_superseded_blobs gc),
        gc_deleted_blob_ids := gc_deleted_blob_ids gc @ [sb_blob_id b],
        gc_invalidated := gc_invalidated gc @
          (case km_uuid (sb_metadata b) of None \<Rightarrow> [] | Some uuid \<Rightarrow> [(uuid, sb_blob b)])\<rparr>)"

abbreviation refilled :: "SupersededBlob list \<Rightarrow> GcInternal \<Rightarrow> GcInternal" where
  "refilled bs gc \<equiv> gc\<lparr>gc_deleted_blob_ids := [], gc_superseded_blobs := bs\<rparr>"

lemma gc_step_pop:
  "gc_superseded_blobs gc \<noteq> [] \<Longrightarrow> gc_step True invalidate (gc, db) = Some (True, popped gc, db)"
  by (simp add: gc_step_def process_one_key_def popped_def Let_def split: option.splits)

lemma gc_step_refill:
  assumes "db_ok db" "gc_superseded_blobs gc = []"
  obtains bs where "load_superseded 20 (swept (gc_deleted_blob_ids gc) db) = Inr bs"
    "gc_step True invalidate (gc, db) =
       (if bs = [] then Some (False, refilled [] gc, purge_public (swept (gc_deleted_blob_ids gc) db))
        else Some (True, popped (refilled bs gc), swept (gc_deleted_blob_ids gc) db))"
proof -
  obtain bs where bs: "load_superseded 20 (swept (gc_deleted_blob_ids gc) db) = Inr bs"
    "handle_next_superseded_blobs (gc_deleted_blob_ids gc) 20 db =
       Some (if bs = [] then purge_public (swept (gc_deleted_blob_ids gc) db)
         else swept (gc_deleted_blob_ids gc) db, False, Inr bs)"
    using assms(1) by (rule handle_next_eq)
  have "gc_step True invalidate (gc, db) =
       (if bs = [] then Some (False, refilled [] gc, purge_public (swept (gc_deleted_blob_ids gc) db))
        else Some (True, popped (refilled bs gc), swept (gc_deleted_blob_ids gc) db))"
    using assms(2) bs(2) by (simp add: gc_step_def process_one_key_def popped_def Let_def split: option.splits)
  from that [OF bs(1) this] show ?thesis .
qed

section \<open>What the collector holds\<close>

lemma garbage_ids: "fst ` garbage db = br_id ` {r \<in> set (db_blobentry db). is_garbage r}"
  by (simp add: garbage_def image_image)

lemma gc_ok_ids:
  assumes "gc_ok gc db"
  shows "set (gc_deleted_blob_ids gc) \<subseteq> br_id ` {r \<in> set (db_blobentry db). is_garbage r}"
    "sb_blob_id ` set (gc_superseded_blobs gc) \<subseteq> br_id ` {r \<in> set (db_blobentry db). is_garbage r}"
proof -
  show "set (gc_deleted_blob_ids gc) \<subseteq> br_id ` {r \<in> set (db_blobentry db). is_garbage r}"
    using assms by (simp add: gc_ok_def garbage_ids)
  have "fst ` (\<lambda>b. (sb_blob_id b, sb_blob b)) ` set (gc_superseded_blobs gc) \<subseteq> fst ` garbage db"
    using assms by (intro image_mono) (simp add: gc_ok_def)
  then show "sb_blob_id ` set (gc_superseded_blobs gc) \<subseteq> br_id ` {r \<in> set (db_blobentry db). is_garbage r}"
    by (simp add: garbage_ids image_image)
qed

lemma gc_ok_garbage:
  assumes "db_ok db" "gc_ok gc db" "r \<in> set (db_blobentry db)"
    "br_id r \<in> set (gc_deleted_blob_ids gc) \<or> br_id r \<in> sb_blob_id ` set (gc_superseded_blobs gc)"
  shows "is_garbage r"
proof -
  have "br_id r \<in> br_id ` {r \<in> set (db_blobentry db). is_garbage r}"
    using gc_ok_ids [OF assms(2)] assms(4) by blast
  then obtain x where x: "x \<in> set (db_blobentry db)" "is_garbage x" "br_id x = br_id r"
    by (metis (mono_tags, lifting) imageE mem_Collect_eq)
  have "distinct (map br_id (db_blobentry db))"
    using assms(1) by (simp add: db_ok_def blobs_ok_def)
  from distinct_map_eqD [OF this x(1) assms(3) x(3)] x(2) show ?thesis
    by simp
qed

lemma distinct_length_le: "distinct xs \<Longrightarrow> set xs \<subseteq> set ys \<Longrightarrow> length xs \<le> length ys"
  using card_mono [of "set ys" "set xs"] card_length [of ys] by (simp add: distinct_card)

lemma gc_held_le:
  assumes "gc_ok gc db"
  shows "length (gc_deleted_blob_ids gc) + length (gc_superseded_blobs gc) \<le> gc_load db"
proof -
  have "br_id ` {r \<in> set (db_blobentry db). is_garbage r} \<subseteq> set (map br_id (filter (pending db) (db_blobentry db)))"
    by (auto simp: is_garbage_def pending_def)
  with gc_ok_ids [OF assms] have "set (gc_deleted_blob_ids gc @ map sb_blob_id (gc_superseded_blobs gc))
      \<subseteq> set (map br_id (filter (pending db) (db_blobentry db)))"
    unfolding set_append set_map by (meson Un_least order_trans)
  from distinct_length_le [OF _ this] assms show ?thesis
    by (simp add: gc_ok_def gc_load_def sql_count_def)
qed

lemma gc_load_swept:
  assumes "db_ok db" "gc_ok gc db"
  shows "gc_load (swept (gc_deleted_blob_ids gc) db) + length (gc_deleted_blob_ids gc) \<le> gc_load db"
proof -
  let ?ids = "gc_deleted_blob_ids gc"
  let ?gone = "filter (\<lambda>r. pending db r \<and> br_id r \<in> set ?ids) (db_blobentry db)"
  have "set ?ids \<subseteq> set (map br_id ?gone)"
  proof
    fix i assume "i \<in> set ?ids"
    moreover from this obtain r where "r \<in> set (db_blobentry db)" "is_garbage r" "br_id r = i"
      using gc_ok_ids(1) [OF assms(2)] by auto
    ultimately show "i \<in> set (map br_id ?gone)"
      by (auto simp: is_garbage_def pending_def)
  qed
  with assms(2) have "length ?ids \<le> length (map br_id ?gone)"
    by (intro distinct_length_le) (simp_all add: gc_ok_def)
  moreover have "gc_load (swept ?ids db) = length (filter (\<lambda>r. pending db r \<and> br_id r \<notin> set ?ids) (db_blobentry db))"
    using arg_cong [OF swept_garbage, of length "gc_deleted_blob_ids gc" db]
    by (simp add: gc_load_def sql_count_def pending_swept)
  moreover have "gc_load db = length ?gone + length (filter (\<lambda>r. pending db r \<and> br_id r \<notin> set ?ids) (db_blobentry db))"
    using sum_length_filter_compl [of "\<lambda>r. br_id r \<in> set ?ids" "filter (pending db) (db_blobentry db)"]
    by (simp add: gc_load_def sql_count_def)
  ultimately show ?thesis
    by simp
qed

lemma gc_ok_popped:
  assumes "gc_ok gc db" "gc_superseded_blobs gc \<noteq> []"
  shows "gc_ok (popped gc) db"
proof -
  obtain bs b where bs: "gc_superseded_blobs gc = bs @ [b]"
    using assms(2) by (metis rev_exhaust)
  have "sb_blob_id b \<in> fst ` garbage db"
    using gc_ok_ids(2) [OF assms(1)] bs by (simp add: garbage_ids)
  with assms(1) bs show ?thesis
    by (auto simp: gc_ok_def popped_def Let_def)
qed

lemma refill_entries:
  assumes "db_ok db" "load_superseded n (swept ids db) = Inr bs"
  shows "map sb_blob_id bs = map br_id (take n (filter is_garbage (db_blobentry (swept ids db))))"
    and "b \<in> set bs \<Longrightarrow> \<exists>r\<in>set (db_blobentry (swept ids db)). is_garbage r \<and> br_id r = sb_blob_id b \<and> br_blob r = sb_blob b
       \<and> blob_meta_load (br_id r) (swept ids db) = Inr (sb_metadata b)"
proof -
  note all = load_superseded_ok(2) [OF swept_ok [OF assms(1)] assms(2)]
  show "map sb_blob_id bs = map br_id (take n (filter is_garbage (db_blobentry (swept ids db))))"
  proof (rule nth_equalityI)
    fix i assume "i < length (map sb_blob_id bs)"
    then show "map sb_blob_id bs ! i = map br_id (take n (filter is_garbage (db_blobentry (swept ids db)))) ! i"
      using list_all2_nthD2 [OF all, of i] list_all2_lengthD [OF all] by (simp del: nth_take take_map)
  qed (use list_all2_lengthD [OF all] in simp)
  assume "b \<in> set bs"
  then obtain i where i: "i < length bs" "b = bs ! i"
    by (auto simp: in_set_conv_nth)
  define r where "r = take n (filter is_garbage (db_blobentry (swept ids db))) ! i"
  have "r \<in> set (take n (filter is_garbage (db_blobentry (swept ids db))))"
    unfolding r_def using list_all2_lengthD [OF all] i(1) by (intro nth_mem) simp
  moreover have
    "sb_blob_id b = br_id r \<and> sb_blob b = br_blob r \<and> blob_meta_load (br_id r) (swept ids db) = Inr (sb_metadata b)"
    unfolding r_def i(2) using list_all2_nthD2 [OF all i(1)] .
  ultimately have "r \<in> set (db_blobentry (swept ids db))" "is_garbage r"
    "sb_blob_id b = br_id r \<and> sb_blob b = br_blob r \<and> blob_meta_load (br_id r) (swept ids db) = Inr (sb_metadata b)"
    by (auto dest!: in_set_takeD)
  then show "\<exists>r\<in>set (db_blobentry (swept ids db)). is_garbage r \<and> br_id r = sb_blob_id b \<and> br_blob r = sb_blob b
       \<and> blob_meta_load (br_id r) (swept ids db) = Inr (sb_metadata b)"
    by (intro bexI [of _ r]) simp_all
qed

lemma gc_ok_refilled:
  assumes "db_ok db" "load_superseded n (swept ids db) = Inr bs"
  shows "gc_ok (refilled bs gc) (swept ids db)"
proof -
  have "distinct (map br_id (db_blobentry (swept ids db)))"
    using swept_ok [OF assms(1), of ids] by (simp add: db_ok_def blobs_ok_def)
  then have "distinct (map sb_blob_id bs)"
    unfolding refill_entries(1) [OF assms] by (simp add: take_map [symmetric] distinct_map_filter distinct_take)
  moreover have "(sb_blob_id b, sb_blob b) \<in> garbage (swept ids db)" if "b \<in> set bs" for b
    using refill_entries(2) [OF assms that] unfolding garbage_def by force
  ultimately show ?thesis
    by (auto simp: gc_ok_def)
qed

section \<open>Collecting everything\<close>

text \<open>The key blobs that KeyMint still has to be told about, with the instance they belong to.\<close>

definition to_invalidate :: "GcInternal \<Rightarrow> KeystoreDb \<Rightarrow> (Uuid \<times> bytes) set" where
  "to_invalidate gc db =
     {(uuid, sb_blob b) | uuid b. b \<in> set (gc_superseded_blobs gc) \<and> km_uuid (sb_metadata b) = Some uuid} \<union>
     {(uuid, br_blob r) | uuid r. r \<in> set (db_blobentry db) \<and> pending db r \<and> br_id r \<notin> set (gc_deleted_blob_ids gc)
        \<and> br_id r \<notin> sb_blob_id ` set (gc_superseded_blobs gc)
        \<and> map_ok km_uuid (blob_meta_load (br_id r) db) = Inr (Some uuid)}"

lemma to_invalidate_popped:
  assumes "gc_superseded_blobs gc \<noteq> []"
  shows "to_invalidate gc db \<union> set (gc_invalidated gc) \<subseteq> to_invalidate (popped gc) db \<union> set (gc_invalidated (popped gc))"
proof -
  obtain bs b where bs: "gc_superseded_blobs gc = bs @ [b]"
    using assms by (metis rev_exhaust)
  show ?thesis
    unfolding to_invalidate_def popped_def Let_def by (auto simp: bs)
qed

lemma blob_meta_load_swept: "i \<notin> set ids \<Longrightarrow> blob_meta_load i (swept ids db) = blob_meta_load i db"
proof -
  assume "i \<notin> set ids"
  then have "filter (\<lambda>r. mr_owner r = i) (filter (\<lambda>r. mr_owner r \<notin> set ids) rows) = filter (\<lambda>r. mr_owner r = i) rows"
    for rows :: "nat MetaRow list"
    by (auto simp: filter_filter intro!: filter_cong)
  then show ?thesis
    by (simp add: blob_meta_load_def load_metadata_def swept_rows)
qed

lemma to_invalidate_refilled:
  assumes ok: "db_ok db" and empty: "gc_superseded_blobs gc = []"
    and bs: "load_superseded n (swept (gc_deleted_blob_ids gc) db) = Inr bs"
  shows "to_invalidate gc db \<subseteq> to_invalidate (refilled bs gc) (swept (gc_deleted_blob_ids gc) db)"
proof
  let ?ids = "gc_deleted_blob_ids gc"
  fix x assume "x \<in> to_invalidate gc db"
  then obtain u r where r: "x = (u, br_blob r)" "r \<in> set (db_blobentry db)" "pending db r" "br_id r \<notin> set ?ids"
    and m: "map_ok km_uuid (blob_meta_load (br_id r) db) = Inr (Some u)"
    unfolding to_invalidate_def empty by auto
  define r' where "r' = (if of_unreferenced db r then r\<lparr>br_state := BlobState_Orphaned\<rparr> else r)"
  have r': "br_id r' = br_id r" "br_blob r' = br_blob r"
    by (simp_all add: r'_def)
  have "r' \<in> set (filter is_garbage (db_blobentry (swept ?ids db)))"
    unfolding swept_garbage r'_def set_map set_filter by (rule imageI) (use r in simp)
  then have g: "r' \<in> set (db_blobentry (swept ?ids db))" "is_garbage r'"
    by simp_all
  have m': "map_ok km_uuid (blob_meta_load (br_id r') (swept ?ids db)) = Inr (Some u)"
    using m r(4) by (simp add: r' blob_meta_load_swept)
  show "x \<in> to_invalidate (refilled bs gc) (swept ?ids db)"
  proof (cases "br_id r' \<in> sb_blob_id ` set bs")
    case False
    moreover have "x = (u, br_blob r')"
      using r(1) r'(2) by simp
    ultimately show ?thesis
      using g m' unfolding to_invalidate_def pending_swept by auto
  next
    case True
    then obtain b where b: "b \<in> set bs" "sb_blob_id b = br_id r'"
      by (auto simp: image_iff)
    from refill_entries(2) [OF ok bs b(1)] obtain y where y: "y \<in> set (db_blobentry (swept ?ids db))"
      "br_id y = sb_blob_id b" "br_blob y = sb_blob b"
      "blob_meta_load (br_id y) (swept ?ids db) = Inr (sb_metadata b)"
      by blast
    have "distinct (map br_id (db_blobentry (swept ?ids db)))"
      using swept_ok [OF ok] by (simp add: db_ok_def blobs_ok_def)
    from distinct_map_eqD [OF this y(1) g(1)] y(2) b(2) have "y = r'"
      by simp
    with y m' have "km_uuid (sb_metadata b) = Some u" "sb_blob b = br_blob r"
      by (simp_all add: r')
    with b(1) r(1) show ?thesis
      unfolding to_invalidate_def by auto
  qed
qed

fun gc_run ::
    "(Uuid \<Rightarrow> bytes \<Rightarrow> bool) \<Rightarrow> nat \<Rightarrow> GcInternal \<times> KeystoreDb \<Rightarrow> (GcInternal \<times> KeystoreDb) option" where
  "gc_run invalidate 0 s = None"
| "gc_run invalidate (Suc n) s = (case gc_step True invalidate s of
     None \<Rightarrow> None
   | Some (again, s') \<Rightarrow> if again then gc_run invalidate n s' else Some s')"

definition collected :: "GcInternal \<Rightarrow> KeystoreDb \<Rightarrow> GcInternal \<Rightarrow> KeystoreDb \<Rightarrow> bool" where
  "collected gc db gc' db' \<longleftrightarrow>
     gc_deleted_blob_ids gc' = [] \<and> gc_superseded_blobs gc' = [] \<and> db_ok db' \<and>
     db_blobentry db' = kept_blobs db \<and> db_keyentry db' = kept_keys db \<and>
     to_invalidate gc db \<union> set (gc_invalidated gc) \<subseteq> set (gc_invalidated gc')"

lemma collected_trans:
  assumes "collected gc1 db1 gc' db'" "kept_blobs db1 = kept_blobs db" "kept_keys db1 = kept_keys db"
    "to_invalidate gc db \<union> set (gc_invalidated gc) \<subseteq> to_invalidate gc1 db1 \<union> set (gc_invalidated gc1)"
  shows "collected gc db gc' db'"
  using assms by (auto simp: collected_def)

lemma collected_last:
  assumes ok: "db_ok db" "gc_ok gc db" and empty: "gc_superseded_blobs gc = []"
    and bs: "load_superseded 20 (swept (gc_deleted_blob_ids gc) db) = Inr []"
  shows "collected gc db (refilled [] gc) (purge_public (swept (gc_deleted_blob_ids gc) db))"
proof -
  let ?db = "swept (gc_deleted_blob_ids gc) db"
  have none: "filter is_garbage (db_blobentry ?db) = []"
    using refill_entries(1) [OF ok(1) bs] by (simp add: take_eq_Nil)
  have kept: "kept_blobs ?db = kept_blobs db" "kept_keys ?db = kept_keys db"
    using gc_ok_garbage [OF ok] by (auto intro!: kept_swept)
  have "db_blobentry (purge_public ?db) = kept_blobs ?db"
    using none unfolding purge_public_def kept_blobs_def of_unreferenced_def swept_unreferenced
    by (auto simp: filter_sql_delete filter_empty_conv is_garbage_def is_public_garbage_def intro!: filter_cong)
  moreover have "to_invalidate (refilled [] gc) ?db = {}"
    using none unfolding to_invalidate_def pending_swept by (auto simp: filter_empty_conv)
  then have "to_invalidate gc db = {}"
    using to_invalidate_refilled [OF ok(1) empty bs] by simp
  moreover have "db_keyentry (purge_public ?db) = kept_keys db"
    by (simp add: purge_public_def swept_rows)
  ultimately show ?thesis
    by (simp add: collected_def kept purge_public_ok swept_ok ok)
qed

lemma length_deleted_popped: "length (gc_deleted_blob_ids (popped gc)) = Suc (length (gc_deleted_blob_ids gc))"
  by (simp add: popped_def Let_def)

lemma gc_run_collects:
  assumes "db_ok db" "gc_ok gc db" "gc_load db \<le> n + length (gc_deleted_blob_ids gc)"
  shows "\<exists>gc' db'. gc_run invalidate (Suc n) (gc, db) = Some (gc', db') \<and> collected gc db gc' db'"
  using assms
proof (induction n arbitrary: gc db rule: less_induct)
  case (less n)
  show ?case
  proof (cases "gc_superseded_blobs gc = []")
    case False
    with gc_held_le [OF less.prems(2)] less.prems(3) have "0 < n"
      by (cases "gc_superseded_blobs gc") simp_all
    then obtain n' where n: "n = Suc n'"
      by (cases n) simp_all
    have "gc_load db \<le> n' + length (gc_deleted_blob_ids (popped gc))"
      using less.prems(3) n by (simp add: length_deleted_popped)
    from less.IH [OF _ less.prems(1) gc_ok_popped [OF less.prems(2) False] this] n
    obtain gc' db' where "gc_run invalidate (Suc n') (popped gc, db) = Some (gc', db')" "collected (popped gc) db gc' db'"
      by auto
    then show ?thesis
      using collected_trans [OF _ refl refl to_invalidate_popped [OF False]]
      unfolding n by (auto simp: gc_step_pop [OF False] simp del: gc_run.simps(2) simp add: gc_run.simps(2) [of _ "Suc n'"])
  next
    case True
    let ?db = "swept (gc_deleted_blob_ids gc) db"
    obtain bs where bs: "load_superseded 20 ?db = Inr bs"
      "gc_step True invalidate (gc, db) = (if bs = [] then Some (False, refilled [] gc, purge_public ?db)
        else Some (True, popped (refilled bs gc), ?db))"
      using less.prems(1) True by (rule gc_step_refill)
    show ?thesis
    proof (cases "bs = []")
      case True
      with bs collected_last [OF less.prems(1,2) \<open>gc_superseded_blobs gc = []\<close>] show ?thesis
        by auto
    next
      case False
      have ok: "db_ok ?db" "gc_ok (refilled bs gc) ?db"
        using less.prems(1) bs(1) by (simp_all add: swept_ok gc_ok_refilled)
      have load: "gc_load ?db \<le> n" "0 < gc_load ?db"
        using gc_load_swept [OF less.prems(1,2)] less.prems(3) gc_held_le [OF ok(2)] False
        by (simp, cases bs, simp_all)
      then obtain n' where n: "n = Suc n'"
        by (cases n) simp_all
      have ne: "gc_superseded_blobs (refilled bs gc) \<noteq> []"
        using False by simp
      have "gc_load ?db \<le> n' + length (gc_deleted_blob_ids (popped (refilled bs gc)))"
        using load n by (simp add: length_deleted_popped)
      from less.IH [OF _ ok(1) gc_ok_popped [OF ok(2) ne] this] n
      obtain gc' db' where run: "gc_run invalidate (Suc n') (popped (refilled bs gc), ?db) = Some (gc', db')"
        "collected (popped (refilled bs gc)) ?db gc' db'"
        by auto
      have "collected (refilled bs gc) ?db gc' db'"
        using collected_trans [OF run(2) refl refl to_invalidate_popped [OF ne]] .
      then have "collected gc db gc' db'"
        by (rule collected_trans) (use gc_ok_garbage [OF less.prems(1,2)]
            to_invalidate_refilled [OF less.prems(1) \<open>gc_superseded_blobs gc = []\<close> bs(1)] in \<open>auto intro!: kept_swept\<close>)
      moreover have "gc_run invalidate (Suc n) (gc, db) = Some (gc', db')"
        using run(1) bs(2) False unfolding n by (simp only: gc_run.simps(2) [of _ "Suc n'"]) simp
      ultimately show ?thesis
        by blast
    qed
  qed
qed

section \<open>Clients and the collector\<close>

datatype DbCall =
    Call_store_new_key "u64 list" KeyDescriptor KeyType "KeyParameter list" BlobInfo CertificateInfo KeyMetaData Uuid
      "i64 option"
  | Call_store_new_certificate "u64 list" "i64 option" KeyDescriptor KeyType bytes Uuid
  | Call_set_blob i64 SubComponentType "bytes option" "BlobMetaData option"
  | Call_set_deleted_blob bytes BlobMetaData
  | Call_store_super_key "u64 list" i32 bytes bytes BlobMetaData KeyMetaData
  | Call_migrate_key_namespace i64 KeyDescriptor i64 "KeyDescriptor \<Rightarrow> DbError + unit"
  | Call_grant "u64 list" KeyDescriptor i64 i64 i32 "KeyDescriptor \<Rightarrow> i32 \<Rightarrow> DbError + unit"
  | Call_ungrant KeyDescriptor i64 i64 "KeyDescriptor \<Rightarrow> DbError + unit"
  | Call_unbind_key KeyDescriptor KeyType i64 "KeyDescriptor \<Rightarrow> i32 option \<Rightarrow> DbError + unit"
  | Call_unbind_keys_for_namespace Domain i64
  | Call_unbind_keys_for_user i32
  | Call_unbind_auth_bound_keys_for_user i32
  | Call_unbind_lskf_bound_keys_for_user i32
  | Call_terminate_uuid Uuid
  | Call_retire_stale_keybox_bound_entries bytes
  | Call_check_and_update_key_usage_count i64
  | Call_cleanup_leftovers nat

definition performed :: "(KeystoreDb \<times> bool \<times> 'r) option \<Rightarrow> (KeystoreDb \<times> bool) option" where
  "performed r = map_option (\<lambda>(db, need_gc, _). (db, need_gc)) r"

fun db_perform :: "DbCall \<Rightarrow> KeystoreDb \<Rightarrow> (KeystoreDb \<times> bool) option" where
  "db_perform (Call_store_new_key draws key key_type ps b ci km uuid usage) db =
     performed (store_new_key draws key key_type ps b ci km uuid usage db)"
| "db_perform (Call_store_new_certificate draws now key key_type cert uuid) db =
     performed (store_new_certificate draws now key key_type cert uuid db)"
| "db_perform (Call_set_blob k sc b m) db = performed (set_blob k sc b m db)"
| "db_perform (Call_set_deleted_blob b m) db = performed (set_deleted_blob b m db)"
| "db_perform (Call_store_super_key draws user nm b m km) db = performed (store_super_key draws user nm b m km db)"
| "db_perform (Call_migrate_key_namespace k d uid c) db = performed (migrate_key_namespace k d uid c db)"
| "db_perform (Call_grant draws key uid grantee v c) db = performed (grant draws key uid grantee v c db)"
| "db_perform (Call_ungrant key uid grantee c) db = performed (ungrant key uid grantee c db)"
| "db_perform (Call_unbind_key key key_type uid c) db = performed (unbind_key key key_type uid c db)"
| "db_perform (Call_unbind_keys_for_namespace domain namespace) db =
     performed (unbind_keys_for_namespace domain namespace db)"
| "db_perform (Call_unbind_keys_for_user user) db = performed (unbind_keys_for_user user db)"
| "db_perform (Call_unbind_auth_bound_keys_for_user user) db = performed (unbind_auth_bound_keys_for_user user db)"
| "db_perform (Call_unbind_lskf_bound_keys_for_user user) db = performed (unbind_lskf_bound_keys_for_user user db)"
| "db_perform (Call_terminate_uuid uuid) db = performed (terminate_uuid uuid db)"
| "db_perform (Call_retire_stale_keybox_bound_entries digest) db =
     performed (retire_stale_keybox_bound_entries digest db)"
| "db_perform (Call_check_and_update_key_usage_count k) db = performed (db_check_and_update_key_usage_count k db)"
| "db_perform (Call_cleanup_leftovers n) db = performed (cleanup_leftovers n db)"

text \<open>
  What the types of the arguments guarantee: an entry of metadata is stored under its own tag, a \<open>Uuid\<close> has
  sixteen bytes.  Metadata is only given with a key blob.
\<close>

fun call_wf :: "DbCall \<Rightarrow> bool" where
  "call_wf (Call_store_new_key draws key key_type ps b ci km uuid usage) \<longleftrightarrow> blob_info_wf b \<and> key_meta_wf km"
| "call_wf (Call_set_blob k sc b m) \<longleftrightarrow> set_blob_wf sc m"
| "call_wf (Call_set_deleted_blob b m) \<longleftrightarrow> blob_meta_wf m"
| "call_wf (Call_store_super_key draws user nm b m km) \<longleftrightarrow> blob_meta_wf m \<and> key_meta_wf km"
| "call_wf _ \<longleftrightarrow> True"

record DbSystem =
  ds_db :: KeystoreDb
  ds_gc :: GcInternal
  ds_queued :: bool

definition ds_init :: DbSystem where
  "ds_init = \<lparr>ds_db = empty_db,
     ds_gc = \<lparr>gc_deleted_blob_ids = [], gc_superseded_blobs = [], gc_invalidated = []\<rparr>, ds_queued = False\<rparr>"

inductive db_step :: "DbSystem \<Rightarrow> DbSystem \<Rightarrow> bool" where
  client: "call_wf c \<Longrightarrow> db_perform c (ds_db s) = Some (db', need_gc) \<Longrightarrow>
    db_step s (s\<lparr>ds_db := db', ds_queued := ds_queued s \<or> need_gc\<rparr>)"
| collect: "ds_queued s \<Longrightarrow> gc_step boot_completed invalidate (ds_gc s, ds_db s) = Some (again, gc', db') \<Longrightarrow>
    db_step s \<lparr>ds_db = db', ds_gc = gc', ds_queued = again\<rparr>"

definition system_ok :: "DbSystem \<Rightarrow> bool" where
  "system_ok s \<longleftrightarrow> db_ok (ds_db s) \<and> gc_ok (ds_gc s) (ds_db s)"

context db_call
begin

lemma performed_ok:
  assumes "performed (call db) = Some (db', need_gc)" "args_ok" "db_ok db" "gc_ok gc db"
  shows "db_ok db' \<and> gc_ok gc db'"
proof -
  obtain r where "call db = Some (db', need_gc, r)"
    using assms(1) by (auto simp: performed_def)
  from call_ok [OF assms(2-4) this] show ?thesis
    by simp
qed

end

lemmas performed_oks = store_new_key.performed_ok store_new_certificate.performed_ok set_blob.performed_ok
  set_deleted_blob.performed_ok store_super_key.performed_ok migrate_key_namespace.performed_ok grant.performed_ok
  ungrant.performed_ok unbind_key.performed_ok unbind_keys_for_namespace.performed_ok unbind_keys_for_user.performed_ok
  unbind_auth_bound_keys_for_user.performed_ok unbind_lskf_bound_keys_for_user.performed_ok
  terminate_uuid.performed_ok retire_stale_keybox_bound_entries.performed_ok
  check_and_update_key_usage_count.performed_ok cleanup_leftovers.performed_ok

lemma db_perform_ok:
  "call_wf c \<Longrightarrow> db_ok db \<Longrightarrow> gc_ok gc db \<Longrightarrow> db_perform c db = Some (db', need_gc) \<Longrightarrow> db_ok db' \<and> gc_ok gc db'"
  by (cases c) (simp_all add: performed_oks)

lemma gc_step_ok:
  assumes "db_ok db" "gc_ok gc db" "gc_step boot_completed invalidate (gc, db) = Some (again, gc', db')"
  shows "db_ok db' \<and> gc_ok gc' db'"
proof (cases "boot_completed \<and> gc_superseded_blobs gc = []")
  case True
  let ?db = "swept (gc_deleted_blob_ids gc) db"
  obtain bs where bs: "load_superseded 20 ?db = Inr bs"
    "gc_step True invalidate (gc, db) = (if bs = [] then Some (False, refilled [] gc, purge_public ?db)
      else Some (True, popped (refilled bs gc), ?db))"
    using gc_step_refill [OF assms(1)] True by blast
  have "gc_ok (popped (refilled bs gc)) ?db" if "bs \<noteq> []"
    using gc_ok_refilled [OF assms(1) bs(1)] that by (intro gc_ok_popped) simp_all
  moreover have "gc_ok (refilled [] gc) (purge_public ?db)"
    by (simp add: gc_ok_def)
  ultimately show ?thesis
    using True assms(3) bs(2) swept_ok [OF assms(1)] purge_public_ok by (auto split: if_splits)
next
  case False
  then show ?thesis
    using assms gc_ok_popped [OF assms(2)] gc_step_pop [of gc invalidate db]
    by (cases boot_completed) (auto simp: gc_step_def)
qed

lemma system_ok_step: "db_step s s' \<Longrightarrow> system_ok s \<Longrightarrow> system_ok s'"
  by (induction rule: db_step.induct) (auto simp: system_ok_def dest: db_perform_ok gc_step_ok)

lemma system_ok_init: "system_ok ds_init"
  by (simp add: system_ok_def ds_init_def empty_db_ok gc_ok_def)

end
