(* ===== verification/Key_Db_Load.thy ===== *)
theory Key_Db_Load
  imports Key_Db_Gc
begin

text \<open>
  What is stored can be loaded: metadata, the components of a key, its parameters and the key by its alias.
\<close>

section \<open>Metadata\<close>

definition meta_rows :: "i64 list \<Rightarrow> ('e \<Rightarrow> SqlValue) \<Rightarrow> 'k \<Rightarrow> (i64 \<Rightarrow> 'e option) \<Rightarrow> 'k MetaRow list" where
  "meta_rows tags to_cell owner m = concat (map (\<lambda>tag. case m tag of
     None \<Rightarrow> [] | Some e \<Rightarrow> [\<lparr>mr_owner = owner, mr_tag = tag, mr_data = to_cell e\<rparr>]) tags)"

lemma insert_or_replace_fresh:
  "(\<And>x. x \<in> set rows \<Longrightarrow> \<not> (mr_owner x = mr_owner r \<and> mr_tag x = mr_tag r)) \<Longrightarrow> insert_or_replace r rows = rows @ [r]"
  by (auto simp: insert_or_replace_def sql_delete_def filter_id_conv)

lemma store_metadata_fresh:
  assumes "distinct tags" "\<And>r. r \<in> set rows \<Longrightarrow> mr_owner r = owner \<Longrightarrow> mr_tag r \<notin> set tags"
  shows "store_metadata tags to_cell owner m rows = rows @ meta_rows tags to_cell owner m"
  using assms
proof (induction tags arbitrary: rows)
  case (Cons t tags)
  show ?case
  proof (cases "m t")
    case None
    with Cons show ?thesis
      by (simp add: store_metadata_def meta_rows_def)
  next
    case (Some e)
    let ?r = "\<lparr>mr_owner = owner, mr_tag = t, mr_data = to_cell e\<rparr>"
    have "insert_or_replace ?r rows = rows @ [?r]"
      using Cons.prems(2) by (intro insert_or_replace_fresh) auto
    moreover have "mr_tag r \<notin> set tags" if "r \<in> set (rows @ [?r])" "mr_owner r = owner" for r
      using that Cons.prems by (cases "r = ?r") auto
    then have "store_metadata tags to_cell owner m (rows @ [?r]) = (rows @ [?r]) @ meta_rows tags to_cell owner m"
      using Cons.prems(1) by (intro Cons.IH) simp_all
    ultimately show ?thesis
      using Some by (simp add: store_metadata_def meta_rows_def)
  qed
qed (simp add: store_metadata_def meta_rows_def)

lemma filter_meta_rows: "filter (\<lambda>r. mr_owner r = owner) (meta_rows tags to_cell owner m) = meta_rows tags to_cell owner m"
  by (auto simp: filter_id_conv meta_rows_def split: option.splits)

lemma fold_meta_rows:
  assumes "\<And>t e. m t = Some e \<Longrightarrow> from_cell t (to_cell e) = Inr e"
  shows "res_fold (\<lambda>m row. map_ok (\<lambda>e. m(mr_tag row \<mapsto> e)) (from_cell (mr_tag row) (mr_data row))) m0
      (meta_rows tags to_cell owner m) = Inr (m0 ++ (m |` set tags))"
proof (induction tags arbitrary: m0)
  case (Cons t tags)
  show ?case
  proof (cases "m t")
    case None
    then have "m |` insert t (set tags) = m |` set tags"
      by (auto simp: fun_eq_iff restrict_map_def)
    with None Cons show ?thesis
      by (simp add: meta_rows_def)
  next
    case (Some e)
    then have "m0(t \<mapsto> e) ++ m |` set tags = m0 ++ m |` insert t (set tags)"
      by (auto simp: fun_eq_iff map_add_def restrict_map_def split: option.splits)
    with Some Cons.IH [of "m0(t \<mapsto> e)"] assms show ?thesis
      by (simp add: meta_rows_def fun_upd_def)
  qed
qed (simp add: meta_rows_def)

lemma load_store_metadata:
  assumes "distinct tags" "\<And>t e. m t = Some e \<Longrightarrow> t \<in> set tags \<and> from_cell t (to_cell e) = Inr e"
    "\<And>r. r \<in> set rows \<Longrightarrow> mr_owner r \<noteq> owner"
  shows "load_metadata from_cell owner (store_metadata tags to_cell owner m rows) = Inr m"
proof -
  have "filter (\<lambda>r. mr_owner r = owner) rows = []"
    using assms(3) by (auto simp: filter_empty_conv)
  moreover have "m |` set tags = m"
  proof
    fix t show "(m |` set tags) t = m t"
      using assms(2) [of t] by (cases "m t") (simp_all add: restrict_map_def)
  qed
  moreover have "store_metadata tags to_cell owner m rows = rows @ meta_rows tags to_cell owner m"
    using assms(1,3) by (intro store_metadata_fresh) auto
  ultimately show ?thesis
    using fold_meta_rows [of m from_cell to_cell Map.empty tags owner] assms(2)
    by (simp add: load_metadata_def filter_meta_rows)
qed

lemma load_store_other:
  assumes "i \<noteq> owner"
  shows "load_metadata from_cell i (store_metadata tags to_cell owner m rows) = load_metadata from_cell i rows"
proof -
  have "filter (\<lambda>r. mr_owner r = i) (store_metadata tags to_cell owner m rows) = filter (\<lambda>r. mr_owner r = i) rows"
    unfolding store_metadata_def using assms
    by (induction tags arbitrary: rows)
      (auto simp: insert_or_replace_def sql_delete_def intro!: filter_cong split: option.splits)
  then show ?thesis
    by (simp add: load_metadata_def)
qed

lemma blob_tag_range: "blob_db_tag e \<in> {0, 1, 2, 3, 4, 5, 6}"
  by (cases e) simp_all

lemma key_tag_range: "key_db_tag e \<in> {0, 1, 2, 3, 4, 5}"
  by (cases e) simp_all

lemma blob_meta_load_store:
  assumes "blob_meta_wf m" "\<And>r. r \<in> set (db_blobmetadata db) \<Longrightarrow> mr_owner r \<noteq> i"
  shows "blob_meta_load i (blob_meta_store i m db) = Inr m"
proof -
  have "t \<in> set [0, 1, 2, 3, 4, 5, 6] \<and> blob_meta_from_sql t (blob_meta_to_sql e) = Inr e" if "m t = Some e" for t e
  proof -
    have t: "blob_db_tag e = t" "case e of BlobMetaEntry_KmUuid u \<Rightarrow> length u = 16 | _ \<Rightarrow> True"
      using that assms(1) by (auto simp: blob_meta_wf_def)
    show ?thesis
      using blob_meta_round_trip [OF t(2)] blob_tag_range [of e] unfolding t(1) by simp
  qed
  then show ?thesis
    unfolding blob_meta_load_def blob_meta_store_def using assms(2) by (simp add: load_store_metadata)
qed

lemma key_meta_load_store:
  assumes "key_meta_wf m" "\<And>r. r \<in> set (db_keymetadata db) \<Longrightarrow> mr_owner r \<noteq> k"
  shows "key_meta_load k (key_meta_store k m db) = Inr m"
proof -
  have "t \<in> set [0, 1, 2, 3, 4, 5] \<and> key_meta_from_sql t (key_meta_to_sql e) = Inr e" if "m t = Some e" for t e
  proof -
    have t: "key_db_tag e = t"
      using that assms(1) by (auto simp: key_meta_wf_def)
    show ?thesis
      using key_meta_round_trip [of e] key_tag_range [of e] unfolding t by simp
  qed
  then show ?thesis
    unfolding key_meta_load_def key_meta_store_def using assms(2) by (simp add: load_store_metadata)
qed

section \<open>Blobs\<close>

lemma find_append_None: "List.find P xs = None \<Longrightarrow> List.find P (xs @ ys) = List.find P ys"
  by (induction xs) (auto split: if_splits)

lemma newest_blob_insert:
  "newest_blob k sc (insert_blob k sc b db) =
     Some \<lparr>br_id = Suc (max_blob_id db), br_subcomponent_type = sc, br_keyentryid = k, br_blob = b,
       br_state = BlobState_Current\<rparr>"
proof -
  let ?rows = "filter (\<lambda>r. br_keyentryid r = k \<and> br_subcomponent_type r = sc) (db_blobentry db)"
  let ?new = "\<lparr>br_id = Suc (max_blob_id db), br_subcomponent_type = sc, br_keyentryid = k, br_blob = b,
       br_state = BlobState_Current\<rparr>"
  have le: "br_id r \<le> max_blob_id db" if "r \<in> set ?rows" for r
    using that by (simp add: max_blob_id_ge)
  have "fold max (map br_id (?rows @ [?new])) 0 = Suc (max_blob_id db)"
    unfolding fold_max using le by (intro Max_eqI) (auto simp: le_SucI)
  moreover have "List.find (\<lambda>r. br_id r = Suc (max_blob_id db)) ?rows = None"
    using le by (fastforce simp: find_None_iff)
  ultimately show ?thesis
    by (simp add: newest_blob_def insert_blob_def Let_def find_append_None)
qed

lemma newest_blob_insert_other:
  "sc' \<noteq> sc \<or> k' \<noteq> k \<Longrightarrow> newest_blob k' sc' (insert_blob k sc b db) = newest_blob k' sc' db"
  by (auto simp: newest_blob_def insert_blob_def Let_def)

lemma newest_blob_supersede:
  assumes "sc' \<noteq> sc \<or> k' \<noteq> k"
  shows "newest_blob k' sc' (supersede_blobs k sc db) = newest_blob k' sc' db"
proof -
  have "filter (\<lambda>r. br_keyentryid r = k' \<and> br_subcomponent_type r = sc')
      (sql_update (\<lambda>r. br_keyentryid r = k \<and> br_subcomponent_type r = sc) (br_state_update f) rows)
      = filter (\<lambda>r. br_keyentryid r = k' \<and> br_subcomponent_type r = sc') rows"
    for f and rows :: "BlobEntryRow list"
    using assms by (induction rows) (auto simp: sql_update_def)
  then show ?thesis
    by (simp add: newest_blob_def supersede_blobs_def)
qed

lemma unknown_component_simps:
  "has_unknown_component k (blob_meta_store i m db) = has_unknown_component k db"
  "has_unknown_component k (clear_keybox_metadata k' sc db) = has_unknown_component k db"
  "sc \<in> {KEY_BLOB, CERT, CERT_CHAIN} \<Longrightarrow>
     has_unknown_component k (insert_blob k' sc b (supersede_blobs k' sc db)) = has_unknown_component k db"
proof -
  show "has_unknown_component k (insert_blob k' sc b (supersede_blobs k' sc db)) = has_unknown_component k db"
    if "sc \<in> {KEY_BLOB, CERT, CERT_CHAIN}"
  proof -
    have "list_ex (\<lambda>r. br_keyentryid r = k \<and> br_subcomponent_type r \<notin> {KEY_BLOB, CERT, CERT_CHAIN})
        (sql_update P (br_state_update f) rows)
      = list_ex (\<lambda>r. br_keyentryid r = k \<and> br_subcomponent_type r \<notin> {KEY_BLOB, CERT, CERT_CHAIN}) rows"
      for P f and rows :: "BlobEntryRow list"
      by (induction rows) (auto simp: sql_update_def)
    with that show ?thesis
      by (auto simp: has_unknown_component_def insert_blob_def supersede_blobs_def)
  qed
qed (simp_all add: has_unknown_component_def blob_meta_store_def clear_keybox_metadata_def)

lemma newest_blob_meta [simp]:
  "newest_blob k sc (blob_meta_store i m db) = newest_blob k sc db"
  "newest_blob k sc (clear_keybox_metadata k' sc' db) = newest_blob k sc db"
  by (simp_all add: newest_blob_def blob_meta_store_def clear_keybox_metadata_def)

lemma blob_meta_load_simps [simp]:
  "blob_meta_load i (insert_blob k sc b db) = blob_meta_load i db"
  "blob_meta_load i (supersede_blobs k sc db) = blob_meta_load i db"
  "blob_meta_load i (clear_keybox_metadata k sc db) = blob_meta_load i db"
  by (simp_all add: blob_meta_load_def insert_blob_def supersede_blobs_def clear_keybox_metadata_def)

lemma load_bits_both [simp]: "load_public LOAD_BOTH" "load_km LOAD_BOTH"
  by (simp_all add: load_public_def load_km_def LOAD_BOTH_def LOAD_PUBLIC_def LOAD_KM_def)

text \<open>The components of a key as \<open>load_key_entry\<close> gives them.\<close>

abbreviation components ::
    "i64 \<Rightarrow> (bytes \<times> BlobMetaData) option \<Rightarrow> bytes option \<Rightarrow> bytes option \<Rightarrow> KeystoreDb \<Rightarrow> bool" where
  "components k kb cert chain db \<equiv> load_blob_components k LOAD_BOTH db = Inr (kb \<noteq> None, kb, cert, chain)"

lemma components_iff:
  "components k kb cert chain db \<longleftrightarrow> \<not> has_unknown_component k db \<and>
     (case newest_blob k KEY_BLOB db of
        None \<Rightarrow> kb = None
      | Some r \<Rightarrow> \<exists>m. blob_meta_load (br_id r) db = Inr m \<and> kb = Some (br_blob r, m)) \<and>
     cert = map_option br_blob (newest_blob k CERT db) \<and> chain = map_option br_blob (newest_blob k CERT_CHAIN db)"
  by (auto simp: load_blob_components_def Let_def res_bind_Inr_iff map_ok_Inr_iff split: option.splits)

lemma components_key_blob:
  fixes b :: bytes
  assumes "db_ok db" "blob_meta_wf m" "components k kb cert chain db"
  defines "d \<equiv> insert_blob k KEY_BLOB b (supersede_blobs k KEY_BLOB db)"
  shows "components k (Some (b, m)) cert chain (blob_meta_store (max_blob_id d) m d)"
proof -
  have "mr_owner r \<noteq> max_blob_id d" if "r \<in> set (db_blobmetadata d)" for r
  proof -
    have "mr_owner r \<in> key_blob_ids (db_blobentry (supersede_blobs k KEY_BLOB db))"
      using assms(1) that by (simp add: d_def insert_blob_def supersede_blobs_def db_ok_def meta_ok_def)
    then show ?thesis
      unfolding d_def max_blob_id_insert by (auto simp: key_blob_ids_def dest!: max_blob_id_ge)
  qed
  then have "blob_meta_load (max_blob_id d) (blob_meta_store (max_blob_id d) m d) = Inr m"
    by (rule blob_meta_load_store [OF assms(2)])
  moreover have "newest_blob k KEY_BLOB d = Some \<lparr>br_id = max_blob_id d, br_subcomponent_type = KEY_BLOB,
      br_keyentryid = k, br_blob = b, br_state = BlobState_Current\<rparr>"
    by (simp add: d_def newest_blob_insert max_blob_id_insert)
  moreover have "newest_blob k sc d = newest_blob k sc db" if "sc \<noteq> KEY_BLOB" for sc
    using that by (simp add: d_def newest_blob_insert_other newest_blob_supersede)
  then have "newest_blob k CERT d = newest_blob k CERT db" "newest_blob k CERT_CHAIN d = newest_blob k CERT_CHAIN db"
    by (simp_all add: sub_component_defs)
  moreover have "has_unknown_component k d = has_unknown_component k db"
    by (simp add: d_def unknown_component_simps)
  ultimately show ?thesis
    using assms(3) unfolding components_iff by (simp add: unknown_component_simps)
qed

lemma components_public:
  assumes "components k kb cert chain db" "sc = CERT \<or> sc = CERT_CHAIN"
  shows "components k kb (if sc = CERT then Some b else cert) (if sc = CERT_CHAIN then Some b else chain)
    (insert_blob k sc b (supersede_blobs k sc db))"
proof -
  let ?d = "insert_blob k sc b (supersede_blobs k sc db)"
  have "newest_blob k sc' ?d = newest_blob k sc' db" if "sc' \<noteq> sc" for sc'
    using that by (simp add: newest_blob_insert_other newest_blob_supersede)
  moreover have "map_option br_blob (newest_blob k sc ?d) = Some b"
    by (simp add: newest_blob_insert)
  moreover have "has_unknown_component k ?d = has_unknown_component k db"
    using assms(2) by (intro unknown_component_simps) auto
  moreover have "KEY_BLOB \<noteq> CERT" "KEY_BLOB \<noteq> CERT_CHAIN" "CERT \<noteq> CERT_CHAIN"
    by (simp_all add: sub_component_defs)
  ultimately show ?thesis
    using assms unfolding components_iff by (auto split: option.splits)
qed

section \<open>Storing a key\<close>

text \<open>A key that is being stored: its entry is the last one, and it has no parameters and metadata yet.\<close>

definition storing ::
    "i64 \<Rightarrow> KeyEntryRow list \<Rightarrow> (bytes \<times> BlobMetaData) option \<Rightarrow> bytes option \<Rightarrow> bytes option \<Rightarrow> KeystoreDb \<Rightarrow> bool" where
  "storing k rows kb cert chain db \<longleftrightarrow> db_ok db \<and> db_keyentry db = rows \<and> components k kb cert chain db \<and>
     (\<forall>r\<in>set (db_keyparameter db). pr_keyentryid r \<noteq> k) \<and> (\<forall>r\<in>set (db_keymetadata db). mr_owner r \<noteq> k)"

lemma storing_key_blob:
  assumes "blob_meta_wf m"
  shows "tx_hoare (storing k rows kb cert chain) (set_blob_internal k KEY_BLOB (Some b) (Some m))
    (\<lambda>_. storing k rows (Some (b, m)) cert chain)"
  unfolding tx_hoare_def
proof (intro allI impI)
  fix db u db'
  assume st: "storing k rows kb cert chain db" and run: "set_blob_internal k KEY_BLOB (Some b) (Some m) db = Some (Inr (u, db'))"
  let ?d = "insert_blob k KEY_BLOB b (supersede_blobs k KEY_BLOB db)"
  have db': "db' = blob_meta_store (max_blob_id ?d) m ?d"
    using run by (simp add: set_blob_internal_def tx_bind_def tx_exec_def Let_def clear_keybox_metadata_def
        sub_component_defs split: if_splits)
  have "db_ok db'"
    using tx_hoareD [OF tx_frame_ok [OF set_blob_frame] _ run] assms st by (simp add: storing_def)
  moreover have "components k (Some (b, m)) cert chain db'"
    using components_key_blob [OF _ assms] st unfolding db' by (simp add: storing_def)
  ultimately show "storing k rows (Some (b, m)) cert chain db'"
    using st by (simp add: storing_def) (simp add: db' blob_meta_store_def insert_blob_def supersede_blobs_def)
qed

lemma storing_public:
  assumes sc: "sc = CERT \<or> sc = CERT_CHAIN"
  shows "tx_hoare (storing k rows kb cert chain) (set_optional_blob k sc b)
    (\<lambda>_. storing k rows kb (if sc = CERT \<and> b \<noteq> None then b else cert) (if sc = CERT_CHAIN \<and> b \<noteq> None then b else chain))"
proof (cases b)
  case None
  then show ?thesis
    by (simp add: set_optional_blob_def tx_hoare_return)
next
  case (Some x)
  show ?thesis
    unfolding tx_hoare_def
  proof (intro allI impI)
    fix db u db'
    assume st: "storing k rows kb cert chain db" and run: "set_optional_blob k sc b db = Some (Inr (u, db'))"
    let ?d = "insert_blob k sc x (supersede_blobs k sc db)"
    have db': "db' = clear_keybox_metadata k sc ?d"
      using run Some by (simp add: set_optional_blob_def set_blob_internal_def tx_bind_def tx_exec_def Let_def)
    have "db_ok db'"
      using tx_hoareD [OF tx_frame_ok [OF set_optional_blob_frame] _ run] st by (simp add: storing_def)
    moreover have "components k kb (if sc = CERT then Some x else cert) (if sc = CERT_CHAIN then Some x else chain) ?d"
      using components_public [OF _ sc] st by (simp add: storing_def)
    then have "components k kb (if sc = CERT then Some x else cert) (if sc = CERT_CHAIN then Some x else chain) db'"
      unfolding db' components_iff by (simp add: unknown_component_simps split: option.splits)
    moreover have "db_keyentry db' = rows" "\<forall>r\<in>set (db_keyparameter db'). pr_keyentryid r \<noteq> k"
      "\<forall>r\<in>set (db_keymetadata db'). mr_owner r \<noteq> k"
      using st by (simp_all add: storing_def db' clear_keybox_metadata_def insert_blob_def supersede_blobs_def)
    ultimately show "storing k rows kb (if sc = CERT \<and> b \<noteq> None then b else cert)
        (if sc = CERT_CHAIN \<and> b \<noteq> None then b else chain) db'"
      using Some by (simp add: storing_def)
  qed
qed

definition new_row :: "i64 \<Rightarrow> Domain \<Rightarrow> i64 \<Rightarrow> KeyType \<Rightarrow> Uuid \<Rightarrow> KeyEntryRow" where
  "new_row k domain namespace key_type uuid =
     \<lparr>kr_id = k, kr_key_type = key_type, kr_domain = Some domain, kr_namespace = Some namespace, kr_alias = None,
      kr_state = KeyLifeCycle_Existing, kr_km_uuid = uuid\<rparr>"

text \<open>No row of an id that is not taken, except leftover blobs, which the collector removes.\<close>

lemma no_components:
  assumes "\<And>r. r \<in> set (db_blobentry db) \<Longrightarrow> br_keyentryid r \<noteq> k"
  shows "components k None None None db"
proof -
  have "filter (\<lambda>r. br_keyentryid r = k \<and> br_subcomponent_type r = sc) (db_blobentry db) = []" for sc
    using assms by (auto simp: filter_empty_conv)
  then have "newest_blob k sc db = None" for sc
    by (simp add: newest_blob_def Let_def)
  moreover have "\<not> has_unknown_component k db"
    using assms by (auto simp: has_unknown_component_def list_ex_iff)
  ultimately show ?thesis
    unfolding components_iff by simp
qed

lemma storing_create:
  assumes run: "create_key_entry_internal draws domain namespace key_type uuid db = Some (Inr (k, db'))"
    and ok: "db_ok db" and fresh: "\<And>r. r \<in> set (db_blobentry db) \<Longrightarrow> br_keyentryid r \<noteq> k"
  shows "storing k (db_keyentry db @ [new_row k domain namespace key_type uuid]) None None None db'"
    and "k \<notin> ids_of db" and "domain \<in> {Domain_APP, Domain_SELINUX}"
proof -
  have db': "db' = db\<lparr>db_keyentry := db_keyentry db @ [new_row k domain namespace key_type uuid]\<rparr>"
    and k: "insert_with_retry draws (map kr_id (db_keyentry db)) = Some k"
    using run by (auto simp: create_key_entry_internal_def new_row_def split: if_splits option.splits)
  show "domain \<in> {Domain_APP, Domain_SELINUX}"
    using run by (auto simp: create_key_entry_internal_def split: if_splits)
  show new: "k \<notin> ids_of db"
    using insert_with_retry_Some [OF k] by (simp add: ids_of_def)
  have "db_ok db'"
    using tx_hoareD [OF create_key_entry_hoare ok run] by simp
  moreover have "components k None None None db'"
    using fresh by (intro no_components) (simp add: db')
  ultimately show "storing k (db_keyentry db @ [new_row k domain namespace key_type uuid]) None None None db'"
    using ok new by (auto simp: storing_def db' db_ok_def params_ok_def meta_ok_def)
qed

lemma load_blob_components_cong:
  assumes "db_blobentry db' = db_blobentry db" "db_blobmetadata db' = db_blobmetadata db"
  shows "load_blob_components k bits db' = load_blob_components k bits db"
proof -
  have "newest_blob k sc db' = newest_blob k sc db" "blob_meta_load i db' = blob_meta_load i db"
    "has_unknown_component k db' = has_unknown_component k db" for sc i
    by (simp_all add: newest_blob_def blob_meta_load_def has_unknown_component_def assms)
  then show ?thesis
    by (simp only: load_blob_components_def)
qed

lemma sql_update_append: "sql_update P f (xs @ [x]) = sql_update P f xs @ [if P x then f x else x]"
  by (simp add: sql_update_def)

lemma rebind_new_row:
  assumes run: "rebind_alias k nm domain namespace key_type db = Some (Inr (a, db'))"
    and keys: "db_keyentry db = old @ [new_row k domain namespace key_type uuid]" and new: "k \<notin> kr_id ` set old"
  obtains old' where
    "db' = db\<lparr>db_keyentry := old' @ [(new_row k domain namespace key_type uuid)\<lparr>kr_alias := Some nm, kr_state := KeyLifeCycle_Live\<rparr>]\<rparr>"
    "k \<notin> kr_id ` set old'"
    "\<forall>r\<in>set old'. \<not> (kr_alias r = Some nm \<and> kr_domain r = Some domain \<and> kr_namespace r = Some namespace
       \<and> kr_key_type r = key_type)"
proof -
  let ?old = "sql_update (\<lambda>r. kr_alias r = Some nm \<and> kr_domain r = Some domain \<and> kr_namespace r = Some namespace
         \<and> kr_key_type r = key_type)
      (\<lambda>r. r\<lparr>kr_alias := None, kr_domain := None, kr_namespace := None, kr_state := KeyLifeCycle_Unreferenced\<rparr>) old"
  have ids: "map kr_id ?old = map kr_id old"
    by simp
  have "kr_id ` set ?old = kr_id ` set old"
    using arg_cong [OF ids, of set] by (simp only: set_map)
  with new have k: "k \<notin> kr_id ` set ?old"
    by simp
  then have "sql_update (\<lambda>r. kr_id r = k \<and> kr_domain r = Some domain \<and> kr_namespace r = Some namespace
       \<and> kr_state r = KeyLifeCycle_Existing \<and> kr_key_type r = key_type) f ?old = ?old" for f
    unfolding sql_update_def [of _ f] by (intro map_idI) auto
  note old = this
  have "db' = db\<lparr>db_keyentry := sql_update
      (\<lambda>r. kr_id r = k \<and> kr_domain r = Some domain \<and> kr_namespace r = Some namespace
         \<and> kr_state r = KeyLifeCycle_Existing \<and> kr_key_type r = key_type)
      (\<lambda>r. r\<lparr>kr_alias := Some nm, kr_state := KeyLifeCycle_Live\<rparr>)
      (?old @ [new_row k domain namespace key_type uuid])\<rparr>"
    using run by (auto simp: rebind_alias_def Let_def keys sql_update_append new_row_def split: if_splits)
  then have "db' = db\<lparr>db_keyentry := ?old @
      [(new_row k domain namespace key_type uuid)\<lparr>kr_alias := Some nm, kr_state := KeyLifeCycle_Live\<rparr>]\<rparr>"
    unfolding sql_update_append old by (simp add: new_row_def)
  moreover have "\<forall>r\<in>set ?old. \<not> (kr_alias r = Some nm \<and> kr_domain r = Some domain \<and> kr_namespace r = Some namespace
       \<and> kr_key_type r = key_type)"
    by (auto elim!: in_sql_updateE split: if_splits)
  ultimately show ?thesis
    using that k by blast
qed

lemma found_by_alias:
  assumes "db_keyentry db = old @ [(new_row k domain namespace key_type uuid)\<lparr>kr_alias := Some nm, kr_state := KeyLifeCycle_Live\<rparr>]"
    "k \<notin> kr_id ` set old"
    "\<forall>r\<in>set old. \<not> (kr_alias r = Some nm \<and> kr_domain r = Some domain \<and> kr_namespace r = Some namespace
       \<and> kr_key_type r = key_type)"
    and key: "kd_alias key = Some nm" "kd_domain key = domain" "kd_nspace key = namespace"
  shows "load_key_entry_id key key_type db = Inr k" "get_key_km_uuid k db = Inr uuid"
proof -
  have "filter (\<lambda>r. kr_key_type r = key_type \<and> kr_domain r = Some domain \<and> kr_namespace r = Some namespace
      \<and> kr_alias r = Some nm \<and> kr_state r = KeyLifeCycle_Live) old = []"
    using assms(3) by (auto simp: filter_empty_conv)
  then show "load_key_entry_id key key_type db = Inr k"
    by (simp add: load_key_entry_id_def key assms(1) with_rows_extract_one_def new_row_def)
  have "List.find (\<lambda>r. kr_id r = k) old = None"
    using assms(2) by (auto simp: find_None_iff)
  then show "get_key_km_uuid k db = Inr uuid"
    by (simp add: get_key_km_uuid_def assms(1) find_append_None new_row_def)
qed

lemma load_inserted_parameters:
  assumes "\<And>r. r \<in> set (db_keyparameter db) \<Longrightarrow> pr_keyentryid r \<noteq> k"
  shows "load_key_parameters k (insert_keyparameter_internal k ps db) = Inr ps"
proof -
  have "filter (\<lambda>r. pr_keyentryid r = k) (db_keyparameter db @ map (parameter_row k) ps) = map (parameter_row k) ps"
    using assms by (auto simp: filter_empty_conv filter_id_conv parameter_row_def)
  then show ?thesis
    unfolding load_key_parameters_def insert_keyparameter_internal_def
    by (simp add: res_collect_map parameter_row_def to_from_sql)
qed

definition stored_entry ::
    "i64 \<Rightarrow> BlobInfo \<Rightarrow> CertificateInfo \<Rightarrow> Uuid \<Rightarrow> KeyParameter list \<Rightarrow> KeyMetaData \<Rightarrow> KeyEntry" where
  "stored_entry k b ci uuid ps km =
     \<lparr>ke_id = k, ke_key_blob_info = Some (bi_blob b, bi_metadata b), ke_cert = ci_cert ci,
      ke_cert_chain = ci_cert_chain ci, ke_km_uuid = uuid, ke_parameters = ps, ke_metadata = km, ke_pure_cert = False\<rparr>"

lemma storing_finished:
  assumes st: "storing k rows (Some (bi_blob b, bi_metadata b)) (ci_cert ci) (ci_cert_chain ci) db"
    and rows: "rows = old @ [new_row k domain namespace key_type uuid]" "k \<notin> kr_id ` set old"
    and wf: "key_meta_wf km"
    and run: "rebind_alias k nm domain namespace key_type (key_meta_store k km (insert_keyparameter_internal k ps db))
      = Some (Inr (a, db'))"
    and key: "kd_alias key = Some nm" "kd_domain key = domain" "kd_nspace key = namespace"
  shows "load_key_entry_id key key_type db' = Inr k \<and>
     load_key_components LOAD_BOTH k db' = Inr (stored_entry k b ci uuid ps km)"
proof -
  let ?d = "key_meta_store k km (insert_keyparameter_internal k ps db)"
  have "db_keyentry ?d = old @ [new_row k domain namespace key_type uuid]"
    using st rows by (simp add: storing_def key_meta_store_def insert_keyparameter_internal_def)
  then obtain old' where
    db': "db' = ?d\<lparr>db_keyentry := old' @ [(new_row k domain namespace key_type uuid)\<lparr>kr_alias := Some nm, kr_state := KeyLifeCycle_Live\<rparr>]\<rparr>"
    and old': "k \<notin> kr_id ` set old'"
    "\<forall>r\<in>set old'. \<not> (kr_alias r = Some nm \<and> kr_domain r = Some domain \<and> kr_namespace r = Some namespace
       \<and> kr_key_type r = key_type)"
    using rebind_new_row [OF run _ rows(2)] by blast
  have found: "load_key_entry_id key key_type db' = Inr k" "get_key_km_uuid k db' = Inr uuid"
    using found_by_alias [OF _ old' key] by (simp_all add: db')
  have "key_meta_load k db' = key_meta_load k ?d" "load_key_parameters k db' = load_key_parameters k (insert_keyparameter_internal k ps db)"
    by (simp_all add: db' key_meta_load_def load_key_parameters_def key_meta_store_def insert_keyparameter_internal_def)
  moreover have "load_blob_components k LOAD_BOTH db' = load_blob_components k LOAD_BOTH db"
    by (rule load_blob_components_cong) (simp_all add: db' key_meta_store_def insert_keyparameter_internal_def)
  moreover have "key_meta_load k ?d = Inr km"
    using st by (intro key_meta_load_store [OF wf]) (simp add: storing_def insert_keyparameter_internal_def)
  moreover have "load_key_parameters k (insert_keyparameter_internal k ps db) = Inr ps"
    using st by (intro load_inserted_parameters) (simp add: storing_def)
  ultimately show ?thesis
    using st found by (simp add: load_key_components_def storing_def stored_entry_def)
qed

end
