(* ===== verification/Key_Db_Usage.thy ===== *)
theory Key_Db_Usage
  imports Key_Db_Invariant
begin

text \<open>
  The use counts of the key database implement the store that the reservations of \<open>Key_Usage\<close> rely on.
\<close>

lemma tx_bind_Inr:
  "tx_bind m f db = Some (Inr x) \<longleftrightarrow> (\<exists>a db'. m db = Some (Inr (a, db')) \<and> f a db' = Some (Inr x))"
  by (auto simp: tx_bind_def split: option.splits sum.splits)

text \<open>
  An error that is not one of the daemon's own is reported as a system error, one of an SELinux check that denies
  access as a denial.
\<close>

primrec ks_error :: "DbError \<Rightarrow> KsError" where
  "ks_error (DbError_Ks e) = e"
| "ks_error (DbError_Selinux e) =
     (if e = SelinuxError_PermissionDenied then KsError_Rc ResponseCode_PERMISSION_DENIED else KsError_sys)"
| "ks_error DbError_Sqlite = KsError_sys"
| "ks_error DbError_Io = KsError_sys"

definition db_count :: "KeystoreDb \<Rightarrow> i64 \<Rightarrow> KsError + i32" where
  "db_count db k = map_err ks_error (key_usage_count_internal k db)"

definition db_consume :: "i64 \<Rightarrow> KeystoreDb \<Rightarrow> KeystoreDb \<times> (KsError + unit)" where
  "db_consume k db = (case db_check_and_update_key_usage_count k db of
     Some (db', need_gc, r) \<Rightarrow> (db', map_err ks_error r)
   | None \<Rightarrow> (db, Inl KsError_sys))"

lemma usage_count_Inr:
  "key_usage_count_internal k db = Inr limit \<longleftrightarrow>
     list_ex (is_live k) (db_keyentry db) \<and>
     (\<exists>r rs. filter (is_usage_row k) (db_keyparameter db) = r # rs \<and> sql_get_i32 (pr_data r) = Inr limit) \<and>
     sint limit > 0"
  by (auto simp: key_usage_count_internal_def Let_def res_bind_Inr_iff map_err_Inr_iff split: list.splits if_splits)

lemma db_consume_Inr:
  assumes "db_consume k db = (db', Inr u)"
  obtains limit where "key_usage_count_internal k db = Inr limit"
    "sql_count (\<lambda>r. is_usage_row k r \<and> positive_cell (pr_data r)) (db_keyparameter db) = 1"
    "db' = (let db = db\<lparr>db_keyparameter := sql_update (\<lambda>r. is_usage_row k r \<and> positive_cell (pr_data r))
         (pr_data_update decrement_cell) (db_keyparameter db)\<rparr>
       in if limit = 1 then snd (remove_key_rows k db) else db)"
proof -
  have total: "db_check_and_update_key_usage_count_internal k db \<noteq> None"
    by (cases "key_usage_count_internal k db")
      (simp_all add: db_check_and_update_key_usage_count_internal_def tx_bind_def tx_query_def tx_remove_def Let_def)
  have "\<exists>gc. db_check_and_update_key_usage_count_internal k db = Some (Inr (gc, db'))"
  proof (cases "db_check_and_update_key_usage_count_internal k db")
    case (Some r)
    note run = this
    show ?thesis
    proof (cases r)
      case (Inl e)
      then have "db_consume k db = (db, Inl (ks_error e))"
        by (simp add: db_consume_def db_check_and_update_key_usage_count_def with_transaction_def tx_bind_def run)
      with assms show ?thesis
        by simp
    next
      case (Inr p)
      then have "db_consume k db = (snd p, Inr ())"
        by (cases p) (simp add: db_consume_def db_check_and_update_key_usage_count_def with_transaction_def tx_bind_def
            tx_return_def run)
      with assms run Inr show ?thesis
        by (cases p) simp
    qed
  qed (use total in simp)
  then obtain gc where "db_check_and_update_key_usage_count_internal k db = Some (Inr (gc, db'))" ..
  then obtain limit where "key_usage_count_internal k db = Inr limit"
    "sql_count (\<lambda>r. is_usage_row k r \<and> positive_cell (pr_data r)) (db_keyparameter db) = 1"
    "db' = (let db = db\<lparr>db_keyparameter := sql_update (\<lambda>r. is_usage_row k r \<and> positive_cell (pr_data r))
         (pr_data_update decrement_cell) (db_keyparameter db)\<rparr>
       in if limit = 1 then snd (remove_key_rows k db) else db)"
    by (auto simp: db_check_and_update_key_usage_count_internal_def tx_bind_Inr tx_query_def map_ok_Inr_iff Let_def
        tx_remove_def split: if_splits)
  with that show ?thesis .
qed

lemma filter_usage_update:
  "filter (is_usage_row k) (sql_update (\<lambda>r. is_usage_row j r \<and> P r) (pr_data_update f) rows) =
     (if j = k then sql_update P (pr_data_update f) (filter (is_usage_row k) rows) else filter (is_usage_row k) rows)"
proof (cases "j = k")
  case True
  have "is_usage_row k (pr_data_update f r) = is_usage_row k r" for r
    by (simp add: is_usage_row_def)
  then show ?thesis
    using True by (induction rows) (simp_all add: sql_update_def)
next
  case False
  have "is_usage_row k (if is_usage_row j r \<and> P r then pr_data_update f r else r) = is_usage_row k r"
    "is_usage_row k r \<Longrightarrow> \<not> is_usage_row j r" for r
    using False by (simp_all add: is_usage_row_def)
  then show ?thesis
    using False by (induction rows) (simp_all add: sql_update_def)
qed

text \<open>The first counter of the key is the one that is taken down.\<close>

lemma decrement_first:
  assumes "sql_get_i32 (pr_data r) = Inr limit" "sint limit > 0"
  shows "positive_cell (pr_data r)" "sql_get_i32 (decrement_cell (pr_data r)) = Inr (limit - 1)"
proof -
  obtain v where v: "pr_data r = SqlValue_Integer v" "fits_i32 (sint v)" "limit = of_int (sint v)"
    using assms(1) by (auto simp: sql_get_i32_def split: SqlValue.splits if_splits)
  have "sint (of_int n :: i32) = n" if "fits_i32 n" for n
    using that by (simp add: fits_i32_def signed_of_int signed_take_bit_int_eq_self)
  from this [OF v(2)] have "sint limit = sint v"
    unfolding v(3) .
  with assms(2) have pos: "0 < sint v"
    by simp
  then show "positive_cell (pr_data r)"
    by (simp add: v positive_cell_def)
  have "sint (v - 1) = sint v - 1"
    using pos sint_lt [of v] by (simp add: sint_word_diff signed_take_bit_int_eq_self)
  with pos v show "sql_get_i32 (decrement_cell (pr_data r)) = Inr (limit - 1)"
    by (simp add: decrement_cell_def sql_get_i32_def fits_i32_def)
qed

lemma usage_count_other:
  assumes "j \<noteq> k"
  shows "key_usage_count_internal j (snd (remove_key_rows k db)) = key_usage_count_internal j db"
    "key_usage_count_internal j (db\<lparr>db_keyparameter := sql_update (\<lambda>r. is_usage_row k r \<and> P r)
        (pr_data_update f) (db_keyparameter db)\<rparr>) = key_usage_count_internal j db"
proof -
  have "list_ex (is_live j) (sql_delete (\<lambda>r. kr_id r = k) rows) = list_ex (is_live j) rows" for rows
    using assms by (auto simp: list_ex_iff is_live_def sql_delete_def)
  moreover have "filter (is_usage_row j) (sql_delete (\<lambda>r. pr_keyentryid r = k) rows) = filter (is_usage_row j) rows" for rows
    using assms by (auto simp: sql_delete_def is_usage_row_def intro!: filter_cong)
  ultimately show "key_usage_count_internal j (snd (remove_key_rows k db)) = key_usage_count_internal j db"
    by (simp add: key_usage_count_internal_def remove_key_rows_def)
  show "key_usage_count_internal j (db\<lparr>db_keyparameter := sql_update (\<lambda>r. is_usage_row k r \<and> P r)
        (pr_data_update f) (db_keyparameter db)\<rparr>) = key_usage_count_internal j db"
    using assms by (simp add: key_usage_count_internal_def filter_usage_update)
qed

lemma usage_count_removed: "key_usage_count_internal k (snd (remove_key_rows k db)) = Inl (DbError_Ks (KsError_Km ErrorCode_InvalidKeyBlob))"
proof -
  have "\<not> list_ex (is_live k) (sql_delete (\<lambda>r. kr_id r = k) rows)" for rows
    by (auto simp: list_ex_iff is_live_def sql_delete_def)
  then show ?thesis
    by (simp add: key_usage_count_internal_def remove_key_rows_def)
qed

lemma usage_count_decremented:
  assumes "key_usage_count_internal k db = Inr limit" "limit \<noteq> 1"
  shows "key_usage_count_internal k (db\<lparr>db_keyparameter := sql_update (\<lambda>r. is_usage_row k r \<and> positive_cell (pr_data r))
         (pr_data_update decrement_cell) (db_keyparameter db)\<rparr>) = Inr (limit - 1)"
proof -
  obtain r rs where r: "filter (is_usage_row k) (db_keyparameter db) = r # rs" "sql_get_i32 (pr_data r) = Inr limit"
    and live: "list_ex (is_live k) (db_keyentry db)" and pos: "sint limit > 0"
    using assms(1) unfolding usage_count_Inr by blast
  have "sint limit \<noteq> 1"
    using assms(2) signed_word_eqI [of limit 1] by auto
  with pos have "sint (limit - 1) > 0"
    by (simp add: sint_minus_1)
  with r live decrement_first [OF r(2) pos] show ?thesis
    unfolding usage_count_Inr by (simp add: filter_usage_update) (simp add: sql_update_def)
qed

interpretation dbu: usage_store db_count db_consume
proof
  show "sint r > 0" if "db_count db k = Inr r" for db k r
    using that by (simp add: db_count_def map_err_Inr_iff usage_count_Inr)
next
  fix k db db' u
  assume "db_consume k db = (db', Inr u)"
  then show "\<exists>r. db_count db k = Inr r \<and> (if r = 1 then \<exists>e. db_count db' k = Inl e else db_count db' k = Inr (r - 1))"
    by (rule db_consume_Inr) (auto simp: db_count_def Let_def usage_count_removed usage_count_decremented)
next
  fix k db db' u j
  assume "db_consume k db = (db', Inr u)" "j \<noteq> k"
  then show "db_count db' j = db_count db j"
    by (auto elim!: db_consume_Inr simp: db_count_def Let_def usage_count_other)
next
  show "db' = db" if "db_consume k db = (db', Inl e)" for k db db' e
    using that by (auto simp: db_consume_def db_check_and_update_key_usage_count_def with_transaction_def
        split: option.splits sum.splits)
qed

end
