(* ===== verification/Key_Db_Access.thy ===== *)
theory Key_Db_Access
  imports Key_Db_Calls
begin

text \<open>
  Who may access a key: the owner of the alias, a grantee, or a caller that names the id of a key and is
  then checked against the namespace of the key or its grant.
\<close>

lemma filter_single:
  assumes "distinct xs" "x \<in> set xs" "P x" "\<And>y. y \<in> set xs \<Longrightarrow> P y \<Longrightarrow> y = x"
  shows "filter P xs = [x]"
proof -
  have "set (filter P xs) = {x}"
    unfolding set_filter using assms(2-4) by blast
  moreover have "distinct (filter P xs)"
    using assms(1) by simp
  ultimately have "length (filter P xs) = 1"
    using distinct_card [of "filter P xs"] by simp
  then obtain y where "filter P xs = [y]"
    by (auto simp: length_Suc_conv)
  with \<open>set (filter P xs) = {x}\<close> show ?thesis
    by simp
qed

lemma keys_distinct: "db_ok db \<Longrightarrow> distinct (db_keyentry db) \<and> distinct (map kr_id (db_keyentry db))"
  by (auto simp: db_ok_def keys_ok_def distinct_map)

lemma grants_distinct:
  "db_ok db \<Longrightarrow> distinct (db_grant db) \<and> distinct (map gr_id (db_grant db)) \<and>
     distinct (map (\<lambda>r. (gr_keyentryid r, gr_grantee r)) (db_grant db))"
  by (auto simp: db_ok_def grants_ok_def distinct_map)

lemma load_client_id:
  assumes "db_ok db"
  shows "load_key_entry_id key KeyType_Client db = Inr k \<longleftrightarrow>
     (\<exists>r\<in>set (db_keyentry db). kr_id r = k \<and> kr_state r = KeyLifeCycle_Live \<and> kr_key_type r = KeyType_Client
        \<and> kr_domain r = Some (kd_domain key) \<and> kr_namespace r = Some (kd_nspace key)
        \<and> kd_alias key \<noteq> None \<and> kr_alias r = kd_alias key)" (is "_ \<longleftrightarrow> ?rhs")
proof
  show "load_key_entry_id key KeyType_Client db = Inr k \<Longrightarrow> ?rhs"
    by (auto elim!: load_key_entry_id_Inr)
  assume ?rhs
  then obtain r nm where r: "r \<in> set (db_keyentry db)" "kr_id r = k" "kr_state r = KeyLifeCycle_Live"
    "kr_key_type r = KeyType_Client" "kr_domain r = Some (kd_domain key)" "kr_namespace r = Some (kd_nspace key)"
    "kd_alias key = Some nm" "kr_alias r = Some nm"
    by auto
  have "inj_on alias_key {r \<in> set (db_keyentry db). named_client r}"
    using assms by (simp add: db_ok_def keys_ok_def)
  then have "filter (\<lambda>r. kr_key_type r = KeyType_Client \<and> kr_domain r = Some (kd_domain key)
      \<and> kr_namespace r = Some (kd_nspace key) \<and> kr_alias r = Some nm \<and> kr_state r = KeyLifeCycle_Live)
      (db_keyentry db) = [r]"
    using r keys_distinct [OF assms]
    by (intro filter_single) (auto simp: inj_on_def named_client_def alias_key_def)
  with r(2,7) show "load_key_entry_id key KeyType_Client db = Inr k"
    by (simp add: load_key_entry_id_def with_rows_extract_one_def)
qed

lemma find_unique:
  assumes "distinct (map f xs)" "x \<in> set xs"
  shows "List.find (\<lambda>y. f y = f x) xs = Some x"
  using assms by (induction xs) (auto simp: rev_image_eqI)

lemma grant_access_iff:
  assumes "db_ok db"
  shows "grant_access key uid db = Inr a \<longleftrightarrow>
     (\<exists>r\<in>set (db_keyentry db). kr_id r = ka_key_id a \<and> kr_state r = KeyLifeCycle_Live \<and>
       (\<exists>g\<in>set (db_grant db). gr_id g = kd_nspace key \<and> gr_grantee g = uid \<and> gr_keyentryid g = kr_id r \<and>
          ka_descriptor a = key \<and> ka_vector a = Some (gr_access_vector g)))" (is "_ \<longleftrightarrow> ?rhs")
proof
  show ?rhs if "grant_access key uid db = Inr a"
  proof -
    from that obtain g r where "g \<in> set (db_grant db)" "gr_grantee g = uid" "gr_id g = kd_nspace key"
      "ka_descriptor a = key" "ka_key_id a = gr_keyentryid g" "ka_vector a = Some (gr_access_vector g)"
      "r \<in> set (db_keyentry db)" "is_live (gr_keyentryid g) r"
      by (rule grant_access_Inr)
    then show ?thesis
      by (intro bexI [of _ r] conjI bexI [of _ g]) (simp_all add: is_live_def)
  qed
  assume ?rhs
  then obtain r g where r: "r \<in> set (db_keyentry db)" "kr_id r = ka_key_id a" "kr_state r = KeyLifeCycle_Live"
    and g: "g \<in> set (db_grant db)" "gr_id g = kd_nspace key" "gr_grantee g = uid" "gr_keyentryid g = kr_id r"
      "ka_descriptor a = key" "ka_vector a = Some (gr_access_vector g)"
    by blast
  have find: "List.find (\<lambda>x. kr_id x = kr_id r) (db_keyentry db) = Some r"
    using keys_distinct [OF assms] r(1) by (intro find_unique) simp_all
  have unique: "y = g" if "y \<in> set (db_grant db)" "gr_id y = kd_nspace key" for y
    using distinct_map_eqD [of gr_id "db_grant db" y g] grants_distinct [OF assms] that g(1,2) by simp
  have "filter (\<lambda>x. gr_grantee x = uid \<and> gr_id x = kd_nspace key
      \<and> map_option kr_state (List.find (\<lambda>k. kr_id k = gr_keyentryid x) (db_keyentry db)) = Some KeyLifeCycle_Live)
      (db_grant db) = [g]" (is "filter ?P _ = _")
  proof (rule filter_single)
    show "?P g"
      using g(2-4) r(3) find by simp
    show "y = g" if "y \<in> set (db_grant db)" "?P y" for y
      using unique that by blast
  qed (use grants_distinct [OF assms] g(1) in simp_all)
  with g r(2) show "grant_access key uid db = Inr a"
    by (cases a) (simp add: grant_access_def with_rows_extract_one_def)
qed

lemma key_id_access_iff:
  assumes "db_ok db"
  shows "key_id_access key uid db = Inr a \<longleftrightarrow>
     (\<exists>r\<in>set (db_keyentry db). kr_id r = ka_key_id a \<and> kr_state r = KeyLifeCycle_Live \<and>
       kr_id r = kd_nspace key \<and> kr_domain r = Some (kd_domain (ka_descriptor a)) \<and>
       kr_namespace r = Some (kd_nspace (ka_descriptor a)) \<and>
       ka_descriptor a = key\<lparr>kd_domain := kd_domain (ka_descriptor a), kd_nspace := kd_nspace (ka_descriptor a)\<rparr> \<and>
       ka_vector a = (if kr_domain r = Some Domain_APP \<and> kr_namespace r = Some uid then None
         else map_option gr_access_vector
           (List.find (\<lambda>g. gr_grantee g = uid \<and> gr_keyentryid g = kr_id r) (db_grant db))))" (is "_ \<longleftrightarrow> ?rhs")
proof
  show ?rhs if run: "key_id_access key uid db = Inr a"
  proof -
    have "ka_descriptor a = key\<lparr>kd_domain := kd_domain (ka_descriptor a), kd_nspace := kd_nspace (ka_descriptor a)\<rparr>"
      using run by (auto simp: key_id_access_def res_bind_Inr_iff Let_def)
    moreover from run obtain r where "r \<in> set (db_keyentry db)" "is_live (kd_nspace key) r"
      "ka_key_id a = kd_nspace key" "kr_domain r = Some (kd_domain (ka_descriptor a))"
      "kr_namespace r = Some (kd_nspace (ka_descriptor a))"
      "ka_vector a = (if kd_domain (ka_descriptor a) \<noteq> Domain_APP \<or> kd_nspace (ka_descriptor a) \<noteq> uid
         then map_option gr_access_vector
                (List.find (\<lambda>r. gr_grantee r = uid \<and> gr_keyentryid r = kd_nspace key) (db_grant db))
         else None)"
      by (rule key_id_access_Inr)
    ultimately show ?thesis
      by (intro bexI [of _ r] conjI) (simp_all add: is_live_def)
  qed
  assume ?rhs
  then obtain r where r: "r \<in> set (db_keyentry db)" "kr_id r = ka_key_id a" "kr_state r = KeyLifeCycle_Live"
    "kr_id r = kd_nspace key" "kr_domain r = Some (kd_domain (ka_descriptor a))"
    "kr_namespace r = Some (kd_nspace (ka_descriptor a))"
    "ka_descriptor a = key\<lparr>kd_domain := kd_domain (ka_descriptor a), kd_nspace := kd_nspace (ka_descriptor a)\<rparr>"
    "ka_vector a = (if kr_domain r = Some Domain_APP \<and> kr_namespace r = Some uid then None
         else map_option gr_access_vector
           (List.find (\<lambda>g. gr_grantee g = uid \<and> gr_keyentryid g = kr_id r) (db_grant db)))"
    by blast
  have unique: "y = r" if "y \<in> set (db_keyentry db)" "kr_id y = kd_nspace key" for y
    using distinct_map_eqD [of kr_id "db_keyentry db" y r] keys_distinct [OF assms] that r(1,4) by simp
  have "filter (is_live (kd_nspace key)) (db_keyentry db) = [r]"
  proof (rule filter_single)
    show "y = r" if "y \<in> set (db_keyentry db)" "is_live (kd_nspace key) y" for y
      using unique that by (simp add: is_live_def)
  qed (use keys_distinct [OF assms] r(1,3,4) in \<open>simp_all add: is_live_def\<close>)
  then have "key_id_access key uid db = Inr \<lparr>ka_key_id = kd_nspace key,
      ka_descriptor = key\<lparr>kd_domain := kd_domain (ka_descriptor a), kd_nspace := kd_nspace (ka_descriptor a)\<rparr>,
      ka_vector = ka_vector a\<rparr>"
    using r(4-6,8) by (simp add: key_id_access_def with_rows_extract_one_def Let_def)
  then show "key_id_access key uid db = Inr a"
    using r(2,4,7) by (cases a) simp
qed

text \<open>
  What a caller obtains for a key descriptor.  An application is given the live key of its own uid with
  the alias, whatever namespace it names; an SELinux namespace the live key of that namespace; a grant
  its key only when it was made to the caller, with exactly the permissions granted; an id the live key
  with that id, with the permissions of a grant to the caller unless the caller owns the key.  In each case
  the key is live, and other descriptors give nothing.
\<close>

theorem access_tuple_correct:
  assumes "db_ok db"
  shows "load_access_tuple key KeyType_Client uid db = Inr a \<longleftrightarrow>
    (\<exists>r\<in>set (db_keyentry db). kr_id r = ka_key_id a \<and> kr_state r = KeyLifeCycle_Live \<and>
      (case kd_domain key of
         Domain_APP \<Rightarrow> kr_key_type r = KeyType_Client \<and> kr_domain r = Some Domain_APP \<and> kr_namespace r = Some uid
           \<and> kd_alias key \<noteq> None \<and> kr_alias r = kd_alias key
           \<and> ka_descriptor a = key\<lparr>kd_nspace := uid\<rparr> \<and> ka_vector a = None
       | Domain_SELINUX \<Rightarrow> kr_key_type r = KeyType_Client \<and> kr_domain r = Some Domain_SELINUX
           \<and> kr_namespace r = Some (kd_nspace key) \<and> kd_alias key \<noteq> None \<and> kr_alias r = kd_alias key
           \<and> ka_descriptor a = key \<and> ka_vector a = None
       | Domain_GRANT \<Rightarrow> (\<exists>g\<in>set (db_grant db). gr_id g = kd_nspace key \<and> gr_grantee g = uid
           \<and> gr_keyentryid g = kr_id r \<and> ka_descriptor a = key \<and> ka_vector a = Some (gr_access_vector g))
       | Domain_KEY_ID \<Rightarrow> kr_id r = kd_nspace key \<and> kr_domain r = Some (kd_domain (ka_descriptor a))
           \<and> kr_namespace r = Some (kd_nspace (ka_descriptor a))
           \<and> ka_descriptor a = key\<lparr>kd_domain := kd_domain (ka_descriptor a), kd_nspace := kd_nspace (ka_descriptor a)\<rparr>
           \<and> ka_vector a = (if kr_domain r = Some Domain_APP \<and> kr_namespace r = Some uid then None
               else map_option gr_access_vector
                 (List.find (\<lambda>g. gr_grantee g = uid \<and> gr_keyentryid g = kr_id r) (db_grant db)))
       | Domain_BLOB \<Rightarrow> False))"
proof (cases "kd_domain key")
  case Domain_APP
  then show ?thesis
    by (cases a) (auto simp: load_access_tuple_def Let_def map_ok_Inr_iff load_client_id [OF assms])
next
  case Domain_SELINUX
  then show ?thesis
    by (cases a) (auto simp: load_access_tuple_def map_ok_Inr_iff load_client_id [OF assms])
qed (simp_all add: load_access_tuple_def grant_access_iff [OF assms] key_id_access_iff [OF assms])

end
