(* ===== verification/Key_Db_Removal.thy ===== *)
theory Key_Db_Removal
  imports Key_Db_Gc
begin

text \<open>
  Removal of many keys: of a user, of those bound to the authentication or the lock screen of a user, and of
  a namespace.
\<close>

section \<open>Removing a list of keys\<close>

definition removed_keys :: "i64 set \<Rightarrow> KeystoreDb \<Rightarrow> KeystoreDb" where
  "removed_keys ids db =
     db\<lparr>db_keyentry := filter (\<lambda>r. kr_id r \<notin> ids) (db_keyentry db),
        db_keymetadata := filter (\<lambda>r. mr_owner r \<notin> ids) (db_keymetadata db),
        db_keyparameter := filter (\<lambda>r. pr_keyentryid r \<notin> ids) (db_keyparameter db),
        db_grant := filter (\<lambda>r. gr_keyentryid r \<notin> ids) (db_grant db),
        db_blobentry := map (\<lambda>r. if br_keyentryid r \<in> ids then r\<lparr>br_state := BlobState_Orphaned\<rparr> else r)
          (db_blobentry db)\<rparr>"

lemma removed_keys_empty [simp]: "removed_keys {} db = db"
  by (simp add: removed_keys_def)

lemma remove_key_rows_eq: "snd (remove_key_rows k db) = removed_keys {k} db"
  by (simp add: remove_key_rows_def removed_keys_def sql_delete_def sql_update_def)

lemma removed_keys_Un: "removed_keys A (removed_keys B db) = removed_keys (A \<union> B) db"
proof -
  have "map (\<lambda>r. if br_keyentryid r \<in> A then r\<lparr>br_state := BlobState_Orphaned\<rparr> else r)
      (map (\<lambda>r. if br_keyentryid r \<in> B then r\<lparr>br_state := BlobState_Orphaned\<rparr> else r) rows)
    = map (\<lambda>r. if br_keyentryid r \<in> A \<union> B then r\<lparr>br_state := BlobState_Orphaned\<rparr> else r) rows"
    for rows :: "BlobEntryRow list"
    by (induction rows) simp_all
  then show ?thesis
    by (simp add: removed_keys_def conj_commute)
qed

lemma remove_keys_eq: "snd (remove_keys ks db) = removed_keys (set ks) db"
proof -
  have "snd (fold (\<lambda>key_id (notify_gc, db). case remove_key_rows key_id db of
      (removed, db) \<Rightarrow> (removed \<or> notify_gc, db)) ks s) = removed_keys (set ks) (snd s)" for s
    by (induction ks arbitrary: s) (simp_all add: split_beta remove_key_rows_eq removed_keys_Un)
  then show ?thesis
    by (simp add: remove_keys_def)
qed

text \<open>A loop whose decision on a key does not depend on other keys.\<close>

lemma unbind_matching_eq:
  assumes "\<And>k j db. k \<in> set ks \<Longrightarrow> j \<noteq> f k \<Longrightarrow> g k (removed_keys {j} db) = g k db"
    and "\<And>k. k \<in> set ks \<Longrightarrow> g k db = Inr (P k)" and "distinct (map f ks)"
  shows "\<exists>n'. unbind_matching f g ks n db = Some (Inr (n', removed_keys (f ` {k \<in> set ks. P k}) db))"
  using assms
proof (induction ks arbitrary: n db)
  case (Cons k ks)
  have g: "g k db = Inr (P k)"
    using Cons.prems(2) by simp
  define ids where "ids = (if P k then {f k} else {})"
  have rest: "\<exists>n'. unbind_matching f g ks m (removed_keys ids db) =
      Some (Inr (n', removed_keys (f ` {k \<in> set ks. P k}) (removed_keys ids db)))" for m
  proof (rule Cons.IH)
    show "g j (removed_keys ids db) = Inr (P j)" if "j \<in> set ks" for j
      using Cons.prems(1) [of j "f k" db] Cons.prems(2) [of j] Cons.prems(3) that
      by (auto simp: ids_def image_iff)
  qed (use Cons.prems in auto)
  have "f ` {j \<in> set (k # ks). P j} = f ` {k \<in> set ks. P k} \<union> ids"
    by (auto simp: ids_def)
  then show ?case
    using g rest by (auto simp: ids_def split_beta remove_key_rows_eq removed_keys_Un)
qed simp

section \<open>What binds a key\<close>

definition has_secure_id :: "KeystoreDb \<Rightarrow> i64 \<Rightarrow> bool" where
  "has_secure_id db k = list_ex (\<lambda>p. pr_keyentryid p = k \<and> pr_tag p = Tag_u32 Tag_UserSecureId) (db_keyparameter db)"

lemma secure_id_tag:
  assumes "new_from_sql t d = Inr v"
  shows "(case v of KeyParameterValue_UserSecureID _ \<Rightarrow> True | _ \<Rightarrow> False) \<longleftrightarrow> t = Tag_u32 Tag_UserSecureId"
proof (cases "Tag_n (sint t)")
  case None
  then show ?thesis
    using assms by (auto simp: new_from_sql_def)
next
  case (Some x)
  then have "sint t = Tag_i32 x"
    by (simp add: Tag_n_def we_Tag.n_Some_iff)
  then have "t = Tag_u32 x"
    unfolding Tag_u32_def by (simp flip: \<open>sint t = Tag_i32 x\<close>)
  moreover have "Tag_u32 x = Tag_u32 y \<longleftrightarrow> x = y" for y
    by (metis Tag_n_Tag_u32 option.inject)
  moreover have "(case v of KeyParameterValue_UserSecureID _ \<Rightarrow> True | _ \<Rightarrow> False) \<longleftrightarrow> x = Tag_UserSecureId"
    using assms Some by (cases x) (auto simp: new_from_sql_def map_ok_Inr_iff)
  ultimately show ?thesis
    by simp
qed

lemma load_key_parameters_ok:
  assumes "db_ok db"
  shows "map_ok is_auth_bound_key (load_key_parameters k db) = Inr (has_secure_id db k)"
proof -
  let ?rows = "filter (\<lambda>r. pr_keyentryid r = k) (db_keyparameter db)"
  have "\<forall>r. \<exists>v. r \<in> set ?rows \<longrightarrow> new_from_sql (pr_tag r) (pr_data r) = Inr v"
    using assms by (auto simp: db_ok_def params_ok_def is_ok_iff)
  from choice [OF this] obtain v where v: "\<And>r. r \<in> set ?rows \<Longrightarrow> new_from_sql (pr_tag r) (pr_data r) = Inr (v r)"
    by blast
  have "load_key_parameters k db = Inr (map (\<lambda>r. \<lparr>kp_value = v r, kp_security_level = pr_security_level r\<rparr>) ?rows)"
    unfolding load_key_parameters_def by (subst res_collect_all_ok [where g = "\<lambda>r. \<lparr>kp_value = v r, kp_security_level = pr_security_level r\<rparr>"]) (simp_all add: v)
  moreover have "(case v r of KeyParameterValue_UserSecureID _ \<Rightarrow> True | _ \<Rightarrow> False) \<longleftrightarrow> pr_tag r = Tag_u32 Tag_UserSecureId"
    if "r \<in> set ?rows" for r
    using secure_id_tag [OF v [OF that]] .
  ultimately show ?thesis
    by (auto simp: is_auth_bound_key_def has_secure_id_def list_ex_iff)
qed

lemma load_key_parameters_removed: "j \<noteq> k \<Longrightarrow> load_key_parameters k (removed_keys {j} db) = load_key_parameters k db"
proof -
  assume "j \<noteq> k"
  then have "filter (\<lambda>r. pr_keyentryid r = k) (filter (\<lambda>r. pr_keyentryid r \<noteq> j) rows) = filter (\<lambda>r. pr_keyentryid r = k) rows"
    for rows :: "KeyParameterRow list"
    by (induction rows) auto
  then show ?thesis
    by (simp add: load_key_parameters_def removed_keys_def)
qed

definition has_super_encryption :: "KeystoreDb \<Rightarrow> i64 \<Rightarrow> bool" where
  "has_super_encryption db k = (case newest_blob k KEY_BLOB db of
     Some b \<Rightarrow> list_ex (\<lambda>m. mr_owner m = br_id b \<and> mr_tag m = 0) (db_blobmetadata db)
   | None \<Rightarrow> False)"

lemma load_metadata_tags:
  assumes "load_metadata c i rows = Inr m"
  shows "m t \<noteq> None \<longleftrightarrow> (\<exists>r\<in>set rows. mr_owner r = i \<and> mr_tag r = t)"
    and "m t = Some e \<Longrightarrow> \<exists>d. c t d = Inr e"
proof -
  have fold: "(m' t \<noteq> None \<longleftrightarrow> m0 t \<noteq> None \<or> (\<exists>r\<in>set xs. mr_tag r = t)) \<and>
      (m' t = Some e \<longrightarrow> m0 t = Some e \<or> (\<exists>d. c t d = Inr e))"
    if "res_fold (\<lambda>m row. map_ok (\<lambda>e. m(mr_tag row \<mapsto> e)) (c (mr_tag row) (mr_data row))) m0 xs = Inr m'" for m0 m' xs
    using that
  proof (induction xs arbitrary: m0)
    case (Cons x xs)
    show ?case
    proof (cases "c (mr_tag x) (mr_data x)")
      case (Inr y)
      then have "res_fold (\<lambda>m row. map_ok (\<lambda>e. m(mr_tag row \<mapsto> e)) (c (mr_tag row) (mr_data row))) (m0(mr_tag x \<mapsto> y)) xs
          = Inr m'"
        using Cons.prems by (simp add: fun_upd_def)
      from Cons.IH [OF this] Inr show ?thesis
        by (auto split: if_splits)
    qed (use Cons.prems in simp)
  qed simp
  note loaded = fold [OF assms [unfolded load_metadata_def]]
  show "m t \<noteq> None \<longleftrightarrow> (\<exists>r\<in>set rows. mr_owner r = i \<and> mr_tag r = t)"
    using conjunct1 [OF loaded] by auto
  show "m t = Some e \<Longrightarrow> \<exists>d. c t d = Inr e"
    using conjunct2 [OF loaded] by simp
qed

lemma encrypted_by_iff:
  assumes "blob_meta_load i db = Inr m"
  shows "encrypted_by m \<noteq> None \<longleftrightarrow> (\<exists>r\<in>set (db_blobmetadata db). mr_owner r = i \<and> mr_tag r = 0)"
proof -
  note tags = load_metadata_tags [OF assms [unfolded blob_meta_load_def], of 0]
  have "\<exists>v. e = BlobMetaEntry_EncryptedBy v" if "m 0 = Some e" for e
    using tags(2) [OF that] by (auto simp: blob_meta_from_sql_def map_ok_Inr_iff)
  then have "encrypted_by m \<noteq> None \<longleftrightarrow> m 0 \<noteq> None"
    by (cases "m 0") (auto simp: encrypted_by_def)
  with tags(1) show ?thesis
    by simp
qed

lemma load_km_KM [simp]: "load_km LOAD_KM" "\<not> load_public LOAD_KM"
  by (simp_all add: load_km_def load_public_def LOAD_KM_def LOAD_PUBLIC_def)

lemma is_super_encrypted_eq:
  assumes "db_ok db" "\<not> has_unknown_component k db"
  shows "is_super_encrypted_key k db = Inr (has_super_encryption db k)"
proof (cases "newest_blob k KEY_BLOB db")
  case None
  then show ?thesis
    using assms(2) by (simp add: is_super_encrypted_key_def load_blob_components_def has_super_encryption_def Let_def)
next
  case (Some b)
  obtain m where m: "blob_meta_load (br_id b) db = Inr m"
    using assms(1) load_metadata_ok by (fastforce simp: blob_meta_load_def db_ok_def)
  have "encrypted_by m \<noteq> None \<longleftrightarrow> has_super_encryption db k"
    using encrypted_by_iff [OF m] Some by (simp add: has_super_encryption_def list_ex_iff)
  then show ?thesis
    using assms(2) Some m by (simp add: is_super_encrypted_key_def load_blob_components_def Let_def)
qed

lemma load_blob_components_removed:
  assumes "j \<noteq> k"
  shows "load_blob_components k bits (removed_keys {j} db) = load_blob_components k bits db"
proof -
  have rows: "filter (\<lambda>r. br_keyentryid r = k \<and> br_subcomponent_type r = sc)
      (map (\<lambda>r. if br_keyentryid r \<in> {j} then r\<lparr>br_state := BlobState_Orphaned\<rparr> else r) rows)
    = filter (\<lambda>r. br_keyentryid r = k \<and> br_subcomponent_type r = sc) rows" for sc and rows :: "BlobEntryRow list"
    using assms by (induction rows) auto
  have "newest_blob k sc (removed_keys {j} db) = newest_blob k sc db" for sc
    unfolding newest_blob_def by (simp add: removed_keys_def rows [simplified])
  moreover have "has_unknown_component k (removed_keys {j} db) = has_unknown_component k db"
  proof -
    have "list_ex (\<lambda>r. br_keyentryid r = k \<and> Q (br_subcomponent_type r))
        (map (\<lambda>r. if br_keyentryid r \<in> {j} then r\<lparr>br_state := BlobState_Orphaned\<rparr> else r) rows)
      = list_ex (\<lambda>r. br_keyentryid r = k \<and> Q (br_subcomponent_type r)) rows" for Q and rows :: "BlobEntryRow list"
      using assms by (induction rows) auto
    from this [of "\<lambda>x. x \<notin> {KEY_BLOB, CERT, CERT_CHAIN}"] show ?thesis
      unfolding has_unknown_component_def removed_keys_def by simp
  qed
  moreover have "blob_meta_load i (removed_keys {j} db) = blob_meta_load i db" for i
    by (simp add: blob_meta_load_def removed_keys_def)
  ultimately show ?thesis
    by (simp only: load_blob_components_def)
qed

section \<open>Removal for a user\<close>

lemma key_ids_distinct: "db_ok db \<Longrightarrow> distinct (key_ids P db)"
  by (simp add: key_ids_def db_ok_def keys_ok_def distinct_map_filter)

lemma unbind_keys_for_user_eq:
  "\<exists>gc. unbind_keys_for_user user db = Some (removed_keys (set (key_ids (\<lambda>r. app_key_of_user user r \<or> super_key_of_user user r) db))
     (delete_received_grants user db), gc, Inr ())"
proof -
  have "key_ids P (delete_received_grants user db) = key_ids P db" for P
    by (simp add: key_ids_def delete_received_grants_def)
  then show ?thesis
    unfolding remove_keys_eq [symmetric]
    by (auto simp: unbind_keys_for_user_def with_transaction_def tx_bind_def tx_exec_def tx_remove_def tx_return_def
        simp del: set_key_ids split: prod.splits)
qed

lemma unbind_auth_bound_eq:
  assumes "db_ok db"
  shows "\<exists>gc. unbind_auth_bound_keys_for_user user db =
    Some (removed_keys (set (key_ids (\<lambda>r. app_key_of_user user r \<and> has_secure_id db (kr_id r)) db)) db, gc, Inr ())"
proof -
  let ?ks = "key_ids (app_key_of_user user) db"
  have "\<exists>n'. unbind_matching (\<lambda>k. k) (\<lambda>key_id db. map_ok is_auth_bound_key (load_key_parameters key_id db)) ?ks False db
      = Some (Inr (n', removed_keys ((\<lambda>k. k) ` {k \<in> set ?ks. has_secure_id db k}) db))"
    using key_ids_distinct [OF assms]
    by (intro unbind_matching_eq) (simp_all add: load_key_parameters_removed load_key_parameters_ok assms)
  moreover have "(\<lambda>k. k) ` {k \<in> set ?ks. has_secure_id db k} =
      set (key_ids (\<lambda>r. app_key_of_user user r \<and> has_secure_id db (kr_id r)) db)"
    by auto
  ultimately show ?thesis
    by (auto simp: unbind_auth_bound_keys_for_user_def with_transaction_def tx_bind_def tx_return_def)
qed

definition lskf_bound :: "KeystoreDb \<Rightarrow> i64 \<times> KeyType \<Rightarrow> bool" where
  "lskf_bound db p \<longleftrightarrow> snd p = KeyType_Super \<or> has_secure_id db (fst p) \<or> has_super_encryption db (fst p)"

lemma is_lskf_bound_eq:
  assumes "db_ok db" "\<not> has_unknown_component (fst p) db"
  shows "is_lskf_bound p db = Inr (lskf_bound db p)"
proof (cases p)
  case (Pair k key_type)
  obtain ps where ps: "load_key_parameters k db = Inr ps" "is_auth_bound_key ps = has_secure_id db k"
    using load_key_parameters_ok [OF assms(1), of k] by (auto simp: map_ok_Inr_iff)
  have "is_super_encrypted_key k db = Inr (has_super_encryption db k)"
    using assms Pair by (simp add: is_super_encrypted_eq)
  with ps show ?thesis
    by (simp add: Pair is_lskf_bound_def lskf_bound_def)
qed

lemma unbind_lskf_bound_eq:
  assumes "db_ok db" "\<And>r. r \<in> set (db_keyentry db) \<Longrightarrow> \<not> has_unknown_component (kr_id r) db"
  shows "\<exists>gc. unbind_lskf_bound_keys_for_user user db =
    Some (removed_keys (set (key_ids (\<lambda>r. (app_key_of_user user r \<or> super_key_of_user user r)
       \<and> lskf_bound db (kr_id r, kr_key_type r)) db)) db, gc, Inr ())"
proof -
  let ?ks = "map (\<lambda>r. (kr_id r, kr_key_type r))
      (filter (\<lambda>r. app_key_of_user user r \<or> super_key_of_user user r) (db_keyentry db))"
  have "\<exists>n'. unbind_matching fst is_lskf_bound ?ks False db
      = Some (Inr (n', removed_keys (fst ` {k \<in> set ?ks. lskf_bound db k}) db))"
  proof (rule unbind_matching_eq)
    show "is_lskf_bound k (removed_keys {j} d) = is_lskf_bound k d" if "j \<noteq> fst k" for k j d
      using that by (cases k) (simp add: is_lskf_bound_def load_key_parameters_removed is_super_encrypted_key_def
          load_blob_components_removed)
    show "is_lskf_bound k db = Inr (lskf_bound db k)" if "k \<in> set ?ks" for k
      using that assms by (intro is_lskf_bound_eq) auto
    show "distinct (map fst ?ks)"
      using key_ids_distinct [OF assms(1)] by (simp add: key_ids_def o_def)
  qed
  moreover have "fst ` {k \<in> set ?ks. lskf_bound db k} = set (key_ids (\<lambda>r. (app_key_of_user user r \<or> super_key_of_user user r)
       \<and> lskf_bound db (kr_id r, kr_key_type r)) db)"
    by force
  ultimately show ?thesis
    by (auto simp: unbind_lskf_bound_keys_for_user_def with_transaction_def tx_bind_def tx_return_def)
qed

end
