(* ===== verification/Key_Db_Correct.thy ===== *)
theory Key_Db_Correct
  imports Key_Db_Load Key_Db_Usage Key_Db_Access Key_Db_Removal
begin

text \<open>
  The properties of the key database and of the garbage collector.
\<close>

section \<open>A stored key\<close>

lemma blob_owner_retire:
  "br_keyentryid ` set (sql_update P (br_state_update f) rows) = br_keyentryid ` set rows"
proof -
  have "map br_keyentryid (sql_update P (br_state_update f) rows) = map br_keyentryid rows"
    by simp
  from arg_cong [OF this, of set] show ?thesis
    by (simp only: set_map)
qed

lemma usage_blob_owners:
  assumes "db_check_and_update_key_usage_count_internal k db = Some (Inr (a, db'))"
  shows "br_keyentryid ` set (db_blobentry db') = br_keyentryid ` set (db_blobentry db)"
proof -
  have "db_blobentry db' \<in> {db_blobentry db, sql_update (\<lambda>r. br_keyentryid r = k)
      (br_state_update (\<lambda>_. BlobState_Orphaned)) (db_blobentry db)}"
    using assms
    by (auto simp: db_check_and_update_key_usage_count_internal_def tx_bind_Inr tx_query_def map_ok_Inr_iff Let_def
        tx_remove_def remove_key_rows_def split: if_splits)
  then show ?thesis
    using blob_owner_retire by (elim insertE) simp_all
qed

lemma store_new_key_run:
  assumes "store_new_key draws key key_type ps b ci km uuid usage db = Some (db', gc, Inr k)"
  obtains nm domain namespace db0 db1 db2 a x where
    "alias_target key = Inr (nm, domain, namespace)"
    "(case usage of Some k \<Rightarrow> db_check_and_update_key_usage_count_internal k | None \<Rightarrow> tx_return False) db
       = Some (Inr (x, db0))"
    "create_key_entry_internal draws domain namespace key_type uuid db0 = Some (Inr (k, db1))"
    "tx_bind (case bi_superseded_blob b of
         Some (old, m) \<Rightarrow> tx_bind (set_blob_internal k KEY_BLOB (Some old) (Some m)) (\<lambda>_. tx_return True)
       | None \<Rightarrow> tx_return False) (\<lambda>_.
     tx_bind (set_blob_internal k KEY_BLOB (Some (bi_blob b)) (Some (bi_metadata b))) (\<lambda>_.
     tx_bind (set_optional_blob k CERT (ci_cert ci)) (\<lambda>_.
       set_optional_blob k CERT_CHAIN (ci_cert_chain ci)))) db1 = Some (Inr ((), db2))"
    "rebind_alias k nm domain namespace key_type (key_meta_store k km (insert_keyparameter_internal k ps db2))
       = Some (Inr (a, db'))"
proof -
  obtain nm domain namespace where t: "alias_target key = Inr (nm, domain, namespace)"
    using assms by (cases "alias_target key") (auto simp: store_new_key_def)
  have "store_new_key_tx draws nm domain namespace key_type ps b ci km uuid usage db = Some (Inr ((gc, k), db'))"
    using assms t by (auto simp: store_new_key_def with_transaction_def split: option.splits sum.splits)
  with t that show ?thesis
    unfolding store_new_key_tx_def
    by (simp add: tx_bind_Inr tx_exec_def tx_return_def) blast
qed

lemma storing_all:
  assumes "blob_info_wf b"
  shows "tx_hoare (storing k rows None None None) (tx_bind (case bi_superseded_blob b of
         Some (old, m) \<Rightarrow> tx_bind (set_blob_internal k KEY_BLOB (Some old) (Some m)) (\<lambda>_. tx_return True)
       | None \<Rightarrow> tx_return False) (\<lambda>_.
     tx_bind (set_blob_internal k KEY_BLOB (Some (bi_blob b)) (Some (bi_metadata b))) (\<lambda>_.
     tx_bind (set_optional_blob k CERT (ci_cert ci)) (\<lambda>_.
       set_optional_blob k CERT_CHAIN (ci_cert_chain ci)))))
    (\<lambda>_. storing k rows (Some (bi_blob b, bi_metadata b)) (ci_cert ci) (ci_cert_chain ci))"
proof -
  let ?st = "\<lambda>kb db. storing k rows kb None None db"
  have old: "tx_hoare (?st None) (case bi_superseded_blob b of
         Some (old, m) \<Rightarrow> tx_bind (set_blob_internal k KEY_BLOB (Some old) (Some m)) (\<lambda>_. tx_return True)
       | None \<Rightarrow> tx_return False) (\<lambda>_. ?st (bi_superseded_blob b))"
  proof (cases "bi_superseded_blob b")
    case (Some p)
    obtain x m where p: "p = (x, m)"
      by fastforce
    have "blob_meta_wf m"
      using assms Some p by (simp add: blob_info_wf_def)
    from storing_key_blob [OF this] show ?thesis
      by (auto simp: Some p intro!: tx_hoare_bind [where Q = "\<lambda>_. ?st (Some (x, m))"] tx_hoare_return)
  qed (simp add: tx_hoare_return)
  have new: "tx_hoare (?st kb) (set_blob_internal k KEY_BLOB (Some (bi_blob b)) (Some (bi_metadata b)))
      (\<lambda>_. ?st (Some (bi_blob b, bi_metadata b)))" for kb
    using assms by (intro storing_key_blob) (simp add: blob_info_wf_def)
  have cert: "tx_hoare (?st kb) (set_optional_blob k CERT (ci_cert ci)) (\<lambda>_. storing k rows kb (ci_cert ci) None)" for kb
    using storing_public [of CERT k rows kb None None "ci_cert ci"]
    by (rule tx_hoare_post) (auto simp: sub_component_defs split: if_splits)
  have chain: "tx_hoare (storing k rows kb (ci_cert ci) None) (set_optional_blob k CERT_CHAIN (ci_cert_chain ci))
      (\<lambda>_. storing k rows kb (ci_cert ci) (ci_cert_chain ci))" for kb
    using storing_public [of CERT_CHAIN k rows kb "ci_cert ci" None "ci_cert_chain ci"]
    by (rule tx_hoare_post) (auto simp: sub_component_defs split: if_splits)
  show ?thesis
    by (rule tx_hoare_bind [OF old], rule tx_hoare_bind [OF new], rule tx_hoare_bind [OF cert], rule chain)
qed

text \<open>
  C9: A key that was stored is found again by its alias, with exactly the blob, the certificates, the parameters
  and the metadata it was stored with, whatever the alias named before and whether or not the call used up
  another key.  The new id must not be that of a removed key whose blobs are not collected yet.
\<close>

theorem stored_key_found:
  assumes "db_ok db" "store_new_key draws key key_type ps b ci km uuid usage db = Some (db', gc, Inr k)"
    and "blob_info_wf b" "key_meta_wf km" "\<forall>r\<in>set (db_blobentry db). br_keyentryid r \<noteq> k"
  shows "load_key_entry_id key key_type db' = Inr k \<and>
    load_key_components LOAD_BOTH k db' = Inr \<lparr>ke_id = k, ke_key_blob_info = Some (bi_blob b, bi_metadata b),
      ke_cert = ci_cert ci, ke_cert_chain = ci_cert_chain ci, ke_km_uuid = uuid, ke_parameters = ps,
      ke_metadata = km, ke_pure_cert = False\<rparr>"
proof -
  obtain nm domain namespace db0 db1 db2 a x where run:
    "alias_target key = Inr (nm, domain, namespace)"
    "(case usage of Some k \<Rightarrow> db_check_and_update_key_usage_count_internal k | None \<Rightarrow> tx_return False) db
       = Some (Inr (x, db0))"
    "create_key_entry_internal draws domain namespace key_type uuid db0 = Some (Inr (k, db1))"
    "tx_bind (case bi_superseded_blob b of
         Some (old, m) \<Rightarrow> tx_bind (set_blob_internal k KEY_BLOB (Some old) (Some m)) (\<lambda>_. tx_return True)
       | None \<Rightarrow> tx_return False) (\<lambda>_.
     tx_bind (set_blob_internal k KEY_BLOB (Some (bi_blob b)) (Some (bi_metadata b))) (\<lambda>_.
     tx_bind (set_optional_blob k CERT (ci_cert ci)) (\<lambda>_.
       set_optional_blob k CERT_CHAIN (ci_cert_chain ci)))) db1 = Some (Inr ((), db2))"
    "rebind_alias k nm domain namespace key_type (key_meta_store k km (insert_keyparameter_internal k ps db2))
       = Some (Inr (a, db'))"
    using assms(2) by (rule store_new_key_run)
  have "db_ok db0" "br_keyentryid ` set (db_blobentry db0) = br_keyentryid ` set (db_blobentry db)"
    using run(2) tx_hoareD [OF usage_count_hoare assms(1)] usage_blob_owners assms(1)
    by (auto simp: tx_return_def split: option.splits)
  with assms(5) have ok0: "db_ok db0" "\<And>r. r \<in> set (db_blobentry db0) \<Longrightarrow> br_keyentryid r \<noteq> k"
    by (auto, metis image_iff)
  note create = storing_create [OF run(3) ok0]
  have "storing k (db_keyentry db0 @ [new_row k domain namespace key_type uuid])
      (Some (bi_blob b, bi_metadata b)) (ci_cert ci) (ci_cert_chain ci) db2"
    using tx_hoareD [OF storing_all [OF assms(3)] create(1) run(4)] .
  from storing_finished [OF this refl _ assms(4) run(5)] create(2) run(1)
  show ?thesis
    by (auto simp: ids_of_def stored_entry_def alias_target_def split: option.splits if_splits)
qed

section \<open>Sample data\<close>

definition sample_key :: KeyDescriptor where
  "sample_key = \<lparr>kd_domain = Domain_APP, kd_nspace = 10100, kd_alias = Some [107], kd_blob = None\<rparr>"

definition sample_blob :: BlobInfo where
  "sample_blob = \<lparr>bi_blob = [1, 2], bi_metadata = Map.empty, bi_superseded_blob = None\<rparr>"

definition sample_certs :: CertificateInfo where
  "sample_certs = \<lparr>ci_cert = Some [3], ci_cert_chain = None\<rparr>"

definition sample_stored :: KeystoreDb where
  "sample_stored = empty_db\<lparr>
     db_keyentry := [\<lparr>kr_id = 5, kr_key_type = KeyType_Client, kr_domain = Some Domain_APP, kr_namespace = Some 10100,
       kr_alias = Some [107], kr_state = KeyLifeCycle_Live, kr_km_uuid = KEYSTORE_UUID\<rparr>],
     db_blobentry := [\<lparr>br_id = 1, br_subcomponent_type = KEY_BLOB, br_keyentryid = 5, br_blob = [1, 2],
         br_state = BlobState_Current\<rparr>,
       \<lparr>br_id = 2, br_subcomponent_type = CERT, br_keyentryid = 5, br_blob = [3], br_state = BlobState_Current\<rparr>]\<rparr>"

lemma sample_store:
  "store_new_key [5] sample_key KeyType_Client [] sample_blob sample_certs Map.empty KEYSTORE_UUID None empty_db
     = Some (sample_stored, False, Inr 5)"
  by (simp add: store_new_key_def sample_key_def alias_target_def store_new_key_tx_def with_transaction_def tx_bind_def
      tx_return_def tx_exec_def create_key_entry_internal_def empty_db_def sample_blob_def sample_certs_def
      set_blob_internal_def insert_blob_def supersede_blobs_def max_blob_id_def sql_update_def clear_keybox_metadata_def
      sub_component_defs set_optional_blob_def insert_keyparameter_internal_def key_meta_store_def store_metadata_def
      rebind_alias_def Let_def sql_count_def sample_stored_def blob_meta_store_def sql_delete_def)

lemma sample_wf: "blob_info_wf sample_blob" "key_meta_wf Map.empty"
  by (simp_all add: blob_info_wf_def sample_blob_def blob_meta_wf_def key_meta_wf_def)

theorem stored_key_found_witness:
  "\<exists>db'. store_new_key [5] sample_key KeyType_Client [] sample_blob sample_certs Map.empty KEYSTORE_UUID None empty_db
     = Some (db', False, Inr 5) \<and> load_key_entry_id sample_key KeyType_Client db' = Inr 5 \<and>
     map_ok ke_cert (load_key_components LOAD_BOTH 5 db') = Inr (Some [3])"
proof -
  have "\<forall>r\<in>set (db_blobentry empty_db). br_keyentryid r \<noteq> 5"
    by (simp add: empty_db_def)
  from stored_key_found [OF empty_db_ok sample_store sample_wf this] show ?thesis
    using sample_store by (simp add: sample_certs_def)
qed

definition sample_db :: KeystoreDb where
  "sample_db = sample_stored\<lparr>
     db_blobentry := db_blobentry sample_stored @ [\<lparr>br_id = 3, br_subcomponent_type = KEY_BLOB, br_keyentryid = 6,
       br_blob = [7], br_state = BlobState_Superseded\<rparr>],
     db_blobmetadata := [\<lparr>mr_owner = 3, mr_tag = 4, mr_data = SqlValue_Blob KEYSTORE_UUID\<rparr>],
     db_keyparameter := [\<lparr>pr_keyentryid = 5, pr_tag = Tag_u32 Tag_UsageCountLimit, pr_data = SqlValue_Integer 2,
       pr_security_level = SecurityLevel_Keystore\<rparr>],
     db_grant := [\<lparr>gr_id = 9, gr_grantee = 10200, gr_keyentryid = 5, gr_access_vector = 3\<rparr>]\<rparr>"

lemma sample_db_ok: "db_ok sample_db"
  by (simp add: sample_db_def sample_stored_def empty_db_def db_ok_def keys_ok_def row_ok_def blobs_ok_def
      same_component_def sub_component_defs meta_ok_def key_blob_ids_def grants_ok_def ids_of_def params_ok_def
      blob_meta_from_sql_def Uuid_column_result_def sql_get_vec_def KEYSTORE_UUID_def new_from_sql_def
      sql_get_i32_def fits_i32_def inj_on_def word_sless_alt)

abbreviation fresh_gc :: GcInternal where
  "fresh_gc \<equiv> \<lparr>gc_deleted_blob_ids = [], gc_superseded_blobs = [], gc_invalidated = []\<rparr>"

lemma fresh_gc_ok: "gc_ok fresh_gc db"
  by (simp add: gc_ok_def)

section \<open>The invariant\<close>

text \<open>
  C5: Whatever calls clients make and however the collector runs in between: ids are unique, a live key has a
  domain, a namespace and an alias, an alias names one client key; metadata, parameters and grants refer to keys and
  blobs that exist and can be decoded; of each component of a key only the newest blob can be current; and
  the blobs the collector has loaded or is about to delete are superseded or orphaned key blobs, so no id it
  holds can be reused for a current blob.
\<close>

theorem database_invariant:
  assumes "db_step\<^sup>*\<^sup>* ds_init s"
  shows "db_ok (ds_db s) \<and> gc_ok (ds_gc s) (ds_db s)"
proof -
  have "system_ok s"
    using assms by (induction rule: rtranclp_induct) (simp_all add: system_ok_init system_ok_step)
  then show ?thesis
    by (simp add: system_ok_def)
qed

lemma sample_db_reachable: "db_step\<^sup>*\<^sup>* ds_init (ds_init\<lparr>ds_db := sample_stored\<rparr>)"
proof -
  have "db_step ds_init (ds_init\<lparr>ds_db := sample_stored, ds_queued := ds_queued ds_init \<or> False\<rparr>)"
    using sample_wf sample_store
    by (intro db_step.client [of "Call_store_new_key [5] sample_key KeyType_Client [] sample_blob sample_certs
          Map.empty KEYSTORE_UUID None"]) (simp_all add: ds_init_def performed_def)
  then show ?thesis
    by (simp add: ds_init_def r_into_rtranclp)
qed

theorem database_invariant_witness:
  "\<exists>s. db_step\<^sup>*\<^sup>* ds_init s \<and> db_keyentry (ds_db s) \<noteq> [] \<and> db_ok (ds_db s) \<and> gc_ok (ds_gc s) (ds_db s)"
  using database_invariant [OF sample_db_reachable] sample_db_reachable
  by (intro exI [of _ "ds_init\<lparr>ds_db := sample_stored\<rparr>"]) (simp add: sample_stored_def)

section \<open>The collector\<close>

lemma gc_comes_to_rest:
  assumes "db_ok db" "gc_ok gc db"
  shows "\<exists>gc' db'. gc_run invalidate (Suc (gc_load db - length (gc_deleted_blob_ids gc))) (gc, db) = Some (gc', db') \<and>
    collected gc db gc' db'"
  by (rule gc_run_collects [OF assms]) simp



lemma popped_invalidated:
  "x \<in> set (gc_invalidated (popped gc)) - set (gc_invalidated gc) \<Longrightarrow> snd x = sb_blob (last (gc_superseded_blobs gc))"
  by (auto simp: popped_def Let_def split: option.splits)

text \<open>
  C13: A step of the collector, whether or not KeyMint answers and whether or not it ends the work, never
  removes or changes a current blob of a referenced key or a referenced key, and asks KeyMint to delete
  only blobs that are superseded or orphaned.
\<close>

theorem gc_step_safe:
  assumes "db_ok db" "gc_ok gc db" "gc_step boot_completed invalidate (gc, db) = Some (again, gc', db')"
  shows "kept_blobs db' = kept_blobs db \<and> kept_keys db' = kept_keys db \<and>
    (\<forall>x\<in>set (gc_invalidated gc') - set (gc_invalidated gc).
       \<exists>r\<in>set (db_blobentry db). br_blob r = snd x \<and> br_subcomponent_type r = KEY_BLOB
         \<and> (br_state r \<noteq> BlobState_Current \<or> of_unreferenced db r))"
proof (cases "boot_completed \<and> gc_superseded_blobs gc = []")
  case True
  let ?db = "swept (gc_deleted_blob_ids gc) db"
  obtain bs where bs: "load_superseded 20 ?db = Inr bs"
    "gc_step True invalidate (gc, db) = (if bs = [] then Some (False, refilled [] gc, purge_public ?db)
      else Some (True, popped (refilled bs gc), ?db))"
    using gc_step_refill [OF assms(1)] True by blast
  have kept: "kept_blobs ?db = kept_blobs db" "kept_keys ?db = kept_keys db"
    using gc_ok_garbage [OF assms(1,2)] by (auto intro!: kept_swept)
  moreover have "kept_blobs (purge_public ?db) = kept_blobs ?db" "kept_keys (purge_public ?db) = kept_keys ?db"
    by (auto simp: kept_blobs_def kept_keys_def purge_public_def of_unreferenced_def key_ids_def filter_sql_delete
        is_public_garbage_def intro!: filter_cong)
  moreover have "\<exists>r\<in>set (db_blobentry db). br_blob r = snd x \<and> br_subcomponent_type r = KEY_BLOB
         \<and> (br_state r \<noteq> BlobState_Current \<or> of_unreferenced db r)"
    if "x \<in> set (gc_invalidated (popped (refilled bs gc))) - set (gc_invalidated gc)" "bs \<noteq> []" for x
  proof -
    have "snd x = sb_blob (last bs)"
      using popped_invalidated [of x "refilled bs gc"] that by simp
    with refill_entries(2) [OF assms(1) bs(1), of "last bs"] that(2) obtain r where
      r: "r \<in> set (filter is_garbage (db_blobentry ?db))" "br_blob r = snd x"
      by auto
    then show ?thesis
      unfolding swept_garbage by (auto simp: pending_def)
  qed
  ultimately show ?thesis
    using True assms(3) bs(2) by (auto split: if_splits)
next
  case False
  show ?thesis
  proof (cases "boot_completed")
    case True
    with False have ne: "gc_superseded_blobs gc \<noteq> []"
      by simp
    then have gc': "gc' = popped gc" "db' = db"
      using True assms(3) by (simp_all add: gc_step_pop [OF ne])
    have "(sb_blob_id (last (gc_superseded_blobs gc)), sb_blob (last (gc_superseded_blobs gc))) \<in> garbage db"
      using assms(2) last_in_set [OF ne] by (simp add: gc_ok_def subset_iff)
    then obtain r where r: "r \<in> set (db_blobentry db)" "is_garbage r" "br_blob r = sb_blob (last (gc_superseded_blobs gc))"
      by (auto simp: garbage_def)
    then show ?thesis
      unfolding gc' is_garbage_def by (metis popped_invalidated)
  qed (use assms(3) in \<open>simp add: gc_step_def\<close>)
qed

theorem gc_step_safe_witness:
  "\<exists>again gc' db'. gc_step True (\<lambda>_ _. True) (fresh_gc, sample_db) = Some (again, gc', db') \<and>
     kept_blobs db' = kept_blobs sample_db \<and> map br_id (kept_blobs sample_db) = [1, 2]"
proof -
  obtain bs where "gc_step True (\<lambda>_ _. True) (fresh_gc, sample_db) =
      (if bs = [] then Some (False, refilled [] fresh_gc, purge_public (swept (gc_deleted_blob_ids fresh_gc) sample_db))
       else Some (True, popped (refilled bs fresh_gc), swept (gc_deleted_blob_ids fresh_gc) sample_db))"
    by (rule gc_step_refill [OF sample_db_ok, of fresh_gc]) simp
  then have "gc_step True (\<lambda>_ _. True) (fresh_gc, sample_db) \<noteq> None"
    by (cases "bs = []") simp_all
  then obtain again gc' db' where step: "gc_step True (\<lambda>_ _. True) (fresh_gc, sample_db) = Some (again, gc', db')"
    by (metis not_None_eq prod_cases3)
  have "map br_id (kept_blobs sample_db) = [1, 2]"
    by (simp add: kept_blobs_def sample_db_def sample_stored_def of_unreferenced_def key_ids_def is_unreferenced_def
        empty_db_def)
  with gc_step_safe [OF sample_db_ok fresh_gc_ok step] step show ?thesis
    by (intro exI [of _ again] exI [of _ gc'] exI [of _ db']) simp
qed

section \<open>Removal\<close>


lemma sample_parts: "\<forall>r\<in>set (db_keyentry sample_db). \<not> has_unknown_component (kr_id r) sample_db"
  by (simp add: sample_db_def sample_stored_def empty_db_def has_unknown_component_def sub_component_defs)


text \<open>
  C39: Removing the keys of a namespace takes the key entries, and what refers to them, out of the database,
  but leaves their current blobs: the collector that the call wakes comes to rest with the current blobs of
  the live keys of the namespace still stored.
\<close>

theorem namespace_blobs_left:
  assumes "db_ok db" "gc_ok gc db" "domain \<in> {Domain_APP, Domain_SELINUX}"
    and "r \<in> set (db_keyentry db)" "in_namespace domain namespace r" "kr_state r = KeyLifeCycle_Live"
    and "b \<in> set (db_blobentry db)" "br_keyentryid b = kr_id r" "br_state b = BlobState_Current"
  shows "\<exists>db1 gc' db'. unbind_keys_for_namespace domain namespace db = Some (db1, True, Inr ()) \<and>
    r \<notin> set (db_keyentry db1) \<and>
    gc_run invalidate (Suc (gc_load db1 - length (gc_deleted_blob_ids gc))) (gc, db1) = Some (gc', db') \<and>
    b \<in> set (db_blobentry db')"
proof -
  obtain db1 where call: "unbind_keys_for_namespace domain namespace db = Some (db1, True, Inr ())"
    and keys: "db_keyentry db1 = filter (\<lambda>r. \<not> in_namespace domain namespace r) (db_keyentry db)"
    and blobs: "db_blobentry db1 = db_blobentry db"
    using assms(3) by (auto simp: unbind_keys_for_namespace_def with_transaction_def tx_bind_def tx_exec_def
        tx_return_def delete_key_data_def sql_delete_def Let_def)
  have ok: "db_ok db1" "gc_ok gc db1"
    using unbind_keys_for_namespace.call_ok [OF _ assms(1,2) call] by simp_all
  obtain gc' db' where "gc_run invalidate (Suc (gc_load db1 - length (gc_deleted_blob_ids gc))) (gc, db1) = Some (gc', db')"
    "db_blobentry db' = kept_blobs db1"
    using gc_comes_to_rest [OF ok] unfolding collected_def by blast
  moreover have "x = r" if "x \<in> set (db_keyentry db)" "kr_id x = kr_id r" for x
    using distinct_map_eqD [of kr_id "db_keyentry db" x r] keys_distinct [OF assms(1)] that assms(4) by simp
  then have "\<not> of_unreferenced db1 b"
    using assms(5,6,8) by (force simp: of_unreferenced_def keys is_unreferenced_def)
  then have "b \<in> set (kept_blobs db1)"
    using assms(7,9) by (simp add: kept_blobs_def blobs)
  ultimately show ?thesis
    using call keys assms(5) by auto
qed

theorem namespace_blobs_left_witness:
  "\<exists>db1 gc' db'. unbind_keys_for_namespace Domain_APP 10100 sample_db = Some (db1, True, Inr ()) \<and>
     gc_run (\<lambda>_ _. True) (Suc (gc_load db1)) (fresh_gc, db1) = Some (gc', db') \<and> db_blobentry db' \<noteq> []"
proof -
  have "hd (db_keyentry sample_db) \<in> set (db_keyentry sample_db)"
    "in_namespace Domain_APP 10100 (hd (db_keyentry sample_db))" "kr_state (hd (db_keyentry sample_db)) = KeyLifeCycle_Live"
    "hd (db_blobentry sample_db) \<in> set (db_blobentry sample_db)"
    "br_keyentryid (hd (db_blobentry sample_db)) = kr_id (hd (db_keyentry sample_db))"
    "br_state (hd (db_blobentry sample_db)) = BlobState_Current"
    by (simp_all add: sample_db_def sample_stored_def empty_db_def in_namespace_def)
  from namespace_blobs_left [OF sample_db_ok fresh_gc_ok _ this, of "\<lambda>_ _. True"] show ?thesis
    by (fastforce simp del: gc_run.simps)
qed

section \<open>Access\<close>

theorem access_tuple_correct_witness:
  "load_access_tuple \<lparr>kd_domain = Domain_GRANT, kd_nspace = 9, kd_alias = None, kd_blob = None\<rparr> KeyType_Client 10200 sample_db
     = Inr \<lparr>ka_key_id = 5, ka_descriptor = \<lparr>kd_domain = Domain_GRANT, kd_nspace = 9, kd_alias = None, kd_blob = None\<rparr>,
            ka_vector = Some 3\<rparr>"
  by (subst access_tuple_correct [OF sample_db_ok]) (simp add: sample_db_def sample_stored_def)

end
