(* ===== verification/Permission.thy ===== *)
theory Permission
  imports Imei Key_Db_Correct
begin

text \<open>
  Permissions of the daemon (\<^verbatim>\<open>src/src/keymaster/permission.rs\<close> and the classes of \<^verbatim>\<open>src/src/selinux/mod.rs\<close>): the
  permissions on keys with their bit sets, the checks for the use of a key and for a grant, and the callers
  that may speak for others.  The SELinux library is a parameter.  Android permissions are asked of other
  services and are not modelled.
\<close>

section \<open>Text\<close>

definition str_bytes :: "string \<Rightarrow> bytes" where
  "str_bytes s = map (\<lambda>c. word_of_int (of_char c)) s"

definition i64_to_string :: "i64 \<Rightarrow> bytes" where
  "i64_to_string n = (if sint n < 0 then 45 # decimal (nat (- sint n)) else decimal (nat (sint n)))"

definition starts_with :: "bytes \<Rightarrow> bytes \<Rightarrow> bool" where
  "starts_with s p \<longleftrightarrow> take (length p) s = p"

definition strip_prefix :: "bytes \<Rightarrow> bytes \<Rightarrow> bytes option" where
  "strip_prefix s p = (if starts_with s p then Some (drop (length p) s) else None)"

text \<open>What a Rust \<open>str\<close> may hold: the shortest encodings of code points that are not surrogates.\<close>

definition utf8_tail :: "u8 \<Rightarrow> bool" where
  "utf8_tail b \<longleftrightarrow> 0x80 \<le> b \<and> b \<le> 0xBF"

fun valid_utf8 :: "bytes \<Rightarrow> bool" where
  "valid_utf8 [] \<longleftrightarrow> True"
| "valid_utf8 (a # s) \<longleftrightarrow>
     (if a < 0x80 then valid_utf8 s
      else if 0xC2 \<le> a \<and> a \<le> 0xDF then
        (case s of b # s \<Rightarrow> utf8_tail b \<and> valid_utf8 s | _ \<Rightarrow> False)
      else if 0xE0 \<le> a \<and> a \<le> 0xEF then
        (case s of b # c # s \<Rightarrow>
           (if a = 0xE0 then 0xA0 \<le> b \<and> b \<le> 0xBF else if a = 0xED then 0x80 \<le> b \<and> b \<le> 0x9F else utf8_tail b)
           \<and> utf8_tail c \<and> valid_utf8 s
         | _ \<Rightarrow> False)
      else if 0xF0 \<le> a \<and> a \<le> 0xF4 then
        (case s of b # c # d # s \<Rightarrow>
           (if a = 0xF0 then 0x90 \<le> b \<and> b \<le> 0xBF else if a = 0xF4 then 0x80 \<le> b \<and> b \<le> 0x8F else utf8_tail b)
           \<and> utf8_tail c \<and> utf8_tail d \<and> valid_utf8 s
         | _ \<Rightarrow> False)
      else False)"

text \<open>\<open>CString::new\<close> fails on a zero byte.\<close>

definition CString_new :: "bytes \<Rightarrow> bytes option" where
  "CString_new s = (if 0 \<in> set s then None else Some s)"

section \<open>The SELinux library\<close>

datatype AccessResult = Access_Granted | Access_Denied | Access_Failed

text \<open>
  \<open>selinux_check_access\<close> returns 0, sets \<open>EACCES\<close> or fails in another way.  \<open>selabel_lookup\<close> fails (\<open>None\<close>) or gives a
  context that can be null.
\<close>

record Selinux =
  selinux_check_access :: "bytes \<Rightarrow> bytes \<Rightarrow> bytes \<Rightarrow> bytes \<Rightarrow> AccessResult"
  selabel_lookup :: "bytes \<Rightarrow> bytes option option"

definition check_access :: "Selinux \<Rightarrow> bytes \<Rightarrow> bytes \<Rightarrow> bytes \<Rightarrow> bytes \<Rightarrow> DbError + unit" where
  "check_access S source target tclass perm = (case selinux_check_access S source target tclass perm of
     Access_Granted \<Rightarrow> Inr ()
   | Access_Denied \<Rightarrow> Inl (DbError_Selinux SelinuxError_PermissionDenied)
   | Access_Failed \<Rightarrow> Inl DbError_Io)"

definition backend_lookup :: "Selinux \<Rightarrow> bytes \<Rightarrow> DbError + bytes" where
  "backend_lookup S key = (case selabel_lookup S key of
     Some (Some con) \<Rightarrow> Inr con
   | Some None \<Rightarrow> Inl (DbError_Selinux SelinuxError_SystemError)
   | None \<Rightarrow> Inl DbError_Io)"

definition lookup_keystore2_key_context :: "Selinux \<Rightarrow> i64 \<Rightarrow> DbError + bytes" where
  "lookup_keystore2_key_context S namespace = backend_lookup S (i64_to_string namespace)"

definition AOSP_KEYSTORE_TARGET_CONTEXT :: bytes where
  "AOSP_KEYSTORE_TARGET_CONTEXT = str_bytes ''u:r:keystore:s0''"

section \<open>Permission classes\<close>

text \<open>The macro adds \<open>None\<close> to the variants.\<close>

datatype KeyPerm =
    KeyPerm_None
  | KeyPerm_ConvertStorageKeyToEphemeral
  | KeyPerm_Delete
  | KeyPerm_GenUniqueId
  | KeyPerm_GetInfo
  | KeyPerm_Grant
  | KeyPerm_ManageBlob
  | KeyPerm_Rebind
  | KeyPerm_ReqForcedOp
  | KeyPerm_Update
  | KeyPerm_Use
  | KeyPerm_UseDevId

primrec KeyPerm_i32 :: "KeyPerm \<Rightarrow> i32" where
  "KeyPerm_i32 KeyPerm_None = 0"
| "KeyPerm_i32 KeyPerm_ConvertStorageKeyToEphemeral = 0x800"
| "KeyPerm_i32 KeyPerm_Delete = 0x1"
| "KeyPerm_i32 KeyPerm_GenUniqueId = 0x2"
| "KeyPerm_i32 KeyPerm_GetInfo = 0x4"
| "KeyPerm_i32 KeyPerm_Grant = 0x8"
| "KeyPerm_i32 KeyPerm_ManageBlob = 0x10"
| "KeyPerm_i32 KeyPerm_Rebind = 0x20"
| "KeyPerm_i32 KeyPerm_ReqForcedOp = 0x40"
| "KeyPerm_i32 KeyPerm_Update = 0x80"
| "KeyPerm_i32 KeyPerm_Use = 0x100"
| "KeyPerm_i32 KeyPerm_UseDevId = 0x200"

definition KeyPerm_variants :: "KeyPerm list" where
  "KeyPerm_variants = [KeyPerm_ConvertStorageKeyToEphemeral, KeyPerm_Delete, KeyPerm_GenUniqueId, KeyPerm_GetInfo,
     KeyPerm_Grant, KeyPerm_ManageBlob, KeyPerm_Rebind, KeyPerm_ReqForcedOp, KeyPerm_Update, KeyPerm_Use,
     KeyPerm_UseDevId]"

definition KeyPerm_from_i32 :: "i32 \<Rightarrow> KeyPerm" where
  "KeyPerm_from_i32 p = (case List.find (\<lambda>v. KeyPerm_i32 v = p) KeyPerm_variants of Some v \<Rightarrow> v | None \<Rightarrow> KeyPerm_None)"

primrec KeyPerm_name :: "KeyPerm \<Rightarrow> bytes" where
  "KeyPerm_name KeyPerm_None = str_bytes ''none''"
| "KeyPerm_name KeyPerm_ConvertStorageKeyToEphemeral = str_bytes ''convert_storage_key_to_ephemeral''"
| "KeyPerm_name KeyPerm_Delete = str_bytes ''delete''"
| "KeyPerm_name KeyPerm_GenUniqueId = str_bytes ''gen_unique_id''"
| "KeyPerm_name KeyPerm_GetInfo = str_bytes ''get_info''"
| "KeyPerm_name KeyPerm_Grant = str_bytes ''grant''"
| "KeyPerm_name KeyPerm_ManageBlob = str_bytes ''manage_blob''"
| "KeyPerm_name KeyPerm_Rebind = str_bytes ''rebind''"
| "KeyPerm_name KeyPerm_ReqForcedOp = str_bytes ''req_forced_op''"
| "KeyPerm_name KeyPerm_Update = str_bytes ''update''"
| "KeyPerm_name KeyPerm_Use = str_bytes ''use''"
| "KeyPerm_name KeyPerm_UseDevId = str_bytes ''use_dev_id''"

datatype KeystorePerm =
    KeystorePerm_None
  | KeystorePerm_AddAuth
  | KeystorePerm_ClearNs
  | KeystorePerm_List
  | KeystorePerm_Lock
  | KeystorePerm_Reset
  | KeystorePerm_Unlock
  | KeystorePerm_ChangeUser
  | KeystorePerm_ChangePassword
  | KeystorePerm_ClearUID
  | KeystorePerm_GetAuthToken
  | KeystorePerm_EarlyBootEnded
  | KeystorePerm_PullMetrics
  | KeystorePerm_DeleteAllKeys
  | KeystorePerm_GetAttestationKey
  | KeystorePerm_GetLastAuthTime

primrec KeystorePerm_name :: "KeystorePerm \<Rightarrow> bytes" where
  "KeystorePerm_name KeystorePerm_None = str_bytes ''none''"
| "KeystorePerm_name KeystorePerm_AddAuth = str_bytes ''add_auth''"
| "KeystorePerm_name KeystorePerm_ClearNs = str_bytes ''clear_ns''"
| "KeystorePerm_name KeystorePerm_List = str_bytes ''list''"
| "KeystorePerm_name KeystorePerm_Lock = str_bytes ''lock''"
| "KeystorePerm_name KeystorePerm_Reset = str_bytes ''reset''"
| "KeystorePerm_name KeystorePerm_Unlock = str_bytes ''unlock''"
| "KeystorePerm_name KeystorePerm_ChangeUser = str_bytes ''change_user''"
| "KeystorePerm_name KeystorePerm_ChangePassword = str_bytes ''change_password''"
| "KeystorePerm_name KeystorePerm_ClearUID = str_bytes ''clear_uid''"
| "KeystorePerm_name KeystorePerm_GetAuthToken = str_bytes ''get_auth_token''"
| "KeystorePerm_name KeystorePerm_EarlyBootEnded = str_bytes ''early_boot_ended''"
| "KeystorePerm_name KeystorePerm_PullMetrics = str_bytes ''pull_metrics''"
| "KeystorePerm_name KeystorePerm_DeleteAllKeys = str_bytes ''delete_all_keys''"
| "KeystorePerm_name KeystorePerm_GetAttestationKey = str_bytes ''get_attestation_key''"
| "KeystorePerm_name KeystorePerm_GetLastAuthTime = str_bytes ''get_last_auth_time''"

text \<open>\<open>check_permission\<close> for the two classes.\<close>

definition check_key_class :: "Selinux \<Rightarrow> bytes \<Rightarrow> bytes \<Rightarrow> KeyPerm \<Rightarrow> DbError + unit" where
  "check_key_class S source target perm = check_access S source target (str_bytes ''keystore2_key'') (KeyPerm_name perm)"

definition check_keystore_class :: "Selinux \<Rightarrow> bytes \<Rightarrow> bytes \<Rightarrow> KeystorePerm \<Rightarrow> DbError + unit" where
  "check_keystore_class S source target perm = check_access S source target (str_bytes ''keystore2'') (KeystorePerm_name perm)"

section \<open>Sets of permissions\<close>

definition perm_includes :: "i32 \<Rightarrow> i32 \<Rightarrow> bool" where
  "perm_includes self o' \<longleftrightarrow> self AND o' = o'"

text \<open>The iterator, whose position starts at 0 and never passes 32.\<close>

function into_iter_next :: "i32 \<Rightarrow> nat \<Rightarrow> (KeyPerm \<times> nat) option" where
  "into_iter_next vec pos =
     (if pos \<ge> 32 then None
      else
        let p = vec AND push_bit pos 1 in
        if p \<noteq> 0 then Some (KeyPerm_from_i32 p, pos + 1) else into_iter_next vec (pos + 1))"
  by pat_completeness auto
termination by (relation "measure (\<lambda>(vec, pos). 32 - pos)") auto

declare into_iter_next.simps [simp del]

lemma into_iter_next_later: "into_iter_next vec pos = Some (p, pos') \<Longrightarrow> pos < pos' \<and> pos' \<le> 32"
proof (induction vec pos rule: into_iter_next.induct)
  case (1 vec pos)
  then show ?case
    by (subst (asm) into_iter_next.simps) (force simp: Let_def split: if_splits)
qed

text \<open>The loop over a set that ends with the first error.\<close>

function for_each_perm :: "(KeyPerm \<Rightarrow> DbError + unit) \<Rightarrow> i32 \<Rightarrow> nat \<Rightarrow> DbError + unit" where
  "for_each_perm f vec pos = (case into_iter_next vec pos of
     None \<Rightarrow> Inr ()
   | Some (p, pos) \<Rightarrow> res_bind (f p) (\<lambda>_. for_each_perm f vec pos))"
  by pat_completeness auto
termination
  by (relation "measure (\<lambda>(f, vec, pos). 32 - pos)") (auto dest: into_iter_next_later)

declare for_each_perm.simps [simp del]

section \<open>Checks\<close>

definition check_keystore_permission_raw :: "Selinux \<Rightarrow> bytes \<Rightarrow> KeystorePerm \<Rightarrow> DbError + unit" where
  "check_keystore_permission_raw S caller_ctx perm = check_keystore_class S caller_ctx AOSP_KEYSTORE_TARGET_CONTEXT perm"

definition selinux_perm :: "DbError + 'a" where
  "selinux_perm = Inl (DbError_Selinux SelinuxError_PermissionDenied)"

definition check_grant_permission_raw :: "Selinux \<Rightarrow> i64 \<Rightarrow> bytes \<Rightarrow> i32 \<Rightarrow> KeyDescriptor \<Rightarrow> DbError + unit" where
  "check_grant_permission_raw S caller_uid caller_ctx access_vec key =
     res_bind (case kd_domain key of
         Domain_APP \<Rightarrow> if caller_uid \<noteq> kd_nspace key then selinux_perm else Inr AOSP_KEYSTORE_TARGET_CONTEXT
       | Domain_SELINUX \<Rightarrow> lookup_keystore2_key_context S (kd_nspace key)
       | _ \<Rightarrow> db_sys) (\<lambda>target_context.
     res_bind (check_key_class S caller_ctx target_context KeyPerm_Grant) (\<lambda>_.
     if perm_includes access_vec (KeyPerm_i32 KeyPerm_Grant) then selinux_perm
     else for_each_perm (check_key_class S caller_ctx target_context) access_vec 0))"

definition check_key_permission_raw ::
    "Selinux \<Rightarrow> i64 \<Rightarrow> bytes \<Rightarrow> KeyPerm \<Rightarrow> KeyDescriptor \<Rightarrow> i32 option \<Rightarrow> DbError + unit" where
  "check_key_permission_raw S caller_uid caller_ctx perm key access_vector =
     (if (case access_vector of Some v \<Rightarrow> perm_includes v (KeyPerm_i32 perm) | None \<Rightarrow> False) then Inr ()
      else
        res_bind (case kd_domain key of
            Domain_APP \<Rightarrow> if caller_uid \<noteq> kd_nspace key then selinux_perm else Inr AOSP_KEYSTORE_TARGET_CONTEXT
          | Domain_SELINUX \<Rightarrow> lookup_keystore2_key_context S (kd_nspace key)
          | Domain_GRANT \<Rightarrow> (case access_vector of Some _ \<Rightarrow> selinux_perm | None \<Rightarrow> db_sys)
          | Domain_KEY_ID \<Rightarrow> db_sys
          | Domain_BLOB \<Rightarrow>
              res_bind (lookup_keystore2_key_context S (kd_nspace key)) (\<lambda>tctx.
              res_bind (check_key_class S caller_ctx tctx KeyPerm_ManageBlob) (\<lambda>_. Inr tctx)))
          (\<lambda>target_context. check_key_class S caller_ctx target_context perm))"

section \<open>Callers\<close>

record CallerInfo =
  ci_uid :: i64
  ci_sid :: bytes
  ci_pid :: i64

text \<open>What Binder says of the call; a missing label is \<open>None\<close>.\<close>

record CallingContext =
  cc_uid :: u32
  cc_sid :: "bytes option"
  cc_pid :: i32

definition resolve_caller_info :: "CallingContext \<Rightarrow> CallerInfo option \<Rightarrow> CallerInfo" where
  "resolve_caller_info calling ctx = (case ctx of
     Some c \<Rightarrow> c
   | None \<Rightarrow> \<lparr>ci_uid = ucast (cc_uid calling), ci_sid = (case cc_sid calling of Some sid \<Rightarrow> sid | None \<Rightarrow> []),
             ci_pid = scast (cc_pid calling)\<rparr>)"

text \<open>The label of a caller as a C string, and its uid cut to 32 bits.\<close>

definition caller_sid :: "CallerInfo \<Rightarrow> DbError + bytes" where
  "caller_sid caller = ok_or (DbError_Ks KsError_sys) (if ci_sid caller \<noteq> [] then CString_new (ci_sid caller) else None)"

definition caller_app_uid :: "CallerInfo \<Rightarrow> i64" where
  "caller_app_uid caller = ucast (ucast (ci_uid caller) :: u32)"

definition check_keystore_permission ::
    "Selinux \<Rightarrow> CallingContext \<Rightarrow> KeystorePerm \<Rightarrow> CallerInfo option \<Rightarrow> DbError + unit" where
  "check_keystore_permission S calling perm ctx =
     (let caller = resolve_caller_info calling ctx
      in res_bind (caller_sid caller) (\<lambda>sid. check_keystore_permission_raw S sid perm))"

definition check_grant_permission ::
    "Selinux \<Rightarrow> CallingContext \<Rightarrow> i32 \<Rightarrow> KeyDescriptor \<Rightarrow> CallerInfo option \<Rightarrow> DbError + unit" where
  "check_grant_permission S calling access_vec key ctx =
     (let caller = resolve_caller_info calling ctx
      in res_bind (caller_sid caller) (\<lambda>sid. check_grant_permission_raw S (caller_app_uid caller) sid access_vec key))"

definition check_key_permission ::
    "Selinux \<Rightarrow> CallingContext \<Rightarrow> KeyPerm \<Rightarrow> KeyDescriptor \<Rightarrow> i32 option \<Rightarrow> CallerInfo option \<Rightarrow> DbError + unit" where
  "check_key_permission S calling perm key access_vector ctx =
     (let caller = resolve_caller_info calling ctx
      in res_bind (caller_sid caller) (\<lambda>sid.
           check_key_permission_raw S (caller_app_uid caller) sid perm key access_vector))"

section \<open>Callers that speak for others\<close>

definition TRUSTED_ROOT_SERVICE_CONTEXTS :: "bytes list" where
  "TRUSTED_ROOT_SERVICE_CONTEXTS = [str_bytes ''u:r:magisk:s0'', str_bytes ''u:r:ksu:s0'', str_bytes ''u:r:su:s0'']"

definition sid_matches_context :: "bytes \<Rightarrow> bytes \<Rightarrow> bool" where
  "sid_matches_context sid context' \<longleftrightarrow> valid_utf8 sid \<and>
     (sid = context' \<or> (case strip_prefix sid context' of Some s \<Rightarrow> starts_with s (str_bytes '':'') | None \<Rightarrow> False))"

definition trusted_forwarding_sid :: "bytes option \<Rightarrow> bytes \<Rightarrow> bool" where
  "trusted_forwarding_sid runtime_service_context sid \<longleftrightarrow>
     starts_with sid (str_bytes ''u:r:keystore:'')
     \<or> (case runtime_service_context of Some c \<Rightarrow> sid_matches_context sid c | None \<Rightarrow> False)
     \<or> list_ex (sid_matches_context sid) TRUSTED_ROOT_SERVICE_CONTEXTS"

datatype Caller = Caller_Kernel u32 "bytes option" | Caller_Rpc_Local u32 | Caller_Rpc_Other

definition AID_ROOT :: u32 where
  "AID_ROOT = 0"

definition AID_KEYSTORE :: u32 where
  "AID_KEYSTORE = 1017"

definition forwarding_transport_is_trusted :: "bytes option \<Rightarrow> Caller option \<Rightarrow> bool" where
  "forwarding_transport_is_trusted runtime caller = (case caller of
     Some (Caller_Kernel uid sid) \<Rightarrow>
       uid = AID_KEYSTORE \<and> (case sid of Some sid \<Rightarrow> trusted_forwarding_sid runtime sid | None \<Rightarrow> False)
   | Some (Caller_Rpc_Local uid) \<Rightarrow> uid \<in> {AID_ROOT, AID_KEYSTORE}
   | _ \<Rightarrow> False)"

definition ks_perm :: "DbError + 'a" where
  "ks_perm = Inl (DbError_Ks KsError_perm)"

definition check_forwarded_caller_provenance :: "bytes option \<Rightarrow> Caller option \<Rightarrow> DbError + unit" where
  "check_forwarded_caller_provenance runtime caller =
     (if forwarding_transport_is_trusted runtime caller then Inr () else ks_perm)"

definition validate_forwarded_context :: "CallerInfo \<Rightarrow> DbError + unit" where
  "validate_forwarded_context ctx =
     (if sint (ci_uid ctx) < 0 then ks_perm
      else if ci_sid ctx = [] then ks_perm
      else map_ok (\<lambda>_. ()) (ok_or (DbError_Ks KsError_perm) (CString_new (ci_sid ctx))))"

definition check_forwarded_context :: "bytes option \<Rightarrow> Caller option \<Rightarrow> CallerInfo option \<Rightarrow> DbError + unit" where
  "check_forwarded_context runtime caller ctx = (case ctx of
     Some ctx \<Rightarrow> res_bind (validate_forwarded_context ctx) (\<lambda>_. check_forwarded_caller_provenance runtime caller)
   | None \<Rightarrow> Inr ())"

definition require_forwarded_context ::
    "bytes option \<Rightarrow> Caller option \<Rightarrow> CallerInfo option \<Rightarrow> DbError + CallerInfo" where
  "require_forwarded_context runtime caller ctx =
     res_bind (ok_or (DbError_Ks KsError_perm) ctx) (\<lambda>ctx.
     res_bind (validate_forwarded_context ctx) (\<lambda>_.
     res_bind (check_forwarded_caller_provenance runtime caller) (\<lambda>_. Inr ctx)))"

end
