(* ===== verification/Service.thy ===== *)
theory Service
  imports Permission
begin

text \<open>
  The key calls of the Keystore service (\<^verbatim>\<open>src/src/keymaster/service.rs\<close>) and the listing of keys
  (\<^verbatim>\<open>src/src/keymaster/utils.rs\<close>): what the permission checks and the database do together.
\<close>

section \<open>Listing\<close>

definition estimate_step :: "nat \<Rightarrow> KeyDescriptor \<Rightarrow> nat" where
  "estimate_step bytes' kd =
     (let bytes' = bytes' + (4 + 8);
          bytes' = (case kd_alias kd of Some a \<Rightarrow> bytes' + (4 + length a) | None \<Rightarrow> bytes')
      in (case kd_blob kd of Some b \<Rightarrow> bytes' + (4 + length b) | None \<Rightarrow> bytes'))"

fun estimate_safe_amount_to_return :: "nat \<Rightarrow> nat \<Rightarrow> nat \<Rightarrow> KeyDescriptor list \<Rightarrow> nat" where
  "estimate_safe_amount_to_return response_size_limit count bytes' [] = count"
| "estimate_safe_amount_to_return response_size_limit count bytes' (kd # key_descriptors) =
     (let bytes' = estimate_step bytes' kd in
      if bytes' > response_size_limit then count
      else estimate_safe_amount_to_return response_size_limit (count + 1) bytes' key_descriptors)"

definition RESPONSE_SIZE_LIMIT :: nat where
  "RESPONSE_SIZE_LIMIT = 358400"

definition list_key_entries where
  "list_key_entries domain namespace start_past_alias db =
     (case list_past_alias domain namespace KeyType_Client start_past_alias db of
        None \<Rightarrow> None
      | Some (db, need_gc, r) \<Rightarrow>
          Some (db, need_gc, map_ok (\<lambda>key_descriptors.
            take (estimate_safe_amount_to_return RESPONSE_SIZE_LIMIT 0 0 key_descriptors) key_descriptors) r))"

definition count_key_entries where
  "count_key_entries domain namespace db =
     (case count_keys domain namespace KeyType_Client db of
        None \<Rightarrow> None
      | Some (db, need_gc, r) \<Rightarrow> Some (db, need_gc, map_ok (\<lambda>n. of_nat n :: i32) r))"

section \<open>The service\<close>

text \<open>
  What a call depends on: the SELinux library, what Binder says of the call, the label of the daemon itself, and
  the outcome of bringing the security levels up to date.
\<close>

record ServiceEnv =
  sv_selinux :: Selinux
  sv_calling :: CallingContext
  sv_caller :: "Caller option"
  sv_runtime_context :: "bytes option"
  sv_levels :: "DbError + unit"

type_synonym 'a db_result = "(KeystoreDb \<times> bool \<times> (DbError + 'a)) option"

abbreviation refuse :: "DbError \<Rightarrow> KeystoreDb \<Rightarrow> 'a db_result" where
  "refuse e db \<equiv> Some (db, False, Inl e)"

definition db_try :: "DbError + 'a \<Rightarrow> ('a \<Rightarrow> KeystoreDb \<Rightarrow> 'b db_result) \<Rightarrow> KeystoreDb \<Rightarrow> 'b db_result" where
  "db_try r f db = (case r of Inl e \<Rightarrow> refuse e db | Inr a \<Rightarrow> f a db)"

definition calling_uid :: "ServiceEnv \<Rightarrow> CallerInfo option \<Rightarrow> i64" where
  "calling_uid V ctx = (case ctx of Some c \<Rightarrow> ci_uid c | None \<Rightarrow> ucast (cc_uid (sv_calling V)))"

abbreviation key_permission :: "ServiceEnv \<Rightarrow> KeyPerm \<Rightarrow> CallerInfo option \<Rightarrow> KeyDescriptor \<Rightarrow> i32 option \<Rightarrow> DbError + unit" where
  "key_permission V perm ctx k av \<equiv> check_key_permission (sv_selinux V) (sv_calling V) perm k av ctx"

definition service_delete_key :: "ServiceEnv \<Rightarrow> CallerInfo option \<Rightarrow> KeyDescriptor \<Rightarrow> KeystoreDb \<Rightarrow> unit db_result" where
  "service_delete_key V ctx key =
     db_try (sv_levels V) (\<lambda>_.
       unbind_key key KeyType_Client (calling_uid V ctx) (key_permission V KeyPerm_Delete ctx))"

definition service_grant ::
    "ServiceEnv \<Rightarrow> u64 list \<Rightarrow> CallerInfo option \<Rightarrow> KeyDescriptor \<Rightarrow> i32 \<Rightarrow> i32 \<Rightarrow> KeystoreDb \<Rightarrow> KeyDescriptor db_result" where
  "service_grant V draws ctx key grantee_uid access_vector =
     db_try (sv_levels V) (\<lambda>_.
       grant draws key (calling_uid V ctx) (scast grantee_uid) access_vector
         (\<lambda>k av. check_grant_permission (sv_selinux V) (sv_calling V) av k ctx))"

definition service_ungrant :: "ServiceEnv \<Rightarrow> CallerInfo option \<Rightarrow> KeyDescriptor \<Rightarrow> i32 \<Rightarrow> KeystoreDb \<Rightarrow> unit db_result" where
  "service_ungrant V ctx key grantee_uid =
     db_try (sv_levels V) (\<lambda>_.
       ungrant key (calling_uid V ctx) (scast grantee_uid) (\<lambda>k. key_permission V KeyPerm_Grant ctx k None))"

definition get_key_descriptor_for_lookup ::
    "ServiceEnv \<Rightarrow> CallerInfo option \<Rightarrow> Domain \<Rightarrow> i64 \<Rightarrow> DbError + KeyDescriptor" where
  "get_key_descriptor_for_lookup V ctx domain namespace =
     res_bind (sv_levels V) (\<lambda>_.
     res_bind (case domain of
         Domain_APP \<Rightarrow> Inr \<lparr>kd_domain = domain, kd_nspace = calling_uid V ctx, kd_alias = None, kd_blob = None\<rparr>
       | Domain_SELINUX \<Rightarrow> Inr \<lparr>kd_domain = domain, kd_nspace = namespace, kd_alias = None, kd_blob = None\<rparr>
       | _ \<Rightarrow> db_rc ResponseCode_INVALID_ARGUMENT) (\<lambda>k.
     case key_permission V KeyPerm_GetInfo ctx k None of
       Inr _ \<Rightarrow> Inr k
     | Inl e \<Rightarrow>
         if e = DbError_Selinux SelinuxError_PermissionDenied then
           res_bind (check_keystore_permission (sv_selinux V) (sv_calling V) KeystorePerm_List ctx) (\<lambda>_.
           Inr (if namespace \<noteq> -1 then k\<lparr>kd_nspace := namespace\<rparr> else k))
         else Inl e))"

definition list_entries_batched where
  "list_entries_batched V ctx domain namespace start_past_alias =
     db_try (get_key_descriptor_for_lookup V ctx domain namespace) (\<lambda>k.
       list_key_entries (kd_domain k) (kd_nspace k) start_past_alias)"

definition list_entries where
  "list_entries V ctx domain namespace =
     db_try (get_key_descriptor_for_lookup V ctx domain namespace) (\<lambda>k.
       list_key_entries (kd_domain k) (kd_nspace k) None)"

definition count_num_entries where
  "count_num_entries V ctx domain namespace =
     db_try (get_key_descriptor_for_lookup V ctx domain namespace) (\<lambda>k.
       count_key_entries (kd_domain k) (kd_nspace k))"

text \<open>
  Loading a key here is the case in which no other thread holds the lock of the key; \<open>load_key_entry_internal\<close>
  has the other case.
\<close>

definition load_unlocked where
  "load_unlocked key load_bits caller_uid check_permission db =
     load_key_entry_internal key KeyType_Client load_bits caller_uid check_permission {} db db"

definition is_omk_grant :: "ServiceEnv \<Rightarrow> CallerInfo option \<Rightarrow> KeyDescriptor \<Rightarrow> KeystoreDb \<Rightarrow> DbError + bool" where
  "is_omk_grant V ctx grant' db =
     (if kd_domain grant' \<noteq> Domain_GRANT then Inr False
      else (case load_unlocked grant' LOAD_NONE (calling_uid V ctx) (\<lambda>_ _. Inr ()) db of
          Inr _ \<Rightarrow> Inr True
        | Inl e \<Rightarrow> if e = DbError_Ks (KsError_Rc ResponseCode_KEY_NOT_FOUND) then Inr False else Inl e))"

definition update_target :: "i64 \<Rightarrow> KeyDescriptor \<Rightarrow> DbError + KeyDescriptor" where
  "update_target caller_uid key = (case (kd_domain key, kd_alias key) of
     (Domain_APP, Some alias) \<Rightarrow>
       Inr \<lparr>kd_domain = Domain_APP, kd_nspace = caller_uid, kd_alias = Some alias, kd_blob = None\<rparr>
   | (Domain_SELINUX, Some _) \<Rightarrow> Inr key
   | _ \<Rightarrow> db_rc ResponseCode_INVALID_ARGUMENT)"

definition update_subcomponent where
  "update_subcomponent V draws now ctx key public_cert certificate_chain =
     db_try (sv_levels V) (\<lambda>_ db.
       case load_unlocked key LOAD_NONE (calling_uid V ctx) (key_permission V KeyPerm_Update ctx) db of
         Inr (key_id, _) \<Rightarrow>
           (case set_blob key_id CERT public_cert None db of
              Some (db, need_gc, Inr _) \<Rightarrow>
                (case set_blob key_id CERT_CHAIN certificate_chain None db of
                   Some (db, need_gc', r) \<Rightarrow> Some (db, need_gc \<or> need_gc', r)
                 | None \<Rightarrow> None)
            | r \<Rightarrow> r)
       | Inl e \<Rightarrow>
           if e \<noteq> DbError_Ks (KsError_Rc ResponseCode_KEY_NOT_FOUND) then refuse e db
           else (case (public_cert, certificate_chain) of
               (None, Some chain) \<Rightarrow>
                 db_try (update_target (calling_uid V ctx) key) (\<lambda>key.
                 db_try (key_permission V KeyPerm_Rebind ctx key None) (\<lambda>_ db.
                 case store_new_certificate draws now key KeyType_Client chain KEYSTORE_UUID db of
                   Some (db, need_gc, r) \<Rightarrow> Some (db, need_gc, map_ok (\<lambda>_. ()) r)
                 | None \<Rightarrow> None)) db
             | _ \<Rightarrow> refuse (DbError_Ks (KsError_Rc ResponseCode_KEY_NOT_FOUND)) db))"

text \<open>
  The interface for forwarded calls names the caller it speaks for; the interface of the system is called by the
  client itself.
\<close>

definition forwarded :: "ServiceEnv \<Rightarrow> CallerInfo option \<Rightarrow> (CallerInfo option \<Rightarrow> KeystoreDb \<Rightarrow> 'a db_result) \<Rightarrow> KeystoreDb \<Rightarrow> 'a db_result" where
  "forwarded V ctx call =
     db_try (require_forwarded_context (sv_runtime_context V) (sv_caller V) ctx) (\<lambda>ctx. call (Some ctx))"

end
