(* ===== verification/Service_Safety.thy ===== *)
theory Service_Safety
  imports Service
begin

text \<open>
  Who may do what: the permission checks as conditions on the policy, the database and the caller, and the calls of
  the service that rely on them.
\<close>

section \<open>Sets of permissions\<close>

lemma and_power_2: "vec AND 2 ^ i = (if bit vec i then 2 ^ i else (0 :: i32))"
  by (rule bit_word_eqI) (auto simp: bit_simps)

lemma power_2_neq_0: "i < 32 \<Longrightarrow> (2 :: i32) ^ i \<noteq> 0"
  by simp

lemma into_iter_next_step:
  "into_iter_next vec pos =
     (if pos \<ge> 32 then None
      else if bit vec pos then Some (KeyPerm_from_i32 (2 ^ pos), Suc pos)
      else into_iter_next vec (Suc pos))"
  by (subst into_iter_next.simps) (simp add: and_power_2 Let_def)

lemma all_from_pos:
  "pos < n \<Longrightarrow> (\<forall>i. pos \<le> i \<and> i < n \<longrightarrow> Q i) \<longleftrightarrow> Q pos \<and> (\<forall>i. Suc pos \<le> i \<and> i < n \<longrightarrow> Q i)" for n :: nat
  by (metis Suc_leD Suc_leI le_neq_implies_less order_refl)

lemma into_iter_next_None: "into_iter_next vec pos = None \<longleftrightarrow> (\<forall>i. pos \<le> i \<and> i < 32 \<longrightarrow> \<not> bit vec i)"
proof (induction "32 - pos" arbitrary: pos)
  case 0
  then show ?case
    by (subst into_iter_next_step) auto
next
  case (Suc n)
  then have "into_iter_next vec (Suc pos) = None \<longleftrightarrow> (\<forall>i. Suc pos \<le> i \<and> i < 32 \<longrightarrow> \<not> bit vec i)" "pos < 32"
    by simp_all
  then show ?case
    by (subst into_iter_next_step) (simp add: all_from_pos [of pos])
qed

lemma into_iter_next_Some:
  assumes "into_iter_next vec pos = Some (p, pos')"
  shows "\<exists>i. pos \<le> i \<and> i < 32 \<and> bit vec i \<and> p = KeyPerm_from_i32 (2 ^ i) \<and> pos' = Suc i \<and>
    (\<forall>j. pos \<le> j \<and> j < i \<longrightarrow> \<not> bit vec j)"
  using assms
proof (induction "32 - pos" arbitrary: pos)
  case 0
  then show ?case
    by (subst (asm) into_iter_next_step) simp
next
  case (Suc n)
  show ?case
  proof (cases "bit vec pos")
    case True
    with Suc show ?thesis
      by (subst (asm) into_iter_next_step) (auto split: if_splits)
  next
    case False
    with Suc.prems have "into_iter_next vec (Suc pos) = Some (p, pos')"
      by (subst (asm) into_iter_next_step) (simp split: if_splits)
    with Suc.hyps obtain i where "Suc pos \<le> i" "i < 32" "bit vec i" "p = KeyPerm_from_i32 (2 ^ i)" "pos' = Suc i"
      "\<forall>j. Suc pos \<le> j \<and> j < i \<longrightarrow> \<not> bit vec j"
      by force
    with False show ?thesis
      by (intro exI [of _ i]) (metis Suc_leD Suc_leI le_neq_implies_less)
  qed
qed

lemma for_each_perm_iff:
  "for_each_perm f vec pos = Inr () \<longleftrightarrow>
     (\<forall>i. pos \<le> i \<and> i < 32 \<and> bit vec i \<longrightarrow> f (KeyPerm_from_i32 (2 ^ i)) = Inr ())"
proof (induction f vec pos rule: for_each_perm.induct)
  case (1 f vec pos)
  show ?case
  proof (cases "into_iter_next vec pos")
    case None
    then show ?thesis
      using into_iter_next_None [of vec pos] by (subst for_each_perm.simps) auto
  next
    case (Some x)
    then obtain i where i: "x = (KeyPerm_from_i32 (2 ^ i), Suc i)" "pos \<le> i" "i < 32" "bit vec i"
      "\<forall>j. pos \<le> j \<and> j < i \<longrightarrow> \<not> bit vec j"
      using into_iter_next_Some [of vec pos "fst x" "snd x"] by (cases x) auto
    then have "pos \<le> j \<and> j < 32 \<and> bit vec j \<longleftrightarrow> j = i \<or> Suc i \<le> j \<and> j < 32 \<and> bit vec j" for j
      by (cases j i rule: linorder_cases) auto
    then have "(\<forall>j. pos \<le> j \<and> j < 32 \<and> bit vec j \<longrightarrow> P j) \<longleftrightarrow> P i \<and> (\<forall>j. Suc i \<le> j \<and> j < 32 \<and> bit vec j \<longrightarrow> P j)" for P
      by metis
    moreover have "for_each_perm f vec pos = res_bind (f (KeyPerm_from_i32 (2 ^ i))) (\<lambda>_. for_each_perm f vec (Suc i))"
      by (subst for_each_perm.simps) (simp add: Some i(1))
    ultimately show ?thesis
      using 1 [OF Some i(1) [symmetric]] by (simp add: res_bind_Inr_iff)
  qed
qed

lemma KeyPerm_bit:
  assumes "p \<noteq> KeyPerm_None"
  obtains i where "i < 32" "KeyPerm_i32 p = 2 ^ i" "KeyPerm_from_i32 (2 ^ i) = p"
proof -
  define i :: nat where "i = (case p of KeyPerm_Delete \<Rightarrow> 0 | KeyPerm_GenUniqueId \<Rightarrow> 1 | KeyPerm_GetInfo \<Rightarrow> 2 | KeyPerm_Grant \<Rightarrow> 3
    | KeyPerm_ManageBlob \<Rightarrow> 4 | KeyPerm_Rebind \<Rightarrow> 5 | KeyPerm_ReqForcedOp \<Rightarrow> 6 | KeyPerm_Update \<Rightarrow> 7 | KeyPerm_Use \<Rightarrow> 8
    | KeyPerm_UseDevId \<Rightarrow> 9 | _ \<Rightarrow> 11)"
  have "i < 32" "KeyPerm_i32 p = 2 ^ i"
    using assms by (cases p; simp add: i_def)+
  moreover have "KeyPerm_from_i32 (KeyPerm_i32 p) = p"
    by (cases p) (simp_all add: KeyPerm_from_i32_def KeyPerm_variants_def)
  ultimately show ?thesis
    using that by simp
qed

lemma perm_includes_bit: "i < 32 \<Longrightarrow> perm_includes vec (2 ^ i) \<longleftrightarrow> bit vec i"
  by (simp add: perm_includes_def and_power_2)

lemma for_each_perm_named:
  assumes "for_each_perm f vec 0 = Inr ()" "perm_includes vec (KeyPerm_i32 p)" "p \<noteq> KeyPerm_None"
  shows "f p = Inr ()"
  using assms(1,2) by (auto simp: for_each_perm_iff perm_includes_bit intro: KeyPerm_bit [OF assms(3)])

section \<open>The checks\<close>

definition allows :: "Selinux \<Rightarrow> bytes \<Rightarrow> bytes \<Rightarrow> KeyPerm \<Rightarrow> bool" where
  "allows S sid target perm \<longleftrightarrow>
     selinux_check_access S sid target (str_bytes ''keystore2_key'') (KeyPerm_name perm) = Access_Granted"

lemma check_key_class_iff: "check_key_class S sid target perm = Inr () \<longleftrightarrow> allows S sid target perm"
  by (simp add: check_key_class_def check_access_def allows_def split: AccessResult.splits)

text \<open>The context a key is protected by, if the caller is the owner or the key is in an SELinux namespace.\<close>

definition target_of :: "Selinux \<Rightarrow> i64 \<Rightarrow> Domain \<Rightarrow> i64 \<Rightarrow> bytes \<Rightarrow> bool" where
  "target_of S uid domain namespace target \<longleftrightarrow>
     domain = Domain_APP \<and> namespace = uid \<and> target = AOSP_KEYSTORE_TARGET_CONTEXT \<or>
     domain = Domain_SELINUX \<and> selabel_lookup S (i64_to_string namespace) = Some (Some target)"

lemma lookup_iff: "lookup_keystore2_key_context S n = Inr t \<longleftrightarrow> selabel_lookup S (i64_to_string n) = Some (Some t)"
  by (auto simp: lookup_keystore2_key_context_def backend_lookup_def split: option.splits)

lemma check_key_permission_raw_iff:
  assumes "kd_domain key \<noteq> Domain_BLOB"
  shows "check_key_permission_raw S uid sid perm key av = Inr () \<longleftrightarrow>
    (\<exists>v. av = Some v \<and> perm_includes v (KeyPerm_i32 perm)) \<or>
    (\<exists>t. target_of S uid (kd_domain key) (kd_nspace key) t \<and> allows S sid t perm)"
  using assms
  by (cases "kd_domain key")
    (auto simp: check_key_permission_raw_def target_of_def lookup_iff check_key_class_iff res_bind_Inr_iff selinux_perm_def
      split: option.splits)

lemma check_grant_permission_raw_iff:
  "check_grant_permission_raw S uid sid vec key = Inr () \<longleftrightarrow>
    (\<exists>t. target_of S uid (kd_domain key) (kd_nspace key) t \<and> allows S sid t KeyPerm_Grant \<and>
       \<not> perm_includes vec (KeyPerm_i32 KeyPerm_Grant) \<and>
       for_each_perm (check_key_class S sid t) vec 0 = Inr ())"
  by (cases "kd_domain key")
    (auto simp: check_grant_permission_raw_def target_of_def lookup_iff check_key_class_iff res_bind_Inr_iff selinux_perm_def
      split: if_splits)

section \<open>Using a key\<close>

text \<open>What a caller needs for a permission on the key of a row.\<close>

definition policy_allows :: "Selinux \<Rightarrow> CallerInfo \<Rightarrow> KeyPerm \<Rightarrow> KeyEntryRow \<Rightarrow> bool" where
  "policy_allows S c perm r \<longleftrightarrow> (\<exists>sid d n t. caller_sid c = Inr sid \<and> kr_domain r = Some d \<and> kr_namespace r = Some n \<and>
     target_of S (caller_app_uid c) d n t \<and> allows S sid t perm)"

definition grant_allows :: "CallerInfo \<Rightarrow> KeyPerm \<Rightarrow> GrantRow \<Rightarrow> bool" where
  "grant_allows c perm g \<longleftrightarrow> (\<exists>sid. caller_sid c = Inr sid) \<and> perm_includes (gr_access_vector g) (KeyPerm_i32 perm)"

definition may_use :: "Selinux \<Rightarrow> CallerInfo \<Rightarrow> i64 \<Rightarrow> KeyPerm \<Rightarrow> KeyDescriptor \<Rightarrow> KeystoreDb \<Rightarrow> KeyEntryRow \<Rightarrow> bool" where
  "may_use S c uid perm key db r \<longleftrightarrow> (case kd_domain key of
     Domain_APP \<Rightarrow> kr_key_type r = KeyType_Client \<and> kr_domain r = Some Domain_APP \<and> kr_namespace r = Some uid
       \<and> kd_alias key \<noteq> None \<and> kr_alias r = kd_alias key \<and> policy_allows S c perm r
   | Domain_SELINUX \<Rightarrow> kr_key_type r = KeyType_Client \<and> kr_domain r = Some Domain_SELINUX
       \<and> kr_namespace r = Some (kd_nspace key) \<and> kd_alias key \<noteq> None \<and> kr_alias r = kd_alias key
       \<and> policy_allows S c perm r
   | Domain_GRANT \<Rightarrow> (\<exists>g\<in>set (db_grant db). gr_id g = kd_nspace key \<and> gr_grantee g = uid \<and> gr_keyentryid g = kr_id r
       \<and> grant_allows c perm g)
   | Domain_KEY_ID \<Rightarrow> kr_id r = kd_nspace key \<and>
       (policy_allows S c perm r \<or>
        \<not> (kr_domain r = Some Domain_APP \<and> kr_namespace r = Some uid) \<and>
          (\<exists>g\<in>set (db_grant db). gr_grantee g = uid \<and> gr_keyentryid g = kr_id r \<and> grant_allows c perm g))
   | Domain_BLOB \<Rightarrow> False)"

lemma check_key_permission_iff:
  assumes "kd_domain key \<noteq> Domain_BLOB"
  shows "check_key_permission S calling perm key av ctx = Inr () \<longleftrightarrow>
    (\<exists>sid. caller_sid (resolve_caller_info calling ctx) = Inr sid \<and>
      ((\<exists>v. av = Some v \<and> perm_includes v (KeyPerm_i32 perm)) \<or>
       (\<exists>t. target_of S (caller_app_uid (resolve_caller_info calling ctx)) (kd_domain key) (kd_nspace key) t \<and>
          allows S sid t perm)))"
  by (simp add: check_key_permission_def Let_def res_bind_Inr_iff check_key_permission_raw_iff [OF assms])

lemma find_grant:
  assumes "db_ok db"
  shows "List.find (\<lambda>g. gr_grantee g = uid \<and> gr_keyentryid g = k) (db_grant db) = Some g \<longleftrightarrow>
    g \<in> set (db_grant db) \<and> gr_grantee g = uid \<and> gr_keyentryid g = k"
proof
  show "List.find (\<lambda>g. gr_grantee g = uid \<and> gr_keyentryid g = k) (db_grant db) = Some g"
    if g: "g \<in> set (db_grant db) \<and> gr_grantee g = uid \<and> gr_keyentryid g = k"
  proof -
    have "List.find (\<lambda>g. gr_grantee g = uid \<and> gr_keyentryid g = k) (db_grant db) \<noteq> None"
      using g by (auto simp: find_None_iff)
    then obtain g' where g': "List.find (\<lambda>g. gr_grantee g = uid \<and> gr_keyentryid g = k) (db_grant db) = Some g'"
      by blast
    have "g' = g"
      using distinct_map_eqD [of "\<lambda>r. (gr_keyentryid r, gr_grantee r)" "db_grant db" g' g] grants_distinct [OF assms] g
        find_SomeD [OF g'] by simp
    with g' show ?thesis
      by simp
  qed
qed (auto dest: find_SomeD)

lemma live_row:
  assumes "db_ok db" "r \<in> set (db_keyentry db)" "kr_state r = KeyLifeCycle_Live"
  obtains d n where "kr_domain r = Some d" "kr_namespace r = Some n" "d \<in> {Domain_APP, Domain_SELINUX}"
  using assms that by (auto simp: db_ok_def keys_ok_def row_ok_def list_all_iff)

abbreviation live_rows :: "KeystoreDb \<Rightarrow> KeyEntryRow set" where
  "live_rows db \<equiv> {r \<in> set (db_keyentry db). kr_state r = KeyLifeCycle_Live}"

definition key_access :: "ServiceEnv \<Rightarrow> CallerInfo option \<Rightarrow> KeyPerm \<Rightarrow> KeyDescriptor \<Rightarrow> KeystoreDb \<Rightarrow> KeyAccessInfo \<Rightarrow> bool" where
  "key_access V ctx perm key db a \<longleftrightarrow> load_access_tuple key KeyType_Client (calling_uid V ctx) db = Inr a \<and>
     key_permission V perm ctx (ka_descriptor a) (ka_vector a) = Inr ()"

lemma key_access_named:
  assumes "db_ok db" "kd_domain key \<in> {Domain_APP, Domain_SELINUX}"
  shows "(\<exists>a. key_access V ctx perm key db a \<and> ka_key_id a = k) \<longleftrightarrow>
    (\<exists>r\<in>live_rows db. kr_id r = k \<and> may_use (sv_selinux V) (resolve_caller_info (sv_calling V) ctx) (calling_uid V ctx) perm key db r)"
proof -
  define key' where "key' = (if kd_domain key = Domain_APP then key\<lparr>kd_nspace := calling_uid V ctx\<rparr> else key)"
  have key': "kd_domain key' = kd_domain key" "kd_alias key' = kd_alias key" "kd_domain key' \<noteq> Domain_BLOB"
    using assms(2) by (auto simp: key'_def)
  have "load_access_tuple key KeyType_Client (calling_uid V ctx) db =
      map_ok (\<lambda>key_id. \<lparr>ka_key_id = key_id, ka_descriptor = key', ka_vector = None\<rparr>) (load_key_entry_id key' KeyType_Client db)"
    using assms(2) by (auto simp: load_access_tuple_def key'_def Let_def)
  then have "(\<exists>a. key_access V ctx perm key db a \<and> ka_key_id a = k) \<longleftrightarrow>
      load_key_entry_id key' KeyType_Client db = Inr k \<and> key_permission V perm ctx key' None = Inr ()"
    by (auto simp: key_access_def map_ok_Inr_iff)
  also have "\<dots> \<longleftrightarrow> (\<exists>r\<in>live_rows db. kr_id r = k \<and> kr_key_type r = KeyType_Client \<and> kr_domain r = Some (kd_domain key')
      \<and> kr_namespace r = Some (kd_nspace key') \<and> kd_alias key' \<noteq> None \<and> kr_alias r = kd_alias key'
      \<and> policy_allows (sv_selinux V) (resolve_caller_info (sv_calling V) ctx) perm r)"
    by (auto simp: load_client_id [OF assms(1)] check_key_permission_iff [OF key'(3)] policy_allows_def; blast)
  also have "\<dots> \<longleftrightarrow> (\<exists>r\<in>live_rows db. kr_id r = k \<and>
      may_use (sv_selinux V) (resolve_caller_info (sv_calling V) ctx) (calling_uid V ctx) perm key db r)"
    using assms(2) by (auto simp: may_use_def key'_def)
  finally show ?thesis .
qed

lemma key_access_granted:
  assumes "db_ok db" "kd_domain key = Domain_GRANT"
  shows "(\<exists>a. key_access V ctx perm key db a \<and> ka_key_id a = k) \<longleftrightarrow>
    (\<exists>r\<in>live_rows db. kr_id r = k \<and> may_use (sv_selinux V) (resolve_caller_info (sv_calling V) ctx) (calling_uid V ctx) perm key db r)"
proof -
  have "key_permission V perm ctx key (Some v) = Inr () \<longleftrightarrow>
      (\<exists>sid. caller_sid (resolve_caller_info (sv_calling V) ctx) = Inr sid) \<and> perm_includes v (KeyPerm_i32 perm)" for v
    using assms(2) by (subst check_key_permission_iff) (auto simp: target_of_def)
  moreover have "load_access_tuple key KeyType_Client (calling_uid V ctx) db = grant_access key (calling_uid V ctx) db"
    using assms(2) by (simp add: load_access_tuple_def)
  ultimately have "key_access V ctx perm key db a \<and> ka_key_id a = k \<longleftrightarrow>
      (\<exists>r\<in>live_rows db. \<exists>g\<in>set (db_grant db). kr_id r = k \<and> gr_id g = kd_nspace key \<and> gr_grantee g = calling_uid V ctx
        \<and> gr_keyentryid g = kr_id r \<and> grant_allows (resolve_caller_info (sv_calling V) ctx) perm g
        \<and> a = \<lparr>ka_key_id = k, ka_descriptor = key, ka_vector = Some (gr_access_vector g)\<rparr>)" for a
    by (cases a) (auto simp: key_access_def grant_access_iff [OF assms(1)] grant_allows_def; blast)
  then show ?thesis
    using assms(2) by (auto simp: may_use_def)
qed

lemma key_access_by_id:
  assumes "db_ok db" "kd_domain key = Domain_KEY_ID"
  shows "(\<exists>a. key_access V ctx perm key db a \<and> ka_key_id a = k) \<longleftrightarrow>
    (\<exists>r\<in>live_rows db. kr_id r = k \<and> may_use (sv_selinux V) (resolve_caller_info (sv_calling V) ctx) (calling_uid V ctx) perm key db r)"
proof -
  let ?uid = "calling_uid V ctx" and ?c = "resolve_caller_info (sv_calling V) ctx"
  define vec where "vec r = (if kr_domain r = Some Domain_APP \<and> kr_namespace r = Some ?uid then None
      else map_option gr_access_vector (List.find (\<lambda>g. gr_grantee g = ?uid \<and> gr_keyentryid g = kr_id r) (db_grant db)))"
    for r :: KeyEntryRow
  have vec: "(\<exists>v. vec r = Some v \<and> perm_includes v p) \<longleftrightarrow> \<not> (kr_domain r = Some Domain_APP \<and> kr_namespace r = Some ?uid) \<and>
      (\<exists>g\<in>set (db_grant db). gr_grantee g = ?uid \<and> gr_keyentryid g = kr_id r \<and> perm_includes (gr_access_vector g) p)" for r p
    by (auto simp: vec_def find_grant [OF assms(1)])
  have "(\<exists>a. key_access V ctx perm key db a \<and> ka_key_id a = k) \<longleftrightarrow>
      (\<exists>r\<in>live_rows db. \<exists>d n. kr_id r = k \<and> k = kd_nspace key \<and> kr_domain r = Some d \<and> kr_namespace r = Some n \<and>
        key_permission V perm ctx (key\<lparr>kd_domain := d, kd_nspace := n\<rparr>) (vec r) = Inr ())" (is "?l \<longleftrightarrow> ?r")
  proof
    assume ?l
    then show ?r
      using assms(2) by (auto simp: key_access_def load_access_tuple_def key_id_access_iff [OF assms(1)] vec_def)
  next
    assume ?r
    then obtain r d n where r: "r \<in> live_rows db" "kr_id r = k" "k = kd_nspace key" "kr_domain r = Some d" "kr_namespace r = Some n"
      "key_permission V perm ctx (key\<lparr>kd_domain := d, kd_nspace := n\<rparr>) (vec r) = Inr ()"
      by blast
    have "key_id_access key ?uid db = Inr \<lparr>ka_key_id = k, ka_descriptor = key\<lparr>kd_domain := d, kd_nspace := n\<rparr>, ka_vector = vec r\<rparr>"
      unfolding key_id_access_iff [OF assms(1)] using r(1-5) by (intro bexI [of _ r]) (auto simp: vec_def)
    with r(6) assms(2) show ?l
      by (intro exI [of _ "\<lparr>ka_key_id = k, ka_descriptor = key\<lparr>kd_domain := d, kd_nspace := n\<rparr>, ka_vector = vec r\<rparr>"])
        (simp add: key_access_def load_access_tuple_def)
  qed
  also have "\<dots> \<longleftrightarrow> (\<exists>r\<in>live_rows db. kr_id r = k \<and> may_use (sv_selinux V) ?c ?uid perm key db r)"
  proof (rule bex_cong [OF refl])
    fix r
    assume "r \<in> live_rows db"
    then obtain d n where r: "kr_domain r = Some d" "kr_namespace r = Some n" "d \<in> {Domain_APP, Domain_SELINUX}"
      using live_row [OF assms(1)] by (metis (mono_tags, lifting) mem_Collect_eq)
    then have "key_permission V perm ctx (key\<lparr>kd_domain := d, kd_nspace := n\<rparr>) (vec r) = Inr () \<longleftrightarrow>
        (\<exists>sid. caller_sid ?c = Inr sid \<and> ((\<exists>v. vec r = Some v \<and> perm_includes v (KeyPerm_i32 perm)) \<or>
          (\<exists>t. target_of (sv_selinux V) (caller_app_uid ?c) d n t \<and> allows (sv_selinux V) sid t perm)))"
      by (subst check_key_permission_iff) auto
    with r(1,2) show "(\<exists>d n. kr_id r = k \<and> k = kd_nspace key \<and> kr_domain r = Some d \<and> kr_namespace r = Some n \<and>
        key_permission V perm ctx (key\<lparr>kd_domain := d, kd_nspace := n\<rparr>) (vec r) = Inr ()) \<longleftrightarrow>
      kr_id r = k \<and> may_use (sv_selinux V) ?c ?uid perm key db r"
      unfolding vec using assms(2) by (auto simp: may_use_def policy_allows_def grant_allows_def)
  qed
  finally show ?thesis .
qed

lemma key_access_iff:
  assumes "db_ok db"
  shows "(\<exists>a. key_access V ctx perm key db a \<and> ka_key_id a = k) \<longleftrightarrow>
    (\<exists>r\<in>live_rows db. kr_id r = k \<and> may_use (sv_selinux V) (resolve_caller_info (sv_calling V) ctx) (calling_uid V ctx) perm key db r)"
proof (cases "kd_domain key")
  case Domain_BLOB
  then show ?thesis
    by (simp add: key_access_def load_access_tuple_def may_use_def)
qed (simp_all add: key_access_named key_access_granted key_access_by_id assms)

section \<open>Calls of the service\<close>

lemma db_try_Inr [simp]: "db_try (Inr a) f db = f a db"
  by (simp add: db_try_def)

lemma db_try_iff: "db_try r f db = Some (db', gc, Inr x) \<longleftrightarrow> (\<exists>a. r = Inr a \<and> f a db = Some (db', gc, Inr x))"
  by (cases r) (simp_all add: db_try_def)

lemma db_try_call:
  assumes "\<And>a. r = Inr a \<Longrightarrow> db_call args_ok (f a)"
  shows "db_call args_ok (db_try r f)"
proof (cases r)
  case (Inl e)
  then have "db_try r f = refuse e"
    by (simp add: fun_eq_iff db_try_def)
  then show ?thesis
    by (simp add: refused_call)
next
  case (Inr a)
  then have "db_try r f = f a"
    by (simp add: fun_eq_iff)
  with assms [OF Inr] show ?thesis
    by simp
qed

interpretation service_delete_key: db_call True "service_delete_key V ctx key"
  unfolding service_delete_key_def by (intro db_try_call unbind_key.db_call_axioms)

interpretation service_grant: db_call True "service_grant V draws ctx key grantee v"
  unfolding service_grant_def by (intro db_try_call grant.db_call_axioms)

interpretation service_ungrant: db_call True "service_ungrant V ctx key grantee"
  unfolding service_ungrant_def by (intro db_try_call ungrant.db_call_axioms)

lemma unbind_key_Inr:
  "unbind_key key kt uid check db = Some (db', gc, Inr ()) \<longleftrightarrow>
     (\<exists>a. load_access_tuple key kt uid db = Inr a \<and> check (ka_descriptor a) (ka_vector a) = Inr () \<and>
        (gc, db') = remove_key_rows (ka_key_id a) db)"
  by (auto simp: unbind_key_def with_transaction_def tx_bind_def tx_query_def tx_lift_def tx_remove_def tx_return_def
      map_ok_def split: sum.splits prod.splits)


definition sample_service :: "bytes \<Rightarrow> bool \<Rightarrow> u32 \<Rightarrow> ServiceEnv" where
  "sample_service sid allowed uid =
     \<lparr>sv_selinux = \<lparr>selinux_check_access = (\<lambda>_ _ _ _. if allowed then Access_Granted else Access_Denied), selabel_lookup = (\<lambda>_. None)\<rparr>,
      sv_calling = \<lparr>cc_uid = uid, cc_sid = Some sid, cc_pid = 1\<rparr>, sv_caller = None, sv_runtime_context = None, sv_levels = Inr ()\<rparr>"


section \<open>Grants\<close>

lemma grant_Inr:
  "grant draws key uid grantee vec check db = Some (db', gc, Inr d) \<longleftrightarrow>
     (\<exists>a i. load_access_tuple key KeyType_Client uid db = Inr a \<and> check (ka_descriptor a) vec = Inr () \<and>
        grant_tx draws (ka_key_id a) grantee vec db = Some (Inr (i, db')) \<and> \<not> gc \<and>
        d = \<lparr>kd_domain = Domain_GRANT, kd_nspace = i, kd_alias = None, kd_blob = None\<rparr>)"
  by (auto simp: grant_def with_transaction_def tx_bind_def tx_query_def tx_lift_def tx_return_def
      map_ok_def split: sum.splits option.splits prod.splits)

lemma grant_tx_effect:
  assumes "db_ok db" "grant_tx draws k grantee vec db = Some (Inr (i, db'))"
  shows "db' = db\<lparr>db_grant := db_grant db'\<rparr> \<and> set (db_grant db') =
    {g \<in> set (db_grant db). \<not> (gr_keyentryid g = k \<and> gr_grantee g = grantee)} \<union>
    {\<lparr>gr_id = i, gr_grantee = grantee, gr_keyentryid = k, gr_access_vector = vec\<rparr>}"
proof (cases "List.find (\<lambda>r. gr_keyentryid r = k \<and> gr_grantee r = grantee) (db_grant db)")
  case None
  then have "db' = db\<lparr>db_grant := db_grant db @ [\<lparr>gr_id = i, gr_grantee = grantee, gr_keyentryid = k, gr_access_vector = vec\<rparr>]\<rparr>"
    using assms(2) by (simp add: grant_tx_def split: option.splits)
  moreover have "\<forall>g\<in>set (db_grant db). \<not> (gr_keyentryid g = k \<and> gr_grantee g = grantee)"
    using None by (auto simp: find_None_iff)
  ultimately show ?thesis
    by auto
next
  case (Some r)
  have r: "r \<in> set (db_grant db)" "gr_keyentryid r = k" "gr_grantee r = grantee"
    using find_SomeD [OF Some] by simp_all
  have db': "i = gr_id r" "db' = db\<lparr>db_grant := sql_update (\<lambda>x. gr_id x = gr_id r) (gr_access_vector_update (\<lambda>_. vec)) (db_grant db)\<rparr>"
    using assms(2) Some by (auto simp: grant_tx_def)
  have same_id: "gr_id g = gr_id r \<longleftrightarrow> g = r" if "g \<in> set (db_grant db)" for g
    using distinct_map_eqD [of gr_id "db_grant db" g r] grants_distinct [OF assms(1)] that r(1) by auto
  have same_pair: "gr_keyentryid g = k \<and> gr_grantee g = grantee \<longleftrightarrow> g = r" if "g \<in> set (db_grant db)" for g
    using distinct_map_eqD [of "\<lambda>r. (gr_keyentryid r, gr_grantee r)" "db_grant db" g r] grants_distinct [OF assms(1)] that r by auto
  have "(\<lambda>x. if gr_id x = gr_id r then x\<lparr>gr_access_vector := vec\<rparr> else x) ` set (db_grant db) =
      (\<lambda>x. if x = r then r\<lparr>gr_access_vector := vec\<rparr> else x) ` set (db_grant db)"
    by (rule image_cong) (simp_all add: same_id)
  also have "\<dots> = {g \<in> set (db_grant db). g \<noteq> r} \<union> {r\<lparr>gr_access_vector := vec\<rparr>}"
    using r(1) by auto
  also have "{g \<in> set (db_grant db). g \<noteq> r} = {g \<in> set (db_grant db). \<not> (gr_keyentryid g = k \<and> gr_grantee g = grantee)}"
    by (rule Collect_cong) (metis same_pair)
  finally have "(\<lambda>x. if gr_id x = gr_id r then x\<lparr>gr_access_vector := vec\<rparr> else x) ` set (db_grant db) =
      {g \<in> set (db_grant db). \<not> (gr_keyentryid g = k \<and> gr_grantee g = grantee)} \<union> {r\<lparr>gr_access_vector := vec\<rparr>}" .
  moreover have "r\<lparr>gr_access_vector := vec\<rparr> = \<lparr>gr_id = i, gr_grantee = grantee, gr_keyentryid = k, gr_access_vector = vec\<rparr>"
    by (rule GrantRow.equality) (simp_all add: r(2,3) db'(1))
  ultimately show ?thesis
    by (simp add: db'(2) sql_update_def)
qed

text \<open>The descriptor the database hands to a check names the domain and namespace of the key, or the grant.\<close>

lemma access_target:
  assumes "db_ok db" "load_access_tuple key KeyType_Client uid db = Inr a"
    "target_of S u (kd_domain (ka_descriptor a)) (kd_nspace (ka_descriptor a)) t"
  shows "\<exists>r\<in>live_rows db. \<exists>d n. kr_id r = ka_key_id a \<and> kr_domain r = Some d \<and> kr_namespace r = Some n \<and> target_of S u d n t"
  using assms(2,3) unfolding access_tuple_correct [OF assms(1)]
  by (cases "kd_domain key") (auto simp: target_of_def)


lemma sample_grant:
  "service_grant (sample_service [117] True 10100) [12] None sample_key 7 4 sample_db =
     Some (sample_db\<lparr>db_grant := db_grant sample_db @ [\<lparr>gr_id = 12, gr_grantee = 7, gr_keyentryid = 5, gr_access_vector = 4\<rparr>]\<rparr>, False,
       Inr \<lparr>kd_domain = Domain_GRANT, kd_nspace = 12, kd_alias = None, kd_blob = None\<rparr>)"
proof -
  have sel: "check_key_class \<lparr>selinux_check_access = (\<lambda>_ _ _ _. Access_Granted), selabel_lookup = (\<lambda>_. None)\<rparr> s t p = Inr ()" for s t p
    by (simp add: check_key_class_def check_access_def)
  then have "for_each_perm (check_key_class \<lparr>selinux_check_access = (\<lambda>_ _ _ _. Access_Granted), selabel_lookup = (\<lambda>_. None)\<rparr> s t) v 0 = Inr ()" for s t v
    by (simp add: for_each_perm_iff)
  with sel show ?thesis
    by (simp add: service_grant_def sample_service_def grant_def with_transaction_def tx_bind_def tx_query_def tx_lift_def
        tx_return_def load_access_tuple_def load_key_entry_id_def with_rows_extract_one_def sample_key_def sample_db_def
        sample_stored_def calling_uid_def check_grant_permission_def resolve_caller_info_def caller_sid_def CString_new_def
        ok_or_def check_grant_permission_raw_def caller_app_uid_def perm_includes_def grant_tx_def Let_def)
qed


section \<open>Listing\<close>

lemma estimate_ge: "c \<le> estimate_safe_amount_to_return limit c b xs"
proof (induction xs arbitrary: c b)
  case (Cons x xs)
  have "c \<le> estimate_safe_amount_to_return limit (Suc c) (estimate_step b x) xs"
    using Cons [of "Suc c"] Suc_leD by blast
  then show ?case
    by (simp add: Let_def)
qed simp

lemma estimate_take:
  "estimate_safe_amount_to_return limit c b (map (\<lambda>a. \<lparr>kd_domain = d, kd_nspace = n, kd_alias = Some a, kd_blob = None\<rparr>) as) = c + m \<longrightarrow>
     m \<le> length as \<and> (m = 0 \<or> b + (\<Sum>a\<leftarrow>take m as. 16 + length a) \<le> limit) \<and>
     (m = length as \<or> b + (\<Sum>a\<leftarrow>take (Suc m) as. 16 + length a) > limit)"
proof (induction as arbitrary: c b m)
  case (Cons a as)
  show ?case
  proof (cases "b + (16 + length a) > limit")
    case True
    then show ?thesis
      by (auto simp: estimate_step_def Let_def)
  next
    case False
    then have step: "estimate_safe_amount_to_return limit c b
        (map (\<lambda>a. \<lparr>kd_domain = d, kd_nspace = n, kd_alias = Some a, kd_blob = None\<rparr>) (a # as)) =
      estimate_safe_amount_to_return limit (Suc c) (b + (16 + length a))
        (map (\<lambda>a. \<lparr>kd_domain = d, kd_nspace = n, kd_alias = Some a, kd_blob = None\<rparr>) as)"
      by (simp add: estimate_step_def Let_def algebra_simps)
    show ?thesis
    proof (cases m)
      case 0
      then show ?thesis
        unfolding step
        using estimate_ge [of "Suc c" limit "b + (16 + length a)"
            "map (\<lambda>a. \<lparr>kd_domain = d, kd_nspace = n, kd_alias = Some a, kd_blob = None\<rparr>) as"] by simp
    next
      case (Suc m')
      with Cons.IH [of "Suc c" "b + (16 + length a)" m'] False show ?thesis
        unfolding step by (auto simp: algebra_simps)
    qed
  qed
qed auto

definition listed_aliases :: "Domain \<Rightarrow> i64 \<Rightarrow> bytes option \<Rightarrow> KeystoreDb \<Rightarrow> bytes set" where
  "listed_aliases domain namespace start db = {a. \<exists>r\<in>set (db_keyentry db). kr_key_type r = KeyType_Client \<and>
     kr_state r = KeyLifeCycle_Live \<and> kr_domain r = Some domain \<and> kr_namespace r = Some namespace \<and> kr_alias r = Some a \<and>
     (start = None \<or> the start < a)}"

abbreviation descriptor_of :: "Domain \<Rightarrow> i64 \<Rightarrow> bytes \<Rightarrow> KeyDescriptor" where
  "descriptor_of domain namespace a \<equiv> \<lparr>kd_domain = domain, kd_nspace = namespace, kd_alias = Some a, kd_blob = None\<rparr>"

lemma list_past_alias_eq:
  "list_past_alias domain namespace KeyType_Client start db = Some (db, False, Inr
     (map (descriptor_of domain namespace) (take LIST_LIMIT (sorted_list_of_set (listed_aliases domain namespace start db)))))"
proof -
  let ?as = "filter (\<lambda>a. case start of Some s \<Rightarrow> s < a | None \<Rightarrow> True)
      (map (\<lambda>r. the (kr_alias r)) (filter (is_listed domain namespace KeyType_Client) (db_keyentry db)))"
  have "set ?as = listed_aliases domain namespace start db"
    unfolding listed_aliases_def is_listed_def by (cases start; force)
  then have "sort (remdups ?as) = sorted_list_of_set (listed_aliases domain namespace start db)"
    by (metis sorted_list_of_set_sort_remdups)
  then show ?thesis
    by (simp add: list_past_alias_def with_transaction_def tx_query_def Let_def)
qed

lemma set_drop_sorted:
  assumes "sorted xs" "distinct xs" "0 < m" "m \<le> length xs"
  shows "set (drop m xs) = {a \<in> set xs. xs ! (m - 1) < a}"
proof -
  have less: "xs ! i < xs ! j \<longleftrightarrow> i < j" if "i < length xs" "j < length xs" for i j
    using assms(1,2) that by (metis strict_sorted_iff sorted_wrt_nth_less linorder_neqE_nat less_asym' order_less_irrefl)
  have "a \<in> set (drop m xs) \<longleftrightarrow> a \<in> set xs \<and> xs ! (m - 1) < a" for a
  proof
    assume "a \<in> set (drop m xs)"
    then obtain i where "i < length xs - m" "a = xs ! (m + i)"
      by (auto simp: in_set_conv_nth)
    with assms(3,4) less [of "m - 1" "m + i"] show "a \<in> set xs \<and> xs ! (m - 1) < a"
      by simp
  next
    assume a: "a \<in> set xs \<and> xs ! (m - 1) < a"
    then obtain j where j: "j < length xs" "a = xs ! j"
      by (auto simp: in_set_conv_nth)
    with a assms(3,4) have "m - 1 < j"
      using less [of "m - 1" j] by simp
    then have "m \<le> j"
      by simp
    with j show "a \<in> set (drop m xs)"
      by (auto simp: in_set_conv_nth intro!: exI [of _ "j - m"])
  qed
  then show ?thesis
    by auto
qed

text \<open>
  C40: Listing a namespace in pages.  A page holds, in order, the first aliases past the given one; it is as long as the
  limits on the number of keys and on the size of the answer allow.  The keys past the last alias of a page are exactly
  those it left out, so pages that each start past the last alias of the one before list every key once, as long as no
  alias alone exceeds the limit on the size.
\<close>

theorem listing_complete:
  "\<exists>m aliases. aliases = sorted_list_of_set (listed_aliases domain namespace start db) \<and>
    m \<le> min 10000 (length aliases) \<and>
    list_key_entries domain namespace start db = Some (db, False, Inr (map (descriptor_of domain namespace) (take m aliases))) \<and>
    (\<Sum>a\<leftarrow>take m aliases. 16 + length a) \<le> 358400 \<and>
    (m = min 10000 (length aliases) \<or> (\<Sum>a\<leftarrow>take (Suc m) aliases. 16 + length a) > 358400) \<and>
    (m = 0 \<or> listed_aliases domain namespace (Some (aliases ! (m - 1))) db = set (drop m aliases))"
proof -
  let ?A = "listed_aliases domain namespace start db"
  define aliases where "aliases = sorted_list_of_set ?A"
  have "listed_aliases domain namespace start db \<subseteq> (\<lambda>r. the (kr_alias r)) ` set (db_keyentry db)"
    by (force simp: listed_aliases_def)
  then have fin: "finite ?A"
    by (rule finite_subset) simp
  define m where "m = estimate_safe_amount_to_return RESPONSE_SIZE_LIMIT 0 0 (map (descriptor_of domain namespace) (take LIST_LIMIT aliases))"
  have m: "m \<le> length (take LIST_LIMIT aliases)" "m = 0 \<or> (\<Sum>a\<leftarrow>take m (take LIST_LIMIT aliases). 16 + length a) \<le> RESPONSE_SIZE_LIMIT"
    "m = length (take LIST_LIMIT aliases) \<or> (\<Sum>a\<leftarrow>take (Suc m) (take LIST_LIMIT aliases). 16 + length a) > RESPONSE_SIZE_LIMIT"
    using mp [OF estimate_take [of RESPONSE_SIZE_LIMIT 0 0 domain namespace "take LIST_LIMIT aliases" m], unfolded add_0, OF m_def [symmetric]]
    by blast+
  have "list_key_entries domain namespace start db = Some (db, False, Inr (map (descriptor_of domain namespace) (take m aliases)))"
    using m(1) by (simp add: list_key_entries_def list_past_alias_eq take_map min.absorb1 flip: aliases_def m_def)
  moreover have "listed_aliases domain namespace (Some (aliases ! (m - 1))) db = set (drop m aliases)" if "0 < m"
  proof -
    have "aliases ! (m - 1) \<in> ?A"
      using m(1) that fin by (metis aliases_def length_take min.boundedE nth_mem set_sorted_list_of_set Suc_diff_1 Suc_le_eq)
    then have "listed_aliases domain namespace (Some (aliases ! (m - 1))) db = {a \<in> ?A. aliases ! (m - 1) < a}"
      by (auto simp: listed_aliases_def)
    also have "\<dots> = set (drop m aliases)"
      using set_drop_sorted [of aliases m] that m(1) fin by (simp add: aliases_def)
    finally show ?thesis .
  qed
  moreover have le: "m \<le> min 10000 (length aliases)"
    using m(1) by (simp add: LIST_LIMIT_def)
  moreover have "(\<Sum>a\<leftarrow>take m aliases. 16 + length a) \<le> 358400"
    using m(2) le by (auto simp: LIST_LIMIT_def RESPONSE_SIZE_LIMIT_def min.absorb1)
  moreover have "m = min 10000 (length aliases) \<or> (\<Sum>a\<leftarrow>take (Suc m) aliases. 16 + length a) > 358400"
  proof (cases "m = min 10000 (length aliases)")
    case False
    with le have "Suc m \<le> 10000" "m \<noteq> length (take LIST_LIMIT aliases)"
      by (auto simp: LIST_LIMIT_def)
    with m(3) show ?thesis
      by (simp add: LIST_LIMIT_def RESPONSE_SIZE_LIMIT_def min.absorb1)
  qed simp
  ultimately show ?thesis
    by (intro exI [of _ m] exI [of _ aliases]) (cases "m = 0"; simp add: aliases_def)
qed

end
