(* ===== verification/Spec2Isabelle.thy ===== *)
theory Spec2Isabelle
  imports Prelude Keymint_Types Cbor_Wire Tag_Info Tag_Legacy Tag_Params Key_Material Key_Params Imei
    Keystore_Params Key_Usage Auth_Tokens Enforcement Operation Operation_Safety Crypto_Traits Sdd Keyblob
    Ta_Begin Ta_State Ta_Secrets Ta_Blobs Ta_Operation Ta_Operation_Safety Ta_Requests Ta_Keys
    Db_Tables Key_Db Key_Db_Admin Key_Db_Safety Key_Db_Invariant Key_Db_Calls Key_Db_Gc Key_Db_Load Key_Db_Usage
    Key_Db_Access Key_Db_Removal Key_Db_Correct
    Permission Service Service_Safety
begin

text \<open>
  A verification development for OhMyKeymint, a software implementation of Android's KeyMint and of the
  Keystore daemon in Rust.

  \<^bold>\<open>The program.\<close>  A client calls the daemon (\<^verbatim>\<open>src/src/keymaster\<close>) with a key descriptor.  The daemon looks the
  key up in its database, checks its own policies (authentication, usage limits, device lock), and passes
  the call with the encrypted key blob to the KeyMint trusted application (\<^verbatim>\<open>src/ta\<close>), which decrypts the
  blob, checks the parameters against the characteristics of the key and runs the cryptographic operation.
  \<^verbatim>\<open>src/common\<close> holds what both need of tags, key material and key blobs, \<^verbatim>\<open>src/wire\<close> the types of the
  interface and their CBOR encoding, \<^verbatim>\<open>src/boringssl\<close> the binding to the cryptographic library and
  \<^verbatim>\<open>src/derive\<close> the macros that generate encoders.

  \<^bold>\<open>The theories\<close>, in the order in which they build on one another.

  \<^item> \<open>Prelude\<close>: machine integers as words, \<open>Result\<close> as a sum with \<open>res_bind\<close> for the question mark
    operator, loops that return early as \<open>res_fold\<close>, byte encodings, C-like enums by their discriminants.
  \<^item> \<open>Keymint_Types\<close>, \<open>Cbor_Wire\<close>: the enums, parameters and errors of \<^verbatim>\<open>wire/src/keymint.rs\<close> and their
    conversion to CBOR items; what is written can be read back, and exactly which items are accepted.
  \<^item> \<open>Tag_Info\<close>, \<open>Tag_Params\<close>, \<open>Tag_Legacy\<close>, \<open>Key_Material\<close>, \<open>Key_Params\<close>, \<open>Imei\<close>: \<^verbatim>\<open>common/src/tag.rs\<close>, its
    submodules and the key types: the tag table, lookup and validation of parameters, the characteristics
    of a new or imported key, the legacy serialization, and the derivation of a second IMEI.
  \<^item> \<open>Keystore_Params\<close>, \<open>Key_Usage\<close>, \<open>Auth_Tokens\<close>, \<open>Enforcement\<close>: the daemon's key parameters and their forms
    in the database and in the interface, reservations of limited-use keys, the store of auth tokens and
    the deferred authorization of operations, and the policies of \<open>authorize_create\<close>
    (\<^verbatim>\<open>src/src/keymaster/enforcements.rs\<close>).
  \<^item> \<open>Operation\<close>, \<open>Operation_Safety\<close>: operations of the daemon, their slots and pruning
    (\<^verbatim>\<open>src/src/keymaster/operation.rs\<close>), and a step relation in which create calls, client calls, drops and
    pruning interleave.
  \<^item> \<open>Crypto_Traits\<close>, \<open>Sdd\<close>, \<open>Keyblob\<close>: the cryptographic traits with the key derivation functions, secure
    deletion secrets in memory and in a file (\<^verbatim>\<open>src/src/keymint/sdd.rs\<close>), and key blobs
    (\<^verbatim>\<open>common/src/keyblob.rs\<close>).
  \<^item> \<open>Ta_Begin\<close>, \<open>Ta_State\<close>, \<open>Ta_Secrets\<close>, \<open>Ta_Blobs\<close>, \<open>Ta_Operation\<close>, \<open>Ta_Operation_Safety\<close>, \<open>Ta_Requests\<close>: the
    trusted application: parameter checks of \<open>begin\<close>, the state and its configuration, the device HMAC and the
    negotiation of its key, opening, upgrading and counting uses of key blobs, operations, and the dispatch of
    requests, with an invariant of the state under every sequence of them.
  \<^item> \<open>Db_Tables\<close>, \<open>Key_Db\<close>, \<open>Key_Db_Admin\<close>: the key database (\<^verbatim>\<open>src/src/keymaster/db.rs\<close>) as a record of its tables,
    transactions with rollback, every call that changes it, and the steps of the garbage collector
    (\<^verbatim>\<open>src/src/keymaster/gc.rs\<close>).
  \<^item> \<open>Key_Db_Safety\<close>, \<open>Key_Db_Invariant\<close>, \<open>Key_Db_Calls\<close>: rules for invariants of transactions, the
    invariant \<open>db_ok\<close> of the tables, and the interface \<open>db_call\<close> (keeps the invariant, keeps what the collector
    has loaded, changes nothing on an error), interpreted on each of the seventeen calls that change state.
  \<^item> \<open>Key_Db_Gc\<close>, \<open>Key_Db_Load\<close>, \<open>Key_Db_Usage\<close>, \<open>Key_Db_Access\<close>, \<open>Key_Db_Removal\<close>, \<open>Key_Db_Correct\<close>: what runs of the collector
    achieve and a step relation of clients and collector, the round trip of a stored key, the use counters as
    an implementation of the store of \<open>Key_Usage\<close>, access by descriptor, removal of many keys, and the
    theorems that follow.
  \<^item> \<open>Ta_Keys\<close>: the upgrade of a key blob to the patch levels of the device (\<open>upgrade_key\<close> of \<^verbatim>\<open>ta/src/keys.rs\<close>).
  \<^item> \<open>Permission\<close>, \<open>Service\<close>, \<open>Service_Safety\<close>: the permission classes and checks of
    \<^verbatim>\<open>src/src/keymaster/permission.rs\<close> over an SELinux policy that is a parameter, the calls of the Keystore
    service that delete, grant and list keys (\<^verbatim>\<open>src/src/keymaster/service.rs\<close>, \<^verbatim>\<open>utils.rs\<close>), and who can make them.

  \<^bold>\<open>How the code is modelled.\<close>  A Rust function is a function on the same arguments.  A method that changes
  \<open>self\<close> takes the state last and returns it.  \<open>Result<T, E>\<close> is a sum with the error on the left; each error
  code is kept, messages are not.  A call that can panic has type \<open>option\<close> and is \<open>None\<close> when it panics; a loop
  that may not end is a \<open>partial_function (option)\<close>.  Integers keep their width where the code relies on it
  and wrap around as they do in a release build.  Traits are records of functions, and code of other
  packages (BoringSSL, ciborium, coset, prost, SQLite) and of the device is a parameter; what a theorem
  needs of it is one of its hypotheses, and the witness of the theorem gives an instance.  Allocation never
  fails and logging is left out.  Two loops are given a number of steps: the collector runs until it has nothing
  to do, and one step more than there are key blobs to collect is shown to be enough; random ids and handles
  come from a list of draws, and a loop that finds none unused in it has not returned.

  \<^bold>\<open>What is shown.\<close>  The properties are the theorems whose text starts with a claim number.  The most
  important are: the invariant of the trusted application under any requests; that a key blob opens to what
  was sealed in it, and never again once its secret is deleted; that data is processed only with the
  authentication and the policies the key demands; that a limited key is used no more often than allowed,
  in the daemon across all interleavings and in the trusted application per boot; that the key database stays
  consistent whatever clients and the collector do, that a stored key is found as stored, that callers reach
  only their keys and what was granted to them, and that garbage and nothing else is collected; exactly who can
  delete a key or grant it, that a grant never gives more than the grantor has, and that the pages of a listing
  make up the whole list; that an upgraded key opens to the same key at the current patch levels; that exactly the
  authorized parameters are accepted; that parties agree on the shared secret and on the root of trust; and
  that each encoding used can be read back.  The interfaces between components are locales (a tracker of seen
  tags, a secret manager, a store of use counts, a call of the database, a safe call of the trusted application
  and others), each interpreted on the model.

  \<^bold>\<open>Not modelled.\<close>  Statements of SQL are modelled by their effect on the tables; the upgrade of the database
  from its first version and its use by several processes are not.  The remaining parts of the trusted
  application make certificates and keys and answer remote provisioning (\<^verbatim>\<open>ta/src/cert.rs\<close>, \<^verbatim>\<open>ta/src/keys.rs\<close>
  apart from the upgrade, \<^verbatim>\<open>ta/src/rkp.rs\<close>).  Of the services of the daemon, the ones that generate keys, keep the
  super keys and serve maintenance are left out, with the checks of Android permissions they make; the state
  they change is in the database, the enforcements and the operations.  The rest of the repository is
  input and output around this core: Binder services, hooking of other processes (\<^verbatim>\<open>src/injector\<close>), system
  properties, configuration files, logging, and the bindings to BoringSSL, whose functions are parameters.
\<close>

section \<open>Limited keys in the daemon and its database\<close>

text \<open>
  C14: With the counters of the database: in every interleaving of reservations, commits that take a use off the
  counter (or fail), drops and deletions of keys, the uses made of a key and the uses left never exceed the
  limit it had, and the live reservations of a key never exceed the uses it has left.
\<close>

theorem database_uses_bounded:
  assumes "usage_reachable db_count db_consume db0 w"
  shows "w_used w k + dbu.remaining (w_db w) k \<le> dbu.remaining db0 k \<and>
    (dbu.remaining (w_db w) k = 0 \<or> live_reservations w k \<le> dbu.remaining (w_db w) k)"
  using dbu.reachable_inv [OF assms] by (simp add: dbu.usage_inv_def dbu.key_ok_def)

lemma sample_count: "db_count sample_db 5 = Inr 2"
  by (simp add: db_count_def key_usage_count_internal_def sample_db_def sample_stored_def empty_db_def is_live_def
      is_usage_row_def sql_get_i32_def fits_i32_def)

lemma sample_consume: "\<exists>db'. db_consume 5 sample_db = (db', Inr ())"
  by (simp add: db_consume_def db_check_and_update_key_usage_count_def with_transaction_def tx_bind_def tx_query_def
      tx_return_def db_check_and_update_key_usage_count_internal_def key_usage_count_internal_def sample_db_def
      sample_stored_def empty_db_def is_live_def is_usage_row_def sql_get_i32_def fits_i32_def sql_count_def
      positive_cell_def Let_def)

theorem database_uses_bounded_witness:
  "\<exists>w. usage_reachable db_count db_consume sample_db w \<and> w_used w 5 = 1 \<and> dbu.remaining sample_db 5 = 2 \<and>
     w_used w 5 + dbu.remaining (w_db w) 5 \<le> 2"
proof -
  obtain db' where db': "db_consume 5 sample_db = (db', Inr ())"
    using sample_consume by blast
  let ?w = "\<lparr>w_in_flight = [5 \<mapsto> 1], w_db = sample_db, w_handles = [0 \<mapsto> Some 5], w_used = \<lambda>_. 0\<rparr>"
  have "reserve Map.empty 5 (db_count sample_db 5) = ([5 \<mapsto> 1], Inr (Some 5))"
    by (simp add: sample_count reserve_def)
  then have "usage_step db_count db_consume (usage_init sample_db) ?w"
    using usage_step.step_reserve [of "usage_init sample_db" 5 db_count "[5 \<mapsto> 1]" "Some 5" 0]
    by (simp add: usage_init_def)
  then have "usage_reachable db_count db_consume sample_db ?w"
    by (rule reach_step [OF reach_init])
  moreover have "commit (Some 5) [5 \<mapsto> 1] sample_db db_consume = (None, Map.empty, db', Inr ())"
    by (simp add: commit_def db' remove_slot_def)
  then have "usage_step db_count db_consume ?w (?w\<lparr>w_in_flight := Map.empty, w_db := db',
      w_handles := (w_handles ?w)(0 \<mapsto> None), w_used := (w_used ?w)(5 := 1)\<rparr>)"
    using usage_step.step_commit [of ?w 0 "Some 5" db_consume db_consume] by simp
  ultimately have "usage_reachable db_count db_consume sample_db (?w\<lparr>w_in_flight := Map.empty, w_db := db',
      w_handles := (w_handles ?w)(0 \<mapsto> None), w_used := (w_used ?w)(5 := 1)\<rparr>)"
    by (rule reach_step)
  then obtain w where w: "usage_reachable db_count db_consume sample_db w" "w_used w 5 = 1"
    by force
  have "dbu.remaining sample_db 5 = 2"
    by (simp add: dbu.remaining_def sample_count)
  with w database_uses_bounded [OF w(1), of 5] show ?thesis
    by auto
qed

end
